(* ===== verification/Prelude.thy ===== *)
theory Prelude
  imports Main "HOL-Library.Word"
begin

text \<open>
  Shared ground of the development: the fact collections the components fill, Go's integer
  widths, the outcome type of fallible Go code, and the generic lemmas on lists and maps that
  several components use.

  \<^item> \<open>go_int\<close> values are HOL integers; \<open>wrap32\<close> and \<open>wrap64\<close> write out the two's complement
    wrap-around of \<open>int32\<close> and \<open>int\<close>/\<open>int64\<close> arithmetic.
  \<^item> \<open>outcome\<close> is the result of a Go call: a value, an error value, or a panic.
  \<^item> a Go map that may be nil is an \<open>option\<close> of a HOL map; \<open>gm_get\<close> reads it (a nil map reads
    as empty) and \<open>gm_put\<close> writes it (a nil map panics).
\<close>

named_theorems go_lib \<open>equations of the modelled standard library\<close>
named_theorems inv_intros \<open>preservation lemmas of component invariants\<close>

section \<open>Integer widths\<close>

type_synonym go_int = int

definition wrap64 :: "int \<Rightarrow> int" where
  "wrap64 x = (x + 2 ^ 63) mod 2 ^ 64 - 2 ^ 63"

definition wrap32 :: "int \<Rightarrow> int" where
  "wrap32 x = (x + 2 ^ 31) mod 2 ^ 32 - 2 ^ 31"

abbreviation max_int64 :: int where
  "max_int64 \<equiv> 9223372036854775807"

abbreviation min_int64 :: int where
  "min_int64 \<equiv> - 9223372036854775808"

definition in_int64 :: "int \<Rightarrow> bool" where
  "in_int64 x \<longleftrightarrow> min_int64 \<le> x \<and> x \<le> max_int64"

lemma wrap64_id: "in_int64 x \<Longrightarrow> wrap64 x = x"
  by (simp add: wrap64_def in_int64_def)

lemma wrap64_in_range [simp]: "in_int64 (wrap64 x)"
proof -
  have "0 \<le> (x + 2 ^ 63) mod 2 ^ 64" "(x + 2 ^ 63) mod 2 ^ 64 < (2 ^ 64 :: int)"
    by simp_all
  then show ?thesis unfolding wrap64_def in_int64_def by simp
qed

lemma wrap64_add_left [simp]: "wrap64 (wrap64 x + y) = wrap64 (x + y)"
proof -
  have "wrap64 x + y + 2 ^ 63 = (x + 2 ^ 63) mod 2 ^ 64 + y"
    by (simp add: wrap64_def)
  then have "(wrap64 x + y + 2 ^ 63) mod 2 ^ 64 = (x + 2 ^ 63 + y) mod 2 ^ 64"
    by (metis mod_add_left_eq)
  then show ?thesis by (simp add: wrap64_def algebra_simps)
qed

lemma wrap64_diff_left [simp]: "wrap64 (wrap64 x - y) = wrap64 (x - y)"
  using wrap64_add_left [of x "- y"] by simp

lemma wrap64_add_right [simp]: "wrap64 (x + wrap64 y) = wrap64 (x + y)"
  using wrap64_add_left [of y x] by (simp add: add.commute)

lemma wrap32_id: "- (2 ^ 31) \<le> x \<Longrightarrow> x < 2 ^ 31 \<Longrightarrow> wrap32 x = x"
  by (simp add: wrap32_def)

section \<open>Outcomes of Go calls\<close>

text \<open>A call returns a value, returns an error, or panics. \<open>obind\<close> is sequencing with the early
  return on error that \<open>if err != nil { return err }\<close> spells out.\<close>

datatype ('e, 'a) outcome = Ok 'a | Err 'e | Panic string

fun obind :: "('e, 'a) outcome \<Rightarrow> ('a \<Rightarrow> ('e, 'b) outcome) \<Rightarrow> ('e, 'b) outcome" where
  "obind (Ok x) f = f x"
| "obind (Err e) f = Err e"
| "obind (Panic p) f = Panic p"

fun is_ok :: "('e, 'a) outcome \<Rightarrow> bool" where
  "is_ok (Ok _) = True"
| "is_ok _ = False"

fun is_panic :: "('e, 'a) outcome \<Rightarrow> bool" where
  "is_panic (Panic _) = True"
| "is_panic _ = False"

lemma obind_eq_Ok [simp]: "obind m f = Ok y \<longleftrightarrow> (\<exists>x. m = Ok x \<and> f x = Ok y)"
  by (cases m) auto

lemma obind_Ok_right [simp]: "obind m Ok = m"
  by (cases m) auto

lemma obind_assoc: "obind (obind m f) g = obind m (\<lambda>x. obind (f x) g)"
  by (cases m) auto

text \<open>A \<open>for range\<close> loop whose body may return an error: the accumulator is threaded, the first
  error stops the loop.\<close>

fun ofold :: "('a \<Rightarrow> 's \<Rightarrow> ('e, 's) outcome) \<Rightarrow> 'a list \<Rightarrow> 's \<Rightarrow> ('e, 's) outcome" where
  "ofold f [] s = Ok s"
| "ofold f (x # xs) s = obind (f x s) (ofold f xs)"

lemma ofold_append: "ofold f (xs @ ys) s = obind (ofold f xs s) (ofold f ys)"
proof (induction xs arbitrary: s)
  case (Cons x xs)
  then have "ofold f (xs @ ys) = (\<lambda>s. obind (ofold f xs s) (ofold f ys))"
    by blast
  then show ?case by (simp add: obind_assoc)
qed simp

lemma ofold_invariant:
  assumes "ofold f xs s = Ok t" and "P s"
    and "\<And>x a b. x \<in> set xs \<Longrightarrow> P a \<Longrightarrow> f x a = Ok b \<Longrightarrow> P b"
  shows "P t"
  using assms by (induction xs arbitrary: s) auto

section \<open>Go maps that may be nil\<close>

type_synonym ('k, 'v) gomap = "('k \<rightharpoonup> 'v) option"

definition gm_get :: "('k, 'v) gomap \<Rightarrow> 'k \<Rightarrow> 'v option" where
  "gm_get m k = (case m of None \<Rightarrow> None | Some f \<Rightarrow> f k)"

definition gm_put :: "('k, 'v) gomap \<Rightarrow> 'k \<Rightarrow> 'v \<Rightarrow> ('e, ('k, 'v) gomap) outcome" where
  "gm_put m k v = (case m of None \<Rightarrow> Panic ''assignment to entry in nil map''
                   | Some f \<Rightarrow> Ok (Some (f(k \<mapsto> v))))"

text \<open>\<open>if m == nil { m = map{} }\<close>\<close>

definition gm_make :: "('k, 'v) gomap \<Rightarrow> ('k, 'v) gomap" where
  "gm_make m = (case m of None \<Rightarrow> Some Map.empty | Some f \<Rightarrow> Some f)"

lemma gm_get_simps [simp]: "gm_get None k = None" "gm_get (Some f) k = f k"
  by (simp_all add: gm_get_def)

lemma gm_make_simps [simp]: "gm_make None = Some Map.empty" "gm_make (Some f) = Some f"
  by (simp_all add: gm_make_def)

lemma gm_put_simps [simp]:
  "gm_put None k v = Panic ''assignment to entry in nil map''"
  "gm_put (Some f) k v = Ok (Some (f(k \<mapsto> v)))"
  by (simp_all add: gm_put_def)

lemma gm_get_make [simp]: "gm_get (gm_make m) k = gm_get m k"
  by (cases m) auto

lemma gm_make_neq_None [simp]: "gm_make m \<noteq> None"
  by (cases m) auto

section \<open>Lists\<close>

lemma distinct_map_filter_neq:
  "distinct (map f xs) \<Longrightarrow> x \<in> set xs \<Longrightarrow> distinct (map f (filter (\<lambda>y. y \<noteq> x) xs))"
  by (simp add: distinct_map_filter)

lemma sum_list_filter_remove:
  fixes f :: "'a \<Rightarrow> int"
  assumes "distinct xs" "x \<in> set xs"
  shows "(\<Sum>y\<leftarrow>filter (\<lambda>y. y \<noteq> x) xs. f y) = (\<Sum>y\<leftarrow>xs. f y) - f x"
  using assms
proof (induction xs)
  case (Cons a xs)
  show ?case
  proof (cases "a = x")
    case True
    with Cons.prems have "filter (\<lambda>y. y \<noteq> x) xs = xs"
      by (auto simp: filter_id_conv)
    with True show ?thesis by simp
  next
    case False
    with Cons show ?thesis by auto
  qed
qed simp

lemma filter_neq_notin [simp]: "x \<notin> set xs \<Longrightarrow> filter (\<lambda>y. y \<noteq> x) xs = xs"
  by (auto simp: filter_id_conv)

lemma length_filter_neq_less: "x \<in> set xs \<Longrightarrow> length (filter (\<lambda>y. y \<noteq> x) xs) < length xs"
  by (metis (mono_tags, lifting) length_filter_less)

lemma find_Some_in_set: "List.find P xs = Some x \<Longrightarrow> x \<in> set xs \<and> P x"
  by (auto simp: find_Some_iff in_set_conv_nth)

section \<open>Lengths of binary numbers\<close>

fun bit_length :: "nat \<Rightarrow> nat" where
  "bit_length n = (if n = 0 then 0 else Suc (bit_length (n div 2)))"

declare bit_length.simps [simp del]

lemma bit_length_le: "n < 2 ^ j \<Longrightarrow> bit_length n \<le> j"
proof (induction j arbitrary: n)
  case 0
  then show ?case by (simp add: bit_length.simps)
next
  case (Suc j)
  then have "n div 2 < 2 ^ j" by (simp add: less_mult_imp_div_less mult.commute)
  then show ?case using Suc.IH [of "n div 2"] by (subst bit_length.simps) simp
qed

end
