(* ===== verification/Bounded_Stack.thy ===== *)
theory Bounded_Stack
  imports Prelude
begin

text \<open>
  \<open>src/pkg/util/boundedstack/boundedstack.go\<close>: a stack of bounded size over a ring buffer, with a
  channel of wake-up tokens for its receivers.

  The sequential part (\<open>New\<close>, \<open>push\<close>, \<open>pop\<close>) is stated against the contract \<open>bounded_lifo\<close>: the
  contents are a list, newest first, and a push onto a full stack drops the oldest element. The
  concurrent part is a step relation over the buffer and the token channel in which \<open>Push\<close> and
  \<open>Recv\<close> are interleaved at the points where the code releases the mutex; its invariant shows that
  no pushed element is left behind without a token to wake a receiver.
\<close>

section \<open>The ring buffer\<close>

record 'a stack =
  buffer :: "'a list"
  bs_top :: nat
  bs_size :: nat

datatype new_error = CapacityNotPositive

definition New :: "'a \<Rightarrow> int \<Rightarrow> new_error + 'a stack" where
  "New zero capacity =
     (if capacity \<le> 0 then Inl CapacityNotPositive
      else Inr \<lparr>buffer = replicate (nat capacity) zero, bs_top = 0, bs_size = 0\<rparr>)"

definition push :: "'a \<Rightarrow> 'a stack \<Rightarrow> 'a stack" where
  "push item s =
     (let n = length (buffer s); t = (bs_top s + 1) mod n
      in s\<lparr>bs_top := t, buffer := (buffer s)[t := item], bs_size := min (bs_size s + 1) n\<rparr>)"

definition pop :: "'a \<Rightarrow> 'a stack \<Rightarrow> ('a \<times> bool) \<times> 'a stack" where
  "pop zero c =
     (if bs_size c = 0 then ((zero, False), c)
      else let n = length (buffer c); item = buffer c ! bs_top c
           in ((item, True),
               c\<lparr>buffer := (buffer c)[bs_top c := zero],
                 bs_top := (bs_top c + n - 1) mod n,
                 bs_size := bs_size c - 1\<rparr>))"

section \<open>The contract\<close>

text \<open>What a client relies on: a list of at most \<open>cap\<close> elements, newest first.\<close>

locale bounded_lifo =
  fixes cap :: "'s \<Rightarrow> nat"
    and invar :: "'s \<Rightarrow> bool"
    and items :: "'s \<Rightarrow> 'a list"
    and psh :: "'a \<Rightarrow> 's \<Rightarrow> 's"
    and pp :: "'s \<Rightarrow> ('a \<times> bool) \<times> 's"
  assumes invar_cap: "invar s \<Longrightarrow> 0 < cap s"
    and items_bound: "invar s \<Longrightarrow> length (items s) \<le> cap s"
    and invar_psh: "invar s \<Longrightarrow> invar (psh x s)"
    and cap_psh: "invar s \<Longrightarrow> cap (psh x s) = cap s"
    and items_psh: "invar s \<Longrightarrow> items (psh x s) = take (cap s) (x # items s)"
    and invar_pp: "invar s \<Longrightarrow> invar (snd (pp s))"
    and cap_pp: "invar s \<Longrightarrow> cap (snd (pp s)) = cap s"
    and pp_empty: "invar s \<Longrightarrow> items s = [] \<Longrightarrow> snd (fst (pp s)) = False \<and> snd (pp s) = s"
    and pp_item: "invar s \<Longrightarrow> items s = y # ys \<Longrightarrow> fst (pp s) = (y, True) \<and> items (snd (pp s)) = ys"
begin

text \<open>A run of pushes keeps the newest \<open>cap\<close> elements, newest first.\<close>

lemma fold_psh:
  "invar s \<Longrightarrow> invar (fold psh xs s) \<and> cap (fold psh xs s) = cap s \<and>
   items (fold psh xs s) = take (cap s) (rev xs @ items s)"
proof (induction xs arbitrary: s)
  case Nil
  then show ?case using items_bound by simp
next
  case (Cons x xs)
  then have "items (fold psh xs (psh x s)) = take (cap s) (rev xs @ take (cap s) (x # items s))"
    by (simp add: invar_psh cap_psh items_psh)
  also have "\<dots> = take (cap s) (rev xs @ x # items s)"
    by (simp add: take_append min_def)
  finally show ?case using Cons by (simp add: invar_psh cap_psh)
qed

text \<open>A pop after a push gives the pushed element back.\<close>

lemma pp_psh: "invar s \<Longrightarrow> fst (pp (psh x s)) = (x, True)"
  using pp_item [of "psh x s" x "take (cap s - 1) (items s)"] invar_psh [of s x] items_psh [of s x]
    invar_cap [of s] by (simp add: take_Cons')

text \<open>Draining: \<open>n\<close> pops return the \<open>n\<close> newest elements in order.\<close>

fun drain :: "nat \<Rightarrow> 's \<Rightarrow> 'a list \<times> 's" where
  "drain 0 s = ([], s)"
| "drain (Suc n) s =
     (case pp s of ((x, ok), s') \<Rightarrow>
        if ok then (case drain n s' of (xs, s'') \<Rightarrow> (x # xs, s'')) else ([], s'))"

lemma drain_items: "invar s \<Longrightarrow> fst (drain n s) = take n (items s)"
proof (induction n arbitrary: s)
  case (Suc n)
  show ?case
  proof (cases "items s")
    case Nil
    obtain a b s' where p: "pp s = ((a, b), s')" by (metis surj_pair)
    with Suc.prems Nil show ?thesis using pp_empty [of s] by simp
  next
    case (Cons y ys)
    then obtain s' where p: "pp s = ((y, True), s')" "items s' = ys"
      using pp_item [OF Suc.prems Cons] by (metis prod.collapse)
    moreover have "invar s'" using invar_pp [OF Suc.prems] p by simp
    ultimately show ?thesis using Suc.IH [of s'] Cons by (simp add: case_prod_beta)
  qed
qed simp

end

section \<open>The ring buffer meets the contract\<close>

definition stack_inv :: "'a stack \<Rightarrow> bool" where
  "stack_inv s \<longleftrightarrow> 0 < length (buffer s) \<and> bs_top s < length (buffer s) \<and> bs_size s \<le> length (buffer s)"

abbreviation ring :: "'a list \<Rightarrow> nat \<Rightarrow> nat \<Rightarrow> 'a" where
  "ring b t i \<equiv> b ! ((t + length b - i) mod length b)"

definition stack_items :: "'a stack \<Rightarrow> 'a list" where
  "stack_items s = map (ring (buffer s) (bs_top s)) [0..<bs_size s]"

lemma length_stack_items [simp]: "length (stack_items s) = bs_size s"
  by (simp add: stack_items_def)

lemma stack_inv_New: "New zero n = Inr s \<Longrightarrow> stack_inv s \<and> stack_items s = []"
  by (auto simp: New_def stack_inv_def stack_items_def split: if_splits)

lemma stack_inv_push [inv_intros]: "stack_inv s \<Longrightarrow> stack_inv (push x s)"
  by (simp add: stack_inv_def push_def Let_def)

lemma ring_back:
  fixes t n i :: nat
  assumes "t < n" "0 < i" "i < n"
  shows "((t + 1) mod n + n - i) mod n = (t + n - (i - 1)) mod n"
proof -
  have "(t + 1) mod n + n - i = (t + 1) mod n + (n - i)"
    using assms(3) by linarith
  then have "((t + 1) mod n + n - i) mod n = ((t + 1) mod n + (n - i)) mod n"
    by (rule arg_cong)
  also have "\<dots> = (t + 1 + (n - i)) mod n"
    by (simp add: mod_add_left_eq)
  also have "t + 1 + (n - i) = t + n - (i - 1)"
    using assms by simp
  finally show ?thesis .
qed

lemma ring_neq:
  assumes "t < n" "0 < i" "i < n"
  shows "(t + n - i) mod n \<noteq> (t::nat)"
proof (cases "i \<le> t")
  case True
  then have "t + n - i = t - i + n" using assms by linarith
  then have "(t + n - i) mod n = (t - i) mod n" by (metis mod_add_self2)
  with assms True show ?thesis by simp
next
  case False
  then have "t + n - i < n" using assms by simp
  with assms show ?thesis by simp
qed

lemma nth_stack_items: "i < bs_size s \<Longrightarrow> stack_items s ! i = ring (buffer s) (bs_top s) i"
  by (simp add: stack_items_def)

lemma stack_items_push:
  assumes "stack_inv s"
  shows "stack_items (push x s) = take (length (buffer s)) (x # stack_items s)"
proof (rule nth_equalityI)
  show "length (stack_items (push x s)) = length (take (length (buffer s)) (x # stack_items s))"
    by (simp add: push_def Let_def)
next
  fix i assume i: "i < length (stack_items (push x s))"
  let ?n = "length (buffer s)" and ?t = "(bs_top s + 1) mod length (buffer s)"
  have t: "?t < ?n" and n: "i < ?n" and sz: "i < bs_size s + 1"
    using assms i by (auto simp: stack_inv_def push_def Let_def)
  have lhs: "stack_items (push x s) ! i = (buffer s)[?t := x] ! ((?t + ?n - i) mod ?n)"
    using i by (simp add: nth_stack_items push_def Let_def)
  show "stack_items (push x s) ! i = take ?n (x # stack_items s) ! i"
  proof (cases i)
    case 0
    with lhs t n show ?thesis by simp
  next
    case (Suc j)
    then have "(?t + ?n - i) mod ?n \<noteq> ?t" using t n by (intro ring_neq) auto
    then have "stack_items (push x s) ! i = buffer s ! ((?t + ?n - i) mod ?n)"
      using lhs by simp
    also have "(?t + ?n - i) mod ?n = (bs_top s + ?n - j) mod ?n"
      using ring_back [of "bs_top s" ?n i] assms Suc n by (simp add: stack_inv_def)
    finally show ?thesis using Suc n sz by (simp add: nth_stack_items)
  qed
qed

lemma stack_inv_pop [inv_intros]: "stack_inv s \<Longrightarrow> stack_inv (snd (pop zero s))"
  by (auto simp: stack_inv_def pop_def Let_def)

lemma pop_tail:
  assumes "stack_inv s" "0 < bs_size s"
  shows "stack_items (snd (pop zero s)) = tl (stack_items s)"
proof (rule nth_equalityI)
  show "length (stack_items (snd (pop zero s))) = length (tl (stack_items s))"
    using assms by (simp add: pop_def Let_def)
next
  fix i assume i: "i < length (stack_items (snd (pop zero s)))"
  let ?n = "length (buffer s)" and ?t = "(bs_top s + length (buffer s) - 1) mod length (buffer s)"
  have i': "Suc i < bs_size s" "Suc i < ?n" and t: "bs_top s < ?n"
    using assms i by (auto simp: pop_def Let_def stack_inv_def)
  have idx: "(?t + ?n - i) mod ?n = (bs_top s + ?n - Suc i) mod ?n"
  proof -
    have "(?t + ?n - i) mod ?n = (?t + (?n - i)) mod ?n" using i' by simp
    also have "\<dots> = (bs_top s + ?n - 1 + (?n - i)) mod ?n" by (simp add: mod_add_left_eq)
    also have "bs_top s + ?n - 1 + (?n - i) = (bs_top s + ?n - Suc i) + ?n" using i' by simp
    finally show ?thesis by simp
  qed
  have "stack_items (snd (pop zero s)) ! i = (buffer s)[bs_top s := zero] ! ((?t + ?n - i) mod ?n)"
    using i assms by (simp add: nth_stack_items pop_def Let_def)
  also have "\<dots> = buffer s ! ((bs_top s + ?n - Suc i) mod ?n)"
    using idx ring_neq [OF t, of "Suc i"] i' by simp
  also have "\<dots> = tl (stack_items s) ! i"
    using i' by (simp add: nth_tl nth_stack_items)
  finally show "stack_items (snd (pop zero s)) ! i = tl (stack_items s) ! i" .
qed

lemma pop_head:
  assumes "stack_inv s" "0 < bs_size s"
  shows "fst (pop zero s) = (hd (stack_items s), True)"
proof -
  have "hd (stack_items s) = stack_items s ! 0"
    using assms by (metis hd_conv_nth length_0_conv length_stack_items less_numeral_extra(3))
  with assms show ?thesis
    by (simp add: pop_def Let_def nth_stack_items stack_inv_def)
qed

lemma stack_items_Nil [simp]: "stack_items s = [] \<longleftrightarrow> bs_size s = 0"
  by (metis length_0_conv length_stack_items)

lemma length_buffer_push [simp]: "length (buffer (push x s)) = length (buffer s)"
  by (simp add: push_def Let_def)

lemma length_buffer_pop [simp]: "length (buffer (snd (pop zero s))) = length (buffer s)"
  by (simp add: pop_def Let_def)

lemma pop_empty: "bs_size s = 0 \<Longrightarrow> pop zero s = ((zero, False), s)"
  by (simp add: pop_def)

interpretation bs: bounded_lifo "\<lambda>s. length (buffer s)" stack_inv stack_items push "pop zero" for zero
proof (unfold_locales, goal_cases)
  case (9 s y ys)
  then have "0 < bs_size s" by (metis length_greater_0_conv length_stack_items list.distinct(1))
  with 9 show ?case using pop_head [of s zero] pop_tail [of s zero] by simp
qed (simp_all add: stack_items_push stack_inv_push stack_inv_pop pop_empty, simp_all add: stack_inv_def)

section \<open>Goroutines and wake-up tokens\<close>

text \<open>
  \<open>Push\<close> runs \<open>push\<close> under the mutex and then, outside it, offers a token to the channel
  \<open>recvNotify\<close> (capacity: that of the stack), dropping the token when the channel is full. \<open>Recv\<close>
  waits for a token, then runs \<open>pop\<close>, and goes back to waiting when the pop found nothing.
  \<open>pushing\<close> counts goroutines between \<open>push\<close> and the token, \<open>popping\<close> those between taking a token
  and \<open>pop\<close>. The scheduler may pick any enabled step.
\<close>

record 'a chan_stack =
  stk :: "'a stack"
  tokens :: nat
  pushing :: nat
  popping :: nat

inductive bs_step :: "'a \<Rightarrow> 'a chan_stack \<Rightarrow> 'a chan_stack \<Rightarrow> bool" for zero where
  Push_push: "bs_step zero c (c\<lparr>stk := push item (stk c), pushing := pushing c + 1\<rparr>)"
| Push_notify: "0 < pushing c \<Longrightarrow> tokens c < length (buffer (stk c)) \<Longrightarrow>
    bs_step zero c (c\<lparr>tokens := tokens c + 1, pushing := pushing c - 1\<rparr>)"
| Push_full: "0 < pushing c \<Longrightarrow> tokens c = length (buffer (stk c)) \<Longrightarrow>
    bs_step zero c (c\<lparr>pushing := pushing c - 1\<rparr>)"
| Recv_token: "0 < tokens c \<Longrightarrow>
    bs_step zero c (c\<lparr>tokens := tokens c - 1, popping := popping c + 1\<rparr>)"
| Recv_pop: "0 < popping c \<Longrightarrow>
    bs_step zero c (c\<lparr>stk := snd (pop zero (stk c)), popping := popping c - 1\<rparr>)"

inductive bs_reach :: "'a \<Rightarrow> int \<Rightarrow> 'a chan_stack \<Rightarrow> bool" for zero capacity where
  init: "New zero capacity = Inr s \<Longrightarrow>
    bs_reach zero capacity \<lparr>stk = s, tokens = 0, pushing = 0, popping = 0\<rparr>"
| step: "bs_reach zero capacity c \<Longrightarrow> bs_step zero c d \<Longrightarrow> bs_reach zero capacity d"

definition token_inv :: "'a chan_stack \<Rightarrow> bool" where
  "token_inv c \<longleftrightarrow> stack_inv (stk c) \<and> tokens c \<le> length (buffer (stk c)) \<and>
     bs_size (stk c) \<le> tokens c + pushing c + popping c"

lemma bs_size_push: "bs_size (push x s) \<le> bs_size s + 1"
  by (simp add: push_def Let_def)

lemma bs_size_pop: "bs_size (snd (pop zero s)) = bs_size s - 1"
  by (simp add: pop_def Let_def)

lemma bs_step_inv [inv_intros]: "bs_step zero c d \<Longrightarrow> token_inv c \<Longrightarrow> token_inv d"
proof (induction rule: bs_step.induct)
  case (Push_push c item)
  then show ?case using bs_size_push [of item "stk c"] by (auto simp: token_inv_def stack_inv_push)
next
  case (Push_full c)
  then show ?case by (auto simp: token_inv_def stack_inv_def)
next
  case (Recv_pop c)
  then show ?case by (auto simp: token_inv_def stack_inv_pop bs_size_pop)
qed (auto simp: token_inv_def)

lemma bs_reach_inv: "bs_reach zero capacity c \<Longrightarrow> token_inv c"
proof (induction rule: bs_reach.induct)
  case (init s)
  then show ?case using stack_inv_New [OF init] by (auto simp: token_inv_def New_def split: if_splits)
qed (blast intro: bs_step_inv)

section \<open>Properties\<close>

text \<open>C36: the ring buffer implements a bounded last-in-first-out stack: after any sequence of pushes
  onto a new stack of capacity \<open>n\<close>, popping until empty returns the \<open>n\<close> most recently pushed elements
  (all of them when fewer were pushed), newest first.\<close>

theorem push_pop_lifo:
  assumes "New zero n = Inr s"
  shows "stack_items (fold push xs s) = take (nat n) (rev xs) \<and>
    fst (bs.drain zero k (fold push xs s)) = take k (take (nat n) (rev xs))"
proof -
  have inv: "stack_inv s" "stack_items s = []" using stack_inv_New [OF assms] by simp_all
  have len: "length (buffer s) = nat n" using assms by (auto simp: New_def split: if_splits)
  have "stack_inv (fold push xs s) \<and> stack_items (fold push xs s) = take (nat n) (rev xs)"
    using bs.fold_psh [OF inv(1), of xs] inv(2) len by simp
  then show ?thesis using bs.drain_items [of "fold push xs s" zero k] by simp
qed

theorem push_pop_lifo_witness:
  "\<exists>s. New (0::int) 2 = Inr s \<and> stack_items (fold push [1, 2, 3] s) = [3, 2]"
proof -
  obtain s where s: "New (0::int) 2 = Inr s" by (simp add: New_def)
  then show ?thesis using push_pop_lifo [OF s, of "[1, 2, 3]"] by auto
qed

text \<open>C37: no lost wake-up: in every state the goroutines of \<open>Push\<close> and \<open>Recv\<close> can reach, if elements
  are on the stack and no goroutine is between its two atomic parts, a token is in the channel, so a
  waiting \<open>Recv\<close> can take it, and its pop returns the newest element.\<close>

theorem no_lost_wakeup:
  assumes "bs_reach zero capacity c" and "stack_items (stk c) \<noteq> []"
    and "pushing c = 0" and "popping c = 0"
  shows "\<exists>d. bs_step zero c d \<and> popping d = 1 \<and> stk d = stk c \<and>
    fst (pop zero (stk d)) = (hd (stack_items (stk c)), True)"
proof -
  have inv: "token_inv c" using assms(1) by (rule bs_reach_inv)
  then have tok: "0 < tokens c" and sz: "0 < bs_size (stk c)"
    using assms(2-4) by (auto simp: token_inv_def)
  have "fst (pop zero (stk c)) = (hd (stack_items (stk c)), True)"
    using inv sz by (simp add: pop_head token_inv_def)
  then show ?thesis using bs_step.Recv_token [OF tok, of zero] assms(4) by fastforce
qed

lemma bs_reach_example:
  "bs_reach (0::int) 1 \<lparr>stk = \<lparr>buffer = [7], bs_top = 0, bs_size = 1\<rparr>, tokens = 1, pushing = 0, popping = 0\<rparr>"
proof -
  let ?c0 = "\<lparr>stk = \<lparr>buffer = [0::int], bs_top = 0, bs_size = 0\<rparr>, tokens = 0, pushing = 0, popping = 0\<rparr>"
  let ?c1 = "\<lparr>stk = \<lparr>buffer = [7::int], bs_top = 0, bs_size = 1\<rparr>, tokens = 0, pushing = 1, popping = 0\<rparr>"
  have r0: "bs_reach (0::int) 1 ?c0"
    by (rule bs_reach.init) (simp add: New_def)
  have "bs_step 0 ?c0 ?c1"
    using bs_step.Push_push [of 0 ?c0 7] by (simp add: push_def)
  with r0 have r1: "bs_reach 0 1 ?c1" by (rule bs_reach.step)
  show ?thesis
    by (rule bs_reach.step [OF r1]) (use bs_step.Push_notify [of ?c1 0] in simp)
qed

theorem no_lost_wakeup_witness:
  "\<exists>d. bs_step (0::int)
         \<lparr>stk = \<lparr>buffer = [7], bs_top = 0, bs_size = 1\<rparr>, tokens = 1, pushing = 0, popping = 0\<rparr> d \<and>
       popping d = 1"
  using no_lost_wakeup [OF bs_reach_example] by (force simp: stack_items_def)

end
