(* ===== verification/Lru_Cache.thy ===== *)
theory Lru_Cache
  imports Prelude
begin

text \<open>
  \<open>src/pkg/util/lru/lru.go\<close>: a size-bounded cache that evicts its least recently used entries.

  List elements are pointers into the store \<open>elems\<close>; \<open>evictList\<close> holds them in most-recently-used
  order and \<open>items\<close> indexes them by the primary hash of their key, with one bucket per hash. A key is
  known to the cache by its two hashes only; the hash functions are parameters. \<open>onEvict\<close> is
  recorded as the list of calls it receives, sizes are 64-bit integers. The eviction loop of \<open>Add\<close>
  is a \<open>partial_function\<close>; that it ends is part of the contract \<open>mru_cache\<close>, which the cache is
  shown to implement.
\<close>

section \<open>State\<close>

datatype EvictionReason = SizeEviction | ManualEviction | ConflictEviction

record 'v entry =
  e_key :: "64 word"
  e_conflictKey :: "64 word"
  e_value :: 'v

record 'v config =
  cfg_SizeFn :: "('v \<Rightarrow> int) option"
  cfg_OnEvict :: bool
  cfg_MaxSize :: int
  cfg_UpdateInPlace :: bool

record 'v lru =
  sizeFn :: "'v \<Rightarrow> int"
  elems :: "'v entry list"
  evictList :: "nat list"
  items :: "64 word \<rightharpoonup> nat list"
  onEvict :: bool
  maxSize :: int
  currentSize :: int
  updateInPlace :: bool
  evicted :: "('v \<times> EvictionReason) list"

datatype lru_error = SizeNotPositive | SizeFnRequired

definition NewLRU :: "'v config \<Rightarrow> lru_error + 'v lru" where
  "NewLRU config =
     (if cfg_MaxSize config \<le> 0 then Inl SizeNotPositive
      else case cfg_SizeFn config of
        None \<Rightarrow> Inl SizeFnRequired
      | Some f \<Rightarrow> Inr \<lparr>sizeFn = f, elems = [], evictList = [], items = Map.empty,
          onEvict = cfg_OnEvict config, maxSize = cfg_MaxSize config, currentSize = 0,
          updateInPlace = cfg_UpdateInPlace config, evicted = []\<rparr>)"

text \<open>The two hashes of a key: \<open>runtime.memhash\<close> and \<open>xxhash\<close>, which are not code of this
  repository.\<close>

type_synonym hashes = "string \<Rightarrow> 64 word \<times> 64 word"

definition keyHash :: "hashes \<Rightarrow> string \<Rightarrow> 64 word \<times> 64 word \<times> bool" where
  "keyHash h k = (fst (h k), snd (h k), True)"

section \<open>Internal operations\<close>

definition lookupItem :: "'v lru \<Rightarrow> 64 word \<Rightarrow> 64 word \<Rightarrow> nat option" where
  "lookupItem c key conflictKey =
     (case items c key of
        None \<Rightarrow> None
      | Some entries \<Rightarrow> List.find (\<lambda>p. e_conflictKey (elems c ! p) = conflictKey) entries)"

definition addItem :: "64 word \<Rightarrow> 64 word \<Rightarrow> 'v \<Rightarrow> int \<Rightarrow> bool \<Rightarrow> 'v lru \<Rightarrow> 'v lru" where
  "addItem key conflictKey value sz front c =
     (let kv = \<lparr>e_key = key, e_conflictKey = conflictKey, e_value = value\<rparr>;
          element = length (elems c);
          bucket = (case items c key of None \<Rightarrow> [] | Some es \<Rightarrow> es)
      in c\<lparr>elems := elems c @ [kv],
           evictList := (if front then element # evictList c else evictList c @ [element]),
           items := (items c)(key \<mapsto> bucket @ [element]),
           currentSize := wrap64 (currentSize c + sz)\<rparr>)"

fun index_where :: "('a \<Rightarrow> bool) \<Rightarrow> 'a list \<Rightarrow> nat option" where
  "index_where P [] = None"
| "index_where P (x # xs) = (if P x then Some 0 else map_option Suc (index_where P xs))"

definition removeItem :: "64 word \<Rightarrow> 64 word \<Rightarrow> 'v lru \<Rightarrow> 'v lru" where
  "removeItem key conflictKey c =
     (case items c key of
        None \<Rightarrow> c
      | Some entries \<Rightarrow>
          (case index_where (\<lambda>p. e_conflictKey (elems c ! p) = conflictKey) entries of
             None \<Rightarrow> c
           | Some deleteIndex \<Rightarrow>
               if length entries = 1 then c\<lparr>items := (items c)(key := None)\<rparr>
               else c\<lparr>items := (items c)(key \<mapsto> butlast (entries[deleteIndex := last entries]))\<rparr>))"

definition removeElement :: "nat \<Rightarrow> EvictionReason \<Rightarrow> 'v lru \<Rightarrow> 'v lru" where
  "removeElement e reason c =
     (let kv = elems c ! e;
          c1 = c\<lparr>evictList := filter (\<lambda>p. p \<noteq> e) (evictList c)\<rparr>;
          c2 = removeItem (e_key kv) (e_conflictKey kv) c1;
          c3 = c2\<lparr>currentSize := wrap64 (currentSize c2 - sizeFn c2 (e_value kv))\<rparr>
      in if onEvict c3 then c3\<lparr>evicted := evicted c3 @ [(e_value kv, reason)]\<rparr> else c3)"

definition removeOldest :: "'v lru \<Rightarrow> 'v lru" where
  "removeOldest c = (if evictList c = [] then c else removeElement (last (evictList c)) SizeEviction c)"

definition MoveToFront :: "nat \<Rightarrow> 'v lru \<Rightarrow> 'v lru" where
  "MoveToFront e c = c\<lparr>evictList := e # filter (\<lambda>p. p \<noteq> e) (evictList c)\<rparr>"

definition set_value :: "nat \<Rightarrow> 'v \<Rightarrow> 'v lru \<Rightarrow> 'v lru" where
  "set_value e v c = c\<lparr>elems := (elems c)[e := (elems c ! e)\<lparr>e_value := v\<rparr>]\<rparr>"

section \<open>The exported operations\<close>

partial_function (option) evict_loop :: "'v lru \<Rightarrow> 'v lru option" where
  "evict_loop c = (if currentSize c > maxSize c then evict_loop (removeOldest c) else Some c)"

definition Add :: "hashes \<Rightarrow> string \<Rightarrow> 'v \<Rightarrow> 'v lru \<Rightarrow> (bool \<times> 'v lru) option" where
  "Add h key value c =
     (case keyHash h key of (pk, ck, ok) \<Rightarrow>
        if \<not> ok then Some (False, c)
        else
          let c1 =
            (case lookupItem c pk ck of
               Some ent \<Rightarrow>
                 if updateInPlace c then
                   let oldSize = sizeFn c (e_value (elems c ! ent)); newSize = sizeFn c value;
                       c' = c\<lparr>currentSize := wrap64 (currentSize c + wrap64 (newSize - oldSize))\<rparr>
                   in set_value ent value (MoveToFront ent c')
                 else addItem pk ck value (sizeFn c value) True (removeElement ent ConflictEviction c)
             | None \<Rightarrow> addItem pk ck value (sizeFn c value) True c)
          in map_option (\<lambda>c2. (True, c2)) (evict_loop c1))"

definition PushBack :: "hashes \<Rightarrow> string \<Rightarrow> 'v \<Rightarrow> 'v lru \<Rightarrow> bool \<times> 'v lru" where
  "PushBack h key value c =
     (case keyHash h key of (pk, ck, ok) \<Rightarrow>
        if \<not> ok then (False, c)
        else
          let sz = sizeFn c value;
              insert_back = (\<lambda>c. if wrap64 (currentSize c + sz) > maxSize c then (False, c)
                                else (True, addItem pk ck value sz False c))
          in (case lookupItem c pk ck of
                Some ent \<Rightarrow>
                  let sizeDelta = wrap64 (sz - sizeFn c (e_value (elems c ! ent)))
                  in if wrap64 (currentSize c + sizeDelta) > maxSize c then (False, c)
                     else if updateInPlace c then
                       (True, (set_value ent value c)\<lparr>currentSize := wrap64 (currentSize c + sizeDelta)\<rparr>)
                     else insert_back (removeElement ent ConflictEviction c)
              | None \<Rightarrow> insert_back c))"

definition Get_lru :: "hashes \<Rightarrow> string \<Rightarrow> 'v lru \<Rightarrow> 'v option \<times> 'v lru" where
  "Get_lru h key c =
     (case keyHash h key of (pk, ck, ok) \<Rightarrow>
        if \<not> ok then (None, c)
        else case lookupItem c pk ck of
          Some ent \<Rightarrow> (Some (e_value (elems c ! ent)), MoveToFront ent c)
        | None \<Rightarrow> (None, c))"

definition Contains_lru :: "hashes \<Rightarrow> string \<Rightarrow> 'v lru \<Rightarrow> bool \<times> 'v lru" where
  "Contains_lru h key c =
     (case keyHash h key of (pk, ck, ok) \<Rightarrow>
        if \<not> ok then (False, c)
        else case lookupItem c pk ck of
          Some ent \<Rightarrow> (True, MoveToFront ent c)
        | None \<Rightarrow> (False, c))"

definition Peek :: "hashes \<Rightarrow> string \<Rightarrow> 'v lru \<Rightarrow> 'v option" where
  "Peek h key c =
     (case keyHash h key of (pk, ck, ok) \<Rightarrow>
        if \<not> ok then None
        else map_option (\<lambda>ent. e_value (elems c ! ent)) (lookupItem c pk ck))"

definition Remove :: "hashes \<Rightarrow> string \<Rightarrow> 'v lru \<Rightarrow> bool \<times> 'v lru" where
  "Remove h key c =
     (case keyHash h key of (pk, ck, ok) \<Rightarrow>
        if \<not> ok then (False, c)
        else case lookupItem c pk ck of
          Some ent \<Rightarrow> (True, removeElement ent ManualEviction c)
        | None \<Rightarrow> (False, c))"

definition RemoveOldest :: "'v lru \<Rightarrow> 'v option \<times> 'v lru" where
  "RemoveOldest c =
     (if evictList c = [] then (None, c)
      else let ent = last (evictList c); c' = removeElement ent SizeEviction c
           in (Some (e_value (elems c' ! ent)), c'))"

definition Len :: "'v lru \<Rightarrow> nat" where
  "Len c = length (evictList c)"

definition Size :: "'v lru \<Rightarrow> int" where
  "Size c = currentSize c"

definition MaxSize :: "'v lru \<Rightarrow> int" where
  "MaxSize c = maxSize c"

text \<open>\<open>Purge\<close> ranges over the Go map, whose order is unspecified: \<open>ks\<close> is the order of one run.\<close>

fun purge_keys :: "64 word list \<Rightarrow> 'v lru \<Rightarrow> 'v lru" where
  "purge_keys [] c = c"
| "purge_keys (k # ks) c =
     (let vals = (case items c k of None \<Rightarrow> [] | Some es \<Rightarrow> es);
          calls = map (\<lambda>p. (e_value (elems c ! p), SizeEviction)) vals;
          c' = (if onEvict c then c\<lparr>evicted := evicted c @ calls\<rparr> else c)
      in purge_keys ks (c'\<lparr>items := (items c')(k := None)\<rparr>))"

definition Purge :: "64 word list \<Rightarrow> 'v lru \<Rightarrow> 'v lru" where
  "Purge ks c = (purge_keys ks c)\<lparr>evictList := []\<rparr>"

section \<open>Contract of a recency cache\<close>

text \<open>
  The contents of a recency cache are an association list, most recently used first. \<open>trim\<close> drops
  entries from the old end until the total size fits.
\<close>

definition total :: "('v \<Rightarrow> int) \<Rightarrow> ('k \<times> 'v) list \<Rightarrow> int" where
  "total sz xs = (\<Sum>e\<leftarrow>xs. sz (snd e))"

function trim :: "('v \<Rightarrow> int) \<Rightarrow> int \<Rightarrow> ('k \<times> 'v) list \<Rightarrow> ('k \<times> 'v) list" where
  "trim sz limit xs = (if xs = [] \<or> total sz xs \<le> limit then xs else trim sz limit (butlast xs))"
  by pat_completeness auto
termination by (relation "measure (\<lambda>(sz, limit, xs). length xs)") auto

declare trim.simps [simp del]

definition without :: "'k \<Rightarrow> ('k \<times> 'v) list \<Rightarrow> ('k \<times> 'v) list" where
  "without k xs = filter (\<lambda>e. fst e \<noteq> k) xs"

lemma total_simps [simp]:
  "total sz [] = 0" "total sz (e # xs) = sz (snd e) + total sz xs"
  "total sz (xs @ ys) = total sz xs + total sz ys"
  by (simp_all add: total_def)

lemma trim_total: "0 \<le> limit \<Longrightarrow> total sz (trim sz limit xs) \<le> limit"
proof (induction sz limit xs rule: trim.induct)
  case (1 sz limit xs)
  then show ?case by (cases "xs = [] \<or> total sz xs \<le> limit") (auto simp: trim.simps [of sz limit xs])
qed

lemma trim_prefix: "\<exists>n. trim sz limit xs = take n xs"
proof (induction sz limit xs rule: trim.induct)
  case (1 sz limit xs)
  show ?case
  proof (cases "xs = [] \<or> total sz xs \<le> limit")
    case True
    then have "trim sz limit xs = take (length xs) xs" by (simp add: trim.simps [of sz limit xs])
    then show ?thesis by blast
  next
    case False
    with 1 obtain n where "trim sz limit (butlast xs) = take n (butlast xs)" by blast
    with False have "trim sz limit xs = take (min n (length xs - 1)) xs"
      by (simp add: trim.simps [of sz limit xs] butlast_conv_take)
    then show ?thesis by blast
  qed
qed

lemma trim_keeps_head:
  assumes "\<And>v. 0 \<le> sz v" "sz (snd e) \<le> limit"
  shows "\<exists>ys. trim sz limit (e # xs) = e # ys"
proof (induction "length xs" arbitrary: xs)
  case 0
  with assms show ?case by (simp add: trim.simps)
next
  case (Suc n)
  then have "n = length (butlast xs)" and ne: "xs \<noteq> []" by auto
  then obtain ys where "trim sz limit (butlast (e # xs)) = e # ys"
    using Suc.hyps(1) [of "butlast xs"] by auto
  then show ?case by (cases "total sz (e # xs) \<le> limit") (auto simp: trim.simps [of sz limit "e # xs"])
qed

locale mru_cache =
  fixes invar :: "'s \<Rightarrow> bool"
    and contents :: "'s \<Rightarrow> ('k \<times> 'v) list"
    and sz :: "'s \<Rightarrow> 'v \<Rightarrow> int"
    and limit :: "'s \<Rightarrow> int"
    and add :: "'k \<Rightarrow> 'v \<Rightarrow> 's \<Rightarrow> 's option"
    and get :: "'k \<Rightarrow> 's \<Rightarrow> 'v option \<times> 's"
    and del :: "'k \<Rightarrow> 's \<Rightarrow> 's"
  assumes sz_nonneg: "invar s \<Longrightarrow> 0 \<le> sz s v"
    and limit_pos: "invar s \<Longrightarrow> 0 < limit s"
    and distinct_keys: "invar s \<Longrightarrow> distinct (map fst (contents s))"
    and add_law: "invar s \<Longrightarrow> \<exists>s'. add k v s = Some s' \<and> invar s' \<and> sz s' = sz s \<and>
      limit s' = limit s \<and> contents s' = trim (sz s) (limit s) ((k, v) # without k (contents s))"
    and get_hit: "invar s \<Longrightarrow> map_of (contents s) k = Some v \<Longrightarrow>
      fst (get k s) = Some v \<and> invar (snd (get k s)) \<and>
      contents (snd (get k s)) = (k, v) # without k (contents s)"
    and get_miss: "invar s \<Longrightarrow> map_of (contents s) k = None \<Longrightarrow> get k s = (None, s)"
    and del_law: "invar s \<Longrightarrow> invar (del k s) \<and> contents (del k s) = without k (contents s)"
begin

text \<open>An entry that fits on its own is readable right after it was added.\<close>

lemma get_after_add:
  assumes "invar s" "add k v s = Some s'" "sz s v \<le> limit s"
  shows "fst (get k s') = Some v"
proof -
  from assms(1,2) add_law [of s k v] have s': "invar s'"
    "contents s' = trim (sz s) (limit s) ((k, v) # without k (contents s))" by auto
  obtain ys where "contents s' = (k, v) # ys"
    using s'(2) trim_keeps_head [of "sz s" "(k, v)" "limit s"] sz_nonneg [OF assms(1)] assms(3) by auto
  then have "map_of (contents s') k = Some v" by simp
  then show ?thesis using get_hit [OF s'(1)] by blast
qed

text \<open>An addition never leaves the cache over its limit, and evicts from the old end only.\<close>

lemma add_bounded:
  assumes "invar s" "add k v s = Some s'"
  shows "total (sz s) (contents s') \<le> limit s \<and>
    (\<exists>n. contents s' = take n ((k, v) # without k (contents s)))"
proof -
  from assms add_law [of s k v]
  have c: "contents s' = trim (sz s) (limit s) ((k, v) # without k (contents s))" by auto
  have "total (sz s) (contents s') \<le> limit s"
    using c trim_total limit_pos [OF assms(1)] by (metis less_imp_le)
  moreover have "\<exists>n. contents s' = take n ((k, v) # without k (contents s))"
    unfolding c by (rule trim_prefix)
  ultimately show ?thesis ..
qed

lemma get_after_del:
  assumes "invar s"
  shows "fst (get k (del k s)) = None"
proof -
  have d: "invar (del k s)" "contents (del k s) = without k (contents s)"
    using del_law [OF assms] by auto
  then have "map_of (contents (del k s)) k = None"
    by (auto simp: without_def map_of_eq_None_iff)
  then show ?thesis using get_miss [OF d(1)] by simp
qed

end

section \<open>The index and the list agree\<close>

definition kp :: "'v lru \<Rightarrow> nat \<Rightarrow> 64 word \<times> 64 word" where
  "kp c p = (e_key (elems c ! p), e_conflictKey (elems c ! p))"

definition bucket :: "'v lru \<Rightarrow> 64 word \<Rightarrow> nat list" where
  "bucket c k = (case items c k of None \<Rightarrow> [] | Some es \<Rightarrow> es)"

definition idx_inv :: "'v lru \<Rightarrow> bool" where
  "idx_inv c \<longleftrightarrow> distinct (evictList c) \<and> (\<forall>p\<in>set (evictList c). p < length (elems c)) \<and>
     inj_on (kp c) (set (evictList c)) \<and>
     (\<forall>k. items c k \<noteq> Some [] \<and> distinct (bucket c k) \<and>
        set (bucket c k) = {p \<in> set (evictList c). e_key (elems c ! p) = k})"

definition lru_contents :: "'v lru \<Rightarrow> ((64 word \<times> 64 word) \<times> 'v) list" where
  "lru_contents c = map (\<lambda>p. (kp c p, e_value (elems c ! p))) (evictList c)"

text \<open>Sizes are non-negative and small enough for one entry beyond the limit not to overflow.\<close>

definition sizes_ok :: "'v lru \<Rightarrow> bool" where
  "sizes_ok c \<longleftrightarrow> 0 < maxSize c \<and> (\<forall>v. 0 \<le> sizeFn c v \<and> sizeFn c v + maxSize c \<le> max_int64)"

definition size_acct :: "'v lru \<Rightarrow> bool" where
  "size_acct c \<longleftrightarrow> currentSize c = total (sizeFn c) (lru_contents c)"

definition lru_inv :: "'v lru \<Rightarrow> bool" where
  "lru_inv c \<longleftrightarrow> idx_inv c \<and> sizes_ok c \<and> size_acct c \<and> currentSize c \<le> maxSize c"

lemma idx_invD:
  assumes "idx_inv c"
  shows "distinct (evictList c)" "p \<in> set (evictList c) \<Longrightarrow> p < length (elems c)"
    "items c k \<noteq> Some []" "distinct (bucket c k)"
    "q \<in> set (bucket c k) \<longleftrightarrow> q \<in> set (evictList c) \<and> e_key (elems c ! q) = k"
  using assms by (simp_all add: idx_inv_def)

lemma idx_inv_inj:
  assumes "idx_inv c" "p \<in> set (evictList c)" "q \<in> set (evictList c)" "kp c p = kp c q"
  shows "p = q"
  using assms unfolding idx_inv_def by (blast dest: inj_onD)

lemma idx_invI:
  assumes "distinct (evictList c)" "\<And>p. p \<in> set (evictList c) \<Longrightarrow> p < length (elems c)"
    "\<And>p q. p \<in> set (evictList c) \<Longrightarrow> q \<in> set (evictList c) \<Longrightarrow> kp c p = kp c q \<Longrightarrow> p = q"
    "\<And>k. items c k \<noteq> Some []" "\<And>k. distinct (bucket c k)"
    "\<And>k q. q \<in> set (bucket c k) \<longleftrightarrow> q \<in> set (evictList c) \<and> e_key (elems c ! q) = k"
  shows "idx_inv c"
  unfolding idx_inv_def using assms by (blast intro: inj_onI)

lemma find_eq_Some_unique:
  assumes "x \<in> set xs" "P x" "\<And>y. y \<in> set xs \<Longrightarrow> P y \<Longrightarrow> y = x"
  shows "List.find P xs = Some x"
proof (cases "List.find P xs")
  case None
  with assms(1,2) show ?thesis by (auto simp: find_None_iff)
next
  case (Some y)
  then show ?thesis using find_Some_in_set [OF Some] assms(3) by blast
qed

lemma lookupItem_bucket:
  "lookupItem c pk ck = List.find (\<lambda>p. e_conflictKey (elems c ! p) = ck) (bucket c pk)"
  by (simp add: lookupItem_def bucket_def split: option.split)

lemma lookupItem_Some:
  assumes "idx_inv c"
  shows "lookupItem c pk ck = Some p \<longleftrightarrow> p \<in> set (evictList c) \<and> kp c p = (pk, ck)"
proof
  assume "lookupItem c pk ck = Some p"
  then have "p \<in> set (bucket c pk) \<and> e_conflictKey (elems c ! p) = ck"
    unfolding lookupItem_bucket by (rule find_Some_in_set)
  then show "p \<in> set (evictList c) \<and> kp c p = (pk, ck)"
    using idx_invD(5) [OF assms] by (simp add: kp_def)
next
  assume p: "p \<in> set (evictList c) \<and> kp c p = (pk, ck)"
  have "List.find (\<lambda>p. e_conflictKey (elems c ! p) = ck) (bucket c pk) = Some p"
  proof (rule find_eq_Some_unique)
    show "p \<in> set (bucket c pk)" "e_conflictKey (elems c ! p) = ck"
      using idx_invD(5) [OF assms] p by (simp_all add: kp_def)
  next
    fix q assume q: "q \<in> set (bucket c pk)" "e_conflictKey (elems c ! q) = ck"
    then have "q \<in> set (evictList c)" "kp c q = kp c p"
      using idx_invD(5) [OF assms] p by (simp_all add: kp_def)
    then show "q = p" using idx_inv_inj [OF assms] p by blast
  qed
  then show "lookupItem c pk ck = Some p" by (simp add: lookupItem_bucket)
qed

lemma lookupItem_None:
  assumes "idx_inv c"
  shows "lookupItem c pk ck = None \<longleftrightarrow> (\<forall>p\<in>set (evictList c). kp c p \<noteq> (pk, ck))"
  using lookupItem_Some [OF assms, of pk ck] by (cases "lookupItem c pk ck") auto

lemma distinct_contents: "idx_inv c \<Longrightarrow> distinct (map fst (lru_contents c))"
  by (simp add: idx_inv_def lru_contents_def distinct_map o_def)

lemma lookupItem_map_of:
  assumes "idx_inv c"
  shows "map_of (lru_contents c) (pk, ck) =
    map_option (\<lambda>p. e_value (elems c ! p)) (lookupItem c pk ck)"
proof (cases "lookupItem c pk ck")
  case None
  then have "(pk, ck) \<notin> fst ` set (lru_contents c)"
    using lookupItem_None [OF assms, of pk ck] by (auto simp: lru_contents_def)
  then show ?thesis using None by (simp add: map_of_eq_None_iff)
next
  case (Some p)
  then have "((pk, ck), e_value (elems c ! p)) \<in> set (lru_contents c)"
    using lookupItem_Some [OF assms] by (force simp: lru_contents_def)
  then show ?thesis using Some distinct_contents [OF assms] by simp
qed

lemma without_contents:
  assumes "idx_inv c" "p \<in> set (evictList c)"
  shows "without (kp c p) (lru_contents c)
    = map (\<lambda>q. (kp c q, e_value (elems c ! q))) (filter (\<lambda>q. q \<noteq> p) (evictList c))"
proof -
  have "filter (\<lambda>q. kp c q \<noteq> kp c p) (evictList c) = filter (\<lambda>q. q \<noteq> p) (evictList c)"
    using idx_inv_inj [OF assms(1) _ assms(2)] by (intro filter_cong) auto
  then show ?thesis by (simp add: without_def lru_contents_def filter_map o_def)
qed

lemma without_absent:
  "\<forall>p\<in>set (evictList c). kp c p \<noteq> k \<Longrightarrow> without k (lru_contents c) = lru_contents c"
  by (simp add: without_def lru_contents_def filter_map o_def filter_id_conv)

lemma total_without:
  assumes "idx_inv c" "p \<in> set (evictList c)"
  shows "total sz (without (kp c p) (lru_contents c))
    = total sz (lru_contents c) - sz (e_value (elems c ! p))"
proof -
  have "total sz (without (kp c p) (lru_contents c))
      = (\<Sum>q\<leftarrow>filter (\<lambda>q. q \<noteq> p) (evictList c). sz (e_value (elems c ! q)))"
    by (simp add: without_contents [OF assms] total_def o_def)
  also have "\<dots> = (\<Sum>q\<leftarrow>evictList c. sz (e_value (elems c ! q))) - sz (e_value (elems c ! p))"
    using idx_invD(1) [OF assms(1)] assms(2) by (rule sum_list_filter_remove)
  finally show ?thesis by (simp add: total_def lru_contents_def o_def)
qed

section \<open>Removing an element\<close>

lemma set_update_swap:
  assumes "distinct xs" "i < length xs" "y \<notin> set xs"
  shows "set (xs[i := y]) = insert y (set xs - {xs ! i})" "distinct (xs[i := y])"
proof -
  show "distinct (xs[i := y])" using assms by (simp add: distinct_list_update)
  obtain a b where ab: "xs = a @ xs ! i # b" "xs[i := y] = a @ y # b"
    using id_take_nth_drop [OF assms(2)] upd_conv_take_nth_drop [OF assms(2)] by blast
  then have "xs ! i \<notin> set a \<union> set b" using assms(1) by (metis Un_iff distinct.simps(2)
      distinct_append not_distinct_conv_prefix disjoint_iff list.set_intros(1))
  moreover have "set xs = insert (xs ! i) (set a \<union> set b)" by (subst ab(1)) simp
  ultimately show "set (xs[i := y]) = insert y (set xs - {xs ! i})"
    by (subst ab(2)) auto
qed

lemma swap_delete:
  assumes "distinct xs" "i < length xs"
  shows "set (butlast (xs[i := last xs])) = set xs - {xs ! i} \<and> distinct (butlast (xs[i := last xs]))"
proof -
  from assms(2) obtain ys y where xs: "xs = ys @ [y]" by (cases xs rule: rev_cases) auto
  show ?thesis
  proof (cases "i < length ys")
    case True
    then have "butlast (xs[i := last xs]) = ys[i := y]" and "xs ! i = ys ! i"
      using xs by (simp_all add: list_update_append nth_append)
    moreover have "y \<noteq> ys ! i" using True assms(1) xs by auto
    ultimately show ?thesis using set_update_swap [of ys i y] True assms(1) xs by auto
  next
    case False
    with xs assms(2) have "i = length ys" by simp
    then have "butlast (xs[i := last xs]) = ys" and "xs ! i = y" using xs by simp_all
    then show ?thesis using assms(1) xs by auto
  qed
qed

lemma index_where_Some: "index_where P xs = Some i \<Longrightarrow> i < length xs \<and> P (xs ! i)"
  by (induction xs arbitrary: i) (auto split: if_splits)

lemma index_where_None: "index_where P xs = None \<longleftrightarrow> (\<forall>x\<in>set xs. \<not> P x)"
  by (induction xs) auto

lemma removeItem_frame [simp]:
  "elems (removeItem k ck c) = elems c" "evictList (removeItem k ck c) = evictList c"
  "sizeFn (removeItem k ck c) = sizeFn c" "currentSize (removeItem k ck c) = currentSize c"
  "maxSize (removeItem k ck c) = maxSize c" "onEvict (removeItem k ck c) = onEvict c"
  "evicted (removeItem k ck c) = evicted c" "updateInPlace (removeItem k ck c) = updateInPlace c"
  by (simp_all add: removeItem_def split: option.split)

text \<open>\<open>removeItem\<close> takes exactly the element with these two hashes out of its bucket.\<close>

lemma removeItem_bucket:
  assumes d: "distinct (bucket c k)" and p: "p \<in> set (bucket c k)" "e_conflictKey (elems c ! p) = ck"
    and u: "\<And>q. q \<in> set (bucket c k) \<Longrightarrow> e_conflictKey (elems c ! q) = ck \<Longrightarrow> q = p"
  shows "items (removeItem k ck c) k \<noteq> Some [] \<and> distinct (bucket (removeItem k ck c) k) \<and>
    set (bucket (removeItem k ck c) k) = set (bucket c k) - {p}"
proof -
  obtain es where es: "items c k = Some es" "bucket c k = es"
    using p(1) by (cases "items c k") (auto simp: bucket_def)
  have "index_where (\<lambda>p. e_conflictKey (elems c ! p) = ck) es \<noteq> None"
    using p es(2) by (auto simp: index_where_None)
  then obtain i where i: "index_where (\<lambda>p. e_conflictKey (elems c ! p) = ck) es = Some i"
    by blast
  then have il: "i < length es" and ei: "e_conflictKey (elems c ! (es ! i)) = ck"
    using index_where_Some [OF i] by simp_all
  have ip: "es ! i = p"
    by (rule u) (use es(2) il ei in simp_all)
  show ?thesis
  proof (cases "length es = 1")
    case True
    then have "es = [p]" using il ip by (cases es) auto
    then show ?thesis using es i by (simp add: removeItem_def bucket_def)
  next
    case False
    let ?es = "butlast (es[i := last es])"
    have it: "items (removeItem k ck c) k = Some ?es" using es i False by (simp add: removeItem_def)
    have "distinct es" using d es(2) by simp
    from swap_delete [OF this il] have "set ?es = set es - {p}" "distinct ?es"
      unfolding ip by blast+
    moreover have "length ?es \<noteq> 0" using False il by simp
    then have "?es \<noteq> []" by (metis list.size(3))
    moreover have "bucket (removeItem k ck c) k = ?es" using it by (simp add: bucket_def)
    ultimately show ?thesis unfolding it es(2) by simp
  qed
qed

lemma removeItem_other: "k' \<noteq> k \<Longrightarrow> items (removeItem k ck c) k' = items c k'"
  by (simp add: removeItem_def split: option.split)

lemma removeElement_frame [simp]:
  "elems (removeElement p r c) = elems c" "sizeFn (removeElement p r c) = sizeFn c"
  "maxSize (removeElement p r c) = maxSize c" "onEvict (removeElement p r c) = onEvict c"
  "updateInPlace (removeElement p r c) = updateInPlace c"
  "evictList (removeElement p r c) = filter (\<lambda>q. q \<noteq> p) (evictList c)"
  "currentSize (removeElement p r c) = wrap64 (currentSize c - sizeFn c (e_value (elems c ! p)))"
  "evicted (removeElement p r c) = evicted c @ (if onEvict c then [(e_value (elems c ! p), r)] else [])"
  by (simp_all add: removeElement_def Let_def)

lemma kp_removeElement [simp]: "kp (removeElement p r c) = kp c"
  by (simp add: kp_def fun_eq_iff)

lemma removeElement_contents:
  "idx_inv c \<Longrightarrow> p \<in> set (evictList c) \<Longrightarrow>
   lru_contents (removeElement p r c) = without (kp c p) (lru_contents c)"
  by (simp add: without_contents) (simp add: lru_contents_def)

lemma removeElement_items:
  "items (removeElement p r c) = items (removeItem (e_key (elems c ! p)) (e_conflictKey (elems c ! p))
     (c\<lparr>evictList := filter (\<lambda>q. q \<noteq> p) (evictList c)\<rparr>))"
  by (simp add: removeElement_def Let_def)

lemma removeElement_bucket:
  assumes inv: "idx_inv c" and p: "p \<in> set (evictList c)"
  shows "items (removeElement p r c) k \<noteq> Some [] \<and> distinct (bucket (removeElement p r c) k) \<and>
    set (bucket (removeElement p r c) k) = set (bucket c k) - {p}"
proof -
  let ?k = "e_key (elems c ! p)" and ?ck = "e_conflictKey (elems c ! p)"
  let ?c1 = "c\<lparr>evictList := filter (\<lambda>q. q \<noteq> p) (evictList c)\<rparr>"
  have b1: "bucket ?c1 = bucket c" by (simp add: bucket_def fun_eq_iff)
  show ?thesis
  proof (cases "k = ?k")
    case True
    have uniq: "q = p" if "q \<in> set (bucket ?c1 ?k)" "e_conflictKey (elems ?c1 ! q) = ?ck" for q
    proof -
      have "q \<in> set (evictList c)" "kp c q = kp c p"
        using that b1 idx_invD(5) [OF inv] by (simp_all add: kp_def)
      then show ?thesis using idx_inv_inj [OF inv _ p] by blast
    qed
    have "p \<in> set (bucket ?c1 ?k)" "distinct (bucket ?c1 ?k)"
      using idx_invD(4,5) [OF inv] p b1 by simp_all
    from removeItem_bucket [OF this(2,1) _ uniq] True
    show ?thesis by (simp add: bucket_def removeElement_items)
  next
    case False
    then have "items (removeElement p r c) k = items c k"
      using removeItem_other [of k ?k ?ck ?c1] by (simp add: removeElement_items)
    moreover have "p \<notin> set (bucket c k)" using False idx_invD(5) [OF inv] by simp
    ultimately show ?thesis using idx_invD(3,4) [OF inv] by (simp add: bucket_def)
  qed
qed

lemma removeElement_idx [inv_intros]:
  assumes inv: "idx_inv c" and p: "p \<in> set (evictList c)"
  shows "idx_inv (removeElement p r c)"
proof (rule idx_invI)
  fix k q
  show "q \<in> set (bucket (removeElement p r c) k) \<longleftrightarrow>
      q \<in> set (evictList (removeElement p r c)) \<and> e_key (elems (removeElement p r c) ! q) = k"
    using removeElement_bucket [OF inv p] idx_invD(5) [OF inv] by simp blast
next
  fix a b
  assume "a \<in> set (evictList (removeElement p r c))" "b \<in> set (evictList (removeElement p r c))"
    "kp (removeElement p r c) a = kp (removeElement p r c) b"
  then show "a = b" using idx_inv_inj [OF inv] by simp
qed (use removeElement_bucket [OF inv p] idx_invD(1,2) [OF inv] in auto)

section \<open>Adding, touching and updating\<close>

lemma addItem_frame [simp]:
  "sizeFn (addItem k ck v z f c) = sizeFn c" "maxSize (addItem k ck v z f c) = maxSize c"
  "currentSize (addItem k ck v z f c) = wrap64 (currentSize c + z)"
  "evicted (addItem k ck v z f c) = evicted c"
  "elems (addItem k ck v z f c) = elems c @ [\<lparr>e_key = k, e_conflictKey = ck, e_value = v\<rparr>]"
  "evictList (addItem k ck v z f c) =
     (if f then length (elems c) # evictList c else evictList c @ [length (elems c)])"
  by (simp_all add: addItem_def Let_def)

lemma bucket_addItem:
  "bucket (addItem k ck v z f c) k' = bucket c k' @ (if k' = k then [length (elems c)] else [])"
  by (simp add: addItem_def Let_def bucket_def split: option.split)

lemma items_addItem:
  "items (addItem k ck v z f c) k' = (if k' = k then Some (bucket c k @ [length (elems c)]) else items c k')"
  by (simp add: addItem_def Let_def bucket_def split: option.split)

lemma kp_addItem:
  "kp (addItem k ck v z f c) p = (if p < length (elems c) then kp c p
     else if p = length (elems c) then (k, ck) else kp (addItem k ck v z f c) p)"
  by (simp add: kp_def nth_append)

lemma addItem_idx [inv_intros]:
  assumes inv: "idx_inv c" and new: "\<forall>p\<in>set (evictList c). kp c p \<noteq> (k, ck)"
  shows "idx_inv (addItem k ck v z f c)"
proof (rule idx_invI)
  let ?c = "addItem k ck v z f c" and ?n = "length (elems c)"
  have valid: "p \<in> set (evictList c) \<Longrightarrow> p < ?n" for p using idx_invD(2) [OF inv] .
  have mem: "p \<in> set (evictList ?c) \<longleftrightarrow> p = ?n \<or> p \<in> set (evictList c)" for p by auto
  have old: "p \<in> set (evictList c) \<Longrightarrow> kp ?c p = kp c p" for p
    using valid [of p] kp_addItem [of k ck v z f c p] by presburger
  have fresh: "kp ?c ?n = (k, ck)" by (simp add: kp_def nth_append)
  show "distinct (evictList ?c)" using idx_invD(1) [OF inv] valid by auto
  show "p < length (elems ?c)" if "p \<in> set (evictList ?c)" for p
    using that valid [of p] by (auto simp: mem simp del: addItem_frame(6))
  show "p = q" if "p \<in> set (evictList ?c)" "q \<in> set (evictList ?c)" "kp ?c p = kp ?c q" for p q
    using that old [of p] old [of q] fresh new idx_inv_inj [OF inv, of p q] unfolding mem by metis
  show "items ?c k' \<noteq> Some []" for k' using idx_invD(3) [OF inv] by (simp add: items_addItem)
  show "distinct (bucket ?c k')" for k'
    using idx_invD(4,5) [OF inv] valid by (auto simp: bucket_addItem)
  show "q \<in> set (bucket ?c k') \<longleftrightarrow> q \<in> set (evictList ?c) \<and> e_key (elems ?c ! q) = k'" for q k'
    using idx_invD(5) [OF inv] valid [of q] unfolding mem
    by (cases "q = ?n") (auto simp: bucket_addItem nth_append)
qed

lemma addItem_contents:
  assumes "idx_inv c"
  shows "lru_contents (addItem k ck v z True c) = ((k, ck), v) # lru_contents c"
    and "lru_contents (addItem k ck v z False c) = lru_contents c @ [((k, ck), v)]"
  using idx_invD(2) [OF assms] by (auto simp: lru_contents_def kp_def nth_append)

lemma MoveToFront_frame [simp]:
  "elems (MoveToFront p c) = elems c" "sizeFn (MoveToFront p c) = sizeFn c"
  "maxSize (MoveToFront p c) = maxSize c" "currentSize (MoveToFront p c) = currentSize c"
  "items (MoveToFront p c) = items c" "bucket (MoveToFront p c) = bucket c"
  "kp (MoveToFront p c) = kp c"
  "evictList (MoveToFront p c) = p # filter (\<lambda>q. q \<noteq> p) (evictList c)"
  by (simp_all add: MoveToFront_def bucket_def kp_def fun_eq_iff)

lemma MoveToFront_idx [inv_intros]:
  assumes inv: "idx_inv c" and p: "p \<in> set (evictList c)"
  shows "idx_inv (MoveToFront p c)"
proof (rule idx_invI)
  have mem: "q \<in> set (evictList (MoveToFront p c)) \<longleftrightarrow> q \<in> set (evictList c)" for q
    using p by auto
  show "a = b" if "a \<in> set (evictList (MoveToFront p c))" "b \<in> set (evictList (MoveToFront p c))"
    "kp (MoveToFront p c) a = kp (MoveToFront p c) b" for a b
    using that idx_inv_inj [OF inv] unfolding mem by simp
  show "q \<in> set (bucket (MoveToFront p c) k) \<longleftrightarrow>
      q \<in> set (evictList (MoveToFront p c)) \<and> e_key (elems (MoveToFront p c) ! q) = k" for q k
    using idx_invD(5) [OF inv] unfolding mem by simp
qed (use idx_invD(1-4) [OF inv] p in auto)

lemma MoveToFront_contents:
  "idx_inv c \<Longrightarrow> p \<in> set (evictList c) \<Longrightarrow>
   lru_contents (MoveToFront p c) = (kp c p, e_value (elems c ! p)) # without (kp c p) (lru_contents c)"
  by (simp add: without_contents) (simp add: lru_contents_def)

lemma set_value_nth:
  "p < length (elems c) \<Longrightarrow> elems (set_value p v c) ! q =
     (if q = p then (elems c ! p)\<lparr>e_value := v\<rparr> else elems c ! q)"
  by (simp add: set_value_def nth_list_update)

lemma set_value_frame [simp]:
  "sizeFn (set_value p v c) = sizeFn c" "maxSize (set_value p v c) = maxSize c"
  "currentSize (set_value p v c) = currentSize c" "items (set_value p v c) = items c"
  "evictList (set_value p v c) = evictList c" "bucket (set_value p v c) = bucket c"
  "length (elems (set_value p v c)) = length (elems c)"
  by (simp_all add: set_value_def bucket_def fun_eq_iff)

lemma kp_set_value: "p < length (elems c) \<Longrightarrow> kp (set_value p v c) = kp c"
  by (simp add: kp_def fun_eq_iff set_value_nth)

lemma set_value_idx [inv_intros]:
  assumes inv: "idx_inv c" and p: "p \<in> set (evictList c)"
  shows "idx_inv (set_value p v c)"
proof (rule idx_invI)
  have v: "p < length (elems c)" using idx_invD(2) [OF inv p] .
  show "a = b" if "a \<in> set (evictList (set_value p v c))" "b \<in> set (evictList (set_value p v c))"
    "kp (set_value p v c) a = kp (set_value p v c) b" for a b
    using that idx_inv_inj [OF inv] by (simp add: kp_set_value [OF v])
  show "q \<in> set (bucket (set_value p v c) k) \<longleftrightarrow>
      q \<in> set (evictList (set_value p v c)) \<and> e_key (elems (set_value p v c) ! q) = k" for q k
    using idx_invD(5) [OF inv] by (simp add: set_value_nth [OF v])
qed (use idx_invD(1-4) [OF inv] in auto)

lemma set_value_contents_hd:
  assumes "idx_inv c" "evictList c = p # ps"
  shows "lru_contents (set_value p v c) = (kp c p, v) # tl (lru_contents c)"
proof -
  have v: "p < length (elems c)" and d: "p \<notin> set ps"
    using idx_invD(1,2) [OF assms(1)] assms(2) by auto
  then show ?thesis
    by (auto simp: lru_contents_def assms(2) kp_set_value set_value_nth)
qed

section \<open>The eviction loop\<close>

lemma evict_loop_done: "currentSize c \<le> maxSize c \<Longrightarrow> evict_loop c = Some c"
  by (simp add: evict_loop.simps [of c])

lemma evict_loop_step:
  "currentSize c > maxSize c \<Longrightarrow> evict_loop c = evict_loop (removeOldest c)"
  by (simp add: evict_loop.simps [of c])

lemma without_last:
  assumes "distinct (map fst xs)" "xs \<noteq> []"
  shows "without (fst (last xs)) xs = butlast xs"
proof -
  obtain ys y where "xs = ys @ [y]" using assms(2) by (cases xs rule: rev_cases) auto
  with assms(1) show ?thesis
    by (auto simp: without_def filter_id_conv) (metis fst_conv image_eqI)
qed

lemma removeOldest_contents:
  assumes "idx_inv c" "evictList c \<noteq> []"
  shows "lru_contents (removeOldest c) = butlast (lru_contents c)"
proof -
  let ?p = "last (evictList c)"
  have "lru_contents c \<noteq> []" using assms(2) by (simp add: lru_contents_def)
  moreover have "fst (last (lru_contents c)) = kp c ?p"
    using assms(2) by (simp add: lru_contents_def last_map)
  ultimately have "without (kp c ?p) (lru_contents c) = butlast (lru_contents c)"
    using without_last [OF distinct_contents [OF assms(1)]] by simp
  then show ?thesis
    using removeElement_contents [OF assms(1), of ?p SizeEviction] assms(2) by (simp add: removeOldest_def)
qed

text \<open>With exact size accounting the loop ends, and leaves the trimmed contents.\<close>

lemma evict_loop_trim:
  assumes "idx_inv c" "sizes_ok c" "size_acct c" "in_int64 (currentSize c)"
  shows "\<exists>d. evict_loop c = Some d \<and> lru_inv d \<and> sizeFn d = sizeFn c \<and> maxSize d = maxSize c \<and>
    lru_contents d = trim (sizeFn c) (maxSize c) (lru_contents c)"
  using assms
proof (induction "length (evictList c)" arbitrary: c)
  case 0
  then have "lru_contents c = []" by (simp add: lru_contents_def)
  with 0 show ?case
    by (simp add: evict_loop_done size_acct_def sizes_ok_def trim.simps lru_inv_def)
next
  case (Suc n)
  let ?xs = "lru_contents c"
  have ne: "evictList c \<noteq> []" "?xs \<noteq> []" using Suc.hyps(2) by (auto simp: lru_contents_def)
  show ?case
  proof (cases "currentSize c \<le> maxSize c")
    case True
    with Suc.prems show ?thesis
      by (simp add: evict_loop_done size_acct_def trim.simps [of _ _ ?xs] lru_inv_def)
  next
    case False
    let ?p = "last (evictList c)" and ?d = "removeOldest c"
    have p: "?p \<in> set (evictList c)" using ne by simp
    have d: "?d = removeElement ?p SizeEviction c" using ne by (simp add: removeOldest_def)
    have xs: "lru_contents ?d = butlast ?xs" using removeOldest_contents [OF Suc.prems(1) ne(1)] .
    have t: "total (sizeFn c) (butlast ?xs) = currentSize c - sizeFn c (e_value (elems c ! ?p))"
      using total_without [OF Suc.prems(1) p, of "sizeFn c"] Suc.prems(3)
        removeElement_contents [OF Suc.prems(1) p, of SizeEviction] xs d by (simp add: size_acct_def)
    have r: "in_int64 (currentSize c - sizeFn c (e_value (elems c ! ?p)))"
    proof -
      have "0 \<le> sizeFn c (e_value (elems c ! ?p))" "0 < maxSize c"
        "sizeFn c (e_value (elems c ! ?p)) \<le> max_int64"
        using Suc.prems(2) by (auto simp: sizes_ok_def dest: spec [of _ "e_value (elems c ! ?p)"])
      with Suc.prems(4) False show ?thesis by (simp add: in_int64_def)
    qed
    have acct: "size_acct ?d" "in_int64 (currentSize ?d)"
      using xs t r d by (simp_all add: size_acct_def wrap64_id)
    have "length (evictList ?d) < length (evictList c)"
      using d length_filter_neq_less [OF p] by simp
    moreover have "length (evictList ?d) = n"
      using arg_cong [OF xs, of length] Suc.hyps(2) by (simp add: lru_contents_def)
    moreover have "idx_inv ?d" "sizes_ok ?d"
      using Suc.prems d removeElement_idx [OF Suc.prems(1) p] by (simp_all add: sizes_ok_def)
    ultimately have "\<exists>e. evict_loop ?d = Some e \<and> lru_inv e \<and> sizeFn e = sizeFn ?d \<and>
        maxSize e = maxSize ?d \<and> lru_contents e = trim (sizeFn ?d) (maxSize ?d) (lru_contents ?d)"
      using Suc.hyps(1) acct by blast
    moreover have "trim (sizeFn c) (maxSize c) ?xs = trim (sizeFn c) (maxSize c) (butlast ?xs)"
      using False ne Suc.prems(3) by (simp add: trim.simps [of _ _ ?xs] size_acct_def)
    ultimately show ?thesis using False xs d by (simp add: evict_loop_step)
  qed
qed

section \<open>The cache implements the contract\<close>

lemma total_nonneg: "sizes_ok c \<Longrightarrow> 0 \<le> total (sizeFn c) xs"
  by (induction xs) (auto simp: sizes_ok_def)

lemma currentSize_update_frame [simp]:
  "kp (c\<lparr>currentSize := z\<rparr>) = kp c" "bucket (c\<lparr>currentSize := z\<rparr>) = bucket c"
  "idx_inv (c\<lparr>currentSize := z\<rparr>) = idx_inv c" "lru_contents (c\<lparr>currentSize := z\<rparr>) = lru_contents c"
proof -
  show k: "kp (c\<lparr>currentSize := z\<rparr>) = kp c" and b: "bucket (c\<lparr>currentSize := z\<rparr>) = bucket c"
    by (simp_all add: kp_def bucket_def fun_eq_iff)
  show "idx_inv (c\<lparr>currentSize := z\<rparr>) = idx_inv c" "lru_contents (c\<lparr>currentSize := z\<rparr>) = lru_contents c"
    by (simp_all add: idx_inv_def lru_contents_def k b)
qed

lemma total_contents_remove:
  assumes "lru_inv c" "p \<in> set (evictList c)"
  shows "in_int64 (currentSize c - sizeFn c (e_value (elems c ! p)))"
    "0 \<le> currentSize c - sizeFn c (e_value (elems c ! p))"
proof -
  let ?s = "sizeFn c (e_value (elems c ! p))"
  have inv: "idx_inv c" and a: "currentSize c = total (sizeFn c) (lru_contents c)"
    and s: "sizes_ok c" and m: "currentSize c \<le> maxSize c"
    using assms(1) by (simp_all add: lru_inv_def size_acct_def)
  have "0 \<le> total (sizeFn c) (without (kp c p) (lru_contents c))"
    using s by (rule total_nonneg)
  then show ge: "0 \<le> currentSize c - ?s" using total_without [OF inv assms(2)] a by simp
  have "0 \<le> ?s" "?s + maxSize c \<le> max_int64" using s unfolding sizes_ok_def by blast+
  with ge m show "in_int64 (currentSize c - ?s)" unfolding in_int64_def by linarith
qed

lemma removeElement_inv [inv_intros]:
  assumes "lru_inv c" "p \<in> set (evictList c)"
  shows "lru_inv (removeElement p r c)"
proof -
  have inv: "idx_inv c" using assms(1) by (simp add: lru_inv_def)
  have cs: "currentSize (removeElement p r c) = currentSize c - sizeFn c (e_value (elems c ! p))"
    using total_contents_remove(1) [OF assms] by (simp add: wrap64_id)
  then have "size_acct (removeElement p r c)"
    using assms(1) total_without [OF inv assms(2)]
    by (simp add: lru_inv_def size_acct_def removeElement_contents [OF inv assms(2)] cs del: removeElement_frame(7))
  moreover have "sizeFn c (e_value (elems c ! p)) \<ge> 0"
    using assms(1) by (simp add: lru_inv_def sizes_ok_def)
  moreover have "currentSize (removeElement p r c) \<le> maxSize c"
    unfolding cs using assms(1) calculation(2) by (simp add: lru_inv_def)
  ultimately show ?thesis
    using assms(1) removeElement_idx [OF inv assms(2)] by (simp add: lru_inv_def sizes_ok_def)
qed

lemma size_range:
  assumes "lru_inv c"
  shows "0 \<le> sizeFn c v" "in_int64 (currentSize c + sizeFn c v)" "0 \<le> currentSize c"
proof -
  have s: "sizes_ok c" and a: "size_acct c" and m: "currentSize c \<le> maxSize c"
    using assms by (simp_all add: lru_inv_def)
  show nn: "0 \<le> sizeFn c v" using s by (simp add: sizes_ok_def)
  show cs: "0 \<le> currentSize c"
    using s a total_nonneg by (simp add: size_acct_def)
  have "sizeFn c v + maxSize c \<le> max_int64" using s unfolding sizes_ok_def by blast
  with m nn cs show "in_int64 (currentSize c + sizeFn c v)" unfolding in_int64_def by linarith
qed

text \<open>What \<open>Add\<close> hands to the eviction loop, in its three cases.\<close>

definition add_pre :: "64 word \<Rightarrow> 64 word \<Rightarrow> 'v \<Rightarrow> 'v lru \<Rightarrow> 'v lru \<Rightarrow> bool" where
  "add_pre pk ck v c d \<longleftrightarrow> idx_inv d \<and> sizes_ok d \<and> size_acct d \<and> in_int64 (currentSize d) \<and>
     sizeFn d = sizeFn c \<and> maxSize d = maxSize c \<and>
     lru_contents d = ((pk, ck), v) # without (pk, ck) (lru_contents c)"

lemma add_pre_new:
  assumes "lru_inv c" "\<forall>p\<in>set (evictList c). kp c p \<noteq> (pk, ck)"
  shows "add_pre pk ck v c (addItem pk ck v (sizeFn c v) True c)"
  using assms size_range(2) [OF assms(1), of v]
  by (simp add: add_pre_def addItem_idx addItem_contents lru_inv_def sizes_ok_def size_acct_def
      wrap64_id without_absent)

lemma add_pre_replace:
  assumes inv: "lru_inv c" and p: "p \<in> set (evictList c)" "kp c p = (pk, ck)"
  shows "add_pre pk ck v c (addItem pk ck v (sizeFn c v) True (removeElement p r c))"
proof -
  let ?d = "removeElement p r c"
  have idx: "idx_inv c" using inv by (simp add: lru_inv_def)
  have d: "lru_inv ?d" using inv p(1) by (rule removeElement_inv)
  have "\<forall>q\<in>set (evictList ?d). kp ?d q \<noteq> (pk, ck)"
    using idx_inv_inj [OF idx _ p(1)] p(2) by auto
  from add_pre_new [OF d this, of v] show ?thesis
    by (simp add: add_pre_def removeElement_contents [OF idx p(1)] p(2) without_def)
qed

lemma add_pre_update:
  assumes inv: "lru_inv c" and p: "p \<in> set (evictList c)" "kp c p = (pk, ck)"
  shows "add_pre pk ck v c (set_value p v (MoveToFront p
     (c\<lparr>currentSize := wrap64 (currentSize c + wrap64 (sizeFn c v - sizeFn c (e_value (elems c ! p))))\<rparr>)))"
proof -
  let ?c1 = "c\<lparr>currentSize := wrap64 (currentSize c + wrap64 (sizeFn c v - sizeFn c (e_value (elems c ! p))))\<rparr>"
  let ?m = "MoveToFront p ?c1"
  have idx: "idx_inv c" using inv by (simp add: lru_inv_def)
  have m: "idx_inv ?m" using MoveToFront_idx [of ?c1 p] idx p(1) by simp
  have con: "lru_contents (set_value p v ?m) = ((pk, ck), v) # without (pk, ck) (lru_contents c)"
    using set_value_contents_hd [OF m] MoveToFront_contents [of ?c1 p] idx p by simp
  have "currentSize c + (sizeFn c v - sizeFn c (e_value (elems c ! p)))
      = total (sizeFn c) (((pk, ck), v) # without (pk, ck) (lru_contents c))"
    using total_without [OF idx p(1), of "sizeFn c"] inv p(2) by (simp add: lru_inv_def size_acct_def)
  moreover have "in_int64 (currentSize c + (sizeFn c v - sizeFn c (e_value (elems c ! p))))"
  proof -
    have "sizeFn c (e_value (elems c ! p)) \<ge> 0" using size_range(1) [OF inv] .
    with total_contents_remove(2) [OF inv p(1)] size_range(1,2) [OF inv, of v]
    show ?thesis unfolding in_int64_def by linarith
  qed
  ultimately have "currentSize ?m = total (sizeFn c) (((pk, ck), v) # without (pk, ck) (lru_contents c))"
    "in_int64 (currentSize ?m)" by (simp_all add: wrap64_id)
  then show ?thesis
    using inv con set_value_idx [OF m] by (simp add: add_pre_def size_acct_def sizes_ok_def lru_inv_def)
qed

lemma Add_law:
  assumes "lru_inv c" "h key = (pk, ck)"
  shows "\<exists>d. Add h key v c = Some (True, d) \<and> lru_inv d \<and> sizeFn d = sizeFn c \<and> maxSize d = maxSize c \<and>
    lru_contents d = trim (sizeFn c) (maxSize c) (((pk, ck), v) # without (pk, ck) (lru_contents c))"
proof -
  have idx: "idx_inv c" using assms(1) by (simp add: lru_inv_def)
  define c1 where "c1 = (case lookupItem c pk ck of
      Some ent \<Rightarrow> if updateInPlace c then set_value ent v (MoveToFront ent (c\<lparr>currentSize :=
            wrap64 (currentSize c + wrap64 (sizeFn c v - sizeFn c (e_value (elems c ! ent))))\<rparr>))
          else addItem pk ck v (sizeFn c v) True (removeElement ent ConflictEviction c)
    | None \<Rightarrow> addItem pk ck v (sizeFn c v) True c)"
  have "add_pre pk ck v c c1"
    unfolding c1_def using lookupItem_Some [OF idx, of pk ck] lookupItem_None [OF idx, of pk ck]
      add_pre_new [OF assms(1)] add_pre_replace [OF assms(1)] add_pre_update [OF assms(1)]
    by (auto split: option.split)
  then have "\<exists>d. evict_loop c1 = Some d \<and> lru_inv d \<and> sizeFn d = sizeFn c \<and> maxSize d = maxSize c \<and>
      lru_contents d = trim (sizeFn c) (maxSize c) (((pk, ck), v) # without (pk, ck) (lru_contents c))"
    using evict_loop_trim [of c1] by (auto simp: add_pre_def)
  moreover have "Add h key v c = map_option (\<lambda>d. (True, d)) (evict_loop c1)"
    using assms(2) by (cases "lookupItem c pk ck") (simp_all add: Add_def keyHash_def c1_def Let_def)
  ultimately show ?thesis by auto
qed

lemma lru_inv_MoveToFront [inv_intros]:
  assumes "lru_inv c" "p \<in> set (evictList c)"
  shows "lru_inv (MoveToFront p c)"
  using assms MoveToFront_idx [of c p] MoveToFront_contents [of c p] total_without [of c p "sizeFn c"]
  by (simp add: lru_inv_def sizes_ok_def size_acct_def)

lemma lru_inv_NewLRU:
  assumes "NewLRU cfg = Inr c" "\<forall>v. 0 \<le> sizeFn c v \<and> sizeFn c v + maxSize c \<le> max_int64"
  shows "lru_inv c" "lru_contents c = []"
proof -
  from assms(1) have f: "evictList c = []" "items c = Map.empty" "currentSize c = 0" "0 < maxSize c"
    by (auto simp: NewLRU_def split: if_splits option.splits)
  then have "idx_inv c" by (intro idx_invI) (simp_all add: bucket_def)
  with f assms(2) show "lru_inv c" "lru_contents c = []"
    by (simp_all add: lru_inv_def sizes_ok_def size_acct_def lru_contents_def)
qed

text \<open>The operations as seen through the hashes, and the interpretation of the contract.\<close>

definition lru_add :: "64 word \<times> 64 word \<Rightarrow> 'v \<Rightarrow> 'v lru \<Rightarrow> 'v lru option" where
  "lru_add k v c = map_option snd (Add (\<lambda>_. k) [] v c)"

definition lru_get :: "64 word \<times> 64 word \<Rightarrow> 'v lru \<Rightarrow> 'v option \<times> 'v lru" where
  "lru_get k c = Get_lru (\<lambda>_. k) [] c"

definition lru_del :: "64 word \<times> 64 word \<Rightarrow> 'v lru \<Rightarrow> 'v lru" where
  "lru_del k c = snd (Remove (\<lambda>_. k) [] c)"

lemma lru_ops_by_hash:
  "map_option snd (Add h key v c) = lru_add (h key) v c"
  "Get_lru h key c = lru_get (h key) c" "snd (Remove h key c) = lru_del (h key) c"
  by (simp_all add: lru_add_def lru_get_def lru_del_def Add_def Get_lru_def Remove_def keyHash_def)

lemma lru_get_hit:
  assumes "lru_inv c" "map_of (lru_contents c) k = Some v"
  shows "fst (lru_get k c) = Some v \<and> lru_inv (snd (lru_get k c)) \<and>
    lru_contents (snd (lru_get k c)) = (k, v) # without k (lru_contents c)"
proof -
  obtain pk ck where k: "k = (pk, ck)" by (cases k)
  have idx: "idx_inv c" using assms(1) by (simp add: lru_inv_def)
  from assms(2) k obtain p where p: "lookupItem c pk ck = Some p" "v = e_value (elems c ! p)"
    using lookupItem_map_of [OF idx, of pk ck] by auto
  then have "p \<in> set (evictList c)" "kp c p = k" using lookupItem_Some [OF idx] k by auto
  then show ?thesis using p k assms(1) MoveToFront_contents [OF idx]
    by (auto simp: lru_get_def Get_lru_def keyHash_def intro: lru_inv_MoveToFront)
qed

lemma lru_get_miss:
  assumes "lru_inv c" "map_of (lru_contents c) k = None"
  shows "lru_get k c = (None, c)"
  using assms lookupItem_map_of [of c "fst k" "snd k"]
  by (simp add: lru_get_def Get_lru_def keyHash_def lru_inv_def)

lemma lru_del_law:
  assumes "lru_inv c"
  shows "lru_inv (lru_del k c) \<and> lru_contents (lru_del k c) = without k (lru_contents c)"
proof -
  obtain pk ck where k: "k = (pk, ck)" by (cases k)
  have idx: "idx_inv c" using assms by (simp add: lru_inv_def)
  show ?thesis
  proof (cases "lookupItem c pk ck")
    case None
    then have "\<forall>p\<in>set (evictList c). kp c p \<noteq> k" using lookupItem_None [OF idx] k by blast
    then have "without k (lru_contents c) = lru_contents c" by (rule without_absent)
    then show ?thesis using assms None k by (simp add: lru_del_def Remove_def keyHash_def)
  next
    case (Some p)
    then have p: "p \<in> set (evictList c)" "kp c p = k" using lookupItem_Some [OF idx] k by auto
    then show ?thesis
      using Some k removeElement_inv [OF assms p(1)] removeElement_contents [OF idx p(1)]
      by (simp add: lru_del_def Remove_def keyHash_def)
  qed
qed

interpretation lruc: mru_cache lru_inv lru_contents sizeFn maxSize lru_add lru_get lru_del
proof (unfold_locales, goal_cases)
  case (1 s v)
  then show ?case by (rule size_range(1))
next
  case (2 s)
  then show ?case by (simp add: lru_inv_def sizes_ok_def)
next
  case (3 s)
  then show ?case by (simp add: lru_inv_def distinct_contents)
next
  case (4 s k v)
  then show ?case using Add_law [of s "\<lambda>_. k" "[]" "fst k" "snd k" v] by (auto simp: lru_add_def)
next
  case (5 s k v)
  then show ?case by (rule lru_get_hit)
next
  case (6 s k)
  then show ?case by (rule lru_get_miss)
next
  case (7 s k)
  then show ?case by (rule lru_del_law)
qed

section \<open>PushBack and Purge\<close>

lemma set_value_contents:
  assumes "idx_inv c" "p \<in> set (evictList c)"
  shows "lru_contents (set_value p v c) =
    map (\<lambda>e. if fst e = kp c p then (fst e, v) else e) (lru_contents c)"
proof -
  have v: "p < length (elems c)" using idx_invD(2) [OF assms] .
  have "q \<in> set (evictList c) \<Longrightarrow> (kp c q = kp c p) = (q = p)" for q
    using idx_inv_inj [OF assms(1) _ assms(2)] by blast
  then show ?thesis by (auto simp: lru_contents_def kp_set_value [OF v] set_value_nth [OF v])
qed

lemma total_map_update:
  fixes sz :: "'v \<Rightarrow> int"
  assumes "distinct (map fst xs)" "(k, w) \<in> set xs"
  shows "total sz (map (\<lambda>e. if fst e = k then (fst e, v) else e) xs) = total sz xs + sz v - sz w"
  using assms
proof (induction xs)
  case (Cons e xs)
  show ?case
  proof (cases "fst e = k")
    case True
    then have "e = (k, w)" using Cons.prems by (metis eq_key_imp_eq_value prod.collapse list.set_intros(1))
    moreover have "fst x \<noteq> k" if "x \<in> set xs" for x
      using that Cons.prems(1) True by (metis distinct.simps(2) image_eqI list.map(2) list.set_map)
    then have "map (\<lambda>e. if fst e = k then (fst e, v) else e) xs = xs"
      by (intro map_idI) simp
    ultimately show ?thesis by simp
  next
    case False
    with Cons show ?thesis by auto
  qed
qed simp

lemma PushBack_inv [inv_intros]:
  assumes "lru_inv c"
  shows "lru_inv (snd (PushBack h key v c))"
proof -
  obtain pk ck where k: "h key = (pk, ck)" by (cases "h key")
  have insert_back: "lru_inv (addItem pk ck v (sizeFn d v) False d)"
    if d: "lru_inv d" "\<forall>p\<in>set (evictList d). kp d p \<noteq> (pk, ck)"
      "\<not> maxSize d < wrap64 (currentSize d + sizeFn d v)" for d
    using d size_range(2) [OF d(1), of v]
    by (simp add: lru_inv_def addItem_idx sizes_ok_def size_acct_def addItem_contents wrap64_id)
  have idx: "idx_inv c" using assms by (simp add: lru_inv_def)
  show ?thesis
  proof (cases "lookupItem c pk ck")
    case None
    then show ?thesis
      using k assms insert_back [OF assms] lookupItem_None [OF idx, of pk ck]
      by (simp add: PushBack_def keyHash_def Let_def)
  next
    case (Some p)
    then have p: "p \<in> set (evictList c)" "kp c p = (pk, ck)" using lookupItem_Some [OF idx] by auto
    let ?d = "removeElement p ConflictEviction c"
    let ?delta = "sizeFn c v - sizeFn c (e_value (elems c ! p))"
    have d: "lru_inv ?d" "\<forall>q\<in>set (evictList ?d). kp ?d q \<noteq> (pk, ck)"
      using removeElement_inv [OF assms p(1)] idx_inv_inj [OF idx _ p(1)] p(2) by auto
    have rng: "in_int64 (currentSize c + ?delta)"
      using total_contents_remove(2) [OF assms p(1)] size_range(1,2) [OF assms, of v]
        size_range(1) [OF assms, of "e_value (elems c ! p)"]
      unfolding in_int64_def by linarith
    have upd: "lru_inv ((set_value p v c)\<lparr>currentSize := wrap64 (currentSize c + ?delta)\<rparr>)"
      if "\<not> maxSize c < wrap64 (currentSize c + ?delta)"
    proof -
      have "(kp c p, e_value (elems c ! p)) \<in> set (lru_contents c)"
        using p(1) by (auto simp: lru_contents_def)
      from total_map_update [OF distinct_contents [OF idx] this, of "sizeFn c" v]
      show ?thesis
        using that rng assms set_value_idx [OF idx p(1)]
        by (simp add: lru_inv_def sizes_ok_def size_acct_def set_value_contents [OF idx p(1)] wrap64_id)
    qed
    then show ?thesis
      using k Some assms d insert_back [OF d] by (simp add: PushBack_def keyHash_def Let_def)
  qed
qed

lemma purge_keys_frame [simp]:
  "currentSize (purge_keys ks c) = currentSize c" "maxSize (purge_keys ks c) = maxSize c"
  "sizeFn (purge_keys ks c) = sizeFn c" "elems (purge_keys ks c) = elems c"
  by (induction ks arbitrary: c) (simp_all add: Let_def)

lemma items_purge_keys: "items (purge_keys ks c) = (\<lambda>k. if k \<in> set ks then None else items c k)"
  by (induction ks arbitrary: c) (auto simp: Let_def fun_eq_iff)

section \<open>Properties\<close>

text \<open>The caches a client can have without calling \<open>Purge\<close>: made by \<open>NewLRU\<close> with sizes that are not negative and that, added to the limit,
  stay within 64 bits; then changed by any of the other operations, with any keys.\<close>

inductive never_purged :: "'v lru \<Rightarrow> bool" where
  new: "NewLRU cfg = Inr c \<Longrightarrow> \<forall>v. 0 \<le> sizeFn c v \<and> sizeFn c v + maxSize c \<le> max_int64 \<Longrightarrow> never_purged c"
| add: "never_purged c \<Longrightarrow> Add h key v c = Some (b, d) \<Longrightarrow> never_purged d"
| push_back: "never_purged c \<Longrightarrow> PushBack h key v c = (b, d) \<Longrightarrow> never_purged d"
| get: "never_purged c \<Longrightarrow> Get_lru h key c = (r, d) \<Longrightarrow> never_purged d"
| contains: "never_purged c \<Longrightarrow> Contains_lru h key c = (b, d) \<Longrightarrow> never_purged d"
| remove: "never_purged c \<Longrightarrow> Remove h key c = (b, d) \<Longrightarrow> never_purged d"
| remove_oldest: "never_purged c \<Longrightarrow> RemoveOldest c = (r, d) \<Longrightarrow> never_purged d"

lemma Get_lru_inv: "lru_inv c \<Longrightarrow> lru_inv (snd (Get_lru h key c))"
  using lru_get_hit [of c "h key"] lru_get_miss [of c "h key"]
  by (cases "map_of (lru_contents c) (h key)") (auto simp: lru_ops_by_hash)

lemma Contains_lru_inv: "lru_inv c \<Longrightarrow> lru_inv (snd (Contains_lru h key c))"
  using Get_lru_inv [of c h key] by (auto simp: Contains_lru_def Get_lru_def split: prod.splits option.splits)

lemma never_purged_inv: "never_purged c \<Longrightarrow> lru_inv c"
proof (induction rule: never_purged.induct)
  case (add c h key v b d)
  then show ?case using Add_law [of c h key "fst (h key)" "snd (h key)" v] by auto
next
  case (push_back c h key v b d)
  then show ?case using PushBack_inv [of c h key v] by simp
next
  case (get c h key r d)
  then show ?case using Get_lru_inv [of c h key] by simp
next
  case (contains c h key b d)
  then show ?case using Contains_lru_inv [of c h key] by simp
next
  case (remove c h key b d)
  then show ?case using lru_del_law [of c "h key"] lru_ops_by_hash(3) [of h key c] by simp
next
  case (remove_oldest c r d)
  then show ?case using removeElement_inv [of c "last (evictList c)"] by (auto simp: RemoveOldest_def Let_def split: if_splits)
qed (rule lru_inv_NewLRU(1))

text \<open>C8: On every cache made by \<open>NewLRU\<close> and used without \<open>Purge\<close>, for sizes that are not negative and do not overflow: \<open>Add\<close> always returns, and refines the recency-list specification whether or not values are
  updated in place: the new entry is moved to the front, an older entry under the same pair of
  hashes is gone, and entries leave from the least recently used end only, exactly until the total
  size is within \<open>MaxSize\<close>. (\<open>Purge\<close> leaves the size of the purged entries in place, and after it this does not hold.)\<close>

theorem Add_refines_recency_list:
  assumes "never_purged c"
  shows "\<exists>d. Add h key v c = Some (True, d) \<and> never_purged d \<and>
    lru_contents d = trim (sizeFn c) (maxSize c) ((h key, v) # without (h key) (lru_contents c)) \<and>
    Size d = total (sizeFn c) (lru_contents d) \<and> Size d \<le> MaxSize d"
proof -
  obtain d where d: "Add h key v c = Some (True, d)" "lru_inv d" "sizeFn d = sizeFn c"
    "lru_contents d = trim (sizeFn c) (maxSize c) ((h key, v) # without (h key) (lru_contents c))"
    using Add_law [OF never_purged_inv [OF assms], of h key "fst (h key)" "snd (h key)" v] by auto
  moreover have "never_purged d" using assms d(1) by (rule never_purged.add)
  ultimately show ?thesis by (auto simp: lru_inv_def size_acct_def Size_def MaxSize_def)
qed

definition demo_lru :: "bool \<Rightarrow> nat lru" where
  "demo_lru b = \<lparr>sizeFn = (\<lambda>v. if v < 10 then int v else 10), elems = [], evictList = [],
     items = Map.empty, onEvict = True, maxSize = 10, currentSize = 0, updateInPlace = b, evicted = []\<rparr>"

lemma demo_lru_new: "never_purged (demo_lru b)"
proof (rule never_purged.new)
  show "NewLRU \<lparr>cfg_SizeFn = Some (\<lambda>v. if v < 10 then int v else 10), cfg_OnEvict = True,
      cfg_MaxSize = 10, cfg_UpdateInPlace = b\<rparr> = Inr (demo_lru b)"
    by (simp add: NewLRU_def demo_lru_def)
qed (auto simp: demo_lru_def)

lemma demo_lru_inv: "lru_inv (demo_lru b)"
  by (rule never_purged_inv) (rule demo_lru_new)

theorem Add_refines_recency_list_witness:
  "\<exists>d. Add (\<lambda>_. (1, 2)) ''k'' 7 (demo_lru False) = Some (True, d) \<and> lru_contents d = [((1, 2), 7)]"
proof -
  have "lru_contents (demo_lru False) = []" by (simp add: lru_contents_def demo_lru_def)
  then show ?thesis
    using Add_refines_recency_list [OF demo_lru_new [of False], of "\<lambda>_. (1, 2)" "''k''" 7]
    by (auto simp: without_def demo_lru_def trim.simps)
qed

text \<open>an entry that fits into the cache on its own is found by \<open>Get\<close> right after \<open>Add\<close>, and is
  not found after \<open>Remove\<close>.\<close>

theorem Get_after_Add_and_Remove:
  assumes "lru_inv c" and "sizeFn c v \<le> maxSize c" and "Add h key v c = Some (ok, d)"
  shows "fst (Get_lru h key d) = Some v \<and> fst (Get_lru h key (snd (Remove h key d))) = None"
proof -
  have a: "lru_add (h key) v c = Some d" using assms(3) lru_ops_by_hash(1) [of h key v c] by simp
  then have d: "lru_inv d" using lruc.add_law [OF assms(1), of "h key" v] by auto
  show ?thesis
    using lruc.get_after_add [OF assms(1) a assms(2)] lruc.get_after_del [OF d, of "h key"]
    by (simp add: lru_ops_by_hash)
qed

theorem Get_after_Add_and_Remove_witness:
  "\<exists>d. Add (\<lambda>_. (1, 2)) ''k'' 7 (demo_lru True) = Some (True, d) \<and>
       fst (Get_lru (\<lambda>_. (1, 2)) ''k'' d) = Some 7"
proof -
  obtain d where d: "Add (\<lambda>_. (1, 2)) ''k'' 7 (demo_lru True) = Some (True, d)"
    using Add_law [OF demo_lru_inv [of True], of "\<lambda>_. (1, 2)" "''k''" 1 2 7] by auto
  then show ?thesis
    using Get_after_Add_and_Remove [OF demo_lru_inv [of True] _ d] by (auto simp: demo_lru_def)
qed

text \<open>\<open>Purge\<close> empties the list and the index but leaves \<open>currentSize\<close> as it was: the cache keeps
  charging for entries that are gone, so an \<open>Add\<close> right after a purge of a full cache evicts the very
  entry it adds.\<close>

theorem Purge_keeps_size:
  assumes "set ks = dom (items c)"
  shows "Len (Purge ks c) = 0 \<and> items (Purge ks c) = Map.empty \<and> Size (Purge ks c) = Size c"
proof -
  have "items (Purge ks c) = Map.empty"
    using assms by (auto simp: Purge_def items_purge_keys fun_eq_iff)
  then show ?thesis by (simp add: Purge_def Len_def Size_def)
qed

definition full_lru :: "nat lru" where
  "full_lru = addItem 1 1 10 10 True (demo_lru False)"

theorem Purge_keeps_size_witness:
  "Size full_lru = 10 \<and> Len (Purge [1] full_lru) = 0 \<and> Size (Purge [1] full_lru) = 10 \<and>
   map_option (\<lambda>(_, d). Len d) (Add (\<lambda>_. (2, 2)) ''k'' 1 (Purge [1] full_lru)) = Some 0"
proof -
  have dom: "set [1] = dom (items full_lru)"
    by (auto simp: full_lru_def items_addItem demo_lru_def split: if_splits)
  have sz: "Size full_lru = 10" by (simp add: Size_def full_lru_def demo_lru_def wrap64_def)
  let ?p = "Purge [1] full_lru"
  let ?a = "addItem 2 2 1 1 True ?p"
  have i0: "items ?p = Map.empty" using Purge_keeps_size [OF dom] by simp
  have p: "evictList ?p = []" "currentSize ?p = 10" "maxSize ?p = 10" "elems ?p = elems full_lru"
    "sizeFn ?p 1 = 1" "length (elems full_lru) = 1"
    by (simp_all add: Purge_def full_lru_def demo_lru_def wrap64_def del: purge_keys.simps)
  have a: "evictList ?a = [1]" "currentSize ?a = 11" "maxSize ?a = 10" "sizeFn ?a 1 = 1"
    "e_value (elems ?a ! 1) = 1"
    using p by (simp_all add: wrap64_def nth_append)
  have r: "removeOldest ?a = removeElement 1 SizeEviction ?a" using a by (simp add: removeOldest_def)
  have "currentSize (removeOldest ?a) = 10" "maxSize (removeOldest ?a) = 10" "evictList (removeOldest ?a) = []"
    unfolding r removeElement_frame a by (simp_all add: wrap64_def)
  then have "evict_loop (removeOldest ?a) = Some (removeOldest ?a)" "Len (removeOldest ?a) = 0"
    by (simp_all add: evict_loop_done Len_def)
  then have "evict_loop ?a = Some (removeOldest ?a)" "Len (removeOldest ?a) = 0"
    using evict_loop_step [of ?a] a(2,3) by simp_all
  then have "map_option (\<lambda>(_, d). Len d) (Add (\<lambda>_. (2, 2)) ''k'' 1 ?p) = Some 0"
    using i0 p by (simp add: Add_def keyHash_def lookupItem_def)
  then show ?thesis using Purge_keeps_size [OF dom] sz by simp
qed

end
