(* ===== verification/Lock_Map.thy ===== *)
theory Lock_Map
  imports Prelude
begin

text \<open>
  \<open>src/pkg/util/lockmap/lockmap.go\<close>: one reader/writer mutex per key, created on first use and culled
  by a background goroutine once nobody refers to it.

  The mutexes live in a store (\<open>heap\<close>), the \<open>sync.Map\<close> maps keys to addresses. Every call of
  \<open>Lock\<close> or \<open>RLock\<close> is a thread with its own program point: the critical section under \<open>bigLock\<close>
  (look the mutex up or create it, count the reference), the acquisition of the mutex, and, in the
  returned function, the release and the decrement of the counter, which are two separate atomic
  steps. The culling goroutine reads an entry of the map first and examines it under \<open>bigLock\<close> later.
  \<open>lm_step\<close> interleaves these in any order; \<open>lm_inv\<close> is the invariant that makes culling safe.
\<close>

section \<open>State\<close>

datatype lock_mode = Write | Read

text \<open>\<open>refCountedMutex\<close>: \<open>sync.RWMutex\<close> (held by a writer, or by a number of readers) and a counter.\<close>

record refCountedMutex =
  count :: int
  writer :: bool
  readers :: nat

definition newRefCountedMutex :: refCountedMutex where
  "newRefCountedMutex = \<lparr>count = 0, writer = False, readers = 0\<rparr>"

definition Inc :: "refCountedMutex \<Rightarrow> refCountedMutex" where
  "Inc m = m\<lparr>count := count m + 1\<rparr>"

definition Dec :: "refCountedMutex \<Rightarrow> refCountedMutex" where
  "Dec m = m\<lparr>count := count m - 1\<rparr>"

definition Val :: "refCountedMutex \<Rightarrow> int" where
  "Val m = count m"

datatype pc = Idle | Waiting lock_mode string nat | Holding lock_mode string nat | Releasing lock_mode string nat

record perKeyMutex =
  mutexes :: "string \<rightharpoonup> nat"
  heap :: "nat \<Rightarrow> refCountedMutex"
  next_addr :: nat
  pcs :: "nat \<Rightarrow> pc"
  gc_at :: "(string \<times> nat) option"
  closed :: bool

definition New_lockmap :: perKeyMutex where
  "New_lockmap = \<lparr>mutexes = Map.empty, heap = (\<lambda>_. newRefCountedMutex), next_addr = 0,
     pcs = (\<lambda>_. Idle), gc_at = None, closed = False\<rparr>"

section \<open>Atomic parts of the operations\<close>

text \<open>\<open>mutexes.LoadOrStore(key, newRefCountedMutex())\<close>: the address found or stored.\<close>

definition LoadOrStore :: "string \<Rightarrow> perKeyMutex \<Rightarrow> nat \<times> perKeyMutex" where
  "LoadOrStore key p =
     (let a = next_addr p; p' = p\<lparr>next_addr := a + 1, heap := (heap p)(a := newRefCountedMutex)\<rparr>
      in case mutexes p key of
           Some v \<Rightarrow> (v, p')
         | None \<Rightarrow> (a, p'\<lparr>mutexes := (mutexes p)(key \<mapsto> a)\<rparr>))"

text \<open>The part of \<open>Lock\<close> and \<open>RLock\<close> under \<open>bigLock\<close>.\<close>

definition Lock_enter :: "lock_mode \<Rightarrow> string \<Rightarrow> nat \<Rightarrow> perKeyMutex \<Rightarrow> perKeyMutex" where
  "Lock_enter md key t p =
     (case LoadOrStore key p of (rcm, p') \<Rightarrow>
        p'\<lparr>heap := (heap p')(rcm := Inc (heap p' rcm)), pcs := (pcs p')(t := Waiting md key rcm)\<rparr>)"

definition can_acquire :: "lock_mode \<Rightarrow> refCountedMutex \<Rightarrow> bool" where
  "can_acquire md m \<longleftrightarrow> \<not> writer m \<and> (md = Write \<longrightarrow> readers m = 0)"

definition acquire :: "lock_mode \<Rightarrow> refCountedMutex \<Rightarrow> refCountedMutex" where
  "acquire md m = (case md of Write \<Rightarrow> m\<lparr>writer := True\<rparr> | Read \<Rightarrow> m\<lparr>readers := readers m + 1\<rparr>)"

definition release :: "lock_mode \<Rightarrow> refCountedMutex \<Rightarrow> refCountedMutex" where
  "release md m = (case md of Write \<Rightarrow> m\<lparr>writer := False\<rparr> | Read \<Rightarrow> m\<lparr>readers := readers m - 1\<rparr>)"

text \<open>\<open>rcm.Lock()\<close> or \<open>rcm.RLock()\<close> once it can proceed.\<close>

definition Lock_acquire :: "lock_mode \<Rightarrow> string \<Rightarrow> nat \<Rightarrow> nat \<Rightarrow> perKeyMutex \<Rightarrow> perKeyMutex" where
  "Lock_acquire md key rcm t p =
     p\<lparr>heap := (heap p)(rcm := acquire md (heap p rcm)), pcs := (pcs p)(t := Holding md key rcm)\<rparr>"

text \<open>The returned function: first the unlock, then the decrement.\<close>

definition Unlock_release :: "lock_mode \<Rightarrow> string \<Rightarrow> nat \<Rightarrow> nat \<Rightarrow> perKeyMutex \<Rightarrow> perKeyMutex" where
  "Unlock_release md key rcm t p =
     p\<lparr>heap := (heap p)(rcm := release md (heap p rcm)), pcs := (pcs p)(t := Releasing md key rcm)\<rparr>"

definition Unlock_dec :: "nat \<Rightarrow> nat \<Rightarrow> perKeyMutex \<Rightarrow> perKeyMutex" where
  "Unlock_dec rcm t p =
     p\<lparr>heap := (heap p)(rcm := Dec (heap p rcm)), pcs := (pcs p)(t := Idle)\<rparr>"

text \<open>The body of the callback of \<open>mutexes.Range\<close> in \<open>gc\<close>, under \<open>bigLock\<close>.\<close>

definition gc_check :: "string \<Rightarrow> nat \<Rightarrow> perKeyMutex \<Rightarrow> perKeyMutex" where
  "gc_check key rcm p =
     (if Val (heap p rcm) = 0 then p\<lparr>mutexes := (mutexes p)(key := None), gc_at := None\<rparr>
      else p\<lparr>gc_at := None\<rparr>)"

definition Close_lockmap :: "perKeyMutex \<Rightarrow> perKeyMutex" where
  "Close_lockmap p = p\<lparr>closed := True\<rparr>"

section \<open>Interleavings\<close>

inductive lm_step :: "perKeyMutex \<Rightarrow> perKeyMutex \<Rightarrow> bool" where
  enter: "pcs p t = Idle \<Longrightarrow> lm_step p (Lock_enter md key t p)"
| acquired: "pcs p t = Waiting md key rcm \<Longrightarrow> can_acquire md (heap p rcm) \<Longrightarrow>
    lm_step p (Lock_acquire md key rcm t p)"
| unlock: "pcs p t = Holding md key rcm \<Longrightarrow> lm_step p (Unlock_release md key rcm t p)"
| dec: "pcs p t = Releasing md key rcm \<Longrightarrow> lm_step p (Unlock_dec rcm t p)"
| gc_range: "gc_at p = None \<Longrightarrow> \<not> closed p \<Longrightarrow> mutexes p key = Some rcm \<Longrightarrow>
    lm_step p (p\<lparr>gc_at := Some (key, rcm)\<rparr>)"
| gc_cull: "gc_at p = Some (key, rcm) \<Longrightarrow> lm_step p (gc_check key rcm p)"
| close: "\<not> closed p \<Longrightarrow> lm_step p (Close_lockmap p)"

inductive lm_reach :: "perKeyMutex \<Rightarrow> bool" where
  init: "lm_reach New_lockmap"
| step: "lm_reach p \<Longrightarrow> lm_step p q \<Longrightarrow> lm_reach q"

section \<open>Invariant\<close>

fun on :: "pc \<Rightarrow> nat \<Rightarrow> bool" where
  "on Idle a = False"
| "on (Waiting md k r) a = (r = a)"
| "on (Holding md k r) a = (r = a)"
| "on (Releasing md k r) a = (r = a)"

fun holds :: "lock_mode \<Rightarrow> pc \<Rightarrow> nat \<Rightarrow> bool" where
  "holds md (Holding md' k r) a = (md' = md \<and> r = a)"
| "holds md _ a = False"

fun target :: "pc \<Rightarrow> (string \<times> nat) option" where
  "target Idle = None"
| "target (Waiting md k r) = Some (k, r)"
| "target (Holding md k r) = Some (k, r)"
| "target (Releasing md k r) = Some (k, r)"

abbreviation users :: "(nat \<Rightarrow> pc) \<Rightarrow> nat \<Rightarrow> nat set" where
  "users f a \<equiv> {t. on (f t) a}"

abbreviation holders :: "lock_mode \<Rightarrow> (nat \<Rightarrow> pc) \<Rightarrow> nat \<Rightarrow> nat set" where
  "holders md f a \<equiv> {t. holds md (f t) a}"

text \<open>Per address: the counter counts the users, the mutex state counts the holders, and a writer is
  alone.\<close>

definition cell_ok :: "(nat \<Rightarrow> pc) \<Rightarrow> (nat \<Rightarrow> refCountedMutex) \<Rightarrow> nat \<Rightarrow> bool" where
  "cell_ok f h a \<longleftrightarrow> finite (users f a) \<and> count (h a) = int (card (users f a)) \<and>
     readers (h a) = card (holders Read f a) \<and>
     (writer (h a) \<longrightarrow> readers (h a) = 0) \<and>
     card (holders Write f a) = (if writer (h a) then 1 else 0)"

definition lm_inv :: "perKeyMutex \<Rightarrow> bool" where
  "lm_inv p \<longleftrightarrow> (\<forall>a. cell_ok (pcs p) (heap p) a) \<and>
     (\<forall>t key rcm. target (pcs p t) = Some (key, rcm) \<longrightarrow> mutexes p key = Some rcm) \<and>
     (\<forall>key rcm. gc_at p = Some (key, rcm) \<longrightarrow> mutexes p key = Some rcm) \<and>
     (\<forall>key rcm. mutexes p key = Some rcm \<longrightarrow> rcm < next_addr p) \<and>
     (\<forall>k k' rcm. mutexes p k = Some rcm \<longrightarrow> mutexes p k' = Some rcm \<longrightarrow> k = k')"

lemma cell_okI:
  assumes "finite (users f a)" "int (card (users f a)) = count (h a)"
    "int (card (holders Read f a)) = int (readers (h a))" "writer (h a) \<Longrightarrow> readers (h a) = 0"
    "int (card (holders Write f a)) = (if writer (h a) then 1 else 0)"
  shows "cell_ok f h a"
  using assms by (auto simp: cell_ok_def split: if_splits)

lemma cell_okD:
  assumes "cell_ok f h a"
  shows "finite (users f a)" "int (card (users f a)) = count (h a)"
    "int (card (holders Read f a)) = int (readers (h a))" "writer (h a) \<Longrightarrow> readers (h a) = 0"
    "int (card (holders Write f a)) = (if writer (h a) then 1 else 0)"
  using assms by (auto simp: cell_ok_def)

lemma cell_ok_cong: "h' a = h a \<Longrightarrow> cell_ok f h' a = cell_ok f h a"
  by (simp only: cell_ok_def)

lemma on_target: "on x a \<longleftrightarrow> (\<exists>k. target x = Some (k, a))"
  by (cases x) auto

lemma holds_target: "holds md x a \<Longrightarrow> on x a"
  by (cases x) auto

lemma finite_holders: "finite (users f a) \<Longrightarrow> finite (holders md f a)"
  by (rule finite_subset [of _ "users f a"]) (auto intro: holds_target)

lemma fun_upd_set: "{t'. P ((f(t := x)) t')} = (if P x then insert t {t'. P (f t')} else {t'. P (f t')} - {t})"
  by auto

text \<open>How the count of threads at an address changes when one thread moves.\<close>

lemma card_upd:
  assumes "finite {t'. P (f t')}"
  shows "int (card {t'. P ((f(t := x)) t')})
    = int (card {t'. P (f t')}) + (if P x then 1 else 0) - (if P (f t) then 1 else 0)"
proof -
  let ?A = "{t'. P (f t')}"
  have pos: "P (f t) \<Longrightarrow> 0 < card ?A" using assms by (auto simp: card_gt_0_iff)
  have "card (insert t ?A) = (if P (f t) then card ?A else card ?A + 1)"
    using assms by (simp add: card_insert_if)
  moreover have "int (card (?A - {t})) = int (card ?A) - (if P (f t) then 1 else 0)"
    using assms pos by (simp add: card_Diff_singleton_if of_nat_diff Suc_le_eq)
  ultimately show ?thesis unfolding fun_upd_set [of P] by (simp only: split: if_split) simp
qed

lemma finite_upd: "finite {t'. P (f t')} \<Longrightarrow> finite {t'. P ((f(t := x)) t')}"
  unfolding fun_upd_set by simp

text \<open>A thread's move that keeps the cell's counters in step keeps \<open>cell_ok\<close>.\<close>

lemma cell_ok_move:
  assumes ok: "cell_ok f h a"
    and c: "count m = count (h a) + (if on x a then 1 else 0) - (if on (f t) a then 1 else 0)"
    and r: "int (readers m) = int (readers (h a)) + (if holds Read x a then 1 else 0) - (if holds Read (f t) a then 1 else 0)"
    and w: "(if writer m then 1 else 0) = (if writer (h a) then 1 else 0) +
       (if holds Write x a then 1 else 0) - (if holds Write (f t) a then 1 else (0::int))"
    and excl: "writer m \<Longrightarrow> readers m = 0"
  shows "cell_ok (f(t := x)) (h(a := m)) a"
proof -
  have fin: "finite (users f a)" using ok by (rule cell_okD(1))
  show ?thesis
  proof (rule cell_okI)
    show "finite (users (f(t := x)) a)" using finite_upd [where P = "\<lambda>y. on y a", OF fin] .
    show "int (card (users (f(t := x)) a)) = count ((h(a := m)) a)"
      using card_upd [where P = "\<lambda>y. on y a", OF fin, of t x] cell_okD(2) [OF ok] c
      unfolding fun_upd_same by linarith
    show "int (card (holders Read (f(t := x)) a)) = int (readers ((h(a := m)) a))"
      using card_upd [where P = "\<lambda>y. holds Read y a", OF finite_holders [OF fin], of t x]
        cell_okD(3) [OF ok] r unfolding fun_upd_same by linarith
    show "int (card (holders Write (f(t := x)) a)) = (if writer ((h(a := m)) a) then 1 else 0)"
      using card_upd [where P = "\<lambda>y. holds Write y a", OF finite_holders [OF fin], of t x]
        cell_okD(5) [OF ok] w unfolding fun_upd_same by presburger
  qed (use excl in simp)
qed

lemma cell_ok_frame:
  assumes "cell_ok f h a" "h' a = h a" "\<not> on (f t) a" "\<not> on x a"
  shows "cell_ok (f(t := x)) h' a"
proof (rule cell_okI)
  have "\<not> holds md (f t) a" "\<not> holds md x a" for md
    using assms(3,4) holds_target by blast+
  then have h: "holders md (f(t := x)) a = holders md f a" for md by auto
  have u: "users (f(t := x)) a = users f a" using assms(3,4) by auto
  show "finite (users (f(t := x)) a)" "int (card (users (f(t := x)) a)) = count (h' a)"
    unfolding u assms(2) by (rule cell_okD [OF assms(1)])+
  show "int (card (holders Read (f(t := x)) a)) = int (readers (h' a))"
    "int (card (holders Write (f(t := x)) a)) = (if writer (h' a) then 1 else 0)"
    unfolding h assms(2) by (rule cell_okD [OF assms(1)])+
qed (use cell_okD(4) [OF assms(1)] assms(2) in simp)

lemma lm_invD:
  assumes "lm_inv p"
  shows "cell_ok (pcs p) (heap p) a"
    "target (pcs p t) = Some (key, rcm) \<Longrightarrow> mutexes p key = Some rcm"
    "gc_at p = Some (key, rcm) \<Longrightarrow> mutexes p key = Some rcm"
    "mutexes p key = Some rcm \<Longrightarrow> rcm < next_addr p"
    "mutexes p k = Some rcm \<Longrightarrow> mutexes p k' = Some rcm \<Longrightarrow> k = k'"
  using assms unfolding lm_inv_def by blast+

lemma fresh_unused:
  assumes "lm_inv p" "next_addr p \<le> a"
  shows "users (pcs p) a = {}" "\<not> on (pcs p t) a"
proof -
  have "\<not> on (pcs p t) a" for t
    using lm_invD(2,4) [OF assms(1)] assms(2) unfolding on_target by (metis not_le)
  then show "users (pcs p) a = {}" "\<not> on (pcs p t) a" by auto
qed

lemma cell_ok_unused:
  assumes "users f a = {}" "h a = newRefCountedMutex"
  shows "cell_ok f h a"
proof -
  have "holders md f a = {}" for md using assms(1) holds_target by blast
  then show ?thesis unfolding cell_ok_def assms by (simp only:) (simp add: newRefCountedMutex_def)
qed

text \<open>A step that moves one thread and one cell, keeping the map: the common shape of acquiring,
  releasing and decrementing.\<close>

lemma lm_inv_move:
  assumes inv: "lm_inv p" and tgt: "target (pcs p t) = Some (key, rcm)"
    and x: "x = Idle \<or> target x = Some (key, rcm)"
    and cell: "cell_ok ((pcs p)(t := x)) ((heap p)(rcm := m)) rcm"
  shows "lm_inv (p\<lparr>heap := (heap p)(rcm := m), pcs := (pcs p)(t := x)\<rparr>)"
proof -
  have "cell_ok ((pcs p)(t := x)) ((heap p)(rcm := m)) a" for a
  proof (cases "a = rcm")
    case False
    then have "\<not> on (pcs p t) a" "\<not> on x a" using tgt x by (auto simp: on_target)
    then show ?thesis using False cell_ok_frame [OF lm_invD(1) [OF inv]] by simp
  qed (simp add: cell)
  moreover have "mutexes p k = Some r" if "target (((pcs p)(t := x)) t') = Some (k, r)" for t' k r
    using that tgt x lm_invD(2) [OF inv] by (cases "t' = t") auto
  ultimately show ?thesis
    using lm_invD(3-5) [OF inv] unfolding lm_inv_def by (auto simp del: fun_upd_apply)
qed

section \<open>Every step keeps the invariant\<close>

lemma holder_card:
  assumes "cell_ok f h a" "holds md (f t) a"
  shows "md = Read \<Longrightarrow> 0 < readers (h a) \<and> \<not> writer (h a)" and "md = Write \<Longrightarrow> writer (h a)"
proof -
  have "0 < card (holders md f a)"
    using assms(2) finite_holders [OF cell_okD(1) [OF assms(1)]] by (auto simp: card_gt_0_iff)
  then show "md = Read \<Longrightarrow> 0 < readers (h a) \<and> \<not> writer (h a)" "md = Write \<Longrightarrow> writer (h a)"
    using cell_okD(3-5) [OF assms(1)] by (auto split: if_splits)
qed

lemma count_zero_iff: "cell_ok f h a \<Longrightarrow> count (h a) = 0 \<longleftrightarrow> users f a = {}"
  using cell_okD(1,2) [of f h a] by (metis card_0_eq of_nat_eq_0_iff)

lemma Lock_acquire_inv [inv_intros]:
  assumes inv: "lm_inv p" and t: "pcs p t = Waiting md key rcm" and can: "can_acquire md (heap p rcm)"
  shows "lm_inv (Lock_acquire md key rcm t p)"
proof -
  have "cell_ok ((pcs p)(t := Holding md key rcm)) ((heap p)(rcm := acquire md (heap p rcm))) rcm"
    by (rule cell_ok_move [OF lm_invD(1) [OF inv]])
      (use t can in \<open>cases md; simp add: acquire_def can_acquire_def\<close>)+
  then show ?thesis unfolding Lock_acquire_def using t by (intro lm_inv_move [OF inv]) auto
qed

lemma Unlock_release_inv [inv_intros]:
  assumes inv: "lm_inv p" and t: "pcs p t = Holding md key rcm"
  shows "lm_inv (Unlock_release md key rcm t p)"
proof -
  have h: "holds md (pcs p t) rcm" using t by simp
  have "cell_ok ((pcs p)(t := Releasing md key rcm)) ((heap p)(rcm := release md (heap p rcm))) rcm"
    by (rule cell_ok_move [OF lm_invD(1) [OF inv]])
      (use t holder_card [OF lm_invD(1) [OF inv] h] in
        \<open>cases md; auto simp: release_def of_nat_diff Suc_le_eq\<close>)+
  then show ?thesis unfolding Unlock_release_def using t by (intro lm_inv_move [OF inv]) auto
qed

lemma Unlock_dec_inv [inv_intros]:
  assumes inv: "lm_inv p" and t: "pcs p t = Releasing md key rcm"
  shows "lm_inv (Unlock_dec rcm t p)"
proof -
  have "cell_ok ((pcs p)(t := Idle)) ((heap p)(rcm := Dec (heap p rcm))) rcm"
    by (rule cell_ok_move [OF lm_invD(1) [OF inv]])
      (use t cell_okD(4) [OF lm_invD(1) [OF inv]] in \<open>simp_all add: Dec_def\<close>)
  then show ?thesis unfolding Unlock_dec_def using t by (intro lm_inv_move [OF inv]) auto
qed

text \<open>The first part of \<open>Lock\<close>: allocating at a fresh address touches no user, so the map and the
  cells stay in order before the reference is counted.\<close>

lemma LoadOrStore_inv:
  assumes inv: "lm_inv p" and ls: "LoadOrStore key p = (rcm, p')"
  shows "lm_inv p'" "mutexes p' key = Some rcm" "pcs p' = pcs p"
proof -
  let ?a = "next_addr p" and ?h = "(heap p)(next_addr p := newRefCountedMutex)"
  have p': "next_addr p' = ?a + 1" "heap p' = ?h" "pcs p' = pcs p" "gc_at p' = gc_at p"
    and m: "mutexes p' = (case mutexes p key of Some v \<Rightarrow> mutexes p | None \<Rightarrow> (mutexes p)(key \<mapsto> ?a))"
    and r: "rcm = (case mutexes p key of Some v \<Rightarrow> v | None \<Rightarrow> ?a)"
    using ls by (auto simp: LoadOrStore_def Let_def split: option.splits)
  show "pcs p' = pcs p" by (rule p')
  show "mutexes p' key = Some rcm" using m r by (auto split: option.splits)
  have ext: "mutexes p k = Some b \<Longrightarrow> mutexes p' k = Some b" for k b
    using m by (auto split: option.splits)
  have bck: "mutexes p' k = Some b \<Longrightarrow> mutexes p k = Some b \<or> (k = key \<and> b = ?a)" for k b
    using m by (auto split: option.splits if_splits)
  have lt: "mutexes p k = Some b \<Longrightarrow> b < ?a" for k b by (rule lm_invD(4) [OF inv])
  have cell: "cell_ok (pcs p) ?h b" for b
  proof (cases "b = ?a")
    case True
    then show ?thesis using fresh_unused(1) [OF inv, of b] by (intro cell_ok_unused) simp_all
  next
    case False
    then show ?thesis using lm_invD(1) [OF inv, of b] cell_ok_cong [of ?h b "heap p"] by simp
  qed
  have "b < ?a + 1" if "mutexes p' k = Some b" for k b
    using bck [OF that] lt [of k b] by auto
  moreover have "k = k'" if "mutexes p' k = Some b" "mutexes p' k' = Some b" for k k' b
    using bck [OF that(1)] bck [OF that(2)] lt [of k b] lt [of k' b] lm_invD(5) [OF inv] by blast
  moreover have "mutexes p' k = Some b" if "target (pcs p t) = Some (k, b)" for t k b
    using ext lm_invD(2) [OF inv that] by blast
  moreover have "mutexes p' k = Some b" if "gc_at p = Some (k, b)" for k b
    using ext lm_invD(3) [OF inv that] by blast
  ultimately show "lm_inv p'" using cell unfolding lm_inv_def p' by blast
qed

lemma Lock_enter_inv [inv_intros]:
  assumes inv: "lm_inv p" and t: "pcs p t = Idle"
  shows "lm_inv (Lock_enter md key t p)"
proof -
  obtain rcm q where ls: "LoadOrStore key p = (rcm, q)" by (cases "LoadOrStore key p")
  note q = LoadOrStore_inv [OF inv ls]
  let ?f = "(pcs q)(t := Waiting md key rcm)" and ?h = "(heap q)(rcm := Inc (heap q rcm))"
  have cell: "cell_ok ?f ?h a" for a
  proof (cases "a = rcm")
    case True
    show ?thesis unfolding True
      by (rule cell_ok_move [OF lm_invD(1) [OF q(1)]])
        (use t q(3) cell_okD(4) [OF lm_invD(1) [OF q(1)]] in \<open>simp_all add: Inc_def\<close>)
  next
    case False
    then show ?thesis
      using t q(3) by (intro cell_ok_frame [OF lm_invD(1) [OF q(1)]]) simp_all
  qed
  have "mutexes q k = Some b" if "target (?f t') = Some (k, b)" for t' k b
    using that q(2) lm_invD(2) [OF q(1)] by (cases "t' = t") auto
  then have "lm_inv (q\<lparr>heap := ?h, pcs := ?f\<rparr>)"
    using cell lm_invD(3-5) [OF q(1)] unfolding lm_inv_def by (auto simp del: fun_upd_apply)
  then show ?thesis by (simp add: Lock_enter_def ls)
qed

text \<open>Culling removes an entry only when its counter is zero, and then no thread refers to it.\<close>

lemma gc_check_inv [inv_intros]:
  assumes inv: "lm_inv p" and gc: "gc_at p = Some (key, rcm)"
  shows "lm_inv (gc_check key rcm p)"
proof (cases "Val (heap p rcm) = 0")
  case False
  then show ?thesis using inv by (simp add: gc_check_def lm_inv_def)
next
  case True
  then have none: "users (pcs p) rcm = {}"
    using count_zero_iff [OF lm_invD(1) [OF inv]] by (simp add: Val_def)
  have keep: "k \<noteq> key" if "target (pcs p t) = Some (k, b)" for t k b
  proof
    assume "k = key"
    then have "b = rcm" using lm_invD(2) [OF inv that] lm_invD(3) [OF inv gc] by simp
    with that none show False by (auto simp: on_target)
  qed
  have "((mutexes p)(key := None)) k = Some b" if "target (pcs p t) = Some (k, b)" for t k b
    using keep [OF that] lm_invD(2) [OF inv that] by simp
  moreover have "b < next_addr p" if "((mutexes p)(key := None)) k = Some b" for k b
    using that lm_invD(4) [OF inv, of k b] by (simp split: if_splits)
  moreover have "k = k'" if "((mutexes p)(key := None)) k = Some b" "((mutexes p)(key := None)) k' = Some b" for k k' b
    using that lm_invD(5) [OF inv, of k b k'] by (simp split: if_splits)
  ultimately show ?thesis
    using True lm_invD(1) [OF inv] by (simp add: gc_check_def lm_inv_def del: fun_upd_apply)
qed

lemma lm_step_inv: "lm_step p q \<Longrightarrow> lm_inv p \<Longrightarrow> lm_inv q"
proof (induction rule: lm_step.induct)
  case (gc_range p key rcm)
  then show ?case unfolding lm_inv_def by auto
next
  case (close p)
  then show ?case by (simp add: lm_inv_def Close_lockmap_def)
qed (blast intro: inv_intros)+

lemma lm_inv_init: "lm_inv New_lockmap"
proof -
  have "cell_ok (\<lambda>_. Idle) (\<lambda>_. newRefCountedMutex) a" for a by (intro cell_ok_unused) simp_all
  then show ?thesis by (simp add: lm_inv_def New_lockmap_def)
qed

lemma lm_reach_inv: "lm_reach p \<Longrightarrow> lm_inv p"
  by (induction rule: lm_reach.induct) (auto intro: lm_inv_init lm_step_inv)

section \<open>Properties\<close>

text \<open>C7: mutual exclusion per key: in every interleaving of \<open>Lock\<close>, \<open>RLock\<close>, their unlock functions
  and the culling goroutine, while one caller holds the write lock of a key no other caller holds the
  lock of that key, for writing or for reading, even if the mutex of the key has been culled and created
  again in between.\<close>

theorem lockmap_exclusion:
  assumes "lm_reach p" and "pcs p t = Holding Write key a" and "pcs p u = Holding md key b"
  shows "t = u \<and> md = Write"
proof -
  have inv: "lm_inv p" using assms(1) by (rule lm_reach_inv)
  have "mutexes p key = Some a" "mutexes p key = Some b"
    using lm_invD(2) [OF inv, of t key a] lm_invD(2) [OF inv, of u key b] assms(2,3) by simp_all
  then have ab: "b = a" by simp
  have ok: "cell_ok (pcs p) (heap p) a" by (rule lm_invD(1) [OF inv])
  have w: "writer (heap p a)" using holder_card(2) [OF ok, of Write t] assms(2) by simp
  have md: "md = Write" using holder_card(1) [OF ok, of md u] w assms(3) ab by (cases md) auto
  have "card (holders Write (pcs p) a) = 1" using cell_okD(5) [OF ok] w by simp
  moreover have "t \<in> holders Write (pcs p) a" "u \<in> holders Write (pcs p) a"
    using assms(2,3) ab md by simp_all
  ultimately show ?thesis using md by (metis card_1_singletonE singletonD)
qed

lemma lm_reach_locked: "lm_reach (Lock_acquire Write ''k'' 0 5 (Lock_enter Write ''k'' 5 New_lockmap))"
proof -
  have e: "lm_reach (Lock_enter Write ''k'' 5 New_lockmap)"
    by (rule lm_reach.step [OF lm_reach.init], rule lm_step.enter) (simp add: New_lockmap_def)
  show ?thesis
    by (rule lm_reach.step [OF e], rule lm_step.acquired)
      (simp_all add: Lock_enter_def LoadOrStore_def New_lockmap_def can_acquire_def Inc_def newRefCountedMutex_def)
qed

theorem lockmap_exclusion_witness:
  "\<forall>u md b. pcs (Lock_acquire Write ''k'' 0 5 (Lock_enter Write ''k'' 5 New_lockmap)) u = Holding md ''k'' b
     \<longleftrightarrow> u = 5 \<and> md = Write \<and> b = 0"
proof (intro allI iffI)
  let ?p = "Lock_acquire Write ''k'' 0 5 (Lock_enter Write ''k'' 5 New_lockmap)"
  fix u md b
  have h: "pcs ?p 5 = Holding Write ''k'' 0" by (simp add: Lock_acquire_def)
  assume a: "pcs ?p u = Holding md ''k'' b"
  with lockmap_exclusion [OF lm_reach_locked h a] h show "u = 5 \<and> md = Write \<and> b = 0" by simp
qed (simp add: Lock_acquire_def)

text \<open>the culling goroutine never removes a mutex somebody waits for, holds or is releasing, and
  when it examines an entry nobody uses it does remove it, so unused entries do not accumulate.\<close>

theorem gc_removes_exactly_unused:
  assumes "lm_reach p" and "gc_at p = Some (key, rcm)"
  shows "mutexes (gc_check key rcm p) key = None \<longleftrightarrow> (\<forall>t md r. pcs p t \<noteq> Waiting md key r \<and>
     pcs p t \<noteq> Holding md key r \<and> pcs p t \<noteq> Releasing md key r)"
proof -
  have inv: "lm_inv p" using assms(1) by (rule lm_reach_inv)
  have at: "mutexes p key = Some rcm" by (rule lm_invD(3) [OF inv assms(2)])
  have ok: "cell_ok (pcs p) (heap p) rcm" by (rule lm_invD(1) [OF inv])
  have u: "users (pcs p) rcm = {t. \<exists>r. target (pcs p t) = Some (key, r)}"
  proof (intro set_eqI iffI; simp add: on_target)
    fix t assume "\<exists>k. target (pcs p t) = Some (k, rcm)"
    then show "\<exists>r. target (pcs p t) = Some (key, r)" using lm_invD(2,5) [OF inv] at by blast
  next
    fix t assume "\<exists>r. target (pcs p t) = Some (key, r)"
    then show "\<exists>k. target (pcs p t) = Some (k, rcm)" using lm_invD(2) [OF inv] at by fastforce
  qed
  have t: "(\<exists>r. target x = Some (key, r)) \<longleftrightarrow>
      \<not> (\<forall>md r. x \<noteq> Waiting md key r \<and> x \<noteq> Holding md key r \<and> x \<noteq> Releasing md key r)" for x
    by (cases x) auto
  have "mutexes (gc_check key rcm p) key = None \<longleftrightarrow> users (pcs p) rcm = {}"
    using count_zero_iff [OF ok] at by (simp add: gc_check_def Val_def)
  then show ?thesis unfolding u using t by blast
qed

lemma lm_reach_gc: "lm_reach ((Lock_enter Read ''k'' 3 New_lockmap)\<lparr>gc_at := Some (''k'', 0)\<rparr>)"
proof -
  have e: "lm_reach (Lock_enter Read ''k'' 3 New_lockmap)"
    by (rule lm_reach.step [OF lm_reach.init], rule lm_step.enter) (simp add: New_lockmap_def)
  show ?thesis
    by (rule lm_reach.step [OF e], rule lm_step.gc_range)
      (simp_all add: Lock_enter_def LoadOrStore_def New_lockmap_def)
qed

theorem gc_removes_exactly_unused_witness:
  "mutexes (gc_check ''k'' 0 ((Lock_enter Read ''k'' 3 New_lockmap)\<lparr>gc_at := Some (''k'', 0)\<rparr>)) ''k'' \<noteq> None"
proof -
  let ?p = "(Lock_enter Read ''k'' 3 New_lockmap)\<lparr>gc_at := Some (''k'', 0)\<rparr>"
  have "pcs ?p 3 = Waiting Read ''k'' 0" by (simp add: Lock_enter_def LoadOrStore_def New_lockmap_def)
  then show ?thesis using gc_removes_exactly_unused [OF lm_reach_gc, of "''k''" 0] by auto
qed

end
