(* ===== verification/Go_Strings.thy ===== *)
theory Go_Strings
  imports Prelude
begin

text \<open>
  The string functions of Go's standard library that the program calls, on byte strings:
  \<open>strings.Split\<close> and \<open>strings.SplitN(_, _, 2)\<close> with a one-byte separator, \<open>strings.Join\<close>,
  \<open>strings.HasPrefix\<close>, \<open>strings.TrimPrefix\<close>, \<open>strings.Contains\<close>, \<open>strconv.Atoi\<close> with its two
  errors and \<open>strconv.Itoa\<close> (also \<open>strconv.FormatInt(_, 10)\<close> and the \<open>%d\<close> verb). The lemmas are
  the round trips the components need: \<open>Atoi_Itoa\<close> and \<open>Split_Join\<close>.
\<close>

section \<open>Splitting and joining\<close>

fun Split :: "char \<Rightarrow> string \<Rightarrow> string list" where
  "Split c [] = [[]]"
| "Split c (x # xs) =
     (if x = c then [] # Split c xs
      else (case Split c xs of [] \<Rightarrow> [[x]] | p # ps \<Rightarrow> (x # p) # ps))"

fun Join :: "string \<Rightarrow> string list \<Rightarrow> string" where
  "Join sep [] = []"
| "Join sep [p] = p"
| "Join sep (p # q # ps) = p @ sep @ Join sep (q # ps)"

text \<open>\<open>strings.SplitN(s, c, 2)\<close>: cut at the first separator only.\<close>

fun SplitN2 :: "char \<Rightarrow> string \<Rightarrow> string list" where
  "SplitN2 c s =
     (if c \<in> set s then [takeWhile (\<lambda>x. x \<noteq> c) s, tl (dropWhile (\<lambda>x. x \<noteq> c) s)] else [s])"

lemma Split_neq_Nil [simp]: "Split c s \<noteq> []"
  by (cases s) (auto split: list.splits)

lemma Split_no_sep: "c \<notin> set s \<Longrightarrow> Split c s = [s]"
  by (induction s) auto

lemma Split_append_sep: "c \<notin> set p \<Longrightarrow> Split c (p @ c # s) = p # Split c s"
  by (induction p) (auto split: list.splits)

lemma Split_Join:
  "ps \<noteq> [] \<Longrightarrow> \<forall>p\<in>set ps. c \<notin> set p \<Longrightarrow> Split c (Join [c] ps) = ps"
  by (induction "[c]" ps rule: Join.induct) (auto simp: Split_no_sep Split_append_sep)

lemma Split_parts_no_sep: "p \<in> set (Split c s) \<Longrightarrow> c \<notin> set p"
  by (induction c s arbitrary: p rule: Split.induct)
    (fastforce split: if_splits list.splits)+

lemma length_Split: "length (Split c s) = Suc (count_list s c)"
  by (induction s) (auto split: list.splits)

lemma last_Split_append: "c \<notin> set p \<Longrightarrow> last (Split c (s @ c # p)) = p"
proof (induction s)
  case Nil
  then show ?case by (simp add: Split_no_sep)
next
  case (Cons x s)
  have "1 < length (Split c (s @ c # p))"
    by (simp add: length_Split)
  with Cons show ?case by (cases "Split c (s @ c # p)") auto
qed

section \<open>File names\<close>

text \<open>\<open>filepath.Base\<close>: the last element of a path.\<close>

definition strip_slashes :: "string \<Rightarrow> string" where
  "strip_slashes s = rev (dropWhile (\<lambda>c. c = CHR ''/'') (rev s))"

definition Base :: "string \<Rightarrow> string" where
  "Base path = (if path = [] then ''.''
     else (let s = strip_slashes path in if s = [] then ''/'' else last (Split CHR ''/'' s)))"

text \<open>\<open>filepath.Clean\<close>: empty and single-dot elements go, a double dot takes the element before it away, at the root
  itself, and stays in front of a relative path. The elements kept so far are a stack.\<close>

definition clean_step :: "bool \<Rightarrow> string list \<Rightarrow> string \<Rightarrow> string list" where
  "clean_step rooted st c = (if c = [] \<or> c = ''.'' then st
     else if c = ''..'' then (case st of [] \<Rightarrow> (if rooted then [] else [''..'']) | t # ts \<Rightarrow> (if t = ''..'' then ''..'' # st else ts))
     else c # st)"

definition is_abs :: "string \<Rightarrow> bool" where
  "is_abs p \<longleftrightarrow> p \<noteq> [] \<and> hd p = CHR ''/''"

definition render_path :: "bool \<Rightarrow> string list \<Rightarrow> string" where
  "render_path rooted st = (if rooted then ''/'' @ Join ''/'' (rev st) else if st = [] then ''.'' else Join ''/'' (rev st))"

definition clean_stack :: "string \<Rightarrow> string list" where
  "clean_stack p = foldl (clean_step (is_abs p)) [] (Split CHR ''/'' p)"

definition Clean :: "string \<Rightarrow> string" where
  "Clean p = render_path (is_abs p) (clean_stack p)"

text \<open>\<open>filepath.Join\<close>: empty elements are ignored, the result is cleaned.\<close>

definition path_join :: "string list \<Rightarrow> string" where
  "path_join es = (case filter (\<lambda>e. e \<noteq> []) es of [] \<Rightarrow> [] | xs \<Rightarrow> Clean (Join ''/'' xs))"

text \<open>A name for an entry of a directory, and the path of that entry in a clean directory.\<close>

definition plain_name :: "string \<Rightarrow> bool" where
  "plain_name n \<longleftrightarrow> n \<noteq> [] \<and> n \<noteq> ''.'' \<and> n \<noteq> ''..'' \<and> CHR ''/'' \<notin> set n"

definition entry_of :: "string \<Rightarrow> string \<Rightarrow> string" where
  "entry_of d n = (if d = ''.'' then n else if d = ''/'' then ''/'' @ n else d @ ''/'' @ n)"

lemma Split_append_last: "c \<notin> set n \<Longrightarrow> Split c (d @ c # n) = Split c d @ [n]"
proof (induction d)
  case (Cons x d)
  then show ?case by (cases "x = c"; cases "Split c d") auto
qed (simp add: Split_no_sep)

definition path_element :: "string \<Rightarrow> bool" where
  "path_element e \<longleftrightarrow> e \<noteq> [] \<and> e \<noteq> ''.'' \<and> CHR ''/'' \<notin> set e"

lemma clean_step_elements:
  "list_all path_element st \<Longrightarrow> CHR ''/'' \<notin> set c \<Longrightarrow> list_all path_element (clean_step r st c)"
  by (cases st) (auto simp: clean_step_def path_element_def)

lemma clean_steps_elements:
  "list_all path_element st \<Longrightarrow> \<forall>c\<in>set cs. CHR ''/'' \<notin> set c \<Longrightarrow> list_all path_element (foldl (clean_step r) st cs)"
  by (induction cs arbitrary: st) (simp_all add: clean_step_elements)

lemma clean_stack_elements: "list_all path_element (clean_stack p)"
  unfolding clean_stack_def by (rule clean_steps_elements) (auto dest: Split_parts_no_sep)

lemma Join_snoc: "Join s (xs @ [x]) = (if xs = [] then x else Join s xs @ s @ x)"
  by (induction s xs rule: Join.induct) auto

lemma Join_nonempty: "xs \<noteq> [] \<Longrightarrow> \<forall>x\<in>set xs. x \<noteq> [] \<Longrightarrow> Join s xs \<noteq> []"
  by (induction s xs rule: Join.induct) auto

lemma Join_dot: "\<forall>x\<in>set xs. x \<noteq> [] \<and> x \<noteq> ''.'' \<Longrightarrow> Join ''/'' xs \<noteq> ''.''"
proof (cases xs)
  case (Cons y ys)
  moreover assume "\<forall>x\<in>set xs. x \<noteq> [] \<and> x \<noteq> ''.''"
  ultimately show ?thesis by (cases ys; cases y) auto
qed simp

lemma render_entry:
  assumes "list_all path_element st"
  shows "render_path r (n # st) = entry_of (render_path r st) n"
proof (cases "st = []")
  case False
  then have ne: "Join ''/'' (rev st) \<noteq> []" and dot: "Join ''/'' (rev st) \<noteq> ''.''"
    using Join_nonempty [of "rev st"] Join_dot [of "rev st"] assms by (auto simp: list_all_iff path_element_def)
  have "Join ''/'' (rev st) \<noteq> ''/''"
  proof -
    obtain y ys where y: "rev st = y # ys" using False by (cases "rev st") auto
    then have "y \<in> set st" by (metis list.set_intros(1) set_rev)
    then have "path_element y" using assms by (simp add: list_all_iff)
    then obtain c cs where "y = c # cs" "c \<noteq> CHR ''/''" by (cases y) (auto simp: path_element_def)
    then show ?thesis using y by (cases ys) auto
  qed
  then show ?thesis using False ne dot by (simp add: render_path_def entry_of_def Join_snoc)
qed (simp add: render_path_def entry_of_def)

text \<open>Joining a plain name to a directory names an entry of the directory.\<close>

lemma path_join_entry:
  assumes "plain_name n"
  shows "path_join [d, n] = entry_of (Clean d) n"
proof (cases "d = []")
  case True
  have "clean_stack n = [n]" "\<not> is_abs n"
    using assms by (simp_all add: clean_stack_def clean_step_def plain_name_def Split_no_sep is_abs_def) (metis hd_in_set)
  moreover have "Clean [] = ''.''" by (simp add: Clean_def clean_stack_def clean_step_def render_path_def is_abs_def)
  ultimately show ?thesis using True assms by (simp add: path_join_def Clean_def render_path_def entry_of_def plain_name_def)
next
  case False
  have n: "CHR ''/'' \<notin> set n" "clean_step r st n = n # st" for r st using assms by (auto simp: plain_name_def clean_step_def)
  have abs: "is_abs (d @ ''/'' @ n) = is_abs d" using False by (simp add: is_abs_def)
  have "clean_stack (d @ ''/'' @ n) = n # clean_stack d"
    using Split_append_last [OF n(1), of d] n(2) by (simp add: clean_stack_def abs [simplified])
  then show ?thesis
    using False assms render_entry [OF clean_stack_elements [of d], of "is_abs d" n] abs
    by (simp add: path_join_def Clean_def plain_name_def)
qed

section \<open>Prefixes\<close>

fun HasPrefix :: "string \<Rightarrow> string \<Rightarrow> bool" where
  "HasPrefix s [] = True"
| "HasPrefix [] (p # ps) = False"
| "HasPrefix (x # xs) (p # ps) = (x = p \<and> HasPrefix xs ps)"

definition TrimPrefix :: "string \<Rightarrow> string \<Rightarrow> string" where
  "TrimPrefix s p = (if HasPrefix s p then drop (length p) s else s)"

fun Contains :: "string \<Rightarrow> string \<Rightarrow> bool" where
  "Contains [] sub = (sub = [])"
| "Contains (x # xs) sub = (HasPrefix (x # xs) sub \<or> Contains xs sub)"

lemma HasPrefix_iff: "HasPrefix s p \<longleftrightarrow> (\<exists>t. s = p @ t)"
  by (induction s p rule: HasPrefix.induct) auto

lemma TrimPrefix_append [simp]: "TrimPrefix (p @ s) p = s"
  by (simp add: TrimPrefix_def HasPrefix_iff)

lemma Contains_prefix: "Contains (p @ s) p"
  by (cases p; cases s) (auto simp: HasPrefix_iff)

section \<open>Decimal numbers\<close>

definition is_digit :: "char \<Rightarrow> bool" where
  "is_digit c \<longleftrightarrow> 48 \<le> (of_char c :: nat) \<and> (of_char c :: nat) \<le> 57"

definition digit_val :: "char \<Rightarrow> nat" where
  "digit_val c = of_char c - 48"

definition digit_char :: "nat \<Rightarrow> char" where
  "digit_char d = char_of (d + 48)"

fun dec_val :: "nat \<Rightarrow> string \<Rightarrow> nat" where
  "dec_val acc [] = acc"
| "dec_val acc (c # cs) = dec_val (10 * acc + digit_val c) cs"

datatype num_error = ErrSyntax | ErrRange

text \<open>\<open>strconv.Atoi\<close>: an optional sign, at least one digit, nothing else; out of the range of
  \<open>int\<close> (64 bits) is \<open>ErrRange\<close>.\<close>

definition Atoi :: "string \<Rightarrow> num_error + int" where
  "Atoi s =
     (let neg = (s \<noteq> [] \<and> hd s = CHR ''-'');
          ds = (if s \<noteq> [] \<and> (hd s = CHR ''-'' \<or> hd s = CHR ''+'') then tl s else s)
      in if ds = [] \<or> \<not> list_all is_digit ds then Inl ErrSyntax
         else let v = (if neg then - int (dec_val 0 ds) else int (dec_val 0 ds))
              in if in_int64 v then Inr v else Inl ErrRange)"

fun dec_digits :: "nat \<Rightarrow> string" where
  "dec_digits n = (if n < 10 then [digit_char n] else dec_digits (n div 10) @ [digit_char (n mod 10)])"

declare dec_digits.simps [simp del]

definition Itoa :: "int \<Rightarrow> string" where
  "Itoa i = (if i < 0 then CHR ''-'' # dec_digits (nat (- i)) else dec_digits (nat i))"

lemma of_char_digit_char: "d < 10 \<Longrightarrow> of_char (digit_char d) = d + 48"
  unfolding digit_char_def by (subst of_char_of) simp

lemma digit_val_char [simp]: "d < 10 \<Longrightarrow> digit_val (digit_char d) = d"
  by (simp add: digit_val_def of_char_digit_char)

lemma is_digit_char [simp]: "d < 10 \<Longrightarrow> is_digit (digit_char d)"
  by (simp add: is_digit_def of_char_digit_char)

lemma is_digit_neq:
  "\<not> is_digit CHR ''-''" "\<not> is_digit CHR '',''" "\<not> is_digit CHR ''+''" "\<not> is_digit CHR ''.''"
  by (simp_all add: is_digit_def)

lemma dec_digits_neq_Nil [simp]: "dec_digits n \<noteq> []"
  by (subst dec_digits.simps) simp

lemma dec_digits_all: "list_all is_digit (dec_digits n)"
proof (induction n rule: dec_digits.induct)
  case (1 n)
  then show ?case by (cases "n < 10") (auto simp: dec_digits.simps [of n])
qed

lemma dec_val_append: "dec_val acc (xs @ [c]) = 10 * dec_val acc xs + digit_val c"
  by (induction xs arbitrary: acc) auto

lemma dec_val_digits [simp]: "dec_val 0 (dec_digits n) = n"
proof (induction n rule: dec_digits.induct)
  case (1 n)
  then show ?case by (cases "n < 10") (auto simp: dec_digits.simps [of n] dec_val_append)
qed

lemma dec_digits_no_sep: "\<not> is_digit c \<Longrightarrow> c \<notin> set (dec_digits n)"
  using dec_digits_all [of n] by (auto simp: list_all_iff)

lemma hd_dec_digits: "is_digit (hd (dec_digits n))"
  using dec_digits_all [of n] by (cases "dec_digits n") auto

lemma Atoi_dec_digits: "int n \<le> max_int64 \<Longrightarrow> Atoi (dec_digits n) = Inr (int n)"
  using hd_dec_digits [of n] dec_digits_all [of n]
  by (auto simp: Atoi_def Let_def in_int64_def is_digit_neq)

lemma Atoi_Itoa [go_lib]: "in_int64 i \<Longrightarrow> Atoi (Itoa i) = Inr i"
proof (cases "i < 0")
  case True
  assume "in_int64 i"
  with True dec_digits_all [of "nat (- i)"] show ?thesis
    by (simp add: Itoa_def Atoi_def in_int64_def)
next
  case False
  assume "in_int64 i"
  with False show ?thesis
    using Atoi_dec_digits [of "nat i"] by (simp add: Itoa_def in_int64_def)
qed

lemma Itoa_nonneg_no_sep: "0 \<le> i \<Longrightarrow> \<not> is_digit c \<Longrightarrow> c \<notin> set (Itoa i)"
  by (simp add: Itoa_def dec_digits_no_sep)

lemma Itoa_inject: "in_int64 i \<Longrightarrow> in_int64 j \<Longrightarrow> Itoa i = Itoa j \<Longrightarrow> i = j"
  by (metis Atoi_Itoa sum.inject(2))

lemma Atoi_no_minus_nonneg: "Atoi s = Inr v \<Longrightarrow> CHR ''-'' \<notin> set s \<Longrightarrow> 0 \<le> v"
  by (cases s) (auto simp: Atoi_def Let_def split: if_splits)

lemma Atoi_in_int64: "Atoi s = Inr v \<Longrightarrow> in_int64 v"
  by (auto simp: Atoi_def Let_def split: if_splits)

lemma Atoi_Nil [simp]: "Atoi [] = Inl ErrSyntax"
  by (simp add: Atoi_def)

end
