(* ===== verification/Kube_Types.thy ===== *)
theory Kube_Types
  imports Go_Strings
begin

text \<open>
  The objects the controllers read and write, the Kubernetes client and the libraries they call.

  Objects are records with the fields the program uses: the \<open>VirtualMachine\<close> resource as its schema
  in \<open>src/config/crd/bases\<close> describes it, Pods, PersistentVolumeClaims and network attachment
  definitions. A pointer or a map that may be nil is an \<open>option\<close>; a string-typed enumeration is a
  \<open>datatype\<close> whose first constructor is the empty string.

  The API server and the third-party libraries are not code of this repository. They are the two
  records of functions \<open>api\<close> (the controller-runtime client, over an arbitrary type \<open>'w\<close> of cluster
  states) and \<open>ext\<close> (library functions on values), which every operation takes as arguments; no
  law about them is built in. Quantities are exact multiples of \<open>10\<^sup>-\<^sup>9\<close>, the finest unit a
  Kubernetes quantity has.
\<close>

section \<open>Quantities\<close>

type_synonym quantity = int

abbreviation nano :: int where "nano \<equiv> 1000000000"

definition NewQuantity :: "int \<Rightarrow> quantity" where
  "NewQuantity v = v * nano"

definition IsZero :: "quantity \<Rightarrow> bool" where
  "IsZero q \<longleftrightarrow> q = 0"

text \<open>\<open>Value\<close> and \<open>MilliValue\<close> round up.\<close>

definition q_Value :: "quantity \<Rightarrow> int" where
  "q_Value q = - ((- q) div nano)"

definition q_MilliValue :: "quantity \<Rightarrow> int" where
  "q_MilliValue q = - ((- q) div 1000000)"

text \<open>\<open>resource.MustParse\<close> of the two constants that occur: \<open>256Mi\<close> and \<open>1Gi\<close>.\<close>

definition q_256Mi :: quantity where "q_256Mi = NewQuantity (256 * 2 ^ 20)"
definition q_1Gi :: quantity where "q_1Gi = NewQuantity (2 ^ 30)"

lemma q_Value_NewQuantity [simp]: "q_Value (NewQuantity v) = v"
proof -
  have "- (v * nano) div nano = - v" by (simp add: minus_mult_left del: mult_minus_left)
  then show ?thesis by (simp add: q_Value_def NewQuantity_def)
qed

type_synonym resource_list = "(string, quantity) gomap"

text \<open>A missing entry of a resource list reads as the zero quantity.\<close>

definition rl_get :: "resource_list \<Rightarrow> string \<Rightarrow> quantity" where
  "rl_get m r = (case gm_get m r of None \<Rightarrow> 0 | Some q \<Rightarrow> q)"

abbreviation ResourceCPU :: string where "ResourceCPU \<equiv> ''cpu''"
abbreviation ResourceMemory :: string where "ResourceMemory \<equiv> ''memory''"

record requirements =
  Requests :: resource_list
  Limits :: resource_list

section \<open>Object metadata\<close>

record owner_ref =
  or_apiVersion :: string
  or_kind :: string
  or_name :: string
  or_uid :: string

record meta =
  m_name :: string
  m_generateName :: string
  m_namespace :: string
  m_uid :: string
  m_labels :: "(string, string) gomap"
  m_annotations :: "(string, string) gomap"
  m_finalizers :: "string list"
  m_deletionTimestamp :: "nat option"
  m_creationTimestamp :: nat
  m_owners :: "owner_ref list"

text \<open>\<open>obj.DeletionTimestamp != nil && !obj.DeletionTimestamp.IsZero()\<close>\<close>

definition being_deleted :: "meta \<Rightarrow> bool" where
  "being_deleted m \<longleftrightarrow> (case m_deletionTimestamp m of None \<Rightarrow> False | Some t \<Rightarrow> t \<noteq> 0)"

definition empty_meta :: meta where
  "empty_meta = \<lparr>m_name = [], m_generateName = [], m_namespace = [], m_uid = [], m_labels = None,
     m_annotations = None, m_finalizers = [], m_deletionTimestamp = None, m_creationTimestamp = 0,
     m_owners = []\<rparr>"

record key =
  k_ns :: string
  k_name :: string

section \<open>Pods\<close>

datatype pod_phase = PodPhaseEmpty | PodPending | PodRunning | PodSucceeded | PodFailed | PodUnknown

datatype resize_status = ResizeEmpty | ResizeProposed | ResizeInProgress | ResizeDeferred | ResizeInfeasible

datatype env_source = Value string | FieldRef string

record env_var =
  ev_name :: string
  ev_value :: env_source

record volume_mount =
  vmt_name :: string
  vmt_path :: string
  vmt_hostToContainer :: bool

record volume_device =
  vd_name :: string
  vd_path :: string

record container =
  c_name :: string
  c_image :: string
  c_imagePullPolicy :: string
  c_command :: "string list"
  c_args :: "string list"
  c_env :: "env_var list"
  c_resources :: requirements
  c_volumeMounts :: "volume_mount list"
  c_volumeDevices :: "volume_device list"
  c_addCapabilities :: "string list"
  c_privileged :: bool
  c_livenessProbe :: "string option"
  c_readinessProbe :: "string option"

datatype pod_volume_source = EmptyDir string | Secret string | PersistentVolumeClaim string
  | HostPath string | OtherSource

record pod_volume =
  pv_name :: string
  pv_source :: pod_volume_source

record affinity_term =
  at_label :: "string \<times> string"
  at_topologyKey :: string

record affinity =
  af_nodeHostnames :: "string list option"
  af_podAntiRequired :: "affinity_term list option"
  af_other :: string

record pod_spec =
  ps_restartNever :: bool
  ps_hostNetwork :: bool
  ps_nodeName :: string
  ps_nodeSelector :: "(string, string) gomap"
  ps_tolerations :: "string list"
  ps_affinity :: "affinity option"
  ps_imagePullSecrets :: "string list"
  ps_containers :: "container list"
  ps_initContainers :: "container list"
  ps_volumes :: "pod_volume list"

record container_status =
  cs_name :: string
  cs_resources :: "requirements option"

record condition =
  cd_type :: string
  cd_status :: string
  cd_reason :: string
  cd_message :: string

record pod_status =
  pst_phase :: pod_phase
  pst_conditions :: "condition list"
  pst_containerStatuses :: "container_status list"
  pst_resize :: resize_status

record pod =
  p_meta :: meta
  p_spec :: pod_spec
  p_status :: pod_status

definition empty_pod :: pod where
  "empty_pod = \<lparr>p_meta = empty_meta,
     p_spec = \<lparr>ps_restartNever = False, ps_hostNetwork = False, ps_nodeName = [], ps_nodeSelector = None,
       ps_tolerations = [], ps_affinity = None, ps_imagePullSecrets = [], ps_containers = [],
       ps_initContainers = [], ps_volumes = []\<rparr>,
     p_status = \<lparr>pst_phase = PodPhaseEmpty, pst_conditions = [], pst_containerStatuses = [],
       pst_resize = ResizeEmpty\<rparr>\<rparr>"

definition empty_container :: container where
  "empty_container = \<lparr>c_name = [], c_image = [], c_imagePullPolicy = [], c_command = [], c_args = [],
     c_env = [], c_resources = \<lparr>Requests = None, Limits = None\<rparr>, c_volumeMounts = [],
     c_volumeDevices = [], c_addCapabilities = [], c_privileged = False, c_livenessProbe = None,
     c_readinessProbe = None\<rparr>"

section \<open>The VirtualMachine resource\<close>

datatype run_policy = RunPolicyEmpty | RunAlways | RunPolicyRerunOnFailure | RunPolicyOnce
  | RunPolicyManual | RunPolicyHalted | RunPolicyOther string

datatype power_action = PowerNone | VirtualMachinePowerOn | VirtualMachinePowerOff
  | VirtualMachineShutdown | VirtualMachineReset | VirtualMachineReboot

datatype vm_phase = PhaseEmpty | VirtualMachinePending | VirtualMachineScheduling
  | VirtualMachineScheduled | VirtualMachineRunning | VirtualMachineSucceeded | VirtualMachineFailed
  | VirtualMachineUnknown | VirtualMachinePodResizeInProgress | VirtualMachineResizeInProgress
  | VirtualMachinePodResizeDeferred | VirtualMachinePodResizeInfeasible
  | VirtualMachineSnapshotInprogress | VirtualMachineRestoreInProgress | VirtualMachinePaused
  | VirtualMachineResumed

datatype migration_phase = MigrationEmpty | MigrationPending | MigrationScheduling
  | MigrationScheduled | MigrationTargetReady | MigrationRunning | MigrationSent
  | MigrationSucceeded | MigrationFailed

datatype volume_phase = VolumePhaseEmpty | VolumePending | VolumeAttachedToNode | VolumeMountedToPod
  | VolumeReady | VolumeDetaching

record cpu =
  Sockets :: "32 word"
  CoresPerSocket :: "32 word"
  DedicatedCPUPlacement :: bool

record memory =
  mem_Size :: quantity
  mem_Hugepages :: "string option"

record kernel =
  kn_image :: string
  kn_imagePullPolicy :: string
  kn_cmdline :: string

record disk =
  dk_name :: string
  dk_readOnly :: bool

record iface =
  if_name :: string
  if_MAC :: string
  if_Bridge :: bool
  if_Masquerade :: "string option"
  if_SRIOV :: bool
  if_VDPA :: bool
  if_VhostUser :: bool
  if_VDPA_NumQueues :: int
  if_VDPA_IOMMU :: bool

record gpu =
  gpu_name :: string
  gpu_resourceName :: string
  gpu_resourceEnvName :: string

record vm_instance =
  i_cpu :: cpu
  i_memory :: memory
  i_kernel :: "kernel option"
  i_disks :: "disk list"
  i_fileSystems :: "string list"
  i_interfaces :: "iface list"
  i_gpus :: "gpu list"
  i_pmem :: "string list"

record container_disk =
  cdk_image :: string
  cdk_imagePullPolicy :: string

record cloud_init =
  UserData :: string
  UserDataBase64 :: string
  UserDataSecretName :: string
  NetworkData :: string
  NetworkDataBase64 :: string
  NetworkDataSecretName :: string

record container_rootfs =
  cr_image :: string
  cr_imagePullPolicy :: string
  cr_size :: quantity

record pvc_source =
  pvc_claim :: string
  pvc_hotpluggable :: bool

record volume =
  v_name :: string
  v_ContainerDisk :: "container_disk option"
  v_CloudInit :: "cloud_init option"
  v_ContainerRootfs :: "container_rootfs option"
  v_PersistentVolumeClaim :: "pvc_source option"
  v_DataVolume :: "pvc_source option"
  v_VirtualDisk :: "pvc_source option"
  v_MemorySnapshot :: "(string \<times> string) option"

record network =
  n_name :: string
  n_Pod :: bool
  n_Multus :: "string option"

record vm_spec =
  s_RunPolicy :: run_policy
  s_Instance :: vm_instance
  s_Volumes :: "volume list"
  s_Networks :: "network list"
  s_Resources :: requirements
  s_NodeSelector :: "(string, string) gomap"
  s_Tolerations :: "string list"
  s_Affinity :: "affinity option"
  s_LivenessProbe :: "string option"
  s_ReadinessProbes :: "string option"

record migration =
  mg_UID :: string
  mg_Phase :: migration_phase
  mg_TargetVMPodName :: string
  mg_TargetVMPodUID :: string
  mg_TargetNodeName :: string
  mg_TargetVolumePodUID :: string
  mg_TargetNodeIP :: string
  mg_TargetNodePort :: int

record hotplug_status =
  hv_VolumePodName :: string
  hv_VolumePodUID :: string

record volume_status =
  vs_Name :: string
  vs_Phase :: volume_phase
  vs_HotplugVolume :: "hotplug_status option"

record vm_status =
  st_Phase :: vm_phase
  st_VMPodName :: string
  st_VMPodUID :: string
  st_NodeName :: string
  st_PowerAction :: power_action
  st_Conditions :: "condition list"
  st_Migration :: "migration option"
  st_VolumeStatus :: "volume_status list"

record vm =
  vm_meta :: meta
  vm_spec :: vm_spec
  vm_status :: vm_status

abbreviation vm_Name :: "vm \<Rightarrow> string" where "vm_Name v \<equiv> m_name (vm_meta v)"
abbreviation vm_Namespace :: "vm \<Rightarrow> string" where "vm_Namespace v \<equiv> m_namespace (vm_meta v)"
abbreviation vm_UID :: "vm \<Rightarrow> string" where "vm_UID v \<equiv> m_uid (vm_meta v)"
abbreviation phase :: "vm \<Rightarrow> vm_phase" where "phase v \<equiv> st_Phase (vm_status v)"
abbreviation p_name :: "pod \<Rightarrow> string" where "p_name p \<equiv> m_name (p_meta p)"
abbreviation p_uid :: "pod \<Rightarrow> string" where "p_uid p \<equiv> m_uid (p_meta p)"

section \<open>Other objects\<close>

record pvc =
  pvc_meta :: meta
  pvc_volumeMode :: "string option"
  pvc_dataSource :: "(string \<times> string \<times> string) option"
  pvc_accessModes :: "string list"
  pvc_requests :: resource_list

record nad =
  nad_annotations :: "(string, string) gomap"
  nad_config :: string

record nadConfig =
  nc_Type :: string
  nc_VhostUserSocketVolumeName :: string
  nc_VhostUserSocketName :: string

section \<open>Errors and results\<close>

datatype api_error = NotFound | Conflict | AlreadyExists | OtherApiError string

record Result =
  Requeue :: bool
  RequeueAfter :: nat

text \<open>The error values of \<open>src/internal/controller/errors.go\<close> and their wrapping: \<open>ErrW\<close> is
  \<open>fmt.Errorf\<close> with \<open>%w\<close>, which \<open>errors.As\<close> sees through, \<open>ErrS\<close> with \<open>%s\<close>, which it does not.\<close>

datatype err = ApiErr api_error | ReconcileError Result | ErrNew string | ErrS string err | ErrW string err

fun errors_As :: "err \<Rightarrow> Result option" where
  "errors_As (ReconcileError r) = Some r"
| "errors_As (ErrW s e) = errors_As e"
| "errors_As _ = None"

abbreviation no_requeue :: Result where
  "no_requeue \<equiv> \<lparr>Requeue = False, RequeueAfter = 0\<rparr>"

section \<open>The client and the libraries\<close>

record 'w api =
  kListVMs :: "string \<Rightarrow> 'w \<Rightarrow> api_error + vm list"
  kGetVM :: "key \<Rightarrow> 'w \<Rightarrow> api_error + vm"
  kGetPod :: "key \<Rightarrow> 'w \<Rightarrow> api_error + pod"
  kListPodsByVMUID :: "string \<Rightarrow> 'w \<Rightarrow> api_error + pod list"
  kListPods :: "string \<Rightarrow> 'w \<Rightarrow> api_error + pod list"
  kGetPVC :: "key \<Rightarrow> 'w \<Rightarrow> api_error + pvc"
  kIsPopulated :: "pvc \<Rightarrow> 'w \<Rightarrow> api_error + bool"
  kGetNAD :: "key \<Rightarrow> 'w \<Rightarrow> api_error + nad"
  kCreatePod :: "pod \<Rightarrow> 'w \<Rightarrow> (api_error + pod) \<times> 'w"
  kDeletePod :: "pod \<Rightarrow> 'w \<Rightarrow> api_error option \<times> 'w"
  kUpdateVM :: "vm \<Rightarrow> 'w \<Rightarrow> (api_error + vm) \<times> 'w"
  kUpdateVMStatus :: "vm \<Rightarrow> 'w \<Rightarrow> (api_error + vm) \<times> 'w"
  kResizePod :: "pod \<Rightarrow> 'w \<Rightarrow> api_error option \<times> 'w"
  kGenerateName :: "string \<Rightarrow> 'w \<Rightarrow> string \<times> 'w"

text \<open>\<open>map_order\<close> stands for the order in which a \<open>range\<close> over a map visits the keys, which Go
  leaves open.\<close>

record ext =
  IsHotpluggable :: "volume \<Rightarrow> bool"
  PVCName :: "volume \<Rightarrow> string"
  ContainsFinalizer :: "meta \<Rightarrow> string \<Rightarrow> bool"
  AddFinalizer :: "meta \<Rightarrow> string \<Rightarrow> meta"
  RemoveFinalizer :: "meta \<Rightarrow> string \<Rightarrow> meta"
  GetControllerOf :: "meta \<Rightarrow> owner_ref option"
  IsControlledBy :: "meta \<Rightarrow> meta \<Rightarrow> bool"
  SetControllerReference :: "meta \<Rightarrow> meta \<Rightarrow> err + meta"
  SetStatusCondition :: "condition list \<Rightarrow> condition \<Rightarrow> condition list"
  FindStatusCondition :: "condition list \<Rightarrow> string \<Rightarrow> condition option"
  json_VM :: "vm \<Rightarrow> string"
  json_networks :: "(string \<times> string \<times> string) list \<Rightarrow> string"
  json_nadConfig :: "string \<Rightarrow> err + nadConfig"
  os_Getenv :: "string \<Rightarrow> string"
  map_order :: "string list \<Rightarrow> string list"

section \<open>Concrete instances\<close>

text \<open>Instances of the parameters, for evaluating operations on concrete inputs: a cluster without
  objects that accepts every write, and library functions that behave as documented (with the owner
  list holding the controller reference, and JSON texts left empty).\<close>

definition empty_cluster :: "'w api" where
  "empty_cluster = \<lparr>kListVMs = (\<lambda>_ _. Inr []), kGetVM = (\<lambda>_ _. Inl NotFound), kGetPod = (\<lambda>_ _. Inl NotFound),
     kListPodsByVMUID = (\<lambda>_ _. Inr []), kListPods = (\<lambda>_ _. Inr []), kGetPVC = (\<lambda>_ _. Inl NotFound),
     kIsPopulated = (\<lambda>_ _. Inr True), kGetNAD = (\<lambda>_ _. Inl NotFound), kCreatePod = (\<lambda>p w. (Inr p, w)),
     kDeletePod = (\<lambda>_ w. (None, w)), kUpdateVM = (\<lambda>v w. (Inr v, w)), kUpdateVMStatus = (\<lambda>v w. (Inr v, w)),
     kResizePod = (\<lambda>_ w. (None, w)), kGenerateName = (\<lambda>b w. (b @ ''abcde'', w))\<rparr>"

definition library :: ext where
  "library = \<lparr>IsHotpluggable = (\<lambda>v. (case v_PersistentVolumeClaim v of Some c \<Rightarrow> pvc_hotpluggable c
       | None \<Rightarrow> (case v_DataVolume v of Some c \<Rightarrow> pvc_hotpluggable c | None \<Rightarrow> False))),
     PVCName = (\<lambda>v. (case v_PersistentVolumeClaim v of Some c \<Rightarrow> pvc_claim c
       | None \<Rightarrow> (case v_DataVolume v of Some c \<Rightarrow> pvc_claim c | None \<Rightarrow> []))),
     ContainsFinalizer = (\<lambda>m f. f \<in> set (m_finalizers m)),
     AddFinalizer = (\<lambda>m f. if f \<in> set (m_finalizers m) then m else m\<lparr>m_finalizers := m_finalizers m @ [f]\<rparr>),
     RemoveFinalizer = (\<lambda>m f. m\<lparr>m_finalizers := filter (\<lambda>g. g \<noteq> f) (m_finalizers m)\<rparr>),
     GetControllerOf = (\<lambda>m. case m_owners m of [] \<Rightarrow> None | ow # _ \<Rightarrow> Some ow),
     IsControlledBy = (\<lambda>m ow. case m_owners m of [] \<Rightarrow> False | r # _ \<Rightarrow> or_uid r = m_uid ow),
     SetControllerReference = (\<lambda>ow m. Inr (m\<lparr>m_owners :=
        \<lparr>or_apiVersion = [], or_kind = [], or_name = m_name ow, or_uid = m_uid ow\<rparr> # m_owners m\<rparr>)),
     SetStatusCondition = (\<lambda>cs c. filter (\<lambda>d. cd_type d \<noteq> cd_type c) cs @ [c]),
     FindStatusCondition = (\<lambda>cs t. List.find (\<lambda>c. cd_type c = t) cs),
     json_VM = (\<lambda>_. []), json_networks = (\<lambda>_. []), json_nadConfig = (\<lambda>_. Inl (ErrNew [])),
     os_Getenv = (\<lambda>_. []), map_order = (\<lambda>ks. ks)\<rparr>"

definition no_requirements :: requirements where
  "no_requirements = \<lparr>Requests = None, Limits = None\<rparr>"

definition plain_vm :: "string \<Rightarrow> vm_phase \<Rightarrow> vm" where
  "plain_vm name ph = \<lparr>vm_meta = empty_meta\<lparr>m_name := name, m_uid := name\<rparr>,
     vm_spec = \<lparr>s_RunPolicy = RunAlways,
       s_Instance = \<lparr>i_cpu = \<lparr>Sockets = 1, CoresPerSocket = 2, DedicatedCPUPlacement = False\<rparr>,
         i_memory = \<lparr>mem_Size = q_1Gi, mem_Hugepages = None\<rparr>, i_kernel = None, i_disks = [],
         i_fileSystems = [], i_interfaces = [], i_gpus = [], i_pmem = []\<rparr>,
       s_Volumes = [], s_Networks = [], s_Resources = no_requirements, s_NodeSelector = None,
       s_Tolerations = [], s_Affinity = None, s_LivenessProbe = None, s_ReadinessProbes = None\<rparr>,
     vm_status = \<lparr>st_Phase = ph, st_VMPodName = [], st_VMPodUID = [], st_NodeName = [],
       st_PowerAction = PowerNone, st_Conditions = [], st_Migration = None, st_VolumeStatus = []\<rparr>\<rparr>"

lemmas instance_defs = empty_cluster_def library_def no_requirements_def plain_vm_def empty_meta_def

end
