(* ===== verification/Kube_Monad.thy ===== *)
theory Kube_Monad
  imports Kube_Types
begin

text \<open>
  Controller code threads three things: the cluster, the object under reconciliation, which it
  mutates in place even when it goes on to return an error, and the calls it makes. \<open>rst\<close> is that
  state; the trace records every write to the cluster with its success, and every event, in order.
  The types of the object and of the calls are parameters, so the same combinators serve every
  controller; \<open>act\<close> is the instance for the VirtualMachine controller. An action returns an \<open>outcome\<close> and the new state, so a panic or an error keeps what was done before.

  \<open>keeps f m\<close> says that the action \<open>m\<close> leaves \<open>f\<close> of the state alone whatever the API server
  answers, and \<open>traces P m\<close> that \<open>m\<close> only adds calls that satisfy \<open>P\<close> to the trace; both come with
  compositional rules in the collections \<open>keeps\<close> and \<open>traces\<close>, so a frame property of a whole
  operation is proved by its structure.
\<close>

datatype call =
    CreatePod pod bool
  | DeletePod pod "api_error option"
  | UpdateVM vm bool
  | UpdateVMStatus vm bool
  | ResizePod pod bool
  | Event string

record ('w, 'o, 'c) rst =
  world :: 'w
  obj :: 'o
  trace :: "'c list"

type_synonym ('w, 'o, 'c, 'a) action = "('w, 'o, 'c) rst \<Rightarrow> (err, 'a) outcome \<times> ('w, 'o, 'c) rst"

type_synonym ('w, 'a) act = "('w, vm, call, 'a) action"

definition ret :: "'a \<Rightarrow> ('w, 'o, 'c, 'a) action" where
  "ret x s = (Ok x, s)"

definition throw :: "err \<Rightarrow> ('w, 'o, 'c, 'a) action" where
  "throw e s = (Err e, s)"

definition panic :: "string \<Rightarrow> ('w, 'o, 'c, 'a) action" where
  "panic p s = (Panic p, s)"

definition bind ::
  "('w, 'o, 'c, 'a) action \<Rightarrow> ('a \<Rightarrow> ('w, 'o, 'c, 'b) action) \<Rightarrow> ('w, 'o, 'c, 'b) action" where
  "bind m f s = (case m s of (Ok x, s') \<Rightarrow> f x s' | (Err e, s') \<Rightarrow> (Err e, s') | (Panic p, s') \<Rightarrow> (Panic p, s'))"

text \<open>An error is returned with context: \<open>mapErr\<close> for \<open>return fmt.Errorf(..., err)\<close>.\<close>

definition mapErr :: "(err \<Rightarrow> err) \<Rightarrow> ('w, 'o, 'c, 'a) action \<Rightarrow> ('w, 'o, 'c, 'a) action" where
  "mapErr g m s = (case m s of (Err e, s') \<Rightarrow> (Err (g e), s') | r \<Rightarrow> r)"

definition lift :: "(err, 'a) outcome \<Rightarrow> ('w, 'o, 'c, 'a) action" where
  "lift r s = (r, s)"

definition getObj :: "('w, 'o, 'c, 'o) action" where
  "getObj s = (Ok (obj s), s)"

definition modObj :: "('o \<Rightarrow> 'o) \<Rightarrow> ('w, 'o, 'c, unit) action" where
  "modObj f s = (Ok (), s\<lparr>obj := f (obj s)\<rparr>)"

definition modStatus :: "(vm_status \<Rightarrow> vm_status) \<Rightarrow> ('w, vm, 'c, unit) action" where
  "modStatus f = modObj (\<lambda>v. v\<lparr>vm_status := f (vm_status v)\<rparr>)"

definition setPhase :: "vm_phase \<Rightarrow> ('w, vm, 'c, unit) action" where
  "setPhase ph = modStatus (\<lambda>st. st\<lparr>st_Phase := ph\<rparr>)"

definition modMigration :: "(migration \<Rightarrow> migration) \<Rightarrow> ('w, vm, 'c, unit) action" where
  "modMigration f = modStatus (\<lambda>st. st\<lparr>st_Migration := map_option f (st_Migration st)\<rparr>)"

definition kread :: "('w \<Rightarrow> 'a) \<Rightarrow> ('w, 'o, 'c, 'a) action" where
  "kread f s = (Ok (f (world s)), s)"

definition kwrite :: "('w \<Rightarrow> 'r \<times> 'w) \<Rightarrow> ('r \<Rightarrow> 'c) \<Rightarrow> ('w, 'o, 'c, 'r) action" where
  "kwrite f c s = (case f (world s) of (r, w) \<Rightarrow> (Ok r, s\<lparr>world := w, trace := trace s @ [c r]\<rparr>))"

definition generateName :: "'w api \<Rightarrow> string \<Rightarrow> ('w, string) act" where
  "generateName k base s = (case kGenerateName k base (world s) of (n, w) \<Rightarrow> (Ok n, s\<lparr>world := w\<rparr>))"

definition event :: "string \<Rightarrow> ('w, unit) act" where
  "event e s = (Ok (), s\<lparr>trace := trace s @ [Event e]\<rparr>)"

definition is_Inr :: "'a + 'b \<Rightarrow> bool" where
  "is_Inr r = (case r of Inl _ \<Rightarrow> False | Inr _ \<Rightarrow> True)"

definition createPod :: "'w api \<Rightarrow> pod \<Rightarrow> ('w, api_error + pod) act" where
  "createPod k p = kwrite (kCreatePod k p) (\<lambda>r. CreatePod p (is_Inr r))"

definition deletePod :: "'w api \<Rightarrow> pod \<Rightarrow> ('w, api_error option) act" where
  "deletePod k p = kwrite (kDeletePod k p) (DeletePod p)"

definition resizePod :: "'w api \<Rightarrow> pod \<Rightarrow> ('w, api_error option) act" where
  "resizePod k p = kwrite (kResizePod k p) (\<lambda>r. ResizePod p (r = None))"

text \<open>\<open>Update\<close> and \<open>Status().Update\<close> decode the server's answer into the object.\<close>

definition updateObj :: "('o \<Rightarrow> 'w \<Rightarrow> (api_error + 'o) \<times> 'w) \<Rightarrow> ('o \<Rightarrow> bool \<Rightarrow> 'c) \<Rightarrow> ('w, 'o, 'c, api_error option) action" where
  "updateObj f c s = (case f (obj s) (world s) of (r, w) \<Rightarrow>
     (Ok (case r of Inl e \<Rightarrow> Some e | Inr _ \<Rightarrow> None),
      s\<lparr>world := w, trace := trace s @ [c (obj s) (is_Inr r)],
        obj := (case r of Inl _ \<Rightarrow> obj s | Inr v \<Rightarrow> v)\<rparr>))"

definition updateVM :: "'w api \<Rightarrow> ('w, api_error option) act" where
  "updateVM k = updateObj (kUpdateVM k) UpdateVM"

definition updateVMStatus :: "'w api \<Rightarrow> ('w, api_error option) act" where
  "updateVMStatus k = updateObj (kUpdateVMStatus k) UpdateVMStatus"

text \<open>\<open>client.IgnoreNotFound(err) != nil\<close>\<close>

definition hard_error :: "api_error option \<Rightarrow> bool" where
  "hard_error r \<longleftrightarrow> r \<noteq> None \<and> r \<noteq> Some NotFound"

fun for_each :: "'a list \<Rightarrow> ('a \<Rightarrow> ('w, 'o, 'c, unit) action) \<Rightarrow> ('w, 'o, 'c, unit) action" where
  "for_each [] f = ret ()"
| "for_each (x # xs) f = bind (f x) (\<lambda>_. for_each xs f)"

fun fold_act :: "('b \<Rightarrow> 'a \<Rightarrow> ('w, 'o, 'c, 'a) action) \<Rightarrow> 'b list \<Rightarrow> 'a \<Rightarrow> ('w, 'o, 'c, 'a) action" where
  "fold_act f [] a = ret a"
| "fold_act f (y # ys) a = bind (f y a) (fold_act f ys)"

text \<open>An error kept as a value, for code that goes on after it.\<close>

definition attempt :: "('w, 'o, 'c, 'a) action \<Rightarrow> ('w, 'o, 'c, err + 'a) action" where
  "attempt m s = (case m s of (Ok a, s') \<Rightarrow> (Ok (Inr a), s') | (Err e, s') \<Rightarrow> (Ok (Inl e), s')
     | (Panic p, s') \<Rightarrow> (Panic p, s'))"

section \<open>Frame rules\<close>

named_theorems keeps \<open>rules for parts of the state an action leaves alone\<close>
named_theorems traces \<open>rules for the calls an action makes\<close>

definition keeps :: "(('w, 'o, 'c) rst \<Rightarrow> 'b) \<Rightarrow> ('w, 'o, 'c, 'a) action \<Rightarrow> bool" where
  "keeps f m \<longleftrightarrow> (\<forall>s. f (snd (m s)) = f s)"

lemma keepsD: "keeps f m \<Longrightarrow> f (snd (m s)) = f s"
  by (simp add: keeps_def)

lemma keeps_basic [keeps]:
  "keeps f (ret x)" "keeps f (throw e)" "keeps f (panic p)" "keeps f getObj" "keeps f (kread g)" "keeps f (lift r)"
  by (simp_all add: keeps_def ret_def throw_def panic_def getObj_def kread_def lift_def)

lemma keeps_bind [keeps]:
  assumes "keeps f m" "\<And>x. keeps f (g x)"
  shows "keeps f (bind m g)"
  unfolding keeps_def
proof
  fix s
  obtain r s' where m: "m s = (r, s')" by (cases "m s")
  then show "f (snd (bind m g s)) = f s"
    using keepsD [OF assms(1), of s] keepsD [OF assms(2)] by (cases r) (simp_all add: bind_def)
qed

lemma keeps_mapErr [keeps]: "keeps f m \<Longrightarrow> keeps f (mapErr g m)"
  unfolding keeps_def mapErr_def by (auto split: prod.split outcome.split) (metis snd_conv)+

lemma keeps_attempt [keeps]: "keeps f m \<Longrightarrow> keeps f (attempt m)"
  unfolding keeps_def attempt_def by (auto split: prod.split outcome.split) (metis snd_conv)+

lemma keeps_if [keeps]: "keeps f m \<Longrightarrow> keeps f n \<Longrightarrow> keeps f (if b then m else n)"
  by simp

lemma keeps_case_option [keeps]:
  "keeps f m \<Longrightarrow> (\<And>x. keeps f (n x)) \<Longrightarrow> keeps f (case y of None \<Rightarrow> m | Some x \<Rightarrow> n x)"
  by (cases y) simp_all

lemma keeps_case_sum [keeps]:
  "(\<And>e. keeps f (m e)) \<Longrightarrow> (\<And>x. keeps f (n x)) \<Longrightarrow> keeps f (case y of Inl e \<Rightarrow> m e | Inr x \<Rightarrow> n x)"
  by (cases y) simp_all

lemma keeps_case_prod [keeps]: "(\<And>a b. keeps f (m a b)) \<Longrightarrow> keeps f (case y of (a, b) \<Rightarrow> m a b)"
  by (cases y) simp

lemma keeps_let [keeps]: "keeps f (m v) \<Longrightarrow> keeps f (let x = v in m x)"
  by simp

lemma keeps_for_each [keeps]: "(\<And>x. x \<in> set xs \<Longrightarrow> keeps f (g x)) \<Longrightarrow> keeps f (for_each xs g)"
  by (induction xs) (auto intro: keeps_basic keeps_bind)

lemma keeps_fold_act [keeps]: "(\<And>x a. x \<in> set xs \<Longrightarrow> keeps f (g x a)) \<Longrightarrow> keeps f (fold_act g xs a)"
  by (induction xs arbitrary: a) (auto intro: keeps_basic keeps_bind)

text \<open>Writes to the cluster leave the object alone; the object's setters leave the trace alone.\<close>

lemma keeps_obj_kwrite [keeps]: "keeps obj (kwrite g c)"
  by (simp add: keeps_def kwrite_def split: prod.split)

lemma keeps_obj [keeps]:
  "keeps obj (event e)" "keeps obj (createPod k p)" "keeps obj (deletePod k p)"
  "keeps obj (resizePod k p)" "keeps obj (generateName k b)"
  by (auto simp: keeps_def kwrite_def event_def createPod_def deletePod_def resizePod_def generateName_def
      split: prod.split)

lemma keeps_generateName_trace [keeps]: "keeps trace (generateName k b)"
  by (simp add: keeps_def generateName_def split: prod.split)

lemma keeps_modObj_trace [keeps]: "keeps trace (modObj h)"
  by (simp add: keeps_def modObj_def)

lemma keeps_modStatus_trace [keeps]: "keeps trace (modStatus h')"
  by (simp add: modStatus_def keeps_modObj_trace)

lemma keeps_comp: "keeps obj m \<Longrightarrow> keeps (\<lambda>s. f (obj s)) m"
  by (simp add: keeps_def)

section \<open>Traces\<close>

definition traces :: "('c \<Rightarrow> bool) \<Rightarrow> ('w, 'o, 'c, 'a) action \<Rightarrow> bool" where
  "traces P m \<longleftrightarrow> (\<forall>s. \<exists>cs. trace (snd (m s)) = trace s @ cs \<and> list_all P cs)"

lemma tracesD: "traces P m \<Longrightarrow> \<exists>cs. trace (snd (m s)) = trace s @ cs \<and> list_all P cs"
  by (simp add: traces_def)

lemma traces_none: "keeps trace m \<Longrightarrow> traces P m"
  unfolding traces_def keeps_def by (auto intro!: exI [of _ "[]"])

lemma traces_basic [traces]:
  "traces P (ret x)" "traces P (throw e)" "traces P (panic p)" "traces P getObj" "traces P (kread g)"
  "traces P (lift r)" "traces P (modObj h)"
  by (rule traces_none; simp add: keeps_def ret_def throw_def panic_def getObj_def kread_def lift_def
      modObj_def)+

lemma traces_basic_vm [traces]: "traces P (modStatus h')" "traces P (generateName k b)"
  by (rule traces_none; simp add: keeps_def modObj_def modStatus_def generateName_def split: prod.split)+

lemma traces_bind [traces]:
  assumes "traces P m" "\<And>x. traces P (g x)"
  shows "traces P (bind m g)"
  unfolding traces_def
proof
  fix s
  obtain r s' where m: "m s = (r, s')" by (cases "m s")
  then obtain cs where cs: "trace s' = trace s @ cs" "list_all P cs"
    using tracesD [OF assms(1), of s] by auto
  show "\<exists>cs. trace (snd (bind m g s)) = trace s @ cs \<and> list_all P cs"
  proof (cases r)
    case (Ok x)
    obtain ds where "trace (snd (g x s')) = trace s' @ ds" "list_all P ds"
      using tracesD [OF assms(2), of x s'] by auto
    then show ?thesis using cs Ok m by (auto simp: bind_def intro!: exI [of _ "cs @ ds"])
  qed (use cs m in \<open>auto simp: bind_def\<close>)
qed

lemma traces_mapErr [traces]: "traces P m \<Longrightarrow> traces P (mapErr g m)"
  unfolding traces_def mapErr_def by (auto split: prod.split outcome.split) (metis snd_conv)+

lemma traces_attempt [traces]: "traces P m \<Longrightarrow> traces P (attempt m)"
  unfolding traces_def attempt_def by (auto split: prod.split outcome.split) (metis snd_conv)+

lemma traces_if [traces]: "(b \<Longrightarrow> traces P m) \<Longrightarrow> (\<not> b \<Longrightarrow> traces P n) \<Longrightarrow> traces P (if b then m else n)"
  by simp

lemma traces_case_option [traces]:
  "(y = None \<Longrightarrow> traces P m) \<Longrightarrow> (\<And>x. y = Some x \<Longrightarrow> traces P (n x)) \<Longrightarrow> traces P (case y of None \<Rightarrow> m | Some x \<Rightarrow> n x)"
  by (cases y) simp_all

lemma traces_case_sum [traces]:
  "(\<And>e. traces P (m e)) \<Longrightarrow> (\<And>x. traces P (n x)) \<Longrightarrow> traces P (case y of Inl e \<Rightarrow> m e | Inr x \<Rightarrow> n x)"
  by (cases y) simp_all

lemma traces_case_prod [traces]: "(\<And>a b. traces P (m a b)) \<Longrightarrow> traces P (case y of (a, b) \<Rightarrow> m a b)"
  by (cases y) simp

lemma traces_let [traces]: "traces P (m v) \<Longrightarrow> traces P (let x = v in m x)"
  by simp

lemma traces_for_each [traces]: "(\<And>x. x \<in> set xs \<Longrightarrow> traces P (g x)) \<Longrightarrow> traces P (for_each xs g)"
  by (induction xs) (auto intro: traces_basic traces_bind)

lemma traces_fold_act [traces]: "(\<And>x a. x \<in> set xs \<Longrightarrow> traces P (g x a)) \<Longrightarrow> traces P (fold_act g xs a)"
  by (induction xs arbitrary: a) (auto intro: traces_basic traces_bind)

lemma traces_write [traces]:
  "(\<And>b. P (CreatePod p b)) \<Longrightarrow> traces P (createPod k p)"
  "(\<And>b. P (DeletePod p b)) \<Longrightarrow> traces P (deletePod k p)"
  "(\<And>b. P (ResizePod p b)) \<Longrightarrow> traces P (resizePod k p)"
  "P (Event e) \<Longrightarrow> traces P (event e)"
  by (auto simp: traces_def createPod_def deletePod_def resizePod_def kwrite_def event_def split: prod.split)

lemma traces_updateObj [traces]: "(\<And>v b. P (c v b)) \<Longrightarrow> traces P (updateObj f c)"
  by (auto simp: traces_def updateObj_def split: prod.split)

lemma traces_update [traces]:
  "(\<And>v b. P (UpdateVM v b)) \<Longrightarrow> traces P (updateVM k)"
  "(\<And>v b. P (UpdateVMStatus v b)) \<Longrightarrow> traces P (updateVMStatus k)"
  by (simp_all add: updateVM_def updateVMStatus_def traces_updateObj)

lemma traces_kwrite [traces]: "(\<And>r. P (c r)) \<Longrightarrow> traces P (kwrite f c)"
  by (auto simp: traces_def kwrite_def split: prod.split)

section \<open>Results\<close>

text \<open>\<open>returns Q m\<close>: whenever the action returns without error, its value satisfies \<open>Q\<close>.\<close>

named_theorems returns \<open>rules for the values an action returns\<close>

definition returns :: "('a \<Rightarrow> bool) \<Rightarrow> ('w, 'o, 'c, 'a) action \<Rightarrow> bool" where
  "returns Q m \<longleftrightarrow> (\<forall>s x s'. m s = (Ok x, s') \<longrightarrow> Q x)"

lemma returnsD: "returns Q m \<Longrightarrow> m s = (Ok x, s') \<Longrightarrow> Q x"
  unfolding returns_def by blast

lemma bind_Ok: "bind m f s = (Ok y, s'') \<longleftrightarrow> (\<exists>x s'. m s = (Ok x, s') \<and> f x s' = (Ok y, s''))"
  by (auto simp: bind_def split: prod.split outcome.split)

lemma returns_bind: "returns Q m \<Longrightarrow> (\<And>x. Q x \<Longrightarrow> returns R (g x)) \<Longrightarrow> returns R (bind m g)"
  unfolding returns_def bind_Ok by blast

lemma returns_bind_any: "(\<And>x. returns R (g x)) \<Longrightarrow> returns R (bind m g)"
  unfolding returns_def bind_Ok by blast

lemma returns_ret [returns]: "Q x \<Longrightarrow> returns Q (ret x)"
  by (simp add: returns_def ret_def)

lemma returns_throw [returns]: "returns Q (throw e)"
  by (simp add: returns_def throw_def)

lemma returns_panic [returns]: "returns Q (panic p)"
  by (simp add: returns_def panic_def)

lemma returns_if [returns]: "(b \<Longrightarrow> returns Q m) \<Longrightarrow> (\<not> b \<Longrightarrow> returns Q n) \<Longrightarrow> returns Q (if b then m else n)"
  by simp

lemma returns_case_option [returns]:
  "(y = None \<Longrightarrow> returns Q m) \<Longrightarrow> (\<And>x. y = Some x \<Longrightarrow> returns Q (n x))
    \<Longrightarrow> returns Q (case y of None \<Rightarrow> m | Some x \<Rightarrow> n x)"
  by (cases y) simp_all

lemma returns_case_sum [returns]:
  "(\<And>e. y = Inl e \<Longrightarrow> returns Q (m e)) \<Longrightarrow> (\<And>x. y = Inr x \<Longrightarrow> returns Q (n x))
    \<Longrightarrow> returns Q (case y of Inl e \<Rightarrow> m e | Inr x \<Rightarrow> n x)"
  by (cases y) simp_all

lemma returns_mono: "returns Q m \<Longrightarrow> (\<And>x. Q x \<Longrightarrow> R x) \<Longrightarrow> returns R m"
  unfolding returns_def by blast

lemma returns_fold_act:
  assumes "I [] a" and "\<And>ys y a. I ys a \<Longrightarrow> y \<in> set xs \<Longrightarrow> returns (I (ys @ [y])) (f y a)"
  shows "returns (I xs) (fold_act f xs a)"
proof -
  have "returns (I (ys @ zs)) (fold_act f zs a)" if "I ys a" "set zs \<subseteq> set xs" for ys zs a
    using that
  proof (induction zs arbitrary: ys a)
    case (Cons z zs)
    then have "returns (I ((ys @ [z]) @ zs)) (fold_act f zs b)" if "I (ys @ [z]) b" for b
      using that by (intro Cons.IH) simp_all
    then show ?case using assms(2) [OF Cons.prems(1), of z] Cons.prems(2)
      by (auto intro: returns_bind)
  qed (auto intro: returns)
  from this [of "[]" a xs] show ?thesis using assms(1) by simp
qed

lemma returns_fold_act_inv:
  assumes "I a" and "\<And>y a. I a \<Longrightarrow> y \<in> set xs \<Longrightarrow> returns I (f y a)"
  shows "returns I (fold_act f xs a)"
  using returns_fold_act [of "\<lambda>_. I" a xs f] assms by blast

section \<open>Invariants of the object\<close>

text \<open>\<open>maintains I m\<close>: an action that starts on an object with \<open>I\<close> leaves one with \<open>I\<close>, however it ends.
  \<open>ends S\<close> is the case of a VM whose phase stays in \<open>S\<close>.\<close>

named_theorems ends \<open>rules for the objects an action can reach\<close>

definition maintains :: "('o \<Rightarrow> bool) \<Rightarrow> ('w, 'o, 'c, 'a) action \<Rightarrow> bool" where
  "maintains I m \<longleftrightarrow> (\<forall>s. I (obj s) \<longrightarrow> I (obj (snd (m s))))"

abbreviation ends :: "vm_phase set \<Rightarrow> ('w, vm, 'c, 'a) action \<Rightarrow> bool" where
  "ends S \<equiv> maintains (\<lambda>v. phase v \<in> S)"

lemma maintainsD: "maintains I m \<Longrightarrow> I (obj s) \<Longrightarrow> I (obj (snd (m s)))"
  by (simp add: maintains_def)

lemma endsD: "ends S m \<Longrightarrow> phase (obj s) \<in> S \<Longrightarrow> phase (obj (snd (m s))) \<in> S"
  by (simp add: maintains_def)

lemma maintains_keeps: "keeps (\<lambda>s. f (obj s)) m \<Longrightarrow> maintains (\<lambda>v. J (f v)) m"
  by (simp add: maintains_def keeps_def)

lemma ends_keeps: "keeps (\<lambda>s. phase (obj s)) m \<Longrightarrow> ends S m"
  by (rule maintains_keeps)

lemma ends_keeps_obj: "keeps obj m \<Longrightarrow> maintains I m"
  by (simp add: maintains_def keeps_def)

lemma ends_setPhase [ends]: "ph \<in> S \<Longrightarrow> ends S (setPhase ph)"
  by (simp add: maintains_def setPhase_def modStatus_def modObj_def)

lemma ends_bind [ends]:
  assumes "maintains I m" "\<And>x. maintains I (g x)"
  shows "maintains I (bind m g)"
proof -
  have "I (obj (snd (bind m g s)))" if "I (obj s)" for s
  proof -
    obtain r s' where m: "m s = (r, s')" by (cases "m s")
    then have "I (obj s')" using maintainsD [OF assms(1), of s] that by simp
    then show ?thesis using m maintainsD [OF assms(2)] by (cases r) (simp_all add: bind_def)
  qed
  then show ?thesis by (simp add: maintains_def)
qed

lemma ends_mapErr [ends]: "maintains I m \<Longrightarrow> maintains I (mapErr g m)"
  unfolding maintains_def mapErr_def by (auto split: prod.split outcome.split)

lemma ends_attempt [ends]: "maintains I m \<Longrightarrow> maintains I (attempt m)"
  unfolding maintains_def attempt_def by (auto split: prod.split outcome.split)

lemma ends_if [ends]: "(b \<Longrightarrow> maintains I m) \<Longrightarrow> (\<not> b \<Longrightarrow> maintains I n) \<Longrightarrow> maintains I (if b then m else n)"
  by simp

lemma ends_case_option [ends]:
  "(y = None \<Longrightarrow> maintains I m) \<Longrightarrow> (\<And>x. y = Some x \<Longrightarrow> maintains I (n x)) \<Longrightarrow> maintains I (case y of None \<Rightarrow> m | Some x \<Rightarrow> n x)"
  by (cases y) simp_all

lemma ends_case_sum [ends]:
  "(\<And>e. maintains I (m e)) \<Longrightarrow> (\<And>x. maintains I (n x)) \<Longrightarrow> maintains I (case y of Inl e \<Rightarrow> m e | Inr x \<Rightarrow> n x)"
  by (cases y) simp_all

lemma ends_case_prod [ends]: "(\<And>a b. maintains I (m a b)) \<Longrightarrow> maintains I (case y of (a, b) \<Rightarrow> m a b)"
  by (cases y) simp

lemma ends_silent [ends]:
  "maintains I (ret x)" "maintains I (throw e)" "maintains I (panic msg)" "maintains I getObj" "maintains I (kread g)"
  "maintains I (kwrite f c)"
  by (rule ends_keeps_obj; intro keeps)+

lemma keeps_modStatus:
  assumes "\<And>st. f (g st) = f st"
  shows "keeps (\<lambda>s. f (vm_status (obj s))) (modStatus g)"
  using assms by (simp add: keeps_def modStatus_def modObj_def)

lemma ends_modStatus: "(\<And>st. st_Phase (f st) = st_Phase st) \<Longrightarrow> ends S (modStatus f)"
  by (intro ends_keeps keeps_modStatus)

lemma ends_modMigration [ends]: "ends S (modMigration f)"
  unfolding modMigration_def by (rule ends_modStatus) simp

lemma ends_for_each [ends]: "(\<And>x. x \<in> set xs \<Longrightarrow> maintains I (f x)) \<Longrightarrow> maintains I (for_each xs f)"
  by (induction xs) (auto intro: ends_silent ends_bind)

lemma ends_fold_act [ends]: "(\<And>x a. x \<in> set xs \<Longrightarrow> maintains I (f x a)) \<Longrightarrow> maintains I (fold_act f xs a)"
  by (induction xs arbitrary: a) (auto intro: ends_silent ends_bind)

section \<open>Success\<close>

text \<open>Actions that return without error whatever the state.\<close>

definition succeeds :: "('w, 'o, 'c, 'a) action \<Rightarrow> bool" where
  "succeeds m \<longleftrightarrow> (\<forall>s. \<exists>x t. m s = (Ok x, t))"

lemma succeedsE: "succeeds m \<Longrightarrow> (\<And>x t. m s = (Ok x, t) \<Longrightarrow> P) \<Longrightarrow> P"
  unfolding succeeds_def by blast

lemma succeeds_ret: "succeeds (ret x)"
  by (simp add: succeeds_def ret_def)

lemma succeeds_bind: "succeeds m \<Longrightarrow> (\<And>x. succeeds (g x)) \<Longrightarrow> succeeds (bind m g)"
  unfolding succeeds_def bind_Ok by blast

section \<open>Evaluation\<close>

lemmas act_defs = ret_def throw_def panic_def bind_def mapErr_def attempt_def lift_def getObj_def modObj_def
  modStatus_def kread_def kwrite_def generateName_def event_def createPod_def deletePod_def
  resizePod_def updateObj_def updateVM_def updateVMStatus_def

lemma bind_assoc: "bind (bind m f) g = bind m (\<lambda>x. bind (f x) g)"
  by (rule ext) (auto simp: bind_def split: prod.split outcome.split)

lemma bind_ret [simp]: "bind (ret x) f = f x"
  by (rule ext) (simp add: bind_def ret_def)

lemma bind_throw [simp]: "bind (throw e) f = throw e"
  by (rule ext) (simp add: bind_def throw_def)

end
