(* ===== verification/Owned_Objects.thy ===== *)
theory Owned_Objects
  imports Kube_Monad "HOL-Library.Sublist"
begin

text \<open>
  What the smaller controllers under \<open>src/internal/controller\<close> share: VMSet, VMPool, VirtualDisk,
  VirtualDiskSnapshot and VMSnapShot each watch one kind of object, create and delete child objects
  for it, and guard its deletion with a finalizer. The objects they handle, a client over an arbitrary
  type of cluster states (as \<open>api\<close> is for the VirtualMachine controller), the calls they leave in the
  trace, and two locales: \<open>finalizer_controller\<close>, the protocol around the finalizer, and
  \<open>replica_controller\<close>, which extends it by the scaling decision of VMSet and VMPool. Both are
  interpreted on the controllers' own definitions, in the theories that give them.
\<close>

section \<open>Objects\<close>

record label_selector =
  ls_matchLabels :: "(string, string) gomap"
  ls_matchExpressions :: "(string \<times> string \<times> string list) list"

type_synonym selector = "(string, string) gomap \<Rightarrow> bool"

record disk_source =
  ds_HTTP :: "string option"
  ds_Registry :: "(string \<times> string) option"
  ds_DiskSnapshot :: "string option"
  ds_Empty :: bool

text \<open>\<open>Spec.Storage\<close> is a pointer and its request list a map that may be nil.\<close>

record disk_spec =
  dsp_Storage :: "resource_list option"
  dsp_Source :: "disk_source option"

datatype disk_phase = DiskPhaseEmpty | VirtualDiskPending | VirtualDiskBound | VirtualDiskReady
  | VirtualDiskFailed | VirtualDiskTerminating

record virtual_disk =
  vdk_meta :: meta
  vdk_spec :: disk_spec
  vdk_phase :: disk_phase
  vdk_conditions :: "condition list"

datatype dv_source = DV_HTTP string | DV_Registry string string | DV_Snapshot string string | DV_Blank

record data_volume =
  dv_meta :: meta
  dv_request :: quantity
  dv_source :: dv_source
  dv_succeeded :: bool

record csi_snapshot =
  cs_meta :: meta
  cs_claim :: string

text \<open>The status of a VolumeSnapshot; the message of its error may be nil as well.\<close>

record csi_status =
  cst_Error :: "string option option"
  cst_ReadyToUse :: "bool option"
  cst_CreationTime :: "nat option"

record disk_template =
  dt_name :: string
  dt_annotations :: "(string, string) gomap"
  dt_spec :: disk_spec

datatype kind = KindVM | KindVirtualDisk | KindDataVolume | KindVolumeSnapshot | KindVirtualDiskSnapshot

datatype child = ChildVM vm | ChildDisk virtual_disk | ChildDataVolume data_volume | ChildVolumeSnapshot csi_snapshot

section \<open>Client and calls\<close>

record ('w, 'o) client =
  cGet :: "key \<Rightarrow> 'w \<Rightarrow> api_error + 'o"
  cGetVM :: "key \<Rightarrow> 'w \<Rightarrow> api_error + vm"
  cGetDisk :: "key \<Rightarrow> 'w \<Rightarrow> api_error + virtual_disk"
  cGetDataVolume :: "key \<Rightarrow> 'w \<Rightarrow> api_error + data_volume"
  cGetVolumeSnapshot :: "key \<Rightarrow> 'w \<Rightarrow> api_error + csi_status option"
  cListVMs :: "string \<Rightarrow> selector \<Rightarrow> 'w \<Rightarrow> api_error + vm list"
  cListDisks :: "string \<Rightarrow> 'w \<Rightarrow> api_error + virtual_disk list"
  cCreate :: "child \<Rightarrow> 'w \<Rightarrow> api_error option \<times> 'w"
  cDelete :: "kind \<Rightarrow> key \<Rightarrow> 'w \<Rightarrow> api_error option \<times> 'w"
  cUpdate :: "'o \<Rightarrow> 'w \<Rightarrow> (api_error + 'o) \<times> 'w"
  cUpdateStatus :: "'o \<Rightarrow> 'w \<Rightarrow> (api_error + 'o) \<times> 'w"
  LabelSelectorAsSelector :: "label_selector option \<Rightarrow> err + selector"

datatype 'o ocall =
    Updated 'o bool
  | StatusUpdated 'o bool
  | Created child "api_error option"
  | Deleted kind key "api_error option"
  | Recorded string

type_synonym ('w, 'o, 'a) oact = "('w, 'o, 'o ocall, 'a) action"

definition create :: "('w, 'o) client \<Rightarrow> child \<Rightarrow> ('w, 'o, api_error option) oact" where
  "create c ch = kwrite (cCreate c ch) (Created ch)"

definition delete :: "('w, 'o) client \<Rightarrow> kind \<Rightarrow> key \<Rightarrow> ('w, 'o, api_error option) oact" where
  "delete c kd key = kwrite (cDelete c kd key) (Deleted kd key)"

definition updateSelf :: "('w, 'o) client \<Rightarrow> ('w, 'o, api_error option) oact" where
  "updateSelf c = updateObj (cUpdate c) Updated"

definition updateSelfStatus :: "('w, 'o) client \<Rightarrow> ('w, 'o, api_error option) oact" where
  "updateSelfStatus c = updateObj (cUpdateStatus c) StatusUpdated"

definition record_event :: "string \<Rightarrow> ('w, 'o, unit) oact" where
  "record_event e s = (Ok (), s\<lparr>trace := trace s @ [Recorded e]\<rparr>)"

text \<open>\<open>err := r.Delete(...); if err != nil && !apierrors.IsNotFound(err) { return ... }\<close>, with the
  context the caller wraps the error in.\<close>

definition delete_existing :: "('w, 'o) client \<Rightarrow> (err \<Rightarrow> err) \<Rightarrow> kind \<Rightarrow> key \<Rightarrow> ('w, 'o, unit) oact" where
  "delete_existing c wrap kd key = bind (delete c kd key) (\<lambda>r. case r of None \<Rightarrow> ret ()
     | Some e \<Rightarrow> if e = NotFound then ret () else throw (wrap (ApiErr e)))"

text \<open>\<open>err = r.Create(...); if err != nil && !apierrors.IsAlreadyExists(err) { return ... }\<close>\<close>

definition create_missing :: "('w, 'o) client \<Rightarrow> (err \<Rightarrow> err) \<Rightarrow> child \<Rightarrow> ('w, 'o, unit) oact" where
  "create_missing c wrap ch = bind (create c ch) (\<lambda>r. case r of None \<Rightarrow> ret ()
     | Some e \<Rightarrow> if e = AlreadyExists then ret () else throw (wrap (ApiErr e)))"

text \<open>\<open>return ctrl.Result{}, r.Update(ctx, obj)\<close> and its status variant.\<close>

definition done_or_error :: "api_error option \<Rightarrow> ('w, 'o, Result) oact" where
  "done_or_error r = (case r of None \<Rightarrow> ret no_requeue | Some e \<Rightarrow> throw (ApiErr e))"

abbreviation requeue_after :: "nat \<Rightarrow> Result" where
  "requeue_after n \<equiv> \<lparr>Requeue = False, RequeueAfter = n\<rparr>"

abbreviation key_in :: "string \<Rightarrow> string \<Rightarrow> key" where
  "key_in namespace name \<equiv> \<lparr>k_ns = namespace, k_name = name\<rparr>"

abbreviation meta_key :: "meta \<Rightarrow> key" where
  "meta_key m \<equiv> key_in (m_namespace m) (m_name m)"

lemmas oact_defs = create_def delete_def updateSelf_def updateSelfStatus_def record_event_def
  delete_existing_def create_missing_def done_or_error_def

section \<open>Frame rules\<close>

lemma keeps_obj_oact [keeps]:
  "keeps obj (create c ch)" "keeps obj (delete c kd key)" "keeps obj (record_event e)"
  "keeps obj (delete_existing c wr kd key)" "keeps obj (create_missing c wr ch)" "keeps obj (done_or_error r)"
  unfolding delete_existing_def create_missing_def done_or_error_def create_def delete_def
  by (intro keeps | simp add: keeps_def record_event_def)+

lemma traces_oact [traces]:
  "(\<And>r. P (Created ch r)) \<Longrightarrow> traces P (create c ch)"
  "(\<And>r. P (Deleted kd key r)) \<Longrightarrow> traces P (delete c kd key)"
  "(\<And>v b. P (Updated v b)) \<Longrightarrow> traces P (updateSelf c)"
  "(\<And>v b. P (StatusUpdated v b)) \<Longrightarrow> traces P (updateSelfStatus c)"
  "P (Recorded e) \<Longrightarrow> traces P (record_event e)"
  unfolding create_def delete_def updateSelf_def updateSelfStatus_def
  by (simp_all add: traces_kwrite traces_updateObj) (simp add: traces_def record_event_def)

lemma traces_oact' [traces]:
  "(\<And>r. P (Created ch r)) \<Longrightarrow> traces P (create_missing c wr ch)"
  "(\<And>r. P (Deleted kd key r)) \<Longrightarrow> traces P (delete_existing c wr kd key)"
  "traces P (done_or_error r)"
  unfolding delete_existing_def create_missing_def done_or_error_def by (intro traces; simp)+

section \<open>Cleaning up\<close>

text \<open>\<open>cleans m\<close>: the action only deletes children and records events, and when it returns without
  error every deletion it asked for succeeded or found nothing to delete.\<close>

fun cleanup_call :: "'o ocall \<Rightarrow> bool" where
  "cleanup_call (Deleted kd key r) = True"
| "cleanup_call (Recorded e) = True"
| "cleanup_call _ = False"

fun gone :: "'o ocall \<Rightarrow> bool" where
  "gone (Deleted kd key r) \<longleftrightarrow> \<not> hard_error r"
| "gone _ = True"

definition cleans :: "('w, 'o, 'a) oact \<Rightarrow> bool" where
  "cleans m \<longleftrightarrow> (\<forall>s. \<exists>cs. trace (snd (m s)) = trace s @ cs \<and> list_all cleanup_call cs
     \<and> (is_ok (fst (m s)) \<longrightarrow> list_all gone cs))"

named_theorems cleans \<open>rules for clean-up actions\<close>

lemma cleans_traces: "cleans m \<Longrightarrow> traces cleanup_call m"
  unfolding cleans_def traces_def by blast

lemma cleans_silent [cleans]: "cleans (ret x)" "cleans (throw e)" "cleans (kread f)" "cleans getObj" "cleans (modObj h)" "cleans (panic p)"
  by (simp_all add: cleans_def ret_def throw_def kread_def getObj_def modObj_def panic_def)

lemma cleans_event [cleans]: "cleans (record_event e)"
  by (simp add: cleans_def record_event_def)

lemma cleans_bind [cleans]:
  assumes "cleans m" "\<And>x. cleans (g x)"
  shows "cleans (bind m g)"
  unfolding cleans_def
proof
  fix s
  obtain r s' where m: "m s = (r, s')" by (cases "m s")
  obtain cs where cs: "trace s' = trace s @ cs" "list_all cleanup_call cs" "is_ok r \<Longrightarrow> list_all gone cs"
    using assms(1) [unfolded cleans_def, rule_format, of s] m by auto
  show "\<exists>cs. trace (snd (bind m g s)) = trace s @ cs \<and> list_all cleanup_call cs
     \<and> (is_ok (fst (bind m g s)) \<longrightarrow> list_all gone cs)"
  proof (cases r)
    case (Ok x)
    obtain ds where "trace (snd (g x s')) = trace s' @ ds" "list_all cleanup_call ds" "is_ok (fst (g x s')) \<longrightarrow> list_all gone ds"
      using assms(2) [unfolded cleans_def, rule_format, of x s'] by auto
    then show ?thesis using cs Ok m by (auto simp: bind_def intro!: exI [of _ "cs @ ds"])
  qed (use cs m in \<open>auto simp: bind_def\<close>)
qed

lemma cleans_if [cleans]: "(b \<Longrightarrow> cleans m) \<Longrightarrow> (\<not> b \<Longrightarrow> cleans n) \<Longrightarrow> cleans (if b then m else n)"
  by simp

lemma cleans_case_option [cleans]:
  "cleans m \<Longrightarrow> (\<And>x. cleans (n x)) \<Longrightarrow> cleans (case y of None \<Rightarrow> m | Some x \<Rightarrow> n x)"
  by (cases y) simp_all

lemma cleans_case_sum [cleans]:
  "(\<And>e. cleans (m e)) \<Longrightarrow> (\<And>x. cleans (n x)) \<Longrightarrow> cleans (case y of Inl e \<Rightarrow> m e | Inr x \<Rightarrow> n x)"
  by (cases y) simp_all

lemma cleans_for_each [cleans]: "(\<And>x. x \<in> set xs \<Longrightarrow> cleans (g x)) \<Longrightarrow> cleans (for_each xs g)"
  by (induction xs) (auto intro: cleans)

lemma cleans_let [cleans]: "cleans (m v) \<Longrightarrow> cleans (let x = v in m x)"
  by simp

lemma cleans_delete_existing [cleans]: "cleans (delete_existing c wr kd key)"
proof -
  have "\<exists>cs. trace (snd (delete_existing c wr kd key s)) = trace s @ cs \<and> list_all cleanup_call cs
     \<and> (is_ok (fst (delete_existing c wr kd key s)) \<longrightarrow> list_all gone cs)" for s
  proof (cases "cDelete c kd key (world s)")
    case (Pair r w)
    then show ?thesis
      by (intro exI [of _ "[Deleted kd key r]"], cases r)
        (simp_all add: delete_existing_def delete_def bind_def kwrite_def ret_def throw_def hard_error_def)
  qed
  then show ?thesis unfolding cleans_def by blast
qed


section \<open>Walks\<close>

text \<open>\<open>walks h ks m\<close>: the calls of \<open>m\<close> that \<open>h\<close> selects yield \<open>ks\<close>, in this order, when \<open>m\<close> returns
  without error, and a prefix of \<open>ks\<close> when it stops earlier. \<open>emits\<close> is a bare condition on the calls.\<close>

definition walks :: "('c \<Rightarrow> 'k option) \<Rightarrow> 'k list \<Rightarrow> ('w, 'o, 'c, 'a) action \<Rightarrow> bool" where
  "walks h ks m \<longleftrightarrow> (\<forall>s. \<exists>cs. trace (snd (m s)) = trace s @ cs \<and> prefix (List.map_filter h cs) ks
     \<and> (is_ok (fst (m s)) \<longrightarrow> List.map_filter h cs = ks))"

definition emits :: "('c list \<Rightarrow> bool) \<Rightarrow> ('w, 'o, 'c, 'a) action \<Rightarrow> bool" where
  "emits Q m \<longleftrightarrow> (\<forall>s. \<exists>cs. trace (snd (m s)) = trace s @ cs \<and> Q cs)"

named_theorems walks \<open>rules for the selected calls of an action\<close>

lemma map_filter_append [simp]: "List.map_filter h (xs @ ys) = List.map_filter h xs @ List.map_filter h ys"
  by (simp add: List.map_filter_def)

lemma walksD: "walks h ks m \<Longrightarrow> \<exists>cs. trace (snd (m s)) = trace s @ cs \<and> prefix (List.map_filter h cs) ks
     \<and> (is_ok (fst (m s)) \<longrightarrow> List.map_filter h cs = ks)"
  unfolding walks_def by blast

lemma emitsD: "emits Q m \<Longrightarrow> \<exists>cs. trace (snd (m s)) = trace s @ cs \<and> Q cs"
  unfolding emits_def by blast

lemma traces_emits: "traces P m \<longleftrightarrow> emits (list_all P) m"
  by (simp add: traces_def emits_def)

lemma walks_emits: "walks h ks m \<Longrightarrow> emits (\<lambda>cs. prefix (List.map_filter h cs) ks) m"
  unfolding walks_def emits_def by blast

lemma emits_mono: "emits P m \<Longrightarrow> (\<And>cs. P cs \<Longrightarrow> Q cs) \<Longrightarrow> emits Q m"
  unfolding emits_def by blast

lemma emits_conj:
  assumes "emits P m" "emits Q m"
  shows "emits (\<lambda>cs. P cs \<and> Q cs) m"
  unfolding emits_def
proof
  fix s
  obtain cs ds where "trace (snd (m s)) = trace s @ cs" "P cs" "trace (snd (m s)) = trace s @ ds" "Q ds"
    using assms unfolding emits_def by metis
  then show "\<exists>cs. trace (snd (m s)) = trace s @ cs \<and> P cs \<and> Q cs" by auto
qed

lemma walks_silent [walks]: "walks h [] (ret x)" "walks h [] getObj" "walks h [] (kread f)" "walks h [] (modObj g)"
  "walks h ks (throw e)" "walks h ks (panic p)"
  by (simp_all add: walks_def ret_def throw_def panic_def getObj_def kread_def modObj_def List.map_filter_def)

lemma walks_bind:
  assumes "walks h ks m" "\<And>x. walks h ls (g x)"
  shows "walks h (ks @ ls) (bind m g)"
  unfolding walks_def
proof
  fix s
  obtain r s' where m: "m s = (r, s')" by (cases "m s")
  obtain cs where cs: "trace s' = trace s @ cs" "prefix (List.map_filter h cs) ks" "is_ok r \<Longrightarrow> List.map_filter h cs = ks"
    using walksD [OF assms(1), of s] m by auto
  show "\<exists>cs. trace (snd (bind m g s)) = trace s @ cs \<and> prefix (List.map_filter h cs) (ks @ ls)
     \<and> (is_ok (fst (bind m g s)) \<longrightarrow> List.map_filter h cs = ks @ ls)"
  proof (cases r)
    case (Ok x)
    obtain ds where "trace (snd (g x s')) = trace s' @ ds" "prefix (List.map_filter h ds) ls"
      "is_ok (fst (g x s')) \<longrightarrow> List.map_filter h ds = ls"
      using walksD [OF assms(2), of x s'] by auto
    then show ?thesis using cs Ok m by (auto simp: bind_def intro!: exI [of _ "cs @ ds"])
  qed (use cs m in \<open>auto simp: bind_def intro: prefix_order.trans\<close>)
qed

lemma walks_bind_silent [walks]: "walks h [] m \<Longrightarrow> (\<And>x. walks h ks (g x)) \<Longrightarrow> walks h ks (bind m g)"
  using walks_bind [of h "[]" m ks g] by simp

lemma walks_then_silent: "walks h ks m \<Longrightarrow> (\<And>x. walks h [] (g x)) \<Longrightarrow> walks h ks (bind m g)"
  using walks_bind [of h ks m "[]" g] by simp

lemma walks_if [walks]: "(b \<Longrightarrow> walks h ks m) \<Longrightarrow> (\<not> b \<Longrightarrow> walks h ks n) \<Longrightarrow> walks h ks (if b then m else n)"
  by simp

lemma walks_case_option [walks]:
  "(y = None \<Longrightarrow> walks h ks m) \<Longrightarrow> (\<And>x. y = Some x \<Longrightarrow> walks h ks (n x)) \<Longrightarrow> walks h ks (case y of None \<Rightarrow> m | Some x \<Rightarrow> n x)"
  by (cases y) simp_all

lemma walks_case_sum [walks]:
  "(\<And>e. y = Inl e \<Longrightarrow> walks h ks (m e)) \<Longrightarrow> (\<And>x. y = Inr x \<Longrightarrow> walks h ks (n x)) \<Longrightarrow> walks h ks (case y of Inl e \<Rightarrow> m e | Inr x \<Rightarrow> n x)"
  by (cases y) simp_all

lemma walks_for_each: "(\<And>x. x \<in> set xs \<Longrightarrow> walks h (f x) (g x)) \<Longrightarrow> walks h (concat (map f xs)) (for_each xs g)"
  by (induction xs) (auto intro: walks_bind walks_silent)

lemma walks_for_each_silent [walks]: "(\<And>x. x \<in> set xs \<Longrightarrow> walks h [] (g x)) \<Longrightarrow> walks h [] (for_each xs g)"
  using walks_for_each [of xs h "\<lambda>_. []" g] by (simp add: concat_eq_Nil_conv [THEN iffD2])

lemma walks_delete_existing:
  assumes "\<And>r. h (Deleted kd key r) = Some k"
  shows "walks h [k] (delete_existing c wr kd key)"
proof -
  have "\<exists>cs. trace (snd (delete_existing c wr kd key s)) = trace s @ cs \<and> prefix (List.map_filter h cs) [k]
     \<and> (is_ok (fst (delete_existing c wr kd key s)) \<longrightarrow> List.map_filter h cs = [k])" for s
  proof (cases "cDelete c kd key (world s)")
    case (Pair r w)
    then show ?thesis by (intro exI [of _ "[Deleted kd key r]"], cases r)
      (simp_all add: delete_existing_def delete_def bind_def kwrite_def ret_def throw_def List.map_filter_def assms)
  qed
  then show ?thesis unfolding walks_def by blast
qed

lemma walks_other:
  assumes "traces (\<lambda>cl. h cl = None) m"
  shows "walks h [] m"
proof -
  have "List.map_filter h cs = []" if "list_all (\<lambda>cl. h cl = None) cs" for cs
    using that by (induction cs) (simp_all add: List.map_filter_def)
  then show ?thesis using assms unfolding walks_def traces_def by fastforce
qed

section \<open>Finalizers\<close>

text \<open>The calls of one deletion round: clean-up, then at most one update of the object itself, which is
  only made when everything asked for is gone.\<close>

definition orderly :: "'o ocall list \<Rightarrow> bool" where
  "orderly cs \<longleftrightarrow> list_all cleanup_call cs \<or> (\<exists>ds v b. cs = ds @ [Updated v b] \<and> list_all cleanup_call ds \<and> list_all gone ds)"

definition releases :: "('w, 'o, 'a) oact \<Rightarrow> bool" where
  "releases m \<longleftrightarrow> (\<forall>s. \<exists>cs. trace (snd (m s)) = trace s @ cs \<and> orderly cs)"

lemma releases_cleans: "cleans m \<Longrightarrow> releases m"
  unfolding releases_def cleans_def orderly_def by blast

lemma releases_update:
  assumes "\<And>r. keeps trace (g r)"
  shows "releases (bind (updateSelf c) g)"
proof -
  have "\<exists>v b. trace (snd (bind (updateSelf c) g s)) = trace s @ [Updated v b]" for s
  proof (cases "cUpdate c (obj s) (world s)")
    case (Pair r w)
    then show ?thesis using assms [THEN keepsD]
      by (simp add: updateSelf_def updateObj_def bind_def)
  qed
  moreover have "orderly [Updated v b]" for v :: 'b and b by (auto simp: orderly_def)
  ultimately show ?thesis unfolding releases_def by metis
qed

lemma releases_bind:
  assumes "cleans m" "\<And>x. releases (g x)"
  shows "releases (bind m g)"
  unfolding releases_def
proof
  fix s
  obtain r s' where m: "m s = (r, s')" by (cases "m s")
  obtain cs where cs: "trace s' = trace s @ cs" "list_all cleanup_call cs" "is_ok r \<Longrightarrow> list_all gone cs"
    using assms(1) [unfolded cleans_def, rule_format, of s] m by auto
  show "\<exists>cs. trace (snd (bind m g s)) = trace s @ cs \<and> orderly cs"
  proof (cases r)
    case (Ok x)
    obtain ds where ds: "trace (snd (g x s')) = trace s' @ ds" "orderly ds"
      using assms(2) [unfolded releases_def, rule_format, of x s'] by auto
    have "orderly (cs @ ds)"
    proof (cases "list_all cleanup_call ds")
      case False
      then obtain es v b where es: "ds = es @ [Updated v b]" "list_all cleanup_call es" "list_all gone es"
        using ds(2) unfolding orderly_def by blast
      have "list_all gone cs" using cs(3) Ok by simp
      then show ?thesis unfolding orderly_def using cs(2) es
        by (intro disjI2 exI [of _ "cs @ es"] exI [of _ v] exI [of _ b]) simp
    qed (use cs in \<open>simp add: orderly_def\<close>)
    then show ?thesis using ds(1) cs(1) Ok m by (auto simp: bind_def intro!: exI [of _ "cs @ ds"])
  qed (use cs m in \<open>auto simp: bind_def orderly_def\<close>)
qed

lemma releases_if: "releases m \<Longrightarrow> releases n \<Longrightarrow> releases (if b then m else n)"
  by simp

definition not_updated :: "'o ocall \<Rightarrow> bool" where
  "not_updated cl \<longleftrightarrow> (case cl of Updated _ _ \<Rightarrow> False | _ \<Rightarrow> True)"

lemma not_updated_simps [simp]: "\<not> not_updated (Updated v b)" "not_updated (StatusUpdated v b)" "not_updated (Created ch r)"
  "not_updated (Deleted kd key r)" "not_updated (Recorded e)"
  by (simp_all add: not_updated_def)

lemma cleanup_not_updated: "cleanup_call cl \<Longrightarrow> not_updated cl"
  by (cases cl) simp_all

text \<open>The protocol of the controllers: \<open>handleDeletion\<close> for an object under deletion, the finalizer first
  of all on a new object, \<open>reconcileObj\<close> otherwise.\<close>

definition protected_round ::
  "('w, 'o) client \<Rightarrow> ext \<Rightarrow> ('o \<Rightarrow> meta) \<Rightarrow> ((meta \<Rightarrow> meta) \<Rightarrow> 'o \<Rightarrow> 'o) \<Rightarrow> string \<Rightarrow>
   ('w, 'o, Result) oact \<Rightarrow> ('w, 'o, Result) oact \<Rightarrow> key \<Rightarrow> ('w, 'o, Result) oact" where
  "protected_round c x meta_of map_meta finalizer handle live req =
    bind (kread (cGet c req)) (\<lambda>r. case r of
      Inl e \<Rightarrow> if e = NotFound then ret no_requeue else throw (ApiErr e)
    | Inr v \<Rightarrow> bind (modObj (\<lambda>_. v)) (\<lambda>_.
        if m_deletionTimestamp (meta_of v) \<noteq> None then handle
        else if \<not> ContainsFinalizer x (meta_of v) finalizer then
          bind (modObj (map_meta (\<lambda>m. AddFinalizer x m finalizer))) (\<lambda>_. bind (updateSelf c) done_or_error)
        else live))"

locale finalizer_controller =
  fixes Reconcile :: "('w, 'o) client \<Rightarrow> ext \<Rightarrow> key \<Rightarrow> ('w, 'o, Result) oact"
    and handleDeletion :: "('w, 'o) client \<Rightarrow> ext \<Rightarrow> ('w, 'o, Result) oact"
    and reconcileObj :: "('w, 'o) client \<Rightarrow> ext \<Rightarrow> ('w, 'o, Result) oact"
    and meta_of :: "'o \<Rightarrow> meta"
    and map_meta :: "(meta \<Rightarrow> meta) \<Rightarrow> 'o \<Rightarrow> 'o"
    and finalizer :: string
  assumes round: "Reconcile c x req = protected_round c x meta_of map_meta finalizer (handleDeletion c x) (reconcileObj c x) req"
    and releases: "releases (handleDeletion c x)"
    and live: "traces not_updated (reconcileObj c x)"
    and meta_map: "meta_of (map_meta f v) = f (meta_of v)"
begin

text \<open>What a round does to the object itself: nothing, unless it is new, when the finalizer is added and
  nothing else is done, or under deletion, when the update comes last and after everything is gone.\<close>

lemma round_cases:
  assumes "cGet c req (world s) = Inr v"
  shows "\<exists>cs. trace (snd (Reconcile c x req s)) = trace s @ cs \<and>
     (if m_deletionTimestamp (meta_of v) \<noteq> None then orderly cs
      else if ContainsFinalizer x (meta_of v) finalizer then list_all not_updated cs
      else \<exists>b. cs = [Updated (map_meta (\<lambda>m. AddFinalizer x m finalizer) v) b])"
proof -
  let ?s = "s\<lparr>obj := v\<rparr>"
  have go: "Reconcile c x req s = (if m_deletionTimestamp (meta_of v) \<noteq> None then handleDeletion c x
      else if \<not> ContainsFinalizer x (meta_of v) finalizer then
          bind (modObj (map_meta (\<lambda>m. AddFinalizer x m finalizer))) (\<lambda>_. bind (updateSelf c) done_or_error)
      else reconcileObj c x) ?s"
    using assms by (simp add: round protected_round_def bind_def kread_def modObj_def)
  show ?thesis
  proof (cases "m_deletionTimestamp (meta_of v) \<noteq> None")
    case True
    then show ?thesis using go releases [of c x, unfolded releases_def, rule_format, of ?s] by auto
  next
    case live_obj: False
    show ?thesis
    proof (cases "ContainsFinalizer x (meta_of v) finalizer")
      case True
      then show ?thesis using go live_obj tracesD [OF live [of c x], of ?s] by auto
    next
      case False
      obtain r w where "cUpdate c (map_meta (\<lambda>m. AddFinalizer x m finalizer) v) (world s) = (r, w)" by fastforce
      then show ?thesis using False live_obj
        by (cases r) (auto simp: go bind_def modObj_def updateSelf_def updateObj_def done_or_error_def ret_def throw_def)
    qed
  qed
qed

lemma round_protects:
  assumes "cGet c req (world s) = Inr v" "m_deletionTimestamp (meta_of v) = None"
    and "\<And>m. ContainsFinalizer x (AddFinalizer x m finalizer) finalizer"
  shows "\<exists>cs. trace (snd (Reconcile c x req s)) = trace s @ cs
     \<and> list_all (\<lambda>cl. case cl of Updated w b \<Rightarrow> ContainsFinalizer x (meta_of w) finalizer | _ \<Rightarrow> True) cs"
proof -
  obtain cs where cs: "trace (snd (Reconcile c x req s)) = trace s @ cs"
    and "if ContainsFinalizer x (meta_of v) finalizer then list_all not_updated cs
      else \<exists>b. cs = [Updated (map_meta (\<lambda>m. AddFinalizer x m finalizer) v) b]"
    using round_cases [OF assms(1), of x] assms(2) by auto
  then have "list_all (\<lambda>cl. case cl of Updated w b \<Rightarrow> ContainsFinalizer x (meta_of w) finalizer | _ \<Rightarrow> True) cs"
    using assms(3) by (auto simp: meta_map list_all_iff not_updated_def split: if_splits ocall.splits)
  then show ?thesis using cs by blast
qed

lemma round_missing:
  assumes "cGet c req (world s) = Inl e"
  shows "trace (snd (Reconcile c x req s)) = trace s"
  using assms by (simp add: round protected_round_def bind_def kread_def ret_def throw_def)

end

end
