(* ===== verification/Virtual_Disk.thy ===== *)
theory Virtual_Disk
  imports Owned_Objects
begin

text \<open>
  \<open>src/internal/controller/virtualdisk_controller.go\<close> and \<open>virtualdisksnapshot_controller.go\<close>: a
  VirtualDisk is backed by a CDI DataVolume of the same name, a VirtualDiskSnapshot by a CSI
  VolumeSnapshot of the same name, and each reports the state of what backs it. Both controllers are
  instances of the finalizer protocol. The values of the API package's condition-type constants are not
  part of the repository; \<open>api_const\<close> stands for them, by the constants' names.
\<close>

section \<open>Disks\<close>

definition VirtualDiskProtectionFinalizer :: string where
  "VirtualDiskProtectionFinalizer = ''cloudhypervisor.quill.today/virtualdisk-protection''"

definition q_70Gi :: quantity where "q_70Gi = NewQuantity (70 * 2 ^ 30)"

definition storageRequest :: "virtual_disk \<Rightarrow> quantity" where
  "storageRequest v =
    (let req = (case dsp_Storage (vdk_spec v) of None \<Rightarrow> 0
        | Some requests \<Rightarrow> (case gm_get requests ''storage'' of None \<Rightarrow> 0 | Some q \<Rightarrow> q)) in
     if IsZero req then q_70Gi else req)"

definition buildDataVolumeSource :: "virtual_disk \<Rightarrow> dv_source" where
  "buildDataVolumeSource v =
    (let default = DV_HTTP ''https://cloud-images.ubuntu.com/jammy/current/jammy-server-cloudimg-amd64.img'' in
     case dsp_Source (vdk_spec v) of None \<Rightarrow> default
     | Some src \<Rightarrow> (case ds_HTTP src of Some url \<Rightarrow> DV_HTTP url
        | None \<Rightarrow> (case ds_Registry src of Some (url, pullMethod) \<Rightarrow> DV_Registry url pullMethod
        | None \<Rightarrow> (case ds_DiskSnapshot src of Some name \<Rightarrow> DV_Snapshot (m_namespace (vdk_meta v)) name
        | None \<Rightarrow> if ds_Empty src then DV_Blank else default))))"

definition data_volume_for :: "virtual_disk \<Rightarrow> data_volume" where
  "data_volume_for v = \<lparr>dv_meta = empty_meta\<lparr>m_name := m_name (vdk_meta v), m_namespace := m_namespace (vdk_meta v),
       m_labels := m_labels (vdk_meta v)\<rparr>, dv_request = storageRequest v, dv_source = buildDataVolumeSource v, dv_succeeded = False\<rparr>"

definition createDataVolume :: "('w, virtual_disk) client \<Rightarrow> ext \<Rightarrow> ('w, virtual_disk, unit) oact" where
  "createDataVolume c x = bind getObj (\<lambda>v.
     let dataVolume = data_volume_for v in
     case SetControllerReference x (vdk_meta v) (dv_meta dataVolume) of
       Inl e \<Rightarrow> throw (ErrW ''failed to set controller reference'' e)
     | Inr m \<Rightarrow> bind (create c (ChildDataVolume (dataVolume\<lparr>dv_meta := m\<rparr>))) (\<lambda>r.
         case r of None \<Rightarrow> ret () | Some e \<Rightarrow> throw (ApiErr e)))"

definition isDataVolumeReady :: "data_volume \<Rightarrow> bool" where
  "isDataVolumeReady dv \<longleftrightarrow> dv_succeeded dv"

definition disk_ready :: "(string \<Rightarrow> string) \<Rightarrow> virtual_disk \<Rightarrow> virtual_disk" where
  "disk_ready api_const v = v\<lparr>vdk_phase := VirtualDiskReady,
     vdk_conditions := [\<lparr>cd_type = api_const ''VirtualDiskReadyCondition'', cd_status = ''True'', cd_reason = ''DataVolumeReady'',
       cd_message = ''DataVolume is ready''\<rparr>]\<rparr>"

text \<open>The Create error is reported as an event and returned.\<close>

definition reconcileVirtualDisk :: "(string \<Rightarrow> string) \<Rightarrow> ('w, virtual_disk) client \<Rightarrow> ext \<Rightarrow> ('w, virtual_disk, Result) oact" where
  "reconcileVirtualDisk api_const c x = bind getObj (\<lambda>v.
    bind (kread (cGetDataVolume c (meta_key (vdk_meta v)))) (\<lambda>r. case r of
      Inl e \<Rightarrow> if e \<noteq> NotFound then throw (ApiErr e)
        else bind (attempt (createDataVolume c x)) (\<lambda>r. case r of
            Inl e \<Rightarrow> bind (record_event ''DataVolumeCreationFailed'') (\<lambda>_. throw e)
          | Inr _ \<Rightarrow> bind (record_event ''DataVolumeCreated'') (\<lambda>_. ret (requeue_after 5)))
    | Inr dv \<Rightarrow> if \<not> isDataVolumeReady dv then ret (requeue_after 1)
        else if vdk_phase v \<noteq> VirtualDiskReady then
          bind (modObj (disk_ready api_const)) (\<lambda>_.
          bind (updateSelfStatus c) (\<lambda>r. case r of Some e \<Rightarrow> throw (ApiErr e)
          | None \<Rightarrow> bind (record_event ''VirtualDiskReady'') (\<lambda>_. ret no_requeue)))
        else ret no_requeue))"

text \<open>\<open>err := r.Delete(...)\<close> with an event when there was something to delete.\<close>

definition delete_backing :: "('w, 'o) client \<Rightarrow> kind \<Rightarrow> key \<Rightarrow> string \<Rightarrow> ('w, 'o, unit) oact" where
  "delete_backing c kd key ev = bind (delete c kd key) (\<lambda>r. case r of
     None \<Rightarrow> record_event ev
   | Some e \<Rightarrow> if e = NotFound then ret () else throw (ApiErr e))"

definition VirtualDisk_handleDeletion :: "('w, virtual_disk) client \<Rightarrow> ext \<Rightarrow> ('w, virtual_disk, Result) oact" where
  "VirtualDisk_handleDeletion c x = bind getObj (\<lambda>v.
    bind (delete_backing c KindDataVolume (meta_key (vdk_meta v)) ''DataVolumeDeleted'') (\<lambda>_.
    if ContainsFinalizer x (vdk_meta v) VirtualDiskProtectionFinalizer then
      bind (modObj (\<lambda>v. v\<lparr>vdk_meta := RemoveFinalizer x (vdk_meta v) VirtualDiskProtectionFinalizer\<rparr>)) (\<lambda>_.
      bind (updateSelf c) done_or_error)
    else ret no_requeue))"

definition VirtualDisk_Reconcile :: "(string \<Rightarrow> string) \<Rightarrow> ('w, virtual_disk) client \<Rightarrow> ext \<Rightarrow> key \<Rightarrow> ('w, virtual_disk, Result) oact" where
  "VirtualDisk_Reconcile api_const c x req =
    bind (kread (cGet c req)) (\<lambda>r. case r of
      Inl e \<Rightarrow> if e = NotFound then ret no_requeue else throw (ApiErr e)
    | Inr v \<Rightarrow> bind (modObj (\<lambda>_. v)) (\<lambda>_.
        if m_deletionTimestamp (vdk_meta v) \<noteq> None then VirtualDisk_handleDeletion c x
        else if \<not> ContainsFinalizer x (vdk_meta v) VirtualDiskProtectionFinalizer then
          bind (modObj (\<lambda>v. v\<lparr>vdk_meta := AddFinalizer x (vdk_meta v) VirtualDiskProtectionFinalizer\<rparr>)) (\<lambda>_.
          bind (updateSelf c) done_or_error)
        else reconcileVirtualDisk api_const c x))"

section \<open>Snapshots of disks\<close>

definition VirtualDiskSnapshotProtectionFinalizer :: string where
  "VirtualDiskSnapshotProtectionFinalizer = ''cloudhypervisor.quill.today/virtualdisksnapshot-protection''"

datatype snapshot_phase = SnapshotPhaseEmpty | VirtualDiskSnapshotPending | VirtualDiskSnapshotInProgress
  | VirtualDiskSnapshotReadyToUse | VirtualDiskSnapshotError | VirtualDiskSnapshotDeleting

record disk_snapshot =
  dsn_meta :: meta
  dsn_VirtualDiskName :: string
  dsn_phase :: snapshot_phase
  dsn_conditions :: "condition list"

definition createVolumeSnapshot :: "('w, disk_snapshot) client \<Rightarrow> ext \<Rightarrow> ('w, disk_snapshot, unit) oact" where
  "createVolumeSnapshot c x = bind getObj (\<lambda>v.
     let vs = \<lparr>cs_meta = empty_meta\<lparr>m_name := m_name (dsn_meta v), m_namespace := m_namespace (dsn_meta v), m_labels := m_labels (dsn_meta v)\<rparr>,
          cs_claim = dsn_VirtualDiskName v\<rparr> in
     case SetControllerReference x (dsn_meta v) (cs_meta vs) of
       Inl e \<Rightarrow> throw (ErrW ''failed to set controller reference'' e)
     | Inr m \<Rightarrow> bind (create c (ChildVolumeSnapshot (vs\<lparr>cs_meta := m\<rparr>))) (\<lambda>r.
         case r of None \<Rightarrow> ret () | Some e \<Rightarrow> throw (ApiErr e)))"

definition isVolumeSnapshotReady :: "csi_status \<Rightarrow> bool" where
  "isVolumeSnapshotReady st \<longleftrightarrow> cst_ReadyToUse st = Some True"

definition snapshot_phase_of :: "csi_status \<Rightarrow> snapshot_phase" where
  "snapshot_phase_of st = (if cst_Error st \<noteq> None then VirtualDiskSnapshotError
     else if cst_ReadyToUse st = Some True then VirtualDiskSnapshotReadyToUse
     else if cst_CreationTime st \<noteq> None then VirtualDiskSnapshotInProgress else VirtualDiskSnapshotPending)"

text \<open>The condition; the message of an error is a pointer that is followed without a check.\<close>

definition snapshot_condition :: "(string \<Rightarrow> string) \<Rightarrow> csi_status \<Rightarrow> (err, condition) outcome" where
  "snapshot_condition api_const st =
    (if cst_ReadyToUse st = Some True then
       Ok \<lparr>cd_type = api_const ''VirtualDiskSnapshotReady'', cd_status = ''True'', cd_reason = ''VolumeSnapshotReady'',
         cd_message = ''VolumeSnapshot is ready for use''\<rparr>
     else (case cst_Error st of
       Some None \<Rightarrow> Panic ''nil pointer dereference''
     | Some (Some msg) \<Rightarrow> Ok \<lparr>cd_type = api_const ''VirtualDiskSnapshotError'', cd_status = ''True'', cd_reason = ''VolumeSnapshotError'',
         cd_message = ''VolumeSnapshot failed: '' @ msg\<rparr>
     | None \<Rightarrow> Ok \<lparr>cd_type = api_const ''VirtualDiskSnapshotCreated'', cd_status = ''False'', cd_reason = ''VolumeSnapshotCreating'',
         cd_message = ''VolumeSnapshot is being created''\<rparr>))"

definition mapVolumeSnapshotStatus :: "(string \<Rightarrow> string) \<Rightarrow> csi_status \<Rightarrow> ('w, disk_snapshot, bool) oact" where
  "mapVolumeSnapshotStatus api_const st =
    (let newPhase = snapshot_phase_of st in
     bind (modObj (\<lambda>v. v\<lparr>dsn_phase := newPhase\<rparr>)) (\<lambda>_.
     bind (lift (snapshot_condition api_const st)) (\<lambda>cond.
     bind (modObj (\<lambda>v. v\<lparr>dsn_conditions := [cond]\<rparr>)) (\<lambda>_.
     bind (if newPhase = VirtualDiskSnapshotReadyToUse then record_event ''VirtualDiskSnapshotReady''
           else if newPhase = VirtualDiskSnapshotError then record_event ''VirtualDiskSnapshotFailed'' else ret ()) (\<lambda>_.
     ret True)))))"

text \<open>\<open>volumeSnapshot.Status\<close> is a pointer as well; it is nil until the snapshot controller has seen the
  object.\<close>

definition reconcileVirtualDiskSnapshot :: "(string \<Rightarrow> string) \<Rightarrow> ('w, disk_snapshot) client \<Rightarrow> ext \<Rightarrow> ('w, disk_snapshot, Result) oact" where
  "reconcileVirtualDiskSnapshot api_const c x = bind getObj (\<lambda>v.
    bind (kread (cGetVolumeSnapshot c (meta_key (dsn_meta v)))) (\<lambda>r. case r of
      Inl e \<Rightarrow> if e \<noteq> NotFound then throw (ApiErr e)
        else bind (attempt (createVolumeSnapshot c x)) (\<lambda>r. case r of
            Inl e \<Rightarrow> bind (record_event ''VolumeSnapshotCreationFailed'') (\<lambda>_. throw e)
          | Inr _ \<Rightarrow> bind (record_event ''VolumeSnapshotCreated'') (\<lambda>_. ret (requeue_after 5)))
    | Inr status \<Rightarrow> (case status of None \<Rightarrow> panic ''nil pointer dereference''
      | Some st \<Rightarrow> bind (mapVolumeSnapshotStatus api_const st) (\<lambda>statusUpdated.
          bind (if statusUpdated then updateSelfStatus c else ret None) (\<lambda>r. case r of
            Some e \<Rightarrow> throw (ApiErr e)
          | None \<Rightarrow> if \<not> isVolumeSnapshotReady st then ret (requeue_after 5) else ret no_requeue)))))"

definition DiskSnapshot_handleDeletion :: "('w, disk_snapshot) client \<Rightarrow> ext \<Rightarrow> ('w, disk_snapshot, Result) oact" where
  "DiskSnapshot_handleDeletion c x = bind getObj (\<lambda>v.
    bind (delete_backing c KindVolumeSnapshot (meta_key (dsn_meta v)) ''VolumeSnapshotDeleted'') (\<lambda>_.
    if ContainsFinalizer x (dsn_meta v) VirtualDiskSnapshotProtectionFinalizer then
      bind (modObj (\<lambda>v. v\<lparr>dsn_meta := RemoveFinalizer x (dsn_meta v) VirtualDiskSnapshotProtectionFinalizer\<rparr>)) (\<lambda>_.
      bind (updateSelf c) done_or_error)
    else ret no_requeue))"

definition DiskSnapshot_Reconcile :: "(string \<Rightarrow> string) \<Rightarrow> ('w, disk_snapshot) client \<Rightarrow> ext \<Rightarrow> key \<Rightarrow> ('w, disk_snapshot, Result) oact" where
  "DiskSnapshot_Reconcile api_const c x req =
    bind (kread (cGet c req)) (\<lambda>r. case r of
      Inl e \<Rightarrow> if e = NotFound then ret no_requeue else throw (ApiErr e)
    | Inr v \<Rightarrow> bind (modObj (\<lambda>_. v)) (\<lambda>_.
        if m_deletionTimestamp (dsn_meta v) \<noteq> None then DiskSnapshot_handleDeletion c x
        else if \<not> ContainsFinalizer x (dsn_meta v) VirtualDiskSnapshotProtectionFinalizer then
          bind (modObj (\<lambda>v. v\<lparr>dsn_meta := AddFinalizer x (dsn_meta v) VirtualDiskSnapshotProtectionFinalizer\<rparr>)) (\<lambda>_.
          bind (updateSelf c) done_or_error)
        else reconcileVirtualDiskSnapshot api_const c x))"

section \<open>The finalizer protocol\<close>

lemma cleans_delete_backing [cleans]: "cleans (delete_backing c kd key ev)"
proof -
  have "\<exists>cs. trace (snd (delete_backing c kd key ev s)) = trace s @ cs \<and> list_all cleanup_call cs
     \<and> (is_ok (fst (delete_backing c kd key ev s)) \<longrightarrow> list_all gone cs)" for s
  proof (cases "cDelete c kd key (world s)")
    case (Pair r w)
    then show ?thesis
      by (cases r) (auto simp: delete_backing_def delete_def bind_def kwrite_def ret_def throw_def record_event_def hard_error_def)
  qed
  then show ?thesis unfolding cleans_def by blast
qed

lemma disk_handleDeletion_releases: "releases (VirtualDisk_handleDeletion c x)" "releases (DiskSnapshot_handleDeletion c' x)"
  unfolding VirtualDisk_handleDeletion_def DiskSnapshot_handleDeletion_def
  by (intro releases_bind releases_if releases_update releases_cleans [OF cleans_silent(1)] cleans; simp add: done_or_error_def keeps)+

lemma reconcile_live:
  "traces not_updated (reconcileVirtualDisk k c x)" "traces not_updated (reconcileVirtualDiskSnapshot k c' x)"
  unfolding reconcileVirtualDisk_def reconcileVirtualDiskSnapshot_def createDataVolume_def createVolumeSnapshot_def
    mapVolumeSnapshotStatus_def Let_def
  by (intro traces; simp)+

interpretation disk: finalizer_controller
  where Reconcile = "VirtualDisk_Reconcile k" and handleDeletion = VirtualDisk_handleDeletion and reconcileObj = "reconcileVirtualDisk k"
    and meta_of = vdk_meta and map_meta = "\<lambda>f v. v\<lparr>vdk_meta := f (vdk_meta v)\<rparr>" and finalizer = VirtualDiskProtectionFinalizer
  for k
  by unfold_locales (simp_all add: VirtualDisk_Reconcile_def protected_round_def disk_handleDeletion_releases reconcile_live)

interpretation snap: finalizer_controller
  where Reconcile = "DiskSnapshot_Reconcile k" and handleDeletion = DiskSnapshot_handleDeletion and reconcileObj = "reconcileVirtualDiskSnapshot k"
    and meta_of = dsn_meta and map_meta = "\<lambda>f v. v\<lparr>dsn_meta := f (dsn_meta v)\<rparr>" and finalizer = VirtualDiskSnapshotProtectionFinalizer
  for k
  by unfold_locales (simp_all add: DiskSnapshot_Reconcile_def protected_round_def disk_handleDeletion_releases reconcile_live)


section \<open>Properties\<close>

text \<open>Both controllers follow the finalizer protocol: a new object gets its finalizer and nothing else
  happens; an object under deletion is updated last, after the deletion of what backs it succeeded or
  found nothing; no other round updates it.\<close>

theorem disk_finalizer_protocol:
  assumes "cGet c req (world s) = Inr v" "cGet c' req' (world s') = Inr u"
  shows "(\<exists>cs. trace (snd (VirtualDisk_Reconcile k c x req s)) = trace s @ cs \<and>
     (if m_deletionTimestamp (vdk_meta v) \<noteq> None then orderly cs
      else if ContainsFinalizer x (vdk_meta v) VirtualDiskProtectionFinalizer then list_all not_updated cs
      else \<exists>b. cs = [Updated (v\<lparr>vdk_meta := AddFinalizer x (vdk_meta v) VirtualDiskProtectionFinalizer\<rparr>) b]))
   \<and> (\<exists>cs. trace (snd (DiskSnapshot_Reconcile k c' x req' s')) = trace s' @ cs \<and>
     (if m_deletionTimestamp (dsn_meta u) \<noteq> None then orderly cs
      else if ContainsFinalizer x (dsn_meta u) VirtualDiskSnapshotProtectionFinalizer then list_all not_updated cs
      else \<exists>b. cs = [Updated (u\<lparr>dsn_meta := AddFinalizer x (dsn_meta u) VirtualDiskSnapshotProtectionFinalizer\<rparr>) b]))"
  by (intro conjI disk.round_cases snap.round_cases assms)

text \<open>A round over a live disk, by the state of its DataVolume: without one it asks for one of the
  same name and namespace, with a request that is not zero; with one that is not finished it waits;
  and it reports the disk ready only when the DataVolume has succeeded, once.\<close>

theorem disk_round:
  assumes "cGetDataVolume c (meta_key (vdk_meta (obj s))) (world s) = r"
    and "SetControllerReference x (vdk_meta (obj s)) (dv_meta (data_volume_for (obj s))) = Inr m"
  shows "\<not> IsZero (dv_request (data_volume_for (obj s)))
   \<and> (\<exists>cs. trace (snd (reconcileVirtualDisk k c x s)) = trace s @ cs \<and> (case r of
      Inl e \<Rightarrow> if e = NotFound then \<exists>a ev. cs = [Created (ChildDataVolume ((data_volume_for (obj s))\<lparr>dv_meta := m\<rparr>)) a, Recorded ev] else cs = []
    | Inr dv \<Rightarrow> if dv_succeeded dv \<and> vdk_phase (obj s) \<noteq> VirtualDiskReady
        then \<exists>b. cs = [StatusUpdated (disk_ready k (obj s)) b] \<or> cs = [StatusUpdated (disk_ready k (obj s)) b, Recorded ''VirtualDiskReady'']
        else cs = []))"
proof
  show "\<not> IsZero (dv_request (data_volume_for (obj s)))"
    by (simp add: data_volume_for_def storageRequest_def Let_def) (simp add: IsZero_def q_70Gi_def NewQuantity_def)
next
  show "\<exists>cs. trace (snd (reconcileVirtualDisk k c x s)) = trace s @ cs \<and> (case r of
      Inl e \<Rightarrow> if e = NotFound then \<exists>a ev. cs = [Created (ChildDataVolume ((data_volume_for (obj s))\<lparr>dv_meta := m\<rparr>)) a, Recorded ev] else cs = []
    | Inr dv \<Rightarrow> if dv_succeeded dv \<and> vdk_phase (obj s) \<noteq> VirtualDiskReady
        then \<exists>b. cs = [StatusUpdated (disk_ready k (obj s)) b] \<or> cs = [StatusUpdated (disk_ready k (obj s)) b, Recorded ''VirtualDiskReady'']
        else cs = [])"
  proof (cases r)
    case (Inl e)
    obtain a w where "cCreate c (ChildDataVolume ((data_volume_for (obj s))\<lparr>dv_meta := m\<rparr>)) (world s) = (a, w)" by fastforce
    then show ?thesis using assms Inl
      by (cases a) (auto simp: reconcileVirtualDisk_def createDataVolume_def create_def act_defs record_event_def Let_def)
  next
    case (Inr dv)
    obtain a w where "cUpdateStatus c (disk_ready k (obj s)) (world s) = (a, w)" by fastforce
    then show ?thesis using assms Inr
      by (cases a) (auto simp: reconcileVirtualDisk_def isDataVolumeReady_def updateSelfStatus_def act_defs record_event_def)
  qed
qed

lemma snapshot_condition_cases:
  "snapshot_condition k t = (if cst_Error t = Some None \<and> cst_ReadyToUse t \<noteq> Some True then Panic ''nil pointer dereference''
     else Ok (if cst_ReadyToUse t = Some True then
         \<lparr>cd_type = k ''VirtualDiskSnapshotReady'', cd_status = ''True'', cd_reason = ''VolumeSnapshotReady'', cd_message = ''VolumeSnapshot is ready for use''\<rparr>
       else if cst_Error t \<noteq> None then
         \<lparr>cd_type = k ''VirtualDiskSnapshotError'', cd_status = ''True'', cd_reason = ''VolumeSnapshotError'', cd_message = ''VolumeSnapshot failed: '' @ the (the (cst_Error t))\<rparr>
       else \<lparr>cd_type = k ''VirtualDiskSnapshotCreated'', cd_status = ''False'', cd_reason = ''VolumeSnapshotCreating'', cd_message = ''VolumeSnapshot is being created''\<rparr>))"
  by (auto simp: snapshot_condition_def split: option.splits)

text \<open>The phase and the condition a snapshot gets from the state of its VolumeSnapshot.\<close>

definition reports :: "csi_status \<Rightarrow> disk_snapshot \<Rightarrow> bool" where
  "reports t w \<longleftrightarrow> (let err = (cst_Error t \<noteq> None); ready = (cst_ReadyToUse t = Some True); begun = (cst_CreationTime t \<noteq> None) in
     (dsn_phase w = VirtualDiskSnapshotError \<longleftrightarrow> err)
     \<and> (dsn_phase w = VirtualDiskSnapshotReadyToUse \<longleftrightarrow> \<not> err \<and> ready)
     \<and> (dsn_phase w = VirtualDiskSnapshotInProgress \<longleftrightarrow> \<not> err \<and> \<not> ready \<and> begun)
     \<and> (dsn_phase w = VirtualDiskSnapshotPending \<longleftrightarrow> \<not> err \<and> \<not> ready \<and> \<not> begun)
     \<and> map cd_reason (dsn_conditions w) = [if ready then ''VolumeSnapshotReady'' else if err then ''VolumeSnapshotError'' else ''VolumeSnapshotCreating'']
     \<and> map cd_status (dsn_conditions w) = [if ready \<or> err then ''True'' else ''False''])"

lemma reports_mapped:
  assumes "snapshot_condition k t = Ok cond"
  shows "reports t (v\<lparr>dsn_phase := snapshot_phase_of t, dsn_conditions := [cond]\<rparr>)"
  using assms unfolding snapshot_condition_cases reports_def snapshot_phase_of_def by (auto simp: Let_def split: if_splits)

lemma mapVolumeSnapshotStatus_Ok:
  assumes "snapshot_condition k t = Ok cond"
  shows "mapVolumeSnapshotStatus k t s =
    (Ok True, s\<lparr>obj := (obj s)\<lparr>dsn_phase := snapshot_phase_of t, dsn_conditions := [cond]\<rparr>,
       trace := trace s @ (if cst_Error t \<noteq> None then [Recorded ''VirtualDiskSnapshotFailed'']
         else if cst_ReadyToUse t = Some True then [Recorded ''VirtualDiskSnapshotReady''] else [])\<rparr>)"
  using assms by (simp add: mapVolumeSnapshotStatus_def act_defs record_event_def Let_def snapshot_phase_of_def)

lemma snapshot_writes:
  assumes "cGetVolumeSnapshot c (meta_key (dsn_meta (obj s))) (world s) = Inr (Some t)"
    and "\<not> (cst_Error t = Some None \<and> cst_ReadyToUse t \<noteq> Some True)"
  shows "\<exists>w b. trace (snd (reconcileVirtualDiskSnapshot k c x s)) = trace s @ (if cst_Error t \<noteq> None then [Recorded ''VirtualDiskSnapshotFailed'']
         else if cst_ReadyToUse t = Some True then [Recorded ''VirtualDiskSnapshotReady''] else []) @ [StatusUpdated w b]
    \<and> reports t w \<and> dsn_meta w = dsn_meta (obj s) \<and> dsn_VirtualDiskName w = dsn_VirtualDiskName (obj s)
    \<and> (if b then fst (reconcileVirtualDiskSnapshot k c x s) = Ok (if cst_ReadyToUse t = Some True then no_requeue else requeue_after 5)
       else \<not> is_ok (fst (reconcileVirtualDiskSnapshot k c x s)))"
proof -
  obtain cond where cond: "snapshot_condition k t = Ok cond" using assms(2) unfolding snapshot_condition_cases by auto
  let ?w = "(obj s)\<lparr>dsn_phase := snapshot_phase_of t, dsn_conditions := [cond]\<rparr>"
  obtain a w where "cUpdateStatus c ?w (world s) = (a, w)" by fastforce
  then show ?thesis
    using assms(1) mapVolumeSnapshotStatus_Ok [OF cond, of s] reports_mapped [OF cond, of "obj s"]
    by (intro exI [of _ ?w] exI [of _ "is_Inr a"], cases a)
      (simp_all add: reconcileVirtualDiskSnapshot_def isVolumeSnapshotReady_def bind_def getObj_def kread_def updateSelfStatus_def updateObj_def ret_def throw_def is_Inr_def)
qed

lemma snapshot_creates:
  assumes "cGetVolumeSnapshot c (meta_key (dsn_meta (obj s))) (world s) = Inl NotFound"
  shows "\<exists>cs. trace (snd (reconcileVirtualDiskSnapshot k c x s)) = trace s @ cs
    \<and> (let m = dsn_meta (obj s); r = fst (reconcileVirtualDiskSnapshot k c x s) in
       case SetControllerReference x m (empty_meta\<lparr>m_name := m_name m, m_namespace := m_namespace m, m_labels := m_labels m\<rparr>) of
         Inl e \<Rightarrow> cs = [Recorded ''VolumeSnapshotCreationFailed''] \<and> \<not> is_ok r
       | Inr m' \<Rightarrow> \<exists>q. cs = [Created (ChildVolumeSnapshot \<lparr>cs_meta = m', cs_claim = dsn_VirtualDiskName (obj s)\<rparr>) q,
             Recorded (if q = None then ''VolumeSnapshotCreated'' else ''VolumeSnapshotCreationFailed'')]
           \<and> r = (case q of None \<Rightarrow> Ok (requeue_after 5) | Some e \<Rightarrow> Err (ApiErr e)))"
proof (cases "SetControllerReference x (dsn_meta (obj s)) (empty_meta\<lparr>m_name := m_name (dsn_meta (obj s)),
    m_namespace := m_namespace (dsn_meta (obj s)), m_labels := m_labels (dsn_meta (obj s))\<rparr>)")
  case (Inl e)
  then show ?thesis using assms
    by (simp add: reconcileVirtualDiskSnapshot_def createVolumeSnapshot_def act_defs record_event_def Let_def)
next
  case (Inr m)
  obtain q w where "cCreate c (ChildVolumeSnapshot \<lparr>cs_meta = m, cs_claim = dsn_VirtualDiskName (obj s)\<rparr>) (world s) = (q, w)" by fastforce
  then show ?thesis using assms Inr
    by (cases q) (auto simp: reconcileVirtualDiskSnapshot_def createVolumeSnapshot_def create_def act_defs record_event_def Let_def)
qed

text \<open>C27: One round of a VirtualDiskSnapshot, for every answer about its VolumeSnapshot. A missing one is created, with the disk as its claim and the snapshot as controller, and
  the round comes back after 5 seconds; any other error ends the round without a call. A VolumeSnapshot that is there is reported in one status
  update: the phase is Error with an error, otherwise ReadyToUse when it is ready, otherwise InProgress once it has a creation time, otherwise Pending; the
  condition says ready, failed or creating, readiness before an error; the round comes back until it is ready. It
  panics, without a call, when the VolumeSnapshot has no status yet or is not ready and has an error without a message.\<close>

theorem snapshot_round:
  "\<exists>cs. trace (snd (reconcileVirtualDiskSnapshot k c x s)) = trace s @ cs
    \<and> (let r = fst (reconcileVirtualDiskSnapshot k c x s); m = dsn_meta (obj s) in
       case cGetVolumeSnapshot c (key_in (m_namespace m) (m_name m)) (world s) of
         Inl e \<Rightarrow> if e \<noteq> NotFound then cs = [] \<and> r = Err (ApiErr e)
           else (case SetControllerReference x m (empty_meta\<lparr>m_name := m_name m, m_namespace := m_namespace m, m_labels := m_labels m\<rparr>) of
               Inl e \<Rightarrow> cs = [Recorded ''VolumeSnapshotCreationFailed''] \<and> \<not> is_ok r
             | Inr m' \<Rightarrow> \<exists>q. cs = [Created (ChildVolumeSnapshot \<lparr>cs_meta = m', cs_claim = dsn_VirtualDiskName (obj s)\<rparr>) q,
                   Recorded (if q = None then ''VolumeSnapshotCreated'' else ''VolumeSnapshotCreationFailed'')]
                 \<and> r = (case q of None \<Rightarrow> Ok (requeue_after 5) | Some e \<Rightarrow> Err (ApiErr e)))
       | Inr None \<Rightarrow> cs = [] \<and> r = Panic ''nil pointer dereference''
       | Inr (Some t) \<Rightarrow> if cst_Error t = Some None \<and> cst_ReadyToUse t \<noteq> Some True then cs = [] \<and> r = Panic ''nil pointer dereference''
           else \<exists>w b. cs = (if cst_Error t \<noteq> None then [Recorded ''VirtualDiskSnapshotFailed'']
                 else if cst_ReadyToUse t = Some True then [Recorded ''VirtualDiskSnapshotReady''] else []) @ [StatusUpdated w b]
               \<and> reports t w \<and> dsn_meta w = m \<and> dsn_VirtualDiskName w = dsn_VirtualDiskName (obj s)
               \<and> (if b then r = Ok (if cst_ReadyToUse t = Some True then no_requeue else requeue_after 5) else \<not> is_ok r))"
proof (cases "cGetVolumeSnapshot c (meta_key (dsn_meta (obj s))) (world s)")
  case (Inl e)
  show ?thesis
  proof (cases "e = NotFound")
    case True
    then show ?thesis using Inl snapshot_creates [of c s k x] by (simp add: Let_def)
  qed (use Inl in \<open>simp add: reconcileVirtualDiskSnapshot_def act_defs\<close>)
next
  case (Inr st)
  show ?thesis
  proof (cases st)
    case (Some t)
    show ?thesis
    proof (cases "cst_Error t = Some None \<and> cst_ReadyToUse t \<noteq> Some True")
      case True
      then show ?thesis using Inr Some
        by (simp add: reconcileVirtualDiskSnapshot_def mapVolumeSnapshotStatus_def snapshot_condition_cases act_defs Let_def)
    next
      case False
      show ?thesis using Inr Some snapshot_writes [OF Inr [unfolded Some] False, of k x]
        by (simp only: Let_def sum.case option.case if_not_P [OF False]) blast
    qed
  qed (use Inr in \<open>simp add: reconcileVirtualDiskSnapshot_def act_defs\<close>)
qed

section \<open>Concrete rounds\<close>

definition stub :: "'o \<Rightarrow> (unit, 'o) client" where
  "stub v = \<lparr>cGet = (\<lambda>_ _. Inr v), cGetVM = (\<lambda>_ _. Inl NotFound), cGetDisk = (\<lambda>_ _. Inl NotFound),
     cGetDataVolume = (\<lambda>_ _. Inl NotFound), cGetVolumeSnapshot = (\<lambda>_ _. Inr None), cListVMs = (\<lambda>_ _ _. Inr []),
     cListDisks = (\<lambda>_ _. Inr []), cCreate = (\<lambda>_ w. (None, w)), cDelete = (\<lambda>_ _ w. (None, w)),
     cUpdate = (\<lambda>v w. (Inr v, w)), cUpdateStatus = (\<lambda>v w. (Inr v, w)), LabelSelectorAsSelector = (\<lambda>_. Inr (\<lambda>_. True))\<rparr>"

definition example_disk :: virtual_disk where
  "example_disk = \<lparr>vdk_meta = empty_meta\<lparr>m_name := ''d'', m_finalizers := [VirtualDiskProtectionFinalizer]\<rparr>,
     vdk_spec = \<lparr>dsp_Storage = None, dsp_Source = None\<rparr>, vdk_phase = DiskPhaseEmpty, vdk_conditions = []\<rparr>"

definition example_snapshot :: disk_snapshot where
  "example_snapshot = \<lparr>dsn_meta = empty_meta\<lparr>m_name := ''snap''\<rparr>, dsn_VirtualDiskName = ''d'', dsn_phase = SnapshotPhaseEmpty, dsn_conditions = []\<rparr>"

abbreviation at :: "'o \<Rightarrow> (unit, 'o, 'o ocall) rst" where "at v \<equiv> \<lparr>world = (), obj = v, trace = []\<rparr>"

theorem disk_finalizer_protocol_witness:
  "(\<exists>cs. trace (snd (VirtualDisk_Reconcile id (stub example_disk) library (key_in [] ''d'') (at example_disk))) = trace (at example_disk) @ cs
     \<and> list_all not_updated cs)
   \<and> (\<exists>b. trace (snd (DiskSnapshot_Reconcile id (stub example_snapshot) library (key_in [] ''snap'') (at example_snapshot)))
     = [Updated (example_snapshot\<lparr>dsn_meta := AddFinalizer library (dsn_meta example_snapshot) VirtualDiskSnapshotProtectionFinalizer\<rparr>) b])"
proof -
  have "cGet (stub example_disk) key w = Inr example_disk" "cGet (stub example_snapshot) key w = Inr example_snapshot" for key w
    by (simp_all add: stub_def)
  moreover have "m_deletionTimestamp (vdk_meta example_disk) = None" "m_deletionTimestamp (dsn_meta example_snapshot) = None"
    "ContainsFinalizer library (vdk_meta example_disk) VirtualDiskProtectionFinalizer"
    "\<not> ContainsFinalizer library (dsn_meta example_snapshot) VirtualDiskSnapshotProtectionFinalizer"
    by (simp_all add: example_disk_def example_snapshot_def empty_meta_def library_def)
  ultimately show ?thesis
    using disk_finalizer_protocol [of "stub example_disk" "key_in [] ''d''" "at example_disk" example_disk
      "stub example_snapshot" "key_in [] ''snap''" "at example_snapshot" example_snapshot id library] by simp
qed

theorem disk_round_witness:
  "\<not> IsZero (dv_request (data_volume_for example_disk))"
proof -
  have "cGetDataVolume (stub example_disk) (meta_key (vdk_meta (obj (at example_disk)))) (world (at example_disk)) = Inl NotFound"
    by (simp add: stub_def)
  moreover have "\<exists>m. SetControllerReference library (vdk_meta example_disk) (dv_meta (data_volume_for example_disk)) = Inr m"
    by (simp add: library_def)
  ultimately show ?thesis using disk_round [of "stub example_disk" "at example_disk" "Inl NotFound" library _ id] by auto
qed

theorem snapshot_round_witness:
  "\<exists>cs q. trace (snd (reconcileVirtualDiskSnapshot id ((stub example_snapshot)\<lparr>cGetVolumeSnapshot := \<lambda>_ _. Inl NotFound\<rparr>) library (at example_snapshot))) = cs
    \<and> length cs = 2 \<and> fst (reconcileVirtualDiskSnapshot id ((stub example_snapshot)\<lparr>cGetVolumeSnapshot := \<lambda>_ _. Inl NotFound\<rparr>) library (at example_snapshot))
        = (case q of None \<Rightarrow> Ok (requeue_after 5) | Some e \<Rightarrow> Err (ApiErr e))"
  using snapshot_round [of id "(stub example_snapshot)\<lparr>cGetVolumeSnapshot := \<lambda>_ _. Inl NotFound\<rparr>" library "at example_snapshot"]
  by (auto simp: Let_def library_def)

end
