(* ===== verification/Volume_Util.thy ===== *)
theory Volume_Util
  imports Kube_Monad
begin

text \<open>
  \<open>src/pkg/volumeutil/volumeutil.go\<close>: the claim behind a VM volume, its mode and readiness, and
  volume snapshots. The functions run under any controller, so the object and the calls of the
  action type stay parameters; \<open>emb\<close> injects the storage calls into the caller's calls. CDI's
  \<open>IsPopulated\<close>, a library function that looks up DataVolumes through the client, is the field
  \<open>kIsPopulated\<close> of the client.
\<close>

record volume_snapshot =
  vsn_meta :: meta
  vsn_pvcName :: string

datatype storage_call = CreatePVC pvc bool | CreateVolumeSnapshot volume_snapshot bool
  | DeleteVolumeSnapshot key bool

record 'w store_api =
  kCreatePVC :: "pvc \<Rightarrow> 'w \<Rightarrow> (api_error + pvc) \<times> 'w"
  kCreateVolumeSnapshot :: "volume_snapshot \<Rightarrow> 'w \<Rightarrow> (api_error + volume_snapshot) \<times> 'w"
  kDeleteVolumeSnapshot :: "key \<Rightarrow> 'w \<Rightarrow> api_error option \<times> 'w"
  kListVolumeSnapshots :: "(string \<times> string) list \<Rightarrow> 'w \<Rightarrow> api_error + volume_snapshot list"

section \<open>The claim of a volume\<close>

definition default_ns :: "string \<Rightarrow> string" where
  "default_ns n = (if n = [] then ''default'' else n)"

definition claim_name :: "volume \<Rightarrow> string" where
  "claim_name v = (case v_PersistentVolumeClaim v of Some c \<Rightarrow> pvc_claim c
     | None \<Rightarrow> (case v_DataVolume v of Some c \<Rightarrow> pvc_claim c
     | None \<Rightarrow> (case v_VirtualDisk v of Some c \<Rightarrow> pvc_claim c | None \<Rightarrow> [])))"

definition getPVC :: "'w api \<Rightarrow> string \<Rightarrow> volume \<Rightarrow> ('w, 'o, 'c, pvc option) action" where
  "getPVC k namespace v =
    (let pvcName = claim_name v in
     if pvcName = [] then throw (ErrNew ''volume is not on a PVC'')
     else bind (kread (kGetPVC k \<lparr>k_ns = default_ns namespace, k_name = pvcName\<rparr>)) (\<lambda>r.
       case r of Inr p \<Rightarrow> ret (Some p)
       | Inl e \<Rightarrow> if e = NotFound then ret None else throw (ApiErr e)))"

definition IsBlock :: "'w api \<Rightarrow> string \<Rightarrow> volume \<Rightarrow> ('w, 'o, 'c, bool) action" where
  "IsBlock k namespace v =
    bind (getPVC k namespace v) (\<lambda>p.
      case p of None \<Rightarrow> throw (ErrNew ''pvc not found'')
      | Some p \<Rightarrow> ret (pvc_volumeMode p = Some ''Block''))"

definition IsReady :: "'w api \<Rightarrow> string \<Rightarrow> volume \<Rightarrow> ('w, 'o, 'c, bool) action" where
  "IsReady k namespace v =
    (if v_DataVolume v = None \<and> v_VirtualDisk v = None then ret True
     else bind (getPVC k namespace v) (\<lambda>p.
       case p of None \<Rightarrow> ret False
       | Some p \<Rightarrow> bind (kread (kIsPopulated k p)) (\<lambda>r.
           case r of Inl e \<Rightarrow> throw (ApiErr e) | Inr b \<Rightarrow> ret b)))"

definition PVCExists :: "'w api \<Rightarrow> string \<Rightarrow> string \<Rightarrow> ('w, 'o, 'c, bool) action" where
  "PVCExists k name namespace =
    bind (kread (kGetPVC k \<lparr>k_ns = namespace, k_name = name\<rparr>)) (\<lambda>r.
      case r of Inl e \<Rightarrow> if e = NotFound then ret True else throw (ApiErr e)
      | Inr _ \<Rightarrow> ret False)"

section \<open>Snapshots\<close>

definition VM_LABEL :: string where "VM_LABEL = ''virtmanager.quillpen.io/vm''"
definition SNAP_LABEL :: string where "SNAP_LABEL = ''virtmanager.quillpen.io/snap''"
definition VOLUME_LABEL :: string where "VOLUME_LABEL = ''virtmanager.quillpen.io/volume''"

definition recovered_pvc :: "string \<Rightarrow> string \<Rightarrow> string \<Rightarrow> pvc" where
  "recovered_pvc snapname namespace pvcname =
    \<lparr>pvc_meta = empty_meta\<lparr>m_name := pvcname, m_namespace := namespace\<rparr>, pvc_volumeMode = None,
     pvc_dataSource = Some (''snapshot.storage.k8s.io'', ''VolumeSnapshot'', snapname),
     pvc_accessModes = [''ReadWriteOnce''],
     pvc_requests = Some [''storage'' \<mapsto> NewQuantity (20 * 2 ^ 30)]\<rparr>"

definition RecoverSnapShotToPVC ::
  "'w api \<Rightarrow> 'w store_api \<Rightarrow> (storage_call \<Rightarrow> 'c) \<Rightarrow> string \<Rightarrow> string \<Rightarrow> string \<Rightarrow> ('w, 'o, 'c, unit) action" where
  "RecoverSnapShotToPVC k sk emb snapname namespace pvcname =
    bind (kread (kGetPVC k \<lparr>k_ns = namespace, k_name = pvcname\<rparr>)) (\<lambda>r.
      case r of Inr _ \<Rightarrow> ret ()
      | Inl _ \<Rightarrow> (let p = recovered_pvc snapname namespace pvcname in
          bind (kwrite (kCreatePVC sk p) (\<lambda>r. emb (CreatePVC p (is_Inr r)))) (\<lambda>r.
            case r of Inl e \<Rightarrow> throw (ApiErr e) | Inr _ \<Rightarrow> ret ())))"

definition ListVolumeSnapshotsByLabels ::
  "'w store_api \<Rightarrow> string \<Rightarrow> string \<Rightarrow> ('w, 'o, 'c, volume_snapshot list) action" where
  "ListVolumeSnapshotsByLabels sk snapname vmname =
    bind (kread (kListVolumeSnapshots sk [(VM_LABEL, vmname), (SNAP_LABEL, snapname)])) (\<lambda>r.
      case r of Inl e \<Rightarrow> throw (ApiErr e) | Inr vs \<Rightarrow> ret vs)"

definition snapshot_name :: "string \<Rightarrow> string \<Rightarrow> string" where
  "snapshot_name volume snap = volume @ ''-'' @ snap @ ''-snapshot''"

text \<open>\<open>&pvc.Name\<close> of a claim that was not found dereferences a nil pointer.\<close>

definition SnapShotPVC ::
  "'w api \<Rightarrow> 'w store_api \<Rightarrow> ext \<Rightarrow> (storage_call \<Rightarrow> 'c) \<Rightarrow> meta \<Rightarrow> string \<Rightarrow> string \<Rightarrow> volume \<Rightarrow> ('w, 'o, 'c, unit) action" where
  "SnapShotPVC k sk x emb snap namespace vmname v =
    bind (getPVC k namespace v) (\<lambda>p.
      case p of None \<Rightarrow> panic ''nil pointer dereference''
      | Some p \<Rightarrow>
        (let s = \<lparr>vsn_meta = empty_meta\<lparr>m_name := snapshot_name (v_name v) (m_name snap),
                     m_namespace := default_ns namespace,
                     m_labels := Some [VM_LABEL \<mapsto> vmname, SNAP_LABEL \<mapsto> m_name snap, VOLUME_LABEL \<mapsto> v_name v]\<rparr>,
                  vsn_pvcName = m_name (pvc_meta p)\<rparr> in
         case SetControllerReference x snap (vsn_meta s) of
           Inl e \<Rightarrow> throw e
         | Inr m \<Rightarrow> (let s = s\<lparr>vsn_meta := m\<rparr> in
             bind (kwrite (kCreateVolumeSnapshot sk s) (\<lambda>r. emb (CreateVolumeSnapshot s (is_Inr r)))) (\<lambda>r.
               case r of Inl e \<Rightarrow> throw (ApiErr e) | Inr _ \<Rightarrow> ret ()))))"

definition DeleteSnapShotPVC ::
  "'w store_api \<Rightarrow> (storage_call \<Rightarrow> 'c) \<Rightarrow> string \<Rightarrow> string \<Rightarrow> volume \<Rightarrow> ('w, 'o, 'c, unit) action" where
  "DeleteSnapShotPVC sk emb snapname namespace v =
    (let key = \<lparr>k_ns = default_ns namespace, k_name = snapshot_name (v_name v) snapname\<rparr> in
     bind (kwrite (kDeleteVolumeSnapshot sk key) (\<lambda>r. emb (DeleteVolumeSnapshot key (r = None)))) (\<lambda>r.
       case r of None \<Rightarrow> ret ()
       | Some e \<Rightarrow> if e = NotFound then ret () else throw (ApiErr e)))"

section \<open>Reading a volume changes nothing\<close>

lemma keeps_getPVC [keeps]: "keeps f (getPVC k ns v)"
  unfolding getPVC_def by (intro keeps)

lemma keeps_IsBlock [keeps]: "keeps f (IsBlock k ns v)"
  unfolding IsBlock_def by (intro keeps)

lemma keeps_IsReady [keeps]: "keeps f (IsReady k ns v)"
  unfolding IsReady_def by (intro keeps)

lemma traces_volume_reads [traces]:
  "traces P (getPVC k ns v)" "traces P (IsBlock k ns v)" "traces P (IsReady k ns v)"
  by (rule traces_none, intro keeps)+

section \<open>Properties\<close>

text \<open>A volume backed by a PersistentVolumeClaim alone counts as ready without the claim being
  looked at; a DataVolume or VirtualDisk volume is ready exactly when its claim exists and CDI
  reports it populated, is not ready (and no error) while the claim is missing, and is an error when
  the volume names no claim or the API server fails.\<close>

theorem IsReady_cases:
  "fst (IsReady k ns v s) =
    (if v_DataVolume v = None \<and> v_VirtualDisk v = None then Ok True
     else if claim_name v = [] then Err (ErrNew ''volume is not on a PVC'')
     else case kGetPVC k \<lparr>k_ns = default_ns ns, k_name = claim_name v\<rparr> (world s) of
       Inl e \<Rightarrow> if e = NotFound then Ok False else Err (ApiErr e)
     | Inr p \<Rightarrow> (case kIsPopulated k p (world s) of Inl e \<Rightarrow> Err (ApiErr e) | Inr b \<Rightarrow> Ok b))"
  by (auto simp: IsReady_def getPVC_def Let_def act_defs split: sum.split)

text \<open>\<open>PVCExists\<close> answers the opposite of its name: true exactly when the API server reports the
  claim as not found, and false when the claim is there.\<close>

theorem PVCExists_inverted:
  "fst (PVCExists k n ns s) = Ok b \<longleftrightarrow>
     (if b then kGetPVC k \<lparr>k_ns = ns, k_name = n\<rparr> (world s) = Inl NotFound
      else \<exists>p. kGetPVC k \<lparr>k_ns = ns, k_name = n\<rparr> (world s) = Inr p)"
  by (auto simp: PVCExists_def act_defs split: sum.split)

text \<open>Taking a snapshot of a volume whose claim does not exist panics instead of returning an
  error: \<open>getPVC\<close> reports a missing claim as a nil claim without error and the caller
  dereferences it.\<close>

theorem SnapShotPVC_missing_claim_panics:
  assumes "claim_name v \<noteq> []" "kGetPVC k \<lparr>k_ns = default_ns ns, k_name = claim_name v\<rparr> (world s) = Inl NotFound"
  shows "fst (SnapShotPVC k sk x emb snap ns vmname v s) = Panic ''nil pointer dereference''"
  using assms by (simp add: SnapShotPVC_def getPVC_def Let_def act_defs)

definition example_volume :: volume where
  "example_volume = \<lparr>v_name = ''data'', v_ContainerDisk = None, v_CloudInit = None, v_ContainerRootfs = None,
     v_PersistentVolumeClaim = Some \<lparr>pvc_claim = ''claim'', pvc_hotpluggable = False\<rparr>, v_DataVolume = None,
     v_VirtualDisk = None, v_MemorySnapshot = None\<rparr>"

definition no_snapshots :: "unit store_api" where
  "no_snapshots = \<lparr>kCreatePVC = (\<lambda>p w. (Inr p, w)), kCreateVolumeSnapshot = (\<lambda>v w. (Inr v, w)),
     kDeleteVolumeSnapshot = (\<lambda>_ w. (Some NotFound, w)), kListVolumeSnapshots = (\<lambda>_ _. Inr [])\<rparr>"

theorem SnapShotPVC_missing_claim_panics_witness:
  "fst (SnapShotPVC empty_cluster no_snapshots library (\<lambda>c. c) empty_meta [] ''vm'' example_volume
      \<lparr>world = (), obj = (), trace = []\<rparr>) = Panic ''nil pointer dereference''"
  by (rule SnapShotPVC_missing_claim_panics)
    (simp_all add: example_volume_def claim_name_def empty_cluster_def)

end
