(* ===== verification/Daemon_Base.thy ===== *)
theory Daemon_Base
  imports Volume_Util
begin

text \<open>
  What the programs of the node daemon (\<open>src/pkg/daemon\<close>) share: the directories of a VM's pod on the
  host, and which node is responsible for a VM.
\<close>

text \<open>\<open>os.Stat\<close>: \<open>Missing\<close> is an error for which \<open>os.IsNotExist\<close> holds.\<close>

datatype stat_result = Present | Missing | StatErr err

lemma keeps_case_stat [keeps]:
  "keeps f m \<Longrightarrow> keeps f n \<Longrightarrow> (\<And>e. keeps f (l e)) \<Longrightarrow> keeps f (case y of Present \<Rightarrow> m | Missing \<Rightarrow> n | StatErr e \<Rightarrow> l e)"
  by (cases y) simp_all

lemma returns_case_stat [returns]:
  "returns Q m \<Longrightarrow> returns Q n \<Longrightarrow> (\<And>e. returns Q (l e)) \<Longrightarrow> returns Q (case y of Present \<Rightarrow> m | Missing \<Rightarrow> n | StatErr e \<Rightarrow> l e)"
  by (cases y) simp_all

lemma traces_case_stat [traces]:
  "traces P m \<Longrightarrow> traces P n \<Longrightarrow> (\<And>e. traces P (l e)) \<Longrightarrow> traces P (case y of Present \<Rightarrow> m | Missing \<Rightarrow> n | StatErr e \<Rightarrow> l e)"
  by (cases y) simp_all

definition getVMDataDirPath :: "vm \<Rightarrow> string" where
  "getVMDataDirPath v = path_join [''/pods'', st_VMPodUID (vm_status v), ''volumes/kubernetes.io~empty-dir/ch-vmm'']"

definition getVMMemoryDataDirPath :: "vm \<Rightarrow> string" where
  "getVMMemoryDataDirPath v = path_join [''/pods'', st_VMPodUID (vm_status v), ''volumes/kubernetes.io~empty-dir/memory'']"

definition getMigrationTargetVMSocketDirPath :: "migration \<Rightarrow> string" where
  "getMigrationTargetVMSocketDirPath mg = path_join [''/pods'', mg_TargetVMPodUID mg, ''volumes/kubernetes.io~empty-dir/ch-vmm'']"

definition responsible :: "string \<Rightarrow> vm \<Rightarrow> bool" where
  "responsible NodeName v \<longleftrightarrow> st_NodeName (vm_status v) \<noteq> [] \<and> st_NodeName (vm_status v) = NodeName
     \<or> (case st_Migration (vm_status v) of None \<Rightarrow> False
        | Some mg \<Rightarrow> mg_TargetNodeName mg \<noteq> [] \<and> mg_TargetNodeName mg = NodeName)"

end
