(* ===== verification/Cloud_Utils.thy ===== *)
theory Cloud_Utils
  imports Kube_Monad
begin

text \<open>
  \<open>src/pkg/cloudutils/gcs.go\<close> and \<open>s3.go\<close>: copying a file to and from a bucket. The SDKs of the two stores
  and the file system are the fields of \<open>cloud_sdk\<close>; a file is its list of bytes, and a read fills the
  buffer as far as the file goes. The copy loop of \<open>UploadObjectToGCS\<close> is modelled as written, with its
  buffer of \<open>1024 * 1024\<close> bytes that is written out whole after every read.
\<close>

type_synonym byte = "8 word"

text \<open>An error of the object store client; GCS tells a missing object apart.\<close>

datatype store_error = ObjectMissing | StoreError err

record 'w cloud_sdk =
  LoadDefaultConfig :: "'w \<Rightarrow> err option"
  S3_DeleteObject :: "string \<Rightarrow> string \<Rightarrow> 'w \<Rightarrow> err option \<times> 'w"
  S3_Upload :: "string \<Rightarrow> string \<Rightarrow> byte list \<Rightarrow> 'w \<Rightarrow> err option \<times> 'w"
  S3_Download :: "string \<Rightarrow> string \<Rightarrow> string \<Rightarrow> 'w \<Rightarrow> err option \<times> 'w"
  GCS_NewClient :: "'w \<Rightarrow> err option"
  GCS_Write :: "string \<Rightarrow> string \<Rightarrow> byte list \<Rightarrow> 'w \<Rightarrow> err option \<times> 'w"
  GCS_Close :: "string \<Rightarrow> string \<Rightarrow> 'w \<Rightarrow> err option \<times> 'w"
  GCS_Delete :: "string \<Rightarrow> string \<Rightarrow> 'w \<Rightarrow> store_error option \<times> 'w"
  GCS_NewReader :: "string \<Rightarrow> string \<Rightarrow> 'w \<Rightarrow> err + byte list"
  os_Open :: "string \<Rightarrow> 'w \<Rightarrow> err + byte list"
  os_ReadFault :: "string \<Rightarrow> nat \<Rightarrow> 'w \<Rightarrow> err option"
  os_Create :: "string \<Rightarrow> 'w \<Rightarrow> err option \<times> 'w"
  os_WriteAll :: "string \<Rightarrow> byte list \<Rightarrow> 'w \<Rightarrow> err option \<times> 'w"

section \<open>The operations\<close>

definition buf_len :: nat where "buf_len = 1024 * 1024"

text \<open>\<open>buf := make([]byte, 1024*1024)\<close> after \<open>file.Read(buf)\<close>: the bytes read, then zeros.\<close>

definition filled :: "byte list \<Rightarrow> byte list" where
  "filled chunk = chunk @ replicate (buf_len - length chunk) 0"

function gcs_copy :: "'w cloud_sdk \<Rightarrow> string \<Rightarrow> string \<Rightarrow> string \<Rightarrow> nat \<Rightarrow> byte list \<Rightarrow> 'w \<Rightarrow> err option \<times> 'w" where
  "gcs_copy k bucket object path off rest w =
    (case os_ReadFault k path off w of Some e \<Rightarrow> (Some (ErrW ''unable to read file'' e), w)
     | None \<Rightarrow> if rest = [] then (None, w)
         else (case GCS_Write k bucket object (filled (take buf_len rest)) w of
             (Some e, w') \<Rightarrow> (Some (ErrW ''failed to upload file to GCS'' e), w')
           | (None, w') \<Rightarrow> gcs_copy k bucket object path (off + length (take buf_len rest)) (drop buf_len rest) w'))"
  by pat_completeness auto
termination by (relation "measure (\<lambda>(k, bucket, object, path, off, rest, w). length rest)") (auto simp: buf_len_def)

declare gcs_copy.simps [simp del]

text \<open>The writer is closed by a deferred call, whose error nobody sees.\<close>

definition UploadObjectToGCS :: "'w cloud_sdk \<Rightarrow> string \<Rightarrow> string \<Rightarrow> string \<Rightarrow> 'w \<Rightarrow> err option \<times> 'w" where
  "UploadObjectToGCS k bucketName filePath objectName w =
    (case GCS_NewClient k w of Some e \<Rightarrow> (Some (ErrW ''failed to create GCS client'' e), w)
     | None \<Rightarrow> (case os_Open k filePath w of Inl e \<Rightarrow> (Some (ErrW ''failed to open file'' e), w)
       | Inr content \<Rightarrow> (case gcs_copy k bucketName objectName filePath 0 content w of
           (r, w') \<Rightarrow> (r, snd (GCS_Close k bucketName objectName w')))))"

definition DownloadObjectFromGCS :: "'w cloud_sdk \<Rightarrow> string \<Rightarrow> string \<Rightarrow> string \<Rightarrow> 'w \<Rightarrow> err option \<times> 'w" where
  "DownloadObjectFromGCS k bucketName objectName filePath w =
    (case GCS_NewClient k w of Some e \<Rightarrow> (Some (ErrW ''failed to create GCS client'' e), w)
     | None \<Rightarrow> (case GCS_NewReader k bucketName objectName w of Inl e \<Rightarrow> (Some (ErrW ''failed to open object'' e), w)
       | Inr content \<Rightarrow> (case os_Create k filePath w of (Some e, w') \<Rightarrow> (Some (ErrW ''failed to create file'' e), w')
         | (None, w') \<Rightarrow> (case os_WriteAll k filePath content w' of (Some e, w'') \<Rightarrow> (Some (ErrW ''failed to download file from GCS'' e), w'')
           | (None, w'') \<Rightarrow> (None, w'')))))"

definition DeleteObjectFromGCS :: "'w cloud_sdk \<Rightarrow> string \<Rightarrow> string \<Rightarrow> 'w \<Rightarrow> err option \<times> 'w" where
  "DeleteObjectFromGCS k bucketName objectName w =
    (case GCS_NewClient k w of Some e \<Rightarrow> (Some (ErrW ''failed to create GCS client'' e), w)
     | None \<Rightarrow> (case GCS_Delete k bucketName objectName w of
         (None, w') \<Rightarrow> (None, w')
       | (Some ObjectMissing, w') \<Rightarrow> (None, w')
       | (Some (StoreError e), w') \<Rightarrow> (Some (ErrW ''failed to delete object'' e), w')))"

text \<open>The error of the deletion is tested and dropped.\<close>

definition DeleteObjectFromS3 :: "'w cloud_sdk \<Rightarrow> string \<Rightarrow> string \<Rightarrow> 'w \<Rightarrow> err option \<times> 'w" where
  "DeleteObjectFromS3 k bucketName objectName w =
    (case LoadDefaultConfig k w of Some e \<Rightarrow> (Some e, w)
     | None \<Rightarrow> (None, snd (S3_DeleteObject k bucketName objectName w)))"

definition UploadObjectToS3 :: "'w cloud_sdk \<Rightarrow> string \<Rightarrow> string \<Rightarrow> string \<Rightarrow> 'w \<Rightarrow> err option \<times> 'w" where
  "UploadObjectToS3 k bucketName objectName filePath w =
    (case LoadDefaultConfig k w of Some e \<Rightarrow> (Some e, w)
     | None \<Rightarrow> (case os_Open k filePath w of Inl e \<Rightarrow> (Some e, w)
       | Inr content \<Rightarrow> S3_Upload k bucketName objectName content w))"

definition DownloadObjectFromS3 :: "'w cloud_sdk \<Rightarrow> string \<Rightarrow> string \<Rightarrow> string \<Rightarrow> 'w \<Rightarrow> err option \<times> 'w" where
  "DownloadObjectFromS3 k bucketName objectName filePath w =
    (case LoadDefaultConfig k w of Some e \<Rightarrow> (Some e, w)
     | None \<Rightarrow> (case os_Create k filePath w of (Some e, w') \<Rightarrow> (Some (ErrW ''failed to create file'' e), w')
       | (None, w') \<Rightarrow> S3_Download k bucketName objectName filePath w'))"

section \<open>What the loop uploads\<close>

text \<open>A store that appends what is written to the object.\<close>

definition appends :: "'w cloud_sdk \<Rightarrow> (string \<Rightarrow> string \<Rightarrow> 'w \<Rightarrow> byte list) \<Rightarrow> bool" where
  "appends k stored \<longleftrightarrow> (\<forall>b ob bs w. fst (GCS_Write k b ob bs w) = None \<and> stored b ob (snd (GCS_Write k b ob bs w)) = stored b ob w @ bs)"

function padded :: "byte list \<Rightarrow> byte list" where
  "padded bs = (if bs = [] then [] else filled (take buf_len bs) @ padded (drop buf_len bs))"
  by pat_completeness auto
termination by (relation "measure length") (auto simp: buf_len_def)

declare padded.simps [simp del]

lemma buf_len_pos [simp]: "0 < buf_len"
  by (simp add: buf_len_def)

lemma gcs_copy_padded:
  assumes "appends k stored" "\<And>off w. os_ReadFault k path off w = None"
  shows "fst (gcs_copy k b ob path off rest w) = None \<and> stored b ob (snd (gcs_copy k b ob path off rest w)) = stored b ob w @ padded rest"
proof (induction rest arbitrary: off w rule: padded.induct)
  case (1 bs)
  show ?case
  proof (cases "bs = []")
    case False
    obtain w' where w: "GCS_Write k b ob (filled (take buf_len bs)) w = (None, w')" "stored b ob w' = stored b ob w @ filled (take buf_len bs)"
      using assms(1) unfolding appends_def by (metis prod.collapse)
    then show ?thesis using 1 [OF False, of "off + length (take buf_len bs)" w'] False assms(2)
      by (simp add: gcs_copy.simps [of k b ob path off bs w] padded.simps [of bs])
  qed (simp add: assms(2) gcs_copy.simps padded.simps)
qed

lemma length_filled: "length c \<le> buf_len \<Longrightarrow> length (filled c) = buf_len"
  by (simp add: filled_def)

lemma ceil_div_step: "n \<noteq> 0 \<Longrightarrow> (n + buf_len - 1) div buf_len = Suc ((n - buf_len + buf_len - 1) div buf_len)"
  by (cases "n \<le> buf_len") (auto simp: buf_len_def)

lemma length_padded: "length (padded bs) = buf_len * ((length bs + buf_len - 1) div buf_len)"
proof (induction bs rule: padded.induct)
  case (1 bs)
  show ?case
  proof (cases "bs = []")
    case False
    have "length (padded bs) = buf_len + length (padded (drop buf_len bs))"
      using False by (simp add: padded.simps [of bs] length_filled)
    then show ?thesis using 1 [OF False] False ceil_div_step [of "length bs"] by simp
  qed (simp add: padded.simps)
qed

lemma padded_prefix: "take (length bs) (padded bs) = bs"
proof (induction bs rule: padded.induct)
  case (1 bs)
  show ?case
  proof (cases "buf_len \<le> length bs")
    case True
    then have "bs \<noteq> []" by (auto simp: buf_len_def)
    then have "padded bs = take buf_len bs @ padded (drop buf_len bs)"
      using True by (simp add: padded.simps [of bs] filled_def)
    then show ?thesis using 1 [OF \<open>bs \<noteq> []\<close>] True by (simp add: min_def)
  qed (simp add: padded.simps [of bs] filled_def)
qed

text \<open>What \<open>UploadObjectToGCS\<close> stores when nothing fails: an object that begins with the file and
  whose length is the file's rounded up to a multiple of 1 MiB; it is the file only when the file's length is
  such a multiple, since the last buffer is written out whole.\<close>

theorem gcs_upload_padded:
  assumes "appends k stored" "\<And>off w. os_ReadFault k path off w = None" "\<And>w. GCS_NewClient k w = None"
    and "os_Open k path w = Inr content" "\<And>w. stored b ob (snd (GCS_Close k b ob w)) = stored b ob w" "stored b ob w = []"
  defines "object \<equiv> stored b ob (snd (UploadObjectToGCS k b path ob w))"
  shows "fst (UploadObjectToGCS k b path ob w) = None \<and> take (length content) object = content
    \<and> length object = buf_len * ((length content + buf_len - 1) div buf_len) \<and> (object = content \<longleftrightarrow> buf_len dvd length content)"
proof -
  have up: "fst (UploadObjectToGCS k b path ob w) = None" "object = padded content"
    using gcs_copy_padded [OF assms(1,2), of b ob 0 content w] assms(3-6)
    by (auto simp: object_def UploadObjectToGCS_def split: prod.split)
  have "padded content = content \<longleftrightarrow> buf_len dvd length content"
  proof
    assume "buf_len dvd length content"
    then have "length (padded content) = length content"
      by (auto simp: length_padded buf_len_def elim!: dvdE)
    then show "padded content = content" using padded_prefix [of content] by (metis take_all_iff order_refl)
  qed (metis length_padded dvd_triv_left)
  then show ?thesis using up padded_prefix [of content] length_padded [of content] by simp
qed

text \<open>Deleting an object from S3 reports success whenever the configuration loads, whatever the store
  answered; from GCS it reports success exactly when the object is gone.\<close>

theorem bucket_deletes:
  "(fst (DeleteObjectFromS3 k b ob w) = None \<longleftrightarrow> LoadDefaultConfig k w = None)
   \<and> (fst (DeleteObjectFromGCS k b ob w) = None \<longleftrightarrow>
        GCS_NewClient k w = None \<and> fst (GCS_Delete k b ob w) \<in> {None, Some ObjectMissing})"
  by (auto simp: DeleteObjectFromS3_def DeleteObjectFromGCS_def split: option.split prod.split store_error.split)

section \<open>A store in memory\<close>

definition memory_store :: "(string \<Rightarrow> string \<Rightarrow> byte list) cloud_sdk" where
  "memory_store = \<lparr>LoadDefaultConfig = (\<lambda>_. None), S3_DeleteObject = (\<lambda>b ob w. (None, w(b := (w b)(ob := [])))),
     S3_Upload = (\<lambda>b ob bs w. (None, w(b := (w b)(ob := bs)))), S3_Download = (\<lambda>_ _ _ w. (None, w)), GCS_NewClient = (\<lambda>_. None),
     GCS_Write = (\<lambda>b ob bs w. (None, w(b := (w b)(ob := w b ob @ bs)))), GCS_Close = (\<lambda>_ _ w. (None, w)),
     GCS_Delete = (\<lambda>_ _ w. (Some ObjectMissing, w)), GCS_NewReader = (\<lambda>b ob w. Inr (w b ob)), os_Open = (\<lambda>_ _. Inr [1, 2, 3]),
     os_ReadFault = (\<lambda>_ _ _. None), os_Create = (\<lambda>_ w. (None, w)), os_WriteAll = (\<lambda>_ _ w. (None, w))\<rparr>"

theorem gcs_upload_padded_witness:
  "length (snd (UploadObjectToGCS memory_store ''b'' ''f'' ''o'' (\<lambda>_ _. [])) ''b'' ''o'') = 1048576
   \<and> snd (UploadObjectToGCS memory_store ''b'' ''f'' ''o'' (\<lambda>_ _. [])) ''b'' ''o'' \<noteq> [1, 2, 3]"
proof -
  have "appends memory_store (\<lambda>b ob w. w b ob)" by (simp add: appends_def memory_store_def)
  moreover have "os_ReadFault memory_store ''f'' off w = None" "GCS_NewClient memory_store w = None"
    "os_Open memory_store ''f'' w = Inr [1, 2, 3]" "snd (GCS_Close memory_store ''b'' ''o'' w) = w" for off w
    by (simp_all add: memory_store_def)
  ultimately show ?thesis
    using gcs_upload_padded [of memory_store "\<lambda>b ob w. w b ob" "''f''" "\<lambda>_ _. []" "[1, 2, 3]" "''b''" "''o''"]
    by (simp add: buf_len_def) (auto dest!: dvd_imp_le)
qed

end
