(* ===== verification/Zstd_Archive.thy ===== *)
theory Zstd_Archive
  imports Cloud_Utils Go_Strings
begin

text \<open>
  \<open>src/pkg/volumeutil/zstdpool.go\<close>: packing the files of a memory snapshot into a compressed tar archive
  and unpacking it. The file system and the pooled zstd encoder and decoder are the fields of
  \<open>archive_env\<close>; the tar writer of the standard library is modelled as far as the code uses it: a header
  block per file, the content padded to 512 bytes, and two zero blocks when the writer is closed.
  \<open>log.Fatalln\<close> ends the process, which the model shows as a panic, as it does the use of the nil
  encoder that an ignored error of the pool leaves behind.
\<close>

datatype tar_type = TypeReg | TypeOther

record tar_entry =
  te_Name :: string
  te_Typeflag :: tar_type
  te_content :: "byte list"

record 'w archive_env =
  aCreate :: "string \<Rightarrow> 'w \<Rightarrow> err option \<times> 'w"
  aOpen :: "string \<Rightarrow> 'w \<Rightarrow> err + byte list"
  aStat :: "string \<Rightarrow> 'w \<Rightarrow> err option"
  aHeader :: "string \<Rightarrow> nat \<Rightarrow> err + byte list"
  aEncoder :: "'w \<Rightarrow> bool"
  aEncode :: "string \<Rightarrow> byte list \<Rightarrow> 'w \<Rightarrow> err option \<times> 'w"
  aMkdirAll :: "string \<Rightarrow> 'w \<Rightarrow> err option \<times> 'w"
  aDecoder :: "byte list \<Rightarrow> 'w \<Rightarrow> bool"
  aEntries :: "byte list \<Rightarrow> tar_entry list \<times> err option"
  aCopy :: "string \<Rightarrow> byte list \<Rightarrow> 'w \<Rightarrow> err option \<times> 'w"

section \<open>Packing\<close>

definition tar_padding :: "nat \<Rightarrow> nat" where
  "tar_padding n = (512 - n mod 512) mod 512"

text \<open>The tar writer: the padding that the last file still needs, and whether a write has failed.\<close>

record tar_writer =
  tw_pad :: nat
  tw_failed :: bool

definition tar_Write :: "'w archive_env \<Rightarrow> string \<Rightarrow> byte list \<Rightarrow> tar_writer \<Rightarrow> 'w \<Rightarrow> err option \<times> tar_writer \<times> 'w" where
  "tar_Write k out bs tw w = (case aEncode k out bs w of (r, w') \<Rightarrow> (r, tw\<lparr>tw_failed := tw_failed tw \<or> r \<noteq> None\<rparr>, w'))"

definition addToArchive :: "'w archive_env \<Rightarrow> string \<Rightarrow> string \<Rightarrow> tar_writer \<Rightarrow> 'w \<Rightarrow> err option \<times> tar_writer \<times> 'w" where
  "addToArchive k out filename tw w =
    (case aOpen k filename w of Inl e \<Rightarrow> (Some e, tw, w)
     | Inr content \<Rightarrow> (case aStat k filename w of Some e \<Rightarrow> (Some e, tw, w)
       | None \<Rightarrow> (case aHeader k filename (length content) of Inl e \<Rightarrow> (Some e, tw, w)
         | Inr header \<Rightarrow> (case tar_Write k out (replicate (tw_pad tw) 0 @ header) tw w of
             (Some e, tw', w') \<Rightarrow> (Some e, tw', w')
           | (None, tw', w') \<Rightarrow> tar_Write k out content (tw'\<lparr>tw_pad := tar_padding (length content)\<rparr>) w'))))"

fun addFiles :: "'w archive_env \<Rightarrow> string \<Rightarrow> string list \<Rightarrow> tar_writer \<Rightarrow> 'w \<Rightarrow> err option \<times> tar_writer \<times> 'w" where
  "addFiles k out [] tw w = (None, tw, w)"
| "addFiles k out (f # fs) tw w = (case addToArchive k out f tw w of (Some e, tw', w') \<Rightarrow> (Some e, tw', w')
     | (None, tw', w') \<Rightarrow> addFiles k out fs tw' w')"

text \<open>\<open>defer tw.Close()\<close>: after a failed write the tar writer only returns that error. Neither the encoder
  nor the file is closed.\<close>

definition tar_Close :: "'w archive_env \<Rightarrow> string \<Rightarrow> tar_writer \<Rightarrow> 'w \<Rightarrow> 'w" where
  "tar_Close k out tw w = (if tw_failed tw then w else snd (aEncode k out (replicate (tw_pad tw) 0 @ replicate 1024 0) w))"

definition CreateArchive :: "'w archive_env \<Rightarrow> string \<Rightarrow> string list \<Rightarrow> 'w \<Rightarrow> (err, unit) outcome \<times> 'w" where
  "CreateArchive k destination files w =
    (case aCreate k destination w of (Some _, w') \<Rightarrow> (Panic ''exit: Error writing archive'', w')
     | (None, w') \<Rightarrow> if \<not> aEncoder k w' then (Panic ''nil pointer dereference'', w')
         else (case addFiles k destination files \<lparr>tw_pad = 0, tw_failed = False\<rparr> w' of
           (r, tw, w'') \<Rightarrow> (case r of Some e \<Rightarrow> Err e | None \<Rightarrow> Ok (), tar_Close k destination tw w'')))"

section \<open>Unpacking\<close>

datatype archive_call = Extracted string bool

type_synonym ('w, 'a) aract = "('w, unit, archive_call, 'a) action"

definition createFile :: "'w archive_env \<Rightarrow> string \<Rightarrow> ('w, err option) aract" where
  "createFile k path = kwrite (aCreate k path) (\<lambda>r. Extracted path (r = None))"

definition copy_to :: "'w archive_env \<Rightarrow> string \<Rightarrow> byte list \<Rightarrow> ('w, err option) aract" where
  "copy_to k path bs s = (case aCopy k path bs (world s) of (r, w) \<Rightarrow> (Ok r, s\<lparr>world := w\<rparr>))"

definition extractEntry :: "'w archive_env \<Rightarrow> string \<Rightarrow> tar_entry \<Rightarrow> ('w, unit) aract" where
  "extractEntry k destDir header =
    (if te_Typeflag header \<noteq> TypeReg then ret ()
     else (let filename = Base (te_Name header); target = path_join [destDir, filename] in
       bind (createFile k target) (\<lambda>r. case r of Some e \<Rightarrow> throw (ErrW ''failed to create file'' e)
       | None \<Rightarrow> bind (copy_to k target (te_content header)) (\<lambda>r. case r of
           Some e \<Rightarrow> throw (ErrW ''copy failed'' e) | None \<Rightarrow> ret ()))))"

definition extract_all :: "'w archive_env \<Rightarrow> string \<Rightarrow> tar_entry list \<times> err option \<Rightarrow> ('w, unit) aract" where
  "extract_all k destDir = (\<lambda>(entries, stop).
    bind (for_each entries (extractEntry k destDir)) (\<lambda>_. case stop of
      Some e \<Rightarrow> throw (ErrW ''error reading tar header'' e)
    | None \<Rightarrow> bind (createFile k (path_join [destDir, ''done.txt''])) (\<lambda>r. case r of
        Some e \<Rightarrow> throw (ErrW ''failed to create Done file'' e) | None \<Rightarrow> ret ())))"

definition ExtractArchive :: "'w archive_env \<Rightarrow> string \<Rightarrow> string \<Rightarrow> ('w, unit) aract" where
  "ExtractArchive k destDir file =
    bind (kread (aOpen k file)) (\<lambda>r. case r of Inl _ \<Rightarrow> panic ''exit: Error Opening archive file''
    | Inr bytes \<Rightarrow> (\<lambda>s. case aMkdirAll k destDir (world s) of (r, w) \<Rightarrow>
        (case r of Some e \<Rightarrow> throw e
         | None \<Rightarrow> bind (kread (aDecoder k bytes)) (\<lambda>ok. if \<not> ok then panic ''nil pointer dereference''
             else extract_all k destDir (aEntries k bytes))) (s\<lparr>world := w\<rparr>)))"

section \<open>Where files are created\<close>

lemma last_Split_neq_Nil: "s \<noteq> [] \<Longrightarrow> last s \<noteq> c \<Longrightarrow> last (Split c s) \<noteq> []"
proof (induction s)
  case (Cons x s)
  then show ?case
  proof (cases s)
    case (Cons y t)
    then have "last (Split c s) \<noteq> []" using Cons.IH Cons.prems by simp
    moreover obtain p ps where "Split c s = p # ps" by (cases "Split c s") auto
    ultimately show ?thesis by auto
  qed auto
qed simp

lemma strip_slashes_last: "strip_slashes p \<noteq> [] \<Longrightarrow> last (strip_slashes p) \<noteq> CHR ''/''"
proof -
  assume "strip_slashes p \<noteq> []"
  then have "dropWhile (\<lambda>c. c = CHR ''/'') (rev p) \<noteq> []" by (simp add: strip_slashes_def)
  from hd_dropWhile [OF this] show ?thesis by (simp add: strip_slashes_def last_rev)
qed

text \<open>The base name of a path is a plain name or one of three.\<close>

lemma Base_cases: "plain_name (Base p) \<or> Base p = ''.'' \<or> Base p = ''..'' \<or> Base p = ''/''"
proof (cases "p = [] \<or> strip_slashes p = []")
  case False
  then have b: "Base p = last (Split CHR ''/'' (strip_slashes p))" by (simp add: Base_def Let_def)
  have "Base p \<noteq> []" unfolding b using False by (intro last_Split_neq_Nil strip_slashes_last) simp_all
  moreover have "CHR ''/'' \<notin> set (Base p)" unfolding b by (rule Split_parts_no_sep [OF last_in_set]) simp
  ultimately show ?thesis by (auto simp: plain_name_def)
qed (auto simp: Base_def Let_def)

lemma Clean_skip: "c = [] \<or> c = ''.'' \<Longrightarrow> d \<noteq> [] \<Longrightarrow> Clean (d @ ''/'' @ c) = Clean d"
  using Split_append_last [of "CHR ''/''" c d] by (auto simp: Clean_def clean_stack_def clean_step_def is_abs_def)

text \<open>The targets of those three: the destination itself, the directory above it, and the root.\<close>

lemma special_targets:
  "path_join [d, ''.''] = Clean d" "path_join [d, ''/''] = Clean d \<or> path_join [d, ''/''] = ''/''"
proof -
  have e: "Clean ''.'' = ''.''" "Clean [] = ''.''" "Clean ''/'' = ''/''" by code_simp+
  show "path_join [d, ''.''] = Clean d"
    using Clean_skip [of "''.''" d] e by (cases "d = []") (simp_all add: path_join_def)
  show "path_join [d, ''/''] = Clean d \<or> path_join [d, ''/''] = ''/''"
    using Clean_skip [of "[]" "d @ ''/''"] Clean_skip [of "[]" d] e by (cases "d = []") (simp_all add: path_join_def)
qed

text \<open>What the file system does with directories: \<open>MkdirAll\<close> leaves the directory and the one above it, the root is one, \<open>os.Create\<close> fails on
  a directory, and creating or filling files takes no directory away.\<close>

definition directories :: "'w archive_env \<Rightarrow> (string \<Rightarrow> 'w \<Rightarrow> bool) \<Rightarrow> bool" where
  "directories k is_dir \<longleftrightarrow> (\<forall>d w w'. aMkdirAll k d w = (None, w') \<longrightarrow> is_dir (Clean d) w' \<and> is_dir (path_join [d, ''..'']) w')
     \<and> (\<forall>w. is_dir ''/'' w) \<and> (\<forall>p w. is_dir p w \<longrightarrow> fst (aCreate k p w) \<noteq> None)
     \<and> (\<forall>p q w. is_dir p w \<longrightarrow> is_dir p (snd (aCreate k q w))) \<and> (\<forall>p q bs w. is_dir p w \<longrightarrow> is_dir p (snd (aCopy k q bs w)))"

definition in_directory :: "string \<Rightarrow> archive_call \<Rightarrow> bool" where
  "in_directory d cl \<longleftrightarrow> (case cl of Extracted p ok \<Rightarrow> ok \<longrightarrow> (\<exists>n. plain_name n \<and> p = entry_of (Clean d) n))"

definition targets :: "archive_call list \<Rightarrow> string list" where
  "targets cs = map (\<lambda>cl. case cl of Extracted p ok \<Rightarrow> p) cs"

definition entry_targets :: "string \<Rightarrow> tar_entry list \<Rightarrow> string list" where
  "entry_targets d hs = map (\<lambda>h. path_join [d, Base (te_Name h)]) (filter (\<lambda>h. te_Typeflag h = TypeReg) hs)"

lemma create_in_directory:
  assumes "directories k is_dir" and "is_dir (Clean d) w" and "is_dir (path_join [d, ''..'']) w" and "aCreate k (path_join [d, Base n]) w = (None, w')"
  shows "\<exists>m. plain_name m \<and> path_join [d, Base n] = entry_of (Clean d) m"
proof -
  have "\<not> is_dir (path_join [d, Base n]) w" using assms(1,4) unfolding directories_def by (metis fst_conv)
  moreover have "is_dir ''/'' w" using assms(1) by (simp add: directories_def)
  ultimately have "plain_name (Base n)" using Base_cases [of n] special_targets [of d] assms(2,3) by auto
  then show ?thesis using path_join_entry by blast
qed

lemma extractEntry_files:
  assumes "directories k is_dir" and "is_dir (Clean d) (world s)" and "is_dir (path_join [d, ''..'']) (world s)"
    and "extractEntry k d h s = (r, s')"
  shows "is_dir (Clean d) (world s') \<and> is_dir (path_join [d, ''..'']) (world s')
    \<and> (\<exists>cs. trace s' = trace s @ cs \<and> list_all (in_directory d) cs \<and> (r = Ok () \<longrightarrow> targets cs = entry_targets d [h]))"
proof (cases "te_Typeflag h = TypeReg")
  case True
  let ?p = "path_join [d, Base (te_Name h)]"
  obtain c w where c: "aCreate k ?p (world s) = (c, w)" by fastforce
  obtain e u where e: "aCopy k ?p (te_content h) w = (e, u)" by fastforce
  have w: "is_dir (Clean d) w" "is_dir (path_join [d, ''..'']) w"
    using assms(1-3) c unfolding directories_def by (metis snd_conv)+
  have u: "is_dir (Clean d) u" "is_dir (path_join [d, ''..'']) u"
    using assms(1) w e unfolding directories_def by (metis snd_conv)+
  have ok: "c = None \<Longrightarrow> in_directory d (Extracted ?p True)"
    using create_in_directory [OF assms(1-3)] c by (auto simp: in_directory_def)
  show ?thesis
    using assms(4) True c e w u ok
    by (cases c; cases e) (auto simp: extractEntry_def createFile_def copy_to_def kwrite_def bind_def throw_def ret_def Let_def
        in_directory_def targets_def entry_targets_def)
qed (use assms in \<open>auto simp: extractEntry_def ret_def targets_def entry_targets_def\<close>)

lemma extractEntries_files:
  assumes "directories k is_dir" and "is_dir (Clean d) (world s)" and "is_dir (path_join [d, ''..'']) (world s)"
    and "for_each hs (extractEntry k d) s = (r, s')"
  shows "is_dir (Clean d) (world s') \<and> is_dir (path_join [d, ''..'']) (world s')
    \<and> (\<exists>cs. trace s' = trace s @ cs \<and> list_all (in_directory d) cs \<and> (r = Ok () \<longrightarrow> targets cs = entry_targets d hs))"
  using assms(2-)
proof (induction hs arbitrary: s)
  case (Cons h hs)
  obtain q s1 where q: "extractEntry k d h s = (q, s1)" by fastforce
  from extractEntry_files [OF assms(1) Cons.prems(1,2) q] obtain cs where d1: "is_dir (Clean d) (world s1)" "is_dir (path_join [d, ''..'']) (world s1)"
    and cs: "trace s1 = trace s @ cs" "list_all (in_directory d) cs" "q = Ok () \<longrightarrow> targets cs = entry_targets d [h]" by blast
  show ?case
  proof (cases q)
    case (Ok u)
    then have "for_each hs (extractEntry k d) s1 = (r, s')" using Cons.prems(3) q by (simp add: bind_def)
    from Cons.IH [OF d1 this] obtain ds where "is_dir (Clean d) (world s')" "is_dir (path_join [d, ''..'']) (world s')"
      "trace s' = trace s1 @ ds" "list_all (in_directory d) ds" "r = Ok () \<longrightarrow> targets ds = entry_targets d hs" by blast
    then show ?thesis using cs Ok by (auto intro!: exI [of _ "cs @ ds"] simp: targets_def entry_targets_def)
  qed (use Cons.prems(3) q cs d1 in \<open>auto simp: bind_def\<close>)
qed (auto simp: ret_def targets_def entry_targets_def)

lemma extract_all_files:
  assumes "directories k is_dir" and "is_dir (Clean d) (world s)" and "is_dir (path_join [d, ''..'']) (world s)"
    and "extract_all k d (hs, stop) s = (r, s')"
  shows "\<exists>cs. trace s' = trace s @ cs \<and> list_all (in_directory d) cs
    \<and> (r = Ok () \<longrightarrow> stop = None \<and> targets cs = entry_targets d hs @ [path_join [d, ''done.txt'']])"
proof -
  obtain q s1 where q: "for_each hs (extractEntry k d) s = (q, s1)" by fastforce
  from extractEntries_files [OF assms(1-3) q] obtain cs where cs: "trace s1 = trace s @ cs" "list_all (in_directory d) cs"
    "q = Ok () \<longrightarrow> targets cs = entry_targets d hs" by blast
  have "plain_name ''done.txt''" by (simp add: plain_name_def)
  then have "in_directory d (Extracted (path_join [d, ''done.txt'']) b)" for b
    using path_join_entry by (auto simp: in_directory_def)
  then show ?thesis
    using assms(4) q cs
    by (cases q; cases stop) (auto simp: extract_all_def bind_def throw_def ret_def createFile_def kwrite_def targets_def split: prod.splits option.splits)
qed

text \<open>C33: unpacking stays inside the destination: whatever names an archive holds, every file that \<open>ExtractArchive\<close> creates is an entry of
  the destination directory itself, under a plain name: not a dot, not two, and without a slash. For names such as \<open>..\<close>, whose target is
  the directory above, this rests on the file system, where creating a file fails on a directory. A run without an error has
  created, in order, the targets of all regular entries of the archive and then \<open>done.txt\<close>.\<close>

theorem extract_stays_inside:
  assumes "directories k is_dir"
  shows "\<exists>cs. trace (snd (ExtractArchive k destDir file s)) = trace s @ cs \<and> list_all (in_directory destDir) cs
    \<and> (fst (ExtractArchive k destDir file s) = Ok () \<longrightarrow> (\<exists>bytes. aOpen k file (world s) = Inr bytes
        \<and> targets cs = entry_targets destDir (fst (aEntries k bytes)) @ [path_join [destDir, ''done.txt'']]))"
proof (cases "aOpen k file (world s)")
  case (Inr bytes)
  obtain r w where m: "aMkdirAll k destDir (world s) = (r, w)" by fastforce
  obtain hs stop where es: "aEntries k bytes = (hs, stop)" by fastforce
  show ?thesis
  proof (cases "r = None \<and> aDecoder k bytes w")
    case True
    then have d: "is_dir (Clean destDir) w" "is_dir (path_join [destDir, ''..'']) w" using assms m by (auto simp: directories_def)
    obtain q s1 where q: "extract_all k destDir (hs, stop) (s\<lparr>world := w\<rparr>) = (q, s1)" by fastforce
    have "ExtractArchive k destDir file s = (q, s1)"
      using Inr m True es q by (simp add: ExtractArchive_def bind_def kread_def)
    then show ?thesis using extract_all_files [OF assms _ _ q] d Inr es by auto
  qed (use m Inr in \<open>auto simp: ExtractArchive_def bind_def kread_def throw_def panic_def split: option.splits\<close>)
qed (simp add: ExtractArchive_def bind_def kread_def panic_def)

text \<open>Without any assumption on the file system: every target is the join of the destination with a base name.\<close>

definition base_target :: "string \<Rightarrow> archive_call \<Rightarrow> bool" where
  "base_target d cl \<longleftrightarrow> (\<exists>n b. cl = Extracted (path_join [d, Base n]) b)"

lemma keeps_copy_to [keeps]: "keeps trace (copy_to k p bs)"
  by (simp add: keeps_def copy_to_def split: prod.split)

lemma traces_createFile [traces]: "(\<And>b. P (Extracted p b)) \<Longrightarrow> traces P (createFile k p)"
  unfolding createFile_def by (rule traces_kwrite)

lemma extract_all_targets: "traces (base_target d) (extract_all k d es)"
proof -
  have "Base ''done.txt'' = ''done.txt''" by code_simp
  then have "base_target d (Extracted (path_join [d, ''done.txt'']) b)" for b by (metis base_target_def)
  moreover have "traces (base_target d) (extractEntry k d h)" for h
    unfolding extractEntry_def Let_def by (intro traces traces_none [OF keeps_copy_to]) (auto simp: base_target_def)
  ultimately show ?thesis unfolding extract_all_def case_prod_beta by (intro traces)
qed

lemma extract_targets: "\<exists>cs. trace (snd (ExtractArchive k d f s)) = trace s @ cs \<and> list_all (base_target d) cs"
proof (cases "aOpen k f (world s)")
  case (Inr bytes)
  obtain r w where m: "aMkdirAll k d (world s) = (r, w)" by fastforce
  show ?thesis
  proof (cases "r = None \<and> aDecoder k bytes w")
    case True
    then have "ExtractArchive k d f s = extract_all k d (aEntries k bytes) (s\<lparr>world := w\<rparr>)"
      using Inr m by (simp add: ExtractArchive_def bind_def kread_def)
    then show ?thesis using tracesD [OF extract_all_targets [of d k "aEntries k bytes"], of "s\<lparr>world := w\<rparr>"] by simp
  qed (use m Inr in \<open>auto simp: ExtractArchive_def bind_def kread_def throw_def panic_def split: option.splits\<close>)
qed (simp add: ExtractArchive_def bind_def kread_def panic_def)

text \<open>A file system of directories, where files are created but not recorded.\<close>

definition sample_fs :: "string set archive_env" where
  "sample_fs = \<lparr>aCreate = (\<lambda>p w. (if p \<in> insert ''/'' w then Some (ErrNew ''is a directory'') else None, w)), aOpen = (\<lambda>_ _. Inr []),
     aStat = (\<lambda>_ _. None), aHeader = (\<lambda>_ _. Inr []), aEncoder = (\<lambda>_. True), aEncode = (\<lambda>_ _ w. (None, w)),
     aMkdirAll = (\<lambda>d w. (None, w \<union> {Clean d, path_join [d, ''..'']})), aDecoder = (\<lambda>_ _. True),
     aEntries = (\<lambda>_. ([\<lparr>te_Name = ''vm/memory-ranges'', te_Typeflag = TypeReg, te_content = []\<rparr>,
        \<lparr>te_Name = ''../..'', te_Typeflag = TypeReg, te_content = []\<rparr>], None)), aCopy = (\<lambda>_ _ w. (None, w))\<rparr>"

theorem extract_stays_inside_witness:
  "\<exists>cs. trace (snd (ExtractArchive sample_fs ''/mnt/memory/snap'' ''a.tar'' \<lparr>world = {}, obj = (), trace = []\<rparr>)) = cs
    \<and> list_all (in_directory ''/mnt/memory/snap'') cs \<and> ''/mnt/memory/snap/memory-ranges'' \<in> set (targets cs)"
proof -
  have "directories sample_fs (\<lambda>p w. p \<in> insert ''/'' w)" by (simp add: directories_def sample_fs_def)
  note ex = extract_stays_inside [OF this, of "''/mnt/memory/snap''" "''a.tar''" "\<lparr>world = {}, obj = (), trace = []\<rparr>"]
  have "trace (snd (ExtractArchive sample_fs ''/mnt/memory/snap'' ''a.tar'' \<lparr>world = {}, obj = (), trace = []\<rparr>))
    = [Extracted ''/mnt/memory/snap/memory-ranges'' True, Extracted ''/mnt/memory'' False]" by code_simp
  then show ?thesis using ex by (auto simp: targets_def)
qed

text \<open>The archive is never finished: an encoder that holds data back until it is closed, as zstd's does
  for less than a block, has put nothing into the file when \<open>CreateArchive\<close> returns without error.\<close>

lemma addFiles_buffered:
  assumes "\<And>out bs w. ondisk (snd (aEncode k out bs w)) = ondisk w"
  shows "ondisk (snd (snd (addFiles k out fs tw w))) = ondisk w"
proof (induction fs arbitrary: tw w)
  case (Cons f fs)
  have wr: "ondisk (snd (snd (tar_Write k out bs t u))) = ondisk u" for bs t u
    using assms [of out bs u] by (cases "aEncode k out bs u") (simp add: tar_Write_def)
  have add: "ondisk (snd (snd (addToArchive k out f t u))) = ondisk u" for t u
    using wr unfolding addToArchive_def
    by (auto split: sum.split option.split prod.split) (metis snd_conv)+
  show ?case using Cons.IH add [of tw w] by (auto split: prod.split option.split)
qed simp

lemma archive_never_flushed:
  assumes "\<And>out bs w. ondisk (snd (aEncode k out bs w)) = ondisk w"
  shows "ondisk (snd (CreateArchive k destination files w)) = ondisk (snd (aCreate k destination w))"
  using assms addFiles_buffered [where k = k and ondisk = ondisk, OF assms]
  by (auto simp: CreateArchive_def tar_Close_def split: prod.split option.split) (metis snd_conv)


text \<open>Clients that answer everything without an error.\<close>

definition calm_cloud :: "unit cloud_sdk" where
  "calm_cloud = \<lparr>LoadDefaultConfig = (\<lambda>_. None), S3_DeleteObject = (\<lambda>_ _ w. (None, w)), S3_Upload = (\<lambda>_ _ _ w. (None, w)),
     S3_Download = (\<lambda>_ _ _ w. (None, w)), GCS_NewClient = (\<lambda>_. None), GCS_Write = (\<lambda>_ _ _ w. (None, w)), GCS_Close = (\<lambda>_ _ w. (None, w)),
     GCS_Delete = (\<lambda>_ _ w. (None, w)), GCS_NewReader = (\<lambda>_ _ _. Inr []), os_Open = (\<lambda>_ _. Inr []), os_ReadFault = (\<lambda>_ _ _. None),
     os_Create = (\<lambda>_ w. (None, w)), os_WriteAll = (\<lambda>_ _ w. (None, w))\<rparr>"

definition calm_archive :: "unit archive_env" where
  "calm_archive = \<lparr>aCreate = (\<lambda>_ w. (None, w)), aOpen = (\<lambda>_ _. Inr []), aStat = (\<lambda>_ _. None), aHeader = (\<lambda>_ _. Inr []), aEncoder = (\<lambda>_. True),
     aEncode = (\<lambda>_ _ w. (None, w)), aMkdirAll = (\<lambda>_ w. (None, w)), aDecoder = (\<lambda>_ _. True), aEntries = (\<lambda>_. ([], None)),
     aCopy = (\<lambda>_ _ w. (None, w))\<rparr>"

end
