(* ===== verification/Vm_Snapshot.thy ===== *)
theory Vm_Snapshot
  imports Virtual_Disk Daemon_Base Zstd_Archive
begin

text \<open>
  The life of a VMSnapShot, which two programs share: the controller
  (\<open>src/internal/controller/vmsnapshot_controller.go\<close>) schedules it and cleans up after it, the daemon on
  the VM's node (\<open>src/pkg/daemon/snapshot_controller.go\<close>) takes it. The VMSnapShot is the object in the
  state. The API server, the hypervisor of the VM, the node's file system and the
  SDKs of the two object stores are the fields of \<open>snap_env\<close>. A deferred call runs after the rest of the function on every path
  (\<open>deferred\<close>).
\<close>

section \<open>Objects, environment and calls\<close>

datatype snap_phase = SnapEmpty | VMSnapShotScheduled | VMSnapShotInProgress | VMSnapshotCreated | VMSnapshotFailed
  | VMRestoreSpecCreated | VMRestoreSpecFailed | VMSnapShotReady

record memory_status =
  mst_Bucket :: string
  mst_ObjectKey :: string
  mst_Ready :: bool
  mst_Message :: string
  mst_Reason :: string

record disk_status =
  dst_Name :: string
  dst_SnapshotName :: string
  dst_Ready :: bool
  dst_Message :: string
  dst_Reason :: string

record vmsnapshot =
  sn_meta :: meta
  sn_VmName :: string
  sn_Bucket :: string
  sn_SkipMemorySnapshot :: bool
  sn_phase :: snap_phase
  sn_memory :: memory_status
  sn_disks :: "disk_status list"

record restore_spec =
  rsp_meta :: meta
  rsp_VMName :: string
  rsp_VMSpec :: vm_spec

record 'w snap_env =
  sGet :: "key \<Rightarrow> 'w \<Rightarrow> api_error + vmsnapshot"
  sGetVM :: "key \<Rightarrow> 'w \<Rightarrow> api_error + vm"
  sGetDiskSnapshot :: "key \<Rightarrow> 'w \<Rightarrow> api_error + disk_snapshot"
  sUpdate :: "vmsnapshot \<Rightarrow> 'w \<Rightarrow> (api_error + vmsnapshot) \<times> 'w"
  sUpdateStatus :: "vmsnapshot \<Rightarrow> 'w \<Rightarrow> (api_error + vmsnapshot) \<times> 'w"
  sUpdateVMStatus :: "vm \<Rightarrow> 'w \<Rightarrow> (api_error + vm) \<times> 'w"
  sCreateDiskSnapshot :: "disk_snapshot \<Rightarrow> 'w \<Rightarrow> api_error option \<times> 'w"
  sDeleteDiskSnapshot :: "key \<Rightarrow> 'w \<Rightarrow> api_error option \<times> 'w"
  sCreateRestoreSpec :: "restore_spec \<Rightarrow> 'w \<Rightarrow> api_error option \<times> 'w"
  hMissing :: "string \<Rightarrow> 'w \<Rightarrow> bool"
  hMkdirAll :: "string \<Rightarrow> 'w \<Rightarrow> err option \<times> 'w"
  hRemoveAll :: "string \<Rightarrow> 'w \<Rightarrow> 'w"
  hReadDir :: "string \<Rightarrow> 'w \<Rightarrow> err + string list"
  hVmPause :: "string \<Rightarrow> 'w \<Rightarrow> err option \<times> 'w"
  hVmResume :: "string \<Rightarrow> 'w \<Rightarrow> err option \<times> 'w"
  hVmSnapshot :: "string \<Rightarrow> string \<Rightarrow> 'w \<Rightarrow> err option \<times> 'w"
  sdk :: "'w cloud_sdk"
  arch :: "'w archive_env"

datatype snap_call =
    SnapUpdated vmsnapshot bool
  | SnapStatus vmsnapshot bool
  | VMStatus vm bool
  | DiskSnapshotCreated disk_snapshot "api_error option"
  | DiskSnapshotDeleted key "api_error option"
  | RestoreSpecCreated restore_spec "api_error option"
  | ObjectDeleted string string bool
  | ObjectUploaded string string bool
  | Paused string bool
  | Resumed string bool
  | Snapshotted string bool
  | HostCall string
  | SnapEvent string

type_synonym ('w, 'a) sact = "('w, vmsnapshot, snap_call, 'a) action"

definition snap_event :: "string \<Rightarrow> ('w, unit) sact" where
  "snap_event e s = (Ok (), s\<lparr>trace := trace s @ [SnapEvent e]\<rparr>)"

definition deferred :: "('w, 'o, 'c, unit) action \<Rightarrow> ('w, 'o, 'c, 'a) action \<Rightarrow> ('w, 'o, 'c, 'a) action" where
  "deferred d m s = (case m s of (r, s') \<Rightarrow> (r, snd (d s')))"

definition ok_or_throw :: "err option \<Rightarrow> ('w, 'o, 'c, unit) action" where
  "ok_or_throw r = (case r of None \<Rightarrow> ret () | Some e \<Rightarrow> throw e)"

definition updateSnapStatus :: "'w snap_env \<Rightarrow> ('w, api_error option) sact" where
  "updateSnapStatus k = updateObj (sUpdateStatus k) SnapStatus"

section \<open>The controller\<close>

definition SnapShotFinalizer :: string where
  "SnapShotFinalizer = ''cloudhypervisor.quill.today/vmsnapshot-protection''"

definition deleteMemorySnapshot :: "'w snap_env \<Rightarrow> vmsnapshot \<Rightarrow> ('w, unit) sact" where
  "deleteMemorySnapshot k snap =
    (if sn_SkipMemorySnapshot snap then ret ()
     else bind (let key = mst_ObjectKey (sn_memory snap) in
          if HasPrefix (sn_Bucket snap) ''s3'' then (let bucket = TrimPrefix (sn_Bucket snap) ''s3://'' in
            kwrite (DeleteObjectFromS3 (sdk k) bucket key) (\<lambda>r. ObjectDeleted bucket key (r = None)))
          else (let bucket = TrimPrefix (sn_Bucket snap) ''gcs://'' in
            kwrite (DeleteObjectFromGCS (sdk k) bucket key) (\<lambda>r. ObjectDeleted bucket key (r = None)))) (\<lambda>r. case r of
        None \<Rightarrow> snap_event ''MemorySnapshotDeleted''
      | Some e \<Rightarrow> bind (snap_event ''MemorySnapshotDeleteFailed'') (\<lambda>_. throw e)))"

definition deleteDiskSnapshot :: "'w snap_env \<Rightarrow> vmsnapshot \<Rightarrow> disk_status \<Rightarrow> ('w, unit) sact" where
  "deleteDiskSnapshot k snap disk =
    (let key = key_in (m_namespace (sn_meta snap)) (dst_Name disk) in
     bind (kwrite (sDeleteDiskSnapshot k key) (DiskSnapshotDeleted key)) (\<lambda>r. case r of
       None \<Rightarrow> snap_event ''VirtualDiskSnapshotDeleted''
     | Some e \<Rightarrow> if e = NotFound then snap_event ''VirtualDiskSnapshotDeleted''
         else bind (snap_event ''VirtualDiskSnapshotDeleteFailed'') (\<lambda>_. throw (ApiErr e))))"

definition deleteSnapshot :: "'w snap_env \<Rightarrow> vmsnapshot \<Rightarrow> ('w, unit) sact" where
  "deleteSnapshot k snap = bind (deleteMemorySnapshot k snap) (\<lambda>_. for_each (sn_disks snap) (deleteDiskSnapshot k snap))"

definition addSnapShotFinalizer :: "'w snap_env \<Rightarrow> ext \<Rightarrow> ('w, Result) sact" where
  "addSnapShotFinalizer k x =
    bind (modObj (\<lambda>v. v\<lparr>sn_meta := AddFinalizer x (sn_meta v) SnapShotFinalizer\<rparr>)) (\<lambda>_.
    bind (updateObj (sUpdate k) SnapUpdated) (\<lambda>r. case r of None \<Rightarrow> ret no_requeue
      | Some e \<Rightarrow> if e = Conflict then ret \<lparr>Requeue = True, RequeueAfter = 0\<rparr>
          else throw (ErrS ''unable to add finalizer to snapshot object'' (ApiErr e))))"

text \<open>The error of \<open>deleteSnapshot\<close> is not returned; the round is repeated after 30 seconds.\<close>

definition releaseSnapShot :: "'w snap_env \<Rightarrow> ext \<Rightarrow> ('w, Result) sact" where
  "releaseSnapShot k x = bind getObj (\<lambda>snap.
    bind (attempt (deleteSnapshot k snap)) (\<lambda>r. case r of
      Inl _ \<Rightarrow> ret \<lparr>Requeue = True, RequeueAfter = 30\<rparr>
    | Inr _ \<Rightarrow> bind (modObj (\<lambda>v. v\<lparr>sn_meta := RemoveFinalizer x (sn_meta v) SnapShotFinalizer\<rparr>)) (\<lambda>_.
        bind (updateObj (sUpdate k) SnapUpdated) (\<lambda>r. case r of None \<Rightarrow> ret no_requeue
          | Some e \<Rightarrow> throw (ErrS ''unable to remove finalizer'' (ApiErr e))))))"

definition scheduleSnapShot :: "'w snap_env \<Rightarrow> key \<Rightarrow> ('w, Result) sact" where
  "scheduleSnapShot k req = bind getObj (\<lambda>snap.
    bind (kread (sGetVM k (key_in (k_ns req) (sn_VmName snap)))) (\<lambda>r.
    bind (case r of
        Inl e \<Rightarrow> bind (if e = NotFound then snap_event ''VMNotFound'' else ret ()) (\<lambda>_. modObj (\<lambda>v. v\<lparr>sn_phase := VMSnapshotFailed\<rparr>))
      | Inr _ \<Rightarrow> modObj (\<lambda>v. v\<lparr>sn_phase := VMSnapShotScheduled\<rparr>)) (\<lambda>_.
    bind (updateSnapStatus k) (\<lambda>r. case r of None \<Rightarrow> ret no_requeue
      | Some e \<Rightarrow> if e = Conflict then ret \<lparr>Requeue = True, RequeueAfter = 30\<rparr> else throw (ApiErr e)))))"

definition SnapShotController_Reconcile :: "'w snap_env \<Rightarrow> ext \<Rightarrow> key \<Rightarrow> ('w, Result) sact" where
  "SnapShotController_Reconcile k x req =
    bind (kread (sGet k req)) (\<lambda>r. case r of
      Inl e \<Rightarrow> if e = NotFound then ret no_requeue else throw (ApiErr e)
    | Inr snap \<Rightarrow> bind (modObj (\<lambda>_. snap)) (\<lambda>_.
        if m_deletionTimestamp (sn_meta snap) = None \<and> \<not> ContainsFinalizer x (sn_meta snap) SnapShotFinalizer
        then addSnapShotFinalizer k x
        else if being_deleted (sn_meta snap) then
          (if sn_phase snap = VMSnapShotInProgress \<or> sn_phase snap = VMSnapShotScheduled then ret (requeue_after 60)
           else releaseSnapShot k x)
        else if sn_phase snap = SnapEmpty then scheduleSnapShot k req
        else ret no_requeue))"

section \<open>The daemon\<close>

text \<open>Pausing, taking the snapshot, and resuming in any case once the VM was paused.\<close>

definition chSnapshot :: "'w snap_env \<Rightarrow> vm \<Rightarrow> string \<Rightarrow> ('w, unit) sact" where
  "chSnapshot k v dest =
    (let sock = getVMDataDirPath v @ ''/vm.sock'' in
     bind (kwrite (hVmPause k sock) (\<lambda>r. Paused sock (r = None))) (\<lambda>r. case r of Some e \<Rightarrow> throw e
     | None \<Rightarrow> deferred (bind (kwrite (hVmResume k sock) (\<lambda>r. Resumed sock (r = None))) (\<lambda>_. ret ()))
         (bind (kwrite (hVmSnapshot k sock (''file://'' @ dest)) (\<lambda>r. Snapshotted (''file://'' @ dest) (r = None))) ok_or_throw)))"

definition archive_files :: "'w snap_env \<Rightarrow> string \<Rightarrow> string list \<Rightarrow> ('w, err option) sact" where
  "archive_files k dest files s = (case CreateArchive (arch k) dest files (world s) of (r, w) \<Rightarrow>
     (case r of Ok _ \<Rightarrow> Ok None | Err e \<Rightarrow> Ok (Some e) | Panic p \<Rightarrow> Panic p,
      s\<lparr>world := w, trace := trace s @ [HostCall ''CreateArchive'']\<rparr>))"

definition uploadToBucket :: "'w snap_env \<Rightarrow> string \<Rightarrow> string \<Rightarrow> string \<Rightarrow> ('w, err option \<times> string) sact" where
  "uploadToBucket k destination snapshotName bucket =
    bind (kread (hReadDir k destination)) (\<lambda>r. case r of Inl e \<Rightarrow> ret (Some (ErrS ''failed to read directory'' e), [])
    | Inr entries \<Rightarrow> (let archd = snapshotName @ ''.zstd.tar'' in
        deferred (\<lambda>s. (Ok (), s\<lparr>world := hRemoveAll k archd (world s), trace := trace s @ [HostCall ''RemoveAll'']\<rparr>))
          (bind (archive_files k archd (map (\<lambda>f. destination @ ''/'' @ f) entries)) (\<lambda>r. case r of
             Some e \<Rightarrow> ret (Some e, [])
           | None \<Rightarrow> bind (if HasPrefix bucket ''s3''
               then kwrite (UploadObjectToS3 (sdk k) (TrimPrefix bucket ''s3://'') archd archd) (\<lambda>r. ObjectUploaded (TrimPrefix bucket ''s3://'') archd (r = None))
               else kwrite (UploadObjectToGCS (sdk k) (TrimPrefix bucket ''gcs://'') archd archd) (\<lambda>r. ObjectUploaded (TrimPrefix bucket ''gcs://'') archd (r = None))) (\<lambda>r.
               ret (r, archd))))))"

definition setMemory :: "memory_status \<Rightarrow> ('w, unit) sact" where
  "setMemory ms = modObj (\<lambda>v. v\<lparr>sn_memory := ms\<rparr>)"

definition memorySnapshot :: "'w snap_env \<Rightarrow> (err \<Rightarrow> string) \<Rightarrow> vm \<Rightarrow> ('w, unit) sact" where
  "memorySnapshot k Error v = bind getObj (\<lambda>snap.
    let memStatus = \<lparr>mst_Bucket = sn_Bucket snap, mst_ObjectKey = [], mst_Ready = False, mst_Message = [], mst_Reason = []\<rparr> in
    bind (attempt (chSnapshot k v (''/var/run/ch-vmm/'' @ m_name (sn_meta snap)))) (\<lambda>r. case r of
      Inl e \<Rightarrow> bind (setMemory (memStatus\<lparr>mst_Message := Error e, mst_Reason := ''HypervisorSnapshotFailed''\<rparr>)) (\<lambda>_.
        bind (snap_event ''FailedToCreateMemorySnapshot'') (\<lambda>_. throw e))
    | Inr _ \<Rightarrow> bind (uploadToBucket k (getVMDataDirPath v @ ''/'' @ m_name (sn_meta snap)) (m_name (sn_meta snap)) (sn_Bucket snap)) (\<lambda>(rerr, key).
        case rerr of
          Some e \<Rightarrow> bind (setMemory (memStatus\<lparr>mst_ObjectKey := key, mst_Message := Error e, mst_Reason := ''FailedToUploadToBucket''\<rparr>)) (\<lambda>_.
            bind (snap_event ''FailedToUploadMemorySnapshot'') (\<lambda>_. throw e))
        | None \<Rightarrow> setMemory (memStatus\<lparr>mst_ObjectKey := key, mst_Ready := True, mst_Reason := ''MemorySnapshotCreated''\<rparr>))))"

definition addDiskStatus :: "disk_status \<Rightarrow> ('w, unit) sact" where
  "addDiskStatus d = modObj (\<lambda>v. v\<lparr>sn_disks := sn_disks v @ [d]\<rparr>)"

definition disk_snapshot_name :: "volume \<Rightarrow> vmsnapshot \<Rightarrow> string" where
  "disk_snapshot_name vol snap = v_name vol @ ''-'' @ m_name (sn_meta snap) @ ''-vds''"

definition new_disk_snapshot :: "vmsnapshot \<Rightarrow> vm \<Rightarrow> volume \<Rightarrow> pvc_source \<Rightarrow> disk_snapshot" where
  "new_disk_snapshot snap v vol d = \<lparr>dsn_meta = empty_meta\<lparr>m_name := disk_snapshot_name vol snap, m_namespace := vm_Namespace v,
       m_labels := Some [''vm'' \<mapsto> vm_Name v, ''snapshot'' \<mapsto> m_name (sn_meta snap), ''volume'' \<mapsto> v_name vol]\<rparr>,
     dsn_VirtualDiskName = pvc_claim d, dsn_phase = SnapshotPhaseEmpty, dsn_conditions = []\<rparr>"

definition snapshotDisk :: "'w snap_env \<Rightarrow> ext \<Rightarrow> (err \<Rightarrow> string) \<Rightarrow> vm \<Rightarrow> volume \<Rightarrow> ('w, unit) sact" where
  "snapshotDisk k x Error v vol = (case v_VirtualDisk vol of None \<Rightarrow> ret ()
    | Some d \<Rightarrow> bind getObj (\<lambda>snap.
      let name = disk_snapshot_name vol snap; vds = new_disk_snapshot snap v vol d in
      bind (kread (sGetDiskSnapshot k (key_in (vm_Namespace v) name))) (\<lambda>r. case r of
        Inr _ \<Rightarrow> ret ()
      | Inl e \<Rightarrow> if e \<noteq> NotFound then throw (ApiErr e)
          else (case SetControllerReference x (sn_meta snap) (dsn_meta vds) of Inl e \<Rightarrow> throw e
            | Inr m \<Rightarrow> bind (kwrite (sCreateDiskSnapshot k (vds\<lparr>dsn_meta := m\<rparr>)) (DiskSnapshotCreated (vds\<lparr>dsn_meta := m\<rparr>))) (\<lambda>r. case r of
                Some e \<Rightarrow> bind (addDiskStatus \<lparr>dst_Name = name, dst_SnapshotName = [], dst_Ready = False,
                    dst_Message = ''VirtualDiskSnapshotCreationFailed'', dst_Reason = Error (ApiErr e)\<rparr>) (\<lambda>_.
                  bind (snap_event ''VirtualDiskSnapshotCreationFailed'') (\<lambda>_. throw (ApiErr e)))
              | None \<Rightarrow> bind (addDiskStatus \<lparr>dst_Name = name, dst_SnapshotName = [], dst_Ready = False,
                    dst_Message = ''VirtualDiskSnapshotCreated'', dst_Reason = ''VirtualDiskSnapshotCreated''\<rparr>) (\<lambda>_.
                  snap_event ''VirtualDiskSnapshotCreated''))))))"

definition snapshotDisks :: "'w snap_env \<Rightarrow> ext \<Rightarrow> (err \<Rightarrow> string) \<Rightarrow> vm \<Rightarrow> ('w, unit) sact" where
  "snapshotDisks k x Error v = for_each (s_Volumes (vm_spec v)) (snapshotDisk k x Error v)"

text \<open>The directory is removed at the end only when this call made it.\<close>

definition createVMSnapShot :: "'w snap_env \<Rightarrow> ext \<Rightarrow> (err \<Rightarrow> string) \<Rightarrow> vm \<Rightarrow> ('w, unit) sact" where
  "createVMSnapShot k x Error v = bind getObj (\<lambda>snap.
    let dest = getVMDataDirPath v @ ''/'' @ m_name (sn_meta snap);
        take_it = bind (snap_event ''SnapShotInProgress'') (\<lambda>_.
          bind (if sn_SkipMemorySnapshot snap then ret () else memorySnapshot k Error v) (\<lambda>_. snapshotDisks k x Error v)) in
    bind (kread (hMissing k dest)) (\<lambda>missing.
    if missing then bind (kwrite (hMkdirAll k dest) (\<lambda>_. HostCall ''MkdirAll'')) (\<lambda>r. case r of Some e \<Rightarrow> throw e
      | None \<Rightarrow> deferred (\<lambda>s. (Ok (), s\<lparr>world := hRemoveAll k dest (world s), trace := trace s @ [HostCall ''RemoveAll'']\<rparr>)) take_it)
    else take_it))"

definition createRestoreSpec :: "'w snap_env \<Rightarrow> vm \<Rightarrow> ('w, unit) sact" where
  "createRestoreSpec k v = bind getObj (\<lambda>snap.
    let rs = \<lparr>rsp_meta = empty_meta\<lparr>m_name := m_name (sn_meta snap), m_namespace := default_ns (m_namespace (sn_meta snap)),
          m_labels := Some [VM_LABEL \<mapsto> vm_Name v, SNAP_LABEL \<mapsto> m_name (sn_meta snap)]\<rparr>, rsp_VMName = vm_Name v, rsp_VMSpec = vm_spec v\<rparr> in
    bind (kwrite (sCreateRestoreSpec k rs) (RestoreSpecCreated rs)) (\<lambda>r. case r of None \<Rightarrow> ret ()
      | Some e \<Rightarrow> if e = AlreadyExists then ret () else throw (ApiErr e)))"

text \<open>The state of one disk snapshot: the new entry, and whether it has failed or is pending.\<close>

datatype disk_progress = DiskReady | DiskFailed | DiskPending

definition progress_of :: "snapshot_phase \<Rightarrow> disk_progress" where
  "progress_of ph = (if ph = VirtualDiskSnapshotReadyToUse then DiskReady
     else if ph = VirtualDiskSnapshotError then DiskFailed else DiskPending)"

definition disk_entry :: "(snapshot_phase \<Rightarrow> string) \<Rightarrow> string \<Rightarrow> snapshot_phase \<Rightarrow> disk_status" where
  "disk_entry phase_text name ph = (let d = \<lparr>dst_Name = name, dst_SnapshotName = [], dst_Ready = False, dst_Message = [], dst_Reason = []\<rparr> in
     case progress_of ph of
       DiskReady \<Rightarrow> d\<lparr>dst_Ready := True, dst_Message := ''VirtualDiskSnapshot is ready'', dst_Reason := ''VirtualDiskSnapshotReady''\<rparr>
     | DiskFailed \<Rightarrow> d\<lparr>dst_Message := ''VirtualDiskSnapshot failed'', dst_Reason := ''VirtualDiskSnapshotError''\<rparr>
     | DiskPending \<Rightarrow> d\<lparr>dst_Message := ''VirtualDiskSnapshot is in '' @ phase_text ph @ '' phase'', dst_Reason := ''VirtualDiskSnapshotPending''\<rparr>)"

text \<open>The loop: \<open>Inl\<close> for an API error, else the entries with the progress of each disk.\<close>

definition checkDisk :: "'w snap_env \<Rightarrow> (snapshot_phase \<Rightarrow> string) \<Rightarrow> vm \<Rightarrow> disk_status \<Rightarrow> (disk_status \<times> disk_progress) list
    \<Rightarrow> ('w, (disk_status \<times> disk_progress) list) sact" where
  "checkDisk k phase_text v d acc =
    bind (kread (sGetDiskSnapshot k (key_in (vm_Namespace v) (dst_Name d)))) (\<lambda>r. case r of
      Inr vds \<Rightarrow> ret (acc @ [(disk_entry phase_text (dst_Name d) (dsn_phase vds), progress_of (dsn_phase vds))])
    | Inl e \<Rightarrow> if e = NotFound then ret (acc @ [(\<lparr>dst_Name = dst_Name d, dst_SnapshotName = [], dst_Ready = False,
          dst_Message = ''VirtualDiskSnapshot was deleted'', dst_Reason = ''VirtualDiskSnapshotNotFound''\<rparr>, DiskFailed)])
        else throw (ApiErr e))"

definition DeepEqual_struct_pointer :: "vmsnapshot \<Rightarrow> vmsnapshot \<Rightarrow> bool" where
  "DeepEqual_struct_pointer v p = False"

text \<open>The end of a round; \<open>reflect.DeepEqual\<close> compares the status with a pointer to the old one and is
  never true.\<close>

definition finishSnapShot :: "'w snap_env \<Rightarrow> vmsnapshot \<Rightarrow> err option \<Rightarrow> ('w, Result) sact" where
  "finishSnapShot k old rerror = bind getObj (\<lambda>snap.
    bind (if DeepEqual_struct_pointer snap old then ret None else updateSnapStatus k) (\<lambda>r. case r of
      Some e \<Rightarrow> if e = Conflict then ret \<lparr>Requeue = True, RequeueAfter = 5\<rparr> else throw (ErrW ''failed to update snapshot status'' (ApiErr e))
    | None \<Rightarrow> if rerror \<noteq> None then ret \<lparr>Requeue = True, RequeueAfter = 5\<rparr> else ret no_requeue))"

abbreviation setSnapPhase :: "snap_phase \<Rightarrow> ('w, unit) sact" where
  "setSnapPhase ph \<equiv> modObj (\<lambda>v. v\<lparr>sn_phase := ph\<rparr>)"

definition startSnapShot :: "'w snap_env \<Rightarrow> vm \<Rightarrow> vmsnapshot \<Rightarrow> ('w, Result) sact" where
  "startSnapShot k v old =
    (if st_Phase (vm_status v) \<noteq> VirtualMachineRunning then finishSnapShot k old (Some (ErrNew ''VM not in running state''))
     else (let v' = v\<lparr>vm_status := (vm_status v)\<lparr>st_Phase := VirtualMachineSnapshotInprogress\<rparr>\<rparr> in
       bind (kwrite (sUpdateVMStatus k v') (\<lambda>r. VMStatus v' (is_Inr r))) (\<lambda>r. case r of
         Inl e \<Rightarrow> if e = Conflict then ret \<lparr>Requeue = True, RequeueAfter = 5\<rparr>
             else finishSnapShot k old (Some (ErrW ''failed to update VM status'' (ApiErr e)))
       | Inr _ \<Rightarrow> bind (setSnapPhase VMSnapShotInProgress) (\<lambda>_. finishSnapShot k old None))))"

text \<open>\<open>defer r.updateVMStatus(ctx, &vm)\<close>: the VM is set back to Running, errors ignored.\<close>

definition updateVMStatus_running :: "'w snap_env \<Rightarrow> vm \<Rightarrow> ('w, unit) sact" where
  "updateVMStatus_running k v = (let v' = v\<lparr>vm_status := (vm_status v)\<lparr>st_Phase := VirtualMachineRunning\<rparr>\<rparr> in
     bind (kwrite (sUpdateVMStatus k v') (\<lambda>r. VMStatus v' (is_Inr r))) (\<lambda>_. ret ()))"

definition takeSnapShot :: "'w snap_env \<Rightarrow> ext \<Rightarrow> (err \<Rightarrow> string) \<Rightarrow> vm \<Rightarrow> vmsnapshot \<Rightarrow> ('w, Result) sact" where
  "takeSnapShot k x Error v old = deferred (updateVMStatus_running k v)
    (bind (attempt (createVMSnapShot k x Error v)) (\<lambda>r. case r of
       Inl e \<Rightarrow> bind (setSnapPhase VMSnapshotFailed) (\<lambda>_. finishSnapShot k old (Some e))
     | Inr _ \<Rightarrow> bind (setSnapPhase VMSnapshotCreated) (\<lambda>_. finishSnapShot k old None)))"

definition specifyRestore :: "'w snap_env \<Rightarrow> vm \<Rightarrow> vmsnapshot \<Rightarrow> ('w, Result) sact" where
  "specifyRestore k v old = bind (attempt (createRestoreSpec k v)) (\<lambda>r. case r of
     Inl e \<Rightarrow> finishSnapShot k old (Some e)
   | Inr _ \<Rightarrow> bind (setSnapPhase VMRestoreSpecCreated) (\<lambda>_. finishSnapShot k old None))"

definition awaitDisks :: "'w snap_env \<Rightarrow> (snapshot_phase \<Rightarrow> string) \<Rightarrow> vm \<Rightarrow> vmsnapshot \<Rightarrow> ('w, Result) sact" where
  "awaitDisks k phase_text v old = bind getObj (\<lambda>snap.
    bind (fold_act (checkDisk k phase_text v) (sn_disks snap) []) (\<lambda>ds.
    bind (modObj (\<lambda>s. s\<lparr>sn_disks := map fst ds\<rparr>)) (\<lambda>_.
    let failed = DiskFailed \<in> snd ` set ds; pending = DiskPending \<in> snd ` set ds in
    if \<not> failed \<and> pending then ret \<lparr>Requeue = True, RequeueAfter = 5\<rparr>
    else bind (if failed then setSnapPhase VMSnapshotFailed else ret ()) (\<lambda>_.
      bind (snap_event ''AllDiskSnapshotsReady'') (\<lambda>_.
      bind (setSnapPhase VMSnapShotReady) (\<lambda>_. finishSnapShot k old None))))))"

definition SnapShotDaemon_Reconcile ::
  "'w snap_env \<Rightarrow> ext \<Rightarrow> (err \<Rightarrow> string) \<Rightarrow> (snapshot_phase \<Rightarrow> string) \<Rightarrow> string \<Rightarrow> key \<Rightarrow> ('w, Result) sact" where
  "SnapShotDaemon_Reconcile k x Error phase_text NodeName req =
    bind (kread (sGet k req)) (\<lambda>r. case r of
      Inl e \<Rightarrow> if e = NotFound then ret no_requeue else throw (ApiErr e)
    | Inr snap \<Rightarrow> bind (modObj (\<lambda>_. snap)) (\<lambda>_.
        bind (kread (sGetVM k (key_in (k_ns req) (sn_VmName snap)))) (\<lambda>r. case r of
          Inl e \<Rightarrow> if e = NotFound then ret no_requeue else throw (ApiErr e)
        | Inr v \<Rightarrow> if \<not> responsible NodeName v then ret no_requeue
            else (case sn_phase snap of
                VMSnapShotScheduled \<Rightarrow> startSnapShot k v snap
              | VMSnapShotInProgress \<Rightarrow> takeSnapShot k x Error v snap
              | VMSnapshotCreated \<Rightarrow> specifyRestore k v snap
              | VMRestoreSpecCreated \<Rightarrow> awaitDisks k phase_text v snap
              | VMSnapshotFailed \<Rightarrow> ret no_requeue
              | _ \<Rightarrow> finishSnapShot k snap None))))"

definition findVMSnapShotsForVirtualDiskSnapshot :: "ext \<Rightarrow> (api_error + vmsnapshot list) \<Rightarrow> disk_snapshot \<Rightarrow> key list" where
  "findVMSnapShotsForVirtualDiskSnapshot x list vds = (case list of Inl _ \<Rightarrow> []
     | Inr snaps \<Rightarrow> (case List.find (\<lambda>sn. IsControlledBy x (dsn_meta vds) (sn_meta sn)) snaps of
         None \<Rightarrow> [] | Some sn \<Rightarrow> [meta_key (sn_meta sn)]))"

section \<open>Frame rules\<close>

lemma keeps_deferred [keeps]: "keeps f d \<Longrightarrow> keeps f m \<Longrightarrow> keeps f (deferred d m)"
  unfolding keeps_def deferred_def by (auto split: prod.split) (metis snd_conv)

lemma emits_deferred:
  assumes "emits P m" "emits Q d"
  shows "emits (\<lambda>cs. \<exists>as bs. cs = as @ bs \<and> P as \<and> Q bs) (deferred d m)"
  unfolding emits_def
proof
  fix s
  obtain r s' where m: "m s = (r, s')" by (cases "m s")
  obtain as where "trace s' = trace s @ as" "P as" using emitsD [OF assms(1), of s] m by auto
  moreover obtain bs where "trace (snd (d s')) = trace s' @ bs" "Q bs" using emitsD [OF assms(2), of s'] by auto
  ultimately show "\<exists>cs. trace (snd (deferred d m s)) = trace s @ cs \<and> (\<exists>as bs. cs = as @ bs \<and> P as \<and> Q bs)"
    using m by (intro exI [of _ "as @ bs"]) (auto simp: deferred_def)
qed

lemma traces_deferred [traces]: "traces P d \<Longrightarrow> traces P m \<Longrightarrow> traces P (deferred d m)"
  unfolding traces_emits by (rule emits_mono [OF emits_deferred]) auto

lemma keeps_snap_event [keeps]: "keeps obj (snap_event e)"
  by (simp add: keeps_def snap_event_def)

lemma traces_snap_event [traces]: "P (SnapEvent e) \<Longrightarrow> traces P (snap_event e)"
  by (simp add: traces_def snap_event_def)

lemma keeps_host [keeps]: "keeps obj (\<lambda>s. (Ok (), s\<lparr>world := f s, trace := trace s @ cs\<rparr>))"
  by (simp add: keeps_def)

lemma traces_host [traces]: "P (HostCall h) \<Longrightarrow> traces P (\<lambda>s. (Ok (), s\<lparr>world := f s, trace := trace s @ [HostCall h]\<rparr>))"
  by (simp add: traces_def)

lemma ok_or_throw_frame [keeps]: "keeps f (ok_or_throw r)"
  unfolding ok_or_throw_def by (intro keeps)

lemma traces_ok_or_throw [traces]: "traces P (ok_or_throw r)"
  by (rule traces_none) (rule ok_or_throw_frame)

section \<open>The life cycle\<close>

text \<open>The phases a VMSnapShot is to go through, as the comments of both programs have it. A failed and a ready snapshot are final, and
  \<open>VMRestoreSpecFailed\<close> is never entered.\<close>

inductive snap_transition :: "snap_phase \<Rightarrow> snap_phase \<Rightarrow> bool" where
  schedule: "snap_transition SnapEmpty VMSnapShotScheduled"
| refuse: "snap_transition SnapEmpty VMSnapshotFailed"
| started: "snap_transition VMSnapShotScheduled VMSnapShotInProgress"
| taken: "snap_transition VMSnapShotInProgress VMSnapshotCreated"
| broken: "snap_transition VMSnapShotInProgress VMSnapshotFailed"
| specified: "snap_transition VMSnapshotCreated VMRestoreSpecCreated"
| ready: "snap_transition VMRestoreSpecCreated VMSnapShotReady"
| disk_failed: "snap_transition VMRestoreSpecCreated VMSnapshotFailed"

inductive_cases snap_transition_final: "snap_transition VMSnapshotFailed q" "snap_transition VMSnapShotReady q"

definition lifecycle :: "snap_phase \<Rightarrow> snap_phase \<Rightarrow> bool" where
  "lifecycle p q \<longleftrightarrow> q = p \<or> snap_transition p q"

lemma lifecycle_final: "lifecycle VMSnapshotFailed q \<Longrightarrow> q = VMSnapshotFailed" "lifecycle VMSnapShotReady q \<Longrightarrow> q = VMSnapShotReady"
  by (auto simp: lifecycle_def elim: snap_transition_final)

lemma lifecycle_refl [simp]: "lifecycle p p"
  by (simp add: lifecycle_def)

definition status_write :: "(snap_phase \<Rightarrow> bool) \<Rightarrow> snap_call \<Rightarrow> bool" where
  "status_write Q cl \<longleftrightarrow> (case cl of SnapStatus v b \<Rightarrow> Q (sn_phase v) | _ \<Rightarrow> True)"

lemma status_write_simps [simp]:
  "status_write Q (SnapStatus v b) = Q (sn_phase v)" "status_write Q (SnapUpdated v b)" "status_write Q (VMStatus u b)"
  "status_write Q (DiskSnapshotCreated d r)" "status_write Q (DiskSnapshotDeleted n r)" "status_write Q (RestoreSpecCreated rs r)"
  "status_write Q (ObjectDeleted bk o' b)" "status_write Q (ObjectUploaded bk o' b)" "status_write Q (Paused so b)"
  "status_write Q (Resumed so b)" "status_write Q (Snapshotted d' b)" "status_write Q (HostCall h)" "status_write Q (SnapEvent e)"
  by (simp_all add: status_write_def)

text \<open>\<open>writes p Q m\<close>: started in phase \<open>p\<close>, the action writes only statuses whose phase satisfies \<open>Q\<close>.\<close>

definition writes :: "snap_phase \<Rightarrow> (snap_phase \<Rightarrow> bool) \<Rightarrow> ('w, 'a) sact \<Rightarrow> bool" where
  "writes p Q m \<longleftrightarrow> (\<forall>s. sn_phase (obj s) = p \<longrightarrow> (\<exists>cs. trace (snd (m s)) = trace s @ cs \<and> list_all (status_write Q) cs))"

lemma writesD: "writes p Q m \<Longrightarrow> sn_phase (obj s) = p \<Longrightarrow> \<exists>cs. trace (snd (m s)) = trace s @ cs \<and> list_all (status_write Q) cs"
  unfolding writes_def by blast

named_theorems writes \<open>rules for the statuses an action writes\<close>

abbreviation phase_of :: "('w, vmsnapshot, snap_call) rst \<Rightarrow> snap_phase" where "phase_of s \<equiv> sn_phase (obj s)"

definition quiet :: "('w, 'a) sact \<Rightarrow> bool" where
  "quiet m \<longleftrightarrow> traces (status_write (\<lambda>_. False)) m \<and> keeps phase_of m"

named_theorems quiet \<open>actions that neither write the status nor change the phase\<close>

lemma quietI: "traces (status_write (\<lambda>_. False)) m \<Longrightarrow> keeps phase_of m \<Longrightarrow> quiet m"
  by (simp add: quiet_def)

lemma quiet_traces: "quiet m \<Longrightarrow> traces (status_write Q) m"
  unfolding quiet_def traces_emits
  by (auto elim!: emits_mono simp: list_all_iff status_write_def split: snap_call.splits)

lemma writes_quiet: "quiet m \<Longrightarrow> writes p Q m"
  using tracesD [OF quiet_traces] unfolding writes_def by blast

lemma writes_bind [writes]:
  assumes "quiet m" "\<And>x. writes p Q (g x)"
  shows "writes p Q (bind m g)"
proof -
  have "\<exists>cs. trace (snd (bind m g s)) = trace s @ cs \<and> list_all (status_write Q) cs" if p: "phase_of s = p" for s
  proof -
    obtain r s' where m: "m s = (r, s')" by (cases "m s")
    obtain cs where cs: "trace s' = trace s @ cs" "list_all (status_write Q) cs"
      using tracesD [OF quiet_traces [OF assms(1)], of s] m by auto
    have "phase_of s' = p" using keepsD [of phase_of m s] assms(1) p m by (simp add: quiet_def)
    then have "\<exists>ds. trace (snd (g x s')) = trace s' @ ds \<and> list_all (status_write Q) ds" for x
      using assms(2) [of x] unfolding writes_def by blast
    then show ?thesis using cs m by (cases r) (fastforce simp: bind_def)+
  qed
  then show ?thesis unfolding writes_def by blast
qed

lemma writes_modObj:
  assumes "writes q Q (g ())" "\<And>v. sn_phase v = p \<Longrightarrow> sn_phase (h v) = q"
  shows "writes p Q (bind (modObj h) g)"
proof -
  have "\<exists>cs. trace (snd (bind (modObj h) g s)) = trace s @ cs \<and> list_all (status_write Q) cs" if "phase_of s = p" for s
    using writesD [OF assms(1), of "s\<lparr>obj := h (obj s)\<rparr>"] assms(2) [OF that] by (simp add: bind_def modObj_def)
  then show ?thesis unfolding writes_def by blast
qed

lemma writes_setSnapPhase [writes]: "writes q Q (g ()) \<Longrightarrow> writes p Q (bind (setSnapPhase q) g)"
  by (rule writes_modObj) simp_all

lemma writes_load: "writes (sn_phase v) Q (g ()) \<Longrightarrow> writes p Q (bind (modObj (\<lambda>_. v)) g)"
  by (rule writes_modObj) simp_all

lemma writes_deferred [writes]:
  assumes "quiet d" "writes p Q m"
  shows "writes p Q (deferred d m)"
proof -
  have "\<exists>cs. trace (snd (deferred d m s)) = trace s @ cs \<and> list_all (status_write Q) cs" if p: "phase_of s = p" for s
  proof -
    obtain r s' where m: "m s = (r, s')" by (cases "m s")
    obtain cs where "trace s' = trace s @ cs" "list_all (status_write Q) cs"
      using writesD [OF assms(2) p] m by auto
    then show ?thesis using tracesD [OF quiet_traces [OF assms(1)], of s' Q] m by (auto simp: deferred_def)
  qed
  then show ?thesis unfolding writes_def by blast
qed

lemma writes_status [writes]:
  assumes "Q p" "\<And>r. quiet (g r)"
  shows "writes p Q (bind (updateSnapStatus k) g)"
proof -
  have "\<exists>cs. trace (snd (bind (updateSnapStatus k) g s)) = trace s @ cs \<and> list_all (status_write Q) cs" if "phase_of s = p" for s
  proof (cases "sUpdateStatus k (obj s) (world s)")
    case (Pair r w)
    let ?r = "case r of Inl e \<Rightarrow> Some e | Inr _ \<Rightarrow> None"
    let ?s = "s\<lparr>world := w, trace := trace s @ [SnapStatus (obj s) (is_Inr r)], obj := (case r of Inl _ \<Rightarrow> obj s | Inr v \<Rightarrow> v)\<rparr>"
    have go: "bind (updateSnapStatus k) g s = g ?r ?s"
      using Pair by (simp add: bind_def updateSnapStatus_def updateObj_def)
    obtain ds where ds: "trace (snd (g ?r ?s)) = trace ?s @ ds" "list_all (status_write Q) ds"
      using tracesD [OF quiet_traces [OF assms(2)]] by blast
    show ?thesis unfolding go using ds assms(1) that
      by (intro exI [of _ "SnapStatus (obj s) (is_Inr r) # ds"]) simp
  qed
  then show ?thesis unfolding writes_def by blast
qed

lemma writes_cases [writes]:
  "(b \<Longrightarrow> writes p Q m) \<Longrightarrow> (\<not> b \<Longrightarrow> writes p Q n) \<Longrightarrow> writes p Q (if b then m else n)"
  "writes p Q m' \<Longrightarrow> (\<And>x. writes p Q (n' x)) \<Longrightarrow> writes p Q (case y of None \<Rightarrow> m' | Some x \<Rightarrow> n' x)"
  "(\<And>e. writes p Q (l e)) \<Longrightarrow> (\<And>x. writes p Q (r x)) \<Longrightarrow> writes p Q (case z of Inl e \<Rightarrow> l e | Inr x \<Rightarrow> r x)"
  "writes p Q (h v) \<Longrightarrow> writes p Q (let x = v in h x)"
  by (auto split: option.split sum.split)

section \<open>The steps of the two programs\<close>

lemma quiet_basic [quiet]:
  "quiet (ret x)" "quiet (throw e)" "quiet getObj" "quiet (kread f)" "quiet (ok_or_throw r)"
  by (auto intro!: quietI traces_basic keeps_basic traces_ok_or_throw ok_or_throw_frame)

lemma quiet_modObj: "(\<And>v. sn_phase (h v) = sn_phase v) \<Longrightarrow> quiet (modObj h)"
  by (rule quietI) (simp_all add: traces_basic keeps_def modObj_def)

lemma quiet_status_parts [quiet]: "quiet (setMemory ms)" "quiet (addDiskStatus d)" "quiet (modObj (\<lambda>v. v\<lparr>sn_disks := ds\<rparr>))"
  by (simp_all add: setMemory_def addDiskStatus_def quiet_modObj)

lemma quiet_snap_event [quiet]: "quiet (snap_event e)"
  by (rule quietI) (simp_all add: traces_snap_event keeps_def snap_event_def)

lemma quiet_bind [quiet]: "quiet m \<Longrightarrow> (\<And>x. quiet (g x)) \<Longrightarrow> quiet (bind m g)"
  unfolding quiet_def by (blast intro: traces_bind keeps_bind)

lemma quiet_kwrite [quiet]: "(\<And>r. status_write (\<lambda>_. False) (c r)) \<Longrightarrow> quiet (kwrite f c)"
  by (rule quietI) (simp_all add: traces_kwrite keeps_comp keeps_obj_kwrite)

lemma quiet_cases [quiet]:
  "(b \<Longrightarrow> quiet m) \<Longrightarrow> (\<not> b \<Longrightarrow> quiet n) \<Longrightarrow> quiet (if b then m else n)"
  "quiet m' \<Longrightarrow> (\<And>x. quiet (n' x)) \<Longrightarrow> quiet (case y of None \<Rightarrow> m' | Some x \<Rightarrow> n' x)"
  "(\<And>e. quiet (l e)) \<Longrightarrow> (\<And>x. quiet (r x)) \<Longrightarrow> quiet (case z of Inl e \<Rightarrow> l e | Inr x \<Rightarrow> r x)"
  "quiet (h v) \<Longrightarrow> quiet (let x = v in h x)"
  "(\<And>a b. quiet (pr a b)) \<Longrightarrow> quiet (case ab of (a, b) \<Rightarrow> pr a b)"
  by (auto split: option.split sum.split prod.split)

lemma quiet_attempt [quiet]: "quiet m \<Longrightarrow> quiet (attempt m)"
  unfolding quiet_def by (blast intro: traces_attempt keeps_attempt)

lemma quiet_deferred [quiet]: "quiet d \<Longrightarrow> quiet m \<Longrightarrow> quiet (deferred d m)"
  unfolding quiet_def by (blast intro: traces_deferred keeps_deferred)

lemma quiet_host [quiet]: "quiet (\<lambda>s. (Ok (), s\<lparr>world := f s, trace := trace s @ [HostCall h]\<rparr>))"
  by (rule quietI) (simp_all add: traces_host keeps_comp keeps_host)

lemma traces_archive_files [traces]: "P (HostCall ''CreateArchive'') \<Longrightarrow> traces P (archive_files k d fs)"
  by (simp add: traces_def archive_files_def split: prod.split)

lemma quiet_archive_files [quiet]: "quiet (archive_files k d fs)"
  by (rule quietI) (simp_all add: traces_archive_files keeps_def archive_files_def split: prod.split)

lemma quiet_for_each [quiet]: "(\<And>x. x \<in> set xs \<Longrightarrow> quiet (g x)) \<Longrightarrow> quiet (for_each xs g)"
  by (induction xs) (auto intro: quiet)

lemma quiet_fold_act [quiet]: "(\<And>x a. x \<in> set xs \<Longrightarrow> quiet (g x a)) \<Longrightarrow> quiet (fold_act g xs a)"
  by (induction xs arbitrary: a) (auto intro: quiet)

lemma quiet_chSnapshot [quiet]: "quiet (chSnapshot k v dest)"
  unfolding chSnapshot_def by (intro quiet status_write_simps)

lemma quiet_uploadToBucket [quiet]: "quiet (uploadToBucket k dest n b)"
  unfolding uploadToBucket_def by (intro quiet status_write_simps)

lemma quiet_memorySnapshot [quiet]: "quiet (memorySnapshot k Error v)"
  unfolding memorySnapshot_def by (intro quiet status_write_simps)

lemma quiet_snapshotDisks [quiet]: "quiet (snapshotDisks k x Error v)"
  unfolding snapshotDisks_def snapshotDisk_def by (intro quiet status_write_simps)

lemma quiet_createVMSnapShot [quiet]: "quiet (createVMSnapShot k x Error v)"
  unfolding createVMSnapShot_def by (intro quiet status_write_simps)

lemma quiet_createRestoreSpec [quiet]: "quiet (createRestoreSpec k v)"
  unfolding createRestoreSpec_def by (intro quiet status_write_simps)

lemma quiet_checkDisk [quiet]: "quiet (checkDisk k pt v d acc)"
  unfolding checkDisk_def by (intro quiet)

lemma quiet_updateVMStatus_running [quiet]: "quiet (updateVMStatus_running k v)"
  unfolding updateVMStatus_running_def by (intro quiet status_write_simps)

lemma writes_silent [writes]: "writes p Q (ret x)" "writes p Q (throw e)"
  by (simp_all add: writes_quiet quiet_basic)

lemma writes_finishSnapShot [writes]: "Q p \<Longrightarrow> writes p Q (finishSnapShot k old e)"
  unfolding finishSnapShot_def DeepEqual_struct_pointer_def by (simp only: if_False, intro writes quiet)

lemma writes_startSnapShot: "writes VMSnapShotScheduled (lifecycle VMSnapShotScheduled) (startSnapShot k v old)"
  unfolding startSnapShot_def by (intro writes quiet writes_quiet status_write_simps; simp add: lifecycle_def snap_transition.intros)

lemma writes_takeSnapShot: "writes VMSnapShotInProgress (lifecycle VMSnapShotInProgress) (takeSnapShot k x Error v old)"
  unfolding takeSnapShot_def by (intro writes quiet; simp add: lifecycle_def snap_transition.intros)

lemma writes_specifyRestore: "writes VMSnapshotCreated (lifecycle VMSnapshotCreated) (specifyRestore k v old)"
  unfolding specifyRestore_def by (intro writes quiet; simp add: lifecycle_def snap_transition.intros)

lemma writes_bind_any:
  assumes "traces (status_write (\<lambda>_. False)) m" "\<And>x q. writes q Q (g x)"
  shows "writes p Q (bind m g)"
proof -
  have "\<exists>cs. trace (snd (bind m g s)) = trace s @ cs \<and> list_all (status_write Q) cs" for s
  proof -
    obtain r s' where m: "m s = (r, s')" by (cases "m s")
    have "traces (status_write Q) m"
      using assms(1) unfolding traces_emits by (auto elim!: emits_mono simp: list_all_iff status_write_def split: snap_call.splits)
    then obtain cs where "trace s' = trace s @ cs" "list_all (status_write Q) cs" using tracesD [of _ m s] m by fastforce
    then show ?thesis using writesD [OF assms(2) refl, of _ s'] m by (cases r) (fastforce simp: bind_def)+
  qed
  then show ?thesis unfolding writes_def by blast
qed

lemma writes_awaitDisks: "writes VMRestoreSpecCreated (lifecycle VMRestoreSpecCreated) (awaitDisks k pt v old)"
proof -
  have "writes q (lifecycle VMRestoreSpecCreated) (bind (snap_event e) (\<lambda>_. bind (setSnapPhase VMSnapShotReady) (\<lambda>_. finishSnapShot k old None)))" for q e
    by (rule writes_bind, rule quiet, rule writes_setSnapPhase, rule writes_finishSnapShot) (simp add: lifecycle_def snap_transition.intros)
  then have "writes VMRestoreSpecCreated (lifecycle VMRestoreSpecCreated) (bind (if failed then setSnapPhase VMSnapshotFailed else ret ())
      (\<lambda>_. bind (snap_event e) (\<lambda>_. bind (setSnapPhase VMSnapShotReady) (\<lambda>_. finishSnapShot k old None))))" for failed e
    by (rule writes_bind_any [rotated]) (simp add: traces_basic)
  moreover have "quiet (fold_act (checkDisk k pt v) ds [])" for ds
    by (intro quiet)
  ultimately show ?thesis unfolding awaitDisks_def Let_def
    by (auto intro!: writes_bind quiet_basic quiet_status_parts writes_silent)
qed

lemma writes_scheduleSnapShot: "writes SnapEmpty (lifecycle SnapEmpty) (scheduleSnapShot k req)"
proof -
  have vm: "writes SnapEmpty (lifecycle SnapEmpty) (bind (case r of
        Inl e \<Rightarrow> bind (if e = NotFound then snap_event ''VMNotFound'' else ret ()) (\<lambda>_. setSnapPhase VMSnapshotFailed)
      | Inr _ \<Rightarrow> setSnapPhase VMSnapShotScheduled) g)"
    if "\<And>p. p = VMSnapshotFailed \<or> p = VMSnapShotScheduled \<Longrightarrow> writes p (lifecycle SnapEmpty) (g ())" for r :: "api_error + vm" and g :: "unit \<Rightarrow> ('a, Result) sact"
  proof (cases r)
    case (Inl e)
    show ?thesis unfolding Inl sum.case bind_assoc
      by (rule writes_bind, intro quiet, rule writes_setSnapPhase, rule that) simp
  next
    case (Inr v)
    show ?thesis unfolding Inr sum.case by (rule writes_setSnapPhase, rule that) simp
  qed
  have upd: "writes p (lifecycle SnapEmpty) (bind (updateSnapStatus k) (\<lambda>r. case r of None \<Rightarrow> ret no_requeue
      | Some e \<Rightarrow> if e = Conflict then ret \<lparr>Requeue = True, RequeueAfter = 30\<rparr> else throw (ApiErr e)))"
    if "p = VMSnapshotFailed \<or> p = VMSnapShotScheduled" for p
    using that by (intro writes_status quiet) (auto simp: lifecycle_def snap_transition.intros)
  show ?thesis unfolding scheduleSnapShot_def
    by (intro writes_bind [OF quiet_basic(3)] writes_bind [OF quiet_basic(4)] vm upd)
qed

lemma quiet_deleteSnapshot [quiet]: "quiet (deleteSnapshot k snap)"
  unfolding deleteSnapshot_def deleteMemorySnapshot_def deleteDiskSnapshot_def by (intro quiet status_write_simps)

lemma writes_controller:
  "writes p (lifecycle p) (if b then addSnapShotFinalizer k x else if d then (if e then ret r else releaseSnapShot k x)
     else if p = SnapEmpty then scheduleSnapShot k req else ret r')"
proof -
  have upd: "writes q Q (bind (updateObj (sUpdate k) SnapUpdated) g)" if "\<And>r. quiet (g r)" for q Q and g :: "api_error option \<Rightarrow> ('a, Result) sact"
    by (rule writes_bind_any) (auto intro: traces_updateObj writes_quiet that)
  have "writes q Q (addSnapShotFinalizer k x)" for q Q unfolding addSnapShotFinalizer_def
    by (rule writes_modObj [OF upd]) (auto intro!: quiet)
  moreover have "writes q Q (releaseSnapShot k x)" for q Q unfolding releaseSnapShot_def
    by (intro writes_bind [OF quiet_basic(3)] writes_bind [OF quiet_attempt [OF quiet_deleteSnapshot]] writes_cases(3)
        writes_quiet [OF quiet_basic(1)] writes_modObj [OF upd]) (auto intro!: quiet)
  ultimately show ?thesis using writes_scheduleSnapShot by (auto intro!: writes_silent)
qed

subsection \<open>Waiting for the disks\<close>

text \<open>What the loop finds of a disk, when the API server answers.\<close>

definition disk_found :: "'w snap_env \<Rightarrow> vm \<Rightarrow> 'w \<Rightarrow> disk_status \<Rightarrow> disk_progress" where
  "disk_found k v w d = (case sGetDiskSnapshot k (key_in (vm_Namespace v) (dst_Name d)) w of
     Inl _ \<Rightarrow> DiskFailed | Inr vds \<Rightarrow> progress_of (dsn_phase vds))"

definition answered :: "'w snap_env \<Rightarrow> vm \<Rightarrow> 'w \<Rightarrow> disk_status \<Rightarrow> bool" where
  "answered k v w d \<longleftrightarrow> (\<forall>e. sGetDiskSnapshot k (key_in (vm_Namespace v) (dst_Name d)) w = Inl e \<longrightarrow> e = NotFound)"

lemma disk_entry_ready: "dst_Ready (disk_entry pt n ph) \<longleftrightarrow> progress_of ph = DiskReady"
  by (simp add: disk_entry_def Let_def split: disk_progress.split)

lemma checkDisk_answered:
  assumes "answered k v (world s) d"
  shows "\<exists>d'. checkDisk k pt v d acc s = (Ok (acc @ [(d', disk_found k v (world s) d)]), s)
     \<and> (dst_Ready d' \<longleftrightarrow> disk_found k v (world s) d = DiskReady)"
  using assms by (cases "sGetDiskSnapshot k (key_in (vm_Namespace v) (dst_Name d)) (world s)")
    (auto simp: checkDisk_def bind_def kread_def ret_def answered_def disk_found_def disk_entry_ready)

lemma checkDisks_answered:
  assumes "list_all (answered k v (world s)) ds"
  shows "\<exists>es. fold_act (checkDisk k pt v) ds acc s = (Ok (acc @ es), s) \<and> map snd es = map (disk_found k v (world s)) ds
     \<and> map (\<lambda>e. dst_Ready (fst e)) es = map (\<lambda>d. disk_found k v (world s) d = DiskReady) ds"
  using assms
proof (induction ds arbitrary: acc)
  case (Cons d ds)
  obtain d' where d': "checkDisk k pt v d acc s = (Ok (acc @ [(d', disk_found k v (world s) d)]), s)"
    "dst_Ready d' \<longleftrightarrow> disk_found k v (world s) d = DiskReady"
    using checkDisk_answered [of k v s d pt acc] Cons.prems by auto
  obtain es where "fold_act (checkDisk k pt v) ds (acc @ [(d', disk_found k v (world s) d)]) s = (Ok ((acc @ [(d', disk_found k v (world s) d)]) @ es), s)"
     "map snd es = map (disk_found k v (world s)) ds" "map (\<lambda>e. dst_Ready (fst e)) es = map (\<lambda>d. disk_found k v (world s) d = DiskReady) ds"
    using Cons.IH [of "acc @ [(d', disk_found k v (world s) d)]"] Cons.prems by auto
  then show ?case using d' by (intro exI [of _ "(d', disk_found k v (world s) d) # es"]) (simp add: bind_def)
qed (simp add: ret_def)

text \<open>Whatever the API server answers, the loop changes nothing, and if it comes to an end it has found these.\<close>

lemma checkDisk_cases:
  "\<exists>r. checkDisk k pt v d acc s = (r, s) \<and> (is_ok r \<longrightarrow> answered k v (world s) d)"
  by (cases "sGetDiskSnapshot k (key_in (vm_Namespace v) (dst_Name d)) (world s)")
    (auto simp: checkDisk_def bind_def kread_def ret_def throw_def answered_def)

lemma checkDisks_cases:
  "\<exists>r. fold_act (checkDisk k pt v) ds acc s = (r, s) \<and> (is_ok r \<longrightarrow> list_all (answered k v (world s)) ds)"
proof (induction ds arbitrary: acc)
  case (Cons d ds)
  obtain r where r: "checkDisk k pt v d acc s = (r, s)" "is_ok r \<longrightarrow> answered k v (world s) d" using checkDisk_cases by blast
  show ?case
  proof (cases r)
    case (Ok acc')
    then show ?thesis using Cons.IH [of acc'] r by (auto simp: bind_def)
  qed (use r in \<open>auto simp: bind_def\<close>)
qed (simp add: ret_def)

text \<open>A snapshot becomes ready only with all its disks, unless one of them has failed.\<close>

definition honest_ready :: "bool \<Rightarrow> snap_call \<Rightarrow> bool" where
  "honest_ready failed cl \<longleftrightarrow> (case cl of SnapStatus w b \<Rightarrow> sn_phase w = VMSnapShotReady \<longrightarrow> failed \<or> list_all dst_Ready (sn_disks w) | _ \<Rightarrow> True)"

lemma awaitDisks_honest:
  "\<exists>cs. trace (snd (awaitDisks k pt v old s)) = trace s @ cs
    \<and> list_all (honest_ready (DiskFailed \<in> disk_found k v (world s) ` set (sn_disks (obj s)))) cs"
proof -
  obtain r where r: "fold_act (checkDisk k pt v) (sn_disks (obj s)) [] s = (r, s)"
    "is_ok r \<longrightarrow> list_all (answered k v (world s)) (sn_disks (obj s))" using checkDisks_cases by blast
  show ?thesis
  proof (cases r)
    case (Ok es)
    let ?found = "map (disk_found k v (world s)) (sn_disks (obj s))"
    have es: "map snd es = ?found" "map (\<lambda>e. dst_Ready (fst e)) es = map (\<lambda>p. p = DiskReady) ?found"
      using checkDisks_answered [of k v s "sn_disks (obj s)" pt "[]"] r Ok by (auto simp: comp_def)
    have set: "snd ` set es = set ?found" using es(1) by (metis list.set_map)
    let ?v = "(obj s)\<lparr>sn_disks := map fst es, sn_phase := VMSnapShotReady\<rparr>"
    obtain q w where u: "sUpdateStatus k ?v (world s) = (q, w)" by fastforce
    show ?thesis
    proof (cases "DiskFailed \<notin> set ?found \<and> DiskPending \<in> set ?found")
      case True
      then have "trace (snd (awaitDisks k pt v old s)) = trace s"
        using r(1) Ok set by (simp add: awaitDisks_def Let_def bind_def getObj_def modObj_def ret_def)
      then show ?thesis by simp
    next
      case False
      then have "trace (snd (awaitDisks k pt v old s)) = trace s @ [SnapEvent ''AllDiskSnapshotsReady'', SnapStatus ?v (is_Inr q)]"
        using r(1) Ok u set by (cases q) (auto simp: awaitDisks_def Let_def finishSnapShot_def DeepEqual_struct_pointer_def
            bind_def getObj_def modObj_def ret_def throw_def snap_event_def updateSnapStatus_def updateObj_def)
      moreover have "list_all dst_Ready (map fst es)" if "DiskFailed \<notin> set ?found"
      proof -
        have "\<forall>p\<in>set ?found. p = DiskReady" using that False by (metis disk_progress.exhaust)
        then have "\<forall>b\<in>set (map (\<lambda>e. dst_Ready (fst e)) es). b" unfolding es(2) by auto
        then show ?thesis by (simp add: list_all_iff)
      qed
      ultimately show ?thesis by (intro exI [of _ "[SnapEvent ''AllDiskSnapshotsReady'', SnapStatus ?v (is_Inr q)]"]) (auto simp: honest_ready_def)
    qed
  qed (use r in \<open>auto simp: awaitDisks_def bind_def getObj_def\<close>)
qed

text \<open>C4: The life cycle of a VMSnapShot: whatever the API server, the hypervisor and the object stores
  answer, every status that a round of the controller or of the daemon writes keeps the phase it
  read or moves it along the life cycle: nothing leaves the failed or the ready phase, a snapshot is taken only after it
  was scheduled, and the ready phase is entered only after the restore spec was created. When a snapshot enters the
  ready phase, all its disks are ready in the same status, unless one of its disk snapshots has failed or was deleted; that case, where
  the comments ask for the failed phase, is the subject of \<open>disk_wait\<close>.\<close>

theorem snapshot_lifecycle:
  assumes "sGet k req (world s) = Inr snap"
  shows "(\<exists>cs. trace (snd (SnapShotController_Reconcile k x req s)) = trace s @ cs \<and> list_all (status_write (lifecycle (sn_phase snap))) cs)
    \<and> (\<exists>cs. trace (snd (SnapShotDaemon_Reconcile k x Error pt node req s)) = trace s @ cs \<and> list_all (status_write (lifecycle (sn_phase snap))) cs
        \<and> (\<forall>w b. SnapStatus w b \<in> set cs \<and> sn_phase w = VMSnapShotReady \<and> sn_phase snap \<noteq> VMSnapShotReady \<longrightarrow> list_all dst_Ready (sn_disks w)
            \<or> (\<exists>v. sGetVM k (key_in (k_ns req) (sn_VmName snap)) (world s) = Inr v \<and> (\<exists>d\<in>set (sn_disks snap). disk_found k v (world s) d = DiskFailed))))"
proof -
  let ?s = "s\<lparr>obj := snap\<rparr>"
  have load: "\<exists>cs. trace (snd (m ?s)) = trace s @ cs \<and> list_all (status_write (lifecycle (sn_phase snap))) cs"
    if "writes (sn_phase snap) (lifecycle (sn_phase snap)) m" for m :: "('a, Result) sact"
    using writesD [OF that, of ?s] by simp
  have "writes (sn_phase snap) (lifecycle (sn_phase snap))
      (case sn_phase snap of VMSnapShotScheduled \<Rightarrow> startSnapShot k v snap | VMSnapShotInProgress \<Rightarrow> takeSnapShot k x Error v snap
        | VMSnapshotCreated \<Rightarrow> specifyRestore k v snap | VMRestoreSpecCreated \<Rightarrow> awaitDisks k pt v snap
        | VMSnapshotFailed \<Rightarrow> ret no_requeue | _ \<Rightarrow> finishSnapShot k snap None)" for v
    using writes_startSnapShot writes_takeSnapShot writes_specifyRestore writes_awaitDisks
    by (cases "sn_phase snap") (auto intro: writes_finishSnapShot writes_quiet quiet_basic)
  then have "\<exists>cs. trace (snd (SnapShotDaemon_Reconcile k x Error pt node req s)) = trace s @ cs \<and> list_all (status_write (lifecycle (sn_phase snap))) cs"
    using assms unfolding SnapShotDaemon_Reconcile_def
    by (simp add: bind_def [of "kread (sGet k req)"] kread_def [of "sGet k req"] bind_def [of "modObj (\<lambda>_. snap)"] modObj_def [of "\<lambda>_. snap"])
      (intro load writes_bind quiet_basic writes_cases writes_silent; simp)
  then obtain cs where cs: "trace (snd (SnapShotDaemon_Reconcile k x Error pt node req s)) = trace s @ cs"
    "list_all (status_write (lifecycle (sn_phase snap))) cs" by blast
  have "list_all dst_Ready (sn_disks w) \<or> (\<exists>v. sGetVM k (key_in (k_ns req) (sn_VmName snap)) (world s) = Inr v
      \<and> (\<exists>d\<in>set (sn_disks snap). disk_found k v (world s) d = DiskFailed))"
    if w: "SnapStatus w b \<in> set cs" "sn_phase w = VMSnapShotReady" "sn_phase snap \<noteq> VMSnapShotReady" for w b
  proof -
    have "lifecycle (sn_phase snap) VMSnapShotReady" using cs(2) w by (auto simp: list_all_iff status_write_def)
    then have ph: "sn_phase snap = VMRestoreSpecCreated" using w(3) by (auto simp: lifecycle_def elim: snap_transition.cases)
    have "trace s @ cs \<noteq> trace s" using w(1) by auto
    then obtain v where v: "sGetVM k (key_in (k_ns req) (sn_VmName snap)) (world s) = Inr v"
      and run: "SnapShotDaemon_Reconcile k x Error pt node req s = awaitDisks k pt v snap ?s"
      using assms cs(1) ph by (auto simp: SnapShotDaemon_Reconcile_def bind_def kread_def modObj_def ret_def throw_def split: sum.splits if_splits)
    obtain ds where ds: "trace (snd (awaitDisks k pt v snap ?s)) = trace s @ ds"
      "list_all (honest_ready (DiskFailed \<in> disk_found k v (world s) ` set (sn_disks snap))) ds"
      using awaitDisks_honest [of k pt v snap ?s] by auto
    then have "cs = ds" using cs(1) run by simp
    then have "DiskFailed \<in> disk_found k v (world s) ` set (sn_disks snap) \<or> list_all dst_Ready (sn_disks w)"
      using ds(2) w by (auto simp: list_all_iff honest_ready_def)
    then show ?thesis using v by force
  qed
  then have "\<forall>w b. SnapStatus w b \<in> set cs \<and> sn_phase w = VMSnapShotReady \<and> sn_phase snap \<noteq> VMSnapShotReady \<longrightarrow> list_all dst_Ready (sn_disks w)
      \<or> (\<exists>v. sGetVM k (key_in (k_ns req) (sn_VmName snap)) (world s) = Inr v \<and> (\<exists>d\<in>set (sn_disks snap). disk_found k v (world s) d = DiskFailed))"
    by blast
  moreover have "\<exists>cs. trace (snd (SnapShotController_Reconcile k x req s)) = trace s @ cs \<and> list_all (status_write (lifecycle (sn_phase snap))) cs"
    using assms load [OF writes_controller] by (simp add: SnapShotController_Reconcile_def bind_def kread_def modObj_def)
  ultimately show ?thesis using cs by blast
qed

text \<open>The last step of a snapshot, when the API server answers: the round waits, writing nothing,
  exactly when some disk snapshot is pending and none has failed. Otherwise the snapshot is
  reported as ready -- also when a disk snapshot has failed or was deleted, although the disks listed in the
  same status are then not all ready.\<close>

theorem disk_wait:
  assumes "list_all (answered k v (world s)) (sn_disks (obj s))"
  defines "found \<equiv> map (disk_found k v (world s)) (sn_disks (obj s))"
  shows "if DiskFailed \<notin> set found \<and> DiskPending \<in> set found
    then fst (awaitDisks k pt v old s) = Ok \<lparr>Requeue = True, RequeueAfter = 5\<rparr> \<and> trace (snd (awaitDisks k pt v old s)) = trace s
    else \<exists>w b. trace (snd (awaitDisks k pt v old s)) = trace s @ [SnapEvent ''AllDiskSnapshotsReady'', SnapStatus w b]
       \<and> sn_phase w = VMSnapShotReady \<and> map dst_Ready (sn_disks w) = map (\<lambda>p. p = DiskReady) found"
proof -
  obtain es where es: "fold_act (checkDisk k pt v) (sn_disks (obj s)) [] s = (Ok es, s)" "map snd es = found"
      "map (\<lambda>e. dst_Ready (fst e)) es = map (\<lambda>p. p = DiskReady) found"
    using checkDisks_answered [OF assms(1), of pt "[]"] by (auto simp: found_def comp_def)
  have set: "snd ` set es = set found" using es(2) by (metis list.set_map)
  let ?v = "(obj s)\<lparr>sn_disks := map fst es, sn_phase := VMSnapShotReady\<rparr>"
  obtain r w where u: "sUpdateStatus k ?v (world s) = (r, w)" by fastforce
  have "trace (snd (awaitDisks k pt v old s)) = trace s @ [SnapEvent ''AllDiskSnapshotsReady'', SnapStatus ?v (is_Inr r)]"
    if "\<not> (DiskFailed \<notin> set found \<and> DiskPending \<in> set found)"
    using that es(1) u set by (cases r) (auto simp: awaitDisks_def Let_def finishSnapShot_def DeepEqual_struct_pointer_def
        bind_def getObj_def modObj_def ret_def throw_def snap_event_def updateSnapStatus_def updateObj_def)
  moreover have "map dst_Ready (sn_disks ?v) = map (\<lambda>p. p = DiskReady) found" using es(3) by (simp add: comp_def)
  moreover have "awaitDisks k pt v old s = (Ok \<lparr>Requeue = True, RequeueAfter = 5\<rparr>, s\<lparr>obj := (obj s)\<lparr>sn_disks := map fst es\<rparr>\<rparr>)"
    if "DiskFailed \<notin> set found \<and> DiskPending \<in> set found"
    using that es(1) set by (simp add: awaitDisks_def Let_def bind_def getObj_def modObj_def ret_def)
  ultimately show ?thesis by (auto intro!: exI [of _ ?v])
qed

section \<open>The VM is resumed\<close>

text \<open>Sequences of calls closed under concatenation, as a language: the rules that carry a condition on
  what a whole action emits from its parts.\<close>

locale call_language =
  fixes L :: "'c list \<Rightarrow> bool"
  assumes Nil: "L []" and append: "L xs \<Longrightarrow> L ys \<Longrightarrow> L (xs @ ys)"
begin

lemma silent: "keeps trace m \<Longrightarrow> emits L m"
  unfolding emits_def keeps_def by (auto intro!: exI [of _ "[]"] Nil)

lemma bind:
  assumes "emits L m" "\<And>x. emits L (g x)"
  shows "emits L (bind m g)"
  unfolding emits_def
proof
  fix s
  obtain r s' where m: "m s = (r, s')" by (cases "m s")
  then obtain cs where cs: "trace s' = trace s @ cs" "L cs" using emitsD [OF assms(1), of s] by auto
  show "\<exists>cs. trace (snd (Kube_Monad.bind m g s)) = trace s @ cs \<and> L cs"
  proof (cases r)
    case (Ok x)
    obtain ds where "trace (snd (g x s')) = trace s' @ ds" "L ds" using emitsD [OF assms(2), of x s'] by auto
    then show ?thesis using cs Ok m append by (intro exI [of _ "cs @ ds"]) (simp add: bind_def)
  qed (use cs m in \<open>auto simp: bind_def\<close>)
qed

lemma deferred: "emits L m \<Longrightarrow> emits L d \<Longrightarrow> emits L (deferred d m)"
  by (rule emits_mono [OF emits_deferred]) (auto intro: append)

lemma attempt: "emits L m \<Longrightarrow> emits L (attempt m)"
  unfolding emits_def attempt_def by (auto split: prod.split outcome.split) (metis snd_conv)+

lemma cases:
  "emits L m \<Longrightarrow> emits L n \<Longrightarrow> emits L (if b then m else n)"
  "emits L m' \<Longrightarrow> (\<And>x. emits L (n' x)) \<Longrightarrow> emits L (case y of None \<Rightarrow> m' | Some x \<Rightarrow> n' x)"
  "(\<And>e. emits L (l e)) \<Longrightarrow> (\<And>x. emits L (r x)) \<Longrightarrow> emits L (case z of Inl e \<Rightarrow> l e | Inr x \<Rightarrow> r x)"
  "emits L (h v) \<Longrightarrow> emits L (let x = v in h x)"
  "(\<And>a b. emits L (pr a b)) \<Longrightarrow> emits L (case ab of (a, b) \<Rightarrow> pr a b)"
  by (auto split: option.split sum.split prod.split)

lemma for_each: "(\<And>x. emits L (g x)) \<Longrightarrow> emits L (for_each xs g)"
  by (induction xs) (auto intro: bind silent keeps_basic)

lemma fold_act: "(\<And>x a. emits L (g x a)) \<Longrightarrow> emits L (fold_act g xs a)"
  by (induction xs arbitrary: a) (auto intro: bind silent keeps_basic)

lemma calls:
  assumes "traces P m" "\<And>c. P c \<Longrightarrow> L [c]"
  shows "emits L m"
proof -
  have "L cs" if "list_all P cs" for cs
    using that append [of "[_]"] by (induction cs) (auto intro: Nil assms(2))
  then show ?thesis using assms(1) unfolding traces_emits by (rule emits_mono [rotated])
qed

end

text \<open>The hypervisor behind a socket is paused by a successful pause and runs again after a successful resume. A pause is answered by
  the next resume, successful or not.\<close>

definition pause_step :: "string \<Rightarrow> snap_call \<Rightarrow> bool \<Rightarrow> bool" where
  "pause_step sock cl p = (if cl = Paused sock True then True else if cl = Resumed sock True then False else p)"

definition left_paused :: "string \<Rightarrow> snap_call list \<Rightarrow> bool" where
  "left_paused sock cs = fold (pause_step sock) cs False"

definition await_step :: "string \<Rightarrow> snap_call \<Rightarrow> bool \<Rightarrow> bool" where
  "await_step sock cl p = (if cl = Paused sock True then True else if \<exists>b. cl = Resumed sock b then False else p)"

definition awaits_resume :: "string \<Rightarrow> snap_call list \<Rightarrow> bool" where
  "awaits_resume sock cs = fold (await_step sock) cs False"

definition resumes :: "string \<Rightarrow> snap_call list \<Rightarrow> bool" where
  "resumes sock cs \<longleftrightarrow> \<not> awaits_resume sock cs \<and> (left_paused sock cs \<longrightarrow> Resumed sock False \<in> set cs)"

interpretation resume: call_language "resumes sock"
  by unfold_locales (auto simp: resumes_def left_paused_def awaits_resume_def)

lemma resumes_single: "c \<noteq> Paused sock True \<Longrightarrow> resumes sock [c]"
  by (simp add: resumes_def left_paused_def awaits_resume_def pause_step_def await_step_def)

lemma resume_leaf:
  "(\<And>r. c r \<noteq> Paused sock True) \<Longrightarrow> emits (\<lambda>cs. resumes sock cs) (kwrite f c)"
  "emits (\<lambda>cs. resumes sock cs) (updateObj u SnapUpdated)" "emits (\<lambda>cs. resumes sock cs) (updateSnapStatus k)"
  "emits (\<lambda>cs. resumes sock cs) (snap_event e)" "emits (\<lambda>cs. resumes sock cs) (ret x)" "emits (\<lambda>cs. resumes sock cs) (throw er)"
  "emits (\<lambda>cs. resumes sock cs) getObj" "emits (\<lambda>cs. resumes sock cs) (kread rd)" "emits (\<lambda>cs. resumes sock cs) (modObj h)"
  "emits (\<lambda>cs. resumes sock cs) (ok_or_throw ok)" "emits (\<lambda>cs. resumes sock cs) (archive_files env d fs)"
  "emits (\<lambda>cs. resumes sock cs) (\<lambda>s. (Ok (), s\<lparr>world := hw s, trace := trace s @ [HostCall hc]\<rparr>))"
  unfolding updateSnapStatus_def
  by (rule resume.calls [where P = "\<lambda>c. c \<noteq> Paused sock True"]; simp add: traces resumes_single)+

lemmas resume_rules = resume.bind resume.deferred resume.attempt resume.cases resume.for_each resume.fold_act resume_leaf

text \<open>Pausing is the one step that is not such a call by itself; with the deferred resume it is.\<close>

lemma resume_chSnapshot: "emits (\<lambda>cs. resumes sock cs) (chSnapshot k v dest)"
proof -
  let ?sock = "getVMDataDirPath v @ ''/vm.sock''"
  have "\<exists>cs. trace (snd (chSnapshot k v dest s)) = trace s @ cs \<and> resumes sock cs" for s
  proof (cases "hVmPause k ?sock (world s)")
    case p: (Pair r w)
    show ?thesis
    proof (cases r)
      case None
      obtain r' w' where sn: "hVmSnapshot k ?sock (''file://'' @ dest) w = (r', w')" by fastforce
      obtain r'' w'' where re: "hVmResume k ?sock w' = (r'', w'')" by fastforce
      show ?thesis using p None sn re
        by (intro exI [of _ "[Paused ?sock True, Snapshotted (''file://'' @ dest) (r' = None), Resumed ?sock (r'' = None)]"], cases r')
          (simp_all add: chSnapshot_def Let_def bind_def kwrite_def deferred_def ok_or_throw_def ret_def throw_def resumes_def left_paused_def pause_step_def awaits_resume_def await_step_def)
    next
      case (Some e)
      then show ?thesis using p by (intro exI [of _ "[Paused ?sock False]"]) (simp add: chSnapshot_def Let_def bind_def kwrite_def throw_def resumes_single)
    qed
  qed
  then show ?thesis by (simp add: emits_def)
qed

lemma resume_finishSnapShot: "emits (\<lambda>cs. resumes sock cs) (finishSnapShot k old e)"
  unfolding finishSnapShot_def by (intro resume_rules)

lemma resume_takeSnapShot: "emits (\<lambda>cs. resumes sock cs) (takeSnapShot k x Error v old)"
proof -
  have "emits (\<lambda>cs. resumes sock cs) (uploadToBucket k dest n b)" for dest n b
    unfolding uploadToBucket_def by (intro resume_rules; simp)
  then have "emits (\<lambda>cs. resumes sock cs) (memorySnapshot k Error v)"
    unfolding memorySnapshot_def setMemory_def by (intro resume_rules resume_chSnapshot)
  moreover have "emits (\<lambda>cs. resumes sock cs) (snapshotDisks k x Error v)"
    unfolding snapshotDisks_def snapshotDisk_def addDiskStatus_def by (intro resume_rules; simp)
  ultimately have "emits (\<lambda>cs. resumes sock cs) (createVMSnapShot k x Error v)"
    unfolding createVMSnapShot_def by (intro resume_rules; simp)
  then show ?thesis unfolding takeSnapShot_def updateVMStatus_running_def by (intro resume_rules resume_finishSnapShot; simp)
qed

text \<open>C13: A round of the daemon asks the hypervisor to resume a VM that it has paused, whether the snapshot, the upload or the API calls after it
  succeed or fail: every successful pause is followed by a resume of the same VM in the same round. The VM is left paused only if
  the hypervisor refused that; the code does not look at the answer.\<close>

theorem snapshot_resumes_vm:
  "\<exists>cs. trace (snd (SnapShotDaemon_Reconcile k x Error pt node req s)) = trace s @ cs
    \<and> \<not> awaits_resume sock cs \<and> (left_paused sock cs \<longrightarrow> Resumed sock False \<in> set cs)"
proof -
  have "emits (\<lambda>cs. resumes sock cs) (startSnapShot k v old)" "emits (\<lambda>cs. resumes sock cs) (specifyRestore k v old)"
    "emits (\<lambda>cs. resumes sock cs) (awaitDisks k pt v old)" for v old
    unfolding startSnapShot_def specifyRestore_def awaitDisks_def createRestoreSpec_def checkDisk_def
    by (intro resume_rules resume_finishSnapShot; simp)+
  then have "emits (\<lambda>cs. resumes sock cs) (case ph of VMSnapShotScheduled \<Rightarrow> startSnapShot k v snap
      | VMSnapShotInProgress \<Rightarrow> takeSnapShot k x Error v snap | VMSnapshotCreated \<Rightarrow> specifyRestore k v snap
      | VMRestoreSpecCreated \<Rightarrow> awaitDisks k pt v snap | VMSnapshotFailed \<Rightarrow> ret no_requeue | _ \<Rightarrow> finishSnapShot k snap None)" for ph v snap
    by (cases ph) (simp_all add: resume_takeSnapShot resume_finishSnapShot resume_leaf)
  then have "emits (\<lambda>cs. resumes sock cs) (SnapShotDaemon_Reconcile k x Error pt node req)"
    unfolding SnapShotDaemon_Reconcile_def by (intro resume_rules)
  then show ?thesis using emitsD [of "resumes sock"] unfolding resumes_def by blast
qed

section \<open>Releasing a snapshot\<close>

definition disk_gone :: "snap_call \<Rightarrow> key option" where
  "disk_gone cl = (case cl of DiskSnapshotDeleted key r \<Rightarrow> if hard_error r then None else Some key | _ \<Rightarrow> None)"

lemma disk_gone_simps [simp]: "disk_gone (DiskSnapshotDeleted key r) = (if hard_error r then None else Some key)"
  "disk_gone (SnapEvent e) = None" "disk_gone (ObjectDeleted b o' ok) = None" "disk_gone (SnapUpdated u ok) = None"
  by (simp_all add: disk_gone_def)

lemma walks_deleteDiskSnapshot: "walks disk_gone [key_in (m_namespace (sn_meta snap)) (dst_Name d)] (deleteDiskSnapshot k snap d)"
proof -
  let ?key = "key_in (m_namespace (sn_meta snap)) (dst_Name d)"
  let ?m = "deleteDiskSnapshot k snap d"
  have "\<exists>cs. trace (snd (?m s)) = trace s @ cs \<and> prefix (List.map_filter disk_gone cs) [?key]
      \<and> (is_ok (fst (?m s)) \<longrightarrow> List.map_filter disk_gone cs = [?key])" for s
  proof (cases "sDeleteDiskSnapshot k ?key (world s)")
    case (Pair r w)
    define e where "e = (if hard_error r then ''VirtualDiskSnapshotDeleteFailed'' else ''VirtualDiskSnapshotDeleted'')"
    show ?thesis using Pair
      by (intro exI [of _ "[DiskSnapshotDeleted ?key r, SnapEvent e]"])
        (auto simp: deleteDiskSnapshot_def Let_def bind_def kwrite_def snap_event_def throw_def hard_error_def List.map_filter_def e_def split: option.splits)
  qed
  then show ?thesis unfolding walks_def by blast
qed

lemma keeps_deleteSnapshot: "keeps obj (deleteSnapshot k snap)"
  unfolding deleteSnapshot_def deleteMemorySnapshot_def deleteDiskSnapshot_def by (intro keeps)

text \<open>What the code has learnt of the memory snapshot when its deletion returned no error: in a GCS bucket the object is deleted or was not
  there; for S3 only that a client could be made, since the answer to the request is dropped.\<close>

definition memory_released :: "'w snap_env \<Rightarrow> vmsnapshot \<Rightarrow> 'w \<Rightarrow> bool" where
  "memory_released k snap w \<longleftrightarrow> sn_SkipMemorySnapshot snap
    \<or> (if HasPrefix (sn_Bucket snap) ''s3'' then LoadDefaultConfig (sdk k) w = None
       else GCS_NewClient (sdk k) w = None
         \<and> fst (GCS_Delete (sdk k) (TrimPrefix (sn_Bucket snap) ''gcs://'') (mst_ObjectKey (sn_memory snap)) w) \<in> {None, Some ObjectMissing})"

lemma DeleteObjectFromGCS_none:
  "fst (DeleteObjectFromGCS c b ob w) = None \<longleftrightarrow> GCS_NewClient c w = None \<and> fst (GCS_Delete c b ob w) \<in> {None, Some ObjectMissing}"
  by (auto simp: DeleteObjectFromGCS_def split: option.splits prod.splits store_error.splits)

lemma DeleteObjectFromS3_none: "fst (DeleteObjectFromS3 c b ob w) = None \<longleftrightarrow> LoadDefaultConfig c w = None"
  by (auto simp: DeleteObjectFromS3_def split: option.splits)

lemma event_after_write:
  "is_ok (fst (bind (kwrite f c) (\<lambda>r. case r of None \<Rightarrow> snap_event a | Some e \<Rightarrow> bind (snap_event b) (\<lambda>_. throw e)) s)) \<longleftrightarrow> fst (f (world s)) = None"
  by (cases "f (world s)"; cases "fst (f (world s))") (auto simp: bind_def kwrite_def snap_event_def throw_def)

lemma deleteMemorySnapshot_released: "is_ok (fst (deleteMemorySnapshot k snap s)) \<longleftrightarrow> memory_released k snap (world s)"
  by (simp add: deleteMemorySnapshot_def memory_released_def ret_def Let_def DeleteObjectFromGCS_none DeleteObjectFromS3_none event_after_write)

lemma deleteSnapshot_released: "is_ok (fst (deleteSnapshot k snap s)) \<Longrightarrow> memory_released k snap (world s)"
  using deleteMemorySnapshot_released [of k snap s]
  by (cases "deleteMemorySnapshot k snap s"; cases "fst (deleteMemorySnapshot k snap s)") (auto simp: deleteSnapshot_def bind_def)

text \<open>C26: Releasing a snapshot under deletion: the finalizer is removed by the last call of the round, exactly when
  no deletion reported an error. Then every disk snapshot of the status was deleted or
  had already gone, in the order of the status; and a memory snapshot in a GCS bucket was deleted or had gone. Of one in an S3 bucket only the
  request is known to have been prepared: the code drops the answer.\<close>

theorem snapshot_release:
  assumes "obj s = snap"
  shows "\<exists>cs us. trace (snd (releaseSnapShot k x s)) = trace s @ cs @ us
     \<and> list_all (\<lambda>cl. \<forall>u b. cl \<noteq> SnapUpdated u b) cs
     \<and> (if is_ok (fst (deleteSnapshot k snap s)) then memory_released k snap (world s)
          \<and> List.map_filter disk_gone cs = map (\<lambda>d. key_in (m_namespace (sn_meta snap)) (dst_Name d)) (sn_disks snap)
          \<and> (\<exists>b. us = [SnapUpdated (snap\<lparr>sn_meta := RemoveFinalizer x (sn_meta snap) SnapShotFinalizer\<rparr>) b])
        else us = [])"
proof -
  let ?keys = "map (\<lambda>d. key_in (m_namespace (sn_meta snap)) (dst_Name d)) (sn_disks snap)"
  have mem: "traces P (deleteMemorySnapshot k snap)" if "\<And>b o' ok. P (ObjectDeleted b o' ok)" "\<And>e. P (SnapEvent e)" for P
    unfolding deleteMemorySnapshot_def by (intro traces that)
  have "walks disk_gone ?keys (deleteSnapshot k snap)" unfolding deleteSnapshot_def
    using walks_for_each [where xs = "sn_disks snap", OF walks_deleteDiskSnapshot] mem
    by (intro walks_bind_silent walks_other) simp_all
  moreover have "traces (\<lambda>cl. \<forall>u b. cl \<noteq> SnapUpdated u b) (deleteSnapshot k snap)"
    unfolding deleteSnapshot_def deleteDiskSnapshot_def by (intro traces mem; simp)
  ultimately have "emits (\<lambda>cs. list_all (\<lambda>cl. \<forall>u b. cl \<noteq> SnapUpdated u b) cs) (deleteSnapshot k snap)"
    by (simp add: traces_emits)
  obtain r s' where d: "deleteSnapshot k snap s = (r, s')" by fastforce
  obtain cs where cs: "trace s' = trace s @ cs" "is_ok r \<longrightarrow> List.map_filter disk_gone cs = ?keys"
    using walksD [OF \<open>walks disk_gone ?keys _\<close>, of s] d by auto
  have "list_all (\<lambda>cl. \<forall>u b. cl \<noteq> SnapUpdated u b) cs"
    using emitsD [OF \<open>emits _ _\<close>, of s] d cs(1) by auto
  moreover have "obj s' = snap"
    using d assms keepsD [OF keeps_deleteSnapshot, of k snap s] by simp
  ultimately show ?thesis
  proof (cases r)
    case (Ok u)
    let ?v = "snap\<lparr>sn_meta := RemoveFinalizer x (sn_meta snap) SnapShotFinalizer\<rparr>"
    obtain r' w where "sUpdate k ?v (world s') = (r', w)" by fastforce
    then have "trace (snd (releaseSnapShot k x s)) = trace s @ cs @ [SnapUpdated ?v (is_Inr r')]"
      using Ok d assms cs(1) \<open>obj s' = snap\<close>
      by (cases r') (simp_all add: releaseSnapShot_def bind_def getObj_def attempt_def modObj_def updateObj_def ret_def throw_def)
    then show ?thesis using Ok d cs(2) deleteSnapshot_released [of k snap s] \<open>list_all _ cs\<close> by (intro exI [of _ cs] exI [of _ "[SnapUpdated ?v (is_Inr r')]"]) simp
  qed (use d assms cs(1) in \<open>auto simp: releaseSnapShot_def bind_def getObj_def attempt_def ret_def intro!: exI [of _ cs]\<close>)
qed

section \<open>Concrete rounds\<close>

definition quiet_store :: "unit cloud_sdk" where
  "quiet_store = \<lparr>LoadDefaultConfig = (\<lambda>_. None), S3_DeleteObject = (\<lambda>_ _ w. (None, w)), S3_Upload = (\<lambda>_ _ _ w. (None, w)),
     S3_Download = (\<lambda>_ _ _ w. (None, w)), GCS_NewClient = (\<lambda>_. None), GCS_Write = (\<lambda>_ _ _ w. (None, w)), GCS_Close = (\<lambda>_ _ w. (None, w)),
     GCS_Delete = (\<lambda>_ _ w. (None, w)), GCS_NewReader = (\<lambda>_ _ _. Inr []), os_Open = (\<lambda>_ _. Inr []), os_ReadFault = (\<lambda>_ _ _. None),
     os_Create = (\<lambda>_ w. (None, w)), os_WriteAll = (\<lambda>_ _ w. (None, w))\<rparr>"

definition plain_archive :: "unit archive_env" where
  "plain_archive = \<lparr>aCreate = (\<lambda>_ w. (None, w)), aOpen = (\<lambda>_ _. Inr []), aStat = (\<lambda>_ _. None), aHeader = (\<lambda>_ _. Inr []),
     aEncoder = (\<lambda>_. True), aEncode = (\<lambda>_ _ w. (None, w)), aMkdirAll = (\<lambda>_ w. (None, w)), aDecoder = (\<lambda>_ _. True),
     aEntries = (\<lambda>_. ([], None)), aCopy = (\<lambda>_ _ w. (None, w))\<rparr>"

definition calm_env :: "vmsnapshot \<Rightarrow> vm \<Rightarrow> unit snap_env" where
  "calm_env snap v = \<lparr>sGet = (\<lambda>_ _. Inr snap), sGetVM = (\<lambda>_ _. Inr v), sGetDiskSnapshot = (\<lambda>_ _. Inl NotFound),
     sUpdate = (\<lambda>u w. (Inr u, w)), sUpdateStatus = (\<lambda>u w. (Inr u, w)), sUpdateVMStatus = (\<lambda>u w. (Inr u, w)),
     sCreateDiskSnapshot = (\<lambda>_ w. (None, w)), sDeleteDiskSnapshot = (\<lambda>_ w. (None, w)), sCreateRestoreSpec = (\<lambda>_ w. (None, w)),
     hMissing = (\<lambda>_ _. True), hMkdirAll = (\<lambda>_ w. (None, w)), hRemoveAll = (\<lambda>_ w. w), hReadDir = (\<lambda>_ _. Inr []),
     hVmPause = (\<lambda>_ w. (None, w)), hVmResume = (\<lambda>_ w. (None, w)),
     hVmSnapshot = (\<lambda>_ _ w. (None, w)), sdk = quiet_store, arch = plain_archive\<rparr>"

definition sample_snapshot :: vmsnapshot where
  "sample_snapshot = \<lparr>sn_meta = empty_meta\<lparr>m_name := ''s''\<rparr>, sn_VmName = ''v'', sn_Bucket = ''s3://b'', sn_SkipMemorySnapshot = True,
     sn_phase = VMRestoreSpecCreated, sn_memory = \<lparr>mst_Bucket = [], mst_ObjectKey = [], mst_Ready = False, mst_Message = [], mst_Reason = []\<rparr>,
     sn_disks = [\<lparr>dst_Name = ''root-s-vds'', dst_SnapshotName = [], dst_Ready = False, dst_Message = [], dst_Reason = []\<rparr>]\<rparr>"

abbreviation sample_vm :: vm where "sample_vm \<equiv> plain_vm ''v'' VirtualMachineRunning"

abbreviation sample_state :: "(unit, vmsnapshot, snap_call) rst" where
  "sample_state \<equiv> \<lparr>world = (), obj = sample_snapshot, trace = []\<rparr>"

theorem snapshot_lifecycle_witness:
  "\<exists>cs. trace (snd (SnapShotController_Reconcile (calm_env sample_snapshot sample_vm) library (key_in [] ''s'') sample_state)) = [] @ cs
     \<and> list_all (status_write (lifecycle (sn_phase sample_snapshot))) cs"
proof -
  have "sGet (calm_env sample_snapshot sample_vm) (key_in [] ''s'') (world sample_state) = Inr sample_snapshot" by (simp add: calm_env_def)
  then show ?thesis using snapshot_lifecycle [of "calm_env sample_snapshot sample_vm" "key_in [] ''s''" sample_state sample_snapshot library] by simp
qed

text \<open>A round in which both the snapshot and the resume are refused: the VM is left paused, after a resume was asked for.\<close>

abbreviation refused_snapshot :: vmsnapshot where
  "refused_snapshot \<equiv> sample_snapshot\<lparr>sn_phase := VMSnapShotInProgress, sn_SkipMemorySnapshot := False\<rparr>"

abbreviation placed_vm :: vm where
  "placed_vm \<equiv> sample_vm\<lparr>vm_status := (vm_status sample_vm)\<lparr>st_Phase := VirtualMachineSnapshotInprogress, st_NodeName := ''n''\<rparr>\<rparr>"

abbreviation refusing_env :: "unit snap_env" where
  "refusing_env \<equiv> (calm_env refused_snapshot placed_vm)
     \<lparr>hVmResume := \<lambda>_ w. (Some (ErrNew ''refused''), w), hVmSnapshot := \<lambda>_ _ w. (Some (ErrNew ''refused''), w)\<rparr>"

theorem snapshot_resumes_vm_witness:
  "\<exists>cs. trace (snd (SnapShotDaemon_Reconcile refusing_env library (\<lambda>_. []) (\<lambda>_. []) ''n'' (key_in [] ''s'') sample_state)) = [] @ cs
     \<and> left_paused (getVMDataDirPath placed_vm @ ''/vm.sock'') cs \<and> Resumed (getVMDataDirPath placed_vm @ ''/vm.sock'') False \<in> set cs"
proof -
  let ?sock = "getVMDataDirPath placed_vm @ ''/vm.sock''"
  have "left_paused ?sock (trace (snd (SnapShotDaemon_Reconcile refusing_env library (\<lambda>_. []) (\<lambda>_. []) ''n'' (key_in [] ''s'') sample_state)))"
    by (simp add: SnapShotDaemon_Reconcile_def takeSnapShot_def createVMSnapShot_def memorySnapshot_def chSnapshot_def updateVMStatus_running_def
        finishSnapShot_def deferred_def attempt_def bind_def kread_def kwrite_def ret_def throw_def modObj_def getObj_def ok_or_throw_def snap_event_def
        setMemory_def updateSnapStatus_def DeepEqual_struct_pointer_def updateObj_def responsible_def calm_env_def sample_snapshot_def Let_def
        left_paused_def pause_step_def)
  then show ?thesis
    using snapshot_resumes_vm [of refusing_env library "\<lambda>_. []" "\<lambda>_. []" "''n''" "key_in [] ''s''" sample_state ?sock] by auto
qed

theorem disk_wait_witness:
  "\<exists>w b. trace (snd (awaitDisks (calm_env sample_snapshot sample_vm) (\<lambda>_. []) sample_vm sample_snapshot sample_state))
       = [SnapEvent ''AllDiskSnapshotsReady'', SnapStatus w b]
     \<and> sn_phase w = VMSnapShotReady \<and> map dst_Ready (sn_disks w) = [False]"
proof -
  have "list_all (answered (calm_env sample_snapshot sample_vm) sample_vm (world sample_state)) (sn_disks (obj sample_state))"
    by (simp add: sample_snapshot_def answered_def calm_env_def)
  moreover have "map (disk_found (calm_env sample_snapshot sample_vm) sample_vm (world sample_state)) (sn_disks (obj sample_state)) = [DiskFailed]"
    by (simp add: sample_snapshot_def disk_found_def calm_env_def)
  ultimately show ?thesis
    using disk_wait [of "calm_env sample_snapshot sample_vm" sample_vm sample_state "\<lambda>_. []" sample_snapshot] by simp
qed

theorem snapshot_release_witness:
  "\<exists>cs us. trace (snd (releaseSnapShot (calm_env sample_snapshot sample_vm) library sample_state)) = [] @ cs @ us
     \<and> List.map_filter disk_gone cs = [key_in [] ''root-s-vds'']
     \<and> (\<exists>b. us = [SnapUpdated (sample_snapshot\<lparr>sn_meta := RemoveFinalizer library (sn_meta sample_snapshot) SnapShotFinalizer\<rparr>) b])"
proof -
  have "is_ok (fst (deleteSnapshot (calm_env sample_snapshot sample_vm) sample_snapshot sample_state))"
    by (simp add: deleteSnapshot_def deleteMemorySnapshot_def deleteDiskSnapshot_def sample_snapshot_def calm_env_def bind_def ret_def kwrite_def
        snap_event_def Let_def)
  then show ?thesis
    using snapshot_release [of sample_state sample_snapshot "calm_env sample_snapshot sample_vm" library]
    by (auto simp: sample_snapshot_def empty_meta_def)
qed

end
