(* ===== verification/Replica_Control.thy ===== *)
theory Replica_Control
  imports Owned_Objects "HOL-Library.Word"
begin

text \<open>
  What \<open>src/internal/controller/vmset_controller.go\<close> and \<open>vmpool_controller.go\<close> have in common: VMs and
  their disks made from templates, the references from a VM's volumes to its disks, and the scaling
  round as a locale. Replica counts are \<open>int32\<close> in the source, here \<open>32 word\<close> with signed comparison.
\<close>

section \<open>Disk references\<close>

record replica_status =
  rs_Replicas :: "32 word"
  rs_ReadyReplicas :: "32 word"
  rs_AvailableReplicas :: "32 word"

definition point_at :: "string \<Rightarrow> string \<Rightarrow> volume \<Rightarrow> volume" where
  "point_at tmpl name vol = (case v_VirtualDisk vol of None \<Rightarrow> vol
     | Some d \<Rightarrow> if pvc_claim d = tmpl then vol\<lparr>v_VirtualDisk := Some (d\<lparr>pvc_claim := name\<rparr>)\<rparr> else vol)"

text \<open>The loop over the disk templates; a reference is compared with the template's name after the
  renamings by earlier templates.\<close>

definition inject_references :: "(disk_template \<Rightarrow> string) \<Rightarrow> disk_template list \<Rightarrow> volume list \<Rightarrow> volume list" where
  "inject_references name_of templates vols =
    fold (\<lambda>t. map (point_at (dt_name t) (name_of t))) templates vols"

definition disk_of :: "meta \<Rightarrow> string \<Rightarrow> (string, string) gomap \<Rightarrow> disk_template \<Rightarrow> virtual_disk" where
  "disk_of ow name labels t = \<lparr>vdk_meta = empty_meta\<lparr>m_name := name, m_namespace := m_namespace ow, m_labels := labels,
       m_annotations := dt_annotations t\<rparr>, vdk_spec = dt_spec t, vdk_phase = DiskPhaseEmpty, vdk_conditions = []\<rparr>"

definition empty_vm_status :: vm_status where
  "empty_vm_status = \<lparr>st_Phase = PhaseEmpty, st_VMPodName = [], st_VMPodUID = [], st_NodeName = [],
     st_PowerAction = PowerNone, st_Conditions = [], st_Migration = None, st_VolumeStatus = []\<rparr>"

lemma inject_references_nth:
  "inject_references name_of ts vols = map (\<lambda>vol. fold (\<lambda>t. point_at (dt_name t) (name_of t)) ts vol) vols"
proof (induction ts arbitrary: vols)
  case (Cons t ts)
  then show ?case by (simp add: inject_references_def)
qed (simp add: inject_references_def)

lemma point_at_other: "pred_option (\<lambda>d. pvc_claim d \<noteq> tmpl) (v_VirtualDisk vol) \<Longrightarrow> point_at tmpl name vol = vol"
  by (cases "v_VirtualDisk vol") (simp_all add: point_at_def)

lemma fold_point_at_other:
  "pred_option (\<lambda>d. pvc_claim d \<notin> dt_name ` set ts) (v_VirtualDisk vol) \<Longrightarrow>
   fold (\<lambda>t. point_at (dt_name t) (name_of t)) ts vol = vol"
proof (induction ts)
  case (Cons t ts)
  then have "point_at (dt_name t) (name_of t) vol = vol"
    by (intro point_at_other) (cases "v_VirtualDisk vol", simp_all)
  then show ?case using Cons by (cases "v_VirtualDisk vol") simp_all
qed simp

text \<open>A reference to a template becomes a reference to that template's disk, whatever the other
  templates are, provided no disk's name is itself the name of a template.\<close>

lemma reference_to_template:
  assumes "v_VirtualDisk vol = Some d" "t \<in> set ts" "pvc_claim d = dt_name t" "distinct (map dt_name ts)"
    and "name_of t \<notin> dt_name ` set ts"
  shows "fold (\<lambda>t. point_at (dt_name t) (name_of t)) ts vol = vol\<lparr>v_VirtualDisk := Some (d\<lparr>pvc_claim := name_of t\<rparr>)\<rparr>"
  using assms
proof (induction ts)
  case (Cons u us)
  show ?case
  proof (cases "u = t")
    case True
    then have "point_at (dt_name u) (name_of u) vol = vol\<lparr>v_VirtualDisk := Some (d\<lparr>pvc_claim := name_of t\<rparr>)\<rparr>"
      using Cons.prems by (simp add: point_at_def)
    then show ?thesis using Cons.prems by (simp add: fold_point_at_other)
  next
    case False
    then have "point_at (dt_name u) (name_of u) vol = vol"
      using Cons.prems by (intro point_at_other) (auto simp: rev_image_eqI)
    then show ?thesis using Cons False by auto
  qed
qed simp

section \<open>Scaling\<close>

definition len32 :: "'a list \<Rightarrow> 32 word" where
  "len32 xs = word_of_nat (length xs)"

lemma sint_len32: "length xs < 2 ^ 31 \<Longrightarrow> sint (len32 xs) = int (length xs)"
  by (simp add: len32_def sint_uint unsigned_of_nat take_bit_nat_eq_self signed_take_bit_int_eq_self take_bit_int_eq_self)

lemma sint_surplus:
  assumes "0 \<le> sint d" "sint d < int (length xs)" "length xs < 2 ^ 31"
  shows "sint (len32 xs - d) = int (length xs) - sint d"
  using assms by (simp add: sint_word_ariths sint_len32 signed_take_bit_int_eq_self)

lemma surplus_nth:
  assumes "k \<le> length xs"
  shows "map (\<lambda>i. xs ! (length xs - 1 - i)) [0..<k] = take k (rev xs)"
  using assms by (intro nth_equalityI) (simp_all add: rev_nth)

text \<open>The VMs created and deleted by a list of calls.\<close>

fun vm_created :: "'o ocall \<Rightarrow> vm option" where
  "vm_created (Created (ChildVM v) r) = Some v"
| "vm_created _ = None"

fun vm_deleted :: "'o ocall \<Rightarrow> key option" where
  "vm_deleted (Deleted KindVM key r) = Some key"
| "vm_deleted _ = None"

fun disk_deleted :: "'o ocall \<Rightarrow> key option" where
  "disk_deleted (Deleted KindVirtualDisk key r) = Some key"
| "disk_deleted _ = None"

fun creation_call :: "'o ocall \<Rightarrow> bool" where
  "creation_call (Created ch r) = True"
| "creation_call _ = False"

text \<open>At most one VM is created, as the last call, and nothing is deleted.\<close>

definition grows :: "'o ocall list \<Rightarrow> bool" where
  "grows cs \<longleftrightarrow> list_all creation_call cs \<and> length (List.map_filter vm_created cs) \<le> 1"

lemma grows_creations: "list_all creation_call cs \<Longrightarrow> List.map_filter vm_created cs = [] \<Longrightarrow> grows (cs @ [Created ch r])"
  by (cases ch) (simp_all add: grows_def List.map_filter_def)

lemma emits_bind:
  assumes "emits A m" "\<And>x. emits B (g x)" "\<And>cs. A cs \<Longrightarrow> C cs" "\<And>cs ds. A cs \<Longrightarrow> B ds \<Longrightarrow> C (cs @ ds)"
  shows "emits C (bind m g)"
  unfolding emits_def
proof
  fix s
  obtain r s' where m: "m s = (r, s')" by (cases "m s")
  obtain cs where cs: "trace s' = trace s @ cs" "A cs" using emitsD [OF assms(1), of s] m by auto
  show "\<exists>cs. trace (snd (bind m g s)) = trace s @ cs \<and> C cs"
  proof (cases r)
    case (Ok x)
    obtain ds where "trace (snd (g x s')) = trace s' @ ds" "B ds" using emitsD [OF assms(2)] by blast
    then show ?thesis using cs Ok m assms(4) by (auto simp: bind_def intro!: exI [of _ "cs @ ds"])
  qed (use cs m assms(3) in \<open>auto simp: bind_def\<close>)
qed

text \<open>Creating children that are no VMs, then one VM.\<close>

definition disk_creation :: "'o ocall \<Rightarrow> bool" where
  "disk_creation cl \<longleftrightarrow> (case cl of Created (ChildDisk _) _ \<Rightarrow> True | _ \<Rightarrow> False)"

lemma disk_creation_Created [simp]: "disk_creation (Created (ChildDisk d) r)"
  by (simp add: disk_creation_def)

lemma disk_creations_grow: "list_all disk_creation cs \<Longrightarrow> list_all creation_call cs \<and> List.map_filter vm_created cs = []"
  by (induction cs) (auto simp: disk_creation_def List.map_filter_def split: ocall.splits child.splits)

lemma grows_bind:
  assumes "traces disk_creation m" "\<And>x. emits grows (g x)"
  shows "emits grows (bind m g)"
  using assms(1) [unfolded traces_emits] assms(2)
  by (rule emits_bind) (auto dest!: disk_creations_grow simp: grows_def)

lemma grows_disks: "traces disk_creation m \<Longrightarrow> emits grows m"
  unfolding traces_emits by (erule emits_mono) (auto dest!: disk_creations_grow simp: grows_def)

lemma emits_create_missing: "emits (\<lambda>cs. \<exists>r. cs = [Created ch r]) (create_missing c wr ch)"
proof -
  have "\<exists>cs. trace (snd (create_missing c wr ch s)) = trace s @ cs \<and> (\<exists>r. cs = [Created ch r])" for s
  proof (cases "cCreate c ch (world s)")
    case (Pair r w)
    then show ?thesis by (intro exI [of _ "[Created ch r]"], cases r)
      (simp_all add: create_missing_def create_def bind_def kwrite_def ret_def throw_def)
  qed
  then show ?thesis unfolding emits_def by blast
qed

lemma grows_create_missing: "emits grows (bind (create_missing c wr ch) (\<lambda>_. ret y))"
proof (rule emits_bind [OF emits_create_missing])
  show "emits (\<lambda>cs. cs = []) (ret y)" by (simp add: emits_def ret_def)
qed (auto intro: grows_creations [of "[]", simplified])

abbreviation vm_key :: "vm \<Rightarrow> key" where "vm_key v \<equiv> meta_key (vm_meta v)"

text \<open>The highest \<open>n\<close> of a list of VMs, last first.\<close>

definition surplus :: "nat \<Rightarrow> vm list \<Rightarrow> vm list" where
  "surplus n vms = take n (rev vms)"

text \<open>The deletion loop of both controllers, over the indices from the end of the list.\<close>

lemma walks_countdown:
  assumes "0 \<le> sint d" "sint d < int (length vms)" "length vms < 2 ^ 31"
    and "\<And>i. i < length vms \<Longrightarrow> walks h [f (vms ! (length vms - 1 - i))] (g i)"
  shows "walks h (map f (surplus (length vms - nat (sint d)) vms)) (for_each [0..<nat (sint (len32 vms - d))] g)"
proof -
  let ?k = "length vms - nat (sint d)"
  have k: "nat (sint (len32 vms - d)) = ?k" using sint_surplus [OF assms(1-3)] assms(1,2) by linarith
  have "surplus ?k vms = map (\<lambda>i. vms ! (length vms - 1 - i)) [0..<?k]"
    unfolding surplus_def by (rule surplus_nth [symmetric]) simp
  then have "map f (surplus ?k vms) = concat (map (\<lambda>i. [f (vms ! (length vms - 1 - i))]) [0..<?k])"
    by (simp add: comp_def concat_map_singleton)
  moreover have "walks h (concat (map (\<lambda>i. [f (vms ! (length vms - 1 - i))]) [0..<?k])) (for_each [0..<?k] g)"
    by (rule walks_for_each, rule assms(4)) auto
  ultimately show ?thesis by (simp only: k)
qed

lemma walks_countdown_all:
  assumes "\<And>i. i < length vms \<Longrightarrow> walks h [f (vms ! (length vms - 1 - i))] (g i)"
  shows "walks h (map f (rev vms)) (for_each [0..<length vms] g)"
proof -
  have "rev vms = map (\<lambda>i. vms ! (length vms - 1 - i)) [0..<length vms]"
    using surplus_nth [of "length vms" vms] by simp
  then have "map f (rev vms) = concat (map (\<lambda>i. [f (vms ! (length vms - 1 - i))]) [0..<length vms])"
    by (simp add: comp_def concat_map_singleton)
  moreover have "walks h (concat (map (\<lambda>i. [f (vms ! (length vms - 1 - i))]) [0..<length vms])) (for_each [0..<length vms] g)"
    by (rule walks_for_each, rule assms) simp
  ultimately show ?thesis by simp
qed

lemma succeeds_for_each: "(\<And>x. x \<in> set xs \<Longrightarrow> succeeds (g x)) \<Longrightarrow> succeeds (for_each xs g)"
  by (induction xs) (simp_all add: succeeds_ret succeeds_bind)

lemma succeeds_delete_existing:
  assumes "\<And>kd key w. \<not> hard_error (fst (cDelete c kd key w))"
  shows "succeeds (delete_existing c wr kd key)"
proof -
  have "\<exists>x t. delete_existing c wr kd key s = (Ok x, t)" for s
  proof (cases "cDelete c kd key (world s)")
    case (Pair r w)
    then show ?thesis using assms [of kd key "world s"]
      by (cases r) (simp_all add: delete_existing_def delete_def bind_def kwrite_def ret_def hard_error_def)
  qed
  then show ?thesis by (simp add: succeeds_def)
qed

lemma for_each_append: "for_each (xs @ ys) f = bind (for_each xs f) (\<lambda>_. for_each ys f)"
  by (induction xs) (simp_all add: bind_assoc)

locale replica_controller = finalizer_controller where Reconcile = Reconcile
  for Reconcile :: "('w, 'o) client \<Rightarrow> ext \<Rightarrow> key \<Rightarrow> ('w, 'o, Result) oact" +
  fixes getCurrentVMs :: "('w, 'o) client \<Rightarrow> ('w, 'o, vm list) oact"
    and arrange :: "vm list \<Rightarrow> vm list"
    and desired :: "'o \<Rightarrow> 32 word"
    and scaleUp scaleDown :: "('w, 'o) client \<Rightarrow> ext \<Rightarrow> vm list \<Rightarrow> 32 word \<Rightarrow> ('w, 'o, Result) oact"
    and updateStatus :: "('w, 'o) client \<Rightarrow> vm list \<Rightarrow> ('w, 'o, Result) oact"
    and replicas :: "'o \<Rightarrow> 32 word"
  assumes live_round: "reconcileObj c x = bind (getCurrentVMs c) (\<lambda>vms. bind getObj (\<lambda>v.
      if len32 (arrange vms) <s desired v then scaleUp c x (arrange vms) (desired v)
      else if desired v <s len32 (arrange vms) then scaleDown c x (arrange vms) (desired v)
      else updateStatus c (arrange vms)))"
    and reads: "keeps (\<lambda>s. s) (getCurrentVMs c)"
    and grows: "emits grows (scaleUp c x vms d)"
    and shrinks: "0 \<le> sint d \<Longrightarrow> sint d < int (length vms) \<Longrightarrow> length vms < 2 ^ 31 \<Longrightarrow>
      walks vm_deleted (map vm_key (surplus (length vms - nat (sint d)) vms)) (scaleDown c x vms d)"
    and shrink_calls: "traces cleanup_call (scaleDown c x vms d)"
    and counts: "\<exists>v b. trace (snd (updateStatus c vms s)) = trace s @ [StatusUpdated v b] \<and> replicas v = len32 vms"
    and length_arrange: "length (arrange vms) = length vms"
begin

text \<open>One live round makes at most one VM more, or deletes exactly the surplus from the end of the list,
  or writes the status with the number of VMs it found.\<close>

lemma scaling_step:
  assumes "getCurrentVMs c s = (Ok vms, s')" and d: "0 \<le> sint (desired (obj s))" and small: "length vms < 2 ^ 31"
  shows "\<exists>cs. trace (snd (reconcileObj c x s)) = trace s @ cs \<and>
    (if int (length vms) < sint (desired (obj s)) then grows cs
     else if sint (desired (obj s)) < int (length vms) then list_all cleanup_call cs
       \<and> prefix (List.map_filter vm_deleted cs) (map vm_key (surplus (length vms - nat (sint (desired (obj s)))) (arrange vms)))
       \<and> (is_ok (fst (reconcileObj c x s)) \<longrightarrow> List.map_filter vm_deleted cs =
            map vm_key (surplus (length vms - nat (sint (desired (obj s)))) (arrange vms)))
     else \<exists>v b. cs = [StatusUpdated v b] \<and> replicas v = word_of_nat (length vms))"
proof -
  let ?d = "desired (obj s)" and ?vms = "arrange vms"
  have vms: "getCurrentVMs c s = (Ok vms, s)" using assms(1) keepsD [OF reads, of c s] by simp
  have n: "sint (len32 ?vms) = int (length vms)" using small by (simp add: sint_len32 length_arrange)
  have go: "reconcileObj c x s = (if int (length vms) < sint ?d then scaleUp c x ?vms ?d
      else if sint ?d < int (length vms) then scaleDown c x ?vms ?d else updateStatus c ?vms) s"
    using vms by (simp add: live_round bind_def getObj_def word_sless_alt n)
  consider (up) "int (length vms) < sint ?d" | (down) "sint ?d < int (length vms)" | (eq) "sint ?d = int (length vms)" by linarith
  then show ?thesis
  proof cases
    case up
    then show ?thesis using go emitsD [OF grows, of c x ?vms ?d s] by simp
  next
    case down
    obtain cs where "trace (snd (scaleDown c x ?vms ?d s)) = trace s @ cs" "list_all cleanup_call cs"
      using tracesD [OF shrink_calls] by blast
    moreover obtain ds where "trace (snd (scaleDown c x ?vms ?d s)) = trace s @ ds"
      "prefix (List.map_filter vm_deleted ds) (map vm_key (surplus (length vms - nat (sint ?d)) ?vms))"
      "is_ok (fst (scaleDown c x ?vms ?d s)) \<longrightarrow> List.map_filter vm_deleted ds = map vm_key (surplus (length vms - nat (sint ?d)) ?vms)"
      using walksD [OF shrinks [of ?d ?vms c x], of s] d down small by (auto simp: length_arrange)
    ultimately show ?thesis using down go by auto
  next
    case eq
    then show ?thesis using go counts [of c ?vms s] by (auto simp: len32_def length_arrange)
  qed
qed

end


section \<open>A concrete client\<close>

text \<open>A cluster with one watched object and some VMs, which accepts every write and never changes, for
  evaluating rounds on concrete inputs.\<close>

definition stub_client :: "'o \<Rightarrow> vm list \<Rightarrow> (unit, 'o) client" where
  "stub_client v vms = \<lparr>cGet = (\<lambda>_ _. Inr v),
     cGetVM = (\<lambda>key _. case List.find (\<lambda>m. vm_Name m = k_name key) vms of None \<Rightarrow> Inl NotFound | Some m \<Rightarrow> Inr m),
     cGetDisk = (\<lambda>_ _. Inl NotFound), cGetDataVolume = (\<lambda>_ _. Inl NotFound), cGetVolumeSnapshot = (\<lambda>_ _. Inl NotFound),
     cListVMs = (\<lambda>_ sel _. Inr (filter (\<lambda>m. sel (m_labels (vm_meta m))) vms)), cListDisks = (\<lambda>_ _. Inr []),
     cCreate = (\<lambda>_ w. (None, w)), cDelete = (\<lambda>_ _ w. (None, w)), cUpdate = (\<lambda>v w. (Inr v, w)),
     cUpdateStatus = (\<lambda>v w. (Inr v, w)), LabelSelectorAsSelector = (\<lambda>_. Inr (\<lambda>_. True))\<rparr>"

definition start :: "'o \<Rightarrow> (unit, 'o, 'o ocall) rst" where
  "start v = \<lparr>world = (), obj = v, trace = []\<rparr>"

definition no_status :: replica_status where
  "no_status = \<lparr>rs_Replicas = 0, rs_ReadyReplicas = 0, rs_AvailableReplicas = 0\<rparr>"

end
