(* ===== verification/Vm_Rollback.thy ===== *)
theory Vm_Rollback
  imports Vm_Snapshot Replica_Control
begin

text \<open>
  \<open>src/internal/controller/vmrollback_controller.go\<close>: a VMRollback asks for a new VM from a VMSnapShot and
  the VMRestoreSpec of the same name. The claims of the disks are recovered by goroutines of an
  errgroup: \<open>rbSched\<close> gives the order in which they finish, a permutation of the disks; each goroutine runs as a whole, and all of them
  run even when one fails. The first error is the group's, and it cancels the context of the others: \<open>rbCancelled\<close> says which of the later ones
  find their requests refused for that (the others made theirs in time). \<open>reconcile\<close> takes the VMRollback by value, so the
  phases it sets reach the API server only through its own status updates; \<open>Reconcile\<close> goes on with
  the object it had read.
\<close>

section \<open>Objects and calls\<close>

datatype rollback_phase = RollbackEmpty | RollbackScheduled | RollbackFailed | RollbackSucceeded

record vmrollback =
  rb_meta :: meta
  rb_Snapshot :: string
  rb_phase :: rollback_phase

datatype rb_call = RbStatus vmrollback bool | RbStorage storage_call | RbCreateVM vm "api_error option" | RbEvent string

type_synonym ('w, 'a) rbact = "('w, vmrollback, rb_call, 'a) action"

record 'w rb_env =
  rbGet :: "key \<Rightarrow> 'w \<Rightarrow> api_error + vmrollback"
  rbGetSnapshot :: "key \<Rightarrow> 'w \<Rightarrow> api_error + vmsnapshot"
  rbGetRestoreSpec :: "key \<Rightarrow> 'w \<Rightarrow> api_error + restore_spec"
  rbUpdateStatus :: "vmrollback \<Rightarrow> 'w \<Rightarrow> (api_error + vmrollback) \<times> 'w"
  rbCreateVM :: "vm \<Rightarrow> 'w \<Rightarrow> api_error option \<times> 'w"
  rbApi :: "'w api"
  rbStore :: "'w store_api"
  rbSched :: "disk_status list \<Rightarrow> disk_status list"
  rbCancelled :: "disk_status \<Rightarrow> 'w \<Rightarrow> err option"

definition rb_event :: "string \<Rightarrow> ('w, unit) rbact" where
  "rb_event e s = (Ok (), s\<lparr>trace := trace s @ [RbEvent e]\<rparr>)"

section \<open>The operations\<close>

definition no_source :: "string \<Rightarrow> volume" where
  "no_source n = \<lparr>v_name = n, v_ContainerDisk = None, v_CloudInit = None, v_ContainerRootfs = None,
     v_PersistentVolumeClaim = None, v_DataVolume = None, v_VirtualDisk = None, v_MemorySnapshot = None\<rparr>"

definition recovered_volume :: "disk_status \<Rightarrow> volume" where
  "recovered_volume d = (no_source (dst_Name d))\<lparr>v_PersistentVolumeClaim := Some \<lparr>pvc_claim = dst_SnapshotName d, pvc_hotpluggable = False\<rparr>\<rparr>"

text \<open>One goroutine, and the group.\<close>

definition recoverDisk :: "'w rb_env \<Rightarrow> string \<Rightarrow> disk_status \<Rightarrow> err option \<times> volume list \<Rightarrow> ('w, err option \<times> volume list) rbact" where
  "recoverDisk k namespace d acc =
    bind (kread (rbCancelled k d)) (\<lambda>cancelled.
    bind (attempt (case (fst acc, cancelled) of (Some _, Some e) \<Rightarrow> throw e
        | _ \<Rightarrow> RecoverSnapShotToPVC (rbApi k) (rbStore k) RbStorage (dst_SnapshotName d) namespace (dst_SnapshotName d))) (\<lambda>r.
      case r of
        Inl e \<Rightarrow> bind (rb_event ''RecoverSnapShotToPVCFailed'') (\<lambda>_. ret (case fst acc of None \<Rightarrow> Some e | Some e' \<Rightarrow> Some e', snd acc))
      | Inr _ \<Rightarrow> bind (rb_event ''RecoverSnapShotToPVCSucceeded'') (\<lambda>_. ret (fst acc, snd acc @ [recovered_volume d]))))"

definition recoverDisks :: "'w rb_env \<Rightarrow> vmsnapshot \<Rightarrow> ('w, err option \<times> volume list) rbact" where
  "recoverDisks k vs = fold_act (recoverDisk k (default_ns (m_namespace (sn_meta vs)))) (rbSched k (sn_disks vs)) (None, [])"

definition restored_vm :: "vmrollback \<Rightarrow> vmsnapshot \<Rightarrow> restore_spec \<Rightarrow> volume list \<Rightarrow> vm" where
  "restored_vm vr vs vrs recovered =
    (let kept = filter (\<lambda>v. \<not> (v_DataVolume v \<noteq> None \<or> v_PersistentVolumeClaim v \<noteq> None)) (s_Volumes (rsp_VMSpec vrs));
         memVol = (no_source ''memory'')\<lparr>v_MemorySnapshot := Some (mst_Bucket (sn_memory vs), mst_ObjectKey (sn_memory vs))\<rparr> in
     \<lparr>vm_meta = empty_meta\<lparr>m_name := sn_VmName vs @ ''-'' @ rb_Snapshot vr, m_namespace := default_ns (m_namespace (sn_meta vs))\<rparr>,
      vm_spec = \<lparr>s_RunPolicy = s_RunPolicy (rsp_VMSpec vrs), s_Instance = s_Instance (rsp_VMSpec vrs),
        s_Volumes = recovered @ kept @ [memVol], s_Networks = s_Networks (rsp_VMSpec vrs), s_Resources = s_Resources (rsp_VMSpec vrs),
        s_NodeSelector = None, s_Tolerations = [], s_Affinity = None, s_LivenessProbe = None, s_ReadinessProbes = None\<rparr>,
      vm_status = empty_vm_status\<rparr>)"

text \<open>The status update on the copy of the object; the caller's object stays as it was.\<close>

definition failCopy :: "'w rb_env \<Rightarrow> string \<Rightarrow> ('w, err option) rbact" where
  "failCopy k reason = bind getObj (\<lambda>vr. let copy = vr\<lparr>rb_phase := RollbackFailed\<rparr> in
    bind (rb_event reason) (\<lambda>_.
    bind (kwrite (rbUpdateStatus k copy) (\<lambda>r. RbStatus copy (is_Inr r))) (\<lambda>r. case r of
      Inl e \<Rightarrow> ret (Some (ErrS ''unable to update VMRollback status'' (ApiErr e)))
    | Inr _ \<Rightarrow> ret None)))"

definition createRestored :: "'w rb_env \<Rightarrow> vmrollback \<Rightarrow> vmsnapshot \<Rightarrow> restore_spec \<Rightarrow> err option \<times> volume list \<Rightarrow> ('w, err option) rbact" where
  "createRestored k vr vs vrs res = (case fst res of
      Some e \<Rightarrow> ret (Some e)
    | None \<Rightarrow> (let v = restored_vm vr vs vrs (snd res) in
        bind (kwrite (rbCreateVM k v) (RbCreateVM v)) (\<lambda>r. case r of
          None \<Rightarrow> ret None
        | Some e \<Rightarrow> if e = AlreadyExists then ret None else ret (Some (ApiErr e)))))"

definition VMRollback_reconcile :: "'w rb_env \<Rightarrow> ('w, err option) rbact" where
  "VMRollback_reconcile k = bind getObj (\<lambda>vr.
    let key = key_in (m_namespace (rb_meta vr)) (rb_Snapshot vr) in
    bind (kread (rbGetSnapshot k key)) (\<lambda>r. case r of
      Inl _ \<Rightarrow> failCopy k ''MissingSnapshot''
    | Inr vs \<Rightarrow> bind (kread (rbGetRestoreSpec k key)) (\<lambda>r. case r of
        Inl _ \<Rightarrow> failCopy k ''MissingRestoreSpec''
      | Inr vrs \<Rightarrow> bind (recoverDisks k vs) (createRestored k vr vs vrs))))"

definition already_exists_or_nil :: "err option \<Rightarrow> bool" where
  "already_exists_or_nil r \<longleftrightarrow> r = None \<or> r = Some (ApiErr AlreadyExists)"

text \<open>\<open>reflect.DeepEqual\<close> of a pointer and a struct is false, so the status is always written.\<close>

definition VMRollback_Reconcile :: "'w rb_env \<Rightarrow> key \<Rightarrow> ('w, Result) rbact" where
  "VMRollback_Reconcile k req =
    bind (kread (rbGet k req)) (\<lambda>r. case r of
      Inl e \<Rightarrow> if e = NotFound then ret no_requeue else throw (ApiErr e)
    | Inr vr \<Rightarrow> bind (modObj (\<lambda>_. vr)) (\<lambda>_.
        bind (case rb_phase vr of
            RollbackScheduled \<Rightarrow> VMRollback_reconcile k
          | RollbackFailed \<Rightarrow> VMRollback_reconcile k
          | RollbackSucceeded \<Rightarrow> ret None
          | RollbackEmpty \<Rightarrow> bind (modObj (\<lambda>v. v\<lparr>rb_phase := RollbackScheduled\<rparr>)) (\<lambda>_. ret None)) (\<lambda>rerr.
        bind (updateObj (rbUpdateStatus k) RbStatus) (\<lambda>r. case r of
          None \<Rightarrow> ret no_requeue
        | Some e \<Rightarrow> if \<not> already_exists_or_nil rerr then ret no_requeue
            else if e = Conflict then ret \<lparr>Requeue = True, RequeueAfter = 0\<rparr>
            else throw (ErrS ''unable to update VMRollback object status'' (ApiErr e))))))"

section \<open>Frame rules\<close>

lemma keeps_rb_event [keeps]: "keeps obj (rb_event e)"
  by (simp add: keeps_def rb_event_def)

lemma traces_rb_event [traces]: "P (RbEvent e) \<Longrightarrow> traces P (rb_event e)"
  by (simp add: traces_def rb_event_def)

lemma keeps_Recover [keeps]: "keeps obj (RecoverSnapShotToPVC k sk emb sn ns pn)"
  unfolding RecoverSnapShotToPVC_def by (intro keeps)

lemma traces_Recover:
  "(\<And>b. P (emb (CreatePVC (recovered_pvc sn ns pn) b))) \<Longrightarrow> traces P (RecoverSnapShotToPVC k sk emb sn ns pn)"
  unfolding RecoverSnapShotToPVC_def by (intro traces)

lemma keeps_recoverDisks [keeps]: "keeps obj (recoverDisks k vs)"
  unfolding recoverDisks_def recoverDisk_def by (intro keeps)

lemma keeps_failCopy [keeps]: "keeps obj (failCopy k e)"
  unfolding failCopy_def by (intro keeps)

lemma keeps_VMRollback_reconcile: "keeps obj (VMRollback_reconcile k)"
  unfolding VMRollback_reconcile_def createRestored_def by (intro keeps)

lemma traces_recoverDisks:
  assumes "\<And>e. P (RbEvent e)" "\<And>d b. d \<in> set (rbSched k (sn_disks vs)) \<Longrightarrow>
    P (RbStorage (CreatePVC (recovered_pvc (dst_SnapshotName d) (default_ns (m_namespace (sn_meta vs))) (dst_SnapshotName d)) b))"
  shows "traces P (recoverDisks k vs)"
  unfolding recoverDisks_def recoverDisk_def
  by (intro traces_fold_act traces_bind traces_attempt traces_case_prod traces_case_option traces_Recover traces_case_sum traces_rb_event traces_basic assms)

text \<open>The group reports no error only when every disk was recovered, in the order the goroutines finished.\<close>

lemma recoverDisks_volumes:
  "returns (\<lambda>(e, vols). e = None \<longrightarrow> vols = map recovered_volume (rbSched k (sn_disks vs))) (recoverDisks k vs)"
proof -
  have "returns (\<lambda>(e, vols). e = None \<longrightarrow> vols = map recovered_volume (ys @ [y])) (recoverDisk k ns y acc)"
    if "case acc of (e, vols) \<Rightarrow> e = None \<longrightarrow> vols = map recovered_volume ys" for ns ys y acc
    using that unfolding recoverDisk_def
    by (auto intro!: returns_bind_any returns_case_sum returns_ret split: option.splits)
  then show ?thesis unfolding recoverDisks_def
    by (intro returns_fold_act [where I = "\<lambda>ys (e, vols). e = None \<longrightarrow> vols = map recovered_volume ys"]) auto
qed

section \<open>Properties\<close>

definition unsuccessful :: "rb_call \<Rightarrow> bool" where
  "unsuccessful cl \<longleftrightarrow> (case cl of RbStatus v b \<Rightarrow> rb_phase v \<noteq> RollbackSucceeded | _ \<Rightarrow> True)"

lemma unsuccessful_simps [simp]: "unsuccessful (RbStatus v b) \<longleftrightarrow> rb_phase v \<noteq> RollbackSucceeded" "unsuccessful (RbStorage c)"
  "unsuccessful (RbCreateVM u r)" "unsuccessful (RbEvent e)"
  by (simp_all add: unsuccessful_def)

lemma traces_failCopy: "traces unsuccessful (failCopy k e)"
  unfolding failCopy_def by (intro traces; simp)

lemma traces_VMRollback_reconcile: "traces unsuccessful (VMRollback_reconcile k)"
  unfolding VMRollback_reconcile_def createRestored_def
  by (intro traces traces_recoverDisks traces_failCopy; simp)

text \<open>A rollback never reports success: whatever the API server answers, no round writes the phase
  Succeeded to a VMRollback that was not read with it, even when the VM was created: the phases that \<open>reconcile\<close>
  decides on are set on a copy.\<close>

theorem rollback_never_succeeds:
  assumes "rbGet k req (world s) = Inr vr" "rb_phase vr \<noteq> RollbackSucceeded"
  shows "\<exists>cs. trace (snd (VMRollback_Reconcile k req s)) = trace s @ cs \<and> list_all unsuccessful cs"
proof -
  let ?s = "s\<lparr>obj := vr\<rparr>"
  define m where "m = (case rb_phase vr of RollbackScheduled \<Rightarrow> VMRollback_reconcile k | RollbackFailed \<Rightarrow> VMRollback_reconcile k
      | RollbackSucceeded \<Rightarrow> ret None | RollbackEmpty \<Rightarrow> bind (modObj (\<lambda>v. v\<lparr>rb_phase := RollbackScheduled\<rparr>)) (\<lambda>_. ret None))"
  define f where "f = (\<lambda>rerr. bind (updateObj (rbUpdateStatus k) RbStatus) (\<lambda>r. case r of None \<Rightarrow> ret no_requeue
        | Some e \<Rightarrow> if \<not> already_exists_or_nil rerr then ret no_requeue else if e = Conflict then ret \<lparr>Requeue = True, RequeueAfter = 0\<rparr>
            else throw (ErrS ''unable to update VMRollback object status'' (ApiErr e))))"
  have go: "VMRollback_Reconcile k req s = bind m f ?s"
    using assms(1) by (simp add: VMRollback_Reconcile_def m_def f_def bind_def [of "kread _"] kread_def bind_def [of "modObj _"] modObj_def)
  obtain r s' where ms: "m ?s = (r, s')" by fastforce
  have "rb_phase (obj s') \<noteq> RollbackSucceeded"
    using assms(2) ms keepsD [OF keeps_VMRollback_reconcile, of k ?s] unfolding m_def
    by (auto simp: bind_def modObj_def ret_def split: rollback_phase.splits)
  then have "\<exists>cs. trace (snd (f e s')) = trace s' @ cs \<and> list_all unsuccessful cs" for e
    by (cases "rbUpdateStatus k (obj s') (world s')")
      (auto simp: f_def bind_def updateObj_def ret_def throw_def split: sum.split)
  moreover have "traces unsuccessful m"
    using traces_VMRollback_reconcile [of k] by (auto simp: m_def split: rollback_phase.split intro!: traces_bind traces_basic)
  then obtain cs where "trace s' = trace s @ cs" "list_all unsuccessful cs" using tracesD [of unsuccessful m ?s] ms by auto
  ultimately show ?thesis unfolding go using ms by (cases r) (fastforce simp: bind_def)+
qed

definition rollback_call :: "vmrollback \<Rightarrow> vmsnapshot \<Rightarrow> restore_spec \<Rightarrow> disk_status list \<Rightarrow> rb_call \<Rightarrow> bool" where
  "rollback_call vr vs vrs ds cl \<longleftrightarrow> (case cl of
     RbCreateVM v r \<Rightarrow> v = restored_vm vr vs vrs (map recovered_volume ds)
   | RbStorage (CreatePVC p b) \<Rightarrow> (\<exists>d\<in>set ds. p = recovered_pvc (dst_SnapshotName d) (default_ns (m_namespace (sn_meta vs))) (dst_SnapshotName d))
   | RbEvent e \<Rightarrow> True | _ \<Rightarrow> False)"

text \<open>What a rollback does when the snapshot and its restore spec are there: it asks for one claim per
  disk of the snapshot's status, named after the disk's SnapshotName, and creates a VM only when all of
  them were recovered; that VM has the recovered claims, the volumes of the restore spec that are neither claims
  nor DataVolumes and the memory snapshot as its last volume, and it is named after the VM and the
  snapshot. The VirtualDisk volumes of the restore spec are among those it keeps, so it uses disks of the original VM.\<close>

theorem rollback_vm:
  assumes "rbGetSnapshot k (key_in (m_namespace (rb_meta vr)) (rb_Snapshot vr)) (world s) = Inr vs"
    and "rbGetRestoreSpec k (key_in (m_namespace (rb_meta vr)) (rb_Snapshot vr)) (world s) = Inr vrs"
    and "obj s = vr" and "\<And>ds. mset (rbSched k ds) = mset ds"
  shows "\<exists>cs ds. trace (snd (VMRollback_reconcile k s)) = trace s @ cs \<and> mset ds = mset (sn_disks vs) \<and> list_all (rollback_call vr vs vrs ds) cs"
proof -
  let ?P = "rollback_call vr vs vrs (rbSched k (sn_disks vs))"
  let ?g = "createRestored k vr vs vrs"
  have go: "VMRollback_reconcile k s = bind (recoverDisks k vs) ?g s"
    using assms by (simp add: VMRollback_reconcile_def Let_def bind_def [of getObj] getObj_def bind_def [of "kread _"] kread_def)
  obtain r s' where rs: "recoverDisks k vs s = (r, s')" by fastforce
  have "traces ?P (recoverDisks k vs)" by (rule traces_recoverDisks) (auto simp: rollback_call_def)
  then obtain cs where cs: "trace s' = trace s @ cs" "list_all ?P cs" using tracesD [of ?P "recoverDisks k vs" s] rs by auto
  have "\<exists>cs. trace (snd (bind (recoverDisks k vs) ?g s)) = trace s @ cs \<and> list_all ?P cs"
  proof (cases r)
    case (Ok res)
    obtain e vols where res: "res = (e, vols)" by (cases res)
    have "e = None \<longrightarrow> vols = map recovered_volume (rbSched k (sn_disks vs))"
      using returnsD [OF recoverDisks_volumes] rs Ok res by fastforce
    then have "traces ?P (?g res)" unfolding createRestored_def res fst_conv snd_conv Let_def
      by (intro traces_case_option traces_bind traces_kwrite traces_if traces_basic) (auto simp: rollback_call_def)
    then obtain ds where "trace (snd (?g res s')) = trace s' @ ds" "list_all ?P ds" using tracesD by blast
    then show ?thesis using cs rs Ok by (auto simp: bind_def intro!: exI [of _ "cs @ ds"])
  qed (use cs rs in \<open>auto simp: bind_def\<close>)
  then show ?thesis unfolding go using assms(4) by blast
qed

section \<open>Concrete rounds\<close>

definition sample_rollback :: vmrollback where
  "sample_rollback = \<lparr>rb_meta = empty_meta\<lparr>m_name := ''r''\<rparr>, rb_Snapshot = ''s'', rb_phase = RollbackScheduled\<rparr>"

definition sample_spec :: restore_spec where
  "sample_spec = \<lparr>rsp_meta = empty_meta, rsp_VMName = ''v'', rsp_VMSpec = vm_spec sample_vm\<rparr>"

definition willing_env :: "unit rb_env" where
  "willing_env = \<lparr>rbGet = (\<lambda>_ _. Inr sample_rollback), rbGetSnapshot = (\<lambda>_ _. Inr sample_snapshot), rbGetRestoreSpec = (\<lambda>_ _. Inr sample_spec),
     rbUpdateStatus = (\<lambda>u w. (Inr u, w)), rbCreateVM = (\<lambda>_ w. (None, w)), rbApi = empty_cluster, rbStore = no_snapshots, rbSched = id, rbCancelled = (\<lambda>_ _. None)\<rparr>"

theorem rollback_never_succeeds_witness:
  "\<exists>cs. trace (snd (VMRollback_Reconcile willing_env (key_in [] ''r'') \<lparr>world = (), obj = sample_rollback, trace = []\<rparr>)) = [] @ cs
     \<and> list_all unsuccessful cs"
  using rollback_never_succeeds [of willing_env "key_in [] ''r''" "\<lparr>world = (), obj = sample_rollback, trace = []\<rparr>" sample_rollback]
  by (simp add: willing_env_def) (simp add: sample_rollback_def)

theorem rollback_vm_witness:
  "\<exists>cs ds. trace (snd (VMRollback_reconcile willing_env \<lparr>world = (), obj = sample_rollback, trace = []\<rparr>)) = [] @ cs
     \<and> mset ds = mset (sn_disks sample_snapshot) \<and> list_all (rollback_call sample_rollback sample_snapshot sample_spec ds) cs"
  using rollback_vm [of willing_env sample_rollback "\<lparr>world = (), obj = sample_rollback, trace = []\<rparr>" sample_snapshot sample_spec]
  by (simp add: willing_env_def)

end
