(* ===== verification/Go_Base64.thy ===== *)
theory Go_Base64
  imports Prelude
begin

text \<open>
  Go's \<open>base64.StdEncoding\<close>, which carries the VM's JSON from the controller to the pod. Encoding
  works on groups of three bytes and pads with \<open>=\<close>; decoding skips line breaks, accepts padding only
  at the end and does not check the unused low bits of the last digit.
\<close>

definition b64_alphabet :: string where
  "b64_alphabet = ''ABCDEFGHIJKLMNOPQRSTUVWXYZabcdefghijklmnopqrstuvwxyz0123456789+/''"

definition b64_digit :: "nat \<Rightarrow> char" where
  "b64_digit n = b64_alphabet ! n"

fun index_from :: "nat \<Rightarrow> string \<Rightarrow> char \<Rightarrow> nat option" where
  "index_from n [] c = None"
| "index_from n (x # xs) c = (if x = c then Some n else index_from (Suc n) xs c)"

definition b64_value :: "char \<Rightarrow> nat option" where
  "b64_value c = index_from 0 b64_alphabet c"

fun b64_encode :: "nat list \<Rightarrow> string" where
  "b64_encode [] = []"
| "b64_encode [a] = [b64_digit (a div 4), b64_digit (a mod 4 * 16), CHR ''='', CHR ''='']"
| "b64_encode [a, b] = [b64_digit (a div 4), b64_digit (a mod 4 * 16 + b div 16), b64_digit (b mod 16 * 4), CHR ''='']"
| "b64_encode (a # b # c # r) = b64_digit (a div 4) # b64_digit (a mod 4 * 16 + b div 16)
     # b64_digit (b mod 16 * 4 + c div 64) # b64_digit (c mod 64) # b64_encode r"

definition EncodeToString :: "string \<Rightarrow> string" where
  "EncodeToString s = b64_encode (map of_char s)"

definition first_byte :: "nat \<Rightarrow> nat \<Rightarrow> nat" where "first_byte a b = a * 4 + b div 16"
definition second_byte :: "nat \<Rightarrow> nat \<Rightarrow> nat" where "second_byte b c = b mod 16 * 16 + c div 4"
definition third_byte :: "nat \<Rightarrow> nat \<Rightarrow> nat" where "third_byte c d = c mod 4 * 64 + d"

fun b64_decode :: "string \<Rightarrow> nat list option" where
  "b64_decode [] = Some []"
| "b64_decode (p # q # r # s # t) =
    (case (b64_value p, b64_value q) of (Some a, Some b) \<Rightarrow>
       (if r = CHR ''='' then (if s = CHR ''='' \<and> t = [] then Some [first_byte a b] else None)
        else (case b64_value r of None \<Rightarrow> None | Some c \<Rightarrow>
          (if s = CHR ''='' then (if t = [] then Some [first_byte a b, second_byte b c] else None)
           else (case b64_value s of None \<Rightarrow> None | Some d \<Rightarrow>
             (case b64_decode t of None \<Rightarrow> None
              | Some xs \<Rightarrow> Some (first_byte a b # second_byte b c # third_byte c d # xs))))))
     | _ \<Rightarrow> None)"
| "b64_decode _ = None"

definition DecodeString :: "string \<Rightarrow> string option" where
  "DecodeString s = map_option (map char_of)
     (b64_decode (filter (\<lambda>c. c \<noteq> CHR 0x0A \<and> c \<noteq> CHR 0x0D) s))"

section \<open>Round trip\<close>

lemma b64_digits_table:
  "\<forall>n\<in>set [0..<64]. b64_value (b64_digit n) = Some n \<and> b64_digit n \<noteq> CHR ''=''
     \<and> b64_digit n \<noteq> CHR 0x0A \<and> b64_digit n \<noteq> CHR 0x0D"
  by code_simp

lemma b64_digit [simp]:
  assumes "n < 64"
  shows "b64_value (b64_digit n) = Some n" "b64_digit n \<noteq> CHR ''=''"
    "b64_digit n \<noteq> CHR 0x0A" "b64_digit n \<noteq> CHR 0x0D"
  using b64_digits_table assms by auto

lemma pack_bound: "x < m \<Longrightarrow> y < n \<Longrightarrow> x * n + y < m * (n :: nat)"
  using mult_le_mono1 [of "Suc x" m n] by simp

lemma digit_bounds [simp]:
  fixes a b c :: nat
  shows "a < 256 \<Longrightarrow> a div 4 < 64" "a mod 4 * 16 < 64" "b < 256 \<Longrightarrow> a mod 4 * 16 + b div 16 < 64"
    "b mod 16 * 4 < 64" "c < 256 \<Longrightarrow> b mod 16 * 4 + c div 64 < 64" "c mod 64 < 64"
  using pack_bound [of "a mod 4" 4 "b div 16" 16] pack_bound [of "b mod 16" 16 "c div 64" 4]
    pack_bound [of "a mod 4" 4 0 16] pack_bound [of "b mod 16" 16 0 4]
  by (simp_all add: less_mult_imp_div_less)

lemma bytes_join [simp]:
  fixes a b c :: nat
  shows "first_byte (a div 4) (a mod 4 * 16) = a"
    "b < 256 \<Longrightarrow> first_byte (a div 4) (a mod 4 * 16 + b div 16) = a"
    "b < 256 \<Longrightarrow> second_byte (a mod 4 * 16 + b div 16) (b mod 16 * 4) = b"
    "b < 256 \<Longrightarrow> c < 256 \<Longrightarrow> second_byte (a mod 4 * 16 + b div 16) (b mod 16 * 4 + c div 64) = b"
    "c < 256 \<Longrightarrow> third_byte (b mod 16 * 4 + c div 64) (c mod 64) = c"
  unfolding first_byte_def second_byte_def third_byte_def
  by (simp_all add: less_mult_imp_div_less div_mult_mod_eq)

lemma b64_decode_encode:
  "list_all (\<lambda>x. x < 256) xs \<Longrightarrow> b64_decode (b64_encode xs) = Some xs"
  by (induction xs rule: b64_encode.induct) simp_all

lemma b64_encode_no_newline:
  "list_all (\<lambda>x. x < 256) xs \<Longrightarrow> filter (\<lambda>c. c \<noteq> CHR 0x0A \<and> c \<noteq> CHR 0x0D) (b64_encode xs) = b64_encode xs"
  by (induction xs rule: b64_encode.induct) simp_all

lemma bytes_of_string: "list_all (\<lambda>x. x < 256) (map of_char (s :: string) :: nat list)"
  by (induction s) (simp_all add: of_char_def)

lemma char_of_of_char_list [simp]: "map (char_of \<circ> (of_char :: char \<Rightarrow> nat)) s = s"
  by (induction s) simp_all

lemma Decode_Encode [go_lib]: "DecodeString (EncodeToString s) = Some s"
  using b64_decode_encode [OF bytes_of_string [of s]] b64_encode_no_newline [OF bytes_of_string [of s]]
  by (simp add: DecodeString_def EncodeToString_def)

end
