(* ===== verification/Pod_Builder.thy ===== *)
theory Pod_Builder
  imports Volume_Util Go_Base64
begin

text \<open>
  The pod of a virtual machine: \<open>buildVMPod\<close>, \<open>buildTargetVMPod\<close> and \<open>incrementContainerResource\<close> of
  \<open>src/internal/controller/virtualmachine_controller.go\<close>.

  The source builds the pod around the VM's own labels, annotations, node selector, resource lists
  and affinity: maps and pointers that are not nil are shared between the VM and the pod, so writing
  the pod writes the VM. \<open>sync\<close> is that effect; \<open>writePod\<close> applies it after each such write, to the
  VM in the state and to the resource lists of the init containers, which are the VM's too.
  A write to a nil map panics.
\<close>

section \<open>Editing the pod\<close>

text \<open>The pod has one container from the start, so \<open>Containers[0]\<close> is its head.\<close>

definition on_main :: "(container \<Rightarrow> container) \<Rightarrow> pod \<Rightarrow> pod" where
  "on_main f p = p\<lparr>p_spec := (p_spec p)\<lparr>ps_containers :=
     (case ps_containers (p_spec p) of [] \<Rightarrow> [] | c # cs \<Rightarrow> f c # cs)\<rparr>\<rparr>"

definition add_volume :: "string \<Rightarrow> pod_volume_source \<Rightarrow> pod \<Rightarrow> pod" where
  "add_volume n src p = p\<lparr>p_spec := (p_spec p)\<lparr>ps_volumes := ps_volumes (p_spec p) @ [\<lparr>pv_name = n, pv_source = src\<rparr>]\<rparr>\<rparr>"

definition mount :: "string \<Rightarrow> string \<Rightarrow> volume_mount" where
  "mount n path = \<lparr>vmt_name = n, vmt_path = path, vmt_hostToContainer = False\<rparr>"

definition add_mount :: "volume_mount \<Rightarrow> pod \<Rightarrow> pod" where
  "add_mount mt = on_main (\<lambda>c. c\<lparr>c_volumeMounts := c_volumeMounts c @ [mt]\<rparr>)"

definition add_device :: "volume_device \<Rightarrow> pod \<Rightarrow> pod" where
  "add_device d = on_main (\<lambda>c. c\<lparr>c_volumeDevices := c_volumeDevices c @ [d]\<rparr>)"

definition add_env :: "string \<Rightarrow> env_source \<Rightarrow> pod \<Rightarrow> pod" where
  "add_env n v = on_main (\<lambda>c. c\<lparr>c_env := c_env c @ [\<lparr>ev_name = n, ev_value = v\<rparr>]\<rparr>)"

definition add_init :: "container \<Rightarrow> pod \<Rightarrow> pod" where
  "add_init c p = p\<lparr>p_spec := (p_spec p)\<lparr>ps_initContainers := ps_initContainers (p_spec p) @ [c]\<rparr>\<rparr>"

lemmas pod_edits = on_main_def add_volume_def add_mount_def add_device_def add_env_def add_init_def

section \<open>Shared maps\<close>

definition share :: "('k, 'v) gomap \<Rightarrow> ('k, 'v) gomap \<Rightarrow> ('k, 'v) gomap" where
  "share vmMap podMap = (case vmMap of None \<Rightarrow> None | Some _ \<Rightarrow> podMap)"

definition main_resources :: "pod \<Rightarrow> requirements" where
  "main_resources p = (case ps_containers (p_spec p) of [] \<Rightarrow> no_requirements | c # _ \<Rightarrow> c_resources c)"

definition sync :: "pod \<Rightarrow> vm \<Rightarrow> vm" where
  "sync p v = v\<lparr>
     vm_meta := (vm_meta v)\<lparr>m_labels := share (m_labels (vm_meta v)) (m_labels (p_meta p)),
       m_annotations := share (m_annotations (vm_meta v)) (m_annotations (p_meta p))\<rparr>,
     vm_spec := (vm_spec v)\<lparr>s_NodeSelector := share (s_NodeSelector (vm_spec v)) (ps_nodeSelector (p_spec p)),
       s_Resources := \<lparr>Requests = share (Requests (s_Resources (vm_spec v))) (Requests (main_resources p)),
         Limits = share (Limits (s_Resources (vm_spec v))) (Limits (main_resources p))\<rparr>\<rparr>\<rparr>"

definition sync_init :: "vm \<Rightarrow> pod \<Rightarrow> pod" where
  "sync_init v p = p\<lparr>p_spec := (p_spec p)\<lparr>ps_initContainers :=
     map (\<lambda>c. c\<lparr>c_resources := s_Resources (vm_spec v)\<rparr>) (ps_initContainers (p_spec p))\<rparr>\<rparr>"

definition writePod :: "pod \<Rightarrow> ('w, pod) act" where
  "writePod p = bind (modObj (sync p)) (\<lambda>_. bind getObj (\<lambda>v. ret (sync_init v p)))"

section \<open>Resources\<close>

definition count_up :: "resource_list \<Rightarrow> string \<Rightarrow> resource_list" where
  "count_up m r = Some ((the (gm_make m))(r \<mapsto> NewQuantity (wrap64 (q_Value (rl_get m r) + 1))))"

definition incrementContainerResource :: "string \<Rightarrow> container \<Rightarrow> container" where
  "incrementContainerResource r c = c\<lparr>c_resources :=
     \<lparr>Requests = count_up (Requests (c_resources c)) r, Limits = count_up (Limits (c_resources c)) r\<rparr>\<rparr>"

definition incMain :: "string \<Rightarrow> pod \<Rightarrow> ('w, pod) act" where
  "incMain r p = writePod (on_main (incrementContainerResource r) p)"

section \<open>The pod without the VM's volumes and networks\<close>

definition base_pod :: "ext \<Rightarrow> string \<Rightarrow> vm \<Rightarrow> pod" where
  "base_pod x prerunner v = empty_pod\<lparr>
     p_meta := empty_meta\<lparr>m_labels := m_labels (vm_meta v), m_annotations := m_annotations (vm_meta v)\<rparr>,
     p_spec := \<lparr>ps_restartNever = True, ps_hostNetwork = False, ps_nodeName = [],
       ps_nodeSelector = s_NodeSelector (vm_spec v), ps_tolerations = s_Tolerations (vm_spec v),
       ps_affinity = s_Affinity (vm_spec v), ps_imagePullSecrets = [os_Getenv x ''REGISTRY_CREDS_SECRET''],
       ps_containers = [empty_container\<lparr>c_name := ''vm-manager'', c_image := prerunner,
         c_resources := s_Resources (vm_spec v), c_livenessProbe := s_LivenessProbe (vm_spec v),
         c_readinessProbe := s_ReadinessProbes (vm_spec v),
         c_addCapabilities := [''SYS_ADMIN'', ''NET_ADMIN'', ''SYS_RESOURCE''],
         c_volumeMounts := [mount ''ch-vmm'' ''/var/run/ch-vmm'',
           \<lparr>vmt_name = ''hotplug-volumes'', vmt_path = ''/hotplug-volumes'', vmt_hostToContainer = True\<rparr>]\<rparr>],
       ps_initContainers = [],
       ps_volumes = [\<lparr>pv_name = ''ch-vmm'', pv_source = EmptyDir []\<rparr>,
         \<lparr>pv_name = ''hotplug-volumes'', pv_source = EmptyDir []\<rparr>]\<rparr>\<rparr>"

definition set_label :: "string \<Rightarrow> string \<Rightarrow> pod \<Rightarrow> pod" where
  "set_label l n p = p\<lparr>p_meta := (p_meta p)\<lparr>m_labels := Some ((the (gm_make (m_labels (p_meta p))))(l \<mapsto> n))\<rparr>\<rparr>"

definition start_pod :: "ext \<Rightarrow> string \<Rightarrow> vm \<Rightarrow> ('w, pod) act" where
  "start_pod x prerunner v =
    bind (incMain ''devices.quill.today/kvm'' (base_pod x prerunner v)) (\<lambda>p.
    bind (incMain ''devices.quill.today/tun'' p) (\<lambda>p.
    writePod (set_label ''quill.today/vm.name'' (vm_Name v) p)))"

definition add_kernel :: "vm \<Rightarrow> pod \<Rightarrow> pod" where
  "add_kernel v p = (case i_kernel (s_Instance (vm_spec v)) of None \<Rightarrow> p | Some kn \<Rightarrow>
    (let mt = mount ''virtmanager-kernel'' ''/mnt/virtmanager-kernel'' in
     add_init (empty_container\<lparr>c_name := ''init-kernel'', c_image := kn_image kn,
         c_imagePullPolicy := kn_imagePullPolicy kn, c_resources := s_Resources (vm_spec v),
         c_args := [vmt_path mt @ ''/vmlinux''], c_volumeMounts := [mt]\<rparr>)
       (add_mount mt (add_volume ''virtmanager-kernel'' (EmptyDir []) p))))"

definition add_hugepages :: "vm \<Rightarrow> pod \<Rightarrow> pod" where
  "add_hugepages v p = (case mem_Hugepages (i_memory (s_Instance (vm_spec v))) of None \<Rightarrow> p | Some _ \<Rightarrow>
     add_mount (mount ''hugepages'' ''/dev/hugepages'') (add_volume ''hugepages'' (EmptyDir ''HugePages'') p))"

section \<open>Volumes\<close>

definition volume_mnt :: "volume \<Rightarrow> volume_mount" where
  "volume_mnt vol = mount (v_name vol) (''/mnt/'' @ v_name vol)"

definition scratch_volume :: "volume \<Rightarrow> pod \<Rightarrow> pod" where
  "scratch_volume vol p = add_mount (volume_mnt vol) (add_volume (v_name vol) (EmptyDir []) p)"

definition init_volume :: "vm \<Rightarrow> volume \<Rightarrow> string \<Rightarrow> string \<Rightarrow> string list \<Rightarrow> pod \<Rightarrow> pod" where
  "init_volume v vol img policy args p =
     add_init (empty_container\<lparr>c_name := ''init-volume-'' @ v_name vol, c_image := img,
       c_imagePullPolicy := policy, c_resources := s_Resources (vm_spec v), c_args := args,
       c_volumeMounts := [volume_mnt vol]\<rparr>) (scratch_volume vol p)"

text \<open>Cloud-init: the user data comes inline, encoded, or from a secret mounted in the init
  container; a secret with network data is mounted in the main container.\<close>

definition user_data :: "cloud_init \<Rightarrow> container \<Rightarrow> pod \<Rightarrow> string \<times> container \<times> pod" where
  "user_data ci c p =
    (if UserData ci \<noteq> [] then (EncodeToString (UserData ci), c, p)
     else if UserDataBase64 ci \<noteq> [] then (UserDataBase64 ci, c, p)
     else if UserDataSecretName ci \<noteq> [] then
       (''/mnt/virtmanager-cloud-init-user-data/value'',
        c\<lparr>c_volumeMounts := c_volumeMounts c
           @ [mount ''virtmanager-cloud-init-user-data'' ''/mnt/virtmanager-cloud-init-user-data'']\<rparr>,
        add_volume ''virtmanager-cloud-init-user-data'' (Secret (UserDataSecretName ci)) p)
     else ([], c, p))"

definition network_data :: "cloud_init \<Rightarrow> pod \<Rightarrow> string \<times> pod" where
  "network_data ci p =
    (if NetworkData ci \<noteq> [] then (EncodeToString (NetworkData ci), p)
     else if NetworkDataBase64 ci \<noteq> [] then (NetworkDataBase64 ci, p)
     else if NetworkDataSecretName ci \<noteq> [] then
       (''/mnt/virtmanager-cloud-init-network-data/value'',
        add_mount (mount ''virtmanager-cloud-init-network-data'' ''/mnt/virtmanager-cloud-init-network-data'')
          (add_volume ''virtmanager-cloud-init-network-data'' (Secret (NetworkDataSecretName ci)) p))
     else ([], p))"

definition cloud_init_volume :: "string \<Rightarrow> vm \<Rightarrow> volume \<Rightarrow> cloud_init \<Rightarrow> pod \<Rightarrow> pod" where
  "cloud_init_volume prerunner v vol ci p =
    (let metaData = EncodeToString (''instance-id: '' @ vm_UID v @ [CHR 0x0A] @ ''local-hostname: '' @ vm_Name v);
         c0 = empty_container\<lparr>c_name := ''init-volume-'' @ v_name vol, c_image := prerunner,
                c_resources := s_Resources (vm_spec v), c_command := [''virt-init-volume'']\<rparr>;
         (userData, c1, p1) = user_data ci c0 p;
         (networkData, p2) = network_data ci p1;
         p3 = scratch_volume vol p2
     in add_init (c1\<lparr>c_args := [''cloud-init'', metaData, userData, networkData,
                        vmt_path (volume_mnt vol) @ ''/cloud-init.iso''],
                     c_volumeMounts := c_volumeMounts c1 @ [volume_mnt vol]\<rparr>) p3)"

definition claim_volume :: "'w api \<Rightarrow> ext \<Rightarrow> vm \<Rightarrow> volume \<Rightarrow> pod \<Rightarrow> string list \<Rightarrow> ('w, pod \<times> string list) act" where
  "claim_volume k x v vol p blockVolumes =
    bind (IsReady k (vm_Namespace v) vol) (\<lambda>ready.
    if \<not> ready then throw (ReconcileError \<lparr>Requeue = False, RequeueAfter = 60\<rparr>)
    else bind (IsBlock k (vm_Namespace v) vol) (\<lambda>isBlock.
      ret (if IsHotpluggable x vol then p
           else (let p' = add_volume (v_name vol) (PersistentVolumeClaim (PVCName x vol)) p in
             if isBlock then add_device \<lparr>vd_name = v_name vol, vd_path = ''/mnt/'' @ v_name vol\<rparr> p'
             else add_mount (volume_mnt vol) p'),
           if isBlock then blockVolumes @ [v_name vol] else blockVolumes)))"

definition pod_add_volume ::
  "'w api \<Rightarrow> ext \<Rightarrow> string \<Rightarrow> volume \<Rightarrow> pod \<times> string list \<Rightarrow> ('w, pod \<times> string list) act" where
  "pod_add_volume k x prerunner vol st =
    bind getObj (\<lambda>v. let (p, blocks) = st in
      case v_ContainerDisk vol of
        Some d \<Rightarrow> ret (init_volume v vol (cdk_image d) (cdk_imagePullPolicy d)
                   [vmt_path (volume_mnt vol) @ ''/disk.raw''] p, blocks)
      | None \<Rightarrow> (case v_CloudInit vol of
        Some ci \<Rightarrow> ret (cloud_init_volume prerunner v vol ci p, blocks)
      | None \<Rightarrow> (case v_ContainerRootfs vol of
        Some r \<Rightarrow> ret (init_volume v vol (cr_image r) (cr_imagePullPolicy r)
                   [vmt_path (volume_mnt vol) @ ''/rootfs.raw'', Itoa (q_Value (cr_size r))] p, blocks)
      | None \<Rightarrow> (case v_MemorySnapshot vol of
        Some _ \<Rightarrow> ret (scratch_volume vol p, blocks)
      | None \<Rightarrow> if v_PersistentVolumeClaim vol \<noteq> None \<or> v_DataVolume vol \<noteq> None \<or> v_VirtualDisk vol \<noteq> None
                 then claim_volume k x v vol p blocks else ret (p, blocks)))))"

section \<open>Networks\<close>

definition put_annotation :: "string \<Rightarrow> string \<Rightarrow> pod \<Rightarrow> ('w, pod) act" where
  "put_annotation a t p = bind (lift (gm_put (m_annotations (p_meta p)) a t)) (\<lambda>m.
     writePod (p\<lparr>p_meta := (p_meta p)\<lparr>m_annotations := m\<rparr>\<rparr>))"

definition kube_ovn :: "iface \<Rightarrow> nadConfig \<Rightarrow> pod \<Rightarrow> ('w, pod) act" where
  "kube_ovn ifc cfg p =
    bind (writePod (p\<lparr>p_spec := (p_spec p)\<lparr>ps_nodeSelector := Some ((the (gm_make (ps_nodeSelector (p_spec p))))
            (''ovn.kubernetes.io/ovs_dp_type'' \<mapsto> ''userspace''))\<rparr>\<rparr>)) (\<lambda>p.
    bind (put_annotation ''ovn-dpdk.default.ovn.kubernetes.io/mac_address'' (if_MAC ifc) p) (\<lambda>p.
    ret (add_env ''NET_TYPE'' (Value ''kube-ovn'')
      (add_env ''VHOST_USER_SOCKET'' (Value (''/var/run/vhost-user/'' @ nc_VhostUserSocketName cfg))
        (add_mount (mount (nc_VhostUserSocketVolumeName cfg) ''/var/run/vhost-user'')
          (add_volume (nc_VhostUserSocketVolumeName cfg) (EmptyDir []) p))))))"

definition userspace_net :: "pod \<Rightarrow> pod" where
  "userspace_net p =
    add_env ''NET_TYPE'' (Value ''userspace'')
      (add_env ''USERSPACE_CONFIGURATION_DATA'' (FieldRef (''metadata.annotations['' @ [CHR 0x27] @ ''userspace/configuration-data'' @ [CHR 0x27] @ '']''))
        (add_mount (mount ''vhost-user-sockets'' ''/var/run/vhost-user'')
          (add_volume ''vhost-user-sockets'' (HostPath ''/usr/local/var/run/openvswitch/'') p)))"

text \<open>\<open>netst\<close>: the pod, the network selection list and the number of userspace interfaces so far.\<close>

type_synonym netst = "pod \<times> (string \<times> string \<times> string) list \<times> nat"

definition vhost_user :: "ext \<Rightarrow> iface \<Rightarrow> nad \<Rightarrow> pod \<Rightarrow> nat \<Rightarrow> ('w, pod \<times> nat) act" where
  "vhost_user x ifc nd p n =
    (if \<not> if_VhostUser ifc then ret (p, n)
     else (case json_nadConfig x (nad_config nd) of
       Inl e \<Rightarrow> throw (ErrS ''unmarshal NAD config'' e)
     | Inr cfg \<Rightarrow>
         if nc_Type cfg = ''kube-ovn'' then bind (kube_ovn ifc cfg p) (\<lambda>p. ret (p, n))
         else if nc_Type cfg = ''userspace'' then ret (if n = 0 then userspace_net p else p, n + 1)
         else throw (ErrNew (''CNI plugin '' @ nc_Type cfg @ '' is not supported for vhost-uesr''))))"

definition multus :: "'w api \<Rightarrow> ext \<Rightarrow> vm \<Rightarrow> nat \<Rightarrow> string \<Rightarrow> iface \<Rightarrow> netst \<Rightarrow> ('w, netst) act" where
  "multus k x v i networkName ifc st =
    (let (p, networks, n) = st;
         networks = networks @ [(networkName, ''net'' @ Itoa (int i), if_MAC ifc)] in
     bind (kread (kGetNAD k \<lparr>k_ns = vm_Namespace v, k_name = networkName\<rparr>)) (\<lambda>r.
     case r of Inl e \<Rightarrow> throw (ErrS ''get NAD'' (ApiErr e))
     | Inr nd \<Rightarrow>
       (let resourceName = (case gm_get (nad_annotations nd) ''k8s.v1.cni.cncf.io/resourceName'' of None \<Rightarrow> [] | Some t \<Rightarrow> t) in
        bind (if resourceName \<noteq> [] then incMain resourceName p else ret p) (\<lambda>p.
        bind (vhost_user x ifc nd (add_env ''NETWORK_STATUS''
            (FieldRef (''metadata.annotations['' @ [CHR 0x27] @ ''k8s.v1.cni.cncf.io/network-status'' @ [CHR 0x27] @ '']'')) p) n) (\<lambda>(p, n).
        ret (p, networks, n))))))"

definition pod_add_network :: "'w api \<Rightarrow> ext \<Rightarrow> string \<Rightarrow> nat \<times> network \<Rightarrow> netst \<Rightarrow> ('w, netst) act" where
  "pod_add_network k x prerunner inet st =
    bind getObj (\<lambda>v. let (i, net) = inet; (p, networks, n) = st in
      case List.find (\<lambda>ifc. if_name ifc = n_name net) (i_interfaces (s_Instance (vm_spec v))) of
        None \<Rightarrow> throw (ErrNew (''interface not found for network: '' @ n_name net))
      | Some ifc \<Rightarrow>
        (let p' = (case if_Masquerade ifc of None \<Rightarrow> p
             | Some _ \<Rightarrow> add_init (empty_container\<lparr>c_name := ''enable-ip-forward'', c_image := prerunner,
                 c_resources := s_Resources (vm_spec v), c_privileged := True,
                 c_command := [''sysctl'', ''-w'', ''net.ipv4.ip_forward=1'']\<rparr>) p) in
         case n_Multus net of None \<Rightarrow> ret (p', networks, n)
         | Some networkName \<Rightarrow> multus k x v i networkName ifc (p', networks, n)))"

section \<open>The whole pod\<close>

definition pod_volumes :: "'w api \<Rightarrow> ext \<Rightarrow> string \<Rightarrow> vm \<Rightarrow> pod \<Rightarrow> ('w, pod) act" where
  "pod_volumes k x prerunner v p =
    bind (fold_act (pod_add_volume k x prerunner) (s_Volumes (vm_spec v)) (p, [])) (\<lambda>(p, blocks).
    ret (if blocks \<noteq> [] then add_env ''BLOCK_VOLUMES'' (Value (Join '','' blocks)) p else p))"

definition pod_networks :: "'w api \<Rightarrow> ext \<Rightarrow> string \<Rightarrow> vm \<Rightarrow> pod \<Rightarrow> ('w, pod) act" where
  "pod_networks k x prerunner v p =
    bind (fold_act (pod_add_network k x prerunner) (enumerate 0 (s_Networks (vm_spec v))) (p, [], 0)) (\<lambda>(p, networks, _).
    if networks \<noteq> [] then put_annotation ''k8s.v1.cni.cncf.io/networks'' (json_networks x networks) p else ret p)"

definition buildVMPod :: "'w api \<Rightarrow> ext \<Rightarrow> string \<Rightarrow> ('w, pod) act" where
  "buildVMPod k x prerunner =
    bind getObj (\<lambda>v.
    bind (start_pod x prerunner v) (\<lambda>p.
    bind getObj (\<lambda>v'.
    bind (pod_volumes k x prerunner v (add_hugepages v' (add_kernel v' p))) (\<lambda>p.
    bind (fold_act (\<lambda>g. incMain (gpu_resourceName g)) (i_gpus (s_Instance (vm_spec v))) p) (\<lambda>p.
    bind (pod_networks k x prerunner v p) (\<lambda>p.
    bind getObj (\<lambda>v''.
    ret (add_env ''VM_DATA'' (Value (EncodeToString (json_VM x v''))) p))))))))"

text \<open>The target pod of a migration receives the VM and must not run beside a pod of the same VM.
  The affinity is the VM's own object when it has one.\<close>

definition target_affinity :: "string \<Rightarrow> affinity option \<Rightarrow> affinity" where
  "target_affinity vmName af =
    (let a = (case af of None \<Rightarrow> \<lparr>af_nodeHostnames = None, af_podAntiRequired = None, af_other = []\<rparr> | Some a \<Rightarrow> a) in
     a\<lparr>af_podAntiRequired := Some ((case af_podAntiRequired a of None \<Rightarrow> [] | Some ts \<Rightarrow> ts)
        @ [\<lparr>at_label = (''quill.today/vm.name'', vmName), at_topologyKey = ''kubernetes.io/hostname''\<rparr>])\<rparr>)"

definition buildTargetVMPod :: "'w api \<Rightarrow> ext \<Rightarrow> string \<Rightarrow> ('w, pod) act" where
  "buildTargetVMPod k x prerunner =
    bind (buildVMPod k x prerunner) (\<lambda>p.
    bind getObj (\<lambda>v.
    let a = target_affinity (vm_Name v) (ps_affinity (p_spec p));
        p' = add_env ''RECEIVE_MIGRATION'' (Value ''true'') p in
    bind (modObj (\<lambda>v. v\<lparr>vm_spec := (vm_spec v)\<lparr>s_Affinity :=
        (case s_Affinity (vm_spec v) of None \<Rightarrow> None | Some _ \<Rightarrow> Some a)\<rparr>\<rparr>)) (\<lambda>_.
    ret (p'\<lparr>p_spec := (p_spec p')\<lparr>ps_affinity := Some a\<rparr>\<rparr>))))"

section \<open>Well-formed pods\<close>

text \<open>Every mount and every device of every container names a volume of the pod; there is one
  container, the VM manager, and the pod carries the VM's name as its label.\<close>

definition declared :: "pod \<Rightarrow> string \<Rightarrow> bool" where
  "declared p n \<longleftrightarrow> n \<in> pv_name ` set (ps_volumes (p_spec p))"

definition container_ok :: "pod \<Rightarrow> container \<Rightarrow> bool" where
  "container_ok p c \<longleftrightarrow> list_all (\<lambda>mt. declared p (vmt_name mt)) (c_volumeMounts c)
     \<and> list_all (\<lambda>d. declared p (vd_name d)) (c_volumeDevices c)"

definition pod_ok :: "string \<Rightarrow> pod \<Rightarrow> bool" where
  "pod_ok prerunner p \<longleftrightarrow>
     (\<exists>c. ps_containers (p_spec p) = [c] \<and> c_name c = ''vm-manager'' \<and> c_image c = prerunner \<and> container_ok p c)
     \<and> list_all (container_ok p) (ps_initContainers (p_spec p)) \<and> ps_restartNever (p_spec p)"

definition labelled :: "string \<Rightarrow> pod \<Rightarrow> bool" where
  "labelled n p \<longleftrightarrow> gm_get (m_labels (p_meta p)) ''quill.today/vm.name'' = Some n"

lemma declared_edits [simp]:
  "declared (add_volume n src p) n' \<longleftrightarrow> n' = n \<or> declared p n'"
  "declared (on_main f p) n' = declared p n'" "declared (add_mount mt p) n' = declared p n'"
  "declared (add_device d p) n' = declared p n'" "declared (add_env e w p) n' = declared p n'"
  "declared (add_init c p) n' = declared p n'" "declared (sync_init v p) n' = declared p n'"
  "declared (p\<lparr>p_meta := mm\<rparr>) n' = declared p n'" "declared (set_label l nm p) n' = declared p n'"
  "declared (p\<lparr>p_spec := (p_spec p)\<lparr>ps_nodeSelector := ns\<rparr>\<rparr>) n' = declared p n'"
  by (auto simp: declared_def pod_edits sync_init_def set_label_def)

lemma container_ok_edits [simp]:
  "container_ok (on_main f p) = container_ok p" "container_ok (add_init c p) = container_ok p"
  "container_ok (sync_init v p) = container_ok p" "container_ok (p\<lparr>p_meta := mm\<rparr>) = container_ok p"
  "container_ok (p\<lparr>p_spec := (p_spec p)\<lparr>ps_nodeSelector := ns\<rparr>\<rparr>) = container_ok p"
  "container_ok (add_mount mt p) = container_ok p" "container_ok (add_env e w p) = container_ok p"
  "container_ok (add_device d p) = container_ok p"
  by (simp_all add: container_ok_def fun_eq_iff)

lemma container_ok_add_volume: "container_ok p c \<Longrightarrow> container_ok (add_volume n src p) c"
  unfolding container_ok_def by (auto simp: list_all_iff)

lemma add_volume_containers [simp]:
  "ps_containers (p_spec (add_volume n src p)) = ps_containers (p_spec p)"
  "ps_initContainers (p_spec (add_volume n src p)) = ps_initContainers (p_spec p)"
  "ps_restartNever (p_spec (add_volume n src p)) = ps_restartNever (p_spec p)"
  by (simp_all add: add_volume_def)

lemma pod_ok_on_main:
  assumes "pod_ok pr p" "\<And>c. container_ok p c \<Longrightarrow> container_ok p (f c)"
    "\<And>c. c_name (f c) = c_name c" "\<And>c. c_image (f c) = c_image c"
  shows "pod_ok pr (on_main f p)"
  using assms container_ok_edits(1) [of f p] by (auto simp: pod_ok_def on_main_def)

lemma pod_ok_add_volume [simp, intro]: "pod_ok pr p \<Longrightarrow> pod_ok pr (add_volume n src p)"
  by (auto simp: pod_ok_def list_all_iff container_ok_add_volume)

lemma pod_ok_add_mount [simp, intro]: "pod_ok pr p \<Longrightarrow> declared p (vmt_name mt) \<Longrightarrow> pod_ok pr (add_mount mt p)"
  unfolding add_mount_def by (rule pod_ok_on_main) (auto simp: container_ok_def)

lemma pod_ok_add_device [simp, intro]: "pod_ok pr p \<Longrightarrow> declared p (vd_name d) \<Longrightarrow> pod_ok pr (add_device d p)"
  unfolding add_device_def by (rule pod_ok_on_main) (auto simp: container_ok_def)

lemma pod_ok_add_env [simp, intro]: "pod_ok pr p \<Longrightarrow> pod_ok pr (add_env n w p)"
  unfolding add_env_def by (rule pod_ok_on_main) (auto simp: container_ok_def)

lemma pod_ok_increment [simp, intro]: "pod_ok pr p \<Longrightarrow> pod_ok pr (on_main (incrementContainerResource r) p)"
  by (rule pod_ok_on_main) (auto simp: container_ok_def incrementContainerResource_def)

lemma pod_ok_add_init [simp, intro]: "pod_ok pr p \<Longrightarrow> container_ok p c \<Longrightarrow> pod_ok pr (add_init c p)"
  using container_ok_edits(2) [of c p] by (auto simp: pod_ok_def add_init_def)

lemma pod_ok_sync_init [simp, intro]: "pod_ok pr p \<Longrightarrow> pod_ok pr (sync_init v p)"
  using container_ok_edits(3) [of v p]
  by (auto simp: pod_ok_def sync_init_def list_all_iff container_ok_def)

lemma pod_ok_meta [simp]: "pod_ok pr (p\<lparr>p_meta := mm\<rparr>) = pod_ok pr p"
  by (simp add: pod_ok_def)

lemma pod_ok_nodeSelector [simp]: "pod_ok pr (p\<lparr>p_spec := (p_spec p)\<lparr>ps_nodeSelector := ns\<rparr>\<rparr>) = pod_ok pr p"
  by (simp add: pod_ok_def)

lemma pod_ok_set_label [simp]: "pod_ok pr (set_label l n p) = pod_ok pr p"
  by (simp add: set_label_def)

lemma labelled_edits [simp]:
  "labelled nm (add_volume n src p) = labelled nm p" "labelled nm (on_main f p) = labelled nm p"
  "labelled nm (add_mount mt p) = labelled nm p" "labelled nm (add_device d p) = labelled nm p"
  "labelled nm (add_env e w p) = labelled nm p" "labelled nm (add_init c p) = labelled nm p"
  "labelled nm (sync_init v p) = labelled nm p" "labelled nm (p\<lparr>p_spec := sp\<rparr>) = labelled nm p"
  "labelled nm (p\<lparr>p_meta := (p_meta p)\<lparr>m_annotations := an\<rparr>\<rparr>) = labelled nm p"
  by (simp_all add: labelled_def pod_edits sync_init_def)

lemma labelled_set_label: "labelled n (set_label ''quill.today/vm.name'' n p)"
  by (simp add: labelled_def set_label_def gm_get_def)

section \<open>The claims of a pod\<close>

definition claims :: "pod \<Rightarrow> (string \<times> string) list" where
  "claims p = List.map_filter (\<lambda>pv. case pv_source pv of PersistentVolumeClaim c \<Rightarrow> Some (pv_name pv, c) | _ \<Rightarrow> None)
     (ps_volumes (p_spec p))"

lemma claims_edits [simp]:
  "claims (add_volume n (EmptyDir m) p) = claims p" "claims (add_volume n (Secret m) p) = claims p"
  "claims (add_volume n (HostPath m) p) = claims p"
  "claims (add_volume n (PersistentVolumeClaim m) p) = claims p @ [(n, m)]"
  "claims (on_main f p) = claims p" "claims (add_mount mt p) = claims p" "claims (add_device d p) = claims p"
  "claims (add_env e w p) = claims p" "claims (add_init c p) = claims p" "claims (sync_init v p) = claims p"
  "claims (p\<lparr>p_meta := mm\<rparr>) = claims p" "claims (set_label l nm p) = claims p"
  "claims (p\<lparr>p_spec := (p_spec p)\<lparr>ps_nodeSelector := ns\<rparr>\<rparr>) = claims p"
  by (simp_all add: claims_def pod_edits sync_init_def set_label_def map_filter_def)

text \<open>The claims a VM volume contributes: one, unless another source comes first in the switch, the
  volume has no claim, or it is plugged in later.\<close>

definition is_claim :: "volume \<Rightarrow> bool" where
  "is_claim vol \<longleftrightarrow> v_ContainerDisk vol = None \<and> v_CloudInit vol = None \<and> v_ContainerRootfs vol = None
     \<and> v_MemorySnapshot vol = None
     \<and> (v_PersistentVolumeClaim vol \<noteq> None \<or> v_DataVolume vol \<noteq> None \<or> v_VirtualDisk vol \<noteq> None)"

definition claim_of :: "ext \<Rightarrow> volume \<Rightarrow> (string \<times> string) list" where
  "claim_of x vol = (if is_claim vol \<and> \<not> IsHotpluggable x vol then [(v_name vol, PVCName x vol)] else [])"

section \<open>The builder keeps pods well-formed\<close>

lemma returns_writePod: "(\<And>v. Q (sync_init v p)) \<Longrightarrow> returns Q (writePod p)"
  unfolding writePod_def by (intro returns_bind_any returns)

lemma returns_incMain: "(\<And>v. Q (sync_init v (on_main (incrementContainerResource r) p))) \<Longrightarrow> returns Q (incMain r p)"
  unfolding incMain_def by (rule returns_writePod)

lemma returns_put_annotation:
  assumes "\<And>v an. Q (sync_init v (p\<lparr>p_meta := (p_meta p)\<lparr>m_annotations := an\<rparr>\<rparr>))"
  shows "returns Q (put_annotation a t p)"
  unfolding put_annotation_def by (intro returns_bind_any returns_writePod assms)

definition good_pod :: "string \<Rightarrow> string \<Rightarrow> (string \<times> string) list \<Rightarrow> pod \<Rightarrow> bool" where
  "good_pod pr nm cl p \<longleftrightarrow> pod_ok pr p \<and> labelled nm p \<and> claims p = cl"

lemma mount_simps [simp]: "vmt_name (mount n path) = n" "vmt_path (mount n path) = path"
  "vmt_name (volume_mnt vol) = v_name vol"
  by (simp_all add: mount_def volume_mnt_def)

lemma container_ok_empty [simp]:
  "container_ok p (empty_container\<lparr>c_name := a, c_image := b, c_resources := r, c_command := cm\<rparr>)"
  "container_ok p (empty_container\<lparr>c_name := a, c_image := b, c_resources := r, c_privileged := pv, c_command := cm\<rparr>)"
  "container_ok p (empty_container\<lparr>c_name := a, c_image := b, c_imagePullPolicy := pp, c_resources := r,
     c_args := ar, c_volumeMounts := ms\<rparr>) \<longleftrightarrow> list_all (\<lambda>mt. declared p (vmt_name mt)) ms"
  by (simp_all add: container_ok_def empty_container_def)

lemma base_pod_ok: "pod_ok pr (base_pod x pr v)"
  by (simp add: pod_ok_def base_pod_def container_ok_def declared_def empty_container_def)

lemma base_pod_claims [simp]: "claims (base_pod x pr v) = []"
  by (simp add: claims_def base_pod_def map_filter_def)

lemma start_pod_good: "returns (good_pod pr (vm_Name v) []) (start_pod x pr v)"
  unfolding start_pod_def
  by (rule returns_bind [where Q = "\<lambda>p. pod_ok pr p \<and> claims p = []"], rule returns_incMain, simp add: base_pod_ok)
    (rule returns_bind [where Q = "\<lambda>p. pod_ok pr p \<and> claims p = []"], rule returns_incMain, simp,
     rule returns_writePod, simp add: good_pod_def labelled_set_label)

lemma good_add_kernel: "good_pod pr nm cl p \<Longrightarrow> good_pod pr nm cl (add_kernel v p)"
  by (simp add: good_pod_def add_kernel_def Let_def split: option.split)

lemma good_add_hugepages: "good_pod pr nm cl p \<Longrightarrow> good_pod pr nm cl (add_hugepages v p)"
  by (simp add: good_pod_def add_hugepages_def split: option.split)

lemma good_scratch_volume: "good_pod pr nm cl p \<Longrightarrow> good_pod pr nm cl (scratch_volume vol p)"
  by (simp add: good_pod_def scratch_volume_def)

lemma good_init_volume: "good_pod pr nm cl p \<Longrightarrow> good_pod pr nm cl (init_volume v vol img pol ar p)"
  using good_scratch_volume [of pr nm cl p vol]
  by (simp add: good_pod_def init_volume_def) (simp add: scratch_volume_def)

lemma container_ok_more:
  "container_ok p c \<Longrightarrow> declared p n \<Longrightarrow> container_ok p (c\<lparr>c_volumeMounts := c_volumeMounts c @ [mount n path]\<rparr>)"
  "container_ok p (c\<lparr>c_args := ar, c_volumeMounts := ms\<rparr>) = container_ok p (c\<lparr>c_volumeMounts := ms\<rparr>)"
  by (simp_all add: container_ok_def)

lemma user_data_ok:
  assumes "good_pod pr nm cl p" "container_ok p c" "user_data ci c p = (t, c', p')"
  shows "good_pod pr nm cl p' \<and> container_ok p' c'"
  using assms by (auto simp: user_data_def good_pod_def container_ok_more container_ok_add_volume split: if_splits)

lemma network_data_ok:
  assumes "good_pod pr nm cl p" "container_ok p c" "network_data ci p = (t, p')"
  shows "good_pod pr nm cl p' \<and> container_ok p' c"
  using assms
  by (auto simp: network_data_def good_pod_def container_ok_add_volume split: if_splits)

lemma good_cloud_init_volume:
  assumes "good_pod pr nm cl p"
  shows "good_pod pr nm cl (cloud_init_volume prr v vol ci p)"
proof -
  obtain t1 c1 p1 where u: "user_data ci (empty_container\<lparr>c_name := ''init-volume-'' @ v_name vol, c_image := prr,
      c_resources := s_Resources (vm_spec v), c_command := [''virt-init-volume'']\<rparr>) p = (t1, c1, p1)"
    by (cases "user_data ci (empty_container\<lparr>c_name := ''init-volume-'' @ v_name vol, c_image := prr,
      c_resources := s_Resources (vm_spec v), c_command := [''virt-init-volume'']\<rparr>) p")
  obtain t2 p2 where n: "network_data ci p1 = (t2, p2)" by (cases "network_data ci p1")
  have "good_pod pr nm cl p1 \<and> container_ok p1 c1" using user_data_ok [OF assms _ u] by simp
  then have "good_pod pr nm cl p2 \<and> container_ok p2 c1" using network_data_ok [OF _ _ n] by blast
  then have "good_pod pr nm cl (scratch_volume vol p2)"
    and "container_ok (scratch_volume vol p2) (c1\<lparr>c_volumeMounts := c_volumeMounts c1 @ [volume_mnt vol]\<rparr>)"
    by (simp_all add: good_scratch_volume)
      (simp add: scratch_volume_def add_mount_def volume_mnt_def container_ok_more container_ok_add_volume)
  then show ?thesis
    using u n by (simp add: cloud_init_volume_def Let_def good_pod_def container_ok_more(2))
qed

lemma claim_volume_good:
  "good_pod pr nm cl p \<Longrightarrow> is_claim vol \<Longrightarrow>
    returns (\<lambda>st. good_pod pr nm (cl @ claim_of x vol) (fst st)) (claim_volume k x v vol p bs)"
  unfolding claim_volume_def
  by (intro returns_bind_any returns) (simp add: good_pod_def Let_def claim_of_def)

lemma pod_add_volume_good:
  "good_pod pr nm cl (fst st) \<Longrightarrow>
    returns (\<lambda>st. good_pod pr nm (cl @ claim_of x vol) (fst st)) (pod_add_volume k x prr vol st)"
  unfolding pod_add_volume_def Let_def case_prod_beta
  by (intro returns_bind_any returns claim_volume_good)
    (auto simp: good_init_volume good_cloud_init_volume good_scratch_volume claim_of_def is_claim_def)

lemma good_annotations [simp]:
  "good_pod pr nm cl (p\<lparr>p_meta := (p_meta p)\<lparr>m_annotations := an\<rparr>\<rparr>) = good_pod pr nm cl p"
  "good_pod pr nm cl (p\<lparr>p_spec := (p_spec p)\<lparr>ps_nodeSelector := ns\<rparr>\<rparr>) = good_pod pr nm cl p"
  by (simp_all add: good_pod_def)

lemma good_sync_init [simp, intro]: "good_pod pr nm cl p \<Longrightarrow> good_pod pr nm cl (sync_init v p)"
  by (simp add: good_pod_def)

lemma good_incMain: "good_pod pr nm cl p \<Longrightarrow> returns (good_pod pr nm cl) (incMain r p)"
  by (rule returns_incMain) (simp add: good_pod_def)

lemma good_add_env [simp]: "good_pod pr nm cl p \<Longrightarrow> good_pod pr nm cl (add_env n w p)"
  by (simp add: good_pod_def)

lemma kube_ovn_good: "good_pod pr nm cl p \<Longrightarrow> returns (good_pod pr nm cl) (kube_ovn ifc cfg p)"
  unfolding kube_ovn_def
  by (rule returns_bind [where Q = "good_pod pr nm cl"], rule returns_writePod, simp)
    (rule returns_bind [where Q = "good_pod pr nm cl"], rule returns_put_annotation, simp,
     rule returns_ret, simp add: good_pod_def)

lemma vhost_user_good: "good_pod pr nm cl p \<Longrightarrow> returns (\<lambda>r. good_pod pr nm cl (fst r)) (vhost_user x ifc nd p n)"
  unfolding vhost_user_def
  by (intro returns returns_bind [OF kube_ovn_good]) (auto simp: good_pod_def userspace_net_def)

lemma multus_good:
  assumes "good_pod pr nm cl (fst st)"
  shows "returns (\<lambda>r. good_pod pr nm cl (fst r)) (multus k x v i nn ifc st)"
proof -
  obtain p ns n where st: "st = (p, ns, n)" by (cases st)
  have inc: "returns (good_pod pr nm cl) (if r \<noteq> [] then incMain r p else ret p)" for r
    using assms st by (simp add: good_incMain returns_ret)
  show ?thesis
    unfolding multus_def Let_def st prod.case
    by (rule returns_bind_any, rule returns_case_sum, rule returns_throw)
      (rule returns_bind [OF inc], rule returns_bind [OF vhost_user_good [where pr = pr and nm = nm and cl = cl]],
       simp_all add: returns_ret case_prod_beta)
qed

lemma pod_add_network_good:
  "good_pod pr nm cl (fst st) \<Longrightarrow> returns (\<lambda>r. good_pod pr nm cl (fst r)) (pod_add_network k x prr inet st)"
  unfolding pod_add_network_def Let_def case_prod_beta
  by (intro returns_bind_any returns multus_good) (auto simp: good_pod_def split: option.split)

lemma pod_volumes_good:
  assumes "good_pod pr nm cl p"
  shows "returns (good_pod pr nm (cl @ concat (map (claim_of x) (s_Volumes (vm_spec v))))) (pod_volumes k x prr v p)"
proof -
  have "returns (\<lambda>st. good_pod pr nm (cl @ concat (map (claim_of x) (s_Volumes (vm_spec v)))) (fst st))
      (fold_act (pod_add_volume k x prr) (s_Volumes (vm_spec v)) (p, []))"
    by (rule returns_fold_act [where I = "\<lambda>vs st. good_pod pr nm (cl @ concat (map (claim_of x) vs)) (fst st)"])
      (use assms pod_add_volume_good in \<open>fastforce+\<close>)
  then show ?thesis
    unfolding pod_volumes_def case_prod_beta by (rule returns_bind) (simp add: returns_ret)
qed

lemma pod_networks_good:
  assumes "good_pod pr nm cl p"
  shows "returns (good_pod pr nm cl) (pod_networks k x prr v p)"
proof -
  have "returns (\<lambda>st. good_pod pr nm cl (fst st))
      (fold_act (pod_add_network k x prr) (enumerate 0 (s_Networks (vm_spec v))) (p, [], 0))"
    by (rule returns_fold_act_inv) (simp_all add: assms pod_add_network_good)
  then show ?thesis
    unfolding pod_networks_def case_prod_beta
    by (rule returns_bind) (simp add: returns_ret returns_put_annotation good_sync_init)
qed

text \<open>What \<open>buildVMPod\<close> returns is what its last step adds the VM's JSON to.\<close>

lemma buildVMPod_Ok:
  assumes "buildVMPod k x pr s = (Ok p, s')"
  obtains q where "good_pod pr (vm_Name (obj s)) (concat (map (claim_of x) (s_Volumes (vm_spec (obj s))))) q"
    and "p = add_env ''VM_DATA'' (Value (EncodeToString (json_VM x (obj s')))) q"
proof -
  obtain p0 s0 p1 s1 p2 s2 q where
    start: "start_pod x pr (obj s) s = (Ok p0, s0)"
    and vol: "pod_volumes k x pr (obj s) (add_hugepages (obj s0) (add_kernel (obj s0) p0)) s0 = (Ok p1, s1)"
    and gpu: "fold_act (\<lambda>g. incMain (gpu_resourceName g)) (i_gpus (s_Instance (vm_spec (obj s)))) p1 s1 = (Ok p2, s2)"
    and net: "pod_networks k x pr (obj s) p2 s2 = (Ok q, s')"
    and p: "p = add_env ''VM_DATA'' (Value (EncodeToString (json_VM x (obj s')))) q"
    using assms unfolding buildVMPod_def bind_Ok getObj_def ret_def by auto
  let ?cl = "concat (map (claim_of x) (s_Volumes (vm_spec (obj s))))"
  let ?good = "good_pod pr (vm_Name (obj s)) ?cl"
  have "good_pod pr (vm_Name (obj s)) [] (add_hugepages (obj s0) (add_kernel (obj s0) p0))"
    using returnsD [OF start_pod_good start] by (simp add: good_add_kernel good_add_hugepages)
  then have "?good p1" using returnsD [OF pod_volumes_good vol] by fastforce
  then have "?good p2"
    using returnsD [OF returns_fold_act_inv [where I = ?good] gpu] good_incMain by blast
  then have "?good q" using returnsD [OF pod_networks_good net] by blast
  then show thesis using p that by blast
qed

section \<open>Pods of VMs without annotations\<close>

definition bare :: "pod \<Rightarrow> bool" where
  "bare p \<longleftrightarrow> m_annotations (p_meta p) = None"

lemma bare_edits [simp]:
  "bare (add_volume n src p) = bare p" "bare (on_main f p) = bare p"
  "bare (add_mount mt p) = bare p" "bare (add_device d p) = bare p"
  "bare (add_env e w p) = bare p" "bare (add_init c p) = bare p"
  "bare (sync_init v p) = bare p" "bare (p\<lparr>p_spec := sp\<rparr>) = bare p" "bare (set_label l n p) = bare p"
  by (simp_all add: bare_def pod_edits sync_init_def set_label_def)

lemma put_annotation_bare: "bare p \<Longrightarrow> returns Q (put_annotation a t p)"
  by (simp add: put_annotation_def bare_def gm_put_def returns_def bind_Ok lift_def)

lemma bare_parts [simp]:
  "bare (add_kernel v p) = bare p" "bare (add_hugepages v p) = bare p" "bare (scratch_volume vol p) = bare p"
  "bare (init_volume v vol img pol ar p) = bare p" "bare (userspace_net p) = bare p"
  "bare (cloud_init_volume prr v vol ci p) = bare p"
  by (simp_all add: add_kernel_def add_hugepages_def scratch_volume_def init_volume_def userspace_net_def
      cloud_init_volume_def user_data_def network_data_def Let_def split: option.split)

lemma bare_incMain: "bare p \<Longrightarrow> returns bare (incMain r p)"
  by (rule returns_incMain) simp

lemma bare_start: "m_annotations (vm_meta v) = None \<Longrightarrow> returns bare (start_pod x pr v)"
  unfolding start_pod_def
  by (rule returns_bind [OF bare_incMain], simp add: bare_def base_pod_def)
    (rule returns_bind [OF bare_incMain], simp, rule returns_writePod, simp)

lemma bare_pod_add_volume: "bare (fst st) \<Longrightarrow> returns (\<lambda>st. bare (fst st)) (pod_add_volume k x prr vol st)"
  unfolding pod_add_volume_def claim_volume_def Let_def case_prod_beta
  by (intro returns_bind_any returns) simp_all

lemma bare_pod_volumes: "bare p \<Longrightarrow> returns bare (pod_volumes k x prr v p)"
  unfolding pod_volumes_def case_prod_beta
  by (rule returns_bind [OF returns_fold_act_inv [where I = "\<lambda>st. bare (fst st)"]])
    (simp_all add: bare_pod_add_volume returns_ret)

lemma bare_vhost_user: "bare p \<Longrightarrow> returns (\<lambda>r. bare (fst r)) (vhost_user x ifc nd p n)"
proof -
  assume "bare p"
  then have "returns Q (kube_ovn ifc cfg p)" for cfg Q
    unfolding kube_ovn_def
    by (intro returns_bind [where Q = bare, OF returns_writePod] returns_bind [OF put_annotation_bare]) simp_all
  then show ?thesis
    unfolding vhost_user_def by (intro returns returns_bind) (use \<open>bare p\<close> in simp_all)
qed

text \<open>Once a Multus network has been handled the selection list is not empty.\<close>

definition netst_inv :: "network list \<Rightarrow> netst \<Rightarrow> bool" where
  "netst_inv nets st \<longleftrightarrow> bare (fst st) \<and> (list_ex (\<lambda>n. n_Multus n \<noteq> None) nets \<longrightarrow> fst (snd st) \<noteq> [])"

lemma netst_inv_multus:
  assumes "bare (fst st)"
  shows "returns (netst_inv nets) (multus k x v i nn ifc st)"
proof -
  obtain p ns n where st: "st = (p, ns, n)" by (cases st)
  have inc: "returns bare (if r \<noteq> [] then incMain r p else ret p)" for r
    using assms st by (simp add: bare_incMain returns_ret)
  show ?thesis
    unfolding multus_def Let_def st prod.case
    by (rule returns_bind_any, rule returns_case_sum, rule returns_throw)
      (rule returns_bind [OF inc], rule returns_bind [OF bare_vhost_user],
       simp_all add: returns_ret case_prod_beta netst_inv_def)
qed

lemma netst_inv_step:
  assumes "netst_inv nets st"
  shows "returns (netst_inv (nets @ [snd inet])) (pod_add_network k x prr inet st)"
  using assms unfolding pod_add_network_def Let_def case_prod_beta
  by (intro returns_bind_any returns netst_inv_multus) (auto simp: netst_inv_def split: option.split)

lemma bare_pod_networks:
  assumes "bare p" "list_ex (\<lambda>n. n_Multus n \<noteq> None) (s_Networks (vm_spec v))"
  shows "returns Q (pod_networks k x prr v p)"
proof -
  let ?nets = "enumerate 0 (s_Networks (vm_spec v))"
  have "returns (netst_inv (map snd ?nets)) (fold_act (pod_add_network k x prr) ?nets (p, [], 0))"
    by (rule returns_fold_act [where I = "\<lambda>ns. netst_inv (map snd ns)"])
      (simp_all add: netst_inv_step, simp add: netst_inv_def assms(1))
  then show ?thesis
    unfolding pod_networks_def case_prod_beta
    by (rule returns_bind) (use assms(2) in \<open>simp add: netst_inv_def put_annotation_bare\<close>)
qed

section \<open>Properties\<close>

text \<open>C6: Whenever \<open>buildVMPod\<close> succeeds, the pod has exactly one container, the VM manager on the
  prerunner image, never restarts, carries the VM's name as the label the migration's anti-affinity
  selects, and every volume mount and device of every container and init container names a volume of
  the pod.\<close>

theorem buildVMPod_well_formed:
  assumes "buildVMPod k x pr s = (Ok p, s')"
  shows "pod_ok pr p \<and> labelled (vm_Name (obj s)) p"
  using assms by (rule buildVMPod_Ok) (simp add: good_pod_def)

text \<open>C9: The claims mounted in the VM pod are exactly the claims of the VM's volumes that are not
  hot-pluggable, in the order of the spec and under the volumes' names; hot-pluggable volumes are
  left to the hotplug pod.\<close>

theorem buildVMPod_claims:
  assumes "buildVMPod k x pr s = (Ok p, s')"
  shows "claims p = map (\<lambda>vol. (v_name vol, PVCName x vol))
     (filter (\<lambda>vol. is_claim vol \<and> \<not> IsHotpluggable x vol) (s_Volumes (vm_spec (obj s))))"
proof -
  have "concat (map (claim_of x) vs) = map (\<lambda>vol. (v_name vol, PVCName x vol))
     (filter (\<lambda>vol. is_claim vol \<and> \<not> IsHotpluggable x vol) vs)" for vs
    by (induction vs) (simp_all add: claim_of_def)
  with assms show ?thesis by - (erule buildVMPod_Ok, simp add: good_pod_def)
qed

text \<open>C39: The prerunner recovers the VM from the pod: the last environment variable of the VM manager
  is \<open>VM_DATA\<close>, and base64-decoding it gives the JSON text of the VM as the controller holds it when
  the pod is finished.\<close>

theorem buildVMPod_VM_DATA_roundtrip:
  assumes "buildVMPod k x pr s = (Ok p, s')"
  shows "\<exists>c t. ps_containers (p_spec p) = [c] \<and> last (c_env c) = \<lparr>ev_name = ''VM_DATA'', ev_value = Value t\<rparr>
     \<and> DecodeString t = Some (json_VM x (obj s'))"
  using assms
  by (rule buildVMPod_Ok) (auto simp: good_pod_def pod_ok_def add_env_def on_main_def Decode_Encode)

text \<open>A VM without annotations that has a Multus network never gets a pod: the builder writes the
  network list into the pod's annotations, which are the VM's nil map, and panics (or stops at an
  earlier error).\<close>

theorem buildVMPod_nil_annotations:
  assumes "m_annotations (vm_meta (obj s)) = None"
    and "list_ex (\<lambda>n. n_Multus n \<noteq> None) (s_Networks (vm_spec (obj s)))"
  shows "\<not> is_ok (fst (buildVMPod k x pr s))"
proof -
  have "buildVMPod k x pr s \<noteq> (Ok p, s')" for p s'
  proof
    assume "buildVMPod k x pr s = (Ok p, s')"
    then obtain p0 s0 p1 s1 p2 s2 q where
      start: "start_pod x pr (obj s) s = (Ok p0, s0)"
      and vol: "pod_volumes k x pr (obj s) (add_hugepages (obj s0) (add_kernel (obj s0) p0)) s0 = (Ok p1, s1)"
      and gpu: "fold_act (\<lambda>g. incMain (gpu_resourceName g)) (i_gpus (s_Instance (vm_spec (obj s)))) p1 s1 = (Ok p2, s2)"
      and net: "pod_networks k x pr (obj s) p2 s2 = (Ok q, s')"
      unfolding buildVMPod_def bind_Ok getObj_def ret_def by auto
    have "bare p0" using returnsD [OF bare_start start] assms(1) by blast
    then have "bare p1" using returnsD [OF bare_pod_volumes vol] by simp
    then have "bare p2" using returnsD [OF returns_fold_act_inv [where I = bare] gpu] bare_incMain by blast
    then show False using returnsD [OF bare_pod_networks [where Q = "\<lambda>_. False"] net] assms(2) by blast
  qed
  then show ?thesis by (cases "buildVMPod k x pr s"; cases "fst (buildVMPod k x pr s)") auto
qed

text \<open>When cloud-init network data comes from a secret, the init container that assembles the
  cloud-init image is told to read the secret's path, but the secret is mounted only in the main
  container: the init container has no mount of it.\<close>

theorem network_data_secret_not_mounted:
  assumes "NetworkData ci = []" "NetworkDataBase64 ci = []" "NetworkDataSecretName ci \<noteq> []"
    and "v_name vol \<noteq> ''virtmanager-cloud-init-network-data''"
  shows "\<exists>c. ps_initContainers (p_spec (cloud_init_volume pr v vol ci p)) = ps_initContainers (p_spec p) @ [c]
     \<and> ''/mnt/virtmanager-cloud-init-network-data/value'' \<in> set (c_args c)
     \<and> list_all (\<lambda>mt. vmt_name mt \<noteq> ''virtmanager-cloud-init-network-data'') (c_volumeMounts c)"
  using assms
  by (simp add: cloud_init_volume_def Let_def user_data_def network_data_def scratch_volume_def
      pod_edits empty_container_def)

text \<open>\<open>incrementContainerResource\<close> adds one, rounded to a whole number and within 64 bits, to the
  named resource in both the requests and the limits and changes no other resource, whether or not
  the maps existed.\<close>

theorem increment_counts:
  assumes "in_int64 (q_Value (rl_get (Requests (c_resources c)) r) + 1)"
    and "in_int64 (q_Value (rl_get (Limits (c_resources c)) r) + 1)"
  shows "q_Value (rl_get (Requests (c_resources (incrementContainerResource r c))) r') =
      q_Value (rl_get (Requests (c_resources c)) r') + (if r' = r then 1 else 0)
    \<and> q_Value (rl_get (Limits (c_resources (incrementContainerResource r c))) r') =
      q_Value (rl_get (Limits (c_resources c)) r') + (if r' = r then 1 else 0)"
  using assms
  by (auto simp: incrementContainerResource_def count_up_def rl_get_def gm_get_def gm_make_def wrap64_id
      split: option.split)

section \<open>Concrete runs\<close>

definition run_on :: "vm \<Rightarrow> (unit, vm, call) rst" where
  "run_on v = \<lparr>world = (), obj = v, trace = []\<rparr>"

definition disk_vm :: vm where
  "disk_vm = (let v = plain_vm ''web'' VirtualMachineScheduling in
     v\<lparr>vm_spec := (vm_spec v)\<lparr>s_Volumes := [example_volume]\<rparr>\<rparr>)"

definition one_claim :: "unit api" where
  "one_claim = empty_cluster\<lparr>kGetPVC := (\<lambda>_ _. Inr \<lparr>pvc_meta = empty_meta, pvc_volumeMode = None,
     pvc_dataSource = None, pvc_accessModes = [], pvc_requests = None\<rparr>)\<rparr>"

lemma succeeds_writePod: "succeeds (writePod p)" "succeeds (incMain r p)" "succeeds (start_pod x pr v)"
  unfolding start_pod_def incMain_def writePod_def
  by (intro succeeds_bind; simp add: succeeds_def modObj_def getObj_def ret_def)+

lemma disk_vm_claim: "succeeds (pod_add_volume one_claim library pr example_volume st)"
  unfolding pod_add_volume_def claim_volume_def
  by (cases st) (simp add: example_volume_def claim_name_def one_claim_def IsReady_def IsBlock_def getPVC_def Let_def
      succeeds_def act_defs)

lemma one_volume_builds:
  assumes vs: "s_Volumes (vm_spec v) = [example_volume]" "s_Networks (vm_spec v) = []" "i_gpus (s_Instance (vm_spec v)) = []"
  shows "\<exists>p s'. buildVMPod one_claim library ''img'' (run_on v) = (Ok p, s')"
proof -
  have vol: "succeeds (pod_volumes one_claim library ''img'' v p)" for p
    unfolding pod_volumes_def vs fold_act.simps case_prod_beta
    by (intro succeeds_bind disk_vm_claim succeeds_ret)
  have net: "succeeds (pod_networks one_claim library ''img'' v p)" for p
    unfolding pod_networks_def vs by (simp add: succeeds_ret)
  obtain p0 s0 where "start_pod library ''img'' v (run_on v) = (Ok p0, s0)"
    using succeeds_writePod(3) unfolding succeeds_def by blast
  moreover obtain p1 s1 where
    "pod_volumes one_claim library ''img'' v (add_hugepages (obj s0) (add_kernel (obj s0) p0)) s0 = (Ok p1, s1)"
    using vol unfolding succeeds_def by blast
  moreover obtain p2 s2 where "pod_networks one_claim library ''img'' v p1 s1 = (Ok p2, s2)"
    using net unfolding succeeds_def by blast
  moreover have "obj (run_on v) = v" by (simp add: run_on_def)
  ultimately show ?thesis
    unfolding buildVMPod_def bind_Ok getObj_def ret_def by (auto simp: vs bind_Ok ret_def)
qed

lemma disk_vm_builds: "\<exists>p s'. buildVMPod one_claim library ''img'' (run_on disk_vm) = (Ok p, s')"
  by (rule one_volume_builds) (simp_all add: disk_vm_def plain_vm_def Let_def)

theorem buildVMPod_well_formed_witness:
  "\<exists>p s'. buildVMPod one_claim library ''img'' (run_on disk_vm) = (Ok p, s') \<and> pod_ok ''img'' p \<and> labelled ''web'' p"
proof -
  obtain p s' where "buildVMPod one_claim library ''img'' (run_on disk_vm) = (Ok p, s')"
    using disk_vm_builds by blast
  moreover have "vm_Name (obj (run_on disk_vm)) = ''web''"
    by (simp add: run_on_def disk_vm_def plain_vm_def)
  ultimately show ?thesis using buildVMPod_well_formed by metis
qed

theorem buildVMPod_claims_witness:
  "\<exists>p s'. buildVMPod one_claim library ''img'' (run_on disk_vm) = (Ok p, s') \<and> claims p = [(''data'', ''claim'')]"
proof -
  obtain p s' where b: "buildVMPod one_claim library ''img'' (run_on disk_vm) = (Ok p, s')"
    using disk_vm_builds by blast
  have "claims p = [(''data'', ''claim'')]"
    unfolding buildVMPod_claims [OF b]
    by (simp add: run_on_def disk_vm_def plain_vm_def example_volume_def is_claim_def library_def)
  with b show ?thesis by blast
qed

theorem buildVMPod_VM_DATA_roundtrip_witness:
  "\<exists>p s' c t. buildVMPod one_claim library ''img'' (run_on disk_vm) = (Ok p, s') \<and> ps_containers (p_spec p) = [c]
     \<and> last (c_env c) = \<lparr>ev_name = ''VM_DATA'', ev_value = Value t\<rparr>
     \<and> DecodeString t = Some (json_VM library (obj s'))"
  using disk_vm_builds buildVMPod_VM_DATA_roundtrip by blast

definition multus_vm :: vm where
  "multus_vm = (let v = plain_vm ''net'' VirtualMachineScheduling in
     v\<lparr>vm_spec := (vm_spec v)\<lparr>s_Networks := [\<lparr>n_name = ''n0'', n_Pod = False, n_Multus = Some ''nad''\<rparr>]\<rparr>\<rparr>)"

theorem buildVMPod_nil_annotations_witness:
  "\<not> is_ok (fst (buildVMPod empty_cluster library ''img'' (run_on multus_vm)))"
  by (rule buildVMPod_nil_annotations) (simp_all add: run_on_def multus_vm_def plain_vm_def empty_meta_def)

definition secret_cloud_init :: cloud_init where
  "secret_cloud_init = \<lparr>UserData = ''u'', UserDataBase64 = [], UserDataSecretName = [], NetworkData = [],
     NetworkDataBase64 = [], NetworkDataSecretName = ''secret''\<rparr>"

theorem network_data_secret_not_mounted_witness:
  "\<exists>c. ps_initContainers (p_spec (cloud_init_volume ''img'' disk_vm example_volume secret_cloud_init empty_pod))
       = ps_initContainers (p_spec empty_pod) @ [c]
     \<and> ''/mnt/virtmanager-cloud-init-network-data/value'' \<in> set (c_args c)
     \<and> list_all (\<lambda>mt. vmt_name mt \<noteq> ''virtmanager-cloud-init-network-data'') (c_volumeMounts c)"
  by (rule network_data_secret_not_mounted) (simp_all add: secret_cloud_init_def example_volume_def)

theorem increment_counts_witness:
  "q_Value (rl_get (Requests (c_resources (incrementContainerResource ''gpu'' empty_container))) ''gpu'') = 1"
  using increment_counts [of empty_container "''gpu''" "''gpu''"]
  by (simp add: empty_container_def rl_get_def gm_get_def in_int64_def q_Value_def)

end
