(* ===== verification/Go_Sort.thy ===== *)
theory Go_Sort
  imports "HOL-Library.Multiset"
begin

text \<open>
  \<open>sort.Slice\<close> of Go's library, as the insertion sort it is for at most twelve elements: each element
  moves left while the comparison holds. For longer slices the library permutes elements that compare
  equal differently; the lemmas here, a permutation and sorted, hold of its result too and are all
  that the properties use.
\<close>

text \<open>The sorted prefix is kept reversed.\<close>

fun sink :: "('a \<Rightarrow> 'a \<Rightarrow> bool) \<Rightarrow> 'a \<Rightarrow> 'a list \<Rightarrow> 'a list" where
  "sink lt a [] = [a]"
| "sink lt a (y # ys) = (if lt a y then y # sink lt a ys else a # y # ys)"

definition sort_Slice :: "('a \<Rightarrow> 'a \<Rightarrow> bool) \<Rightarrow> 'a list \<Rightarrow> 'a list" where
  "sort_Slice lt xs = rev (fold (sink lt) xs [])"

lemma mset_sink: "mset (sink lt a ys) = add_mset a (mset ys)"
  by (induction ys) auto

lemma set_sink [simp]: "set (sink lt a ys) = insert a (set ys)"
  using mset_sink [of lt a ys] by (metis set_mset_add_mset_insert set_mset_mset)

lemma mset_fold_sink: "mset (fold (sink lt) xs acc) = mset xs + mset acc"
  by (induction xs arbitrary: acc) (simp_all add: mset_sink)

lemma mset_sort_Slice [simp]: "mset (sort_Slice lt xs) = mset xs"
  by (simp add: sort_Slice_def mset_fold_sink)

lemma set_sort_Slice [simp]: "set (sort_Slice lt xs) = set xs"
  by (metis mset_sort_Slice set_mset_mset)

lemma length_sort_Slice [simp]: "length (sort_Slice lt xs) = length xs"
  by (metis mset_sort_Slice size_mset)

lemma sorted_sink:
  assumes "transp le" "\<And>a b. lt a b \<Longrightarrow> le a b" "\<And>a b. \<not> lt a b \<Longrightarrow> le b a"
  shows "sorted_wrt (\<lambda>a b. le b a) ys \<Longrightarrow> sorted_wrt (\<lambda>a b. le b a) (sink lt a ys)"
proof (induction ys)
  case (Cons y ys)
  then show ?case
    using assms(2) [of a y] assms(3) [of a y] transpD [OF assms(1)] by (auto intro: assms)
qed simp

text \<open>The result is sorted, for every comparison that agrees with a transitive and total order.\<close>

lemma sort_Slice_sorted:
  assumes "transp le" "\<And>a b. lt a b \<Longrightarrow> le a b" "\<And>a b. \<not> lt a b \<Longrightarrow> le b a"
  shows "sorted_wrt le (sort_Slice lt xs)"
proof -
  have "sorted_wrt (\<lambda>a b. le b a) (fold (sink lt) xs acc)" if "sorted_wrt (\<lambda>a b. le b a) acc" for acc
    using that by (induction xs arbitrary: acc) (simp_all add: sorted_sink [OF assms])
  from this [of "[]"] show ?thesis by (simp add: sort_Slice_def sorted_wrt_rev)
qed

end
