(* ===== verification/Vm_Hotplug.thy ===== *)
theory Vm_Hotplug
  imports Pod_Builder Go_Sort
begin

text \<open>
  Hot-pluggable volumes of \<open>src/internal/controller/virtualmachine_controller.go\<close>: which volumes of a
  VM are plugged in after its pod started, the helper pods that hold them on the VM's node, and the
  per-volume status. The VM is an argument where the source passes a pointer it only reads (the
  migration branch passes a copy); \<open>updateHotplugVolumeStatus\<close> works on the VM in the state.
\<close>

section \<open>Which volumes and which pods\<close>

definition getHotplugVolumes :: "ext \<Rightarrow> vm \<Rightarrow> pod \<Rightarrow> volume list" where
  "getHotplugVolumes x v vmPod =
    filter (\<lambda>vol. IsHotpluggable x vol \<and> v_name vol \<notin> pv_name ` set (ps_volumes (p_spec vmPod))) (s_Volumes (vm_spec v))"

definition is_pvc_source :: "pod_volume_source \<Rightarrow> bool" where
  "is_pvc_source src = (case src of PersistentVolumeClaim _ \<Rightarrow> True | _ \<Rightarrow> False)"

text \<open>The number of volumes must be two more than asked for, and no claim may be left once the asked
  names are taken away.\<close>

definition isPodMatchVMHotplugVolumes :: "pod \<Rightarrow> volume list \<Rightarrow> bool" where
  "isPodMatchVMHotplugVolumes p hotplugVolumes =
    (if int (length (ps_volumes (p_spec p))) - 2 \<noteq> int (length hotplugVolumes) then False
     else list_all (\<lambda>pv. is_pvc_source (pv_source pv) \<longrightarrow> pv_name pv \<in> v_name ` set hotplugVolumes)
       (ps_volumes (p_spec p)))"

definition not_older :: "pod \<Rightarrow> pod \<Rightarrow> bool" where
  "not_older a b \<longleftrightarrow> \<not> m_creationTimestamp (p_meta a) < m_creationTimestamp (p_meta b)"

definition owned_by :: "ext \<Rightarrow> string \<Rightarrow> pod \<Rightarrow> bool" where
  "owned_by x uid p = (case GetControllerOf x (p_meta p) of None \<Rightarrow> False | Some r \<Rightarrow> or_uid r = uid)"

definition getHotplugVolumePods :: "'w api \<Rightarrow> ext \<Rightarrow> pod \<Rightarrow> ('w, pod list) act" where
  "getHotplugVolumePods k x vmPod =
    bind (kread (kListPods k (m_namespace (p_meta vmPod)))) (\<lambda>r.
      case r of Inl e \<Rightarrow> throw (ApiErr e)
      | Inr pods \<Rightarrow> ret (sort_Slice not_older (filter (owned_by x (p_uid vmPod)) pods)))"

section \<open>The helper pod\<close>

definition hotplug_base :: "string \<Rightarrow> vm \<Rightarrow> pod \<Rightarrow> pod" where
  "hotplug_base prerunner v vmPod = empty_pod\<lparr>
     p_meta := empty_meta\<lparr>m_namespace := m_namespace (p_meta vmPod),
       m_generateName := vm_Name v @ ''-hotplug-volumes-''\<rparr>,
     p_spec := (p_spec empty_pod)\<lparr>ps_restartNever := True, ps_hostNetwork := True,
       ps_tolerations := ps_tolerations (p_spec vmPod),
       ps_affinity := Some \<lparr>af_nodeHostnames = Some [ps_nodeName (p_spec vmPod)], af_podAntiRequired = None, af_other = []\<rparr>,
       ps_containers := [empty_container\<lparr>c_name := ''hotplug-volumes'', c_image := prerunner,
         c_command := [''/bin/sh'', ''-c'', ''ncat -lkU /hotplug/hp.sock''],
         c_volumeMounts := [\<lparr>vmt_name = ''hotplug'', vmt_path = ''/hotplug'', vmt_hostToContainer = True\<rparr>]\<rparr>],
       ps_volumes := [\<lparr>pv_name = ''hotplug'', pv_source = EmptyDir []\<rparr>]\<rparr>\<rparr>"

text \<open>A later status entry of the same name overwrites an earlier one in the map.\<close>

definition status_map :: "volume_status list \<Rightarrow> string \<rightharpoonup> volume_status" where
  "status_map sts = fold (\<lambda>st m. m(vs_Name st \<mapsto> st)) sts Map.empty"

definition mounted_phase :: "volume_status option \<Rightarrow> bool" where
  "mounted_phase st = (case st of None \<Rightarrow> False
     | Some st \<Rightarrow> vs_Phase st = VolumeMountedToPod \<or> vs_Phase st = VolumeReady)"

definition hotplug_add :: "'w api \<Rightarrow> ext \<Rightarrow> vm \<Rightarrow> volume \<Rightarrow> pod \<Rightarrow> ('w, pod) act" where
  "hotplug_add k x v vol p =
    (let p' = add_volume (v_name vol) (PersistentVolumeClaim (PVCName x vol)) p in
     if mounted_phase (status_map (st_VolumeStatus (vm_status v)) (v_name vol)) then ret p'
     else bind (IsBlock k (vm_Namespace v) vol) (\<lambda>isBlock.
       ret (if isBlock then add_device \<lparr>vd_name = v_name vol, vd_path = ''/hotplug/'' @ v_name vol\<rparr> p'
            else add_mount (volume_mnt vol) p')))"

definition buildHotplugVolumePod ::
  "'w api \<Rightarrow> ext \<Rightarrow> string \<Rightarrow> vm \<Rightarrow> pod \<Rightarrow> volume list \<Rightarrow> ('w, pod) act" where
  "buildHotplugVolumePod k x prerunner v vmPod hotplugVolumes =
    bind (fold_act (hotplug_add k x v) hotplugVolumes (hotplug_base prerunner v vmPod)) (\<lambda>p.
      case SetControllerReference x (p_meta vmPod) (p_meta p) of
        Inl e \<Rightarrow> throw e
      | Inr m \<Rightarrow> ret (p\<lparr>p_meta := m\<rparr>))"

section \<open>Keeping one helper pod\<close>

fun split_current :: "(pod \<Rightarrow> bool) \<Rightarrow> pod option \<Rightarrow> pod list \<Rightarrow> pod option \<times> pod list" where
  "split_current m cur [] = (cur, [])"
| "split_current m cur (p # ps) =
    (if cur = None \<and> m p then split_current m (Some p) ps
     else (case split_current m cur ps of (c, old) \<Rightarrow> (c, p # old)))"

definition ready_volumes :: "'w api \<Rightarrow> string \<Rightarrow> volume list \<Rightarrow> ('w, volume list) act" where
  "ready_volumes k ns vols = fold_act (\<lambda>vol acc. bind (IsReady k ns vol) (\<lambda>ready.
     ret (if ready then acc @ [vol] else acc))) vols []"

definition createHotplugPod :: "'w api \<Rightarrow> ext \<Rightarrow> string \<Rightarrow> vm \<Rightarrow> pod \<Rightarrow> volume list \<Rightarrow> ('w, unit) act" where
  "createHotplugPod k x prerunner v vmPod ready =
    bind (buildHotplugVolumePod k x prerunner v vmPod ready) (\<lambda>p.
    bind (createPod k p) (\<lambda>r.
      case r of Inl e \<Rightarrow> throw (ApiErr e) | Inr _ \<Rightarrow> event ''CreatedHotplugVolumePod''))"

definition deleteOldPod :: "'w api \<Rightarrow> pod \<Rightarrow> ('w, unit) act" where
  "deleteOldPod k p =
    (if being_deleted (p_meta p) then ret ()
     else bind (deletePod k p) (\<lambda>r.
       case r of Some e \<Rightarrow> throw (ApiErr e) | None \<Rightarrow> event ''DeletedHotplugVolumePod''))"

definition handleHotplugVolumes ::
  "'w api \<Rightarrow> ext \<Rightarrow> string \<Rightarrow> vm \<Rightarrow> pod \<Rightarrow> bool \<Rightarrow> ('w, unit) act" where
  "handleHotplugVolumes k x prerunner v vmPod waitAllVolumesReady =
    (let hotplugVolumes = getHotplugVolumes x v vmPod in
     bind (ready_volumes k (vm_Namespace v) hotplugVolumes) (\<lambda>ready.
     if waitAllVolumesReady \<and> length ready < length hotplugVolumes then ret ()
     else bind (getHotplugVolumePods k x vmPod) (\<lambda>pods.
       let (currentPod, oldPods) = split_current (\<lambda>p. isPodMatchVMHotplugVolumes p ready) None pods in
       bind (if currentPod = None \<and> ready \<noteq> [] then createHotplugPod k x prerunner v vmPod ready else ret ()) (\<lambda>_.
       for_each oldPods (deleteOldPod k)))))"

section \<open>Volume status\<close>

definition has_volume :: "string \<Rightarrow> pod \<Rightarrow> bool" where
  "has_volume n p \<longleftrightarrow> list_ex (\<lambda>pv. pv_name pv = n) (ps_volumes (p_spec p))"

definition plugged_status :: "volume_status option \<Rightarrow> pod list \<Rightarrow> string \<Rightarrow> volume_status" where
  "plugged_status old pods n =
    (let st = (case old of Some st \<Rightarrow> st | None \<Rightarrow> \<lparr>vs_Name = n, vs_Phase = VolumePhaseEmpty, vs_HotplugVolume = None\<rparr>);
         ph = (if vs_Phase st = VolumePhaseEmpty then VolumePending else vs_Phase st)
     in case List.find (has_volume n) pods of
       Some p \<Rightarrow> st\<lparr>vs_Phase := (if pst_phase (p_status p) = PodRunning \<and> ph = VolumePending then VolumeAttachedToNode else ph),
                    vs_HotplugVolume := Some \<lparr>hv_VolumePodName = p_name p, hv_VolumePodUID = p_uid p\<rparr>\<rparr>
     | None \<Rightarrow> st\<lparr>vs_Phase := VolumePending,
                  vs_HotplugVolume := Some \<lparr>hv_VolumePodName = [], hv_VolumePodUID = []\<rparr>\<rparr>)"

fun plugged_loop :: "pod list \<Rightarrow> volume list \<Rightarrow> (string \<rightharpoonup> volume_status)
    \<Rightarrow> volume_status list \<times> (string \<rightharpoonup> volume_status)" where
  "plugged_loop pods [] m = ([], m)"
| "plugged_loop pods (vol # vols) m =
    (let st = plugged_status (m (v_name vol)) pods (v_name vol);
         (sts, m') = plugged_loop pods vols (m(v_name vol := None))
     in (st # sts, m'))"

text \<open>The search of the second loop: it goes on over the pods, but once a pod is found it looks only
  at the first volume of each later pod.\<close>

fun scan_volumes :: "string \<Rightarrow> pod \<Rightarrow> pod_volume list \<Rightarrow> pod option \<Rightarrow> pod option" where
  "scan_volumes n p [] cur = cur"
| "scan_volumes n p (pv # pvs) cur =
    (if pv_name pv = n then Some p else if cur \<noteq> None then cur else scan_volumes n p pvs cur)"

definition unplugged_pod :: "pod list \<Rightarrow> string \<Rightarrow> pod option" where
  "unplugged_pod pods n = fold (\<lambda>p cur. scan_volumes n p (ps_volumes (p_spec p)) cur) pods None"

definition unplugged_status :: "pod list \<Rightarrow> string \<Rightarrow> volume_status \<Rightarrow> volume_status list \<Rightarrow> (err, volume_status list) outcome" where
  "unplugged_status pods n st acc =
    (case unplugged_pod pods n of None \<Rightarrow> Ok acc
     | Some p \<Rightarrow> (case vs_HotplugVolume st of None \<Rightarrow> Panic ''nil pointer dereference''
       | Some _ \<Rightarrow> Ok (acc @ [st\<lparr>vs_Phase := VolumeDetaching,
           vs_HotplugVolume := Some \<lparr>hv_VolumePodName = p_name p, hv_VolumePodUID = p_uid p\<rparr>\<rparr>])))"

definition left_over :: "volume_status list \<Rightarrow> (string \<rightharpoonup> volume_status) \<Rightarrow> string list" where
  "left_over sts m = filter (\<lambda>n. m n \<noteq> None) (remdups (map vs_Name sts))"

definition new_volume_status ::
  "ext \<Rightarrow> volume list \<Rightarrow> pod list \<Rightarrow> volume_status list \<Rightarrow> (err, volume_status list) outcome" where
  "new_volume_status x hotplugVolumes pods sts =
    (let (plugged, m) = plugged_loop pods hotplugVolumes (status_map sts) in
     ofold (\<lambda>n. unplugged_status pods n (the (m n))) (map_order x (left_over sts m)) plugged)"

definition updateHotplugVolumeStatus :: "'w api \<Rightarrow> ext \<Rightarrow> pod \<Rightarrow> ('w, unit) act" where
  "updateHotplugVolumeStatus k x vmPod =
    bind getObj (\<lambda>v.
    bind (getHotplugVolumePods k x vmPod) (\<lambda>pods.
    bind (lift (new_volume_status x (getHotplugVolumes x v vmPod) pods (st_VolumeStatus (vm_status v)))) (\<lambda>sts.
    bind (modStatus (\<lambda>st. st\<lparr>st_VolumeStatus := sts\<rparr>)) (\<lambda>_.
    if list_ex (\<lambda>st. vs_Phase st = VolumePending) sts
    then throw (ReconcileError \<lparr>Requeue = False, RequeueAfter = 60\<rparr>) else ret ()))))"

section \<open>Frames\<close>

lemma keeps_getHotplugVolumePods [keeps]: "keeps f (getHotplugVolumePods k x vp)"
  unfolding getHotplugVolumePods_def by (intro keeps)

lemma keeps_ready_volumes [keeps]: "keeps f (ready_volumes k ns vols)"
  unfolding ready_volumes_def by (intro keeps)

lemma keeps_buildHotplugVolumePod [keeps]: "keeps f (buildHotplugVolumePod k x pr v vp vols)"
  unfolding buildHotplugVolumePod_def hotplug_add_def Let_def by (intro keeps)

lemma keeps_obj_handleHotplugVolumes [keeps]: "keeps obj (handleHotplugVolumes k x pr v vp w)"
  unfolding handleHotplugVolumes_def createHotplugPod_def deleteOldPod_def Let_def by (intro keeps)

lemma keeps_trace_updateHotplugVolumeStatus [keeps]: "keeps trace (updateHotplugVolumeStatus k x vp)"
  unfolding updateHotplugVolumeStatus_def by (intro keeps)

lemma traces_updateHotplugVolumeStatus [traces]: "traces P (updateHotplugVolumeStatus k x vp)"
  by (rule traces_none) (rule keeps)

text \<open>A reading action returns the state it was given.\<close>

lemma keeps_state: "keeps (\<lambda>s. s) m \<Longrightarrow> m s = (r, s') \<Longrightarrow> s' = s"
  using keepsD [of "\<lambda>s. s" m s] by simp

section \<open>Sorting\<close>

abbreviation ts :: "pod \<Rightarrow> nat" where "ts p \<equiv> m_creationTimestamp (p_meta p)"

lemma newest_first: "sorted_wrt (\<lambda>a b. ts b \<le> ts a) (sort_Slice not_older pods)"
  by (rule sort_Slice_sorted) (auto simp: not_older_def transp_def)

section \<open>Matching pods\<close>

lemma hotplug_add_volumes:
  "returns (\<lambda>q. ps_volumes (p_spec q) = ps_volumes (p_spec p) @ [\<lparr>pv_name = v_name vol, pv_source = PersistentVolumeClaim (PVCName x vol)\<rparr>])
     (hotplug_add k x v vol p)"
  unfolding hotplug_add_def Let_def
  by (intro returns returns_bind_any) (simp_all add: pod_edits)

lemma buildHotplugVolumePod_volumes:
  assumes "buildHotplugVolumePod k x pr v vp vols s = (Ok p, s')"
  shows "ps_volumes (p_spec p) = \<lparr>pv_name = ''hotplug'', pv_source = EmptyDir []\<rparr> #
     map (\<lambda>vol. \<lparr>pv_name = v_name vol, pv_source = PersistentVolumeClaim (PVCName x vol)\<rparr>) vols"
proof -
  let ?pv = "\<lambda>vol. \<lparr>pv_name = v_name vol, pv_source = PersistentVolumeClaim (PVCName x vol)\<rparr>"
  let ?I = "\<lambda>vs q. ps_volumes (p_spec q) = \<lparr>pv_name = ''hotplug'', pv_source = EmptyDir []\<rparr> # map ?pv vs"
  have built: "returns (?I vols) (fold_act (hotplug_add k x v) vols (hotplug_base pr v vp))"
    by (rule returns_fold_act [where I = ?I])
      (simp add: hotplug_base_def, rule returns_mono [OF hotplug_add_volumes], simp)
  obtain q s1 where q: "fold_act (hotplug_add k x v) vols (hotplug_base pr v vp) s = (Ok q, s1)"
    and "(case SetControllerReference x (p_meta vp) (p_meta q) of Inl e \<Rightarrow> throw e | Inr m \<Rightarrow> ret (q\<lparr>p_meta := m\<rparr>)) s1 = (Ok p, s')"
    using assms unfolding buildHotplugVolumePod_def bind_Ok by blast
  then have "p_spec p = p_spec q"
    by (cases "SetControllerReference x (p_meta vp) (p_meta q)") (auto simp: ret_def throw_def)
  then show ?thesis using returnsD [OF built q] by simp
qed

text \<open>The current pod is the first that matches; the old pods are all the others, in order.\<close>

lemma split_current_Some [simp]: "split_current m (Some c) ps = (Some c, ps)"
  by (induction ps) simp_all

lemma split_current_None:
  "split_current m None ps = (List.find m ps, case List.find m ps of None \<Rightarrow> ps | Some c \<Rightarrow> remove1 c ps)"
proof (induction ps)
  case (Cons p ps)
  show ?case
  proof (cases "List.find m ps")
    case None
    then show ?thesis using Cons.IH by simp
  next
    case (Some c)
    then have "m c" using find_Some_in_set by metis
    then show ?thesis using Some Cons.IH by auto
  qed
qed simp

section \<open>Properties\<close>

text \<open>The helper pods of a VM pod are exactly the pods of its namespace that it controls, each as
  often as listed, newest first.\<close>

theorem hotplug_pods_newest_first:
  assumes "getHotplugVolumePods k x vp s = (Ok pods, s')"
  shows "\<exists>all. kListPods k (m_namespace (p_meta vp)) (world s) = Inr all
     \<and> mset pods = filter_mset (owned_by x (p_uid vp)) (mset all) \<and> sorted_wrt (\<lambda>a b. ts b \<le> ts a) pods"
proof -
  obtain all where "kListPods k (m_namespace (p_meta vp)) (world s) = Inr all"
    and "pods = sort_Slice not_older (filter (owned_by x (p_uid vp)) all)"
    using assms unfolding getHotplugVolumePods_def bind_Ok kread_def
    by (cases "kListPods k (m_namespace (p_meta vp)) (world s)") (auto simp: ret_def throw_def)
  then show ?thesis
    using newest_first by (simp add: mset_filter)
qed

text \<open>A helper pod that was built for some volumes is recognised as the pod for these volumes once
  exactly one further volume that is not a claim has been added to it, as the API server does for the
  service account token; without that volume it is never recognised.\<close>

theorem hotplug_pod_recognised:
  assumes "buildHotplugVolumePod k x pr v vp vols s = (Ok p, s')"
    and "ps_volumes (p_spec q) = ps_volumes (p_spec p) @ [pv]" and "\<not> is_pvc_source (pv_source pv)"
  shows "isPodMatchVMHotplugVolumes q vols \<and> \<not> isPodMatchVMHotplugVolumes p vols"
  using assms(2,3) buildHotplugVolumePod_volumes [OF assms(1)]
  by (auto simp: isPodMatchVMHotplugVolumes_def list_all_iff is_pvc_source_def)

text \<open>The calls of one round: at most one creation, and only when volumes are ready and no pod matches
  them; deletions only of pods other than the current one that are not already being deleted.\<close>

definition is_create :: "call \<Rightarrow> bool" where
  "is_create c = (case c of CreatePod _ _ \<Rightarrow> True | _ \<Rightarrow> False)"

definition hotplug_call :: "pod list \<Rightarrow> volume list \<Rightarrow> call \<Rightarrow> bool" where
  "hotplug_call pods ready c = (let cur = List.find (\<lambda>p. isPodMatchVMHotplugVolumes p ready) pods in
    case c of CreatePod _ _ \<Rightarrow> cur = None \<and> ready \<noteq> []
    | DeletePod p _ \<Rightarrow> \<not> being_deleted (p_meta p)
        \<and> p \<in> set (case cur of None \<Rightarrow> pods | Some c \<Rightarrow> remove1 c pods)
    | Event _ \<Rightarrow> True | _ \<Rightarrow> False)"

lemma createHotplugPod_trace:
  "\<exists>cs. trace (snd (createHotplugPod k x pr v vp ready s)) = trace s @ cs
     \<and> list_all (\<lambda>c. case c of CreatePod _ _ \<Rightarrow> True | Event _ \<Rightarrow> True | _ \<Rightarrow> False) cs \<and> length (filter is_create cs) \<le> 1"
proof -
  obtain r s1 where b: "buildHotplugVolumePod k x pr v vp ready s = (r, s1)" by (cases "buildHotplugVolumePod k x pr v vp ready s")
  have s1: "s1 = s" using keeps_state [OF keeps_buildHotplugVolumePod b] .
  show ?thesis
  proof (cases r)
    case (Ok p)
    obtain a w where "kCreatePod k p (world s) = (a, w)" by (cases "kCreatePod k p (world s)")
    then show ?thesis using b s1 Ok
      by (cases a) (auto simp: createHotplugPod_def act_defs is_create_def)
  qed (use b s1 in \<open>auto simp: createHotplugPod_def bind_def\<close>)
qed

lemma deleteOldPods_trace:
  "traces (\<lambda>c. case c of DeletePod p _ \<Rightarrow> p \<in> set old \<and> \<not> being_deleted (p_meta p) | Event _ \<Rightarrow> True | _ \<Rightarrow> False)
     (for_each old (deleteOldPod k))"
  unfolding deleteOldPod_def by (intro traces) auto

text \<open>C20: Each round of \<open>handleHotplugVolumes\<close> creates at most one helper pod, only when some volumes
  are ready and no existing helper pod matches them, and deletes only helper pods other than the
  newest matching one that are not already being deleted; it makes no other change.\<close>

theorem handleHotplugVolumes_calls:
  assumes "ready_volumes k (vm_Namespace v) (getHotplugVolumes x v vp) s = (Ok ready, s)"
    and "getHotplugVolumePods k x vp s = (Ok pods, s)"
  shows "\<exists>cs. trace (snd (handleHotplugVolumes k x pr v vp w s)) = trace s @ cs
     \<and> list_all (hotplug_call pods ready) cs \<and> length (filter is_create cs) \<le> 1"
proof -
  define cur where "cur = List.find (\<lambda>p. isPodMatchVMHotplugVolumes p ready) pods"
  define old where "old = (case cur of None \<Rightarrow> pods | Some c \<Rightarrow> remove1 c pods)"
  define create where "create = (if cur = None \<and> ready \<noteq> [] then createHotplugPod k x pr v vp ready else ret ())"
  have run: "handleHotplugVolumes k x pr v vp w s =
      (if w \<and> length ready < length (getHotplugVolumes x v vp) then (Ok (), s)
       else bind create (\<lambda>_. for_each old (deleteOldPod k)) s)"
    using assms by (simp add: handleHotplugVolumes_def Let_def bind_def ret_def split_current_None
        create_def old_def cur_def)
  obtain r s1 where c: "create s = (r, s1)" by (cases "create s")
  obtain cs where cs: "trace s1 = trace s @ cs" "list_all (hotplug_call pods ready) cs" "length (filter is_create cs) \<le> 1"
  proof (cases "cur = None \<and> ready \<noteq> []")
    case True
    then show thesis using that createHotplugPod_trace [of k x pr v vp ready s] c
      by (fastforce simp: create_def hotplug_call_def list_all_iff cur_def Let_def split: call.splits)
  qed (use that [of "[]"] c in \<open>auto simp: create_def ret_def\<close>)
  obtain ds where ds: "trace (snd (for_each old (deleteOldPod k) s1)) = trace s1 @ ds"
    "list_all (\<lambda>c. case c of DeletePod p _ \<Rightarrow> p \<in> set old \<and> \<not> being_deleted (p_meta p) | Event _ \<Rightarrow> True | _ \<Rightarrow> False) ds"
    using tracesD [OF deleteOldPods_trace] by blast
  have "list_all (hotplug_call pods ready) ds"
    by (rule list.pred_mono_strong [OF ds(2)])
      (simp add: hotplug_call_def old_def cur_def Let_def split: call.splits)
  moreover have "filter is_create ds = []"
    using ds(2) by (auto simp: list_all_iff is_create_def filter_empty_conv split: call.splits)
  ultimately have "\<exists>es. trace (snd (bind create (\<lambda>_. for_each old (deleteOldPod k)) s)) = trace s @ es
      \<and> list_all (hotplug_call pods ready) es \<and> length (filter is_create es) \<le> 1"
    using cs ds(1) c by (cases r) (auto simp: bind_def intro: exI [of _ "cs @ ds"])
  then show ?thesis using run by (auto intro: exI [of _ "[]"])
qed

section \<open>Volume status\<close>

definition keyed :: "(string \<rightharpoonup> volume_status) \<Rightarrow> bool" where
  "keyed m \<longleftrightarrow> (\<forall>n st. m n = Some st \<longrightarrow> vs_Name st = n)"

lemma keyed_upd: "keyed m \<Longrightarrow> keyed (m(vs_Name st \<mapsto> st))"
  by (simp add: keyed_def)

lemma keyed_status_map: "keyed (status_map sts)"
proof -
  have "keyed (fold (\<lambda>st m. m(vs_Name st \<mapsto> st)) sts m)" if "keyed m" for m
    using that by (induction sts arbitrary: m) (simp_all add: keyed_upd del: fun_upd_apply)
  moreover have "keyed Map.empty" by (simp add: keyed_def)
  ultimately show ?thesis by (simp add: status_map_def)
qed

lemma plugged_status_facts:
  assumes "\<And>st. old = Some st \<Longrightarrow> vs_Name st = n"
  shows "vs_Name (plugged_status old pods n) = n"
    and "vs_Phase (plugged_status old pods n) \<noteq> VolumePending \<Longrightarrow> list_ex (has_volume n) pods"
proof -
  show "vs_Name (plugged_status old pods n) = n"
    using assms by (cases old; cases "List.find (has_volume n) pods") (simp_all add: plugged_status_def Let_def)
  show "list_ex (has_volume n) pods" if "vs_Phase (plugged_status old pods n) \<noteq> VolumePending"
  proof (cases "List.find (has_volume n) pods")
    case (Some p)
    then show ?thesis using find_Some_in_set by (metis list_ex_iff)
  qed (use that in \<open>simp add: plugged_status_def Let_def\<close>)
qed

lemma plugged_loop_facts:
  assumes "plugged_loop pods vols m = (sts, m')" "keyed m"
  shows "map vs_Name sts = map v_name vols
     \<and> list_all (\<lambda>st. vs_Phase st \<noteq> VolumePending \<longrightarrow> list_ex (has_volume (vs_Name st)) pods) sts"
  using assms
proof (induction vols arbitrary: m sts m')
  case (Cons vol vols)
  obtain sts1 m1 where rest: "plugged_loop pods vols (m(v_name vol := None)) = (sts1, m1)"
    by (cases "plugged_loop pods vols (m(v_name vol := None))")
  have "keyed (m(v_name vol := None))" using Cons.prems(2) by (simp add: keyed_def)
  note IH = Cons.IH [OF rest this]
  have "\<And>st. m (v_name vol) = Some st \<Longrightarrow> vs_Name st = v_name vol" using Cons.prems(2) by (simp add: keyed_def)
  note st = plugged_status_facts [OF this, where pods = pods]
  have "sts = plugged_status (m (v_name vol)) pods (v_name vol) # sts1"
    using Cons.prems(1) rest by (simp add: Let_def)
  then show ?case using IH st by simp
qed simp

lemma new_volume_status_facts:
  assumes "new_volume_status x hot pods sts = Ok new"
  shows "\<exists>plugged detached. new = plugged @ detached \<and> map vs_Name plugged = map v_name hot
     \<and> list_all (\<lambda>st. vs_Phase st \<noteq> VolumePending \<longrightarrow> list_ex (has_volume (vs_Name st)) pods) plugged
     \<and> list_all (\<lambda>st. vs_Phase st = VolumeDetaching) detached"
proof -
  obtain plugged m where p: "plugged_loop pods hot (status_map sts) = (plugged, m)"
    by (cases "plugged_loop pods hot (status_map sts)")
  have "ofold (\<lambda>n. unplugged_status pods n (the (m n))) (map_order x (left_over sts m)) plugged = Ok new"
    using assms p by (simp add: new_volume_status_def)
  then have "\<exists>detached. new = plugged @ detached \<and> list_all (\<lambda>st. vs_Phase st = VolumeDetaching) detached"
    by (rule ofold_invariant) (auto simp: unplugged_status_def split: option.splits)
  then show ?thesis using plugged_loop_facts [OF p keyed_status_map] by blast
qed

text \<open>Unless it panics, \<open>updateHotplugVolumeStatus\<close> replaces the status list by one entry for each
  volume to plug in, in the order of the spec and under its name, followed by detaching entries; an
  entry that is not pending belongs to a volume some helper pod holds; and it asks for another round
  after a minute exactly when an entry is pending.\<close>

theorem updateHotplugVolumeStatus_spec:
  assumes "getHotplugVolumePods k x vp s = (Ok pods, s)"
    and "updateHotplugVolumeStatus k x vp s = (r, s')" and "\<not> is_panic r"
  shows "\<exists>plugged detached. st_VolumeStatus (vm_status (obj s')) = plugged @ detached
     \<and> map vs_Name plugged = map v_name (getHotplugVolumes x (obj s) vp)
     \<and> list_all (\<lambda>st. vs_Phase st \<noteq> VolumePending \<longrightarrow> list_ex (has_volume (vs_Name st)) pods) plugged
     \<and> list_all (\<lambda>st. vs_Phase st = VolumeDetaching) detached
     \<and> r = (if list_ex (\<lambda>st. vs_Phase st = VolumePending) (plugged @ detached)
            then Err (ReconcileError \<lparr>Requeue = False, RequeueAfter = 60\<rparr>) else Ok ())"
proof (cases "new_volume_status x (getHotplugVolumes x (obj s) vp) pods (st_VolumeStatus (vm_status (obj s)))")
  case (Ok new)
  then have "st_VolumeStatus (vm_status (obj s')) = new"
    and "r = (if list_ex (\<lambda>st. vs_Phase st = VolumePending) new
            then Err (ReconcileError \<lparr>Requeue = False, RequeueAfter = 60\<rparr>) else Ok ())"
    using assms(1,2) by (auto simp: updateHotplugVolumeStatus_def act_defs split: if_splits)
  moreover obtain plugged detached where "new = plugged @ detached"
    "map vs_Name plugged = map v_name (getHotplugVolumes x (obj s) vp)"
    "list_all (\<lambda>st. vs_Phase st \<noteq> VolumePending \<longrightarrow> list_ex (has_volume (vs_Name st)) pods) plugged"
    "list_all (\<lambda>st. vs_Phase st = VolumeDetaching) detached"
    using new_volume_status_facts [OF Ok] by blast
  ultimately show ?thesis by (intro exI conjI) simp_all
next
  case (Err e)
  have "ofold (\<lambda>n. unplugged_status ps n (st n)) ns acc \<noteq> Err e" for ps st ns acc
    by (induction ns arbitrary: acc) (auto simp: unplugged_status_def split: option.split)
  then show ?thesis using Err by (simp add: new_volume_status_def case_prod_beta)
next
  case (Panic p)
  then show ?thesis using assms by (auto simp: updateHotplugVolumeStatus_def act_defs)
qed

section \<open>Concrete runs\<close>

definition hot_vm :: vm where
  "hot_vm = (let v = plain_vm ''web'' VirtualMachineRunning in v\<lparr>vm_spec := (vm_spec v)\<lparr>s_Volumes :=
     [example_volume\<lparr>v_PersistentVolumeClaim := Some \<lparr>pvc_claim = ''claim'', pvc_hotpluggable = True\<rparr>\<rparr>]\<rparr>\<rparr>)"

definition vm_pod_up :: pod where
  "vm_pod_up = empty_pod\<lparr>p_meta := empty_meta\<lparr>m_name := ''vm-web-1'', m_uid := ''u1''\<rparr>\<rparr>"

definition helper :: "nat \<Rightarrow> pod" where
  "helper t = empty_pod\<lparr>p_meta := empty_meta\<lparr>m_name := ''helper'', m_creationTimestamp := t,
     m_owners := [\<lparr>or_apiVersion = [], or_kind = ''Pod'', or_name = ''vm-web-1'', or_uid = ''u1''\<rparr>]\<rparr>\<rparr>"

definition two_helpers :: "unit api" where
  "two_helpers = one_claim\<lparr>kListPods := (\<lambda>_ _. Inr [helper 1, vm_pod_up, helper 2])\<rparr>"

lemma two_helpers_listed:
  "getHotplugVolumePods two_helpers library vm_pod_up (run_on v) = (Ok [helper 2, helper 1], run_on v)"
  by (simp add: getHotplugVolumePods_def two_helpers_def act_defs owned_by_def library_def helper_def vm_pod_up_def
      empty_pod_def empty_meta_def sort_Slice_def not_older_def)

theorem hotplug_pods_newest_first_witness:
  "\<exists>all. kListPods two_helpers [] () = Inr all \<and> mset [helper 2, helper 1] = filter_mset (owned_by library ''u1'') (mset all)
     \<and> sorted (rev (map ts [helper 2, helper 1]))"
  using hotplug_pods_newest_first [OF two_helpers_listed [of hot_vm]]
  by (simp add: vm_pod_up_def empty_meta_def run_on_def)

definition token_volume :: pod_volume where
  "token_volume = \<lparr>pv_name = ''kube-api-access'', pv_source = OtherSource\<rparr>"

theorem hotplug_pod_recognised_witness:
  "\<exists>p s'. buildHotplugVolumePod one_claim library ''img'' hot_vm vm_pod_up (s_Volumes (vm_spec hot_vm)) (run_on hot_vm) = (Ok p, s')
     \<and> isPodMatchVMHotplugVolumes (p\<lparr>p_spec := (p_spec p)\<lparr>ps_volumes := ps_volumes (p_spec p) @ [token_volume]\<rparr>\<rparr>) (s_Volumes (vm_spec hot_vm))
     \<and> \<not> isPodMatchVMHotplugVolumes p (s_Volumes (vm_spec hot_vm))"
proof -
  obtain p s' where b: "buildHotplugVolumePod one_claim library ''img'' hot_vm vm_pod_up (s_Volumes (vm_spec hot_vm)) (run_on hot_vm) = (Ok p, s')"
    by (simp add: buildHotplugVolumePod_def hotplug_add_def hot_vm_def plain_vm_def status_map_def mounted_phase_def
        IsBlock_def getPVC_def example_volume_def claim_name_def one_claim_def library_def act_defs Let_def)
  have "isPodMatchVMHotplugVolumes (p\<lparr>p_spec := (p_spec p)\<lparr>ps_volumes := ps_volumes (p_spec p) @ [token_volume]\<rparr>\<rparr>) (s_Volumes (vm_spec hot_vm))
     \<and> \<not> isPodMatchVMHotplugVolumes p (s_Volumes (vm_spec hot_vm))"
    by (rule hotplug_pod_recognised [OF b, where pv = token_volume]) (simp_all add: token_volume_def is_pvc_source_def)
  with b show ?thesis by blast
qed

lemma hot_vm_ready:
  "ready_volumes two_helpers (vm_Namespace hot_vm) (getHotplugVolumes library hot_vm vm_pod_up) (run_on hot_vm)
     = (Ok (s_Volumes (vm_spec hot_vm)), run_on hot_vm)"
  by (simp add: ready_volumes_def getHotplugVolumes_def hot_vm_def plain_vm_def IsReady_def example_volume_def
      library_def vm_pod_up_def empty_pod_def act_defs Let_def)

theorem handleHotplugVolumes_calls_witness:
  "\<exists>cs. trace (snd (handleHotplugVolumes two_helpers library ''img'' hot_vm vm_pod_up True (run_on hot_vm))) = [] @ cs
     \<and> list_all (hotplug_call [helper 2, helper 1] (s_Volumes (vm_spec hot_vm))) cs \<and> length (filter is_create cs) \<le> 1"
  using handleHotplugVolumes_calls [OF hot_vm_ready two_helpers_listed] by (simp add: run_on_def)

theorem updateHotplugVolumeStatus_spec_witness:
  "\<exists>plugged detached r s'. updateHotplugVolumeStatus two_helpers library vm_pod_up (run_on hot_vm) = (r, s')
     \<and> st_VolumeStatus (vm_status (obj s')) = plugged @ detached \<and> map vs_Name plugged = [''data'']
     \<and> list_all (\<lambda>st. vs_Phase st = VolumeDetaching) detached"
proof -
  obtain r s' where u: "updateHotplugVolumeStatus two_helpers library vm_pod_up (run_on hot_vm) = (r, s')"
    by (cases "updateHotplugVolumeStatus two_helpers library vm_pod_up (run_on hot_vm)")
  have "getHotplugVolumes library (obj (run_on hot_vm)) vm_pod_up = s_Volumes (vm_spec hot_vm)"
    "map v_name (s_Volumes (vm_spec hot_vm)) = [''data'']" "st_VolumeStatus (vm_status (obj (run_on hot_vm))) = []"
    by (simp_all add: getHotplugVolumes_def run_on_def hot_vm_def plain_vm_def example_volume_def library_def
        vm_pod_up_def empty_pod_def Let_def)
  note vs = this
  have "\<not> is_panic r"
    using u two_helpers_listed [of hot_vm] vs
    by (auto simp: updateHotplugVolumeStatus_def act_defs new_volume_status_def status_map_def left_over_def library_def
        run_on_def case_prod_beta split: if_splits)
  from updateHotplugVolumeStatus_spec [OF two_helpers_listed u this]
  obtain plugged detached where "st_VolumeStatus (vm_status (obj s')) = plugged @ detached"
    "map vs_Name plugged = map v_name (getHotplugVolumes library (obj (run_on hot_vm)) vm_pod_up)"
    "list_all (\<lambda>st. vs_Phase st = VolumeDetaching) detached"
    by blast
  with u vs show ?thesis by (intro exI conjI) simp_all
qed

end
