(* ===== verification/Vm_Reconciler.thy ===== *)
theory Vm_Reconciler
  imports Vm_Hotplug
begin

text \<open>
  The reconcile loop of the VirtualMachine controller,
  \<open>src/internal/controller/virtualmachine_controller.go\<close>: one definition per phase of the state
  machine, the resize protocol, the migratability condition, garbage collection of stale pods, and
  \<open>Reconcile\<close> itself with the finalizer and the status update. The watch functions of
  \<open>SetupWithManager\<close> are at the end.
\<close>

section \<open>Small steps\<close>

definition VMProtectionFinalizer :: string where
  "VMProtectionFinalizer = ''cloudhypervisor.quill.today/vm-protection''"

definition pod_key :: "vm \<Rightarrow> string \<Rightarrow> key" where
  "pod_key v n = \<lparr>k_ns = default_ns (vm_Namespace v), k_name = n\<rparr>"

text \<open>The VM's pod, \<open>None\<close> when it is not found or not controlled by the VM.\<close>

definition findVMPod :: "'w api \<Rightarrow> ext \<Rightarrow> vm \<Rightarrow> ('w, pod option) act" where
  "findVMPod k x v =
    bind (kread (kGetPod k (pod_key v (st_VMPodName (vm_status v))))) (\<lambda>r.
      case r of Inl e \<Rightarrow> if e = NotFound then ret None else throw (ErrS ''get VM Pod'' (ApiErr e))
      | Inr p \<Rightarrow> ret (if IsControlledBy x (p_meta p) (vm_meta v) then Some p else None))"

definition createOwnedPod :: "'w api \<Rightarrow> ext \<Rightarrow> string \<Rightarrow> string \<Rightarrow> key \<Rightarrow> pod \<Rightarrow> ('w, unit) act" where
  "createOwnedPod k x what ev key p =
    bind getObj (\<lambda>v.
      let p = p\<lparr>p_meta := (p_meta p)\<lparr>m_name := k_name key, m_namespace := k_ns key\<rparr>\<rparr> in
      case SetControllerReference x (vm_meta v) (p_meta p) of
        Inl e \<Rightarrow> throw (ErrS (''set '' @ what @ '' controller reference'') e)
      | Inr m \<Rightarrow> bind (createPod k (p\<lparr>p_meta := m\<rparr>)) (\<lambda>r.
          case r of Inl e \<Rightarrow> throw (ErrS (''create '' @ what) (ApiErr e)) | Inr _ \<Rightarrow> event ev))"

section \<open>Deleting pods\<close>

definition deleteVMPod :: "'w api \<Rightarrow> string \<Rightarrow> pod \<Rightarrow> ('w, unit) act" where
  "deleteVMPod k ev p =
    bind (deletePod k p) (\<lambda>r. case r of
      Some e \<Rightarrow> if e \<noteq> NotFound then throw (ErrS ''delete VM Pod'' (ApiErr e)) else event ev
    | None \<Rightarrow> event ev)"

definition listVMPods :: "'w api \<Rightarrow> vm \<Rightarrow> ('w, pod list) act" where
  "listVMPods k v = bind (kread (kListPodsByVMUID k (vm_UID v))) (\<lambda>r.
     case r of Inl e \<Rightarrow> throw (ErrS ''list VM Pods'' (ApiErr e)) | Inr ps \<Rightarrow> ret ps)"

definition keep_pod :: "vm_status \<Rightarrow> pod \<Rightarrow> bool" where
  "keep_pod st p \<longleftrightarrow> p_name p = st_VMPodName st
     \<or> (case st_Migration st of None \<Rightarrow> False | Some mg \<Rightarrow> p_name p = mg_TargetVMPodName mg)"

definition gcVMPods :: "'w api \<Rightarrow> ('w, unit) act" where
  "gcVMPods k =
    bind getObj (\<lambda>v.
    bind (listVMPods k v) (\<lambda>pods.
    for_each pods (\<lambda>p.
      if being_deleted (p_meta p) then ret ()
      else if keep_pod (vm_status v) p then ret ()
      else deleteVMPod k ''GCDeletedVMPod'' p)))"

definition deleteAllVMPods :: "'w api \<Rightarrow> ('w, bool) act" where
  "deleteAllVMPods k =
    bind getObj (\<lambda>v.
    bind (listVMPods k v) (\<lambda>pods.
    if pods = [] then ret True
    else bind (for_each pods (\<lambda>p.
      if being_deleted (p_meta p) then ret () else deleteVMPod k ''DeletedVMPod'' p)) (\<lambda>_.
      ret True)))"

section \<open>Pending, scheduling and scheduled\<close>

definition reconcilePending :: "'w api \<Rightarrow> ('w, unit) act" where
  "reconcilePending k =
    bind getObj (\<lambda>v.
    bind (generateName k (''vm-'' @ vm_Name v @ ''-'')) (\<lambda>n.
    bind (modStatus (\<lambda>st. st\<lparr>st_VMPodName := n\<rparr>)) (\<lambda>_.
    setPhase VirtualMachineScheduling)))"

definition createVMPod :: "'w api \<Rightarrow> ext \<Rightarrow> string \<Rightarrow> vm \<Rightarrow> ('w, unit) act" where
  "createVMPod k x pr v =
    bind (mapErr (ErrW ''build VM Pod'') (buildVMPod k x pr)) (\<lambda>p.
    createOwnedPod k x ''VM Pod'' ''CreatedVMPod'' (pod_key v (st_VMPodName (vm_status v))) p)"

definition allHotplugVolumesAttached :: "ext \<Rightarrow> vm \<Rightarrow> bool" where
  "allHotplugVolumesAttached x v =
    list_all (\<lambda>vol. IsHotpluggable x vol \<longrightarrow>
      (case status_map (st_VolumeStatus (vm_status v)) (v_name vol) of None \<Rightarrow> False
       | Some st \<Rightarrow> vs_Phase st = VolumeAttachedToNode)) (s_Volumes (vm_spec v))"

definition followPodPhase :: "ext \<Rightarrow> pod \<Rightarrow> ('w, unit) act" where
  "followPodPhase x p =
    bind getObj (\<lambda>v.
      case pst_phase (p_status p) of
        PodRunning \<Rightarrow> if phase v = VirtualMachineScheduling \<and> allHotplugVolumesAttached x v
                      then setPhase VirtualMachineScheduled else ret ()
      | PodSucceeded \<Rightarrow> setPhase VirtualMachineSucceeded
      | PodFailed \<Rightarrow> setPhase VirtualMachineFailed
      | PodUnknown \<Rightarrow> setPhase VirtualMachineUnknown
      | _ \<Rightarrow> ret ())"

definition trackVMPod :: "'w api \<Rightarrow> ext \<Rightarrow> string \<Rightarrow> pod \<Rightarrow> ('w, unit) act" where
  "trackVMPod k x pr p =
    bind (modStatus (\<lambda>st. st\<lparr>st_VMPodUID := p_uid p, st_NodeName := ps_nodeName (p_spec p)\<rparr>)) (\<lambda>_.
    bind getObj (\<lambda>v.
    bind (if ps_nodeName (p_spec p) \<noteq> [] then handleHotplugVolumes k x pr v p True else ret ()) (\<lambda>_.
    bind (followPodPhase x p) (\<lambda>_.
    updateHotplugVolumeStatus k x p))))"

definition reconcileScheduling :: "'w api \<Rightarrow> ext \<Rightarrow> string \<Rightarrow> ('w, unit) act" where
  "reconcileScheduling k x pr =
    bind getObj (\<lambda>v.
    bind (findVMPod k x v) (\<lambda>po.
      case po of
        None \<Rightarrow> if phase v = VirtualMachineScheduling then createVMPod k x pr v else setPhase VirtualMachineFailed
      | Some p \<Rightarrow> trackVMPod k x pr p))"

section \<open>Resizing\<close>

definition desiredCPU :: "vm \<Rightarrow> quantity" where
  "desiredCPU v = NewQuantity (uint (Sockets (i_cpu (s_Instance (vm_spec v))) * CoresPerSocket (i_cpu (s_Instance (vm_spec v)))))"

definition desiredMem :: "vm \<Rightarrow> quantity" where
  "desiredMem v = mem_Size (i_memory (s_Instance (vm_spec v))) + q_256Mi"

definition actualResources :: "pod \<Rightarrow> requirements option" where
  "actualResources p = (case List.find (\<lambda>cs. cs_name cs = ''vm-manager'' \<and> cs_resources cs \<noteq> None)
      (pst_containerStatuses (p_status p)) of None \<Rightarrow> None | Some cs \<Rightarrow> cs_resources cs)"

definition differs :: "vm \<Rightarrow> requirements \<Rightarrow> bool" where
  "differs v r \<longleftrightarrow>
     (let c = rl_get (Requests r) ResourceCPU; m = rl_get (Requests r) ResourceMemory
      in IsZero c \<or> c \<noteq> desiredCPU v \<or> IsZero m \<or> m \<noteq> desiredMem v)"

definition checkAndSetResizePhase :: "pod \<Rightarrow> ('w, unit) act" where
  "checkAndSetResizePhase p =
    bind getObj (\<lambda>v.
    if phase v \<noteq> VirtualMachineRunning then ret ()
    else (case actualResources p of
      None \<Rightarrow> throw (ErrNew ''k8s is not 1.35 version and ContainerStatuses does not contain Resources'')
    | Some r \<Rightarrow> if differs v r
        then bind (setPhase VirtualMachinePodResizeInProgress) (\<lambda>_. event ''VMResizeInitiated'')
        else ret ()))"

definition currentResources :: "pod \<Rightarrow> requirements option" where
  "currentResources p = (case actualResources p of Some r \<Rightarrow> Some r
     | None \<Rightarrow> map_option c_resources (List.find (\<lambda>c. c_name c = ''vm-manager'') (ps_containers (p_spec p))))"

definition resized :: "vm \<Rightarrow> requirements \<Rightarrow> requirements" where
  "resized v r = \<lparr>Requests = Some ((the (gm_make (Requests r)))(ResourceCPU \<mapsto> desiredCPU v, ResourceMemory \<mapsto> desiredMem v)),
     Limits = Some ((the (gm_make (Limits r)))(ResourceCPU \<mapsto> desiredCPU v, ResourceMemory \<mapsto> desiredMem v))\<rparr>"

fun resize_first :: "vm \<Rightarrow> container list \<Rightarrow> container list" where
  "resize_first v [] = []"
| "resize_first v (c # cs) =
    (if c_name c = ''vm-manager'' then c\<lparr>c_resources := resized v (c_resources c)\<rparr> # cs
     else c # resize_first v cs)"

definition resizePatch :: "vm \<Rightarrow> pod \<Rightarrow> pod" where
  "resizePatch v p = p\<lparr>p_spec := (p_spec p)\<lparr>ps_containers := resize_first v (ps_containers (p_spec p))\<rparr>\<rparr>"

definition requestPodResize :: "'w api \<Rightarrow> vm \<Rightarrow> pod \<Rightarrow> ('w, unit) act" where
  "requestPodResize k v p =
    bind (resizePod k (resizePatch v p)) (\<lambda>r.
      case r of None \<Rightarrow> event ''VMResizePodInitiated''
      | Some e \<Rightarrow> if e = Conflict then ret ()
                  else bind (event ''VMResizeFailed'') (\<lambda>_. throw (ErrW ''resize Pod for VM resize'' (ApiErr e))))"

definition reconcileVMPodResize :: "'w api \<Rightarrow> ('w, unit) act" where
  "reconcileVMPodResize k =
    bind getObj (\<lambda>v.
    bind (kread (kGetPod k (pod_key v (st_VMPodName (vm_status v))))) (\<lambda>r.
    case r of
      Inl e \<Rightarrow> if e = NotFound then setPhase VirtualMachineFailed else throw (ErrW ''get VM Pod'' (ApiErr e))
    | Inr p \<Rightarrow>
      if pst_resize (p_status p) = ResizeInProgress then ret ()
      else if pst_resize (p_status p) = ResizeInfeasible then
        bind (event ''VMPodResizeInfeasible'') (\<lambda>_. setPhase VirtualMachineRunning)
      else (case currentResources p of None \<Rightarrow> ret ()
      | Some cur \<Rightarrow>
        if differs v cur then requestPodResize k v p
        else (case actualResources p of None \<Rightarrow> ret ()
        | Some r \<Rightarrow>
          if rl_get (Requests r) ResourceCPU = desiredCPU v \<and> rl_get (Requests r) ResourceMemory = desiredMem v
          then bind (setPhase VirtualMachineResizeInProgress) (\<lambda>_. event ''VMResizeInProgress'')
          else ret ()))))"

section \<open>Conditions\<close>

definition migratable :: "string \<Rightarrow> string \<Rightarrow> string \<Rightarrow> condition" where
  "migratable st reason msg = \<lparr>cd_type = ''Migratable'', cd_status = st, cd_reason = reason, cd_message = msg\<rparr>"

definition iface_blocker :: "network \<Rightarrow> iface \<Rightarrow> condition option" where
  "iface_blocker net ifc =
    (if if_name ifc \<noteq> n_name net then None
     else if n_Pod net \<and> if_Bridge ifc then Some (migratable ''False'' ''InterfaceNotMigratable''
       ''migration is disabled when VM has a bridged interface to the pod network'')
     else if if_SRIOV ifc then Some (migratable ''False'' ''InterfaceNotMigratable''
       ''migration is disabled when VM has a SR-IOV interface'')
     else if if_VhostUser ifc then Some (migratable ''False'' ''InterfaceNotMigratable''
       ''migration is disable when VM has a vhost-user interface'')
     else None)"

definition volume_blocker :: "volume \<Rightarrow> condition option" where
  "volume_blocker vol =
    (if v_ContainerRootfs vol \<noteq> None then Some (migratable ''False'' ''VolumeNotMigratable''
       ''migration is disabled when VM has a containerRootfs volume'')
     else if v_ContainerDisk vol \<noteq> None then Some (migratable ''False'' ''VolumeNotMigratable''
       ''migration is disabled when VM has a containerDisk volume'')
     else None)"

fun first_some :: "('a \<Rightarrow> 'b option) \<Rightarrow> 'a list \<Rightarrow> 'b option" where
  "first_some f [] = None"
| "first_some f (a # as) = (case f a of Some b \<Rightarrow> Some b | None \<Rightarrow> first_some f as)"

definition calculateMigratableCondition :: "vm \<Rightarrow> condition" where
  "calculateMigratableCondition v =
    (let inst = s_Instance (vm_spec v) in
     if DedicatedCPUPlacement (i_cpu inst) then migratable ''False'' ''CPUNotMigratable''
       ''migration is disabled when VM has enabled dedicated CPU placement''
     else case first_some (\<lambda>net. first_some (iface_blocker net) (i_interfaces inst)) (s_Networks (vm_spec v)) of
       Some c \<Rightarrow> c
     | None \<Rightarrow> (case first_some volume_blocker (s_Volumes (vm_spec v)) of
       Some c \<Rightarrow> c
     | None \<Rightarrow> if i_fileSystems inst \<noteq> [] then migratable ''False'' ''FileSystemNotMigratable''
         ''migration is disabled when VM has a fileSystem''
       else migratable ''True'' ''Migratable'' []))"

definition readyCondition :: "condition \<Rightarrow> condition" where
  "readyCondition c = \<lparr>cd_type = ''Ready'', cd_status = cd_status c,
     cd_reason = (if cd_reason c = [] then cd_status c else cd_reason c), cd_message = cd_message c\<rparr>"

definition reconcileVMConditions :: "ext \<Rightarrow> pod \<Rightarrow> ('w, unit) act" where
  "reconcileVMConditions x p =
    bind (modStatus (\<lambda>st. st\<lparr>st_Conditions := fold (\<lambda>c cs. SetStatusCondition x cs (readyCondition c))
      (filter (\<lambda>c. cd_type c = ''Ready'') (pst_conditions (p_status p))) (st_Conditions st)\<rparr>)) (\<lambda>_.
    bind getObj (\<lambda>v.
    case FindStatusCondition x (st_Conditions (vm_status v)) ''Migratable'' of
      Some _ \<Rightarrow> ret ()
    | None \<Rightarrow> modStatus (\<lambda>st. st\<lparr>st_Conditions :=
        SetStatusCondition x (st_Conditions st) (calculateMigratableCondition v)\<rparr>)))"

section \<open>Running and migrating\<close>

definition createTargetVMPod :: "'w api \<Rightarrow> ext \<Rightarrow> string \<Rightarrow> key \<Rightarrow> ('w, unit) act" where
  "createTargetVMPod k x pr key =
    bind (mapErr (ErrS ''build target VM Pod'') (buildTargetVMPod k x pr)) (\<lambda>p.
    createOwnedPod k x ''target VM Pod'' ''CreatedTargetVMPod'' key p)"

text \<open>Whether the hot-pluggable volumes are on the target node, with the helper pod's failure noted in
  the migration. The helper pod is asked for with a copy of the VM that has no volume status.\<close>

definition attachOnTarget :: "'w api \<Rightarrow> ext \<Rightarrow> string \<Rightarrow> vm \<Rightarrow> pod \<Rightarrow> ('w, bool) act" where
  "attachOnTarget k x pr v target =
    bind (handleHotplugVolumes k x pr (v\<lparr>vm_status := (vm_status v)\<lparr>st_VolumeStatus := []\<rparr>\<rparr>) target True) (\<lambda>_.
    bind (getHotplugVolumePods k x target) (\<lambda>pods.
    case pods of [] \<Rightarrow> ret False
    | vp # _ \<Rightarrow>
      bind (modMigration (\<lambda>mg. mg\<lparr>mg_TargetVolumePodUID := p_uid vp\<rparr>)) (\<lambda>_.
      if pst_phase (p_status vp) \<in> {PodFailed, PodSucceeded, PodUnknown}
      then bind (modMigration (\<lambda>mg. mg\<lparr>mg_Phase := MigrationFailed\<rparr>)) (\<lambda>_. ret False)
      else ret (pst_phase (p_status vp) = PodRunning))))"

definition trackTargetVMPod :: "'w api \<Rightarrow> ext \<Rightarrow> string \<Rightarrow> pod \<Rightarrow> ('w, unit) act" where
  "trackTargetVMPod k x pr target =
    bind (modMigration (\<lambda>mg. mg\<lparr>mg_TargetVMPodUID := p_uid target, mg_TargetNodeName := ps_nodeName (p_spec target)\<rparr>)) (\<lambda>_.
    bind getObj (\<lambda>v.
    bind (if pst_phase (p_status target) \<in> {PodFailed, PodSucceeded, PodUnknown}
          then bind (modMigration (\<lambda>mg. mg\<lparr>mg_Phase := MigrationFailed\<rparr>)) (\<lambda>_. ret False)
          else if getHotplugVolumes x v target = [] then ret True
          else if ps_nodeName (p_spec target) \<noteq> [] then attachOnTarget k x pr v target
          else ret False) (\<lambda>attached.
    if pst_phase (p_status target) = PodRunning \<and> attached
    then modMigration (\<lambda>mg. mg\<lparr>mg_Phase := MigrationScheduled\<rparr>) else ret ())))"

text \<open>A target pod that is not found is the zero pod, which the VM does not control.\<close>

definition reconcileMigration :: "'w api \<Rightarrow> ext \<Rightarrow> string \<Rightarrow> migration \<Rightarrow> ('w, unit) act" where
  "reconcileMigration k x pr mg =
    bind getObj (\<lambda>v.
    if mg_Phase mg \<in> {MigrationEmpty, MigrationPending} then
      bind (generateName k (''vm-'' @ vm_Name v @ ''-'')) (\<lambda>n.
      modMigration (\<lambda>mg. mg\<lparr>mg_TargetVMPodName := n, mg_Phase := MigrationScheduling\<rparr>))
    else if mg_Phase mg = MigrationScheduling then
      bind (kread (kGetPod k (pod_key v (mg_TargetVMPodName mg)))) (\<lambda>r.
      bind (case r of Inr p \<Rightarrow> ret p
            | Inl e \<Rightarrow> if e = NotFound then ret empty_pod else throw (ErrS ''get target VM Pod'' (ApiErr e))) (\<lambda>target.
      if \<not> IsControlledBy x (p_meta target) (vm_meta v)
      then createTargetVMPod k x pr (pod_key v (mg_TargetVMPodName mg))
      else trackTargetVMPod k x pr target))
    else ret ())"

definition runningPodPhase :: "pod option \<Rightarrow> ('w, unit) act" where
  "runningPodPhase po =
    bind getObj (\<lambda>v.
    case po of None \<Rightarrow> setPhase VirtualMachineFailed
    | Some p \<Rightarrow>
      if pst_phase (p_status p) = PodSucceeded then
        (if st_Migration (vm_status v) = None then setPhase VirtualMachineSucceeded else ret ())
      else if pst_phase (p_status p) = PodFailed then setPhase VirtualMachineFailed
      else if pst_phase (p_status p) = PodUnknown then setPhase VirtualMachineUnknown
      else ret ())"

definition maintainRunning :: "'w api \<Rightarrow> ext \<Rightarrow> string \<Rightarrow> pod \<Rightarrow> ('w, unit) act" where
  "maintainRunning k x pr p =
    bind (checkAndSetResizePhase p) (\<lambda>_.
    bind (reconcileVMConditions x p) (\<lambda>_.
    bind getObj (\<lambda>v.
    case st_Migration (vm_status v) of
      Some mg \<Rightarrow> reconcileMigration k x pr mg
    | None \<Rightarrow> bind (handleHotplugVolumes k x pr v p False) (\<lambda>_. updateHotplugVolumeStatus k x p))))"

definition reconcileRunning :: "'w api \<Rightarrow> ext \<Rightarrow> string \<Rightarrow> ('w, unit) act" where
  "reconcileRunning k x pr =
    bind getObj (\<lambda>v.
    bind (findVMPod k x v) (\<lambda>po.
    bind (runningPodPhase po) (\<lambda>_.
    bind getObj (\<lambda>v'.
    if phase v' \<noteq> VirtualMachineRunning then ret ()
    else (case po of Some p \<Rightarrow> maintainRunning k x pr p | None \<Rightarrow> ret ())))))"

section \<open>Stopped VMs\<close>

definition should_run :: "run_policy \<Rightarrow> vm_status \<Rightarrow> bool" where
  "should_run policy st = (case policy of
       RunAlways \<Rightarrow> True
     | RunPolicyRerunOnFailure \<Rightarrow> st_Phase st = VirtualMachineFailed \<or> st_Phase st = PhaseEmpty
         \<or> st_PowerAction st = VirtualMachinePowerOn
     | RunPolicyOnce \<Rightarrow> st_Phase st = PhaseEmpty \<or> st_PowerAction st = VirtualMachinePowerOn
     | RunPolicyManual \<Rightarrow> st_PowerAction st = VirtualMachinePowerOn
     | _ \<Rightarrow> False)"

definition reconcileStopped :: "'w api \<Rightarrow> ('w, unit) act" where
  "reconcileStopped k =
    bind (deleteAllVMPods k) (\<lambda>deleted.
    if \<not> deleted then ret ()
    else bind getObj (\<lambda>v.
      if should_run (s_RunPolicy (vm_spec v)) (vm_status v) then setPhase VirtualMachinePending else ret ()))"

section \<open>Reconcile\<close>

definition reconcile :: "'w api \<Rightarrow> ext \<Rightarrow> string \<Rightarrow> ('w, unit) act" where
  "reconcile k x pr =
    bind getObj (\<lambda>v. case phase v of
      VirtualMachinePending \<Rightarrow> reconcilePending k
    | VirtualMachineScheduling \<Rightarrow> reconcileScheduling k x pr
    | VirtualMachineScheduled \<Rightarrow> reconcileScheduling k x pr
    | VirtualMachinePodResizeInProgress \<Rightarrow> mapErr (ErrW ''reconcile VM resize'') (reconcileVMPodResize k)
    | VirtualMachineRunning \<Rightarrow> reconcileRunning k x pr
    | PhaseEmpty \<Rightarrow> reconcileStopped k
    | VirtualMachineSucceeded \<Rightarrow> reconcileStopped k
    | VirtualMachineFailed \<Rightarrow> reconcileStopped k
    | _ \<Rightarrow> ret ())"

text \<open>\<open>reflect.DeepEqual(vm.Status, status)\<close> compares a \<open>VirtualMachineStatus\<close> with a pointer to one;
  values of different types are never deeply equal.\<close>

definition DeepEqual_value_pointer :: "vm_status \<Rightarrow> vm_status \<Rightarrow> bool" where
  "DeepEqual_value_pointer v p = False"

definition requeue_now :: Result where
  "requeue_now = \<lparr>Requeue = True, RequeueAfter = 0\<rparr>"

definition addFinalizer :: "'w api \<Rightarrow> ext \<Rightarrow> ('w, Result) act" where
  "addFinalizer k x =
    bind (modObj (\<lambda>v. v\<lparr>vm_meta := AddFinalizer x (vm_meta v) VMProtectionFinalizer\<rparr>)) (\<lambda>_.
    bind (updateVM k) (\<lambda>r. case r of None \<Rightarrow> ret no_requeue
      | Some e \<Rightarrow> if e = Conflict then ret requeue_now else throw (ErrS ''unable to add finalizer'' (ApiErr e))))"

definition deletable_phase :: "vm_phase \<Rightarrow> bool" where
  "deletable_phase ph \<longleftrightarrow> ph \<in> {PhaseEmpty, VirtualMachinePending, VirtualMachineScheduling, VirtualMachineFailed,
     VirtualMachineSucceeded}"

text \<open>The status update and the classification of the error of \<open>reconcile\<close>.\<close>

definition updateStatus :: "'w api \<Rightarrow> vm_status \<Rightarrow> err option \<Rightarrow> ('w, Result option) act" where
  "updateStatus k old rerr =
    bind getObj (\<lambda>v.
    if DeepEqual_value_pointer (vm_status v) old then ret None
    else bind (updateVMStatus k) (\<lambda>r. case r of None \<Rightarrow> ret None
      | Some e \<Rightarrow> if rerr = None then (if e = Conflict then ret (Some requeue_now)
                     else throw (ErrS ''unable to update VM status'' (ApiErr e)))
                  else ret None))"

definition finishReconcile :: "'w api \<Rightarrow> err option \<Rightarrow> Result option \<Rightarrow> ('w, Result) act" where
  "finishReconcile k rerr early = (case early of
      Some r \<Rightarrow> ret r
    | None \<Rightarrow> (case rerr of
        Some e \<Rightarrow> (case errors_As e of Some r \<Rightarrow> ret r
                   | None \<Rightarrow> bind (event ''FailedReconcile'') (\<lambda>_. throw e))
      | None \<Rightarrow> bind (mapErr (ErrS ''GC VM Pods'') (gcVMPods k)) (\<lambda>_. ret no_requeue)))"

definition runReconcile :: "'w api \<Rightarrow> ext \<Rightarrow> string \<Rightarrow> ('w, Result) act" where
  "runReconcile k x pr =
    bind getObj (\<lambda>v.
    bind (attempt (reconcile k x pr)) (\<lambda>res.
    let rerr = (case res of Inl e \<Rightarrow> Some e | Inr _ \<Rightarrow> None) in
    bind (updateStatus k (vm_status v) rerr) (finishReconcile k rerr)))"

definition deleteVM :: "'w api \<Rightarrow> ext \<Rightarrow> ('w, Result) act \<Rightarrow> ('w, Result) act" where
  "deleteVM k x continue =
    bind (mapErr (ErrS ''unable to delete pods for VM delete'') (deleteAllVMPods k)) (\<lambda>deleted.
    if deleted then
      bind (modObj (\<lambda>v. v\<lparr>vm_meta := RemoveFinalizer x (vm_meta v) VMProtectionFinalizer\<rparr>)) (\<lambda>_.
      bind (updateVM k) (\<lambda>r. case r of None \<Rightarrow> ret no_requeue
        | Some e \<Rightarrow> throw (ErrS ''unable to remove finalizer'' (ApiErr e))))
    else continue)"

definition Reconcile :: "'w api \<Rightarrow> ext \<Rightarrow> string \<Rightarrow> key \<Rightarrow> ('w, Result) act" where
  "Reconcile k x pr req =
    bind (kread (kGetVM k req)) (\<lambda>r. case r of
      Inl e \<Rightarrow> if e = NotFound then ret no_requeue else throw (ApiErr e)
    | Inr v \<Rightarrow> bind (modObj (\<lambda>_. v)) (\<lambda>_.
        if m_deletionTimestamp (vm_meta v) = None \<and> \<not> ContainsFinalizer x (vm_meta v) VMProtectionFinalizer
        then addFinalizer k x
        else if being_deleted (vm_meta v) \<and> deletable_phase (phase v) then deleteVM k x (runReconcile k x pr)
        else runReconcile k x pr))"

section \<open>Watches\<close>

definition vmUID_index :: "ext \<Rightarrow> pod \<Rightarrow> string list" where
  "vmUID_index x p = (case GetControllerOf x (p_meta p) of
     Some ow \<Rightarrow> if or_apiVersion ow = ''cloudhypervisor.quill.today/v1beta1'' \<and> or_kind ow = ''VirtualMachine''
                then [or_uid ow] else []
   | None \<Rightarrow> [])"

definition podRequests :: "'w api \<Rightarrow> ext \<Rightarrow> 'w \<Rightarrow> pod \<Rightarrow> key list" where
  "podRequests k x w p =
    (let request = (\<lambda>ref. case ref of None \<Rightarrow> []
           | Some ow \<Rightarrow> if or_kind ow \<noteq> ''VirtualMachine'' then []
                       else [\<lparr>k_ns = m_namespace (p_meta p), k_name = or_name ow\<rparr>]) in
     case GetControllerOf x (p_meta p) of None \<Rightarrow> []
     | Some ow \<Rightarrow> if or_kind ow = ''Pod''
         then (case kGetPod k \<lparr>k_ns = m_namespace (p_meta p), k_name = or_name ow\<rparr> w of
           Inl _ \<Rightarrow> [] | Inr parent \<Rightarrow> request (GetControllerOf x (p_meta parent)))
         else request (Some ow))"

definition pvcRequests :: "'w api \<Rightarrow> ext \<Rightarrow> 'w \<Rightarrow> pvc \<Rightarrow> key list" where
  "pvcRequests k x w c =
    (case kListVMs k (m_namespace (pvc_meta c)) w of Inl _ \<Rightarrow> []
     | Inr vms \<Rightarrow> map (\<lambda>v. \<lparr>k_ns = vm_Namespace v, k_name = vm_Name v\<rparr>)
         (filter (\<lambda>v. list_ex (\<lambda>vol. PVCName x vol = m_name (pvc_meta c)) (s_Volumes (vm_spec v))) vms))"

section \<open>Phases an action can reach\<close>

lemma ends_basic [ends]:
  "ends S (event ev)" "ends S (createPod k p)" "ends S (deletePod k p)" "ends S (resizePod k p)" "ends S (generateName k b)"
  by (rule ends_keeps_obj; intro keeps)+

text \<open>Building a pod writes the VM's labels, annotations and resource lists, never its status.\<close>

lemma keeps_status_writePod [keeps]: "keeps (\<lambda>s. vm_status (obj s)) (writePod p)"
  unfolding writePod_def
  by (rule keeps_bind, simp add: keeps_def modObj_def sync_def, intro keeps)

lemma keeps_status_incMain [keeps]: "keeps (\<lambda>s. vm_status (obj s)) (incMain r p)"
  unfolding incMain_def by (intro keeps)

lemma keeps_status_pod_add_volume [keeps]: "keeps f (pod_add_volume k x pr vol st)"
  unfolding pod_add_volume_def claim_volume_def Let_def by (intro keeps)

lemma keeps_status_put_annotation [keeps]: "keeps (\<lambda>s. vm_status (obj s)) (put_annotation a t p)"
  unfolding put_annotation_def by (intro keeps)

lemma keeps_status_pod_add_network [keeps]: "keeps (\<lambda>s. vm_status (obj s)) (pod_add_network k x pr inet st)"
  unfolding pod_add_network_def multus_def vhost_user_def kube_ovn_def Let_def by (intro keeps)

lemma keeps_status_buildVMPod [keeps]: "keeps (\<lambda>s. vm_status (obj s)) (buildVMPod k x pr)"
  unfolding buildVMPod_def start_pod_def pod_volumes_def pod_networks_def by (intro keeps)

lemma keeps_status_buildTargetVMPod [keeps]: "keeps (\<lambda>s. vm_status (obj s)) (buildTargetVMPod k x pr)"
  unfolding buildTargetVMPod_def Let_def
  by (intro keeps_bind keeps, simp add: keeps_def modObj_def)

lemma ends_status: "keeps (\<lambda>s. vm_status (obj s)) m \<Longrightarrow> ends S m"
  by (simp add: maintains_def keeps_def)

lemma ends_build [ends]: "ends S (buildVMPod k x pr)" "ends S (buildTargetVMPod k x pr)"
  by (intro ends_status keeps)+

lemma keeps_obj_parts [keeps]:
  "keeps obj (createOwnedPod k x w ev key p)" "keeps obj (deleteVMPod k ev p)" "keeps obj (findVMPod k x v)"
  "keeps obj (listVMPods k v)" "keeps obj (requestPodResize k v p)"
  unfolding createOwnedPod_def deleteVMPod_def findVMPod_def listVMPods_def requestPodResize_def Let_def
  by (intro keeps)+

lemma keeps_obj_deletes [keeps]: "keeps obj (gcVMPods k)" "keeps obj (deleteAllVMPods k)"
  unfolding gcVMPods_def deleteAllVMPods_def by (intro keeps)+

lemma ends_obj_parts [ends]:
  "ends S (createOwnedPod k x w ev key p)" "ends S (deleteVMPod k ev p)" "ends S (findVMPod k x v)"
  "ends S (requestPodResize k v p)" "ends S (gcVMPods k)" "ends S (deleteAllVMPods k)"
  "ends S (handleHotplugVolumes k x pr v p wait)" "ends S (getHotplugVolumePods k x p)"
  by (rule ends_keeps_obj; intro keeps)+

lemma ends_updateHotplugVolumeStatus [ends]: "ends S (updateHotplugVolumeStatus k x p)"
  unfolding updateHotplugVolumeStatus_def
  by (intro ends_bind ends ends_modStatus) (auto simp: maintains_def lift_def)

section \<open>Phases of the state machine\<close>

text \<open>What each handler can reach.\<close>

lemma ends_followPodPhase:
  "{VirtualMachineScheduled, VirtualMachineSucceeded, VirtualMachineFailed, VirtualMachineUnknown} \<subseteq> S
     \<Longrightarrow> ends S (followPodPhase x p)"
  unfolding followPodPhase_def
  by (intro ends_bind ends) (cases "pst_phase (p_status p)"; auto intro!: ends)

lemma ends_reconcileScheduling:
  "{VirtualMachineScheduled, VirtualMachineSucceeded, VirtualMachineFailed, VirtualMachineUnknown} \<subseteq> S
     \<Longrightarrow> ends S (reconcileScheduling k x pr)"
  unfolding reconcileScheduling_def createVMPod_def trackVMPod_def
  by (intro ends_bind ends ends_followPodPhase ends_modStatus) auto

lemma ends_reconcileVMPodResize:
  "{VirtualMachineFailed, VirtualMachineRunning, VirtualMachineResizeInProgress} \<subseteq> S \<Longrightarrow> ends S (reconcileVMPodResize k)"
  unfolding reconcileVMPodResize_def by (intro ends_bind ends) auto

lemma ends_reconcileMigration [ends]: "ends S (reconcileMigration k x pr mg)"
proof -
  have "ends S (attachOnTarget k x pr v target)" for v target
    unfolding attachOnTarget_def
    by (intro ends_bind ends) (auto intro!: ends split: list.split)
  then show ?thesis
    unfolding reconcileMigration_def createTargetVMPod_def trackTargetVMPod_def by (intro ends_bind ends)
qed

lemma ends_checkAndSetResizePhase:
  "VirtualMachinePodResizeInProgress \<in> S \<Longrightarrow> ends S (checkAndSetResizePhase p)"
  unfolding checkAndSetResizePhase_def by (intro ends_bind ends)

lemma ends_reconcileVMConditions [ends]: "ends S (reconcileVMConditions x p)"
  unfolding reconcileVMConditions_def by (intro ends_bind ends ends_modStatus) simp_all

lemma ends_runningPodPhase:
  "{VirtualMachineSucceeded, VirtualMachineFailed, VirtualMachineUnknown} \<subseteq> S \<Longrightarrow> ends S (runningPodPhase po)"
  unfolding runningPodPhase_def by (intro ends_bind ends) auto

lemma ends_maintainRunning:
  "VirtualMachinePodResizeInProgress \<in> S \<Longrightarrow> ends S (maintainRunning k x pr p)"
  unfolding maintainRunning_def by (intro ends_bind ends ends_checkAndSetResizePhase)

lemma ends_reconcileRunning:
  "{VirtualMachineSucceeded, VirtualMachineFailed, VirtualMachineUnknown, VirtualMachinePodResizeInProgress} \<subseteq> S
     \<Longrightarrow> ends S (reconcileRunning k x pr)"
  unfolding reconcileRunning_def by (intro ends_bind ends ends_runningPodPhase ends_maintainRunning) auto

lemma ends_reconcileStopped: "VirtualMachinePending \<in> S \<Longrightarrow> ends S (reconcileStopped k)"
  unfolding reconcileStopped_def by (intro ends_bind ends)

text \<open>The transitions the controller makes on its own; every other phase is left to the daemon.\<close>

inductive vm_transition :: "vm_phase \<Rightarrow> vm_phase \<Rightarrow> bool" where
  stay: "vm_transition ph ph"
| start: "ph \<in> {PhaseEmpty, VirtualMachineSucceeded, VirtualMachineFailed} \<Longrightarrow> vm_transition ph VirtualMachinePending"
| schedule: "vm_transition VirtualMachinePending VirtualMachineScheduling"
| scheduled: "vm_transition VirtualMachineScheduling VirtualMachineScheduled"
| stop: "ph \<in> {VirtualMachineScheduling, VirtualMachineScheduled, VirtualMachineRunning} \<Longrightarrow>
    ph' \<in> {VirtualMachineSucceeded, VirtualMachineFailed, VirtualMachineUnknown} \<Longrightarrow> vm_transition ph ph'"
| resize: "vm_transition VirtualMachineRunning VirtualMachinePodResizeInProgress"
| resized: "ph \<in> {VirtualMachineRunning, VirtualMachineResizeInProgress, VirtualMachineFailed} \<Longrightarrow>
    vm_transition VirtualMachinePodResizeInProgress ph"

inductive_simps vm_transition_from [simp]:
  "vm_transition VirtualMachineRunning ph" "vm_transition VirtualMachineScheduled ph"
  "vm_transition VirtualMachineScheduling ph" "vm_transition VirtualMachinePending ph"
  "vm_transition VirtualMachinePodResizeInProgress ph" "vm_transition PhaseEmpty ph"
  "vm_transition VirtualMachineSucceeded ph" "vm_transition VirtualMachineFailed ph"

lemma reconcile_by_phase:
  "reconcile k x pr s = (case phase (obj s) of
      VirtualMachinePending \<Rightarrow> reconcilePending k s
    | VirtualMachineScheduling \<Rightarrow> reconcileScheduling k x pr s
    | VirtualMachineScheduled \<Rightarrow> reconcileScheduling k x pr s
    | VirtualMachinePodResizeInProgress \<Rightarrow> mapErr (ErrW ''reconcile VM resize'') (reconcileVMPodResize k) s
    | VirtualMachineRunning \<Rightarrow> reconcileRunning k x pr s
    | PhaseEmpty \<Rightarrow> reconcileStopped k s
    | VirtualMachineSucceeded \<Rightarrow> reconcileStopped k s
    | VirtualMachineFailed \<Rightarrow> reconcileStopped k s
    | _ \<Rightarrow> (Ok (), s))"
  by (simp add: reconcile_def bind_def getObj_def ret_def split: vm_phase.split)

lemma reconcile_moves:
  "vm_transition (phase (obj s)) (phase (obj (snd (reconcile k x pr s))))"
proof -
  let ?sched = "{VirtualMachineScheduled, VirtualMachineSucceeded, VirtualMachineFailed, VirtualMachineUnknown}"
  let ?run = "{VirtualMachineRunning, VirtualMachineSucceeded, VirtualMachineFailed, VirtualMachineUnknown, VirtualMachinePodResizeInProgress}"
  let ?resize = "{VirtualMachineFailed, VirtualMachineRunning, VirtualMachineResizeInProgress, VirtualMachinePodResizeInProgress}"
  have stopped: "ends {ph, VirtualMachinePending} (reconcileStopped k)" for ph
    by (rule ends_reconcileStopped) simp
  note facts = endsD [OF ends_reconcileScheduling, of ?sched s] endsD [OF ends_reconcileScheduling, of "insert VirtualMachineScheduling ?sched" s]
    endsD [OF ends_reconcileRunning, of ?run s] endsD [OF ends_mapErr [OF ends_reconcileVMPodResize], of ?resize s]
    endsD [OF stopped, of s]
  show ?thesis
  proof (cases "phase (obj s)")
    case VirtualMachinePending
    then show ?thesis
      by (simp add: reconcile_by_phase reconcilePending_def setPhase_def act_defs split: prod.split)
  next
    case VirtualMachineScheduling
    then show ?thesis using facts(2) [of k x pr] by (simp add: reconcile_by_phase)
  next
    case VirtualMachineScheduled
    then show ?thesis using facts(1) [of k x pr] by (simp add: reconcile_by_phase)
  next
    case VirtualMachineRunning
    then show ?thesis using facts(3) [of k x pr] by (simp add: reconcile_by_phase)
  next
    case VirtualMachinePodResizeInProgress
    then show ?thesis using facts(4) [of "ErrW ''reconcile VM resize''" k] by (auto simp: reconcile_by_phase)
  next
    case PhaseEmpty
    then show ?thesis using facts(5) [of PhaseEmpty] by (simp add: reconcile_by_phase)
  next
    case VirtualMachineSucceeded
    then show ?thesis using facts(5) [of VirtualMachineSucceeded] by (simp add: reconcile_by_phase)
  next
    case VirtualMachineFailed
    then show ?thesis using facts(5) [of VirtualMachineFailed] by (simp add: reconcile_by_phase)
  qed (simp_all add: reconcile_by_phase stay)
qed

text \<open>C1: Whatever the API server answers and whether the round succeeds, fails or panics, one round of
  \<open>reconcile\<close> moves the VM only along the transitions of the state machine: a stopped VM may become
  pending, a pending one scheduling, a scheduling one scheduled; scheduling, scheduled and running VMs
  may stop; a running VM may enter the pod resize and a pod resize ends running, in the daemon's resize
  or failed. Every other phase is left alone.\<close>

theorem reconcile_transitions:
  "vm_transition (phase (obj s)) (phase (obj (snd (reconcile k x pr s))))"
  by (rule reconcile_moves)

section \<open>Properties\<close>

lemma deleteAllVMPods_True: "returns (\<lambda>b. b) (deleteAllVMPods k)"
  unfolding deleteAllVMPods_def by (intro returns_bind_any returns) simp_all

text \<open>When a round over a stopped VM succeeds, the VM becomes pending exactly when its run policy
  says so: always; after anything but success, or on power-on; only the first time, or on power-on;
  or on power-on only. Otherwise its phase stays.\<close>

theorem stopped_vm_restarts:
  assumes "phase (obj s) \<in> {PhaseEmpty, VirtualMachineSucceeded, VirtualMachineFailed}"
    and "reconcile k x pr s = (Ok (), s')"
  shows "phase (obj s') = (let policy = s_RunPolicy (vm_spec (obj s)); on = (st_PowerAction (vm_status (obj s)) = VirtualMachinePowerOn) in
     if policy = RunAlways \<or> policy = RunPolicyRerunOnFailure \<and> (phase (obj s) \<noteq> VirtualMachineSucceeded \<or> on)
       \<or> policy = RunPolicyOnce \<and> (phase (obj s) = PhaseEmpty \<or> on) \<or> policy = RunPolicyManual \<and> on
     then VirtualMachinePending else phase (obj s))"
proof -
  have "reconcileStopped k s = (Ok (), s')" using assms by (auto simp: reconcile_by_phase)
  then obtain b s1 where d: "deleteAllVMPods k s = (Ok b, s1)"
    and rest: "(if \<not> b then ret () else bind getObj (\<lambda>v.
      if should_run (s_RunPolicy (vm_spec v)) (vm_status v) then setPhase VirtualMachinePending else ret ())) s1 = (Ok (), s')"
    unfolding reconcileStopped_def bind_Ok by blast
  have "b" using returnsD [OF deleteAllVMPods_True d] .
  moreover have "obj s1 = obj s" using keepsD [OF keeps_obj_deletes(2), of k s] d by simp
  ultimately have "phase (obj s') = (if should_run (s_RunPolicy (vm_spec (obj s))) (vm_status (obj s))
      then VirtualMachinePending else phase (obj s))"
    using rest by (auto simp: bind_def getObj_def ret_def setPhase_def modStatus_def modObj_def split: if_splits)
  then show ?thesis using assms(1) by (auto simp: should_run_def Let_def split: run_policy.splits)
qed

subsection \<open>Garbage collection\<close>

definition deleted_pods :: "call list \<Rightarrow> pod list" where
  "deleted_pods cs = List.map_filter (\<lambda>c. case c of DeletePod p _ \<Rightarrow> Some p | _ \<Rightarrow> None) cs"

lemma deleted_pods_append [simp]: "deleted_pods (cs @ ds) = deleted_pods cs @ deleted_pods ds"
  by (simp add: deleted_pods_def map_filter_def)

lemma deleteVMPod_Ok:
  assumes "deleteVMPod k ev p s = (Ok (), s')"
  shows "deleted_pods (trace s') = deleted_pods (trace s) @ [p]"
proof -
  obtain r w where "kDeletePod k p (world s) = (r, w)" by (cases "kDeletePod k p (world s)")
  then show ?thesis using assms
    by (cases r) (auto simp: deleteVMPod_def deleted_pods_def map_filter_def act_defs split: if_splits)
qed

lemma for_each_deleted:
  assumes "for_each ps (\<lambda>p. if skip p then ret () else deleteVMPod k ev p) s = (Ok (), s')"
  shows "deleted_pods (trace s') = deleted_pods (trace s) @ filter (\<lambda>p. \<not> skip p) ps"
  using assms
proof (induction ps arbitrary: s)
  case (Cons p ps)
  then obtain s1 where "(if skip p then ret () else deleteVMPod k ev p) s = (Ok (), s1)"
    and rest: "for_each ps (\<lambda>p. if skip p then ret () else deleteVMPod k ev p) s1 = (Ok (), s')"
    by (auto simp: bind_Ok)
  then have "deleted_pods (trace s1) = deleted_pods (trace s) @ (if skip p then [] else [p])"
    using deleteVMPod_Ok by (auto simp: ret_def split: if_splits)
  then show ?case using Cons.IH [OF rest] by simp
qed (simp add: ret_def)

text \<open>When garbage collection succeeds, it has asked for the deletion of exactly those pods of the VM
  that are not already being deleted, are not its current pod and are not the target pod of its
  migration, each once and in the order listed.\<close>

theorem gc_deletes_exactly_stale:
  assumes "gcVMPods k s = (Ok (), s')" and "kListPodsByVMUID k (vm_UID (obj s)) (world s) = Inr pods"
  shows "deleted_pods (trace s') = deleted_pods (trace s) @ filter (\<lambda>p. \<not> being_deleted (p_meta p)
     \<and> p_name p \<noteq> st_VMPodName (vm_status (obj s))
     \<and> (\<forall>mg. st_Migration (vm_status (obj s)) = Some mg \<longrightarrow> p_name p \<noteq> mg_TargetVMPodName mg)) pods"
proof -
  have split: "(if a then ret () else if b then ret () else m) = (if a \<or> b then ret () else m)" for a b :: bool and m :: "('a, unit) act"
    by simp
  have "for_each pods (\<lambda>p. if being_deleted (p_meta p) \<or> keep_pod (vm_status (obj s)) p then ret ()
      else deleteVMPod k ''GCDeletedVMPod'' p) s = (Ok (), s')"
    using assms unfolding gcVMPods_def listVMPods_def split by (simp add: bind_def getObj_def kread_def ret_def)
  from for_each_deleted [OF this] show ?thesis
    by (cases "st_Migration (vm_status (obj s))") (simp_all add: keep_pod_def)
qed

subsection \<open>Resizing\<close>

text \<open>C22: The VM enters the daemon's resize phase only from a pod that already reports the CPU and the
  memory (with the overhead) of the VM's spec as its actual requests.\<close>

theorem resize_waits_for_pod:
  assumes "phase (obj s) = VirtualMachinePodResizeInProgress"
    and "phase (obj (snd (reconcile k x pr s))) = VirtualMachineResizeInProgress"
  shows "\<exists>p r. kGetPod k (pod_key (obj s) (st_VMPodName (vm_status (obj s)))) (world s) = Inr p \<and> actualResources p = Some r
     \<and> rl_get (Requests r) ResourceCPU = desiredCPU (obj s) \<and> rl_get (Requests r) ResourceMemory = desiredMem (obj s)"
proof (cases "kGetPod k (pod_key (obj s) (st_VMPodName (vm_status (obj s)))) (world s)")
  case (Inl e)
  then show ?thesis using assms
    by (auto simp: reconcile_by_phase reconcileVMPodResize_def setPhase_def act_defs split: if_splits)
next
  case (Inr p)
  have keep: "obj (snd (requestPodResize k v p s)) = obj s" for v
    by (rule keepsD [OF keeps_obj_parts(5)])
  have "snd (mapErr f m s) = snd (m s)" for f and m :: "('a, unit) act"
    by (auto simp: mapErr_def split: prod.split outcome.split)
  then have "phase (obj (snd (reconcileVMPodResize k s))) = VirtualMachineResizeInProgress"
    using assms by (simp add: reconcile_by_phase)
  then show ?thesis using Inr assms(1) keep
    by (auto simp: reconcileVMPodResize_def setPhase_def bind_def getObj_def kread_def ret_def modStatus_def
        modObj_def event_def split: if_splits option.splits)
qed

text \<open>C35: The patch sent to the pod's resize subresource sets the requests and the limits of the VM
  manager container to the CPU and the memory (with the overhead) of the VM's spec, and leaves every
  other resource, every other container and the rest of the pod as they were.\<close>

theorem resize_patch_sets_spec:
  assumes "ps_containers (p_spec p) = cs @ [c] @ ds" and "c_name c = ''vm-manager''"
    and "list_all (\<lambda>c. c_name c \<noteq> ''vm-manager'') cs"
  shows "\<exists>c'. resizePatch v p = p\<lparr>p_spec := (p_spec p)\<lparr>ps_containers := cs @ [c'] @ ds\<rparr>\<rparr> \<and> c' = c\<lparr>c_resources := c_resources c'\<rparr>
     \<and> (\<forall>r. rl_get (Requests (c_resources c')) r = (if r = ResourceCPU then desiredCPU v else if r = ResourceMemory then desiredMem v
              else rl_get (Requests (c_resources c)) r))
     \<and> (\<forall>r. rl_get (Limits (c_resources c')) r = (if r = ResourceCPU then desiredCPU v else if r = ResourceMemory then desiredMem v
              else rl_get (Limits (c_resources c)) r))"
proof -
  have "resize_first v (cs @ [c] @ ds) = cs @ [c\<lparr>c_resources := resized v (c_resources c)\<rparr>] @ ds"
    using assms(2,3) by (induction cs) auto
  then show ?thesis using assms(1)
    by (intro exI [of _ "c\<lparr>c_resources := resized v (c_resources c)\<rparr>"])
      (simp add: resizePatch_def resized_def rl_get_def gm_get_def gm_make_def split: option.split)
qed

text \<open>A pod resize the kubelet reports as infeasible never settles: the round that sees it sends the
  VM back to running, and the next round over the same pod starts the same resize again.\<close>

theorem infeasible_resize_loops:
  assumes "phase (obj s) = VirtualMachinePodResizeInProgress"
    and "kGetPod k (pod_key (obj s) (st_VMPodName (vm_status (obj s)))) (world s) = Inr p"
    and "pst_resize (p_status p) = ResizeInfeasible" and "pst_phase (p_status p) = PodRunning"
    and "IsControlledBy x (p_meta p) (vm_meta (obj s))"
    and "actualResources p = Some r" and "differs (obj s) r"
  shows "phase (obj (snd (reconcile k x pr s))) = VirtualMachineRunning
    \<and> phase (obj (snd (reconcile k x pr (snd (reconcile k x pr s))))) = VirtualMachinePodResizeInProgress"
proof -
  define s1 where "s1 = snd (reconcile k x pr s)"
  have s1: "obj s1 = (obj s)\<lparr>vm_status := (vm_status (obj s))\<lparr>st_Phase := VirtualMachineRunning\<rparr>\<rparr>" "world s1 = world s"
    using assms by (simp_all add: s1_def reconcile_by_phase reconcileVMPodResize_def setPhase_def act_defs)
  have d: "differs (obj s1) r" using assms(7) s1(1) by (simp add: differs_def desiredCPU_def desiredMem_def)
  define s2 where "s2 = s1\<lparr>obj := (obj s1)\<lparr>vm_status := (vm_status (obj s1))\<lparr>st_Phase := VirtualMachinePodResizeInProgress\<rparr>\<rparr>,
     trace := trace s1 @ [Event ''VMResizeInitiated'']\<rparr>"
  have c: "checkAndSetResizePhase p s1 = (Ok (), s2)"
    using assms(6) s1(1) d by (simp add: checkAndSetResizePhase_def setPhase_def act_defs s2_def)
  have "reconcileRunning k x pr s1 = maintainRunning k x pr p s1"
    using assms(2,4,5) s1 by (simp add: reconcileRunning_def findVMPod_def runningPodPhase_def pod_key_def act_defs)
  also have "\<dots> = bind (reconcileVMConditions x p) (\<lambda>_. bind getObj (\<lambda>v. case st_Migration (vm_status v) of
      Some mg \<Rightarrow> reconcileMigration k x pr mg
    | None \<Rightarrow> bind (handleHotplugVolumes k x pr v p False) (\<lambda>_. updateHotplugVolumeStatus k x p))) s2"
    (is "_ = ?rest s2") using c by (simp add: maintainRunning_def bind_def)
  also have "phase (obj (snd (?rest s2))) \<in> {VirtualMachinePodResizeInProgress}"
    by (rule endsD, intro ends_bind ends) (simp add: s2_def)
  finally show ?thesis using s1(1) by (simp add: s1_def [symmetric] reconcile_by_phase [of k x pr s1])
qed

subsection \<open>Migratability\<close>

lemma first_some_None: "first_some f xs = None \<longleftrightarrow> (\<forall>a\<in>set xs. f a = None)"
  by (induction xs) (auto split: option.split)

lemma first_some_Some: "first_some f xs = Some b \<Longrightarrow> \<exists>a\<in>set xs. f a = Some b"
  by (induction xs) (auto split: option.splits)

lemma iface_blocker_status: "iface_blocker net ifc = Some c \<Longrightarrow> cd_status c = ''False''"
  by (auto simp: iface_blocker_def migratable_def split: if_splits)

lemma volume_blocker_status: "volume_blocker vol = Some c \<Longrightarrow> cd_status c = ''False''"
  by (auto simp: volume_blocker_def migratable_def split: if_splits)

lemma volume_blocker_None: "volume_blocker vol = None \<longleftrightarrow> v_ContainerDisk vol = None \<and> v_ContainerRootfs vol = None"
  by (auto simp: volume_blocker_def)

text \<open>A VM is reported migratable exactly when it has no dedicated CPUs, none of its networks is on a
  bridged pod interface, an SR-IOV interface or a vhost-user interface, it has no container disk or
  container rootfs volume and no file system.\<close>

theorem migratable_iff:
  "cd_status (calculateMigratableCondition v) = ''True'' \<longleftrightarrow>
     (let inst = s_Instance (vm_spec v) in \<not> DedicatedCPUPlacement (i_cpu inst)
      \<and> \<not> list_ex (\<lambda>net. list_ex (\<lambda>ifc. if_name ifc = n_name net
            \<and> (n_Pod net \<and> if_Bridge ifc \<or> if_SRIOV ifc \<or> if_VhostUser ifc)) (i_interfaces inst)) (s_Networks (vm_spec v))
      \<and> list_all (\<lambda>vol. v_ContainerDisk vol = None \<and> v_ContainerRootfs vol = None) (s_Volumes (vm_spec v))
      \<and> i_fileSystems inst = [])"
proof -
  let ?inst = "s_Instance (vm_spec v)"
  let ?nets = "first_some (\<lambda>net. first_some (iface_blocker net) (i_interfaces ?inst)) (s_Networks (vm_spec v))"
  let ?vols = "first_some volume_blocker (s_Volumes (vm_spec v))"
  have status: "cd_status (calculateMigratableCondition v) = ''True'' \<longleftrightarrow>
      \<not> DedicatedCPUPlacement (i_cpu ?inst) \<and> ?nets = None \<and> ?vols = None \<and> i_fileSystems ?inst = []"
  proof -
    have "cd_status c = ''False''" if "?nets = Some c" for c
      using first_some_Some [OF that] first_some_Some iface_blocker_status by metis
    moreover have "cd_status c = ''False''" if "?vols = Some c" for c
      using first_some_Some [OF that] volume_blocker_status by metis
    ultimately show ?thesis
      by (cases ?nets; cases ?vols) (auto simp: calculateMigratableCondition_def Let_def migratable_def)
  qed
  have "?nets = None \<longleftrightarrow> \<not> list_ex (\<lambda>net. list_ex (\<lambda>ifc. if_name ifc = n_name net
            \<and> (n_Pod net \<and> if_Bridge ifc \<or> if_SRIOV ifc \<or> if_VhostUser ifc)) (i_interfaces ?inst)) (s_Networks (vm_spec v))"
    by (simp add: first_some_None iface_blocker_def list_ex_iff) blast
  moreover have "?vols = None \<longleftrightarrow> list_all (\<lambda>vol. v_ContainerDisk vol = None \<and> v_ContainerRootfs vol = None) (s_Volumes (vm_spec v))"
    by (simp add: first_some_None volume_blocker_None list_all_iff)
  ultimately show ?thesis using status by (simp add: Let_def)
qed

subsection \<open>Deletion and status updates\<close>

definition is_delete :: "call \<Rightarrow> bool" where
  "is_delete c = (case c of DeletePod _ _ \<Rightarrow> True | Event _ \<Rightarrow> True | _ \<Rightarrow> False)"

text \<open>A deletion that was carried out, or of a pod that was gone.\<close>

definition accepted :: "call \<Rightarrow> bool" where
  "accepted c = (case c of DeletePod _ r \<Rightarrow> \<not> hard_error r | _ \<Rightarrow> True)"

lemma deletes_outcome:
  assumes "for_each ps (\<lambda>p. if skip p then ret () else deleteVMPod k ev p) s = (r, s')"
  shows "\<exists>cs. trace s' = trace s @ cs \<and> list_all is_delete cs
    \<and> (r = Ok () \<and> list_all accepted cs \<and> deleted_pods cs = filter (\<lambda>p. \<not> skip p) ps
      \<or> \<not> is_ok r \<and> (\<exists>ds p e. cs = ds @ [DeletePod p (Some e)] \<and> e \<noteq> NotFound \<and> list_all accepted ds))"
  using assms
proof (induction ps arbitrary: s)
  case (Cons p ps)
  show ?case
  proof (cases "skip p")
    case True
    then show ?thesis using Cons by (simp add: bind_def ret_def)
  next
    case False
    obtain d w where d: "kDeletePod k p (world s) = (d, w)" by fastforce
    show ?thesis
    proof (cases "hard_error d")
      case True
      then obtain e where e: "d = Some e" "e \<noteq> NotFound" by (auto simp: hard_error_def)
      then have "\<not> is_ok r" "trace s' = trace s @ [DeletePod p (Some e)]"
        using Cons.prems False d by (auto simp: deleteVMPod_def deletePod_def kwrite_def bind_def throw_def)
      then show ?thesis using e by (intro exI [of _ "[DeletePod p (Some e)]"]) (simp add: is_delete_def)
    next
      case soft: False
      let ?s = "s\<lparr>world := w, trace := trace s @ [DeletePod p d, Event ev]\<rparr>"
      have "for_each ps (\<lambda>p. if skip p then ret () else deleteVMPod k ev p) ?s = (r, s')"
        using Cons.prems False d soft
        by (cases d) (auto simp: deleteVMPod_def deletePod_def kwrite_def bind_def event_def hard_error_def split: if_splits)
      from Cons.IH [OF this] obtain cs where cs: "trace s' = trace s @ [DeletePod p d, Event ev] @ cs" "list_all is_delete cs"
        "r = Ok () \<and> list_all accepted cs \<and> deleted_pods cs = filter (\<lambda>p. \<not> skip p) ps
          \<or> \<not> is_ok r \<and> (\<exists>ds p e. cs = ds @ [DeletePod p (Some e)] \<and> e \<noteq> NotFound \<and> list_all accepted ds)" by auto
      have "list_all accepted [DeletePod p d, Event ev]" "list_all is_delete [DeletePod p d, Event ev]"
        "deleted_pods [DeletePod p d, Event ev] = [p]"
        using soft by (simp_all add: accepted_def is_delete_def deleted_pods_def map_filter_def)
      with cs False show ?thesis
        by (intro exI [of _ "[DeletePod p d, Event ev] @ cs"]) (auto simp del: append.simps simp: deleted_pods_append intro: exI [of _ "[DeletePod p d, Event ev] @ _"])
    qed
  qed
qed (simp add: ret_def deleted_pods_def map_filter_def)

lemma deleteAllVMPods_outcome:
  assumes "deleteAllVMPods k s = (r, s')" and "kListPodsByVMUID k (vm_UID (obj s)) (world s) = Inr pods"
  shows "\<exists>cs. trace s' = trace s @ cs \<and> list_all is_delete cs
    \<and> (r = Ok True \<and> list_all accepted cs \<and> deleted_pods cs = filter (\<lambda>p. \<not> being_deleted (p_meta p)) pods
      \<or> \<not> is_ok r \<and> (\<exists>ds p e. cs = ds @ [DeletePod p (Some e)] \<and> e \<noteq> NotFound \<and> list_all accepted ds))"
proof -
  let ?loop = "for_each pods (\<lambda>p. if being_deleted (p_meta p) then ret () else deleteVMPod k ''DeletedVMPod'' p)"
  obtain q s1 where q: "?loop s = (q, s1)" by fastforce
  have "(r, s') = (case q of Ok _ \<Rightarrow> Ok True | Err e \<Rightarrow> Err e | Panic e \<Rightarrow> Panic e, s1)"
    using assms q by (cases "pods = []"; cases q) (auto simp: deleteAllVMPods_def listVMPods_def bind_def getObj_def kread_def ret_def)
  then show ?thesis using deletes_outcome [OF q] by (cases q) auto
qed

lemma Reconcile_deleting:
  assumes "kGetVM k req (world s) = Inr v" "being_deleted (vm_meta v)" "deletable_phase (phase v)"
  shows "Reconcile k x pr req s = deleteVM k x (runReconcile k x pr) (s\<lparr>obj := v\<rparr>)"
  using assms
  by (auto simp: Reconcile_def bind_def kread_def modObj_def being_deleted_def split: option.splits)

lemma updateObj_trace: "\<exists>r s' b. updateObj f c s = (Ok r, s') \<and> trace s' = trace s @ [c (obj s) b]"
  by (auto simp: updateObj_def split: prod.split)

text \<open>C2: For a VM that is being deleted and is not in the daemon's hands, \<open>Reconcile\<close> asks for the
  deletion of the pods of the VM that are not already going away, one after the other. If the API server refuses one of them, that is the
  last call of the round: the finalizer stays and an error is returned. Only when all of them were
  accepted, or the pod was already gone, the VM is written back, without the protection finalizer and
  otherwise unchanged. Nothing is created and the phase handlers do not run.\<close>

theorem deletion_removes_pods_before_finalizer:
  assumes "kGetVM k req (world s) = Inr v" and "being_deleted (vm_meta v)" and "deletable_phase (phase v)"
    and "kListPodsByVMUID k (vm_UID v) (world s) = Inr pods"
  shows "\<exists>cs us. trace (snd (Reconcile k x pr req s)) = trace s @ cs @ us \<and> list_all is_delete cs
     \<and> ((\<exists>ds p e. us = [] \<and> cs = ds @ [DeletePod p (Some e)] \<and> e \<noteq> NotFound \<and> list_all accepted ds
            \<and> \<not> is_ok (fst (Reconcile k x pr req s)))
        \<or> (\<exists>b. us = [UpdateVM (v\<lparr>vm_meta := RemoveFinalizer x (vm_meta v) VMProtectionFinalizer\<rparr>) b])
          \<and> list_all accepted cs \<and> deleted_pods cs = filter (\<lambda>p. \<not> being_deleted (p_meta p)) pods)"
proof -
  let ?s = "s\<lparr>obj := v\<rparr>" and ?v = "v\<lparr>vm_meta := RemoveFinalizer x (vm_meta v) VMProtectionFinalizer\<rparr>"
  obtain r s1 where d: "deleteAllVMPods k ?s = (r, s1)" by (cases "deleteAllVMPods k ?s")
  obtain cs where cs: "trace s1 = trace s @ cs" "list_all is_delete cs"
    and out: "r = Ok True \<and> list_all accepted cs \<and> deleted_pods cs = filter (\<lambda>p. \<not> being_deleted (p_meta p)) pods
      \<or> \<not> is_ok r \<and> (\<exists>ds p e. cs = ds @ [DeletePod p (Some e)] \<and> e \<noteq> NotFound \<and> list_all accepted ds)"
    using deleteAllVMPods_outcome [OF d] assms(4) by auto
  have o1: "obj s1 = v" using keepsD [OF keeps_obj_deletes(2), of k ?s] d by simp
  note run = Reconcile_deleting [OF assms(1-3), of x pr]
  show ?thesis
  proof (cases "r = Ok True")
    case True
    obtain a s2 u where u: "updateVM k (s1\<lparr>obj := ?v\<rparr>) = (Ok a, s2)" "trace s2 = trace s1 @ [UpdateVM ?v u]"
      using updateObj_trace [of "kUpdateVM k" UpdateVM "s1\<lparr>obj := ?v\<rparr>"] by (auto simp: updateVM_def)
    then have "trace (snd (Reconcile k x pr req s)) = trace s @ cs @ [UpdateVM ?v u]"
      using run d True o1 cs(1) by (cases a) (simp_all add: deleteVM_def mapErr_def bind_def modObj_def ret_def throw_def)
    then show ?thesis using cs(2) out True by (intro exI [of _ cs] exI [of _ "[UpdateVM ?v u]"]) auto
  next
    case False
    then have "trace (snd (Reconcile k x pr req s)) = trace s @ cs \<and> \<not> is_ok (fst (Reconcile k x pr req s))"
      using run d out cs(1) by (cases r) (auto simp: deleteVM_def mapErr_def bind_def)
    then show ?thesis using cs(2) out False by (intro exI [of _ cs] exI [of _ "[]"]) auto
  qed
qed

lemma updateStatus_trace: "\<exists>b. trace (snd (updateStatus k old e s)) = trace s @ [UpdateVMStatus (obj s) b]"
proof -
  obtain r s' b where "updateVMStatus k s = (Ok r, s')" "trace s' = trace s @ [UpdateVMStatus (obj s) b]"
    using updateObj_trace unfolding updateVMStatus_def by blast
  then show ?thesis
    by (cases r) (simp_all add: updateStatus_def DeepEqual_value_pointer_def bind_def getObj_def ret_def throw_def)
qed

lemma bind_trace:
  assumes "trace (snd (m s)) = trace s @ cs" "\<And>x. traces (\<lambda>_. True) (g x)"
  shows "\<exists>ds. trace (snd (bind m g s)) = trace s @ cs @ ds"
proof -
  obtain r s' where m: "m s = (r, s')" by (cases "m s")
  show ?thesis
  proof (cases r)
    case (Ok a)
    then show ?thesis using assms(1) m tracesD [OF assms(2), of a s'] by (auto simp: bind_def)
  qed (use assms(1) m in \<open>auto simp: bind_def\<close>)
qed

lemma finishReconcile_traces: "traces (\<lambda>_. True) (finishReconcile k e early)"
  unfolding finishReconcile_def gcVMPods_def deleteVMPod_def listVMPods_def by (intro traces_bind traces) simp_all

text \<open>Every round over a protected VM that is not being deleted writes the status, even when the
  handlers left it unchanged: the first call after the handlers is the status update with the VM they
  produced, unless they panicked.\<close>

theorem status_always_written:
  assumes "kGetVM k req (world s) = Inr v" and "m_deletionTimestamp (vm_meta v) = None"
    and "ContainsFinalizer x (vm_meta v) VMProtectionFinalizer"
    and "reconcile k x pr (s\<lparr>obj := v\<rparr>) = (r, s1)" and "\<not> is_panic r"
  shows "\<exists>b cs. trace (snd (Reconcile k x pr req s)) = trace s1 @ UpdateVMStatus (obj s1) b # cs"
proof -
  have run: "Reconcile k x pr req s = runReconcile k x pr (s\<lparr>obj := v\<rparr>)"
    using assms(1-3) by (simp add: Reconcile_def bind_def kread_def modObj_def being_deleted_def)
  obtain res where res: "attempt (reconcile k x pr) (s\<lparr>obj := v\<rparr>) = (Ok res, s1)"
    using assms(4,5) by (cases r) (auto simp: attempt_def)
  define e where "e = (case res of Inl e \<Rightarrow> Some e | Inr _ \<Rightarrow> None)"
  obtain b where "trace (snd (updateStatus k (vm_status v) e s1)) = trace s1 @ [UpdateVMStatus (obj s1) b]"
    using updateStatus_trace by blast
  from bind_trace [where m = "updateStatus k (vm_status v) e" and g = "finishReconcile k e", OF this finishReconcile_traces] obtain cs where
    "trace (snd (runReconcile k x pr (s\<lparr>obj := v\<rparr>))) = trace s1 @ [UpdateVMStatus (obj s1) b] @ cs"
    using res by (auto simp: runReconcile_def bind_def [of getObj] bind_def [of "attempt _"] getObj_def e_def Let_def)
  then show ?thesis using run by auto
qed

section \<open>Concrete runs\<close>

lemma plain_vm_status [simp]: "phase (plain_vm n ph) = ph" "vm_UID (plain_vm n ph) = n" "vm_Name (plain_vm n ph) = n"
  "st_VMPodName (vm_status (plain_vm n ph)) = []" "st_Migration (vm_status (plain_vm n ph)) = None"
  by (simp_all add: plain_vm_def)

lemma run_on_simps [simp]: "obj (run_on v) = v" "trace (run_on v) = []"
  by (simp_all add: run_on_def)

theorem stopped_vm_restarts_witness:
  "\<exists>s'. reconcile empty_cluster library ''img'' (run_on (plain_vm ''web'' VirtualMachineSucceeded)) = (Ok (), s')
     \<and> phase (obj s') = VirtualMachinePending"
proof -
  obtain s' where r: "reconcile empty_cluster library ''img'' (run_on (plain_vm ''web'' VirtualMachineSucceeded)) = (Ok (), s')"
    by (simp add: reconcile_by_phase reconcileStopped_def deleteAllVMPods_def listVMPods_def act_defs empty_cluster_def
        should_run_def setPhase_def plain_vm_def run_on_def)
  show ?thesis using r stopped_vm_restarts [OF _ r] by (simp add: plain_vm_def Let_def)
qed

definition named_pod :: "string \<Rightarrow> pod" where
  "named_pod n = empty_pod\<lparr>p_meta := empty_meta\<lparr>m_name := n\<rparr>\<rparr>"

lemma named_pod_not_deleted: "\<not> being_deleted (p_meta (named_pod n))"
  by (simp add: being_deleted_def named_pod_def empty_meta_def)

definition stale_cluster :: "unit api" where
  "stale_cluster = empty_cluster\<lparr>kListPodsByVMUID := (\<lambda>_ _. Inr [named_pod ''old'', named_pod []])\<rparr>"

theorem gc_deletes_exactly_stale_witness:
  "\<exists>s'. gcVMPods stale_cluster (run_on (plain_vm ''web'' VirtualMachineRunning)) = (Ok (), s')
     \<and> deleted_pods (trace s') = [named_pod ''old'']"
proof -
  obtain s' where g: "gcVMPods stale_cluster (run_on (plain_vm ''web'' VirtualMachineRunning)) = (Ok (), s')"
    by (simp add: gcVMPods_def listVMPods_def stale_cluster_def act_defs being_deleted_def named_pod_def empty_pod_def
        empty_meta_def keep_pod_def plain_vm_def deleteVMPod_def empty_cluster_def run_on_def)
  have l: "kListPodsByVMUID stale_cluster (vm_UID (obj (run_on (plain_vm ''web'' VirtualMachineRunning))))
      (world (run_on (plain_vm ''web'' VirtualMachineRunning))) = Inr [named_pod ''old'', named_pod []]"
    by (simp add: stale_cluster_def)
  show ?thesis using g gc_deletes_exactly_stale [OF g l]
    by (simp add: being_deleted_def named_pod_def empty_pod_def empty_meta_def deleted_pods_def map_filter_def)
qed

definition sized_pod :: "int \<Rightarrow> resize_status \<Rightarrow> pod" where
  "sized_pod cpus rs = empty_pod\<lparr>p_meta := empty_meta\<lparr>m_owners := [\<lparr>or_apiVersion = [], or_kind = [], or_name = [], or_uid = ''web''\<rparr>]\<rparr>,
     p_status := (p_status empty_pod)\<lparr>pst_phase := PodRunning, pst_resize := rs, pst_containerStatuses := [\<lparr>cs_name = ''vm-manager'',
       cs_resources = Some \<lparr>Requests = Some [''cpu'' \<mapsto> NewQuantity cpus, ''memory'' \<mapsto> q_1Gi + q_256Mi], Limits = None\<rparr>\<rparr>]\<rparr>\<rparr>"

definition sized_cluster :: "int \<Rightarrow> resize_status \<Rightarrow> unit api" where
  "sized_cluster cpus rs = empty_cluster\<lparr>kGetPod := (\<lambda>_ _. Inr (sized_pod cpus rs))\<rparr>"

lemma sized_pod_resources: "actualResources (sized_pod cpus rs) =
    Some \<lparr>Requests = Some [''cpu'' \<mapsto> NewQuantity cpus, ''memory'' \<mapsto> q_1Gi + q_256Mi], Limits = None\<rparr>"
  by (simp add: actualResources_def sized_pod_def)

lemma plain_vm_desired: "desiredCPU (plain_vm n ph) = NewQuantity 2" "desiredMem (plain_vm n ph) = q_1Gi + q_256Mi"
  by (simp_all add: desiredCPU_def desiredMem_def plain_vm_def)

lemma requirements_read:
  "rl_get (Some [''cpu'' \<mapsto> a, ''memory'' \<mapsto> b]) ''cpu'' = a" "rl_get (Some [''cpu'' \<mapsto> a, ''memory'' \<mapsto> b]) ''memory'' = b"
  by (simp_all add: rl_get_def gm_get_def)

theorem resize_waits_for_pod_witness:
  "\<exists>p r. kGetPod (sized_cluster 2 ResizeEmpty) (pod_key (plain_vm ''web'' VirtualMachinePodResizeInProgress) []) () = Inr p
     \<and> actualResources p = Some r \<and> rl_get (Requests r) ResourceCPU = NewQuantity 2
     \<and> rl_get (Requests r) ResourceMemory = q_1Gi + q_256Mi"
proof -
  let ?s = "run_on (plain_vm ''web'' VirtualMachinePodResizeInProgress)"
  have "phase (obj (snd (reconcile (sized_cluster 2 ResizeEmpty) library ''img'' ?s))) = VirtualMachineResizeInProgress"
    using sized_pod_resources [of 2 ResizeEmpty]
    by (simp add: reconcile_by_phase reconcileVMPodResize_def act_defs sized_cluster_def currentResources_def differs_def Let_def
        requirements_read plain_vm_desired IsZero_def setPhase_def)
      (simp add: sized_pod_def NewQuantity_def q_1Gi_def q_256Mi_def)
  from resize_waits_for_pod [OF _ this] show ?thesis by (simp add: plain_vm_desired run_on_def)
qed

definition manager :: container where "manager = empty_container\<lparr>c_name := ''vm-manager''\<rparr>"

theorem resize_patch_sets_spec_witness:
  "\<exists>c'. resizePatch (plain_vm ''web'' VirtualMachineRunning) (empty_pod\<lparr>p_spec := (p_spec empty_pod)\<lparr>ps_containers := [manager]\<rparr>\<rparr>)
       = empty_pod\<lparr>p_spec := (p_spec empty_pod)\<lparr>ps_containers := [c']\<rparr>\<rparr>
     \<and> rl_get (Requests (c_resources c')) ''cpu'' = NewQuantity 2 \<and> rl_get (Limits (c_resources c')) ''cpu'' = NewQuantity 2"
  using resize_patch_sets_spec [of "empty_pod\<lparr>p_spec := (p_spec empty_pod)\<lparr>ps_containers := [manager]\<rparr>\<rparr>" "[]" manager "[]"
      "plain_vm ''web'' VirtualMachineRunning"]
  by (auto simp: manager_def plain_vm_desired)

theorem infeasible_resize_loops_witness:
  "phase (obj (snd (reconcile (sized_cluster 1 ResizeInfeasible) library ''img'' (run_on (plain_vm ''web'' VirtualMachinePodResizeInProgress)))))
      = VirtualMachineRunning
   \<and> phase (obj (snd (reconcile (sized_cluster 1 ResizeInfeasible) library ''img''
       (snd (reconcile (sized_cluster 1 ResizeInfeasible) library ''img'' (run_on (plain_vm ''web'' VirtualMachinePodResizeInProgress)))))))
      = VirtualMachinePodResizeInProgress"
proof (rule infeasible_resize_loops [where p = "sized_pod 1 ResizeInfeasible"])
  show "kGetPod (sized_cluster 1 ResizeInfeasible) (pod_key (obj (run_on (plain_vm ''web'' VirtualMachinePodResizeInProgress)))
      (st_VMPodName (vm_status (obj (run_on (plain_vm ''web'' VirtualMachinePodResizeInProgress))))))
      (world (run_on (plain_vm ''web'' VirtualMachinePodResizeInProgress))) = Inr (sized_pod 1 ResizeInfeasible)"
    by (simp add: sized_cluster_def)
  show "differs (obj (run_on (plain_vm ''web'' VirtualMachinePodResizeInProgress)))
      \<lparr>Requests = Some [''cpu'' \<mapsto> NewQuantity 1, ''memory'' \<mapsto> q_1Gi + q_256Mi], Limits = None\<rparr>"
    by (simp add: differs_def Let_def requirements_read plain_vm_desired) (simp add: NewQuantity_def)
qed (simp_all add: sized_pod_resources, simp_all add: sized_pod_def library_def)

definition doomed_vm :: vm where
  "doomed_vm = (let v = plain_vm ''web'' VirtualMachineFailed in
     v\<lparr>vm_meta := (vm_meta v)\<lparr>m_deletionTimestamp := Some 1, m_finalizers := [VMProtectionFinalizer]\<rparr>\<rparr>)"

definition doomed_cluster :: "unit api" where
  "doomed_cluster = stale_cluster\<lparr>kGetVM := (\<lambda>_ _. Inr doomed_vm)\<rparr>"

theorem deletion_removes_pods_before_finalizer_witness:
  "\<exists>cs us. trace (snd (Reconcile doomed_cluster library ''img'' \<lparr>k_ns = [], k_name = ''web''\<rparr> (run_on doomed_vm))) = [] @ cs @ us
     \<and> list_all is_delete cs
     \<and> ((\<exists>ds p e. us = [] \<and> cs = ds @ [DeletePod p (Some e)] \<and> e \<noteq> NotFound \<and> list_all accepted ds
            \<and> \<not> is_ok (fst (Reconcile doomed_cluster library ''img'' \<lparr>k_ns = [], k_name = ''web''\<rparr> (run_on doomed_vm))))
        \<or> (\<exists>b. us = [UpdateVM (doomed_vm\<lparr>vm_meta := RemoveFinalizer library (vm_meta doomed_vm) VMProtectionFinalizer\<rparr>) b])
          \<and> list_all accepted cs \<and> deleted_pods cs = [named_pod ''old'', named_pod []])"
proof -
  have "kGetVM doomed_cluster \<lparr>k_ns = [], k_name = ''web''\<rparr> (world (run_on doomed_vm)) = Inr doomed_vm"
    "being_deleted (vm_meta doomed_vm)" "deletable_phase (phase doomed_vm)"
    "kListPodsByVMUID doomed_cluster (vm_UID doomed_vm) (world (run_on doomed_vm)) = Inr [named_pod ''old'', named_pod []]"
    by (simp_all add: doomed_cluster_def stale_cluster_def)
      (simp_all add: doomed_vm_def being_deleted_def deletable_phase_def Let_def)
  from deletion_removes_pods_before_finalizer [OF this, of library "''img''"] show ?thesis
    by (simp add: named_pod_not_deleted)
qed

definition idle_vm :: vm where
  "idle_vm = (let v = plain_vm ''web'' VirtualMachineUnknown in v\<lparr>vm_meta := (vm_meta v)\<lparr>m_finalizers := [VMProtectionFinalizer]\<rparr>\<rparr>)"

theorem status_always_written_witness:
  "\<exists>b cs. trace (snd (Reconcile (empty_cluster\<lparr>kGetVM := (\<lambda>_ _. Inr idle_vm)\<rparr>) library ''img'' \<lparr>k_ns = [], k_name = ''web''\<rparr>
      (run_on idle_vm))) = UpdateVMStatus idle_vm b # cs"
  using status_always_written [where k = "empty_cluster\<lparr>kGetVM := (\<lambda>_ _. Inr idle_vm)\<rparr>" and x = library and pr = "''img''"
      and s = "run_on idle_vm" and v = idle_vm and req = "\<lparr>k_ns = [], k_name = ''web''\<rparr>" and r = "Ok ()" and ?s1.0 = "run_on idle_vm"]
  by (simp add: idle_vm_def library_def empty_meta_def plain_vm_def reconcile_by_phase run_on_def Let_def)

end
