(* ===== verification/Go_Net.thy ===== *)
theory Go_Net
  imports Go_Strings "HOL-Library.Word"
begin

text \<open>
  What the webhooks and the prerunner use of Go's \<open>net\<close> package: \<open>ParseMAC\<close>, \<open>HardwareAddr.String\<close>,
  \<open>ParseCIDR\<close>, masks, \<open>IPNet.Contains\<close> and the text of addresses and networks. A hardware address is a list of
  bytes, an IP address a list of 4 or 16 bytes. \<open>ParseAddr\<close> reads dotted IPv4, or IPv6 with \<open>::\<close> and
  embedded IPv4; \<open>ParseCIDR\<close> gives the prefix length and the address length, \<open>ParseCIDR_net\<close> the network.
\<close>

unbundle bit_operations_syntax

section \<open>Hardware addresses\<close>

definition hex_value :: "char \<Rightarrow> nat option" where
  "hex_value c = (let n = of_char c :: nat in
     if 48 \<le> n \<and> n \<le> 57 then Some (n - 48)
     else if 97 \<le> n \<and> n \<le> 102 then Some (n - 87)
     else if 65 \<le> n \<and> n \<le> 70 then Some (n - 55) else None)"

definition hex_char :: "nat \<Rightarrow> char" where
  "hex_char d = (if d < 10 then char_of (d + 48) else char_of (d + 87))"

definition xtoi2 :: "string \<Rightarrow> char option \<Rightarrow> nat option" where
  "xtoi2 s e = (case s of a # b # r \<Rightarrow>
       (if (case r of c # _ \<Rightarrow> Some c \<noteq> e | [] \<Rightarrow> False) then None
        else (case (hex_value a, hex_value b) of (Some i, Some j) \<Rightarrow> Some (16 * i + j) | _ \<Rightarrow> None))
     | _ \<Rightarrow> None)"

fun mac_pairs :: "nat \<Rightarrow> char \<Rightarrow> string \<Rightarrow> nat list option" where
  "mac_pairs 0 sep s = Some []"
| "mac_pairs (Suc n) sep s = (case xtoi2 s (Some sep) of None \<Rightarrow> None
     | Some b \<Rightarrow> map_option (Cons b) (mac_pairs n sep (drop 3 s)))"

fun mac_quads :: "nat \<Rightarrow> string \<Rightarrow> nat list option" where
  "mac_quads 0 s = Some []"
| "mac_quads (Suc n) s = (case (xtoi2 (take 2 s) None, xtoi2 (drop 2 s) (Some CHR ''.'')) of
       (Some a, Some b) \<Rightarrow> map_option (\<lambda>bs. a # b # bs) (mac_quads n (drop 5 s)) | _ \<Rightarrow> None)"

definition ParseMAC :: "string \<Rightarrow> nat list option" where
  "ParseMAC s =
    (if length s < 14 then None
     else if s ! 2 = CHR '':'' \<or> s ! 2 = CHR ''-'' then
       (let n = (length s + 1) div 3 in
        if (length s + 1) mod 3 \<noteq> 0 \<or> n \<notin> {6, 8, 20} then None else mac_pairs n (s ! 2) s)
     else if s ! 4 = CHR ''.'' then
       (let n = 2 * (length s + 1) div 5 in
        if (length s + 1) mod 5 \<noteq> 0 \<or> n \<notin> {6, 8, 20} then None else mac_quads (n div 2) s)
     else None)"

fun mac_String :: "nat list \<Rightarrow> string" where
  "mac_String [] = []"
| "mac_String [b] = [hex_char (b div 16), hex_char (b mod 16)]"
| "mac_String (b # bs) = hex_char (b div 16) # hex_char (b mod 16) # CHR '':'' # mac_String bs"

section \<open>IP networks\<close>

definition octet_ok :: "string \<Rightarrow> bool" where
  "octet_ok p \<longleftrightarrow> p \<noteq> [] \<and> list_all is_digit p \<and> (hd p = CHR ''0'' \<longrightarrow> length p = 1) \<and> dec_val 0 p \<le> 255"

type_synonym ip = "8 word list"

definition parseIPv4 :: "string \<Rightarrow> ip option" where
  "parseIPv4 s = (let ps = Split CHR ''.'' s in
     if length ps = 4 \<and> list_all octet_ok ps then Some (map (\<lambda>p. of_nat (dec_val 0 p)) ps) else None)"

definition hex_prefix :: "string \<Rightarrow> nat" where
  "hex_prefix s = length (takeWhile (\<lambda>c. hex_value c \<noteq> None) s)"

fun hex_digits :: "nat \<Rightarrow> string \<Rightarrow> nat" where
  "hex_digits acc [] = acc"
| "hex_digits acc (c # cs) = (case hex_value c of None \<Rightarrow> acc | Some d \<Rightarrow> hex_digits (16 * acc + d) cs)"

text \<open>The loop over the groups: \<open>bs\<close> are the bytes so far, \<open>ell\<close> the place of \<open>::\<close> when it was seen; the
  result is the two after the loop with the rest of the string, or \<open>None\<close> for an error.\<close>

fun v6_loop :: "nat \<Rightarrow> ip \<Rightarrow> nat option \<Rightarrow> string \<Rightarrow> (ip \<times> nat option \<times> string) option" where
  "v6_loop 0 bs ell s = Some (bs, ell, s)"
| "v6_loop (Suc fuel) bs ell s =
    (let off = hex_prefix s; acc = hex_digits 0 s; bs' = bs @ [of_nat (acc div 256), of_nat acc] in
     if off = 0 \<or> off > 4 then None
     else if off < length s \<and> s ! off = CHR ''.'' then
       (if ell = None \<and> length bs \<noteq> 12 then None else if length bs + 4 > 16 then None
        else (case parseIPv4 s of None \<Rightarrow> None | Some v4 \<Rightarrow> Some (bs @ v4, ell, [])))
     else (case drop off s of
       [] \<Rightarrow> Some (bs', ell, [])
     | c # r \<Rightarrow>
       if c \<noteq> CHR '':'' then None
       else (case r of [] \<Rightarrow> None
       | d # r' \<Rightarrow>
         if d = CHR '':'' then
           (if ell \<noteq> None then None else if r' = [] then Some (bs', Some (length bs'), []) else v6_loop fuel bs' (Some (length bs')) r')
         else v6_loop fuel bs' ell r)))"

definition v6_finish :: "(ip \<times> nat option \<times> string) option \<Rightarrow> ip option" where
  "v6_finish r = (case r of None \<Rightarrow> None | Some (bs, ell, s) \<Rightarrow>
     if s \<noteq> [] then None
     else if length bs < 16 then (case ell of None \<Rightarrow> None | Some e \<Rightarrow> Some (take e bs @ replicate (16 - length bs) 0 @ drop e bs))
     else if ell \<noteq> None then None else Some bs)"

definition parseIPv6 :: "string \<Rightarrow> ip option" where
  "parseIPv6 s =
    (case s of
       a # b # r \<Rightarrow> if a = CHR '':'' \<and> b = CHR '':'' then (if r = [] then Some (replicate 16 0) else v6_finish (v6_loop 8 [] (Some 0) r))
                    else v6_finish (v6_loop 8 [] None s)
     | _ \<Rightarrow> v6_finish (v6_loop 8 [] None s))"

text \<open>\<open>netip.ParseAddr\<close> decides by the first of \<open>.\<close>, \<open>:\<close> and \<open>%\<close>; \<open>ParseCIDR\<close> refuses a zone, so an
  address with \<open>%\<close> is an error either way.\<close>

definition ParseAddr :: "string \<Rightarrow> ip option" where
  "ParseAddr s =
    (case List.find (\<lambda>c. c = CHR ''.'' \<or> c = CHR '':'' \<or> c = CHR 0x25) s of
       Some c \<Rightarrow> if c = CHR ''.'' then parseIPv4 s
                 else if c = CHR '':'' then (if CHR 0x25 \<notin> set s then parseIPv6 s else None)
                 else None
     | None \<Rightarrow> None)"

definition ParseCIDR_addr :: "string \<Rightarrow> (ip \<times> nat) option" where
  "ParseCIDR_addr s =
    (let addr = takeWhile (\<lambda>c. c \<noteq> CHR ''/'') s in
     case dropWhile (\<lambda>c. c \<noteq> CHR ''/'') s of [] \<Rightarrow> None
     | _ # plen \<Rightarrow> (case ParseAddr addr of None \<Rightarrow> None
        | Some bs \<Rightarrow> if plen \<noteq> [] \<and> list_all is_digit plen \<and> dec_val 0 plen \<le> 8 * length bs
                      then Some (bs, dec_val 0 plen) else None))"

definition ParseCIDR :: "string \<Rightarrow> (nat \<times> nat) option" where
  "ParseCIDR s = map_option (\<lambda>(bs, n). (n, 8 * length bs)) (ParseCIDR_addr s)"

lemma ParseCIDR_addr_bound: "ParseCIDR_addr s = Some (bs, n) \<Longrightarrow> n \<le> 8 * length bs"
  unfolding ParseCIDR_addr_def Let_def
  by (cases "dropWhile (\<lambda>c. c \<noteq> CHR ''/'') s"; cases "ParseAddr (takeWhile (\<lambda>c. c \<noteq> CHR ''/'') s)")
    (auto split: if_splits)

lemma ParseCIDR_bound: "ParseCIDR s = Some (n, b) \<Longrightarrow> n \<le> b"
  using ParseCIDR_addr_bound by (auto simp: ParseCIDR_def)

lemma parseIPv4_length: "parseIPv4 s = Some bs \<Longrightarrow> length bs = 4"
  by (auto simp: parseIPv4_def Let_def split: if_splits)

lemma v6_loop_length:
  "v6_loop fuel bs ell s = Some (bs', ell', r) \<Longrightarrow> length bs + 2 * fuel \<le> 16 \<Longrightarrow>
    pred_option (\<lambda>e. e \<le> length bs) ell \<Longrightarrow> length bs' \<le> 16 \<and> pred_option (\<lambda>e. e \<le> length bs') ell'"
proof (induction fuel arbitrary: bs ell s)
  case (Suc fuel)
  have grow: "pred_option (\<lambda>e. e \<le> length bs + n) ell" for n using Suc.prems(3) by (cases ell) auto
  show ?case using Suc.prems(1,2) grow [of 2] grow [of 4]
    by (auto simp: Let_def split: if_splits list.splits option.splits dest!: parseIPv4_length Suc.IH)
qed auto

lemma ParseAddr_length: "ParseAddr s = Some bs \<Longrightarrow> length bs \<in> {4, 16}"
proof -
  have fin: "length bs = 16" if f: "v6_finish (v6_loop 8 [] ell t) = Some bs" and e: "ell = None \<or> ell = Some 0" for ell t
  proof -
    obtain bs' ell' r where l: "v6_loop 8 [] ell t = Some (bs', ell', r)" using f by (cases "v6_loop 8 [] ell t") (auto simp: v6_finish_def)
    have "length bs' \<le> 16 \<and> pred_option (\<lambda>e. e \<le> length bs') ell'" using v6_loop_length [OF l] e by auto
    then show ?thesis using f l by (auto simp: v6_finish_def split: if_splits option.splits)
  qed
  have six: "length bs = 16" if "parseIPv6 t = Some bs" for t
    using that fin by (auto simp: parseIPv6_def split: list.splits if_splits)
  assume "ParseAddr s = Some bs"
  then show ?thesis using six parseIPv4_length by (auto simp: ParseAddr_def split: option.splits if_splits)
qed

section \<open>Masks and networks\<close>

fun CIDRMask :: "nat \<Rightarrow> nat \<Rightarrow> ip" where
  "CIDRMask n 0 = []"
| "CIDRMask n (Suc l) = (if 8 \<le> n then 255 # CIDRMask (n - 8) l else NOT (drop_bit n 255) # CIDRMask 0 l)"

text \<open>\<open>net.IPNet\<close>: address and mask. \<open>To4\<close> shortens an IPv4 address in IPv6 form.\<close>

type_synonym ipnet = "ip \<times> ip"

definition v4InV6Prefix :: ip where
  "v4InV6Prefix = replicate 10 0 @ [255, 255]"

definition To4 :: "ip \<Rightarrow> ip option" where
  "To4 a = (if length a = 4 then Some a
     else if length a = 16 \<and> take 12 a = v4InV6Prefix then Some (drop 12 a) else None)"

definition ParseCIDR_net :: "string \<Rightarrow> ipnet option" where
  "ParseCIDR_net s = map_option (\<lambda>(bs, n). let m = CIDRMask n (length bs) in (map2 (AND) bs m, m)) (ParseCIDR_addr s)"

definition networkNumberAndMask :: "ipnet \<Rightarrow> ipnet option" where
  "networkNumberAndMask n = (let (a, m) = n in
     case (case To4 a of Some b \<Rightarrow> Some b | None \<Rightarrow> if length a = 16 then Some a else None) of None \<Rightarrow> None
     | Some nn \<Rightarrow> if length m = 4 then (if length nn = 4 then Some (nn, m) else None)
         else if length m = 16 then Some (nn, if length nn = 4 then drop 12 m else m) else None)"

definition Contains_ip :: "ipnet \<Rightarrow> ip \<Rightarrow> bool" where
  "Contains_ip n a = (case networkNumberAndMask n of None \<Rightarrow> a = []
     | Some (nn, m) \<Rightarrow> (let a' = (case To4 a of Some b \<Rightarrow> b | None \<Rightarrow> a) in
         length a' = length nn \<and> map2 (AND) nn m = map2 (AND) a' m))"

section \<open>Text of addresses\<close>

fun hex_text :: "nat \<Rightarrow> string" where
  "hex_text n = (if n < 16 then [hex_char n] else hex_text (n div 16) @ [hex_char (n mod 16)])"

declare hex_text.simps [simp del]

fun v6_groups :: "ip \<Rightarrow> nat list" where
  "v6_groups (a # b # bs) = (256 * unat a + unat b) # v6_groups bs"
| "v6_groups _ = []"

text \<open>The longest run of at least two zero groups, the first of these.\<close>

fun zero_run :: "nat \<Rightarrow> nat list \<Rightarrow> nat \<times> nat \<Rightarrow> nat \<times> nat" where
  "zero_run i [] best = best"
| "zero_run i (g # gs) best = (let l = length (takeWhile (\<lambda>h. h = 0) (g # gs)) in
     zero_run (Suc i) gs (if 2 \<le> l \<and> snd best - fst best < l then (i, i + l) else best))"

definition v6_String :: "ip \<Rightarrow> string" where
  "v6_String a = (let gs = v6_groups a; (i, j) = zero_run 0 gs (0, 0) in
     if i = j then Join '':'' (map hex_text gs)
     else Join '':'' (map hex_text (take i gs)) @ ''::'' @ Join '':'' (map hex_text (drop j gs)))"

definition hexString :: "ip \<Rightarrow> string" where
  "hexString a = concat (map (\<lambda>b. [hex_char (unat b div 16), hex_char (unat b mod 16)]) a)"

definition IP_String :: "ip \<Rightarrow> string" where
  "IP_String a = (if a = [] then ''<nil>'' else if length a \<noteq> 4 \<and> length a \<noteq> 16 then CHR ''?'' # hexString a
     else case To4 a of Some b \<Rightarrow> Join ''.'' (map (\<lambda>x. Itoa (uint x)) b) | None \<Rightarrow> v6_String a)"

definition IPNet_String :: "ipnet \<Rightarrow> string" where
  "IPNet_String n = (case networkNumberAndMask n of None \<Rightarrow> ''<nil>''
     | Some (nn, m) \<Rightarrow> IP_String nn @ ''/'' @
         (case List.find (\<lambda>l. CIDRMask l (length m) = m) [0..<Suc (8 * length m)] of Some l \<Rightarrow> Itoa (int l) | None \<Rightarrow> hexString m))"

section \<open>Round trip of hardware addresses\<close>

lemma of_char_hex_char: "d < 16 \<Longrightarrow> of_char (hex_char d) = (if d < 10 then d + 48 else d + 87)"
  by (simp add: hex_char_def)

lemma hex_char [simp]: "d < 16 \<Longrightarrow> hex_value (hex_char d) = Some d" "d < 16 \<Longrightarrow> hex_char d \<noteq> CHR '':''"
proof -
  assume d: "d < 16"
  show "hex_value (hex_char d) = Some d" using d by (simp add: hex_value_def of_char_hex_char Let_def)
  have "of_char (hex_char d) \<noteq> (58 :: nat)" using d by (simp add: of_char_hex_char)
  then show "hex_char d \<noteq> CHR '':''" by auto
qed

lemma length_mac_String: "bs \<noteq> [] \<Longrightarrow> length (mac_String bs) + 1 = 3 * length bs"
  by (induction bs rule: mac_String.induct) auto

lemma mac_pairs_String:
  "list_all (\<lambda>b. b < 256) bs \<Longrightarrow> mac_pairs (length bs) CHR '':'' (mac_String bs) = Some bs"
proof (induction bs rule: mac_String.induct)
  case (2 b)
  then have "b div 16 < 16" by auto
  then show ?case by (simp add: xtoi2_def)
next
  case (3 b c bs)
  then have "b div 16 < 16" by auto
  then show ?case using 3 by (simp add: xtoi2_def)
qed simp

lemma mac_String_third: "2 \<le> length bs \<Longrightarrow> mac_String bs ! 2 = CHR '':''"
  by (cases bs rule: mac_String.cases) auto

lemma ParseMAC_String [go_lib]:
  assumes "length bs \<in> {6, 8, 20}" "list_all (\<lambda>b. b < 256) bs"
  shows "ParseMAC (mac_String bs) = Some bs"
proof -
  have ne: "bs \<noteq> []" and two: "2 \<le> length bs" using assms(1) by auto
  note len = length_mac_String [OF ne]
  have "(length (mac_String bs) + 1) div 3 = length bs" "(length (mac_String bs) + 1) mod 3 = 0"
    using len by presburger+
  moreover have "\<not> length (mac_String bs) < 14" using len assms(1) by auto
  ultimately show ?thesis
    using mac_String_third [OF two] assms mac_pairs_String by (simp add: ParseMAC_def Let_def)
qed

lemma mac_String_neq_Nil: "bs \<noteq> [] \<Longrightarrow> mac_String bs \<noteq> []"
  by (cases bs rule: mac_String.cases) auto

end
