(* ===== verification/Cgroup.thy ===== *)
theory Cgroup
  imports Daemon_Base Go_Net
begin

text \<open>
  \<open>src/pkg/daemon/cgroup\<close>: which devices the processes of a VM's pod may use. \<open>NewManager\<close> finds the control group
  of the hypervisor; \<open>Set\<close> adds to the rules of its caller those of the VM's own devices, since the cgroup library
  replaces all rules at once. That library, the process table and \<open>/bin/stat\<close> are the fields of \<open>cgroup_env\<close>; the
  reports of \<open>filepath.Walk\<close> are a list of paths, each a directory or not, or without file information.
\<close>

datatype device_type = CharDevice | BlockDevice

record device_rule =
  dr_Type :: device_type
  dr_Major :: int
  dr_Minor :: int
  dr_Permissions :: string
  dr_Allow :: bool

record 'w cgroup_env =
  cgStat :: "string \<Rightarrow> 'w \<Rightarrow> stat_result"
  cgStatDevice :: "string \<Rightarrow> 'w \<Rightarrow> err + string"
  cgPidBySocket :: "string \<Rightarrow> 'w \<Rightarrow> err + int"
  cgParseFile :: "int \<Rightarrow> 'w \<Rightarrow> err + string"
  cgUnified :: "'w \<Rightarrow> bool"
  cgWalk :: "'w \<Rightarrow> (string \<times> bool option) list"
  cgNew :: "string \<Rightarrow> 'w \<Rightarrow> err option"
  cgSet :: "string \<Rightarrow> device_rule list \<Rightarrow> 'w \<Rightarrow> err option \<times> 'w"

record v2Manager =
  cgroupPath :: string
  vmPID :: int

section \<open>Numbers of devices\<close>

text \<open>\<open>strconv.ParseInt(s, base, 32)\<close> for a base that is not zero.\<close>

definition digit_value :: "char \<Rightarrow> nat option" where
  "digit_value c = (let n = of_char c :: nat in
     if 48 \<le> n \<and> n \<le> 57 then Some (n - 48) else if 97 \<le> n \<and> n \<le> 122 then Some (n - 87)
     else if 65 \<le> n \<and> n \<le> 90 then Some (n - 55) else None)"

fun base_num :: "nat \<Rightarrow> nat \<Rightarrow> string \<Rightarrow> nat option" where
  "base_num b acc [] = Some acc"
| "base_num b acc (c # cs) = (case digit_value c of None \<Rightarrow> None | Some d \<Rightarrow> if d < b then base_num b (b * acc + d) cs else None)"

definition ParseInt32 :: "nat \<Rightarrow> string \<Rightarrow> int option" where
  "ParseInt32 b s =
    (let (neg, digits) = (case s of [] \<Rightarrow> (False, []) | c # cs \<Rightarrow> if c = CHR ''-'' then (True, cs) else if c = CHR ''+'' then (False, cs) else (False, c # cs)) in
     if digits = [] then None else (case base_num b 0 digits of None \<Rightarrow> None
       | Some n \<Rightarrow> if \<not> neg \<and> n < 2 ^ 31 then Some (int n) else if neg \<and> n \<le> 2 ^ 31 then Some (- int n) else None))"

text \<open>The output of \<open>/bin/stat -c%t,%T,%a,%F\<close>, read with the given base; \<open>stat\<close> prints the numbers in hexadecimal.\<close>

definition parse_stat :: "nat \<Rightarrow> string \<Rightarrow> err + int \<times> int" where
  "parse_stat b output = (let split = Split CHR '','' output in
     if length split \<noteq> 4 then Inl (ErrNew ''output is invalid'')
     else (case ParseInt32 b (split ! 0) of None \<Rightarrow> Inl (ErrNew ''invalid syntax'')
       | Some major \<Rightarrow> (case ParseInt32 b (split ! 1) of None \<Rightarrow> Inl (ErrNew ''invalid syntax'')
         | Some minor \<Rightarrow> Inr (major, minor))))"

definition cgroup_getBlockFileMajorMinor :: "'w cgroup_env \<Rightarrow> string \<Rightarrow> ('w, 'o, 'c, int \<times> int) action" where
  "cgroup_getBlockFileMajorMinor k path = bind (kread (cgStatDevice k path)) (\<lambda>r. case r of
     Inl e \<Rightarrow> throw (ErrS ''/bin/stat'' e)
   | Inr output \<Rightarrow> (case parse_stat 26 output of Inl e \<Rightarrow> throw e | Inr mm \<Rightarrow> ret mm))"

section \<open>The manager\<close>

text \<open>The callback of \<open>filepath.Walk\<close>: the first directory with the base name of the cgroup; a report without file
  information is dereferenced, which \<open>None\<close> stands for.\<close>

fun findCgroup :: "string \<Rightarrow> (string \<times> bool option) list \<Rightarrow> string option" where
  "findCgroup cg [] = Some cg"
| "findCgroup cg ((path, info) # rest) = (case info of None \<Rightarrow> None
     | Some dir \<Rightarrow> if \<not> dir then findCgroup cg rest else if Base path = Base cg then Some path else findCgroup cg rest)"

definition NewManager :: "'w cgroup_env \<Rightarrow> vm \<Rightarrow> ('w, 'o, 'c, v2Manager option) action" where
  "NewManager k v =
    (let socketPath = path_join [''/var/lib/kubelet/pods'', st_VMPodUID (vm_status v), ''volumes/kubernetes.io~empty-dir/virtink'', ''vm.sock''] in
     bind (kread (cgStat k socketPath)) (\<lambda>st. case st of Missing \<Rightarrow> ret None | StatErr e \<Rightarrow> throw e
     | Present \<Rightarrow> bind (kread (cgPidBySocket k socketPath)) (\<lambda>r. case r of Inl e \<Rightarrow> throw e
       | Inr pid \<Rightarrow> bind (kread (cgParseFile k pid)) (\<lambda>r. case r of Inl e \<Rightarrow> throw e
         | Inr cg \<Rightarrow> bind (kread (cgUnified k)) (\<lambda>unified. if \<not> unified then panic ''Cgroup v1 is not supported''
           else bind (kread (\<lambda>w. findCgroup cg (cgWalk k w))) (\<lambda>found. case found of None \<Rightarrow> panic ''nil pointer dereference''
             | Some path \<Rightarrow> bind (kread (cgNew k path)) (\<lambda>r. case r of Some e \<Rightarrow> throw e
               | None \<Rightarrow> ret (Some \<lparr>cgroupPath = path, vmPID = pid\<rparr>))))))))"

definition char_rule :: "int \<Rightarrow> int \<Rightarrow> device_rule" where
  "char_rule major minor = \<lparr>dr_Type = CharDevice, dr_Major = major, dr_Minor = minor, dr_Permissions = ''rwm'', dr_Allow = True\<rparr>"

definition block_rule :: "int \<Rightarrow> int \<Rightarrow> bool \<Rightarrow> device_rule" where
  "block_rule major minor allow = \<lparr>dr_Type = BlockDevice, dr_Major = major, dr_Minor = minor, dr_Permissions = ''rwm'', dr_Allow = allow\<rparr>"

definition base_rules :: "device_rule list" where
  "base_rules = [char_rule 1 3, char_rule 10 200, char_rule 5 2, char_rule 10 232, char_rule 1 9]
     @ map (\<lambda>i. char_rule (136 + int i) (-1)) [0..<16]"

definition volumeRule :: "'w cgroup_env \<Rightarrow> ext \<Rightarrow> v2Manager \<Rightarrow> vm \<Rightarrow> volume \<Rightarrow> device_rule list \<Rightarrow> ('w, 'o, 'c, device_rule list) action" where
  "volumeRule k x m v vol rules =
    (if v_PersistentVolumeClaim vol = None \<and> v_DataVolume vol = None then ret rules
     else (let path = (if IsHotpluggable x vol
         then path_join [''/var/lib/kubelet/pods'', st_VMPodUID (vm_status v), ''volumes/kubernetes.io~empty-dir/hotplug-volumes'', v_name vol]
         else ''/proc/'' @ Itoa (vmPID m) @ ''/root/mnt/'' @ v_name vol) in
       bind (kread (cgStat k path)) (\<lambda>st. case st of Missing \<Rightarrow> ret rules | StatErr e \<Rightarrow> throw e
       | Present \<Rightarrow> bind (cgroup_getBlockFileMajorMinor k path) (\<lambda>(major, minor). ret (rules @ [block_rule major minor True])))))"

definition generateDeviceRuleForVM :: "'w cgroup_env \<Rightarrow> ext \<Rightarrow> v2Manager \<Rightarrow> vm \<Rightarrow> ('w, 'o, 'c, device_rule list) action" where
  "generateDeviceRuleForVM k x m v = fold_act (volumeRule k x m v) (s_Volumes (vm_spec v)) base_rules"

definition same_device :: "device_rule \<Rightarrow> device_rule \<Rightarrow> bool" where
  "same_device a b \<longleftrightarrow> dr_Type a = dr_Type b \<and> dr_Major a = dr_Major b \<and> dr_Minor a = dr_Minor b"

text \<open>The loop assigns \<open>found\<close> for each new rule, so the last one decides.\<close>

definition found_rule :: "device_rule list \<Rightarrow> device_rule \<Rightarrow> bool" where
  "found_rule new current = fold (\<lambda>newRule found. same_device current newRule) new False"

definition v2_Set :: "(device_rule list \<Rightarrow> bool \<Rightarrow> 'c) \<Rightarrow> 'w cgroup_env \<Rightarrow> ext \<Rightarrow> v2Manager \<Rightarrow> vm \<Rightarrow> device_rule list \<Rightarrow> ('w, 'o, 'c, unit) action" where
  "v2_Set emb k x m v new =
    bind (generateDeviceRuleForVM k x m v) (\<lambda>deviceRules.
    let resources = new @ filter (\<lambda>current. \<not> found_rule new current) deviceRules in
    bind (kwrite (cgSet k (cgroupPath m) resources) (\<lambda>r. emb resources (r = None))) (\<lambda>r. case r of
      None \<Rightarrow> ret () | Some e \<Rightarrow> throw (ErrS ''set cgroup'' e)))"


section \<open>Reading hexadecimal numbers\<close>

lemma digit_value_hex [simp]: "d < 16 \<Longrightarrow> digit_value (hex_char d) = Some d"
  by (simp add: digit_value_def of_char_hex_char Let_def)

lemma hex_char_sign [simp]: "d < 16 \<Longrightarrow> hex_char d \<noteq> CHR ''-''" "d < 16 \<Longrightarrow> hex_char d \<noteq> CHR ''+''"
proof -
  assume d: "d < 16"
  have "of_char (hex_char d) \<noteq> (45 :: nat)" "of_char (hex_char d) \<noteq> (43 :: nat)" using d by (simp_all add: of_char_hex_char)
  then show "hex_char d \<noteq> CHR ''-''" "hex_char d \<noteq> CHR ''+''" by auto
qed

lemma base_num_append: "base_num b acc (s @ t) = (case base_num b acc s of None \<Rightarrow> None | Some a \<Rightarrow> base_num b a t)"
  by (induction b acc s rule: base_num.induct) (auto split: option.split)

text \<open>The value of the hexadecimal digits of \<open>n\<close> in another base.\<close>

fun rebase :: "nat \<Rightarrow> nat \<Rightarrow> nat" where
  "rebase b n = (if n < 16 then n else b * rebase b (n div 16) + n mod 16)"

declare rebase.simps [simp del]

lemma base_num_hex_text: "16 \<le> b \<Longrightarrow> base_num b 0 (hex_text n) = Some (rebase b n)"
proof (induction n rule: hex_text.induct)
  case (1 n)
  then show ?case by (cases "n < 16") (simp_all add: hex_text.simps [of n] rebase.simps [of _ n] base_num_append)
qed

lemma rebase_16: "rebase 16 n = n"
  by (induction "16 :: nat" n rule: rebase.induct) (simp add: rebase.simps)

lemma rebase_less: "16 < b \<Longrightarrow> 16 \<le> n \<Longrightarrow> n < rebase b n"
proof (induction b n rule: rebase.induct)
  case (1 b n)
  have le: "n div 16 \<le> rebase b (n div 16)" using 1 by (cases "n div 16 < 16") (auto simp: rebase.simps [of b "n div 16"] order_less_imp_le)
  have "n = 16 * (n div 16) + n mod 16" by simp
  also have "16 * (n div 16) + n mod 16 < b * (n div 16) + n mod 16" using 1(2,3) by (intro add_strict_right_mono mult_strict_right_mono) auto
  also have "\<dots> \<le> b * rebase b (n div 16) + n mod 16" using le by simp
  finally show ?case using 1(3) by (simp add: rebase.simps [of b n])
qed

lemma hex_text_first: "\<exists>d cs. d < 16 \<and> hex_text n = hex_char d # cs"
proof (induction n rule: hex_text.induct)
  case (1 n)
  then show ?case by (cases "n < 16") (auto simp: hex_text.simps [of n])
qed

lemma ParseInt32_hex_text:
  assumes "16 \<le> b"
  shows "ParseInt32 b (hex_text n) = (if rebase b n < 2 ^ 31 then Some (int (rebase b n)) else None)"
proof -
  obtain d cs where "d < 16" "hex_text n = hex_char d # cs" using hex_text_first by blast
  then show ?thesis using base_num_hex_text [OF assms, of n] by (simp add: ParseInt32_def)
qed

section \<open>Properties\<close>

text \<open>\<open>stat\<close> prints the numbers of a device in hexadecimal. Read in base 16, as the VM controller does, the text gives
  the number back; read in base 26, as the cgroup manager does, it gives the number exactly when that has a single
  digit, so the manager computes rules for other devices than the volume's as soon as a number reaches 16.\<close>

theorem stat_numbers:
  assumes "n < 2 ^ 31"
  shows "ParseInt32 16 (hex_text n) = Some (int n) \<and> (ParseInt32 26 (hex_text n) = Some (int n)) = (n < 16)"
proof -
  have "rebase 26 n \<noteq> n" if "16 \<le> n" using rebase_less [of 26 n] that by simp
  moreover have "rebase 26 n = n" if "n < 16" using that by (simp add: rebase.simps)
  ultimately show ?thesis using assms by (auto simp: ParseInt32_hex_text rebase_16 linorder_not_less [symmetric])
qed

theorem stat_numbers_witness: "ParseInt32 16 ''fd'' = Some 253 \<and> (ParseInt32 26 ''fd'' = Some 253) = False"
proof -
  have "hex_text 253 = ''fd''" by code_simp
  then show ?thesis using stat_numbers [of 253] by simp
qed

lemma found_rule_single: "found_rule [r] current = same_device current r"
  by (simp add: found_rule_def)

definition vm_rules :: "device_rule list \<Rightarrow> bool" where
  "vm_rules rules \<longleftrightarrow> set base_rules \<subseteq> set rules \<and> list_all dr_Allow rules"

lemma volumeRule_rules: "vm_rules rules \<Longrightarrow> returns vm_rules (volumeRule k x m v vol rules)"
  unfolding volumeRule_def Let_def case_prod_beta
  by (intro returns returns_bind_any) (auto simp: vm_rules_def block_rule_def)

lemma generate_rules: "returns vm_rules (generateDeviceRuleForVM k x m v)"
  unfolding generateDeviceRuleForVM_def
  by (rule returns_fold_act_inv) (simp_all add: volumeRule_rules, simp add: vm_rules_def base_rules_def char_rule_def list_all_iff)

definition device_rules_ok :: "device_rule \<Rightarrow> device_rule list \<Rightarrow> bool" where
  "device_rules_ok r rules \<longleftrightarrow> (\<exists>rest. rules = r # rest \<and> set base_rules \<subseteq> set rest \<and> list_all (\<lambda>q. dr_Allow q \<and> \<not> same_device q r) rest)"

lemma base_rules_char: "q \<in> set base_rules \<Longrightarrow> dr_Type q = CharDevice"
  by (auto simp: base_rules_def char_rule_def)

lemma resources_ok:
  assumes "vm_rules rules"
  shows "device_rules_ok (block_rule major minor allow)
    ([block_rule major minor allow] @ filter (\<lambda>current. \<not> found_rule [block_rule major minor allow] current) rules)"
proof -
  have "\<not> same_device q (block_rule major minor allow)" if "q \<in> set base_rules" for q
    using base_rules_char [OF that] by (simp add: same_device_def block_rule_def)
  then show ?thesis using assms by (auto simp: device_rules_ok_def vm_rules_def found_rule_single list_all_iff)
qed

lemma traces_returns_bind:
  assumes "keeps trace m" "returns Q m" "\<And>x. Q x \<Longrightarrow> traces P (g x)"
  shows "traces P (bind m g)"
  unfolding traces_def
proof
  fix s
  obtain r s' where m: "m s = (r, s')" by (cases "m s")
  have s': "trace s' = trace s" using keepsD [OF assms(1), of s] m by simp
  show "\<exists>cs. trace (snd (bind m g s)) = trace s @ cs \<and> list_all P cs"
  proof (cases r)
    case (Ok x)
    then have "traces P (g x)" using assms(3) returnsD [OF assms(2)] m by blast
    from tracesD [OF this, of s'] show ?thesis using Ok m s' by (simp add: bind_def)
  qed (use m s' in \<open>auto simp: bind_def\<close>)
qed

lemma keeps_generate [keeps]: "keeps f (generateDeviceRuleForVM k x m v)"
  unfolding generateDeviceRuleForVM_def volumeRule_def cgroup_getBlockFileMajorMinor_def Let_def case_prod_beta by (intro keeps)

text \<open>C15: whenever the cgroup manager sets the rules for one block device, the list it hands to the library begins with the
  caller's rule, contains the rules every VM needs, and apart from the caller's holds only rules that allow a
  device, none of them the caller's device: what the caller denies is not allowed again.\<close>

theorem cgroup_rules:
  "\<exists>cs. trace (snd (v2_Set (\<lambda>rules ok. (rules, ok)) k x m v [block_rule major minor allow] s)) = trace s @ cs
     \<and> list_all (\<lambda>c. device_rules_ok (block_rule major minor allow) (fst c)) cs"
proof -
  have "traces (\<lambda>c. device_rules_ok (block_rule major minor allow) (fst c)) (v2_Set (\<lambda>rules ok. (rules, ok)) k x m v [block_rule major minor allow])"
    unfolding v2_Set_def Let_def
    by (rule traces_returns_bind [OF keeps_generate generate_rules], intro traces) (simp add: resources_ok del: append_Cons append_Nil)
  then show ?thesis by (rule tracesD)
qed

end
