(* ===== verification/Vm_Daemon.thy ===== *)
theory Vm_Daemon
  imports Cgroup
begin

text \<open>
  \<open>src/pkg/daemon/vm_controller.go\<close>: the daemon's side of the life of a VM on its node: creating and booting
  it through the hypervisor, pausing, resuming, resizing and stopping it, mounting hot-plugged volumes
  into its pod, and both ends of a live migration. The VM is the object in the state. The API
  server is \<open>nApi\<close>; the hypervisor's HTTP client (generated), the host's file system and commands, the
  cgroup library and the relays are the other fields of \<open>node\<close>. The reconciler's map of migration
  control blocks is passed to \<open>chReconcile\<close> and returned by it; a round that fails leaves it as it was.
\<close>

section \<open>Objects, environment and calls\<close>

record vm_config =
  vc_BootVcpus :: "int option"
  vc_MemorySize :: "int option"
  vc_Devices :: nat
  vc_Vdpa :: nat
  vc_Disks :: "string list"

record vm_info =
  vi_State :: string
  vi_Config :: "vm_config option"
  vi_MemoryActualSize :: int

datatype ch_req = VmRestore string | VmCreate vm_config | VmBoot | VmPause | VmResume | VmShutdown | VmPowerButton | VmReboot
  | VmDelete | VmResize int int | VmAddDisk string string | VmRemoveDevice string | VmSendMigration string | VmReceiveMigration string

datatype config_file = ConfigMissing | ConfigErr err | Config vm_config

record mount_info =
  mi_Major :: int
  mi_Minor :: int
  mi_Root :: string
  mi_Mountpoint :: string

text \<open>\<open>vmMountRecord\<close>: volume and target, in the order they were mounted.\<close>

type_synonym mount_record = "(string \<times> string) list"

record migrationControlBlock =
  SendMigrationErrCh :: bool
  SendMigrationCancelFunc :: bool
  ReceiveMigrationErrCh :: bool
  ReceiveMigrationCancelFunc :: bool

definition no_block :: migrationControlBlock where
  "no_block = \<lparr>SendMigrationErrCh = False, SendMigrationCancelFunc = False, ReceiveMigrationErrCh = False, ReceiveMigrationCancelFunc = False\<rparr>"

type_synonym blocks = "string \<rightharpoonup> migrationControlBlock"

text \<open>A channel of a control block is named by the VM it belongs to; \<open>pollPath\<close> and \<open>pollReceive\<close> are
  \<open>wait.Poll...\<close> with the condition of the code, \<open>takeSendErr\<close> the receive of a \<open>select\<close> with a default.\<close>

record 'w node =
  nApi :: "'w api"
  chInfo :: "string \<Rightarrow> 'w \<Rightarrow> err + vm_info"
  chReq :: "string \<Rightarrow> ch_req \<Rightarrow> 'w \<Rightarrow> err option \<times> 'w"
  osStat :: "string \<Rightarrow> 'w \<Rightarrow> stat_result"
  readConfig :: "string \<Rightarrow> 'w \<Rightarrow> config_file"
  pidBySocket :: "string \<Rightarrow> 'w \<Rightarrow> err + int"
  prlimit :: "int \<Rightarrow> 64 word \<Rightarrow> 'w \<Rightarrow> err option \<times> 'w"
  readRecord :: "string \<Rightarrow> 'w \<Rightarrow> err + mount_record"
  writeRecord :: "string \<Rightarrow> mount_record \<Rightarrow> 'w \<Rightarrow> err option \<times> 'w"
  osRemoveAll :: "string \<Rightarrow> 'w \<Rightarrow> err option \<times> 'w"
  osCreate :: "string \<Rightarrow> 'w \<Rightarrow> err option \<times> 'w"
  execCommand :: "string list \<Rightarrow> 'w \<Rightarrow> err option \<times> 'w"
  statDevice :: "string \<Rightarrow> 'w \<Rightarrow> err + string"
  statType :: "string \<Rightarrow> 'w \<Rightarrow> err + string"
  mountinfo_Mounted :: "string \<Rightarrow> 'w \<Rightarrow> err + bool"
  mountInfos :: "int \<Rightarrow> 'w \<Rightarrow> err + mount_info list"
  cgroupFile :: "int \<Rightarrow> 'w \<Rightarrow> err + string"
  unifiedMode :: "'w \<Rightarrow> bool"
  walkCgroups :: "'w \<Rightarrow> (string \<times> bool option) list"
  fs2Manager :: "string \<Rightarrow> 'w \<Rightarrow> err option"
  cgroupSet :: "string \<Rightarrow> device_rule list \<Rightarrow> 'w \<Rightarrow> err option \<times> 'w"
  pollPath :: "string \<Rightarrow> 'w \<Rightarrow> err option \<times> 'w"
  pollReceive :: "string \<Rightarrow> string \<Rightarrow> 'w \<Rightarrow> err option \<times> 'w"
  takeSendErr :: "string \<Rightarrow> 'w \<Rightarrow> err option \<times> 'w"
  loadCACert :: "'w \<Rightarrow> err option"
  relayTCPToSocket :: "string \<Rightarrow> 'w \<Rightarrow> (err + int) \<times> 'w"
  relaySocketToTCP :: "string \<Rightarrow> string \<Rightarrow> int \<Rightarrow> 'w \<Rightarrow> err option \<times> 'w"
  errText :: "err \<Rightarrow> string"
  NodeName :: string
  NodeIP :: string

datatype dcall =
    ChCall string ch_req bool
  | ChStarted string ch_req
  | StatusWritten vm bool
  | HostCommand "string list" bool
  | RecordWritten string mount_record bool
  | PathRemoved string bool
  | FileMade string bool
  | DeviceRules "device_rule list" bool
  | RlimitSet int "64 word" bool
  | Relayed string bool
  | Polled string bool
  | Cancelled string
  | DEvent string

type_synonym ('w, 'a) dact = "('w, vm, dcall, 'a) action"

definition devent :: "string \<Rightarrow> ('w, unit) dact" where
  "devent e s = (Ok (), s\<lparr>trace := trace s @ [DEvent e]\<rparr>)"

definition note_call :: "dcall \<Rightarrow> ('w, unit) dact" where
  "note_call c s = (Ok (), s\<lparr>trace := trace s @ [c]\<rparr>)"

text \<open>\<open>if err != nil { return wrap(err) }\<close>\<close>

definition check_err :: "(err \<Rightarrow> err) \<Rightarrow> err option \<Rightarrow> ('w, unit) dact" where
  "check_err wrap r = (case r of None \<Rightarrow> ret () | Some e \<Rightarrow> throw (wrap e))"

definition vm_sock :: "vm \<Rightarrow> string" where "vm_sock v = getVMDataDirPath v @ ''/vm.sock''"

definition ch :: "'w node \<Rightarrow> string \<Rightarrow> ch_req \<Rightarrow> ('w, err option) dact" where
  "ch k sock q = kwrite (chReq k sock q) (\<lambda>r. ChCall sock q (r = None))"

definition isChVMNotCreatedError :: "'w node \<Rightarrow> err \<Rightarrow> bool" where
  "isChVMNotCreatedError k e \<longleftrightarrow> Contains (errText k e) ''VM is not created''"

section \<open>The mount record\<close>

definition getVMMountRecordFile :: "string \<Rightarrow> string" where
  "getVMMountRecordFile uid = path_join [''/var/run/ch-vmm/hotplug-volume-mount-record'', uid]"

definition getVMMountRecord :: "'w node \<Rightarrow> string \<Rightarrow> ('w, mount_record) dact" where
  "getVMMountRecord k uid = bind (kread (osStat k (getVMMountRecordFile uid))) (\<lambda>st. case st of
     Missing \<Rightarrow> ret [] | StatErr e \<Rightarrow> throw e
   | Present \<Rightarrow> bind (kread (readRecord k (getVMMountRecordFile uid))) (\<lambda>r. case r of Inl e \<Rightarrow> throw e | Inr rec \<Rightarrow> ret rec))"

definition writeVMMountRecord :: "'w node \<Rightarrow> string \<Rightarrow> mount_record \<Rightarrow> ('w, unit) dact" where
  "writeVMMountRecord k uid rec = bind (kwrite (writeRecord k (getVMMountRecordFile uid) rec)
     (\<lambda>r. RecordWritten uid rec (r = None))) (check_err id)"

definition removeVMMountRecord :: "'w node \<Rightarrow> string \<Rightarrow> ('w, unit) dact" where
  "removeVMMountRecord k uid = bind (kwrite (osRemoveAll k (getVMMountRecordFile uid))
     (\<lambda>r. PathRemoved (getVMMountRecordFile uid) (r = None))) (check_err id)"

definition addVolumeToVMMountRecord :: "'w node \<Rightarrow> string \<Rightarrow> string \<Rightarrow> string \<Rightarrow> mount_record \<Rightarrow> ('w, mount_record) dact" where
  "addVolumeToVMMountRecord k uid volume target rec =
    (if volume \<in> fst ` set rec then ret rec
     else (let rec' = rec @ [(volume, target)] in bind (writeVMMountRecord k uid rec') (\<lambda>_. ret rec')))"

section \<open>Devices and mounts\<close>

definition getBlockFileMajorMinor :: "'w node \<Rightarrow> string \<Rightarrow> ('w, int \<times> int) dact" where
  "getBlockFileMajorMinor k path = bind (kread (statDevice k path)) (\<lambda>r. case r of
     Inl e \<Rightarrow> throw (ErrS ''/bin/stat'' e)
   | Inr output \<Rightarrow> (case parse_stat 16 output of Inl e \<Rightarrow> throw e | Inr mm \<Rightarrow> ret mm))"

definition trim_right :: "string \<Rightarrow> string" where
  "trim_right s = rev (dropWhile (\<lambda>c. c \<in> {CHR '' '', CHR 0x09, CHR 0x0A, CHR 0x0B, CHR 0x0C, CHR 0x0D}) (rev s))"

definition trim_space :: "string \<Rightarrow> string" where
  "trim_space s = trim_right (dropWhile (\<lambda>c. c \<in> {CHR '' '', CHR 0x09, CHR 0x0A, CHR 0x0B, CHR 0x0C, CHR 0x0D}) s)"

definition isBlockFile :: "'w node \<Rightarrow> string \<Rightarrow> ('w, bool) dact" where
  "isBlockFile k path = bind (kread (statType k path)) (\<lambda>r. case r of Inl _ \<Rightarrow> ret False
     | Inr output \<Rightarrow> ret (trim_space output = ''block special file''))"

definition isMounted :: "'w node \<Rightarrow> string \<Rightarrow> ('w, bool) dact" where
  "isMounted k path = bind (kread (osStat k path)) (\<lambda>st. case st of Missing \<Rightarrow> ret False | StatErr e \<Rightarrow> throw e
     | Present \<Rightarrow> bind (kread (mountinfo_Mounted k path)) (\<lambda>r. case r of Inl e \<Rightarrow> throw e | Inr b \<Rightarrow> ret b))"

definition executeCommand :: "'w node \<Rightarrow> string list \<Rightarrow> ('w, err option) dact" where
  "executeCommand k cmd = kwrite (execCommand k cmd) (\<lambda>r. HostCommand cmd (r = None))"

definition getMountInfos :: "'w node \<Rightarrow> int \<Rightarrow> (mount_info \<Rightarrow> bool) \<Rightarrow> ('w, mount_info list) dact" where
  "getMountInfos k pid keep = bind (kread (mountInfos k pid)) (\<lambda>r. case r of Inl e \<Rightarrow> throw e | Inr ms \<Rightarrow> ret (filter keep ms))"

definition getHotplugVolumeSourcePathOnHost :: "'w node \<Rightarrow> string \<Rightarrow> string \<Rightarrow> ('w, string) dact" where
  "getHotplugVolumeSourcePathOnHost k volume volumePodUID =
    bind (kread (pidBySocket k (''/pods/'' @ volumePodUID @ ''/volumes/kubernetes.io~empty-dir/hotplug/hp.sock''))) (\<lambda>r. case r of
      Inl e \<Rightarrow> throw e
    | Inr pid \<Rightarrow> bind (getMountInfos k pid (\<lambda>m. mi_Mountpoint m = ''/mnt/'' @ volume)) (\<lambda>mounts. case mounts of
        [] \<Rightarrow> throw (ErrNew ''no mount info in volume pod'')
      | m0 # _ \<Rightarrow> bind (getMountInfos k 1 (\<lambda>m. mi_Major m = mi_Major m0 \<and> mi_Minor m = mi_Minor m0
            \<and> HasPrefix (mi_Root m0) (mi_Root m) \<and> Contains (mi_Mountpoint m) volumePodUID)) (\<lambda>onHost. case onHost of
          [] \<Rightarrow> throw (ErrNew ''n mount info on host'')
        | m # _ \<Rightarrow> ret (mi_Mountpoint m))))"

text \<open>The cgroup manager of the VM's pod; \<open>NewManager\<close> gives none, without an error, when there is no socket.\<close>

definition cgroup_of :: "'w node \<Rightarrow> 'w cgroup_env" where
  "cgroup_of k = \<lparr>cgStat = osStat k, cgStatDevice = statDevice k, cgPidBySocket = pidBySocket k, cgParseFile = cgroupFile k,
     cgUnified = unifiedMode k, cgWalk = walkCgroups k, cgNew = fs2Manager k, cgSet = cgroupSet k\<rparr>"

definition setDevice :: "'w node \<Rightarrow> ext \<Rightarrow> v2Manager \<Rightarrow> vm \<Rightarrow> int \<Rightarrow> int \<Rightarrow> bool \<Rightarrow> ('w, unit) dact" where
  "setDevice k x m v major minor allow = v2_Set DeviceRules (cgroup_of k) x m v [block_rule major minor allow]"

section \<open>Hot-plugged volumes\<close>

definition mountBlockVolume :: "'w node \<Rightarrow> ext \<Rightarrow> vm \<Rightarrow> string \<Rightarrow> string \<Rightarrow> string \<Rightarrow> mount_record \<Rightarrow> ('w, mount_record) dact" where
  "mountBlockVolume k x v volume vmPodUID volumePodUID rec =
    (let target = path_join [''/pods'', vmPodUID, ''volumes/kubernetes.io~empty-dir/hotplug-volumes'', volume];
         source = path_join [''/pods'', volumePodUID, ''volumes/kubernetes.io~empty-dir/hotplug'', volume] in
     bind (kread (osStat k target)) (\<lambda>st. case st of StatErr e \<Rightarrow> throw e
     | _ \<Rightarrow> bind (getBlockFileMajorMinor k source) (\<lambda>(major, minor).
        bind (addVolumeToVMMountRecord k (vm_UID v) volume target rec) (\<lambda>rec'.
        bind (if st = Missing then bind (executeCommand k [''/bin/mknod'', target, ''b'', Itoa major, Itoa minor]) (check_err (ErrS ''mknod''))
              else ret ()) (\<lambda>_.
        bind (NewManager (cgroup_of k) v) (\<lambda>manager. case manager of None \<Rightarrow> panic ''nil pointer dereference''
        | Some m \<Rightarrow> bind (mapErr (ErrS ''set cgroup for volume device'') (setDevice k x m v major minor True)) (\<lambda>_. ret rec')))))))"

definition mountFileSystemVolume :: "'w node \<Rightarrow> vm \<Rightarrow> string \<Rightarrow> string \<Rightarrow> string \<Rightarrow> mount_record \<Rightarrow> ('w, mount_record) dact" where
  "mountFileSystemVolume k v volume vmPodUID volumePodUID rec =
    (let target = ''/pods/'' @ vmPodUID @ ''/volumes/kubernetes.io~empty-dir/hotplug-volumes/'' @ volume @ ''.img'' in
     bind (isMounted k target) (\<lambda>mounted. if mounted then ret rec
     else bind (getHotplugVolumeSourcePathOnHost k volume volumePodUID) (\<lambda>source.
       bind (addVolumeToVMMountRecord k (vm_UID v) volume target rec) (\<lambda>rec'.
       bind (kread (osStat k target)) (\<lambda>st.
       bind (case st of Present \<Rightarrow> ret () | StatErr e \<Rightarrow> throw e
         | Missing \<Rightarrow> bind (kwrite (osCreate k target) (\<lambda>r. FileMade target (r = None))) (check_err id)) (\<lambda>_.
       bind (executeCommand k [''mount'', ''-o'', ''bind'', path_join [source, ''disk.img''], target]) (\<lambda>r.
       bind (check_err (ErrS ''mount volume'') r) (\<lambda>_. ret rec'))))))))"

fun update_first :: "('a \<Rightarrow> bool) \<Rightarrow> ('a \<Rightarrow> 'a) \<Rightarrow> 'a list \<Rightarrow> 'a list" where
  "update_first P f [] = []"
| "update_first P f (x # xs) = (if P x then f x # xs else x # update_first P f xs)"

definition setVolumePhase :: "((volume_status \<Rightarrow> volume_status) \<Rightarrow> volume_status list \<Rightarrow> volume_status list) \<Rightarrow> volume_phase \<Rightarrow> ('w, unit) dact" where
  "setVolumePhase upd ph = modStatus (\<lambda>st. st\<lparr>st_VolumeStatus := upd (\<lambda>vs. vs\<lparr>vs_Phase := ph\<rparr>) (st_VolumeStatus st)\<rparr>)"

text \<open>The loop keeps \<open>volumePodUID\<close> from one volume to the next.\<close>

definition mountHotplugVolume :: "'w node \<Rightarrow> ext \<Rightarrow> string \<Rightarrow> volume \<Rightarrow> string \<times> mount_record \<Rightarrow> ('w, string \<times> mount_record) dact" where
  "mountHotplugVolume k x vmPodUID vol acc = (let (volumePodUID, rec) = acc in
    if \<not> IsHotpluggable x vol then ret acc
    else bind getObj (\<lambda>v. case List.find (\<lambda>vs. vs_Name vs = v_name vol) (st_VolumeStatus (vm_status v)) of None \<Rightarrow> ret acc
      | Some vs \<Rightarrow> (case vs_HotplugVolume vs of None \<Rightarrow> ret acc
        | Some hp \<Rightarrow>
          bind (if volumePodUID \<noteq> [] \<or> vs_Phase vs = VolumeAttachedToNode
            then (let uid = if volumePodUID = [] then hv_VolumePodUID hp else volumePodUID in
              bind (IsBlock (nApi k) (vm_Namespace v) vol) (\<lambda>isBlock.
              bind ((if isBlock then mountBlockVolume k x else mountFileSystemVolume k) v (v_name vol) vmPodUID uid rec) (\<lambda>rec'. ret (uid, rec'))))
            else ret acc) (\<lambda>acc'.
          bind (if vs_Phase vs = VolumeAttachedToNode
            then bind (setVolumePhase (update_first (\<lambda>vs. vs_Name vs = v_name vol)) VolumeMountedToPod) (\<lambda>_. devent ''MountVolumeToPod'')
            else ret ()) (\<lambda>_. ret acc')))))"

definition mountHotplugVolumes :: "'w node \<Rightarrow> ext \<Rightarrow> string \<Rightarrow> string \<Rightarrow> ('w, unit) dact" where
  "mountHotplugVolumes k x vmPodUID volumePodUID = bind getObj (\<lambda>v.
    let podUID = if vmPodUID = [] then st_VMPodUID (vm_status v) else vmPodUID in
    bind (getVMMountRecord k (vm_UID v)) (\<lambda>rec.
    bind (fold_act (mountHotplugVolume k x podUID) (s_Volumes (vm_spec v)) (volumePodUID, rec)) (\<lambda>_. ret ())))"

definition umountHotplugVolume :: "'w node \<Rightarrow> ext \<Rightarrow> vm \<Rightarrow> string \<times> string \<Rightarrow> ('w, unit) dact" where
  "umountHotplugVolume k x v entry = (let target = snd entry in
    bind (isBlockFile k target) (\<lambda>block.
    if block then bind (kread (osStat k target)) (\<lambda>st. case st of Missing \<Rightarrow> ret () | StatErr e \<Rightarrow> throw e
      | Present \<Rightarrow> bind (getBlockFileMajorMinor k target) (\<lambda>(major, minor).
          bind (NewManager (cgroup_of k) v) (\<lambda>manager.
          bind (case manager of Some m \<Rightarrow> setDevice k x m v major minor False | None \<Rightarrow> ret ()) (\<lambda>_.
          bind (kwrite (osRemoveAll k target) (\<lambda>r. PathRemoved target (r = None))) (\<lambda>r.
          bind (check_err id r) (\<lambda>_. devent ''UmountVolumeFromPod''))))))
    else bind (isMounted k target) (\<lambda>mounted.
      bind (if mounted then bind (executeCommand k [''umount'', target]) (check_err (ErrS ''umount volume from VM pod'')) else ret ()) (\<lambda>_.
      devent ''UmountVolumeFromPod''))))"

definition umountUnused :: "'w node \<Rightarrow> ext \<Rightarrow> vm \<Rightarrow> string \<times> string \<Rightarrow> mount_record \<Rightarrow> ('w, mount_record) dact" where
  "umountUnused k x v entry kept =
    (if fst entry \<in> vs_Name ` set (st_VolumeStatus (vm_status v)) then ret (kept @ [entry])
     else bind (umountHotplugVolume k x v entry) (\<lambda>_. ret kept))"

definition umountHotplugVolumes :: "'w node \<Rightarrow> ext \<Rightarrow> ('w, unit) dact" where
  "umountHotplugVolumes k x = bind getObj (\<lambda>v.
    bind (getVMMountRecord k (vm_UID v)) (\<lambda>rec.
    bind (fold_act (umountUnused k x v) rec []) (\<lambda>newRecord.
    if newRecord \<noteq> [] then writeVMMountRecord k (vm_UID v) newRecord else removeVMMountRecord k (vm_UID v))))"

definition umountAllHotplugVolumes :: "'w node \<Rightarrow> ext \<Rightarrow> ('w, unit) dact" where
  "umountAllHotplugVolumes k x = bind getObj (\<lambda>v.
    bind (getVMMountRecord k (vm_UID v)) (\<lambda>rec.
    bind (for_each rec (\<lambda>entry. bind (umountHotplugVolume k x v entry) (\<lambda>_. devent ''UmountVolumeFromPod''))) (\<lambda>_.
    removeVMMountRecord k (vm_UID v))))"

definition cleanup :: "'w node \<Rightarrow> ext \<Rightarrow> ('w, unit) dact" where
  "cleanup k x = umountAllHotplugVolumes k x"

text \<open>\<open>vmInfo.Config\<close> is a pointer that a decoded answer may leave nil.\<close>

definition info_config :: "vm_info \<Rightarrow> ('w, vm_config) dact" where
  "info_config i = (case vi_Config i of None \<Rightarrow> panic ''nil pointer dereference'' | Some c \<Rightarrow> ret c)"

definition update_last :: "('a \<Rightarrow> bool) \<Rightarrow> ('a \<Rightarrow> 'a) \<Rightarrow> 'a list \<Rightarrow> 'a list" where
  "update_last P f xs = rev (update_first P f (rev xs))"

definition addHotplugVolume :: "'w node \<Rightarrow> ext \<Rightarrow> string list \<Rightarrow> volume \<Rightarrow> ('w, unit) dact" where
  "addHotplugVolume k x disks vol = (if \<not> IsHotpluggable x vol then ret ()
    else bind getObj (\<lambda>v. case List.find (\<lambda>vs. vs_Name vs = v_name vol) (rev (st_VolumeStatus (vm_status v))) of None \<Rightarrow> ret ()
      | Some vs \<Rightarrow> if vs_Phase vs \<noteq> VolumeMountedToPod then ret ()
          else bind (if vs_Name vs \<in> set disks then ret ()
            else bind (IsBlock (nApi k) (vm_Namespace v) vol) (\<lambda>isBlock.
              bind (ch k (vm_sock v) (VmAddDisk (vs_Name vs) (path_join [''/hotplug-volumes'', vs_Name vs @ (if isBlock then [] else ''.img'')]))) (\<lambda>r.
              bind (check_err (ErrS ''add disk'') r) (\<lambda>_. devent ''AddDiskToVM'')))) (\<lambda>_.
            setVolumePhase (update_last (\<lambda>vs. vs_Name vs = v_name vol)) VolumeReady)))"

definition addHotplugVolumesToVM :: "'w node \<Rightarrow> ext \<Rightarrow> vm_info \<Rightarrow> ('w, unit) dact" where
  "addHotplugVolumesToVM k x i = bind (info_config i) (\<lambda>c. bind getObj (\<lambda>v.
    for_each (s_Volumes (vm_spec v)) (addHotplugVolume k x (vc_Disks c))))"

definition removeHotplugVolumesFromVM :: "'w node \<Rightarrow> vm_info \<Rightarrow> ('w, unit) dact" where
  "removeHotplugVolumesFromVM k i = bind (info_config i) (\<lambda>c. bind getObj (\<lambda>v.
    for_each (vc_Disks c) (\<lambda>disk. if disk \<in> v_name ` set (s_Volumes (vm_spec v)) then ret ()
      else bind (ch k (vm_sock v) (VmRemoveDevice disk)) (\<lambda>r.
        bind (check_err (ErrS ''remove disk from VM'') r) (\<lambda>_. devent ''RemoveDiskFromVM'')))))"

definition reconcileHotplugVolumes :: "'w node \<Rightarrow> ext \<Rightarrow> vm_info \<Rightarrow> ('w, unit) dact" where
  "reconcileHotplugVolumes k x i = bind (mountHotplugVolumes k x [] []) (\<lambda>_. bind (addHotplugVolumesToVM k x i) (\<lambda>_.
    bind (removeHotplugVolumesFromVM k i) (\<lambda>_. umountHotplugVolumes k x)))"

section \<open>The phases\<close>

definition reconcileDeletingVM :: "'w node \<Rightarrow> ext \<Rightarrow> pod \<Rightarrow> ('w, unit) dact" where
  "reconcileDeletingVM k x vmPod = bind getObj (\<lambda>v.
    bind (if pst_phase (p_status vmPod) = PodRunning \<and> \<not> being_deleted (p_meta vmPod)
      then bind (ch k (vm_sock v) VmDelete) (\<lambda>r. case r of
          Some e \<Rightarrow> if isChVMNotCreatedError k e then devent ''VMDeleted'' else throw e
        | None \<Rightarrow> devent ''VMDeleted'')
      else ret ()) (\<lambda>_.
    bind (setPhase VirtualMachineSucceeded) (\<lambda>_. cleanup k x)))"

definition restoreVM :: "'w node \<Rightarrow> ('w, unit) dact" where
  "restoreVM k = bind getObj (\<lambda>v.
    bind (kread (osStat k (getVMMemoryDataDirPath v @ ''/snap/done.txt''))) (\<lambda>st.
    if st \<noteq> Present then bind (devent ''PrerunnerStage'') (\<lambda>_. throw (ErrNew ''waiting prerunner prepare vm snapshot direcory ''))
    else bind (ch k (vm_sock v) (VmRestore ''file:///mnt/memory/snap'')) (\<lambda>r. case r of
        Some e \<Rightarrow> bind (devent ''VMRestoreFailed'') (\<lambda>_. throw e)
      | None \<Rightarrow> setPhase VirtualMachineResumed)))"

definition vfioMemoryLockSizeBytes :: int where "vfioMemoryLockSizeBytes = 2 ^ 30"

definition bootVM :: "'w node \<Rightarrow> vm \<Rightarrow> ('w, unit) dact" where
  "bootVM k v = bind (ch k (vm_sock v) VmBoot) (\<lambda>r. bind (check_err id r) (\<lambda>_. devent ''VMBooted''))"

definition raiseMemlock :: "'w node \<Rightarrow> int \<Rightarrow> vm_config \<Rightarrow> ('w, unit) dact" where
  "raiseMemlock k pid c = (if 0 < vc_Devices c \<or> 0 < vc_Vdpa c
    then (case vc_MemorySize c of None \<Rightarrow> panic ''nil pointer dereference''
      | Some bytes \<Rightarrow> (let limit = word_of_int (bytes + vfioMemoryLockSizeBytes) in
          bind (kwrite (prlimit k pid limit) (\<lambda>r. RlimitSet pid limit (r = None))) (check_err (ErrS ''set cloud-hypervisor process memlock''))))
    else ret ())"

definition createAndBoot :: "'w node \<Rightarrow> vm \<Rightarrow> ('w, unit) dact" where
  "createAndBoot k v = bind (kread (readConfig k (getVMDataDirPath v @ ''/vm-config.json''))) (\<lambda>f. case f of
      ConfigMissing \<Rightarrow> bind (devent ''PrerunnerStage'') (\<lambda>_. throw (ErrNew ''waiting prerunner prepare VM config''))
    | ConfigErr e \<Rightarrow> throw e
    | Config c \<Rightarrow> bind (kread (pidBySocket k (vm_sock v))) (\<lambda>r. case r of
        Inl e \<Rightarrow> throw (ErrS ''get hypervisor process pid'' e)
      | Inr pid \<Rightarrow> bind (raiseMemlock k pid c) (\<lambda>_.
          bind (ch k (vm_sock v) (VmCreate c)) (\<lambda>r.
          bind (check_err (ErrS ''create VM'') r) (\<lambda>_.
          bind (devent ''VMCreated'') (\<lambda>_. bootVM k v))))))"

definition startVM :: "'w node \<Rightarrow> ext \<Rightarrow> ('w, unit) dact" where
  "startVM k x = bind (mountHotplugVolumes k x [] []) (\<lambda>_. bind getObj (\<lambda>v.
    if list_ex (\<lambda>vol. v_name vol = ''memory'') (s_Volumes (vm_spec v)) then setPhase VirtualMachineRestoreInProgress
    else bind (kread (chInfo k (vm_sock v))) (\<lambda>r. case r of
      Inl e \<Rightarrow> if isChVMNotCreatedError k e then createAndBoot k v else throw (ErrS ''get VM info'' e)
    | Inr i \<Rightarrow> if vi_State i = ''Created'' then bootVM k v
        else if vi_State i = ''Running'' then setPhase VirtualMachineRunning
        else if vi_State i = ''Paused'' then setPhase VirtualMachinePaused
        else if vi_State i = ''Shutdown'' then setPhase VirtualMachineFailed
        else ret ())))"

text \<open>The phases that only the VM's own node handles, and only outside a migration.\<close>

definition on_own_node :: "'w node \<Rightarrow> (vm \<Rightarrow> vm_info \<Rightarrow> ('w, unit) dact) \<Rightarrow> ('w, unit) dact" where
  "on_own_node k act = bind getObj (\<lambda>v.
    if st_Migration (vm_status v) \<noteq> None \<or> st_NodeName (vm_status v) \<noteq> NodeName k then ret ()
    else bind (kread (chInfo k (vm_sock v))) (\<lambda>r. case r of Inl e \<Rightarrow> throw (ErrS ''get VM info'' e) | Inr i \<Rightarrow> act v i))"

definition pauseVM :: "'w node \<Rightarrow> ('w, unit) dact" where
  "pauseVM k = on_own_node k (\<lambda>v i. if vi_State i \<noteq> ''Running'' then ret ()
    else bind (ch k (vm_sock v) VmPause) (\<lambda>r. devent (if r = None then ''VMPaused'' else ''FailedVMPause'')))"

definition resumeVM :: "'w node \<Rightarrow> ('w, unit) dact" where
  "resumeVM k = on_own_node k (\<lambda>v i. if vi_State i \<noteq> ''Paused'' then ret ()
    else bind (ch k (vm_sock v) VmResume) (\<lambda>r. case r of
        Some e \<Rightarrow> bind (devent ''FailedResume'') (\<lambda>_. throw e)
      | None \<Rightarrow> bind (devent ''VMResumed'') (\<lambda>_. setPhase VirtualMachineRunning)))"

text \<open>\<open>int64(float64(x) * 0.05)\<close> in IEEE double precision: \<open>round53\<close> rounds to 53 significant bits, ties
  to even; the double nearest to 0.05 is \<open>3602879701896397 / 2^56\<close>.\<close>

definition round53 :: "nat \<Rightarrow> nat" where
  "round53 m = (let s = bit_length m - 53 in
     if s = 0 then m else (let q = m div 2 ^ s; r = m mod 2 ^ s; h = 2 ^ (s - 1) in
       (if h < r \<or> r = h \<and> odd q then q + 1 else q) * 2 ^ s))"

definition memoryTolerance :: "int \<Rightarrow> int" where
  "memoryTolerance x = sgn x * int (round53 (round53 (nat \<bar>x\<bar>) * 3602879701896397) div 2 ^ 56)"

definition needsResize :: "int \<Rightarrow> int \<Rightarrow> int \<Rightarrow> int \<Rightarrow> bool" where
  "needsResize currentVcpus desiredVcpus currentRam desiredRam =
    (let diff = wrap64 (currentRam - desiredRam); memoryDiff = if diff < 0 then wrap64 (- diff) else diff in
     currentVcpus \<noteq> desiredVcpus \<or> memoryTolerance desiredRam < memoryDiff)"

definition resizeVM :: "'w node \<Rightarrow> ('w, unit) dact" where
  "resizeVM k = on_own_node k (\<lambda>v i.
    if vi_State i \<noteq> ''Running'' \<and> vi_State i \<noteq> ''Paused'' then ret ()
    else (let desiredVcpus = uint (Sockets (i_cpu (s_Instance (vm_spec v))) * CoresPerSocket (i_cpu (s_Instance (vm_spec v))));
              desiredRam = q_Value (mem_Size (i_memory (s_Instance (vm_spec v)))) in
      bind (info_config i) (\<lambda>c. case vc_BootVcpus c of None \<Rightarrow> panic ''nil pointer dereference''
      | Some currentVcpus \<Rightarrow>
        if needsResize currentVcpus desiredVcpus (vi_MemoryActualSize i) desiredRam
        then bind (ch k (vm_sock v) (VmResize desiredVcpus desiredRam)) (\<lambda>r. case r of
            Some e \<Rightarrow> bind (devent ''VMResizeFailed'') (\<lambda>_. throw (ErrS ''resize VM'' e))
          | None \<Rightarrow> devent ''VMResizeInitiated'')
        else bind (setPhase VirtualMachineRunning) (\<lambda>_. devent ''VMResizeCompleted''))))"

definition powerAction :: "'w node \<Rightarrow> vm \<Rightarrow> ch_req \<Rightarrow> string \<Rightarrow> string \<Rightarrow> ('w, unit) dact" where
  "powerAction k v q ok failed = bind (ch k (vm_sock v) q) (\<lambda>r. devent (if r = None then ok else failed))"

definition runVM :: "'w node \<Rightarrow> ext \<Rightarrow> ('w, unit) dact" where
  "runVM k x = on_own_node k (\<lambda>v i.
    if vi_State i \<noteq> ''Running'' \<and> vi_State i \<noteq> ''Paused'' then setPhase VirtualMachineSucceeded
    else if s_RunPolicy (vm_spec v) = RunPolicyHalted then
      bind (ch k (vm_sock v) VmShutdown) (\<lambda>r. case r of
        Some e \<Rightarrow> bind (devent ''FailedVMPowerOff'') (\<lambda>_. throw (ErrS ''power off VM'' e))
      | None \<Rightarrow> reconcileHotplugVolumes k x i)
    else if st_PowerAction (vm_status v) \<noteq> PowerNone then
      bind (case st_PowerAction (vm_status v) of
          VirtualMachinePowerOff \<Rightarrow> powerAction k v VmPowerButton ''VMPoweredOff'' ''FailedVMPowerOff''
        | VirtualMachineShutdown \<Rightarrow> powerAction k v VmShutdown ''VMShutdown'' ''FailedVMShutdown''
        | VirtualMachineReset \<Rightarrow> powerAction k v VmReboot ''VMReset'' ''FailedVMReset''
        | VirtualMachineReboot \<Rightarrow> powerAction k v VmReboot ''VMRebooted'' ''FailedVMReboot''
        | _ \<Rightarrow> ret ()) (\<lambda>_.
      modStatus (\<lambda>st. st\<lparr>st_PowerAction := PowerNone\<rparr>))
    else reconcileHotplugVolumes k x i)"

section \<open>Migration\<close>

text \<open>Each step returns the control block as changed, or \<open>None\<close> for the early return that leaves the
  map of blocks alone.\<close>

type_synonym mstep = "migrationControlBlock option"

definition setMigrationPhase :: "migration_phase \<Rightarrow> ('w, unit) dact" where
  "setMigrationPhase ph = modMigration (\<lambda>mg. mg\<lparr>mg_Phase := ph\<rparr>)"

definition failMigration :: "('w, mstep) dact" where
  "failMigration = bind (devent ''FailedVMMigrate'') (\<lambda>_. bind (setMigrationPhase MigrationFailed) (\<lambda>_. ret None))"

text \<open>Making the target listen: \<open>Some\<close> block when the receiving socket is there.\<close>

definition receiveMigration :: "'w node \<Rightarrow> string \<Rightarrow> string \<Rightarrow> migrationControlBlock \<Rightarrow> ('w, mstep) dact" where
  "receiveMigration k uid dir b = bind (kread (osStat k (dir @ ''/rx.sock''))) (\<lambda>st. case st of
      Present \<Rightarrow> ret (Some b)
    | StatErr e \<Rightarrow> throw e
    | Missing \<Rightarrow> bind (note_call (ChStarted (dir @ ''/vm.sock'') (VmReceiveMigration ''unix:/var/run/ch-vmm/rx.sock''))) (\<lambda>_.
        bind (kwrite (pollReceive k uid (dir @ ''/rx.sock'')) (\<lambda>r. Polled (dir @ ''/rx.sock'') (r = None))) (\<lambda>r. case r of
          Some _ \<Rightarrow> failMigration
        | None \<Rightarrow> ret (Some (b\<lparr>ReceiveMigrationErrCh := True\<rparr>)))))"

definition prepareTarget :: "'w node \<Rightarrow> ext \<Rightarrow> vm \<Rightarrow> migration \<Rightarrow> migrationControlBlock \<Rightarrow> ('w, mstep) dact" where
  "prepareTarget k x v mg b =
    (if mg_TargetNodeName mg \<noteq> NodeName k then ret (Some b)
     else (let dir = getMigrationTargetVMSocketDirPath mg in
       bind (kwrite (pollPath k (dir @ ''/vm.sock'')) (\<lambda>r. Polled (dir @ ''/vm.sock'') (r = None))) (\<lambda>r. case r of
         Some _ \<Rightarrow> failMigration
       | None \<Rightarrow> bind (receiveMigration k (vm_UID v) dir (b\<lparr>ReceiveMigrationCancelFunc := True\<rparr>)) (\<lambda>rb. case rb of
           None \<Rightarrow> ret None
         | Some b' \<Rightarrow> bind (kread (loadCACert k)) (\<lambda>r. bind (check_err (ErrS ''load CA cert'') r) (\<lambda>_.
             bind (kwrite (relayTCPToSocket k (dir @ ''/rx.sock'')) (\<lambda>r. Relayed (dir @ ''/rx.sock'') (is_Inr r))) (\<lambda>r. case r of
               Inl e \<Rightarrow> throw (ErrS ''start target relay'' e)
             | Inr port \<Rightarrow> bind (mountHotplugVolumes k x (mg_TargetVMPodUID mg) (mg_TargetVolumePodUID mg)) (\<lambda>_.
                 bind (modMigration (\<lambda>mg. mg\<lparr>mg_TargetNodePort := port, mg_TargetNodeIP := NodeIP k, mg_Phase := MigrationTargetReady\<rparr>)) (\<lambda>_.
                 ret (Some b'))))))))))"

definition sendMigration :: "'w node \<Rightarrow> vm \<Rightarrow> migration \<Rightarrow> migrationControlBlock \<Rightarrow> ('w, mstep) dact" where
  "sendMigration k v mg b =
    (if st_NodeName (vm_status v) \<noteq> NodeName k then ret (Some b)
     else bind (kwrite (relaySocketToTCP k (getVMDataDirPath v @ ''/tx.sock'') (mg_TargetNodeIP mg) (mg_TargetNodePort mg))
            (\<lambda>r. Relayed (getVMDataDirPath v @ ''/tx.sock'') (r = None))) (\<lambda>r.
       bind (check_err (ErrS ''start source relay'') r) (\<lambda>_.
       bind (note_call (ChStarted (vm_sock v) (VmSendMigration ''unix:/var/run/ch-vmm/tx.sock''))) (\<lambda>_.
       bind (setMigrationPhase MigrationRunning) (\<lambda>_.
       ret (Some (b\<lparr>SendMigrationCancelFunc := True, SendMigrationErrCh := True\<rparr>)))))))"

definition awaitSend :: "'w node \<Rightarrow> ext \<Rightarrow> vm \<Rightarrow> pod \<Rightarrow> migrationControlBlock \<Rightarrow> ('w, mstep) dact" where
  "awaitSend k x v vmPod b =
    (let finish = bind (if SendMigrationCancelFunc b then note_call (Cancelled ''send'') else ret ()) (\<lambda>_. ret (Some b)) in
     if st_NodeName (vm_status v) \<noteq> NodeName k then ret (Some b)
     else if pst_phase (p_status vmPod) = PodSucceeded then
       bind (cleanup k x) (\<lambda>_. bind (setMigrationPhase MigrationSent) (\<lambda>_. finish))
     else if \<not> SendMigrationErrCh b then bind (setMigrationPhase MigrationFailed) (\<lambda>_. finish)
     else bind (kwrite (takeSendErr k (vm_UID v)) (\<lambda>r. Polled ''send'' (r = None))) (\<lambda>r. case r of
         None \<Rightarrow> ret None
       | Some _ \<Rightarrow> bind (devent ''FailedVMMigrate'') (\<lambda>_. bind (setMigrationPhase MigrationFailed) (\<lambda>_. finish))))"

definition takeOver :: "'w node \<Rightarrow> migration \<Rightarrow> migrationControlBlock \<Rightarrow> ('w, mstep) dact" where
  "takeOver k mg b =
    (if mg_TargetNodeName mg \<noteq> NodeName k then ret (Some b)
     else bind (kread (chInfo k (getMigrationTargetVMSocketDirPath mg @ ''/vm.sock''))) (\<lambda>r. case r of Inl e \<Rightarrow> throw e
       | Inr i \<Rightarrow> if vi_State i \<noteq> ''Running'' then ret None
           else bind (setMigrationPhase MigrationSucceeded) (\<lambda>_.
             bind (modStatus (\<lambda>st. st\<lparr>st_NodeName := mg_TargetNodeName mg, st_VMPodName := mg_TargetVMPodName mg, st_VMPodUID := mg_TargetVMPodUID mg\<rparr>)) (\<lambda>_.
             bind (if ReceiveMigrationCancelFunc b then note_call (Cancelled ''receive'') else ret ()) (\<lambda>_. ret (Some b))))))"

text \<open>The map of blocks after a step that did not return early.\<close>

definition store_block :: "'w node \<Rightarrow> vm \<Rightarrow> blocks \<Rightarrow> migrationControlBlock \<Rightarrow> blocks" where
  "store_block k v bs b = (case st_Migration (vm_status v) of None \<Rightarrow> bs
     | Some mg \<Rightarrow> if mg_Phase mg \<in> {MigrationFailed, MigrationSucceeded}
          \<or> mg_Phase mg = MigrationSent \<and> st_NodeName (vm_status v) = NodeName k
        then bs(vm_UID v := None) else bs(vm_UID v \<mapsto> b))"

definition migrateVM :: "'w node \<Rightarrow> ext \<Rightarrow> pod \<Rightarrow> blocks \<Rightarrow> migration \<Rightarrow> ('w, blocks) dact" where
  "migrateVM k x vmPod bs mg = bind getObj (\<lambda>v.
    let b = (case bs (vm_UID v) of None \<Rightarrow> no_block | Some b \<Rightarrow> b) in
    bind (case mg_Phase mg of
        MigrationScheduled \<Rightarrow> prepareTarget k x v mg b
      | MigrationTargetReady \<Rightarrow> sendMigration k v mg b
      | MigrationRunning \<Rightarrow> awaitSend k x v vmPod b
      | MigrationSent \<Rightarrow> takeOver k mg b
      | _ \<Rightarrow> ret (Some b)) (\<lambda>rb. case rb of None \<Rightarrow> ret bs
      | Some b' \<Rightarrow> bind getObj (\<lambda>v'. ret (store_block k v' bs b'))))"

section \<open>The round\<close>

definition chPhase :: "'w node \<Rightarrow> ext \<Rightarrow> pod \<Rightarrow> blocks \<Rightarrow> vm \<Rightarrow> ('w, blocks) dact" where
  "chPhase k x vmPod bs v = (let same = (\<lambda>m. bind m (\<lambda>_. ret bs)) in
     case st_Phase (vm_status v) of
       VirtualMachineRestoreInProgress \<Rightarrow> same (restoreVM k)
     | VirtualMachineScheduled \<Rightarrow> same (startVM k x)
     | VirtualMachinePaused \<Rightarrow> same (pauseVM k)
     | VirtualMachineResumed \<Rightarrow> same (resumeVM k)
     | VirtualMachineResizeInProgress \<Rightarrow> same (resizeVM k)
     | VirtualMachineRunning \<Rightarrow> (case st_Migration (vm_status v) of
           None \<Rightarrow> same (runVM k x) | Some mg \<Rightarrow> migrateVM k x vmPod bs mg)
     | VirtualMachineSucceeded \<Rightarrow> same (cleanup k x)
     | VirtualMachineFailed \<Rightarrow> same (cleanup k x)
     | _ \<Rightarrow> ret bs)"

definition chReconcile :: "'w node \<Rightarrow> ext \<Rightarrow> blocks \<Rightarrow> ('w, blocks) dact" where
  "chReconcile k x bs = bind getObj (\<lambda>v.
    if \<not> responsible (NodeName k) v then ret bs
    else bind (kread (kGetPod (nApi k) \<lparr>k_ns = default_ns (vm_Namespace v), k_name = st_VMPodName (vm_status v)\<rparr>)) (\<lambda>r. case r of
      Inl e \<Rightarrow> if e = NotFound then ret bs else throw (ApiErr e)
    | Inr vmPod \<Rightarrow>
        if being_deleted (vm_meta v) then
          (if st_NodeName (vm_status v) \<noteq> NodeName k then ret bs else bind (reconcileDeletingVM k x vmPod) (\<lambda>_. ret bs))
        else chPhase k x vmPod bs v))"

text \<open>\<open>reflect.DeepEqual\<close> compares a struct with a pointer and is never true, so the status is always written;
  its error is reported only when the round had none.\<close>

definition Daemon_Reconcile :: "'w node \<Rightarrow> ext \<Rightarrow> blocks \<Rightarrow> key \<Rightarrow> ('w, Result \<times> blocks) dact" where
  "Daemon_Reconcile k x bs req = bind (kread (kGetVM (nApi k) req)) (\<lambda>r. case r of
      Inl e \<Rightarrow> if e = NotFound then ret (no_requeue, bs) else throw (ApiErr e)
    | Inr v \<Rightarrow> bind (modObj (\<lambda>_. v)) (\<lambda>_. bind (attempt (chReconcile k x bs)) (\<lambda>rr.
        bind (updateObj (kUpdateVMStatus (nApi k)) StatusWritten) (\<lambda>u. case rr of
          Inl e \<Rightarrow> throw e
        | Inr bs' \<Rightarrow> (case u of None \<Rightarrow> ret (\<lparr>Requeue = False, RequeueAfter = 15\<rparr>, bs')
            | Some e \<Rightarrow> if e = Conflict then ret (\<lparr>Requeue = True, RequeueAfter = 0\<rparr>, bs')
                else throw (ErrS ''update VM status'' (ApiErr e)))))))"

section \<open>What a round leaves alone\<close>

lemma keeps_case_config [keeps]:
  "keeps f m \<Longrightarrow> (\<And>e. keeps f (g e)) \<Longrightarrow> (\<And>c. keeps f (h c))
    \<Longrightarrow> keeps f (case cf of ConfigMissing \<Rightarrow> m | ConfigErr e \<Rightarrow> g e | Config c \<Rightarrow> h c)"
  by (cases cf) simp_all

lemma keeps_node_calls [keeps]:
  "keeps obj (devent e)" "keeps obj (note_call c)" "keeps obj (check_err w r)" "keeps obj (ch k sock q)"
  "keeps obj (executeCommand k cmd)" "keeps obj (info_config i)"
  unfolding ch_def executeCommand_def check_err_def info_config_def
  by (intro keeps | simp add: keeps_def devent_def note_call_def)+

lemma keeps_record [keeps]:
  "keeps obj (getVMMountRecord k uid)" "keeps obj (writeVMMountRecord k uid rec)" "keeps obj (removeVMMountRecord k uid)"
  "keeps obj (addVolumeToVMMountRecord k uid vol t rec)"
  unfolding getVMMountRecord_def writeVMMountRecord_def removeVMMountRecord_def addVolumeToVMMountRecord_def Let_def
  by (intro keeps)+

lemma keeps_devices [keeps]:
  "keeps obj (getBlockFileMajorMinor k path)" "keeps obj (isBlockFile k path)" "keeps obj (isMounted k path)"
  "keeps obj (getMountInfos k pid keep)" "keeps obj (NewManager c v)" "keeps obj (setDevice k x m v ma mi al)"
  unfolding getBlockFileMajorMinor_def isBlockFile_def isMounted_def getMountInfos_def NewManager_def setDevice_def v2_Set_def generateDeviceRuleForVM_def volumeRule_def cgroup_getBlockFileMajorMinor_def Let_def
  by (intro keeps)+

lemma keeps_mounts [keeps]:
  "keeps obj (getHotplugVolumeSourcePathOnHost k vol uid)"
  "keeps obj (mountBlockVolume k x v vol pod uid rec)" "keeps obj (mountFileSystemVolume k v vol pod uid rec)"
  unfolding getHotplugVolumeSourcePathOnHost_def mountBlockVolume_def mountFileSystemVolume_def Let_def
  by (intro keeps | simp add: keeps_case_stat keeps split: list.split)+

lemma keeps_umounts [keeps]:
  "keeps obj (umountHotplugVolume k x v entry)" "keeps obj (umountUnused k x v entry kept)" "keeps obj (umountHotplugVolumes k x)"
  "keeps obj (umountAllHotplugVolumes k x)" "keeps obj (cleanup k x)"
  unfolding cleanup_def umountAllHotplugVolumes_def umountHotplugVolumes_def umountUnused_def umountHotplugVolume_def Let_def
  by (intro keeps)+

lemma keeps_hypervisor [keeps]:
  "keeps obj (removeHotplugVolumesFromVM k i)" "keeps obj (bootVM k v)" "keeps obj (raiseMemlock k pid c)"
  "keeps obj (createAndBoot k v)" "keeps obj (powerAction k v q ok failed)"
  unfolding removeHotplugVolumesFromVM_def bootVM_def raiseMemlock_def createAndBoot_def powerAction_def Let_def
  by (intro keeps)+

lemmas keeps_host = keeps_node_calls keeps_record keeps_devices keeps_mounts keeps_umounts keeps_hypervisor

lemmas ends_host [ends] = keeps_host [THEN ends_keeps_obj]

text \<open>Mounting and adding hot-plugged volumes changes the phases of volumes and nothing else of the VM.\<close>

definition core :: "vm \<Rightarrow> vm" where
  "core v = v\<lparr>vm_status := (vm_status v)\<lparr>st_VolumeStatus := []\<rparr>\<rparr>"

lemmas keeps_core_host [keeps] = keeps_host [THEN keeps_comp [where f = core]]

lemma keeps_core_setVolumePhase [keeps]: "keeps (\<lambda>s. core (obj s)) (setVolumePhase upd ph)"
  by (simp add: keeps_def setVolumePhase_def modStatus_def modObj_def core_def)

lemma keeps_core_mount_one [keeps]: "keeps (\<lambda>s. core (obj s)) (mountHotplugVolume k x pod vol acc)"
proof -
  have "keeps (\<lambda>s. core (obj s)) ((if b then mountBlockVolume k x else mountFileSystemVolume k) v name pod uid rec)" for b v name uid rec
    by (simp add: keeps_core_host)
  then show ?thesis unfolding mountHotplugVolume_def Let_def by (intro keeps)
qed

lemma keeps_core_add_one [keeps]: "keeps (\<lambda>s. core (obj s)) (addHotplugVolume k x disks vol)"
  unfolding addHotplugVolume_def by (intro keeps)

lemma keeps_core_volumes [keeps]:
  "keeps (\<lambda>s. core (obj s)) (mountHotplugVolumes k x pod uid)" "keeps (\<lambda>s. core (obj s)) (addHotplugVolumesToVM k x i)"
  unfolding mountHotplugVolumes_def addHotplugVolumesToVM_def Let_def by (intro keeps)+

lemma keeps_core_reconcileHotplugVolumes [keeps]: "keeps (\<lambda>s. core (obj s)) (reconcileHotplugVolumes k x i)"
  unfolding reconcileHotplugVolumes_def by (intro keeps)

lemma core_parts:
  assumes "core v = core w"
  shows "phase v = phase w \<and> st_Migration (vm_status v) = st_Migration (vm_status w)
    \<and> st_NodeName (vm_status v) = st_NodeName (vm_status w) \<and> vm_meta v = vm_meta w \<and> vm_spec v = vm_spec w"
proof -
  have "vm_meta (core v) = vm_meta (core w) \<and> vm_spec (core v) = vm_spec (core w) \<and> phase (core v) = phase (core w)
      \<and> st_Migration (vm_status (core v)) = st_Migration (vm_status (core w))
      \<and> st_NodeName (vm_status (core v)) = st_NodeName (vm_status (core w))"
    using assms by simp
  then show ?thesis by (simp add: core_def)
qed

section \<open>The phases of a VM on its node\<close>

lemma ends_core:
  assumes "keeps (\<lambda>s. core (obj s)) m"
  shows "ends S m"
proof (rule ends_keeps)
  show "keeps (\<lambda>s. phase (obj s)) m"
    unfolding keeps_def
  proof
    fix s
    show "phase (obj (snd (m s))) = phase (obj s)" using core_parts [OF keepsD [OF assms]] by blast
  qed
qed

lemma ends_volumes [ends]: "ends S (mountHotplugVolumes k x pod uid)" "ends S (reconcileHotplugVolumes k x i)"
  by (rule ends_core, rule keeps)+

lemma ends_on_own_node: "(\<And>v i. maintains I (act v i)) \<Longrightarrow> maintains I (on_own_node k act)"
  unfolding on_own_node_def by (intro ends)

lemma ends_power [ends]: "ends S (modStatus (\<lambda>st. st\<lparr>st_PowerAction := p\<rparr>))"
  by (rule ends_modStatus) simp

lemma ends_case_power [ends]:
  "maintains I a \<Longrightarrow> maintains I b \<Longrightarrow> maintains I c \<Longrightarrow> maintains I d \<Longrightarrow> maintains I e \<Longrightarrow>
    maintains I (case pa of PowerNone \<Rightarrow> e | VirtualMachinePowerOn \<Rightarrow> e | VirtualMachinePowerOff \<Rightarrow> a | VirtualMachineShutdown \<Rightarrow> b
      | VirtualMachineReset \<Rightarrow> c | VirtualMachineReboot \<Rightarrow> d)"
  by (cases pa) simp_all

lemma ends_phases:
  "VirtualMachineSucceeded \<in> S \<Longrightarrow> ends S (reconcileDeletingVM k x vmPod)"
  "VirtualMachineResumed \<in> S \<Longrightarrow> ends S (restoreVM k)"
  "{VirtualMachineRestoreInProgress, VirtualMachineRunning, VirtualMachinePaused, VirtualMachineFailed} \<subseteq> S \<Longrightarrow> ends S (startVM k x)"
  "ends S (pauseVM k)"
  "VirtualMachineRunning \<in> S \<Longrightarrow> ends S (resumeVM k)"
  "VirtualMachineRunning \<in> S \<Longrightarrow> ends S (resizeVM k)"
  "VirtualMachineSucceeded \<in> S \<Longrightarrow> ends S (runVM k x)"
  unfolding reconcileDeletingVM_def restoreVM_def startVM_def pauseVM_def resumeVM_def resizeVM_def runVM_def Let_def
  by (intro ends ends_on_own_node; simp)+

lemma ends_case_stat [ends]:
  "maintains I m \<Longrightarrow> maintains I n \<Longrightarrow> (\<And>e. maintains I (g e)) \<Longrightarrow> maintains I (case st of Present \<Rightarrow> m | Missing \<Rightarrow> n | StatErr e \<Rightarrow> g e)"
  by (cases st) simp_all

lemma ends_node_fields [ends]:
  "ends S (modStatus (\<lambda>st. st\<lparr>st_NodeName := n, st_VMPodName := p, st_VMPodUID := u\<rparr>))"
  by (rule ends_modStatus) simp

lemma ends_migration [ends]: "ends S (migrateVM k x vmPod bs mg)"
proof -
  have "ends S (prepareTarget k x v mg b)" "ends S (sendMigration k v mg b)" "ends S (awaitSend k x v vmPod b)"
    "ends S (takeOver k mg b)" for v b
    unfolding prepareTarget_def receiveMigration_def sendMigration_def awaitSend_def takeOver_def failMigration_def
      setMigrationPhase_def Let_def
    by (intro ends)+
  then show ?thesis
    unfolding migrateVM_def Let_def by (intro ends; simp add: ends_silent split: migration_phase.split)
qed

text \<open>\<open>daemon_transition d ph ph'\<close>: the moves of a VM's phase in one round, \<open>d\<close> when the VM is being deleted.\<close>

inductive daemon_transition :: "bool \<Rightarrow> vm_phase \<Rightarrow> vm_phase \<Rightarrow> bool" where
  dt_stay: "daemon_transition d ph ph"
| dt_delete: "daemon_transition True ph VirtualMachineSucceeded"
| dt_start: "ph \<in> {VirtualMachineRestoreInProgress, VirtualMachineRunning, VirtualMachinePaused, VirtualMachineFailed}
    \<Longrightarrow> daemon_transition False VirtualMachineScheduled ph"
| dt_restore: "daemon_transition False VirtualMachineRestoreInProgress VirtualMachineResumed"
| dt_resume: "daemon_transition False VirtualMachineResumed VirtualMachineRunning"
| dt_resize: "daemon_transition False VirtualMachineResizeInProgress VirtualMachineRunning"
| dt_halt: "daemon_transition False VirtualMachineRunning VirtualMachineSucceeded"

lemma snd_bind_ret [simp]: "snd (bind m (\<lambda>_. ret y) s) = snd (m s)"
  by (simp add: bind_def ret_def split: prod.split outcome.split)

lemma bind_reads: "bind getObj f s = f (obj s) s" "bind (kread g) h s = h (g (world s)) s"
  by (simp_all add: bind_def getObj_def kread_def)

lemma chReconcile_cases:
  "snd (chReconcile k x bs s) =
    (if \<not> responsible (NodeName k) (obj s) then s
     else case kGetPod (nApi k) \<lparr>k_ns = default_ns (vm_Namespace (obj s)), k_name = st_VMPodName (vm_status (obj s))\<rparr> (world s) of
       Inl e \<Rightarrow> s
     | Inr vmPod \<Rightarrow> if being_deleted (vm_meta (obj s))
         then (if st_NodeName (vm_status (obj s)) \<noteq> NodeName k then s else snd (reconcileDeletingVM k x vmPod s))
         else snd (chPhase k x vmPod bs (obj s) s))"
  by (simp add: chReconcile_def bind_reads ret_def throw_def split: sum.split)

lemma chPhase_transition: "daemon_transition False (phase (obj s)) (phase (obj (snd (chPhase k x vmPod bs (obj s) s))))"
proof -
  let ?P = "\<lambda>ph. phase (obj (snd (chPhase k x vmPod bs (obj s) s))) = ph"
  have stay: "phase (obj (snd (m s))) = phase (obj s)" if "\<And>S. ends S m" for m :: "('a, 'b) dact"
    using endsD [OF that, of s "{phase (obj s)}"] by simp
  have paused: "phase (obj (snd (pauseVM k s))) = phase (obj s)" by (rule stay) (rule ends_phases)
  have cleaned: "phase (obj (snd (cleanup k x s))) = phase (obj s)" by (rule stay) (rule ends)
  have migrated: "phase (obj (snd (migrateVM k x vmPod bs mg s))) = phase (obj s)" for mg by (rule stay) (rule ends)
  note defs = chPhase_def Let_def
  show ?thesis
  proof (cases "phase (obj s)")
    case VirtualMachineRestoreInProgress
    then show ?thesis using endsD [OF ends_phases(2), of "{VirtualMachineRestoreInProgress, VirtualMachineResumed}" s k]
      by (auto simp: defs intro: daemon_transition.intros)
  next
    case VirtualMachineScheduled
    then show ?thesis using endsD [OF ends_phases(3), of "{VirtualMachineScheduled, VirtualMachineRestoreInProgress,
        VirtualMachineRunning, VirtualMachinePaused, VirtualMachineFailed}" s k x]
      by (auto simp: defs intro: daemon_transition.intros)
  next
    case VirtualMachineResumed
    then show ?thesis using endsD [OF ends_phases(5), of "{VirtualMachineResumed, VirtualMachineRunning}" s k]
      by (auto simp: defs intro: daemon_transition.intros)
  next
    case VirtualMachineResizeInProgress
    then show ?thesis using endsD [OF ends_phases(6), of "{VirtualMachineResizeInProgress, VirtualMachineRunning}" s k]
      by (auto simp: defs intro: daemon_transition.intros)
  next
    case VirtualMachineRunning
    then show ?thesis using endsD [OF ends_phases(7), of "{VirtualMachineRunning, VirtualMachineSucceeded}" s k x] migrated
      by (auto simp: defs intro: daemon_transition.intros split: option.split)
  qed (simp_all add: defs paused cleaned dt_stay, simp_all add: ret_def dt_stay)
qed

lemma chReconcile_moves:
  "daemon_transition (being_deleted (vm_meta (obj s))) (phase (obj s)) (phase (obj (snd (chReconcile k x bs s))))"
proof -
  have "ends {phase (obj s), VirtualMachineSucceeded} (reconcileDeletingVM k x vmPod)" for vmPod
    by (rule ends_phases) simp
  then have "phase (obj (snd (reconcileDeletingVM k x vmPod s))) \<in> {phase (obj s), VirtualMachineSucceeded}" for vmPod
    by (rule endsD) simp
  then have "daemon_transition True (phase (obj s)) (phase (obj (snd (reconcileDeletingVM k x vmPod s))))" for vmPod
    by (metis daemon_transition.intros(1,2) insertE singletonD)
  then show ?thesis using chPhase_transition [of s k x _ bs]
    by (simp add: chReconcile_cases dt_stay split: sum.split)
qed

text \<open>whatever the cluster, the host and the hypervisor answer, a round of the node daemon moves the
  phase of a VM only along \<open>daemon_transition\<close>: a VM that is not being deleted goes from Scheduled to a
  restore, Running, Paused or Failed, from a restore to Resumed, from Resumed or a resize to Running, and from
  Running to Succeeded; one that is being deleted can only become Succeeded.\<close>

theorem daemon_phases:
  "daemon_transition (being_deleted (vm_meta (obj s))) (phase (obj s)) (phase (obj (snd (chReconcile k x bs s))))"
  by (rule chReconcile_moves)

section \<open>Live migration\<close>

text \<open>\<open>handover me gone up src tgt ph ph' n'\<close>: the moves node \<open>me\<close> may make of a migration from \<open>src\<close> to \<open>tgt\<close>,
  where \<open>gone\<close> says that the source's pod has succeeded, \<open>up\<close> that the target's hypervisor reports Running, and
  \<open>n'\<close> is the VM's node after the move.\<close>

inductive handover :: "string \<Rightarrow> bool \<Rightarrow> bool \<Rightarrow> string \<Rightarrow> string \<Rightarrow> migration_phase \<Rightarrow> migration_phase \<Rightarrow> string \<Rightarrow> bool" where
  ho_stay: "handover me gone up src tgt ph ph src"
| ho_ready: "ph \<in> {MigrationTargetReady, MigrationFailed} \<Longrightarrow> handover tgt gone up src tgt MigrationScheduled ph src"
| ho_send: "handover src gone up src tgt MigrationTargetReady MigrationRunning src"
| ho_sent: "gone \<Longrightarrow> handover src gone up src tgt MigrationRunning MigrationSent src"
| ho_broken: "\<not> gone \<Longrightarrow> handover src gone up src tgt MigrationRunning MigrationFailed src"
| ho_taken: "up \<Longrightarrow> handover tgt gone up src tgt MigrationSent MigrationSucceeded tgt"

inductive_simps handover_to_succeeded: "handover me gone up src tgt ph MigrationSucceeded n"

text \<open>The migration, the node and what guards the daemon, as a predicate of the object.\<close>

definition migrating :: "meta \<Rightarrow> string \<Rightarrow> (migration_phase \<times> string) set \<Rightarrow> vm \<Rightarrow> bool" where
  "migrating m tgt R v \<longleftrightarrow> vm_meta v = m \<and> phase v = VirtualMachineRunning
     \<and> (\<exists>mg. st_Migration (vm_status v) = Some mg \<and> mg_TargetNodeName mg = tgt \<and> (mg_Phase mg, st_NodeName (vm_status v)) \<in> R)"

lemma migrating_core [ends]: "maintains (migrating m tgt R) (mountHotplugVolumes k x pod uid)"
proof -
  have "maintains (\<lambda>v. (\<lambda>c. migrating m tgt R c) (core v)) (mountHotplugVolumes k x pod uid)"
    by (rule maintains_keeps) (rule keeps)
  moreover have "migrating m tgt R (core v) = migrating m tgt R v" for v
    by (simp add: migrating_def core_def)
  ultimately show ?thesis by simp
qed

lemma migrating_modMigration:
  assumes "\<And>mg. mg_TargetNodeName (f mg) = mg_TargetNodeName mg \<and> mg_Phase (f mg) = ph" and "\<And>q n. (q, n) \<in> R \<Longrightarrow> (ph, n) \<in> R"
  shows "maintains (migrating m tgt R) (modMigration f)"
  using assms by (auto simp: maintains_def migrating_def modMigration_def modStatus_def modObj_def)

lemma migrating_setMigrationPhase:
  "(\<And>q n. (q, n) \<in> R \<Longrightarrow> (ph, n) \<in> R) \<Longrightarrow> maintains (migrating m tgt R) (setMigrationPhase ph)"
  unfolding setMigrationPhase_def by (rule migrating_modMigration) simp_all

lemma migrating_prepareTarget:
  assumes R: "R = {MigrationScheduled, MigrationTargetReady, MigrationFailed} \<times> {n}"
  shows "maintains (migrating m tgt R) (prepareTarget k x v mg b)"
  unfolding prepareTarget_def receiveMigration_def failMigration_def Let_def
  by (intro ends migrating_setMigrationPhase migrating_modMigration) (auto simp: R)

lemma migrating_sendMigration:
  assumes R: "R = {MigrationTargetReady, MigrationRunning} \<times> {n}"
  shows "maintains (migrating m tgt R) (sendMigration k v mg b)"
  unfolding sendMigration_def by (intro ends migrating_setMigrationPhase) (auto simp: R)

lemma migrating_awaitSend:
  assumes R: "R = {MigrationRunning, if pst_phase (p_status vmPod) = PodSucceeded then MigrationSent else MigrationFailed} \<times> {n}"
  shows "maintains (migrating m tgt R) (awaitSend k x v vmPod b)"
  unfolding awaitSend_def Let_def
  by (intro ends migrating_setMigrationPhase) (auto simp: R)

definition target_up :: "'w node \<Rightarrow> 'w \<Rightarrow> migration \<Rightarrow> bool" where
  "target_up k w mg \<longleftrightarrow> (case chInfo k (getMigrationTargetVMSocketDirPath mg @ ''/vm.sock'') w of Inl _ \<Rightarrow> False
     | Inr i \<Rightarrow> vi_State i = ''Running'')"


lemma takeOver_obj:
  "obj (snd (takeOver k mg b s)) = (if mg_TargetNodeName mg = NodeName k \<and> target_up k (world s) mg
     then (obj s)\<lparr>vm_status := (vm_status (obj s))\<lparr>st_Migration := map_option (\<lambda>mg. mg\<lparr>mg_Phase := MigrationSucceeded\<rparr>) (st_Migration (vm_status (obj s))),
       st_NodeName := mg_TargetNodeName mg, st_VMPodName := mg_TargetVMPodName mg, st_VMPodUID := mg_TargetVMPodUID mg\<rparr>\<rparr>
     else obj s)"
  by (simp add: takeOver_def target_up_def bind_reads setMigrationPhase_def modMigration_def modStatus_def modObj_def note_call_def
      bind_def [of "modObj _"] bind_def [of "note_call _"] bind_def [of "if _ then _ else _"] ret_def throw_def split: sum.split)

text \<open>A step of the migration on one node, from phase and node to phase and node.\<close>

lemma migrateVM_obj: "obj (snd (migrateVM k x vmPod bs mg s)) = obj (snd (
    let b = (case bs (vm_UID (obj s)) of None \<Rightarrow> no_block | Some b \<Rightarrow> b) in (case mg_Phase mg of
        MigrationScheduled \<Rightarrow> prepareTarget k x (obj s) mg b
      | MigrationTargetReady \<Rightarrow> sendMigration k (obj s) mg b
      | MigrationRunning \<Rightarrow> awaitSend k x (obj s) vmPod b
      | MigrationSent \<Rightarrow> takeOver k mg b
      | _ \<Rightarrow> ret (Some b)) s))"
proof -
  have "obj (snd (bind m (\<lambda>rb. case rb of None \<Rightarrow> ret bs | Some b' \<Rightarrow> bind getObj (\<lambda>v'. ret (f v' b'))) s)) = obj (snd (m s))"
    for m :: "('a, mstep) dact" and f
    by (simp add: bind_def ret_def getObj_def split: prod.split outcome.split option.split)
  then show ?thesis by (simp only: migrateVM_def bind_reads Let_def)
qed

lemma migrating_step:
  assumes "maintains (migrating m tgt (Q \<times> {src})) act" and "migrating m tgt {(q, src)} (obj s)" and "q \<in> Q"
    and "\<And>ph. ph \<in> Q \<Longrightarrow> H ph src"
  shows "\<exists>ph n. migrating m tgt {(ph, n)} (obj (snd (act s))) \<and> H ph n"
proof -
  have "migrating m tgt (Q \<times> {src}) (obj s)" using assms(2,3) by (auto simp: migrating_def)
  then have "migrating m tgt (Q \<times> {src}) (obj (snd (act s)))" by (rule maintainsD [OF assms(1)])
  then show ?thesis using assms(4) by (auto simp: migrating_def)
qed

lemma bystander:
  "mg_TargetNodeName mg \<noteq> NodeName k \<Longrightarrow> prepareTarget k x v mg b = ret (Some b)"
  "st_NodeName (vm_status v) \<noteq> NodeName k \<Longrightarrow> sendMigration k v mg b = ret (Some b)"
  "st_NodeName (vm_status v) \<noteq> NodeName k \<Longrightarrow> awaitSend k x v vmPod b = ret (Some b)"
  by (simp_all add: prepareTarget_def sendMigration_def awaitSend_def)

lemma migrateVM_handover:
  assumes v: "migrating m tgt {(mg_Phase mg, src)} (obj s)" and mg: "st_Migration (vm_status (obj s)) = Some mg"
  shows "\<exists>ph n. migrating m tgt {(ph, n)} (obj (snd (migrateVM k x vmPod bs mg s)))
    \<and> handover (NodeName k) (pst_phase (p_status vmPod) = PodSucceeded) (target_up k (world s) mg) src tgt (mg_Phase mg) ph n"
proof -
  let ?gone = "pst_phase (p_status vmPod) = PodSucceeded" and ?up = "target_up k (world s) mg"
  have here: "st_NodeName (vm_status (obj s)) = src" "mg_TargetNodeName mg = tgt" using v mg by (auto simp: migrating_def)
  note step = migrating_step [OF _ v] and simps = migrateVM_obj Let_def
  show ?thesis
  proof (cases "mg_Phase mg")
    case MigrationScheduled
    have "\<exists>ph n. migrating m tgt {(ph, n)} (obj (snd (prepareTarget k x (obj s) mg b s))) \<and> handover tgt ?gone ?up src tgt (mg_Phase mg) ph n" for b
      by (rule step [OF migrating_prepareTarget [OF refl]]) (auto simp: MigrationScheduled intro: ho_stay ho_ready)
    then show ?thesis using MigrationScheduled here v bystander(1) [of mg k]
      by (cases "tgt = NodeName k") (simp_all add: simps ret_def, blast intro: ho_stay)
  next
    case MigrationTargetReady
    have "\<exists>ph n. migrating m tgt {(ph, n)} (obj (snd (sendMigration k (obj s) mg b s))) \<and> handover src ?gone ?up src tgt (mg_Phase mg) ph n" for b
      by (rule step [OF migrating_sendMigration [OF refl]]) (auto simp: MigrationTargetReady intro: ho_stay ho_send)
    then show ?thesis using MigrationTargetReady here v bystander(2) [of "obj s" k]
      by (cases "src = NodeName k") (simp_all add: simps ret_def, blast intro: ho_stay)
  next
    case MigrationRunning
    have "\<exists>ph n. migrating m tgt {(ph, n)} (obj (snd (awaitSend k x (obj s) vmPod b s))) \<and> handover src ?gone ?up src tgt (mg_Phase mg) ph n" for b
      by (rule step [OF migrating_awaitSend [OF refl]]) (auto simp: MigrationRunning intro: ho_stay ho_sent ho_broken split: if_splits)
    then show ?thesis using MigrationRunning here v bystander(3) [of "obj s" k]
      by (cases "src = NodeName k") (simp_all add: simps ret_def, blast intro: ho_stay)
  next
    case MigrationSent
    then show ?thesis using v mg here
      by (auto simp: simps takeOver_obj migrating_def intro: ho_stay ho_taken)
  qed (use v in \<open>auto simp: simps ret_def intro: ho_stay\<close>)
qed


text \<open>Rounds of the daemons of any nodes one after the other, each with its own control blocks and with the
  cluster, host and hypervisor in whatever state it finds them; the VM is what one round leaves to the next.\<close>

type_synonym 'w turn = "'w node \<times> ext \<times> blocks \<times> 'w"

fun rounds :: "'w turn list \<Rightarrow> vm \<Rightarrow> vm" where
  "rounds [] v = v"
| "rounds ((k, x, bs, w) # ts) v = rounds ts (obj (snd (chReconcile k x bs \<lparr>world = w, obj = v, trace = []\<rparr>)))"

definition settled :: "string \<Rightarrow> string \<Rightarrow> (migration_phase \<times> string) set" where
  "settled src tgt = {(ph, n). n = (if ph = MigrationSucceeded then tgt else src)}"

lemma chReconcile_migrating:
  assumes v: "migrating m tgt (settled src tgt) (obj s)" and m: "\<not> being_deleted m"
  shows "migrating m tgt (settled src tgt) (obj (snd (chReconcile k x bs s)))"
proof -
  obtain mg where mg: "st_Migration (vm_status (obj s)) = Some mg" "mg_TargetNodeName mg = tgt"
    and n: "st_NodeName (vm_status (obj s)) = (if mg_Phase mg = MigrationSucceeded then tgt else src)"
    and run: "phase (obj s) = VirtualMachineRunning" "vm_meta (obj s) = m"
    using v by (auto simp: migrating_def settled_def)
  let ?n = "st_NodeName (vm_status (obj s))"
  have "migrating m tgt {(mg_Phase mg, ?n)} (obj s)" using mg run by (simp add: migrating_def)
  note step = migrateVM_handover [OF this mg(1), of k x _ bs]
  have ok: "(ph, n') \<in> settled src tgt" if "handover me gone up ?n tgt (mg_Phase mg) ph n'" for me gone up ph n'
    using that n by cases (auto simp: settled_def)
  have "migrating m tgt (settled src tgt) (obj (snd (migrateVM k x vmPod bs mg s)))" for vmPod
    using step [of vmPod] ok by (auto simp: migrating_def)
  then show ?thesis using v run mg m by (auto simp: chReconcile_cases chPhase_def split: sum.split)
qed

lemma rounds_migrating:
  assumes "\<not> being_deleted m" and "migrating m tgt (settled src tgt) v"
  shows "migrating m tgt (settled src tgt) (rounds ts v)"
  using assms(2)
proof (induction ts v rule: rounds.induct)
  case (2 k x bs w ts v)
  then show ?case using chReconcile_migrating [OF _ assms(1), of tgt src "\<lparr>world = w, obj = v, trace = []\<rparr>" k x bs] by simp
qed simp

text \<open>C3: however the rounds of the daemons interleave, and whatever each finds in the cluster and on its host, a
  migrating VM stays on its source node until the migration has succeeded and is on the target from then on: at
  no time is the VM of a node that is neither, and no node owns it before the take-over but the source.\<close>

theorem migration_one_owner:
  assumes "phase v = VirtualMachineRunning" and "\<not> being_deleted (vm_meta v)"
    and "st_Migration (vm_status v) = Some mg" and "mg_Phase mg \<noteq> MigrationSucceeded"
  shows "\<exists>mg'. st_Migration (vm_status (rounds ts v)) = Some mg' \<and> mg_TargetNodeName mg' = mg_TargetNodeName mg
    \<and> phase (rounds ts v) = VirtualMachineRunning
    \<and> st_NodeName (vm_status (rounds ts v)) = (if mg_Phase mg' = MigrationSucceeded then mg_TargetNodeName mg else st_NodeName (vm_status v))"
proof -
  have "migrating (vm_meta v) (mg_TargetNodeName mg) (settled (st_NodeName (vm_status v)) (mg_TargetNodeName mg)) v"
    using assms by (simp add: migrating_def settled_def)
  then show ?thesis using rounds_migrating [OF assms(2)] by (fastforce simp: migrating_def settled_def)
qed

section \<open>The mount record\<close>

lemma umountUnused_returns: "kept = filter P ys \<Longrightarrow> P = (\<lambda>e. fst e \<in> vs_Name ` set (st_VolumeStatus (vm_status v))) \<Longrightarrow>
    returns (\<lambda>kept'. kept' = filter P (ys @ [entry])) (umountUnused k x v entry kept)"
  unfolding umountUnused_def by (auto intro!: returns returns_bind_any)

lemma umount_fold: "returns (\<lambda>kept. kept = filter (\<lambda>e. fst e \<in> vs_Name ` set (st_VolumeStatus (vm_status v))) rec)
    (fold_act (umountUnused k x v) rec [])"
  by (rule returns_fold_act, simp, rule umountUnused_returns, assumption, rule refl)

lemma record_written:
  assumes "writeVMMountRecord k uid rec s = (Ok (), t)"
  shows "trace t = trace s @ [RecordWritten uid rec True]"
  using assms by (auto simp: writeVMMountRecord_def bind_def kwrite_def check_err_def ret_def throw_def
      split: prod.splits outcome.splits option.splits)

lemma record_removed:
  assumes "removeVMMountRecord k uid s = (Ok (), t)"
  shows "trace t = trace s @ [PathRemoved (getVMMountRecordFile uid) True]"
  using assms by (auto simp: removeVMMountRecord_def bind_def kwrite_def check_err_def ret_def throw_def
      split: prod.splits outcome.splits option.splits)

text \<open>when unmounting succeeds, the last thing written is the mount record without exactly the volumes
  that no longer have a status in the VM, in the old order; when none is left the record's file is removed.\<close>

theorem umount_keeps_used:
  assumes "umountHotplugVolumes k x s = (Ok (), t)" and "getVMMountRecord k (vm_UID (obj s)) s = (Ok rec, s)"
  shows "let kept = filter (\<lambda>e. fst e \<in> vs_Name ` set (st_VolumeStatus (vm_status (obj s)))) rec in
    last (trace t) = (if kept = [] then PathRemoved (getVMMountRecordFile (vm_UID (obj s))) True
      else RecordWritten (vm_UID (obj s)) kept True)"
proof -
  obtain kept u where kept: "fold_act (umountUnused k x (obj s)) rec [] s = (Ok kept, u)"
    and fin: "(if kept \<noteq> [] then writeVMMountRecord k (vm_UID (obj s)) kept else removeVMMountRecord k (vm_UID (obj s))) u = (Ok (), t)"
    using assms by (auto simp: umountHotplugVolumes_def bind_reads bind_Ok)
  from kept have "kept = filter (\<lambda>e. fst e \<in> vs_Name ` set (st_VolumeStatus (vm_status (obj s)))) rec"
    by (rule returnsD [OF umount_fold])
  then show ?thesis using fin record_written [of k "vm_UID (obj s)" kept u t] record_removed [of k "vm_UID (obj s)" u t]
    by (auto simp: Let_def split: if_splits)
qed

section \<open>Resizing\<close>

lemma round53_small: "n < 2 ^ 53 \<Longrightarrow> round53 n = n"
  using bit_length_le [of n 53] by (simp add: round53_def)

text \<open>Rounding keeps a multiple of \<open>2^j\<close> below it below, and adds at most half a unit of the last place.\<close>

lemma round53_bounds:
  assumes "n < 2 ^ (53 + j)"
  shows "round53 n \<le> n + 2 ^ j div 2" and "q * 2 ^ j \<le> n \<Longrightarrow> q * 2 ^ j \<le> round53 n"
proof -
  define t where "t = bit_length n - 53"
  have t: "t \<le> j" using bit_length_le [OF assms] by (simp add: t_def)
  have split: "n = n div 2 ^ t * 2 ^ t + n mod 2 ^ t" by (rule div_mult_mod_eq [symmetric])
  have pow: "(2::nat) ^ t \<le> 2 ^ j" using t by (simp add: power_increasing)
  have r: "round53 n = (if t = 0 then n else
      (if 2 ^ (t - 1) < n mod 2 ^ t \<or> n mod 2 ^ t = 2 ^ (t - 1) \<and> odd (n div 2 ^ t) then n div 2 ^ t + 1 else n div 2 ^ t) * 2 ^ t)"
    by (simp add: round53_def t_def Let_def)
  show "round53 n \<le> n + 2 ^ j div 2"
  proof (cases "t = 0")
    case False
    then have two: "(2::nat) ^ t = 2 * 2 ^ (t - 1)" by (cases t) simp_all
    have half: "(2::nat) ^ (t - 1) \<le> 2 ^ j div 2" using pow two by linarith
    show ?thesis
    proof (cases "2 ^ (t - 1) < n mod 2 ^ t \<or> n mod 2 ^ t = 2 ^ (t - 1) \<and> odd (n div 2 ^ t)")
      case True
      then have "round53 n = n div 2 ^ t * 2 ^ t + 2 ^ t" and "2 ^ (t - 1) \<le> n mod 2 ^ t" using False r by auto
      then show ?thesis using half two split by linarith
    next
      case no: False
      then have "round53 n = n div 2 ^ t * 2 ^ t" using False r by simp
      then show ?thesis using split by linarith
    qed
  qed (simp add: r)
  assume "q * 2 ^ j \<le> n"
  moreover have "q * 2 ^ j = q * 2 ^ (j - t) * 2 ^ t" using t by (simp flip: power_add)
  ultimately have "q * 2 ^ (j - t) \<le> n div 2 ^ t" by (simp add: less_eq_div_iff_mult_less_eq)
  then have "q * 2 ^ (j - t) * 2 ^ t \<le> n div 2 ^ t * 2 ^ t" by (rule mult_le_mono1)
  moreover have "n div 2 ^ t * 2 ^ t \<le> round53 n" unfolding r by auto
  ultimately show "q * 2 ^ j \<le> round53 n" using \<open>q * 2 ^ j = q * 2 ^ (j - t) * 2 ^ t\<close> by linarith
qed

lemma tolerance_factor: "3602879701896397 * (20::nat) = 2 ^ 56 + 4"
  by simp

lemma memoryTolerance_exact_nat:
  assumes n: "n < 2 ^ 52"
  shows "round53 (round53 n * 3602879701896397) div 2 ^ 56 = n div 20"
proof -
  let ?p = "n * 3602879701896397"
  have p20: "20 * ?p = n * 2 ^ 56 + 4 * n" using tolerance_factor by simp
  have "round53 n = n" using n by (intro round53_small) simp
  have "?p < 2 ^ (53 + 51)" using n by simp
  note bounds = round53_bounds [OF this]
  have lower: "n div 20 * 2 ^ 56 \<le> round53 ?p"
  proof -
    have "n div 20 * 2 ^ 5 * 2 ^ 51 \<le> ?p" using p20 by simp
    from bounds(2) [OF this] show ?thesis by simp
  qed
  have "20 * round53 ?p \<le> 20 * ?p + 20 * 2 ^ 50" using bounds(1) by simp
  also have "\<dots> < (20 * (n div 20) + 20) * 2 ^ 56"
  proof -
    have "n \<le> 20 * (n div 20) + 19" by presburger
    then have "n * 2 ^ 56 \<le> (20 * (n div 20) + 19) * 2 ^ 56" by (rule mult_le_mono1)
    then show ?thesis using p20 n by (simp add: algebra_simps)
  qed
  finally have "round53 ?p < (n div 20 + 1) * 2 ^ 56" by simp
  then have "round53 ?p div 2 ^ 56 = n div 20" using lower by (intro div_nat_eqI) (simp_all add: algebra_simps)
  then show ?thesis using \<open>round53 n = n\<close> by simp
qed

text \<open>C17: the tolerance the daemon computes in floating point, \<open>int64(float64(ram) * 0.05)\<close>, is exactly a twentieth
  of the memory, rounded down, for every size below 4 PiB; so a VM needs no resize precisely when the number of
  CPUs is the desired one and the memory differs by at most that twentieth.\<close>

theorem needsResize_exact:
  assumes "0 \<le> desiredRam" and "desiredRam < 2 ^ 52" and "0 \<le> currentRam" and "currentRam < 2 ^ 63"
  shows "memoryTolerance desiredRam = desiredRam div 20
    \<and> needsResize cpus cpus' currentRam desiredRam = (cpus \<noteq> cpus' \<or> desiredRam div 20 < \<bar>currentRam - desiredRam\<bar>)"
proof -
  have tol: "memoryTolerance desiredRam = desiredRam div 20"
  proof (cases "desiredRam = 0")
    case False
    have "nat desiredRam < 2 ^ 52" using assms by simp
    from memoryTolerance_exact_nat [OF this] have "memoryTolerance desiredRam = sgn desiredRam * int (nat desiredRam div 20)"
      using assms by (simp add: memoryTolerance_def)
    then show ?thesis using assms False by (simp add: zdiv_int)
  qed (simp add: memoryTolerance_def round53_def bit_length.simps)
  have "wrap64 (currentRam - desiredRam) = currentRam - desiredRam" "currentRam - desiredRam < 0 \<Longrightarrow> wrap64 (- (currentRam - desiredRam)) = - (currentRam - desiredRam)"
    using assms by (simp_all add: wrap64_id in_int64_def)
  then show ?thesis using tol by (auto simp: needsResize_def Let_def)
qed

definition desired_vcpus :: "vm \<Rightarrow> int" where
  "desired_vcpus v = uint (Sockets (i_cpu (s_Instance (vm_spec v))) * CoresPerSocket (i_cpu (s_Instance (vm_spec v))))"

definition desired_ram :: "vm \<Rightarrow> int" where
  "desired_ram v = q_Value (mem_Size (i_memory (s_Instance (vm_spec v))))"

text \<open>for a VM in the daemon's resize phase that its own node runs or has paused, a round asks the hypervisor once for
  the CPUs and memory of the spec and stays in the phase when the reported ones are not good enough, with an
  error when the request fails; when they are, it asks for nothing and makes the VM Running.\<close>

theorem daemon_resize:
  assumes "st_Migration (vm_status (obj s)) = None" and "st_NodeName (vm_status (obj s)) = NodeName k"
    and "chInfo k (vm_sock (obj s)) (world s) = Inr i" and "vi_State i \<in> {''Running'', ''Paused''}"
    and "vi_Config i = Some c" and "vc_BootVcpus c = Some cpus"
  shows "(let v = obj s; q = VmResize (desired_vcpus v) (desired_ram v); (r, w) = chReq k (vm_sock v) q (world s) in
    resizeVM k s = (if needsResize cpus (desired_vcpus v) (vi_MemoryActualSize i) (desired_ram v)
      then (case r of None \<Rightarrow> Ok () | Some e \<Rightarrow> Err (ErrS ''resize VM'' e),
        \<lparr>world = w, obj = v, trace = trace s @ [ChCall (vm_sock v) q (r = None), DEvent (if r = None then ''VMResizeInitiated'' else ''VMResizeFailed'')]\<rparr>)
      else (Ok (), \<lparr>world = world s, obj = v\<lparr>vm_status := (vm_status v)\<lparr>st_Phase := VirtualMachineRunning\<rparr>\<rparr>, trace = trace s @ [DEvent ''VMResizeCompleted'']\<rparr>)))"
  using assms
  by (cases s) (auto simp: resizeVM_def on_own_node_def info_config_def desired_vcpus_def desired_ram_def ch_def kwrite_def devent_def
      setPhase_def modStatus_def modObj_def bind_def getObj_def kread_def ret_def throw_def Let_def split: prod.split option.split)

section \<open>Concrete runs\<close>

text \<open>A host on which every call succeeds and nothing is mounted; its pod reader and hypervisor state are given.\<close>

definition host :: "string \<Rightarrow> pod_phase \<Rightarrow> string \<Rightarrow> unit node" where
  "host name ph state = \<lparr>nApi = empty_cluster\<lparr>kGetPod := (\<lambda>_ _. Inr (empty_pod\<lparr>p_status := (p_status empty_pod)\<lparr>pst_phase := ph\<rparr>\<rparr>))\<rparr>,
     chInfo = (\<lambda>_ _. Inr \<lparr>vi_State = state, vi_Config = Some \<lparr>vc_BootVcpus = Some 1, vc_MemorySize = None, vc_Devices = 0, vc_Vdpa = 0, vc_Disks = []\<rparr>,
       vi_MemoryActualSize = 2 ^ 30\<rparr>),
     chReq = (\<lambda>_ _ w. (None, w)), osStat = (\<lambda>_ _. Missing), readConfig = (\<lambda>_ _. ConfigMissing), pidBySocket = (\<lambda>_ _. Inr 1),
     prlimit = (\<lambda>_ _ w. (None, w)), readRecord = (\<lambda>_ _. Inr []), writeRecord = (\<lambda>_ _ w. (None, w)), osRemoveAll = (\<lambda>_ w. (None, w)),
     osCreate = (\<lambda>_ w. (None, w)), execCommand = (\<lambda>_ w. (None, w)), statDevice = (\<lambda>_ _. Inr ''8,0,0,b''), statType = (\<lambda>_ _. Inr []),
     mountinfo_Mounted = (\<lambda>_ _. Inr False), mountInfos = (\<lambda>_ _. Inr []), cgroupFile = (\<lambda>_ _. Inr []), unifiedMode = (\<lambda>_. True), walkCgroups = (\<lambda>_. []), fs2Manager = (\<lambda>_ _. None), cgroupSet = (\<lambda>_ _ w. (None, w)),
     pollPath = (\<lambda>_ w. (None, w)), pollReceive = (\<lambda>_ _ w. (None, w)), takeSendErr = (\<lambda>_ w. (None, w)), loadCACert = (\<lambda>_. None),
     relayTCPToSocket = (\<lambda>_ w. (Inr 4444, w)), relaySocketToTCP = (\<lambda>_ _ _ w. (None, w)), errText = (\<lambda>_. []),
     NodeName = name, NodeIP = ''10.0.0.1''\<rparr>"

definition moving_vm :: "migration_phase \<Rightarrow> vm" where
  "moving_vm ph = (let v = plain_vm ''web'' VirtualMachineRunning in v\<lparr>vm_status := (vm_status v)\<lparr>st_NodeName := ''a'',
     st_Migration := Some \<lparr>mg_UID = ''m'', mg_Phase = ph, mg_TargetVMPodName = ''pod-b'', mg_TargetVMPodUID = ''uid-b'', mg_TargetNodeName = ''b'',
       mg_TargetVolumePodUID = [], mg_TargetNodeIP = [], mg_TargetNodePort = 0\<rparr>\<rparr>\<rparr>)"

lemma moving_vm_parts:
  "phase (moving_vm ph) = VirtualMachineRunning" "\<not> being_deleted (vm_meta (moving_vm ph))"
  "st_NodeName (vm_status (moving_vm ph)) = ''a''"
  "st_Migration (vm_status (moving_vm ph)) = Some \<lparr>mg_UID = ''m'', mg_Phase = ph, mg_TargetVMPodName = ''pod-b'', mg_TargetVMPodUID = ''uid-b'', mg_TargetNodeName = ''b'',
       mg_TargetVolumePodUID = [], mg_TargetNodeIP = [], mg_TargetNodePort = 0\<rparr>"
  by (simp_all add: moving_vm_def plain_vm_def being_deleted_def empty_meta_def)


text \<open>A migration from node a to node b: b gets ready, a sends, a's pod ends, b takes over.\<close>

definition move_turns :: "unit turn list" where
  "move_turns = [(host ''b'' PodRunning ''Running'', library, Map.empty, ()), (host ''a'' PodRunning ''Running'', library, Map.empty, ()),
     (host ''a'' PodSucceeded ''Running'', library, Map.empty, ()), (host ''b'' PodSucceeded ''Running'', library, Map.empty, ())]"

lemma move_completes:
  "map_option mg_Phase (st_Migration (vm_status (rounds move_turns (moving_vm MigrationScheduled)))) = Some MigrationSucceeded"
  by code_simp

theorem migration_one_owner_witness:
  "let v = rounds move_turns (moving_vm MigrationScheduled) in
    \<exists>mg'. st_Migration (vm_status v) = Some mg' \<and> mg_Phase mg' = MigrationSucceeded \<and> st_NodeName (vm_status v) = ''b''"
proof -
  have "\<exists>mg'. st_Migration (vm_status (rounds move_turns (moving_vm MigrationScheduled))) = Some mg'
      \<and> st_NodeName (vm_status (rounds move_turns (moving_vm MigrationScheduled))) = (if mg_Phase mg' = MigrationSucceeded then ''b'' else ''a'')"
    using migration_one_owner [OF moving_vm_parts(1,2,4), of MigrationScheduled move_turns] by (auto simp: moving_vm_parts)
  then show ?thesis using move_completes by (auto simp: Let_def)
qed

definition umount_host :: "unit node" where
  "umount_host = (host ''a'' PodRunning ''Running'')\<lparr>osStat := (\<lambda>p _. if p = getVMMountRecordFile ''web'' then Present else Missing),
     readRecord := (\<lambda>_ _. Inr [(''v'', ''/t'')])\<rparr>"

lemma umount_runs: "fst (umountHotplugVolumes umount_host library \<lparr>world = (), obj = moving_vm MigrationSent, trace = []\<rparr>) = Ok ()"
  by code_simp

theorem umount_keeps_used_witness:
  "\<exists>t. umountHotplugVolumes umount_host library \<lparr>world = (), obj = moving_vm MigrationSent, trace = []\<rparr> = (Ok (), t)
    \<and> last (trace t) = PathRemoved (getVMMountRecordFile ''web'') True"
proof -
  let ?s = "\<lparr>world = (), obj = moving_vm MigrationSent, trace = []\<rparr>"
  have vm: "vm_UID (moving_vm MigrationSent) = ''web''" "st_VolumeStatus (vm_status (moving_vm MigrationSent)) = []"
    by (simp_all add: moving_vm_def plain_vm_def)
  have r: "getVMMountRecord umount_host (vm_UID (obj ?s)) ?s = (Ok [(''v'', ''/t'')], ?s)"
    by (simp add: vm getVMMountRecord_def bind_reads ret_def umount_host_def)
  obtain t where t: "umountHotplugVolumes umount_host library ?s = (Ok (), t)"
    using umount_runs by (metis prod.collapse)
  show ?thesis using t umount_keeps_used [OF t r] by (simp add: vm Let_def)
qed

theorem needsResize_exact_witness:
  "memoryTolerance (2 ^ 30) = 2 ^ 30 div 20 \<and> needsResize 2 2 1050000000 (2 ^ 30) = False"
  using needsResize_exact [of "2 ^ 30" 1050000000 2 2] by simp

theorem daemon_resize_witness:
  "let v = (plain_vm ''web'' VirtualMachineResizeInProgress); v' = v\<lparr>vm_status := (vm_status v)\<lparr>st_NodeName := ''a''\<rparr>\<rparr> in
    resizeVM (host ''a'' PodRunning ''Running'') \<lparr>world = (), obj = v', trace = []\<rparr>
      = (Ok (), \<lparr>world = (), obj = v', trace = [ChCall (vm_sock v') (VmResize 2 (desired_ram v')) True, DEvent ''VMResizeInitiated'']\<rparr>)"
proof -
  let ?v = "(plain_vm ''web'' VirtualMachineResizeInProgress)\<lparr>vm_status := (vm_status (plain_vm ''web'' VirtualMachineResizeInProgress))\<lparr>st_NodeName := ''a''\<rparr>\<rparr>"
  have "desired_vcpus ?v = 2" by (simp add: desired_vcpus_def plain_vm_def)
  moreover have "needsResize 1 2 a b" for a b by (simp add: needsResize_def)
  ultimately show ?thesis
    using daemon_resize [of "\<lparr>world = (), obj = ?v, trace = []\<rparr>" "host ''a'' PodRunning ''Running''"]
    by (simp add: host_def plain_vm_def Let_def)
qed

end
