(* ===== verification/Vm_Lifecycle.thy ===== *)
theory Vm_Lifecycle
  imports Vm_Reconciler Vm_Daemon
begin

text \<open>
  The controller (\<open>Vm_Reconciler\<close>) and the node daemons (\<open>Vm_Daemon\<close>) together: both move the phase of the same VM, each
  in rounds of its own and in any order. What holds of the life of a VM whatever the order of the rounds.
\<close>

datatype 'w move = ControllerRound "'w api" ext string 'w | DaemonRound "'w node" ext blocks 'w

fun moved :: "'w move \<Rightarrow> vm \<Rightarrow> vm" where
  "moved (ControllerRound k x pr w) v = obj (snd (reconcile k x pr \<lparr>world = w, obj = v, trace = []\<rparr>))"
| "moved (DaemonRound k x bs w) v = obj (snd (chReconcile k x bs \<lparr>world = w, obj = v, trace = []\<rparr>))"

fun life :: "'w move list \<Rightarrow> vm \<Rightarrow> vm" where
  "life [] v = v"
| "life (r # rs) v = life rs (moved r v)"

lemma life_append: "life (rs @ rs') v = life rs' (life rs v)"
  by (induction rs arbitrary: v) simp_all

lemma moved_transition:
  "vm_transition (phase v) (phase (moved r v)) \<or> daemon_transition (being_deleted (vm_meta v)) (phase v) (phase (moved r v))"
proof (cases r)
  case (ControllerRound k x pr w)
  then show ?thesis using reconcile_moves [of "\<lparr>world = w, obj = v, trace = []\<rparr>" k x pr] by simp
next
  case (DaemonRound k x bs w)
  then show ?thesis using chReconcile_moves [of "\<lparr>world = w, obj = v, trace = []\<rparr>" k x bs] by simp
qed

definition before_scheduled :: "vm_phase set" where
  "before_scheduled = {PhaseEmpty, VirtualMachinePending, VirtualMachineScheduling, VirtualMachineSucceeded, VirtualMachineFailed,
     VirtualMachineUnknown}"

lemma before_scheduled_step:
  assumes "phase v \<in> before_scheduled"
  shows "phase (moved r v) \<in> insert VirtualMachineScheduled before_scheduled"
  using moved_transition [of v r] assms
  by (auto simp: before_scheduled_def elim!: vm_transition.cases daemon_transition.cases)

text \<open>C16: in whatever order the rounds of the controller and of the daemons come, and whatever the cluster, the hosts and
  the hypervisors answer, a new VM is never Running, paused, resized, restored or resumed before it was Scheduled: until
  then its phase is empty, Pending, Scheduling, Succeeded, Failed or Unknown.\<close>

theorem runs_only_after_scheduled:
  assumes "phase v = PhaseEmpty" and "\<forall>n\<le>length rs. phase (life (take n rs) v) \<noteq> VirtualMachineScheduled"
  shows "phase (life rs v) \<in> {PhaseEmpty, VirtualMachinePending, VirtualMachineScheduling, VirtualMachineSucceeded, VirtualMachineFailed,
     VirtualMachineUnknown}"
proof -
  have "phase (life (take n rs) v) \<in> before_scheduled" if "n \<le> length rs" for n
    using that
  proof (induction n)
    case 0
    then show ?case using assms(1) by (simp add: before_scheduled_def)
  next
    case (Suc n)
    then have "phase (life (take n rs) v) \<in> before_scheduled" by simp
    then have "phase (moved (rs ! n) (life (take n rs) v)) \<in> insert VirtualMachineScheduled before_scheduled"
      by (rule before_scheduled_step)
    moreover have "life (take (Suc n) rs) v = moved (rs ! n) (life (take n rs) v)"
      using Suc.prems by (simp add: take_Suc_conv_app_nth life_append)
    ultimately show ?case using assms(2) Suc.prems by auto
  qed
  from this [of "length rs"] show ?thesis by (simp add: before_scheduled_def)
qed

text \<open>neither the controller nor a daemon ever takes a VM that is not being deleted out of the phases Unknown and Paused,
  nor out of the snapshot phase.\<close>

theorem parked_phases:
  assumes "phase v \<in> {VirtualMachineUnknown, VirtualMachinePaused, VirtualMachineSnapshotInprogress}" and "\<not> being_deleted (vm_meta v)"
  shows "phase (moved r v) = phase v"
  using moved_transition [of v r] assms
  by (auto elim!: vm_transition.cases daemon_transition.cases)

section \<open>Concrete runs\<close>

theorem runs_only_after_scheduled_witness:
  "let rs = [ControllerRound empty_cluster library ''img'' (), DaemonRound (host ''a'' PodRunning ''Running'') library Map.empty ()] in
    phase (life rs (plain_vm ''web'' PhaseEmpty)) \<in> {PhaseEmpty, VirtualMachinePending, VirtualMachineScheduling, VirtualMachineSucceeded,
      VirtualMachineFailed, VirtualMachineUnknown}"
proof -
  let ?rs = "[ControllerRound empty_cluster library ''img'' (), DaemonRound (host ''a'' PodRunning ''Running'') library Map.empty ()]"
  have "phase (life (take 0 ?rs) (plain_vm ''web'' PhaseEmpty)) = PhaseEmpty"
    "phase (life (take 1 ?rs) (plain_vm ''web'' PhaseEmpty)) = VirtualMachinePending"
    "phase (life (take 2 ?rs) (plain_vm ''web'' PhaseEmpty)) = VirtualMachinePending"
    by code_simp+
  then have "\<forall>n\<le>length ?rs. phase (life (take n ?rs) (plain_vm ''web'' PhaseEmpty)) \<noteq> VirtualMachineScheduled"
    by (auto simp: le_Suc_eq numeral_2_eq_2)
  then show ?thesis
    unfolding Let_def by (intro runs_only_after_scheduled) simp_all
qed

theorem parked_phases_witness:
  "phase (moved (ControllerRound empty_cluster library ''img'' ()) (plain_vm ''web'' VirtualMachineUnknown)) = VirtualMachineUnknown"
  using parked_phases [of "plain_vm ''web'' VirtualMachineUnknown" "ControllerRound empty_cluster library ''img'' ()"]
  by (simp add: plain_vm_def being_deleted_def empty_meta_def)

end
