(* ===== verification/Prerun_Net.thy ===== *)
theory Prerun_Net
  imports Daemon_Base Go_Net
begin

text \<open>
  The networks of \<open>src/cmd/ch-vmm-prerunner/main.go\<close>, which prepares a VM inside its pod: bridges, taps, address
  translation and a DHCP server per interface. Netlink, \<open>iptables\<close>, \<open>dnsmasq\<close> and the file system are reached
  through \<open>pod_env\<close>: lookups are functions of the world, every change is a \<open>netcmd\<close> that \<open>eRun\<close> carries out
  and the trace records. Addresses are computed as the code does, byte by byte.
\<close>

section \<open>The environment\<close>

record link =
  lk_index :: int
  lk_name :: string
  lk_MTU :: int
  lk_MAC :: "nat list"

text \<open>A link that was looked up, or one that this process made.\<close>

datatype link_ref = Found int | Made string

record route =
  rt_Dst :: "ipnet option"
  rt_Src :: ip
  rt_Gw :: ip

datatype netcmd =
    LinkAdd_Bridge string int | LinkAdd_Dummy string | LinkAdd_Tap string int
  | AddrAdd link_ref ipnet | AddrDel link_ref ipnet | AddrReplace link_ref ipnet
  | LinkSetUp link_ref | LinkSetDown link_ref | LinkSetName link_ref string | LinkSetMaster link_ref link_ref
  | SpoofMacSameVendor string | Run "string list" | Start "string list"
  | MkdirAll string | Create string | Write string string

record userspace_data =
  us_IfName :: string
  us_ContainerId :: string
  us_Socketfile :: string

record 'w pod_env =
  eGetenv :: "string \<Rightarrow> string"
  eLinkByName :: "string \<Rightarrow> 'w \<Rightarrow> err + link"
  eAddrList :: "link \<Rightarrow> 'w \<Rightarrow> err + ipnet list"
  eRouteList :: "link \<Rightarrow> 'w \<Rightarrow> err + route list"
  eRun :: "netcmd \<Rightarrow> 'w \<Rightarrow> err option \<times> 'w"
  eStat :: "string \<Rightarrow> 'w \<Rightarrow> stat_result"
  eResolvConf :: "'w \<Rightarrow> err + string list \<times> string list"
  eUserspaceData :: "string \<Rightarrow> err + userspace_data list"

datatype prerun_call = Did netcmd bool | Downloaded string string string bool | Unpacked string string "string list" bool

type_synonym ('w, 'o, 'a) pact = "('w, 'o, prerun_call, 'a) action"

definition run :: "'w pod_env \<Rightarrow> string \<Rightarrow> netcmd \<Rightarrow> ('w, 'o, unit) pact" where
  "run k what c = bind (kwrite (eRun k c) (\<lambda>r. Did c (r = None))) (\<lambda>r. case r of None \<Rightarrow> ret () | Some e \<Rightarrow> throw (ErrS what e))"

definition run_raw :: "'w pod_env \<Rightarrow> netcmd \<Rightarrow> ('w, 'o, unit) pact" where
  "run_raw k c = bind (kwrite (eRun k c) (\<lambda>r. Did c (r = None))) (\<lambda>r. case r of None \<Rightarrow> ret () | Some e \<Rightarrow> throw e)"

definition look :: "string \<Rightarrow> ('w \<Rightarrow> err + 'a) \<Rightarrow> ('w, 'o, 'a) pact" where
  "look what f = bind (kread f) (\<lambda>r. case r of Inl e \<Rightarrow> throw (ErrS what e) | Inr x \<Rightarrow> ret x)"

section \<open>Addresses\<close>

text \<open>The loop of \<open>nextIP\<close>: from the last byte on, add one, stop at the first that does not become zero.\<close>

fun inc_rev :: "8 word list \<Rightarrow> 8 word list" where
  "inc_rev [] = []"
| "inc_rev (b # bs) = (if b + 1 > 0 then (b + 1) # bs else (b + 1) # inc_rev bs)"

definition nextIP :: "ip \<Rightarrow> ipnet \<Rightarrow> err + ip" where
  "nextIP a subnet = (let next = rev (inc_rev (rev a)) in
     if \<not> Contains_ip subnet next then Inl (ErrNew (''no more available IP in subnet '' @ IPNet_String subnet)) else Inr next)"

section \<open>Links\<close>

record net_config =
  nt_Id :: string
  nt_Mac :: string
  nt_Mtu :: int
  nt_Tap :: string
  nt_VhostUser :: bool
  nt_VhostMode :: string
  nt_VhostSocket :: string

definition createBridge :: "'w pod_env \<Rightarrow> string \<Rightarrow> ipnet \<Rightarrow> int \<Rightarrow> ('w, 'o, link_ref) pact" where
  "createBridge k bridgeName bridgeIPNet mtu =
    bind (run_raw k (LinkAdd_Bridge bridgeName mtu)) (\<lambda>_.
    bind (run k ''set bridge addr'' (AddrAdd (Made bridgeName) bridgeIPNet)) (\<lambda>_.
    bind (run k ''up bridge'' (LinkSetUp (Made bridgeName))) (\<lambda>_. ret (Made bridgeName))))"

definition createTap :: "'w pod_env \<Rightarrow> link_ref \<Rightarrow> string \<Rightarrow> int \<Rightarrow> ('w, 'o, unit) pact" where
  "createTap k bridge tapName mtu =
    bind (run_raw k (LinkAdd_Tap tapName mtu)) (\<lambda>_.
    bind (run k ''add tap to bridge'' (LinkSetMaster (Made tapName) bridge)) (\<lambda>_.
    bind (run k ''up tap'' (LinkSetUp (Made tapName))) (\<lambda>_.
    bind (look ''get tap'' (eLinkByName k tapName)) (\<lambda>_. ret ()))))"

section \<open>The DHCP server\<close>

definition sortAndFormatRoutes :: "route list \<Rightarrow> string" where
  "sortAndFormatRoutes routes =
    (let sortedRoutes = filter (\<lambda>r. rt_Dst r \<noteq> None) routes @ filter (\<lambda>r. rt_Dst r = None) routes in
     Join '','' (concat (map (\<lambda>r.
       [IPNet_String (case rt_Dst r of None \<Rightarrow> (v4InV6Prefix @ [0, 0, 0, 0], CIDRMask 0 4) | Some d \<Rightarrow> d),
        IP_String (if rt_Gw r = [] then v4InV6Prefix @ [0, 0, 0, 0] else rt_Gw r)]) sortedRoutes)))"

text \<open>\<open>dnsmasq.conf\<close>, the embedded template, with its trimming of white space.\<close>

definition nl :: string where "nl = [CHR 0x0A]"

definition dnsmasqConf :: "string \<Rightarrow> string \<Rightarrow> string \<Rightarrow> string \<Rightarrow> string option \<Rightarrow> string \<Rightarrow> string \<Rightarrow> string \<Rightarrow> string" where
  "dnsmasqConf iface mac addr msk gateway routes dnsServer domainSearch =
     ''port=0'' @ nl @ ''interface='' @ iface @ nl @ ''bind-interfaces'' @ nl
     @ ''dhcp-range='' @ addr @ '',static,'' @ msk @ nl
     @ ''dhcp-host='' @ mac @ '','' @ addr @ '',infinite'' @ nl
     @ (case gateway of None \<Rightarrow> [] | Some g \<Rightarrow> if g = [] then [] else ''dhcp-option=option:router,'' @ g @ nl)
     @ ''dhcp-option=option:classless-static-route,'' @ routes @ nl
     @ ''dhcp-option=option:dns-server,'' @ dnsServer @ nl
     @ ''dhcp-option=option:domain-search,'' @ domainSearch @ nl
     @ ''dhcp-authoritative'' @ nl
     @ ''shared-network='' @ iface @ '','' @ addr"

definition startDHCPServer :: "'w pod_env \<Rightarrow> string \<Rightarrow> nat list \<Rightarrow> ipnet \<Rightarrow> ip \<Rightarrow> route list \<Rightarrow> ('w, 'o, unit) pact" where
  "startDHCPServer k ifaceName mac ipNet gateway routes =
    bind (look ''get resolvconf'' (eResolvConf k)) (\<lambda>(nameservers, searchDomains).
    let pidPath = ''/var/run/ch-vmm/dnsmasq/'' @ ifaceName @ ''.pid'';
        confPath = ''/var/run/ch-vmm/dnsmasq/'' @ ifaceName @ ''.conf'' in
    bind (run k ''create dnsmasq PID dir'' (MkdirAll ''/var/run/ch-vmm/dnsmasq'')) (\<lambda>_.
    bind (run k ''create dnsmasq config dir'' (MkdirAll ''/var/run/ch-vmm/dnsmasq'')) (\<lambda>_.
    bind (run k ''create dnsmasq config file'' (Create confPath)) (\<lambda>_.
    bind (run k ''write dnsmasq config file'' (Write confPath (dnsmasqConf ifaceName (mac_String mac) (IP_String (fst ipNet))
        (IP_String (snd ipNet)) (if gateway = [] then None else Some (IP_String gateway)) (sortAndFormatRoutes routes)
        (Join '','' nameservers) (Join '','' searchDomains)))) (\<lambda>_.
    run k ''start dnsmasq'' (Run [''dnsmasq'', ''--conf-file='' @ confPath, ''--pid-file='' @ pidPath]))))))"

section \<open>The kinds of network\<close>

text \<open>The first steps, which bridge and masquerade networks share: the subnet, the bridge's address in it, the
  link of the pod, and the bridge.\<close>

definition firstIP :: "string \<Rightarrow> err + ipnet \<times> ip" where
  "firstIP cidr = (case ParseCIDR_net cidr of None \<Rightarrow> Inl (ErrS ''parse CIDR'' (ErrNew ''invalid CIDR address''))
     | Some subnet \<Rightarrow> (case nextIP (fst subnet) subnet of Inl e \<Rightarrow> Inl (ErrS ''generate bridge IP'' e)
       | Inr bridgeIP \<Rightarrow> Inr (subnet, bridgeIP)))"

definition startBridge :: "'w pod_env \<Rightarrow> string \<Rightarrow> string \<Rightarrow> ('w, 'o, ipnet \<times> ip \<times> link \<times> link_ref) pact" where
  "startBridge k linkName cidr = (case firstIP cidr of Inl e \<Rightarrow> throw e
   | Inr (subnet, bridgeIP) \<Rightarrow>
     bind (look ''get link'' (eLinkByName k linkName)) (\<lambda>lk.
     bind (mapErr (ErrS ''create bridge'') (createBridge k (''br-'' @ linkName) (bridgeIP, snd subnet) (lk_MTU lk))) (\<lambda>bridge.
     ret (subnet, bridgeIP, lk, bridge))))"

text \<open>The address moves from the pod's link, which joins the bridge under a new name, to a dummy link with the
  old one.\<close>

definition moveAddress :: "'w pod_env \<Rightarrow> link \<Rightarrow> ipnet list \<Rightarrow> ('w, 'o, string) pact" where
  "moveAddress k lk linkAddrs = (case linkAddrs of [] \<Rightarrow> ret (lk_name lk)
   | linkAddr # _ \<Rightarrow> (let newLinkName = lk_name lk @ ''-nic'' in
     bind (run k ''delete link address'' (AddrDel (Found (lk_index lk)) linkAddr)) (\<lambda>_.
     bind (run k ''rename link'' (LinkSetName (Found (lk_index lk)) newLinkName)) (\<lambda>_.
     bind (run k ''add dummy interface'' (LinkAdd_Dummy (lk_name lk))) (\<lambda>_.
     bind (run k ''replace dummy interface address'' (AddrReplace (Made (lk_name lk)) linkAddr)) (\<lambda>_.
     ret newLinkName))))))"

definition kept_routes :: "route list \<Rightarrow> route list" where
  "kept_routes = filter (\<lambda>r. \<not> (rt_Dst r = None \<and> rt_Src r = [] \<and> rt_Gw r = []))"

fun linkGateway :: "route list \<Rightarrow> ip" where
  "linkGateway [] = []"
| "linkGateway (r # rs) = (if rt_Dst r = None \<and> rt_Gw r \<noteq> [] then rt_Gw r else linkGateway rs)"

definition setupBridgeNetwork :: "'w pod_env \<Rightarrow> string \<Rightarrow> string \<Rightarrow> net_config \<Rightarrow> ('w, 'o, net_config) pact" where
  "setupBridgeNetwork k linkName cidr netConfig =
    bind (startBridge k linkName cidr) (\<lambda>(subnet, bridgeIP, lk, bridge).
    bind (look ''list link addrs'' (eAddrList k lk)) (\<lambda>linkAddrs.
    bind (look ''list link routes'' (eRouteList k lk)) (\<lambda>linkRoutes.
    bind (run k ''down link'' (LinkSetDown (Found (lk_index lk)))) (\<lambda>_.
    bind (run k ''spoof link MAC'' (SpoofMacSameVendor linkName)) (\<lambda>_.
    bind (moveAddress k lk linkAddrs) (\<lambda>newLinkName.
    bind (run k ''add link to bridge'' (LinkSetMaster (Found (lk_index lk)) bridge)) (\<lambda>_.
    bind (run k ''up link'' (LinkSetUp (Found (lk_index lk)))) (\<lambda>_.
    bind (run k ''disable port MAC learning on bridge'' (Run [''bridge'', ''link'', ''set'', ''dev'', newLinkName, ''learning'', ''off''])) (\<lambda>_.
    bind (mapErr (ErrS ''create tap'') (createTap k bridge (''tap-'' @ linkName) (lk_MTU lk))) (\<lambda>_.
    bind (case linkAddrs of [] \<Rightarrow> ret ()
      | linkAddr # _ \<Rightarrow> mapErr (ErrS ''start DHCP server'') (startDHCPServer k (''br-'' @ linkName) (lk_MAC lk) linkAddr
          (linkGateway (kept_routes linkRoutes)) (kept_routes linkRoutes))) (\<lambda>_.
    ret (netConfig\<lparr>nt_Mtu := lk_MTU lk, nt_Mac := mac_String (lk_MAC lk), nt_Tap := ''tap-'' @ linkName\<rparr>))))))))))))"

definition setupMasqueradeNetwork :: "'w pod_env \<Rightarrow> string \<Rightarrow> string \<Rightarrow> net_config \<Rightarrow> ('w, 'o, net_config) pact" where
  "setupMasqueradeNetwork k linkName cidr netConfig =
    bind (startBridge k linkName cidr) (\<lambda>(subnet, bridgeIP, lk, bridge).
    case nextIP bridgeIP subnet of Inl e \<Rightarrow> throw (ErrS ''generate vm IP'' e)
    | Inr vmIP \<Rightarrow>
      bind (run k ''add masquerade rule'' (Run [''iptables'', ''-t'', ''nat'', ''-A'', ''POSTROUTING'', ''-o'', linkName, ''-j'', ''MASQUERADE''])) (\<lambda>_.
      bind (run k ''add prerouting rule'' (Run [''iptables'', ''-t'', ''nat'', ''-A'', ''PREROUTING'', ''-i'', linkName, ''-j'', ''DNAT'', ''--to-destination'', IP_String vmIP])) (\<lambda>_.
      bind (mapErr (ErrS ''create tap'') (createTap k bridge (''tap-'' @ linkName) (lk_MTU lk))) (\<lambda>_.
      case ParseMAC (nt_Mac netConfig) of None \<Rightarrow> throw (ErrS ''parse VM MAC'' (ErrNew ''invalid MAC address''))
      | Some vmMAC \<Rightarrow>
        bind (mapErr (ErrS ''start DHCP server'') (startDHCPServer k (''br-'' @ linkName) vmMAC (vmIP, snd subnet) bridgeIP [])) (\<lambda>_.
        ret (netConfig\<lparr>nt_Mtu := lk_MTU lk, nt_Tap := ''tap-'' @ linkName\<rparr>))))))"

text \<open>In the case \<open>kube-ovn\<close> the socket path is assigned to a new variable of the inner scope. Slicing a container
  identifier of fewer than twelve bytes panics.\<close>

definition userspaceSocket :: "'w pod_env \<Rightarrow> string \<Rightarrow> ('w, 'o, string) pact" where
  "userspaceSocket k linkName =
    (let data = eGetenv k ''USERSPACE_CONFIGURATION_DATA'' in
     if data = [] then throw (ErrNew ''userspace configuration data not found'')
     else (case eUserspaceData k data of Inl e \<Rightarrow> throw (ErrS ''unmarshal userspace configuration data'' e)
     | Inr configs \<Rightarrow>
       (let (containerID, socketFile) = (case List.find (\<lambda>c. us_IfName c = linkName) configs of None \<Rightarrow> ([], [])
              | Some c \<Rightarrow> (us_ContainerId c, us_Socketfile c)) in
        if containerID = [] \<or> socketFile = [] then throw (ErrNew ''vhost-user link not found'')
        else if length containerID < 12 then panic ''slice bounds out of range''
        else (let socketDir = ''/var/run/vhost-user/'' @ take 12 containerID in
          bind (kread (eStat k socketDir)) (\<lambda>st. case st of
            Missing \<Rightarrow> ret (''/var/run/vhost-user/'' @ socketFile)
          | StatErr e \<Rightarrow> throw e
          | Present \<Rightarrow> ret (socketDir @ ''/'' @ socketFile))))))"

definition setupVhostUserNetwork :: "'w pod_env \<Rightarrow> string \<Rightarrow> net_config \<Rightarrow> ('w, 'o, net_config) pact" where
  "setupVhostUserNetwork k linkName netConfig =
    (let netType = eGetenv k ''NET_TYPE'' in
     if netType = [] then throw (ErrNew ''network type not found'')
     else bind (if netType = ''kube-ovn'' then
            (if eGetenv k ''VHOST_USER_SOCKET'' = [] then throw (ErrNew ''vhost-user socket path not found'')
             else bind (look ''get link'' (eLinkByName k ''eth0'')) (\<lambda>lk. ret (lk_MTU lk, [])))
          else if netType = ''userspace'' then bind (userspaceSocket k linkName) (\<lambda>p. ret (1500, p))
          else ret (1500, [])) (\<lambda>(mtu, socketPath).
        ret (netConfig\<lparr>nt_Mtu := mtu, nt_VhostSocket := socketPath\<rparr>)))"

section \<open>The addresses of a network\<close>

lemma CIDRMask_length [simp]: "length (CIDRMask n l) = l"
  by (induction n l rule: CIDRMask.induct) auto

lemma mask_byte_low:
  assumes "n \<le> 6"
  shows "NOT (drop_bit n 255) AND (3 :: 8 word) = 0"
proof -
  have "n \<in> {0, 1, 2, 3, 4, 5, 6}" using assms by auto
  then show ?thesis by auto
qed

lemma CIDRMask_last: "n + 2 \<le> 8 * l \<Longrightarrow> last (CIDRMask n l) AND 3 = 0"
proof (induction n l rule: CIDRMask.induct)
  case (2 n l)
  show ?case
  proof (cases l)
    case 0
    then show ?thesis using 2 mask_byte_low [of n] by simp
  next
    case (Suc l')
    then have "CIDRMask i l \<noteq> []" for i by (metis CIDRMask_length length_0_conv nat.distinct(1))
    then show ?thesis using 2 Suc by auto
  qed
qed simp

lemma low_bits:
  assumes m: "m AND 3 = (0 :: 8 word)" and c: "c AND 3 = 0" and d: "d \<in> {1, 2, 3}"
  shows "c + d \<noteq> 0" and "(c + d) AND m = c AND m"
proof -
  have d3: "d AND 3 = d" "d \<noteq> 0" using d by auto
  have "(c AND 3) AND d = c AND (d AND 3)" and "(d AND 3) AND m = d AND (m AND 3)" by (simp_all only: ac_simps)
  then have disj: "c AND d = 0" and dm: "d AND m = 0" unfolding d3(1) using m c by simp_all
  have plus: "c + d = c OR d" using disj by (simp add: disjunctive_add_eq_or)
  show "c + d \<noteq> 0" using plus d3(2) by (simp add: or_eq_0_iff)
  show "(c + d) AND m = c AND m" using plus dm by (simp add: and.commute bit.conj_disj_distrib)
qed

text \<open>A change of the last byte outside the mask stays inside the network, in either form of an address.\<close>

lemma Contains_last:
  assumes "length xs = 3 \<or> length xs = 15" and "length ms = length xs" and "d AND m = c AND m"
  shows "Contains_ip (xs @ [c], ms @ [m]) (xs @ [d])"
  using assms by (auto simp: Contains_ip_def networkNumberAndMask_def To4_def Let_def)

lemma nextIP_last:
  assumes "length xs = 3 \<or> length xs = 15" and "length ms = length xs"
    and "c + 1 \<noteq> 0" and "(c + 1) AND m = e AND m"
  shows "nextIP (xs @ [c]) (xs @ [e], ms @ [m]) = Inr (xs @ [c + 1])"
  using assms Contains_last [OF assms(1,2,4)] by (simp add: nextIP_def Let_def word_gt_0)

lemma ParseCIDR_addr_length: "ParseCIDR_addr s = Some (bs, n) \<Longrightarrow> length bs = 4 \<or> length bs = 16"
  unfolding ParseCIDR_addr_def Let_def
  by (auto split: list.splits option.splits prod.splits if_splits dest: ParseAddr_length)

text \<open>The network that a range with two host bits or more denotes, split at its last byte.\<close>

lemma subnet_last:
  assumes "ParseCIDR s = Some (n, bits)" and "n + 2 \<le> bits"
  obtains xs c ms m where "ParseCIDR_net s = Some (xs @ [c], ms @ [m])" "length xs = 3 \<or> length xs = 15"
    "length ms = length xs" "m AND 3 = 0" "c AND 3 = 0"
proof -
  obtain bs where bs: "ParseCIDR_addr s = Some (bs, n)" "bits = 8 * length bs"
    using assms(1) by (auto simp: ParseCIDR_def)
  have len: "length bs = 4 \<or> length bs = 16" using ParseCIDR_addr_length [OF bs(1)] .
  define M where "M = CIDRMask n (length bs)"
  obtain ms m where M: "M = ms @ [m]" using len
    by (metis CIDRMask_length M_def length_0_conv rev_exhaust zero_neq_numeral)
  obtain ys b where Y: "bs = ys @ [b]" using len by (metis length_0_conv rev_exhaust zero_neq_numeral)
  have lens: "length ms = length ys" "length ys = 3 \<or> length ys = 15"
    using CIDRMask_length [of n "length bs"] M Y len unfolding M_def by auto
  have m: "m AND 3 = 0" using CIDRMask_last [of n "length bs"] assms(2) bs(2) M unfolding M_def by simp
  have "(b AND m) AND 3 = b AND (m AND 3)" by (simp only: and.assoc)
  then have c: "(b AND m) AND 3 = 0" using m by simp
  have "ParseCIDR_net s = Some (map2 (AND) ys ms @ [b AND m], ms @ [m])"
    using bs(1) M Y lens unfolding M_def by (simp add: ParseCIDR_net_def Let_def)
  then show ?thesis using that [of "map2 (AND) ys ms" "b AND m" ms m] lens m c by simp
qed

text \<open>C11: in every range with at least two host bits the bridge and the VM get the first two addresses after the
  network's own: they differ from it only in the last byte, whose low two bits are zero there, so both lie in the
  range and neither is the network's own or its last address, and choosing them never fails.\<close>

theorem masquerade_addresses:
  assumes "ParseCIDR cidr = Some (n, bits)" and "n + 2 \<le> bits"
  shows "\<exists>xs c ms m. firstIP cidr = Inr ((xs @ [c], ms @ [m]), xs @ [c + 1])
     \<and> nextIP (xs @ [c + 1]) (xs @ [c], ms @ [m]) = Inr (xs @ [c + 2])
     \<and> Contains_ip (xs @ [c], ms @ [m]) (xs @ [c + 1]) \<and> Contains_ip (xs @ [c], ms @ [m]) (xs @ [c + 2])
     \<and> Contains_ip (xs @ [c], ms @ [m]) (xs @ [c + 3]) \<and> c AND 3 = 0"
proof -
  obtain xs c ms m where net: "ParseCIDR_net cidr = Some (xs @ [c], ms @ [m])"
    and len: "length xs = 3 \<or> length xs = 15" "length ms = length xs" and m: "m AND 3 = 0" and c: "c AND 3 = 0"
    using subnet_last [OF assms] by blast
  note one = low_bits [OF m c, of 1] and two = low_bits [OF m c, of 2] and three = low_bits [OF m c, of 3]
  have fst: "firstIP cidr = Inr ((xs @ [c], ms @ [m]), xs @ [c + 1])"
    using net nextIP_last [OF len one] by (simp add: firstIP_def)
  have snd: "nextIP (xs @ [c + 1]) (xs @ [c], ms @ [m]) = Inr (xs @ [c + 2])"
    using nextIP_last [OF len, of "c + 1" m c] two by (simp add: add.assoc)
  show ?thesis
    using fst snd Contains_last [OF len one(2)] Contains_last [OF len two(2)] Contains_last [OF len three(2)] c by fastforce
qed

theorem masquerade_addresses_witness:
  "ParseCIDR ''10.0.2.0/30'' = Some (30, 32) \<and>
   (\<exists>xs c ms m. firstIP ''10.0.2.0/30'' = Inr ((xs @ [c], ms @ [m]), xs @ [c + 1])
     \<and> nextIP (xs @ [c + 1]) (xs @ [c], ms @ [m]) = Inr (xs @ [c + 2])
     \<and> Contains_ip (xs @ [c], ms @ [m]) (xs @ [c + 1]) \<and> Contains_ip (xs @ [c], ms @ [m]) (xs @ [c + 2])
     \<and> Contains_ip (xs @ [c], ms @ [m]) (xs @ [c + 3]) \<and> c AND 3 = 0)"
proof -
  have p: "ParseCIDR ''10.0.2.0/30'' = Some (30, 32)" by code_simp
  show ?thesis using masquerade_addresses [OF p] p by simp
qed

end
