(* ===== verification/Cpu_Set.thy ===== *)
theory Cpu_Set
  imports Go_Strings
begin

text \<open>
  \<open>src/pkg/cpuset/cpuset.go\<close>: CPU sets in the kernel's list format (\<open>0-3,8\<close>), as the prerunner
  reads them from the cgroup file system.

  A \<open>CPUSet\<close> (\<open>map[int]struct{}\<close>) is a set of integers and the \<open>Builder\<close> threads it. The loop
  over a range counts in a 64-bit \<open>int\<close>, so it is a \<open>partial_function\<close>: \<open>None\<close> is a loop that
  never ends, which happens exactly for a range that ends at the largest \<open>int\<close>
  (\<open>add_range_diverges\<close>). \<open>Get\<close> takes the cgroup mode and the file system as parameters.
\<close>

section \<open>Builder and set\<close>

type_synonym CPUSet = "int set"

definition NewBuilder :: CPUSet where
  "NewBuilder = {}"

fun Add_elems :: "CPUSet \<Rightarrow> int list \<Rightarrow> CPUSet" where
  "Add_elems b [] = b"
| "Add_elems b (e # es) = Add_elems (insert e b) es"

definition Result_of :: "CPUSet \<Rightarrow> CPUSet" where
  "Result_of b = b"

fun add_each :: "CPUSet \<Rightarrow> int list \<Rightarrow> CPUSet" where
  "add_each b [] = b"
| "add_each b (c # cs) = add_each (Add_elems b [c]) cs"

definition NewCPUSet :: "int list \<Rightarrow> CPUSet" where
  "NewCPUSet cpus = Result_of (add_each NewBuilder cpus)"

definition ToSlice :: "CPUSet \<Rightarrow> int list" where
  "ToSlice s = sorted_list_of_set s"

section \<open>Parsing\<close>

datatype parse_error = NumError num_error | InvalidRange string int int

text \<open>\<open>for e := start; e <= end; e++ { b.Add(e) }\<close>, with the increment wrapping at 64 bits.\<close>

partial_function (option) add_range :: "int \<Rightarrow> int \<Rightarrow> CPUSet \<Rightarrow> CPUSet option" where
  "add_range e end b =
     (if e \<le> end then add_range (wrap64 (e + 1)) end (Add_elems b [e]) else Some b)"

definition parse_one :: "string \<Rightarrow> CPUSet \<Rightarrow> (parse_error + CPUSet) option" where
  "parse_one r b =
     (case SplitN2 CHR ''-'' r of
        [x] \<Rightarrow> (case Atoi x of Inl e \<Rightarrow> Some (Inl (NumError e)) | Inr el \<Rightarrow> Some (Inr (Add_elems b [el])))
      | [x, y] \<Rightarrow>
          (case Atoi x of Inl e \<Rightarrow> Some (Inl (NumError e))
           | Inr start \<Rightarrow>
             (case Atoi y of Inl e \<Rightarrow> Some (Inl (NumError e))
              | Inr end \<Rightarrow>
                if start > end then Some (Inl (InvalidRange r start end))
                else map_option Inr (add_range start end b)))
      | _ \<Rightarrow> Some (Inr b))"

fun parse_ranges :: "string list \<Rightarrow> CPUSet \<Rightarrow> (parse_error + CPUSet) option" where
  "parse_ranges [] b = Some (Inr (Result_of b))"
| "parse_ranges (r # rs) b =
     (case parse_one r b of
        None \<Rightarrow> None
      | Some (Inl e) \<Rightarrow> Some (Inl e)
      | Some (Inr b') \<Rightarrow> parse_ranges rs b')"

definition Parse :: "string \<Rightarrow> (parse_error + CPUSet) option" where
  "Parse s = (if s = [] then Some (Inr (Result_of NewBuilder))
              else parse_ranges (Split CHR '','' s) NewBuilder)"

section \<open>Reading the cgroup file\<close>

datatype get_error = ReadError string | ParseError parse_error

definition is_space :: "char \<Rightarrow> bool" where
  "is_space c \<longleftrightarrow> (of_char c :: nat) \<in> {9, 10, 11, 12, 13, 32}"

definition TrimSpace :: "string \<Rightarrow> string" where
  "TrimSpace s = rev (dropWhile is_space (rev (dropWhile is_space s)))"

definition cpu_set_path :: "bool \<Rightarrow> string" where
  "cpu_set_path unified = (if unified then ''/sys/fs/cgroup/cpuset.cpus.effective''
                           else ''/sys/fs/cgroup/cpuset/cpuset.cpus'')"

definition Get :: "bool \<Rightarrow> (string \<Rightarrow> string option) \<Rightarrow> (get_error + CPUSet) option" where
  "Get unified read_file =
     (case read_file (cpu_set_path unified) of
        None \<Rightarrow> Some (Inl (ReadError (cpu_set_path unified)))
      | Some b \<Rightarrow> (case Parse (TrimSpace b) of
            None \<Rightarrow> None
          | Some (Inl e) \<Rightarrow> Some (Inl (ParseError e))
          | Some (Inr s) \<Rightarrow> Some (Inr s)))"

section \<open>Lemmas\<close>

lemma Add_elems_eq [simp]: "Add_elems b es = b \<union> set es"
  by (induction es arbitrary: b) auto

lemma add_each_eq [simp]: "add_each b cs = b \<union> set cs"
  by (induction cs arbitrary: b) auto

lemma NewCPUSet_eq: "NewCPUSet cpus = set cpus"
  by (simp add: NewCPUSet_def NewBuilder_def Result_of_def)

lemma add_range_done: "\<not> e \<le> en \<Longrightarrow> add_range e en b = Some b"
  by (simp add: add_range.simps [of e en b])

lemma add_range_step:
  "e \<le> en \<Longrightarrow> add_range e en b = add_range (wrap64 (e + 1)) en (insert e b)"
  by (simp add: add_range.simps [of e en b])

text \<open>Below the largest \<open>int\<close> the loop ends and adds exactly the range.\<close>

lemma add_range_ends:
  assumes "min_int64 \<le> e" "en < max_int64" "e \<le> en + 1"
  shows "add_range e en b = Some (b \<union> {e..en})"
  using assms
proof (induction "nat (en + 1 - e)" arbitrary: e b)
  case 0
  then show ?case by (simp add: add_range_done)
next
  case (Suc n)
  then have le: "e \<le> en" by simp
  with Suc.prems have w: "wrap64 (e + 1) = e + 1"
    by (simp add: wrap64_id in_int64_def)
  have "n = nat (en + 1 - (e + 1))" using Suc.hyps(2) by simp
  then have "add_range (e + 1) en (insert e b) = Some (insert e b \<union> {e + 1..en})"
    using Suc.hyps(1) [of "e + 1" "insert e b"] Suc.prems le by simp
  moreover have "insert e b \<union> {e + 1..en} = b \<union> {e..en}"
    using le by auto
  ultimately show ?case by (simp add: add_range_step [OF le] w)
qed

text \<open>At the largest \<open>int\<close> the guard \<open>e <= end\<close> can never fail.\<close>

lemma add_range_diverges_aux:
  assumes "add_range e en b = Some r"
  shows "in_int64 e \<Longrightarrow> en = max_int64 \<Longrightarrow> False"
proof (rule add_range.raw_induct
    [where P = "\<lambda>e en b r. in_int64 e \<longrightarrow> en = max_int64 \<longrightarrow> False", OF _ assms,
      THEN mp, THEN mp])
  fix f :: "int \<Rightarrow> int \<Rightarrow> CPUSet \<Rightarrow> CPUSet option" and e en b r
  assume IH: "\<And>e en b r. f e en b = Some r \<Longrightarrow> in_int64 e \<longrightarrow> en = max_int64 \<longrightarrow> False"
    and eq: "(if e \<le> en then f (wrap64 (e + 1)) en (Add_elems b [e]) else Some b) = Some r"
  show "in_int64 e \<longrightarrow> en = max_int64 \<longrightarrow> False"
  proof (intro impI)
    assume e: "in_int64 e" and en: "en = max_int64"
    then have "f (wrap64 (e + 1)) en (Add_elems b [e]) = Some r"
      using eq by (simp add: in_int64_def split: if_splits)
    with IH en show False by fastforce
  qed
qed

lemma add_range_diverges: "in_int64 e \<Longrightarrow> add_range e max_int64 b = None"
  using add_range_diverges_aux [of e max_int64 b] by (cases "add_range e max_int64 b") auto

lemma add_range_elems:
  assumes "add_range e en b = Some r" "in_int64 e" "in_int64 en" "e \<le> en"
  shows "r = b \<union> {e..en}"
proof (cases "en = max_int64")
  case True
  with assms add_range_diverges show ?thesis by simp
next
  case False
  with assms add_range_ends [of e en b] show ?thesis by (simp add: in_int64_def)
qed

lemma takeWhile_neq_no_sep: "c \<notin> set (takeWhile (\<lambda>x. x \<noteq> c) s)"
  by (auto dest: set_takeWhileD)

lemma parse_one_nonneg:
  assumes "parse_one r b = Some (Inr b')" "\<forall>x\<in>b. 0 \<le> x"
  shows "\<forall>x\<in>b'. 0 \<le> x"
proof (cases "CHR ''-'' \<in> set r")
  case False
  with assms show ?thesis
    by (auto simp: parse_one_def split: sum.splits dest: Atoi_no_minus_nonneg)
next
  case True
  let ?x = "takeWhile (\<lambda>x. x \<noteq> CHR ''-'') r" and ?y = "tl (dropWhile (\<lambda>x. x \<noteq> CHR ''-'') r)"
  from True assms(1) obtain start en where ab: "Atoi ?x = Inr start" "Atoi ?y = Inr en"
    "start \<le> en" "add_range start en b = Some b'"
    by (auto simp: parse_one_def split: sum.splits if_splits)
  then have "b' = b \<union> {start..en}"
    using add_range_elems Atoi_in_int64 by blast
  moreover have "0 \<le> start"
    using ab(1) takeWhile_neq_no_sep by (rule Atoi_no_minus_nonneg)
  ultimately show ?thesis using assms(2) by auto
qed

lemma parse_ranges_nonneg:
  "parse_ranges rs b = Some (Inr s) \<Longrightarrow> \<forall>x\<in>b. 0 \<le> x \<Longrightarrow> \<forall>x\<in>s. 0 \<le> x"
proof (induction rs arbitrary: b)
  case Nil
  then show ?case by (simp add: Result_of_def)
next
  case (Cons r rs)
  then obtain b' where "parse_one r b = Some (Inr b')" "parse_ranges rs b' = Some (Inr s)"
    by (auto split: option.splits sum.splits)
  with Cons show ?case using parse_one_nonneg by metis
qed

section \<open>The list format as a specification\<close>

text \<open>An entry of the kernel's list format, its text and the CPUs it denotes.\<close>

datatype cpu_item = One int | Range int int

fun item_text :: "cpu_item \<Rightarrow> string" where
  "item_text (One n) = Itoa n"
| "item_text (Range a b) = Itoa a @ CHR ''-'' # Itoa b"

fun item_cpus :: "cpu_item \<Rightarrow> int set" where
  "item_cpus (One n) = {n}"
| "item_cpus (Range a b) = {a..b}"

fun item_ok :: "cpu_item \<Rightarrow> bool" where
  "item_ok (One n) \<longleftrightarrow> 0 \<le> n \<and> n \<le> max_int64"
| "item_ok (Range a b) \<longleftrightarrow> 0 \<le> a \<and> a \<le> b \<and> b < max_int64"

lemma takeWhile_append_sep:
  "c \<notin> set p \<Longrightarrow> takeWhile (\<lambda>x. x \<noteq> c) (p @ c # q) = p"
  "c \<notin> set p \<Longrightarrow> dropWhile (\<lambda>x. x \<noteq> c) (p @ c # q) = c # q"
  by (induction p) auto

lemma item_text_no_comma: "item_ok i \<Longrightarrow> CHR '','' \<notin> set (item_text i)"
  by (cases i) (auto simp: Itoa_nonneg_no_sep is_digit_neq)

lemma item_text_neq_Nil: "item_ok i \<Longrightarrow> item_text i \<noteq> []"
  by (cases i) (auto simp: Itoa_def)

lemma parse_one_item:
  assumes "item_ok i"
  shows "parse_one (item_text i) b = Some (Inr (b \<union> item_cpus i))"
proof (cases i)
  case (One n)
  with assms show ?thesis
    by (simp add: parse_one_def Itoa_nonneg_no_sep is_digit_neq Atoi_Itoa in_int64_def)
next
  case (Range x y)
  with assms have "CHR ''-'' \<notin> set (Itoa x)" "Atoi (Itoa x) = Inr x" "Atoi (Itoa y) = Inr y"
    by (auto simp: Itoa_nonneg_no_sep is_digit_neq Atoi_Itoa in_int64_def)
  with assms Range show ?thesis
    by (simp add: parse_one_def takeWhile_append_sep add_range_ends)
qed

lemma parse_ranges_items:
  "\<forall>i\<in>set items. item_ok i \<Longrightarrow>
   parse_ranges (map item_text items) b = Some (Inr (b \<union> \<Union> (item_cpus ` set items)))"
  by (induction items arbitrary: b) (auto simp: parse_one_item Result_of_def)

lemma Join_items_neq_Nil: "items \<noteq> [] \<Longrightarrow> \<forall>i\<in>set items. item_ok i \<Longrightarrow>
    Join [CHR '',''] (map item_text items) \<noteq> []"
  by (cases items; cases "tl items") (auto simp: item_text_neq_Nil)

section \<open>Properties\<close>

lemma parse_ranges_finite:
  "parse_ranges rs b = Some (Inr s) \<Longrightarrow> finite b \<Longrightarrow> finite s"
proof (induction rs arbitrary: b)
  case Nil
  then show ?case by (simp add: Result_of_def)
next
  case (Cons r rs)
  then obtain b' where one: "parse_one r b = Some (Inr b')" and "parse_ranges rs b' = Some (Inr s)"
    by (auto split: option.splits sum.splits)
  moreover have "finite b'"
    using one Cons.prems(2) add_range_elems Atoi_in_int64
    by (fastforce simp: parse_one_def split: if_splits sum.splits)
  ultimately show ?case using Cons.IH by blast
qed

text \<open>C38: parsing the text of any list of single CPUs and CPU ranges in the kernel's list format
  ends, without error, in exactly the set of CPUs the list denotes (entries may overlap and come in
  any order).\<close>

theorem Parse_items:
  assumes "items \<noteq> []" and "\<forall>i\<in>set items. item_ok i"
  shows "Parse (Join [CHR '',''] (map item_text items)) = Some (Inr (\<Union> (item_cpus ` set items)))"
proof -
  have "Split CHR '','' (Join [CHR '',''] (map item_text items)) = map item_text items"
    using assms item_text_no_comma by (intro Split_Join) auto
  with assms show ?thesis
    by (simp add: Parse_def Join_items_neq_Nil parse_ranges_items NewBuilder_def)
qed

theorem Parse_items_witness:
  "Parse (Join [CHR '',''] (map item_text [Range 3 6, One 9, Range 1 5]))
     = Some (Inr ({3..6} \<union> {9} \<union> {1..5}))"
  using Parse_items [of "[Range 3 6, One 9, Range 1 5]"] by (simp add: Un_assoc)

text \<open>a CPU set that \<open>Parse\<close> accepts is finite and holds no negative CPU number, and
  \<open>ToSlice\<close> lists it strictly increasing, without losing or inventing a CPU.\<close>

theorem Parse_ToSlice:
  assumes "Parse s = Some (Inr cpus)"
  shows "finite cpus \<and> (\<forall>x\<in>cpus. 0 \<le> x) \<and> set (ToSlice cpus) = cpus \<and>
    sorted (ToSlice cpus) \<and> distinct (ToSlice cpus)"
proof -
  have "finite cpus \<and> (\<forall>x\<in>cpus. 0 \<le> x)"
  proof (cases "s = []")
    case True
    with assms show ?thesis by (simp add: Parse_def Result_of_def NewBuilder_def)
  next
    case False
    with assms have "parse_ranges (Split CHR '','' s) {} = Some (Inr cpus)"
      by (simp add: Parse_def NewBuilder_def)
    then show ?thesis using parse_ranges_finite parse_ranges_nonneg by fastforce
  qed
  then show ?thesis by (simp add: ToSlice_def)
qed

theorem Parse_ToSlice_witness:
  "Parse ''5,4'' = Some (Inr {5, 4}) \<and> set (ToSlice {5, 4}) = {5, 4} \<and> sorted (ToSlice {5, 4})"
proof -
  have p: "Parse ''5,4'' = Some (Inr {5, 4})"
    by (simp add: Parse_def parse_one_def Atoi_def is_digit_def digit_val_def in_int64_def
        NewBuilder_def Result_of_def insert_commute)
  show ?thesis using p Parse_ToSlice [OF p] by simp
qed

text \<open>C40: a range that ends at the largest 64-bit integer makes \<open>Parse\<close> loop for ever: the loop
  variable wraps around before the guard can fail.\<close>

theorem Parse_max_range_diverges:
  assumes "0 \<le> a" and "a \<le> max_int64"
  shows "Parse (Itoa a @ CHR ''-'' # Itoa max_int64) = None"
proof -
  let ?t = "Itoa a @ CHR ''-'' # Itoa max_int64"
  have d: "CHR ''-'' \<notin> set (Itoa a)" "CHR '','' \<notin> set ?t"
    using assms by (auto simp: Itoa_nonneg_no_sep is_digit_neq)
  have at: "Atoi (Itoa a) = Inr a" "Atoi (Itoa max_int64) = Inr max_int64"
    using assms by (simp_all add: Atoi_Itoa in_int64_def)
  have "parse_one ?t {} = None"
    using d at assms by (simp add: parse_one_def takeWhile_append_sep add_range_diverges in_int64_def)
  moreover have "Split CHR '','' ?t = [?t]"
    using d(2) by (rule Split_no_sep)
  ultimately show ?thesis by (simp add: Parse_def NewBuilder_def)
qed

theorem Parse_max_range_diverges_witness:
  "Parse (Itoa 7 @ CHR ''-'' # Itoa max_int64) = None"
  by (rule Parse_max_range_diverges) simp_all

end
