(* ===== verification/Prerunner.thy ===== *)
theory Prerunner
  imports Prerun_Net Cpu_Set Zstd_Archive Pod_Builder
begin

text \<open>
  \<open>src/cmd/ch-vmm-prerunner/main.go\<close>: the program that runs in the VM's pod before the hypervisor. It decodes the
  VM from its arguments, fetches a memory snapshot when the VM has one, sets up networks and file systems, and
  writes the hypervisor's configuration, which the node daemon reads. The configuration is a record with the
  fields the code fills in (\<open>src/pkg/cloudhypervisor\<close> names them); \<open>log.Fatal\<close> ends the process and is a panic
  \<open>exit\<close>, and so is the cpuset parser that does not return on a range up to the largest integer.
\<close>

section \<open>The hypervisor's configuration\<close>

record cpu_topology =
  Packages :: int
  DiesPerPackage :: int
  CoresPerDie :: int
  ThreadsPerCore :: int

record ch_cpus =
  cc_MaxVcpus :: int
  cc_BootVcpus :: int
  cc_Topology :: cpu_topology
  cc_Affinity :: "(int \<times> int list) list"

record ch_memory =
  cm_Size :: int
  cm_HotplugMethod :: string
  cm_HotplugSize :: int
  cm_Prefault :: bool
  cm_Hugepages :: bool
  cm_Shared :: bool

record ch_disk =
  dc_Id :: string
  dc_Path :: string
  dc_Readonly :: bool
  dc_Direct :: bool

record ch_fs =
  fc_Id :: string
  fc_Socket :: string
  fc_Tag :: string
  fc_NumQueues :: int
  fc_QueueSize :: int

record ch_vdpa =
  va_Id :: string
  va_NumQueues :: int
  va_Iommu :: bool
  va_Path :: string

text \<open>\<open>ch_Pmem\<close> and \<open>ch_Devices\<close> list identifier and path.\<close>

record ch_config =
  ch_Console :: string
  ch_Serial :: string
  ch_Kernel :: string
  ch_Cmdline :: string
  ch_Cpus :: ch_cpus
  ch_Memory :: ch_memory
  ch_Watchdog :: bool
  ch_Disks :: "ch_disk list"
  ch_Pmem :: "(string \<times> string) list"
  ch_Devices :: "(string \<times> string) list"
  ch_Fs :: "ch_fs list"
  ch_Net :: "net_config list"
  ch_Vdpa :: "ch_vdpa list"
  ch_Vsock :: "(int \<times> string) option"

record network_status =
  ns_Interface :: string
  ns_PciAddress :: "string option"
  ns_VdpaPath :: "string option"

record 'w host_env =
  hNet :: "'w pod_env"
  hCloud :: "'w cloud_sdk"
  hArchive :: "'w archive_env"
  hArm64 :: bool
  hUnified :: bool
  hReadFile :: "string \<Rightarrow> 'w \<Rightarrow> string option"
  hNetworkStatus :: "string \<Rightarrow> err + network_status list"
  hVM :: "string \<Rightarrow> err + vm"
  hEncode :: "ch_config \<Rightarrow> string"

section \<open>Building the configuration\<close>

definition base_config :: "bool \<Rightarrow> vm_instance \<Rightarrow> ch_config" where
  "base_config arm64 i =
    (let c = i_cpu i; size = q_Value (mem_Size (i_memory i)) in
     \<lparr>ch_Console = ''Pty'', ch_Serial = ''Tty'',
      ch_Kernel = (case i_kernel i of Some _ \<Rightarrow> ''/mnt/virtmanager-kernel/vmlinux''
        | None \<Rightarrow> if arm64 then ''/var/lib/cloud-hypervisor/CLOUDHV_EFI.fd'' else ''/var/lib/cloud-hypervisor/hypervisor-fw''),
      ch_Cmdline = (case i_kernel i of Some kn \<Rightarrow> kn_cmdline kn | None \<Rightarrow> []),
      ch_Cpus = \<lparr>cc_MaxVcpus = uint (Sockets c * CoresPerSocket c * 2), cc_BootVcpus = uint (Sockets c * CoresPerSocket c),
        cc_Topology = \<lparr>Packages = uint (Sockets c * 2), DiesPerPackage = 1, CoresPerDie = uint (CoresPerSocket c), ThreadsPerCore = 1\<rparr>,
        cc_Affinity = []\<rparr>,
      ch_Memory = \<lparr>cm_Size = size, cm_HotplugMethod = ''VirtioMem'', cm_HotplugSize = wrap64 (size * 4), cm_Prefault = False,
        cm_Hugepages = (mem_Hugepages (i_memory i) \<noteq> None), cm_Shared = False\<rparr>,
      ch_Watchdog = True, ch_Disks = [], ch_Pmem = [], ch_Devices = [], ch_Fs = [], ch_Net = [], ch_Vdpa = [], ch_Vsock = None\<rparr>)"

definition set_shared :: "ch_config \<Rightarrow> ch_config" where
  "set_shared c = c\<lparr>ch_Memory := (ch_Memory c)\<lparr>cm_Shared := True\<rparr>\<rparr>"

definition pinCPUs :: "'w host_env \<Rightarrow> cpu \<Rightarrow> ('w, 'o, (int \<times> int list) list) pact" where
  "pinCPUs k c = (if \<not> DedicatedCPUPlacement c then ret []
    else bind (kread (\<lambda>w. Get (hUnified k) (\<lambda>p. hReadFile k p w))) (\<lambda>r. case r of
      None \<Rightarrow> panic ''cpuset.Get does not return''
    | Some (Inl e) \<Rightarrow> throw (ErrNew ''get CPU set'')
    | Some (Inr cpuSet) \<Rightarrow>
      (let pcpus = ToSlice cpuSet; numVCPUs = uint (Sockets c * CoresPerSocket c) in
       if int (length pcpus) \<noteq> numVCPUs then throw (ErrNew ''number of pCPUs and vCPUs must match'')
       else ret (map (\<lambda>i. (int i, [pcpus ! i])) [0..<nat numVCPUs]))))"

text \<open>The file of a volume in the pod; the code writes these cases out twice, for disks and for persistent memory.\<close>

definition volume_path :: "ext \<Rightarrow> string set \<Rightarrow> volume \<Rightarrow> err + string" where
  "volume_path x blockVolumes vol =
    (if v_ContainerDisk vol \<noteq> None then Inr (''/mnt/'' @ v_name vol @ ''/disk.raw'')
     else if v_CloudInit vol \<noteq> None then Inr (''/mnt/'' @ v_name vol @ ''/cloud-init.iso'')
     else if v_ContainerRootfs vol \<noteq> None then Inr (''/mnt/'' @ v_name vol @ ''/rootfs.raw'')
     else if v_PersistentVolumeClaim vol \<noteq> None \<or> v_DataVolume vol \<noteq> None \<or> v_VirtualDisk vol \<noteq> None then
       (if v_name vol \<in> blockVolumes
        then (if IsHotpluggable x vol then Inr (''/hotplug-volumes/'' @ v_name vol) else Inr (''/mnt/'' @ v_name vol))
        else (if IsHotpluggable x vol then Inr (path_join [''/hotplug-volumes'', v_name vol @ ''.img''])
              else Inr (path_join [''/mnt'', v_name vol, ''disk.img''])))
     else Inl (ErrNew (''invalid source of volume '' @ v_name vol)))"

definition named_volume :: "string \<Rightarrow> volume list \<Rightarrow> volume option" where
  "named_volume n = List.find (\<lambda>vol. v_name vol = n)"

fun disk_configs :: "ext \<Rightarrow> string set \<Rightarrow> volume list \<Rightarrow> disk list \<Rightarrow> err + ch_disk list" where
  "disk_configs x blocks vols [] = Inr []"
| "disk_configs x blocks vols (d # ds) = (case named_volume (dk_name d) vols of None \<Rightarrow> disk_configs x blocks vols ds
     | Some vol \<Rightarrow> (case volume_path x blocks vol of Inl e \<Rightarrow> Inl e
       | Inr path \<Rightarrow> map_sum id ((#) \<lparr>dc_Id = dk_name d, dc_Path = path, dc_Readonly = dk_readOnly d, dc_Direct = True\<rparr>)
           (disk_configs x blocks vols ds)))"

fun pmem_configs :: "ext \<Rightarrow> string set \<Rightarrow> volume list \<Rightarrow> string list \<Rightarrow> err + (string \<times> string) list" where
  "pmem_configs x blocks vols [] = Inr []"
| "pmem_configs x blocks vols (n # ns) = (case named_volume n vols of None \<Rightarrow> pmem_configs x blocks vols ns
     | Some vol \<Rightarrow> (case volume_path x blocks vol of Inl e \<Rightarrow> Inl e
       | Inr path \<Rightarrow> map_sum id ((#) (n, path)) (pmem_configs x blocks vols ns)))"

fun gpu_configs :: "(string \<Rightarrow> string) \<Rightarrow> gpu list \<Rightarrow> err + (string \<times> string) list" where
  "gpu_configs getenv [] = Inr []"
| "gpu_configs getenv (g # gs) = (let envVal = getenv (gpu_resourceEnvName g) in
     if envVal = [] then Inl (ErrNew (''missing env var '' @ gpu_resourceEnvName g @ '' for GPU '' @ gpu_name g))
     else map_sum id ((@) (map (\<lambda>(i, a). (gpu_name g @ ''-'' @ Itoa (int i), ''/sys/bus/pci/devices/'' @ TrimSpace a))
            (enumerate 0 (Split CHR '','' envVal)))) (gpu_configs getenv gs))"

text \<open>Every file system makes the memory shared, also one without a volume.\<close>

definition add_fs :: "'w pod_env \<Rightarrow> volume list \<Rightarrow> string \<Rightarrow> ch_config \<Rightarrow> ('w, 'o, ch_config) pact" where
  "add_fs k vols fs c =
    bind (run k ''create virtiofsd socket dir'' (MkdirAll ''/var/run/ch-vmm/virtiofsd'')) (\<lambda>_.
    case named_volume fs vols of None \<Rightarrow> ret (set_shared c)
    | Some vol \<Rightarrow> (let socketPath = ''/var/run/ch-vmm/virtiofsd/'' @ v_name vol @ ''.sock'' in
      bind (run k ''start virtiofsd'' (Start [''/usr/lib/qemu/virtiofsd'', ''--socket-path='' @ socketPath,
          ''-o'', ''source=/mnt/'' @ v_name vol, ''-o'', ''sandbox=chroot''])) (\<lambda>_.
      ret (set_shared c\<lparr>ch_Fs := ch_Fs c @ [\<lparr>fc_Id = fs, fc_Socket = socketPath, fc_Tag = fs, fc_NumQueues = 1, fc_QueueSize = 1024\<rparr>]\<rparr>))))"

definition no_net :: net_config where
  "no_net = \<lparr>nt_Id = [], nt_Mac = [], nt_Mtu = 0, nt_Tap = [], nt_VhostUser = False, nt_VhostMode = [], nt_VhostSocket = []\<rparr>"

definition add_net :: "net_config \<Rightarrow> ch_config \<Rightarrow> ch_config" where
  "add_net n c = c\<lparr>ch_Net := ch_Net c @ [n]\<rparr>"

definition link_name :: "nat \<Rightarrow> network \<Rightarrow> err + string" where
  "link_name networkIndex net = (if n_Pod net then Inr ''eth0'' else if n_Multus net \<noteq> None then Inr (''net'' @ Itoa (int networkIndex))
     else Inl (ErrNew (''invalid source of network '' @ n_name net)))"

definition add_interface :: "'w pod_env \<Rightarrow> network_status list \<Rightarrow> iface \<Rightarrow> nat \<times> network \<Rightarrow> ch_config \<Rightarrow> ('w, 'o, ch_config) pact" where
  "add_interface k statuses ifc inet c = (let (networkIndex, net) = inet in
    if n_name net \<noteq> if_name ifc then ret c
    else (case link_name networkIndex net of Inl e \<Rightarrow> throw e
    | Inr linkName \<Rightarrow>
      if if_Bridge ifc then
        bind (mapErr (ErrS ''setup bridge network'') (setupBridgeNetwork k linkName
            (''169.254.'' @ Itoa (200 + int networkIndex) @ ''.1/30'') (no_net\<lparr>nt_Id := if_name ifc\<rparr>))) (\<lambda>n. ret (add_net n c))
      else (case if_Masquerade ifc of Some cidr \<Rightarrow>
        bind (mapErr (ErrS ''setup masquerade network'') (setupMasqueradeNetwork k linkName cidr
            (no_net\<lparr>nt_Id := if_name ifc, nt_Mac := if_MAC ifc\<rparr>))) (\<lambda>n. ret (add_net n c))
      | None \<Rightarrow>
        if if_SRIOV ifc then ret (c\<lparr>ch_Devices := ch_Devices c @ concat (map (\<lambda>ns. case ns_PciAddress ns of
            Some a \<Rightarrow> if ns_Interface ns = linkName then [(if_name ifc, ''/sys/bus/pci/devices/'' @ a)] else [] | None \<Rightarrow> []) statuses)\<rparr>)
        else if if_VDPA ifc then ret (c\<lparr>ch_Vdpa := ch_Vdpa c @ concat (map (\<lambda>ns. case ns_VdpaPath ns of
            Some p \<Rightarrow> if ns_Interface ns = linkName then [\<lparr>va_Id = if_name ifc, va_NumQueues = if_VDPA_NumQueues ifc,
                va_Iommu = if_VDPA_IOMMU ifc, va_Path = p\<rparr>] else [] | None \<Rightarrow> []) statuses)\<rparr>)
        else if if_VhostUser ifc then
          bind (mapErr (ErrS ''setup vhost-user network'') (setupVhostUserNetwork k linkName
            (no_net\<lparr>nt_Id := if_name ifc, nt_Mac := if_MAC ifc, nt_VhostUser := True, nt_VhostMode := ''Server''\<rparr>)))
            (\<lambda>n. ret (set_shared (add_net n c)))
        else ret c)))"

definition add_interfaces :: "'w pod_env \<Rightarrow> network_status list \<Rightarrow> network list \<Rightarrow> iface \<Rightarrow> ch_config \<Rightarrow> ('w, 'o, ch_config) pact" where
  "add_interfaces k statuses nets ifc = fold_act (add_interface k statuses ifc) (enumerate 0 nets)"

definition block_volumes :: "(string \<Rightarrow> string) \<Rightarrow> string set" where
  "block_volumes getenv = set (Split CHR '','' (getenv ''BLOCK_VOLUMES''))"

definition lift_sum :: "err + 'a \<Rightarrow> ('w, 'o, 'a) pact" where
  "lift_sum r = (case r of Inl e \<Rightarrow> throw e | Inr a \<Rightarrow> ret a)"

definition buildChVMConfig :: "'w host_env \<Rightarrow> ext \<Rightarrow> vm \<Rightarrow> ('w, 'o, ch_config) pact" where
  "buildChVMConfig k x v = (let spec = vm_spec v; i = s_Instance spec; env = eGetenv (hNet k); c = base_config (hArm64 k) i in
    bind (pinCPUs k (i_cpu i)) (\<lambda>pins.
    bind (lift_sum (disk_configs x (block_volumes env) (s_Volumes spec) (i_disks i))) (\<lambda>disks.
    bind (lift_sum (pmem_configs x (block_volumes env) (s_Volumes spec) (i_pmem i))) (\<lambda>pmems.
    bind (lift_sum (gpu_configs env (i_gpus i))) (\<lambda>gpus.
    bind (fold_act (add_fs (hNet k) (s_Volumes spec)) (i_fileSystems i)
      (c\<lparr>ch_Cpus := (ch_Cpus c)\<lparr>cc_Affinity := pins\<rparr>, ch_Disks := disks, ch_Pmem := pmems, ch_Devices := gpus\<rparr>)) (\<lambda>c.
    bind (lift_sum (if env ''NETWORK_STATUS'' = [] then Inr [] else hNetworkStatus k (env ''NETWORK_STATUS''))) (\<lambda>statuses.
    bind (fold_act (add_interfaces (hNet k) statuses (s_Networks spec)) (i_interfaces i) c) (\<lambda>c.
    ret (c\<lparr>ch_Vsock := Some (3, ''/var/run/ch-vmm/agent.vsock'')\<rparr>)))))))))"

section \<open>The memory snapshot and the program\<close>

definition unpack :: "'w archive_env \<Rightarrow> string \<Rightarrow> string \<Rightarrow> ('w, 'o, unit) pact" where
  "unpack k destDir file s = (case ExtractArchive k destDir file \<lparr>world = world s, obj = (), trace = []\<rparr> of (r, t) \<Rightarrow>
     (r, s\<lparr>world := world t, trace := trace s @ [Unpacked destDir file (targets (trace t)) (r = Ok ())]\<rparr>))"

definition getMemorySnapshot :: "'w host_env \<Rightarrow> string \<times> string \<Rightarrow> ('w, 'o, unit) pact" where
  "getMemorySnapshot k snap = (let (bucket, objKey) = snap; file = path_join [''/mnt/memory'', objKey] in
    bind (kread (eStat (hNet k) ''/mnt/memory/snap'')) (\<lambda>st. if st \<noteq> Missing then ret ()
    else bind (if HasPrefix bucket ''s3'' then
          kwrite (DownloadObjectFromS3 (hCloud k) (TrimPrefix bucket ''s3://'') objKey file)
            (\<lambda>r. Downloaded (TrimPrefix bucket ''s3://'') objKey file (r = None))
        else if HasPrefix bucket ''gcs'' then
          kwrite (DownloadObjectFromGCS (hCloud k) (TrimPrefix bucket ''gcs://'') objKey file)
            (\<lambda>r. Downloaded (TrimPrefix bucket ''gcs://'') objKey file (r = None))
        else ret (Some (ErrNew (''invalid Bucket name Format '' @ bucket)))) (\<lambda>r. case r of
      Some e \<Rightarrow> throw e
    | None \<Rightarrow> unpack (hArchive k) ''/mnt/memory/snap'' file)))"

definition fatal :: "string \<Rightarrow> ('w, 'o, 'c, 'a) action \<Rightarrow> ('w, 'o, 'c, 'a) action" where
  "fatal what m s = (case m s of (Err e, s') \<Rightarrow> (Panic (''exit: '' @ what), s') | r \<Rightarrow> r)"

definition prerunner_main :: "'w host_env \<Rightarrow> ext \<Rightarrow> string \<Rightarrow> bool \<Rightarrow> ('w, 'o, unit) pact" where
  "prerunner_main k x vmData receiveMigration =
    (case DecodeString vmData of None \<Rightarrow> panic ''exit: Failed to decode VM data''
     | Some vmJSON \<Rightarrow> (case hVM k vmJSON of Inl e \<Rightarrow> panic ''exit: Failed to unmarshal VM''
     | Inr v \<Rightarrow>
       bind (case List.find (\<lambda>vol. v_MemorySnapshot vol \<noteq> None) (s_Volumes (vm_spec v)) of None \<Rightarrow> ret ()
         | Some vol \<Rightarrow> fatal ''Unable to get memory snapshot with error'' (getMemorySnapshot k (the (v_MemorySnapshot vol)))) (\<lambda>_.
       bind (fatal ''Failed to build VM config'' (buildChVMConfig k x v)) (\<lambda>c.
       if receiveMigration then ret ()
       else bind (fatal ''Failed to create VM config file'' (run_raw (hNet k) (Create ''/var/run/ch-vmm/vm-config.json''))) (\<lambda>_.
         fatal ''Failed to write VM config to file'' (run_raw (hNet k) (Write ''/var/run/ch-vmm/vm-config.json'' (hEncode k c))))))))"


section \<open>When the configuration is written\<close>

abbreviation config_path :: string where "config_path \<equiv> ''/var/run/ch-vmm/vm-config.json''"

text \<open>Calls that do not create or write a file: commands, downloads to another file, and archives none of whose targets it is.\<close>

definition spares :: "string \<Rightarrow> prerun_call \<Rightarrow> bool" where
  "spares f cl \<longleftrightarrow> (case cl of Did (Create g) _ \<Rightarrow> g \<noteq> f | Did (Write g _) _ \<Rightarrow> g \<noteq> f | Did _ _ \<Rightarrow> True
     | Downloaded _ _ g _ \<Rightarrow> g \<noteq> f | Unpacked _ _ gs _ \<Rightarrow> f \<notin> set gs)"

lemma traces_run [traces]:
  "(\<And>b. P (Did c b)) \<Longrightarrow> traces P (run k what c)" "(\<And>b. P (Did c b)) \<Longrightarrow> traces P (run_raw k c)" "traces P (look what f)"
  unfolding run_def run_raw_def look_def by (intro traces; simp)+

lemma traces_lift_sum [traces]: "traces P (lift_sum r)"
  unfolding lift_sum_def by (intro traces)

lemma traces_case_list [traces]:
  "traces P m \<Longrightarrow> (\<And>x xs. traces P (n x xs)) \<Longrightarrow> traces P (case y of [] \<Rightarrow> m | x # xs \<Rightarrow> n x xs)"
  by (cases y) simp_all

lemma traces_fatal [traces]: "traces P m \<Longrightarrow> traces P (fatal what m)"
  unfolding traces_def fatal_def by (auto split: prod.split outcome.split) (metis snd_conv)+

lemma networks_spare [traces]:
  "traces (spares config_path) (setupBridgeNetwork k l cidr n)" "traces (spares config_path) (setupMasqueradeNetwork k l cidr n)"
  "traces (spares config_path) (setupVhostUserNetwork k l n)"
  unfolding setupBridgeNetwork_def setupMasqueradeNetwork_def setupVhostUserNetwork_def startBridge_def createBridge_def createTap_def
    moveAddress_def startDHCPServer_def userspaceSocket_def Let_def case_prod_beta
  by (intro traces; simp add: spares_def)+

lemma config_spares [traces]: "traces (spares config_path) (buildChVMConfig k x v)"
  unfolding buildChVMConfig_def pinCPUs_def add_fs_def add_interfaces_def add_interface_def Let_def case_prod_beta
  by (intro traces; simp add: spares_def)

lemma snap_target: "path_join [''/mnt/memory/snap'', Base n] \<noteq> config_path"
proof -
  have "Clean ''/mnt/memory/snap'' = ''/mnt/memory/snap''" "path_join [''/mnt/memory/snap'', ''..''] = ''/mnt/memory''"
    "path_join [''/mnt/memory/snap'', ''.''] = ''/mnt/memory/snap''" "path_join [''/mnt/memory/snap'', ''/''] = ''/mnt/memory/snap''"
    by code_simp+
  then show ?thesis using Base_cases [of n] path_join_entry [of "Base n" "''/mnt/memory/snap''"] by (auto simp: entry_of_def)
qed

lemma unpack_spares: "traces (spares config_path) (unpack k ''/mnt/memory/snap'' file)"
  unfolding traces_def
proof
  fix s :: "('a, 'b, prerun_call) rst"
  obtain r t where t: "ExtractArchive k ''/mnt/memory/snap'' file \<lparr>world = world s, obj = (), trace = []\<rparr> = (r, t)" by fastforce
  obtain cs where "trace t = cs" "list_all (base_target ''/mnt/memory/snap'') cs"
    using extract_targets [where k = k and d = "''/mnt/memory/snap''" and f = "file" and s = "\<lparr>world = world s, obj = (), trace = []\<rparr>"] t by auto
  then have "g \<noteq> config_path" if "g \<in> set (targets (trace t))" for g
    using that snap_target by (fastforce simp: targets_def list_all_iff base_target_def)
  then have "config_path \<notin> set (targets (trace t))" by blast
  then show "\<exists>cs. trace (snd (unpack k ''/mnt/memory/snap'' file s)) = trace s @ cs \<and> list_all (spares config_path) cs"
    by (simp add: unpack_def t spares_def)
qed

text \<open>The file a memory snapshot is downloaded to.\<close>

definition download_file :: "string \<Rightarrow> string" where
  "download_file objKey = path_join [''/mnt/memory'', objKey]"

lemma snapshot_spares: "download_file (snd snap) \<noteq> config_path \<Longrightarrow> traces (spares config_path) (getMemorySnapshot k snap)"
  unfolding getMemorySnapshot_def Let_def case_prod_beta download_file_def
  by (intro traces unpack_spares) (simp_all add: spares_def)

text \<open>A key with double dots leaves the directory: the download then replaces the configuration file.\<close>

lemma download_escapes: "download_file ''../../var/run/ch-vmm/vm-config.json'' = config_path"
  by code_simp

text \<open>What a run may do to the configuration file: nothing on the target of a migration; otherwise, when it succeeds,
  create it and write the configuration of the decoded VM, and when it fails, at most a beginning of that.\<close>

definition config_calls :: "'w host_env \<Rightarrow> ext \<Rightarrow> string \<Rightarrow> bool \<Rightarrow> bool \<Rightarrow> prerun_call list \<Rightarrow> bool" where
  "config_calls k x vmData receiveMigration ok ds \<longleftrightarrow> (if receiveMigration then ds = []
    else (\<exists>v t c t'. map_option (hVM k) (DecodeString vmData) = Some (Inr v)
        \<and> buildChVMConfig k x v (t :: ('w, unit, prerun_call) rst) = (Ok c, t')
        \<and> ds = [Did (Create config_path) True, Did (Write config_path (hEncode k c)) ok])
      \<or> (ds = [] \<or> ds = [Did (Create config_path) False]) \<and> ok = False)"

definition write_config :: "'w host_env \<Rightarrow> ch_config \<Rightarrow> ('w, 'o, unit) pact" where
  "write_config k c = bind (fatal ''Failed to create VM config file'' (run_raw (hNet k) (Create config_path))) (\<lambda>_.
     fatal ''Failed to write VM config to file'' (run_raw (hNet k) (Write config_path (hEncode k c))))"

lemma write_config_calls:
  "\<exists>ds. trace (snd (write_config k c s)) = trace s @ ds \<and> (ds = [Did (Create config_path) True, Did (Write config_path (hEncode k c)) (is_ok (fst (write_config k c s)))]
     \<or> ds = [Did (Create config_path) False] \<and> is_ok (fst (write_config k c s)) = False)"
  by (auto simp: write_config_def fatal_def run_raw_def bind_def kwrite_def ret_def throw_def split: prod.split option.split)

definition memory_volume :: "vm \<Rightarrow> volume option" where
  "memory_volume v = List.find (\<lambda>vol. v_MemorySnapshot vol \<noteq> None) (s_Volumes (vm_spec v))"

text \<open>C14: the prerunner writes the configuration last and only for a VM that is to start: if the key of the VM's memory snapshot, should it
  have one, is not a path that leads to the file, then whatever the environment
  answers, no call before touches the file, neither a command nor the download nor an entry of the archive; a run for the target of a migration does not create it at all; a
  successful run ends with creating it and writing the configuration built for the VM it decoded, and a failing one
  has written nothing or failed in writing it.\<close>

theorem prerunner_config_last:
  assumes "\<And>json v vol snap. DecodeString vmData = Some json \<Longrightarrow> hVM k json = Inr v \<Longrightarrow> memory_volume v = Some vol
      \<Longrightarrow> v_MemorySnapshot vol = Some snap \<Longrightarrow> download_file (snd snap) \<noteq> config_path"
  shows "\<exists>cs ds. trace (snd (prerunner_main k x vmData m (s :: ('w, unit, prerun_call) rst))) = trace s @ cs @ ds
     \<and> list_all (spares config_path) cs \<and> config_calls k x vmData m (is_ok (fst (prerunner_main k x vmData m s))) ds"
proof (cases "map_option (hVM k) (DecodeString vmData)")
  case (Some r)
  then obtain vmJSON where js: "DecodeString vmData = Some vmJSON" "hVM k vmJSON = r" by auto
  show ?thesis
  proof (cases r)
    case (Inr v)
    let ?snap = "case List.find (\<lambda>vol. v_MemorySnapshot vol \<noteq> None) (s_Volumes (vm_spec v)) of None \<Rightarrow> ret ()
      | Some vol \<Rightarrow> fatal ''Unable to get memory snapshot with error'' (getMemorySnapshot k (the (v_MemorySnapshot vol)))"
    let ?prep = "bind ?snap (\<lambda>_. fatal ''Failed to build VM config'' (buildChVMConfig k x v))"
    have main: "prerunner_main k x vmData m s = bind ?prep (\<lambda>c. if m then ret () else write_config k c) s"
      using js Inr by (auto simp: prerunner_main_def write_config_def bind_def split: prod.split outcome.split)
    have snap: "traces (spares config_path) (getMemorySnapshot k (the (v_MemorySnapshot vol)))"
      if f: "List.find (\<lambda>vol. v_MemorySnapshot vol \<noteq> None) (s_Volumes (vm_spec v)) = Some vol" for vol
    proof -
      have "v_MemorySnapshot vol \<noteq> None" using f by (auto simp: find_Some_iff)
      then show ?thesis using assms [of vmJSON v vol] js Inr f by (intro snapshot_spares) (auto simp: memory_volume_def)
    qed
    have tr: "traces (spares config_path) ?prep"
      using snap by (intro traces_bind config_spares traces_fatal) (auto split: option.split intro: traces)
    obtain cs where cs: "trace (snd (?prep s)) = trace s @ cs" "list_all (spares config_path) cs" using tracesD [OF tr, of s] by blast
    show ?thesis
    proof (cases "?prep s")
      case (Pair q s1)
      show ?thesis
      proof (cases q)
        case (Ok c)
        then obtain t where built: "buildChVMConfig k x v t = (Ok c, s1)"
          using Pair by (auto simp: bind_def fatal_def split: prod.splits outcome.splits)
        show ?thesis
        proof (cases m)
          case False
          then have eq: "prerunner_main k x vmData m s = write_config k c s1" using main Pair Ok by (simp add: bind_def)
          obtain ds where ds: "trace (snd (write_config k c s1)) = trace s1 @ ds"
            "ds = [Did (Create config_path) True, Did (Write config_path (hEncode k c)) (is_ok (fst (write_config k c s1)))]
              \<or> ds = [Did (Create config_path) False] \<and> is_ok (fst (write_config k c s1)) = False"
            using write_config_calls [of k c s1] by blast
          have "config_calls k x vmData m (is_ok (fst (write_config k c s1))) ds"
            using ds(2) built Some Inr False unfolding config_calls_def by auto
          then show ?thesis unfolding eq using ds(1) cs Pair by (intro exI [of _ cs] exI [of _ ds]) simp
        qed (use main Pair Ok cs in \<open>auto simp: bind_def ret_def config_calls_def\<close>)
      qed (use main Pair cs in \<open>auto simp: bind_def config_calls_def\<close>)
    qed
  qed (use js in \<open>auto simp: prerunner_main_def panic_def config_calls_def\<close>)
qed (auto simp: prerunner_main_def panic_def config_calls_def)

end
