(* ===== verification/Prerun_Pod.thy ===== *)
theory Prerun_Pod
  imports Prerunner Vm_Reconciler Vm_Daemon
begin

text \<open>
  The prerunner between the controller that builds its pod and the daemon that reads its configuration: the files
  the configuration names exist in the pod, CPUs are pinned one to one, and the VM that starts from the
  configuration has the size the daemon wants.
\<close>

section \<open>What a pod offers its main container\<close>

definition has_main :: "pod \<Rightarrow> bool" where
  "has_main p \<longleftrightarrow> ps_containers (p_spec p) \<noteq> []"

definition main_container :: "pod \<Rightarrow> container" where
  "main_container p = hd (ps_containers (p_spec p))"

definition mount_paths :: "pod \<Rightarrow> string set" where
  "mount_paths p = vmt_path ` set (c_volumeMounts (main_container p))"

definition device_paths :: "pod \<Rightarrow> string set" where
  "device_paths p = vd_path ` set (c_volumeDevices (main_container p))"

text \<open>The value of an environment variable: that of its last entry, and the empty string without one.\<close>

definition env_value :: "pod \<Rightarrow> string \<Rightarrow> string" where
  "env_value p n = (case filter (\<lambda>ev. ev_name ev = n) (rev (c_env (main_container p))) of [] \<Rightarrow> []
     | ev # _ \<Rightarrow> (case ev_value ev of Value t \<Rightarrow> t | FieldRef _ \<Rightarrow> []))"

definition provided :: "pod \<Rightarrow> string \<Rightarrow> bool" where
  "provided p path \<longleftrightarrow> path \<in> device_paths p \<or> (\<exists>m\<in>mount_paths p. \<exists>rest. path = m @ ''/'' @ rest)"

lemma has_main_edits [simp]:
  "has_main (on_main f p) = has_main p" "has_main (add_volume n src p) = has_main p" "has_main (add_mount mt p) = has_main p"
  "has_main (add_device d p) = has_main p" "has_main (add_env e w p) = has_main p" "has_main (add_init c p) = has_main p"
  "has_main (sync_init v p) = has_main p" "has_main (p\<lparr>p_meta := mm\<rparr>) = has_main p" "has_main (set_label l nm p) = has_main p"
  "has_main (p\<lparr>p_spec := (p_spec p)\<lparr>ps_nodeSelector := ns\<rparr>\<rparr>) = has_main p"
  by (auto simp: has_main_def pod_edits sync_init_def set_label_def split: list.split)

lemma main_edits [simp]:
  "has_main p \<Longrightarrow> main_container (on_main f p) = f (main_container p)"
  "main_container (add_volume n src p) = main_container p" "main_container (add_init c p) = main_container p"
  "main_container (sync_init v p) = main_container p" "main_container (p\<lparr>p_meta := mm\<rparr>) = main_container p"
  "main_container (set_label l nm p) = main_container p"
  "main_container (p\<lparr>p_spec := (p_spec p)\<lparr>ps_nodeSelector := ns\<rparr>\<rparr>) = main_container p"
  by (auto simp: has_main_def main_container_def pod_edits sync_init_def set_label_def split: list.split)

lemma main_adds [simp]:
  "has_main p \<Longrightarrow> c_volumeMounts (main_container (add_mount mt p)) = c_volumeMounts (main_container p) @ [mt]"
  "has_main p \<Longrightarrow> c_volumeDevices (main_container (add_mount mt p)) = c_volumeDevices (main_container p)"
  "has_main p \<Longrightarrow> c_env (main_container (add_mount mt p)) = c_env (main_container p)"
  "has_main p \<Longrightarrow> c_volumeMounts (main_container (add_device d p)) = c_volumeMounts (main_container p)"
  "has_main p \<Longrightarrow> c_volumeDevices (main_container (add_device d p)) = c_volumeDevices (main_container p) @ [d]"
  "has_main p \<Longrightarrow> c_env (main_container (add_device d p)) = c_env (main_container p)"
  "has_main p \<Longrightarrow> c_volumeMounts (main_container (add_env n w p)) = c_volumeMounts (main_container p)"
  "has_main p \<Longrightarrow> c_volumeDevices (main_container (add_env n w p)) = c_volumeDevices (main_container p)"
  "has_main p \<Longrightarrow> c_env (main_container (add_env n w p)) = c_env (main_container p) @ [\<lparr>ev_name = n, ev_value = w\<rparr>]"
  "c_volumeMounts (incrementContainerResource r c) = c_volumeMounts c"
  "c_volumeDevices (incrementContainerResource r c) = c_volumeDevices c"
  "c_env (incrementContainerResource r c) = c_env c"
  by (simp_all add: add_mount_def add_device_def add_env_def incrementContainerResource_def)

text \<open>\<open>offers M D b p\<close>: the main container has the mounts \<open>M\<close>, the devices \<open>D\<close> and the list \<open>b\<close> of block volumes.\<close>

definition offers :: "string set \<Rightarrow> string set \<Rightarrow> string \<Rightarrow> pod \<Rightarrow> bool" where
  "offers M D b p \<longleftrightarrow> has_main p \<and> M \<subseteq> mount_paths p \<and> D \<subseteq> device_paths p \<and> env_value p ''BLOCK_VOLUMES'' = b"

lemma offers_edits [simp]:
  "offers M D b p \<Longrightarrow> offers M D b (add_volume n src p)" "offers M D b p \<Longrightarrow> offers M D b (add_init c p)"
  "offers M D b p \<Longrightarrow> offers M D b (sync_init v p)" "offers M D b p \<Longrightarrow> offers M D b (p\<lparr>p_meta := mm\<rparr>)"
  "offers M D b p \<Longrightarrow> offers M D b (set_label l nm p)"
  "offers M D b p \<Longrightarrow> offers M D b (p\<lparr>p_spec := (p_spec p)\<lparr>ps_nodeSelector := ns\<rparr>\<rparr>)"
  "offers M D b p \<Longrightarrow> offers M D b (on_main (incrementContainerResource r) p)"
  "offers M D b p \<Longrightarrow> offers M D b (add_mount mt p)" "offers M D b p \<Longrightarrow> offers M D b (add_device d p)"
  "offers M D b p \<Longrightarrow> n \<noteq> ''BLOCK_VOLUMES'' \<Longrightarrow> offers M D b (add_env n w p)"
  by (auto simp: offers_def mount_paths_def device_paths_def env_value_def)

lemma offers_add:
  "offers M D b p \<Longrightarrow> offers (insert (vmt_path mt) M) D b (add_mount mt p)"
  "offers M D b p \<Longrightarrow> offers M (insert (vd_path d) D) b (add_device d p)"
  "offers M D b p \<Longrightarrow> offers M D t (add_env ''BLOCK_VOLUMES'' (Value t) p)"
  by (auto simp: offers_def mount_paths_def device_paths_def env_value_def)

lemma offers_incMain: "offers M D b p \<Longrightarrow> returns (offers M D b) (incMain r p)"
  by (rule returns_incMain) simp

lemma offers_base: "offers {''/hotplug-volumes''} {} [] (base_pod x pr v)"
  by (simp add: offers_def has_main_def mount_paths_def main_container_def env_value_def base_pod_def empty_container_def)

lemma offers_start: "returns (offers {''/hotplug-volumes''} {} []) (start_pod x pr v)"
  unfolding start_pod_def
  by (rule returns_bind [OF offers_incMain [OF offers_base]], rule returns_bind [OF offers_incMain], assumption, rule returns_writePod) simp

lemma offers_parts:
  "offers M D b p \<Longrightarrow> offers M D b (add_kernel v p)" "offers M D b p \<Longrightarrow> offers M D b (add_hugepages v p)"
  by (simp_all add: add_kernel_def add_hugepages_def Let_def split: option.split)

section \<open>The volumes\<close>

definition mnt :: "volume \<Rightarrow> string" where
  "mnt vol = vmt_path (volume_mnt vol)"

text \<open>Which volumes the builder mounts and which it makes devices, given the list of block volumes.\<close>

definition wants_mount :: "ext \<Rightarrow> string list \<Rightarrow> volume \<Rightarrow> bool" where
  "wants_mount x bs vol \<longleftrightarrow> (if is_claim vol then \<not> IsHotpluggable x vol \<and> v_name vol \<notin> set bs
     else v_ContainerDisk vol \<noteq> None \<or> v_CloudInit vol \<noteq> None \<or> v_ContainerRootfs vol \<noteq> None \<or> v_MemorySnapshot vol \<noteq> None)"

definition wants_device :: "ext \<Rightarrow> string list \<Rightarrow> volume \<Rightarrow> bool" where
  "wants_device x bs vol \<longleftrightarrow> is_claim vol \<and> \<not> IsHotpluggable x vol \<and> v_name vol \<in> set bs"

definition in_mnt :: "(volume \<Rightarrow> bool) \<Rightarrow> volume list \<Rightarrow> string set" where
  "in_mnt P vols = mnt ` set (filter P vols)"

definition vols_offered :: "ext \<Rightarrow> volume list \<Rightarrow> pod \<times> string list \<Rightarrow> bool" where
  "vols_offered x vols st \<longleftrightarrow> distinct (map v_name vols) \<longrightarrow> set (snd st) \<subseteq> v_name ` set (filter is_claim vols)
     \<and> offers (insert ''/hotplug-volumes'' (in_mnt (wants_mount x (snd st)) vols)) (in_mnt (wants_device x (snd st)) vols) [] (fst st)"

lemma in_mnt_snoc [simp]: "in_mnt P (vols @ [vol]) = (if P vol then insert (mnt vol) (in_mnt P vols) else in_mnt P vols)"
  by (auto simp: in_mnt_def)

lemma in_mnt_fresh [simp]:
  assumes "v_name vol \<notin> v_name ` set vols"
  shows "in_mnt (wants_mount x (bs @ [v_name vol])) vols = in_mnt (wants_mount x bs) vols"
    and "in_mnt (wants_device x (bs @ [v_name vol])) vols = in_mnt (wants_device x bs) vols"
proof -
  have "v_name w \<noteq> v_name vol" if "w \<in> set vols" for w using assms that by (metis imageI)
  then show "in_mnt (wants_mount x (bs @ [v_name vol])) vols = in_mnt (wants_mount x bs) vols"
    and "in_mnt (wants_device x (bs @ [v_name vol])) vols = in_mnt (wants_device x bs) vols"
    by (auto simp: in_mnt_def wants_mount_def wants_device_def)
qed

lemma offers_scratch: "offers M D b p \<Longrightarrow> offers (insert (mnt vol) M) D b (scratch_volume vol p)"
  using offers_add(1) [of M D b "add_volume (v_name vol) (EmptyDir []) p" "volume_mnt vol"]
  by (simp add: scratch_volume_def mnt_def)

lemma offers_init_volume: "offers M D b p \<Longrightarrow> offers (insert (mnt vol) M) D b (init_volume v vol img pol ar p)"
  by (simp add: init_volume_def offers_scratch)

lemma offers_cloud_init:
  assumes "offers M D b p"
  shows "offers (insert (mnt vol) M) D b (cloud_init_volume prr v vol ci p)"
proof -
  have "offers M D b (snd (snd (user_data ci c p)))" for c using assms by (simp add: user_data_def)
  moreover have "offers M D b q \<Longrightarrow> offers M D b (snd (network_data ci q))" for q by (simp add: network_data_def)
  ultimately have "offers M D b (snd (network_data ci (snd (snd (user_data ci c p)))))" for c by blast
  then show ?thesis by (simp add: cloud_init_volume_def Let_def offers_scratch case_prod_beta)
qed

lemma offers_claim:
  "offers (insert h M) D b p \<Longrightarrow> offers (insert h (insert (mnt vol) M)) D b (add_mount (volume_mnt vol) (add_volume n src p))"
  "offers M D b p \<Longrightarrow> offers M (insert (mnt vol) D) b (add_device \<lparr>vd_name = n', vd_path = ''/mnt/'' @ v_name vol\<rparr> (add_volume n src p))"
  using offers_add(1) [of "insert h M" D b "add_volume n src p" "volume_mnt vol"]
    offers_add(2) [of M D b "add_volume n src p" "\<lparr>vd_name = n', vd_path = ''/mnt/'' @ v_name vol\<rparr>"]
  by (simp_all add: mnt_def insert_commute) (simp add: volume_mnt_def)

lemma vols_offered_step:
  assumes "vols_offered x vols st"
  shows "returns (vols_offered x (vols @ [vol])) (pod_add_volume k x prr vol st)"
proof (cases "distinct (map v_name (vols @ [vol]))")
  case True
  then have fresh: "v_name vol \<notin> v_name ` set vols" and d: "distinct (map v_name vols)" by auto
  then have bs: "set (snd st) \<subseteq> v_name ` set (filter is_claim vols)" "v_name vol \<notin> set (snd st)"
    and off: "offers (insert ''/hotplug-volumes'' (in_mnt (wants_mount x (snd st)) vols)) (in_mnt (wants_device x (snd st)) vols) [] (fst st)"
    using assms by (auto simp: vols_offered_def)
  note new = offers_init_volume [OF off, of vol] offers_cloud_init [OF off, of vol] offers_scratch [OF off, of vol]
    offers_claim(1) [OF off, where vol = vol] offers_claim(2) [OF off, where vol = vol] off
  show ?thesis
    unfolding pod_add_volume_def claim_volume_def Let_def case_prod_beta
    by (intro returns_bind_any returns)
      (use fresh bs new in \<open>simp_all add: vols_offered_def wants_mount_def wants_device_def is_claim_def insert_commute subset_insertI2\<close>)
qed (auto simp: vols_offered_def returns_def)


text \<open>What the pod offers in the end: some list of block volumes is in its environment, and the mounts and devices
  follow it.\<close>

definition pod_offers :: "ext \<Rightarrow> volume list \<Rightarrow> pod \<Rightarrow> bool" where
  "pod_offers x vols p \<longleftrightarrow> (\<exists>bs. set bs \<subseteq> v_name ` set (filter is_claim vols) \<and> offers (insert ''/hotplug-volumes'' (in_mnt (wants_mount x bs) vols))
     (in_mnt (wants_device x bs) vols) (Join '','' bs) p)"

lemma pod_offers_I:
  "set bs \<subseteq> v_name ` set (filter is_claim vols) \<Longrightarrow> offers (insert ''/hotplug-volumes'' (in_mnt (wants_mount x bs) vols)) (in_mnt (wants_device x bs) vols) (Join '','' bs) p
    \<Longrightarrow> pod_offers x vols p"
  by (auto simp: pod_offers_def)

lemma pod_offers_mono: "pod_offers x vols p \<Longrightarrow> (\<And>M D b. offers M D b p \<Longrightarrow> offers M D b q) \<Longrightarrow> pod_offers x vols q"
  by (auto simp: pod_offers_def)

lemma pod_offers_edits [simp]:
  "pod_offers x vols p \<Longrightarrow> pod_offers x vols (add_volume n src p)" "pod_offers x vols p \<Longrightarrow> pod_offers x vols (add_init c p)"
  "pod_offers x vols p \<Longrightarrow> pod_offers x vols (sync_init v p)" "pod_offers x vols p \<Longrightarrow> pod_offers x vols (p\<lparr>p_meta := mm\<rparr>)"
  "pod_offers x vols p \<Longrightarrow> pod_offers x vols (p\<lparr>p_spec := (p_spec p)\<lparr>ps_nodeSelector := ns\<rparr>\<rparr>)"
  "pod_offers x vols p \<Longrightarrow> pod_offers x vols (on_main (incrementContainerResource r) p)"
  "pod_offers x vols p \<Longrightarrow> pod_offers x vols (add_mount mt p)"
  "pod_offers x vols p \<Longrightarrow> n \<noteq> ''BLOCK_VOLUMES'' \<Longrightarrow> pod_offers x vols (add_env n w p)"
  by (erule pod_offers_mono, simp)+

lemma pod_volumes_offers:
  assumes "distinct (map v_name (s_Volumes (vm_spec v)))" and "offers {''/hotplug-volumes''} {} [] p"
  shows "returns (pod_offers x (s_Volumes (vm_spec v))) (pod_volumes k x prr v p)"
proof -
  let ?vols = "s_Volumes (vm_spec v)"
  have fin: "pod_offers x ?vols (if bs \<noteq> [] then add_env ''BLOCK_VOLUMES'' (Value (Join '','' bs)) q else q)"
    if "vols_offered x ?vols (q, bs)" for q bs
  proof (rule pod_offers_I [of bs])
    show "set bs \<subseteq> v_name ` set (filter is_claim ?vols)" using that assms(1) by (auto simp: vols_offered_def)
    show "offers (insert ''/hotplug-volumes'' (in_mnt (wants_mount x bs) ?vols)) (in_mnt (wants_device x bs) ?vols) (Join '','' bs)
        (if bs \<noteq> [] then add_env ''BLOCK_VOLUMES'' (Value (Join '','' bs)) q else q)"
      using that assms(1) offers_add(3) by (auto simp: vols_offered_def)
  qed
  have "returns (vols_offered x ?vols) (fold_act (pod_add_volume k x prr) ?vols (p, []))"
  proof (rule returns_fold_act [where I = "vols_offered x"])
    show "vols_offered x [] (p, [])" using assms(2) by (simp add: vols_offered_def in_mnt_def)
  qed (rule vols_offered_step)
  then show ?thesis unfolding pod_volumes_def by (rule returns_bind) (simp add: case_prod_beta returns_ret fin)
qed

lemma pod_offers_incMain: "pod_offers x vols p \<Longrightarrow> returns (pod_offers x vols) (incMain r p)"
  by (rule returns_incMain) simp

lemma pod_offers_vhost: "pod_offers x' vols p \<Longrightarrow> returns (\<lambda>r. pod_offers x' vols (fst r)) (vhost_user x ifc nd p n)"
proof -
  assume p: "pod_offers x' vols p"
  have "returns (pod_offers x' vols) (kube_ovn ifc cfg p)" for cfg
    unfolding kube_ovn_def
    by (rule returns_bind [where Q = "pod_offers x' vols"], rule returns_writePod, simp add: p)
      (rule returns_bind [where Q = "pod_offers x' vols"], rule returns_put_annotation, simp, rule returns_ret, simp)
  then show ?thesis unfolding vhost_user_def by (intro returns returns_bind) (use p in \<open>simp_all add: userspace_net_def\<close>)
qed

lemma pod_offers_multus:
  assumes "pod_offers x' vols (fst st)"
  shows "returns (\<lambda>r. pod_offers x' vols (fst r)) (multus k x v i nn ifc st)"
proof -
  obtain p ns n where st: "st = (p, ns, n)" by (cases st)
  have inc: "returns (pod_offers x' vols) (if r \<noteq> [] then incMain r p else ret p)" for r
    using assms st by (simp add: pod_offers_incMain returns_ret)
  show ?thesis
    unfolding multus_def Let_def st prod.case
    by (rule returns_bind_any, rule returns_case_sum, rule returns_throw)
      (rule returns_bind [OF inc], rule returns_bind [OF pod_offers_vhost [where x' = x' and vols = vols]], simp_all add: returns_ret case_prod_beta)
qed

lemma pod_offers_network:
  "pod_offers x' vols (fst st) \<Longrightarrow> returns (\<lambda>r. pod_offers x' vols (fst r)) (pod_add_network k x prr inet st)"
  unfolding pod_add_network_def Let_def case_prod_beta
  by (intro returns_bind_any returns pod_offers_multus) (auto split: option.split)

lemma pod_offers_networks: "pod_offers x' vols p \<Longrightarrow> returns (pod_offers x' vols) (pod_networks k x prr v p)"
  unfolding pod_networks_def case_prod_beta
  by (rule returns_bind [OF returns_fold_act_inv [where I = "\<lambda>st. pod_offers x' vols (fst st)"]])
    (simp_all add: pod_offers_network returns_ret returns_put_annotation)

lemma buildVMPod_offers:
  assumes "buildVMPod k x pr s = (Ok p, s')" and "distinct (map v_name (s_Volumes (vm_spec (obj s))))"
  shows "pod_offers x (s_Volumes (vm_spec (obj s))) p"
proof -
  let ?I = "pod_offers x (s_Volumes (vm_spec (obj s)))"
  obtain p0 s0 p1 s1 p2 s2 q where start: "start_pod x pr (obj s) s = (Ok p0, s0)"
    and vol: "pod_volumes k x pr (obj s) (add_hugepages (obj s0) (add_kernel (obj s0) p0)) s0 = (Ok p1, s1)"
    and gpu: "fold_act (\<lambda>g. incMain (gpu_resourceName g)) (i_gpus (s_Instance (vm_spec (obj s)))) p1 s1 = (Ok p2, s2)"
    and net: "pod_networks k x pr (obj s) p2 s2 = (Ok q, s')"
    and p: "p = add_env ''VM_DATA'' (Value (EncodeToString (json_VM x (obj s')))) q"
    using assms(1) unfolding buildVMPod_def bind_Ok getObj_def ret_def by auto
  have "offers {''/hotplug-volumes''} {} [] (add_hugepages (obj s0) (add_kernel (obj s0) p0))"
    using returnsD [OF offers_start start] by (simp add: offers_parts)
  then have "?I p1" using returnsD [OF pod_volumes_offers [OF assms(2)] vol] by blast
  then have "?I p2" using returnsD [OF returns_fold_act_inv [where I = ?I] gpu] pod_offers_incMain by blast
  then have "?I q" using returnsD [OF pod_offers_networks net] by blast
  then show ?thesis using p by simp
qed

section \<open>The volumes of the VM\<close>

text \<open>Building the pod leaves the VM's volumes, networks and instance alone.\<close>

definition devices_of :: "vm \<Rightarrow> volume list \<times> network list \<times> vm_instance" where
  "devices_of v = (s_Volumes (vm_spec v), s_Networks (vm_spec v), s_Instance (vm_spec v))"

lemma keeps_vols_writePod [keeps]: "keeps (\<lambda>s. devices_of (obj s)) (writePod p)"
  unfolding writePod_def by (rule keeps_bind, simp add: keeps_def modObj_def sync_def devices_of_def, intro keeps)

lemma keeps_vols_build [keeps]: "keeps (\<lambda>s. devices_of (obj s)) (buildVMPod k x pr)"
  unfolding buildVMPod_def start_pod_def pod_volumes_def pod_networks_def incMain_def pod_add_network_def multus_def vhost_user_def
    kube_ovn_def put_annotation_def Let_def by (intro keeps)


section \<open>The configuration\<close>

text \<open>File systems and interfaces leave these parts of the configuration alone.\<close>

definition fixed_part :: "ch_config \<Rightarrow> ch_cpus \<times> int \<times> ch_disk list \<times> (string \<times> string) list" where
  "fixed_part c = (ch_Cpus c, cm_Size (ch_Memory c), ch_Disks c, ch_Pmem c)"

lemma fixed_part_upd [simp]:
  "fixed_part (set_shared c) = fixed_part c" "fixed_part (add_net n c) = fixed_part c" "fixed_part (c\<lparr>ch_Fs := f\<rparr>) = fixed_part c"
  "fixed_part (c\<lparr>ch_Devices := d\<rparr>) = fixed_part c" "fixed_part (c\<lparr>ch_Vdpa := a\<rparr>) = fixed_part c" "fixed_part (c\<lparr>ch_Vsock := o'\<rparr>) = fixed_part c"
  by (simp_all add: fixed_part_def set_shared_def add_net_def)

lemma add_fs_fixed: "fixed_part c = f \<Longrightarrow> returns (\<lambda>c. fixed_part c = f) (add_fs k vols fs c)"
  unfolding add_fs_def Let_def by (intro returns_bind_any returns) simp_all

lemma add_interface_fixed: "fixed_part c = f \<Longrightarrow> returns (\<lambda>c. fixed_part c = f) (add_interface k sts ifc inet c)"
  unfolding add_interface_def Let_def case_prod_beta by (intro returns_bind_any returns) simp_all

lemma add_interfaces_fixed: "fixed_part c = f \<Longrightarrow> returns (\<lambda>c. fixed_part c = f) (add_interfaces k sts nets ifc c)"
  unfolding add_interfaces_def by (rule returns_fold_act_inv) (simp_all add: add_interface_fixed)

lemma lift_sum_Ok: "lift_sum r s = (Ok a, s') \<longleftrightarrow> r = Inr a \<and> s' = s"
  by (auto simp: lift_sum_def throw_def ret_def split: sum.split)

lemma buildChVMConfig_Ok:
  assumes "buildChVMConfig k x v s = (Ok c, s')"
  obtains pins where "pinCPUs k (i_cpu (s_Instance (vm_spec v))) s = (Ok pins, s)"
    and "disk_configs x (block_volumes (eGetenv (hNet k))) (s_Volumes (vm_spec v)) (i_disks (s_Instance (vm_spec v))) = Inr (ch_Disks c)"
    and "pmem_configs x (block_volumes (eGetenv (hNet k))) (s_Volumes (vm_spec v)) (i_pmem (s_Instance (vm_spec v))) = Inr (ch_Pmem c)"
    and "ch_Cpus c = (ch_Cpus (base_config (hArm64 k) (s_Instance (vm_spec v))))\<lparr>cc_Affinity := pins\<rparr>"
    and "cm_Size (ch_Memory c) = q_Value (mem_Size (i_memory (s_Instance (vm_spec v))))"
proof -
  let ?i = "s_Instance (vm_spec v)" and ?b = "block_volumes (eGetenv (hNet k))" and ?vols = "s_Volumes (vm_spec v)"
  let ?c = "base_config (hArm64 k) ?i"
  obtain pins s0 disks pmems gpus c1 s1 sts c2 s2 where pins: "pinCPUs k (i_cpu ?i) s = (Ok pins, s0)"
    and d: "disk_configs x ?b ?vols (i_disks ?i) = Inr disks" and m: "pmem_configs x ?b ?vols (i_pmem ?i) = Inr pmems"
    and fs: "fold_act (add_fs (hNet k) ?vols) (i_fileSystems ?i)
      (?c\<lparr>ch_Cpus := (ch_Cpus ?c)\<lparr>cc_Affinity := pins\<rparr>, ch_Disks := disks, ch_Pmem := pmems, ch_Devices := gpus\<rparr>) s0 = (Ok c1, s1)"
    and nets: "fold_act (add_interfaces (hNet k) sts (s_Networks (vm_spec v))) (i_interfaces ?i) c1 s1 = (Ok c2, s2)"
    and c: "c = c2\<lparr>ch_Vsock := Some (3, ''/var/run/ch-vmm/agent.vsock'')\<rparr>"
    using assms unfolding buildChVMConfig_def Let_def bind_Ok lift_sum_Ok ret_def by auto
  have s0: "s0 = s" using pins by (auto simp: pinCPUs_def Let_def bind_def kread_def ret_def throw_def panic_def split: if_splits option.splits sum.splits)
  let ?f = "((ch_Cpus ?c)\<lparr>cc_Affinity := pins\<rparr>, q_Value (mem_Size (i_memory ?i)), disks, pmems)"
  have "fixed_part c1 = ?f"
    by (rule returnsD [OF returns_fold_act_inv [where I = "\<lambda>c. fixed_part c = ?f"] fs])
      (simp_all add: add_fs_fixed, simp add: fixed_part_def base_config_def Let_def)
  then have "fixed_part c2 = ?f"
    by (rule returnsD [OF returns_fold_act_inv [where I = "\<lambda>c. fixed_part c = ?f"] nets]) (simp add: add_interfaces_fixed)
  then show thesis using that [of pins] pins d m c s0 by (simp add: fixed_part_def)
qed

lemma map_sum_Inr: "map_sum id f r = Inr y \<longleftrightarrow> (\<exists>z. r = Inr z \<and> y = f z)"
  by (cases r) auto

lemma named_volume_Some: "named_volume n vols = Some vol \<Longrightarrow> vol \<in> set vols \<and> v_name vol = n"
  by (auto simp: named_volume_def find_Some_iff)

definition some_volume :: "ext \<Rightarrow> string set \<Rightarrow> volume list \<Rightarrow> string \<Rightarrow> bool" where
  "some_volume x b vols path \<longleftrightarrow> (\<exists>vol\<in>set vols. volume_path x b vol = Inr path)"

lemma some_volumeI: "named_volume n vols = Some vol \<Longrightarrow> volume_path x b vol = Inr path \<Longrightarrow> some_volume x b vols path"
  using named_volume_Some by (auto simp: some_volume_def)

lemma disk_configs_Inr:
  "disk_configs x b vols ds = Inr cs \<Longrightarrow> map dc_Id cs = map dk_name (filter (\<lambda>d. named_volume (dk_name d) vols \<noteq> None) ds)
     \<and> list_all (\<lambda>d. some_volume x b vols (dc_Path d)) cs"
proof (induction ds arbitrary: cs)
  case (Cons d ds)
  show ?case
  proof (cases "named_volume (dk_name d) vols")
    case (Some vol)
    then show ?thesis using Cons by (auto simp: map_sum_Inr some_volumeI split: sum.splits)
  qed (use Cons in simp)
qed simp

lemma pmem_configs_Inr:
  "pmem_configs x b vols ns = Inr cs \<Longrightarrow> list_all (\<lambda>d. some_volume x b vols (snd d)) cs"
proof (induction ns arbitrary: cs)
  case (Cons n ns)
  show ?case
  proof (cases "named_volume n vols")
    case (Some vol)
    then show ?thesis using Cons by (auto simp: map_sum_Inr some_volumeI split: sum.splits)
  qed (use Cons in simp)
qed simp

text \<open>Reading the list of block volumes back.\<close>

lemma block_volumes_Join:
  assumes "getenv ''BLOCK_VOLUMES'' = Join '','' bs" and "\<forall>n\<in>set bs. CHR '','' \<notin> set n" and "n \<noteq> []"
  shows "n \<in> block_volumes getenv \<longleftrightarrow> n \<in> set bs"
proof (cases "bs = []")
  case True
  then show ?thesis using assms by (simp add: block_volumes_def)
next
  case False
  then show ?thesis using assms Split_Join [of bs "CHR '',''"] by (simp add: block_volumes_def)
qed

lemma volume_path_provided:
  assumes "pod_offers x vols p" and "eGetenv e ''BLOCK_VOLUMES'' = env_value p ''BLOCK_VOLUMES''"
    and dist: "distinct (map v_name vols)" and names: "\<forall>vol\<in>set vols. plain_name (v_name vol) \<and> CHR '','' \<notin> set (v_name vol)"
    and vol: "vol \<in> set vols" and path: "volume_path x (block_volumes (eGetenv e)) vol = Inr path"
  shows "provided p path"
proof -
  obtain bs where bs: "set bs \<subseteq> v_name ` set (filter is_claim vols)" and off: "offers (insert ''/hotplug-volumes'' (in_mnt (wants_mount x bs) vols))
      (in_mnt (wants_device x bs) vols) (Join '','' bs) p"
    using assms(1) by (auto simp: pod_offers_def)
  have block: "v_name vol \<in> block_volumes (eGetenv e) \<longleftrightarrow> v_name vol \<in> set bs"
    by (rule block_volumes_Join) (use assms(2) off bs names vol in \<open>auto simp: offers_def plain_name_def\<close>)
  have hot: "provided p (''/hotplug-volumes/'' @ r)" for r
    using off by (auto simp: provided_def offers_def intro!: bexI [of _ "''/hotplug-volumes''"])
  have mounted: "provided p (''/mnt/'' @ v_name vol @ ''/'' @ r)" if "wants_mount x bs vol" for r
  proof -
    have "mnt vol \<in> mount_paths p" using off vol that by (auto simp: offers_def in_mnt_def)
    then show ?thesis by (auto simp: provided_def mnt_def volume_mnt_def intro!: bexI [of _ "''/mnt/'' @ v_name vol"])
  qed
  have device: "provided p (''/mnt/'' @ v_name vol)" if "wants_device x bs vol"
  proof -
    have "mnt vol \<in> device_paths p" using off vol that by (auto simp: offers_def in_mnt_def)
    then show ?thesis by (simp add: provided_def mnt_def volume_mnt_def)
  qed
  have plain: "plain_name (v_name vol)" using names vol by blast
  then have plain': "plain_name (v_name vol @ ''.img'')" "plain_name ''disk.img''" by (auto simp: plain_name_def)
  have clean: "Clean ''/mnt'' = ''/mnt''" "Clean ''/hotplug-volumes'' = ''/hotplug-volumes''" by code_simp+
  have hot_file: "path_join [''/hotplug-volumes'', v_name vol @ ''.img''] = ''/hotplug-volumes/'' @ v_name vol @ ''.img''"
    using path_join_entry [OF plain'(1)] clean(2) by (simp add: entry_of_def)
  have "Clean (''/mnt/'' @ v_name vol) = ''/mnt/'' @ v_name vol"
    using path_join_entry [OF plain, of "''/mnt''"] clean(1) plain by (simp add: path_join_def entry_of_def plain_name_def)
  then have mnt_file: "path_join [''/mnt'', v_name vol, ''disk.img''] = ''/mnt/'' @ v_name vol @ ''/disk.img''"
    using path_join_entry [OF plain'(2), of "''/mnt/'' @ v_name vol"] plain by (simp add: path_join_def entry_of_def plain_name_def)
  have claim: "is_claim vol" if "v_name vol \<in> set bs"
    using that bs vol dist by (auto simp: distinct_map dest: inj_onD)
  show ?thesis
  proof (cases "v_ContainerDisk vol = None \<and> v_CloudInit vol = None \<and> v_ContainerRootfs vol = None")
    case False
    then have "wants_mount x bs vol" by (auto simp: wants_mount_def is_claim_def)
    moreover have "\<exists>r. path = ''/mnt/'' @ v_name vol @ ''/'' @ r" using path False by (auto simp: volume_path_def split: if_splits)
    ultimately show ?thesis using mounted by blast
  next
    case True
    then have src: "v_PersistentVolumeClaim vol \<noteq> None \<or> v_DataVolume vol \<noteq> None \<or> v_VirtualDisk vol \<noteq> None"
      and eq: "path = (if IsHotpluggable x vol then ''/hotplug-volumes/'' @ v_name vol @ (if v_name vol \<in> set bs then [] else ''.img'')
        else ''/mnt/'' @ v_name vol @ (if v_name vol \<in> set bs then [] else ''/disk.img''))"
      using path block by (auto simp: volume_path_def hot_file mnt_file split: if_splits)
    show ?thesis
    proof (cases "IsHotpluggable x vol \<or> v_name vol \<in> set bs")
      case False
      then have "wants_mount x bs vol" using True src by (auto simp: wants_mount_def is_claim_def)
      then show ?thesis using mounted [of "''disk.img''"] eq False by simp
    qed (use eq hot device claim in \<open>auto simp: wants_device_def\<close>)
  qed
qed


section \<open>Properties\<close>

text \<open>C10: the disks and the persistent memory that the prerunner configures are files of its pod: for every pod that the
  controller built, with the volumes' names distinct file names without commas, and the variable \<open>BLOCK_VOLUMES\<close>
  the one of the pod, every path is that of a device of the VM manager or lies under one of its mounts; the disks
  are those of the spec that have a volume, in its order.\<close>

theorem prerunner_files:
  assumes "buildVMPod k x pr s = (Ok p, s')" and "buildChVMConfig h x (obj s') t = (Ok c, t')"
    and "distinct (map v_name (s_Volumes (vm_spec (obj s))))"
    and "\<forall>vol\<in>set (s_Volumes (vm_spec (obj s))). plain_name (v_name vol) \<and> CHR '','' \<notin> set (v_name vol)"
    and "eGetenv (hNet h) ''BLOCK_VOLUMES'' = env_value p ''BLOCK_VOLUMES''"
  shows "list_all (\<lambda>d. provided p (dc_Path d)) (ch_Disks c) \<and> list_all (\<lambda>d. provided p (snd d)) (ch_Pmem c)
    \<and> map dc_Id (ch_Disks c) = map dk_name (filter (\<lambda>d. named_volume (dk_name d) (s_Volumes (vm_spec (obj s))) \<noteq> None)
        (i_disks (s_Instance (vm_spec (obj s')))))"
proof -
  have vols: "s_Volumes (vm_spec (obj s')) = s_Volumes (vm_spec (obj s))"
    using keepsD [OF keeps_vols_build, of k x pr s] assms(1) by (simp add: devices_of_def)
  have path: "provided p path" if "some_volume x (block_volumes (eGetenv (hNet h))) (s_Volumes (vm_spec (obj s))) path" for path
    using that volume_path_provided [OF buildVMPod_offers [OF assms(1,3)] assms(5,3,4)] by (auto simp: some_volume_def)
  show ?thesis
    using assms(2)
  proof (rule buildChVMConfig_Ok)
    assume d: "disk_configs x (block_volumes (eGetenv (hNet h))) (s_Volumes (vm_spec (obj s'))) (i_disks (s_Instance (vm_spec (obj s')))) = Inr (ch_Disks c)"
      and m: "pmem_configs x (block_volumes (eGetenv (hNet h))) (s_Volumes (vm_spec (obj s'))) (i_pmem (s_Instance (vm_spec (obj s')))) = Inr (ch_Pmem c)"
    show ?thesis using disk_configs_Inr [OF d] pmem_configs_Inr [OF m] path unfolding vols by (auto simp: list_all_iff)
  qed
qed

lemma Get_finite: "Get u r = Some (Inr cs) \<Longrightarrow> finite cs"
  using parse_ranges_finite by (fastforce simp: Get_def Parse_def NewBuilder_def Result_of_def NewCPUSet_def split: option.splits sum.splits if_splits)

text \<open>C19: a VM with dedicated CPUs gets a configuration only when the pod's CPU set has as many CPUs as the VM; then
  virtual CPU \<open>i\<close> is pinned to the \<open>i\<close>-th CPU of the set, each CPU of the set serves exactly one of them, and there
  are as many as the VM boots with.\<close>

theorem dedicated_cpus:
  assumes "buildChVMConfig k x v s = (Ok c, s')" and "DedicatedCPUPlacement (i_cpu (s_Instance (vm_spec v)))"
  shows "\<exists>cs. Get (hUnified k) (\<lambda>p. hReadFile k p (world s)) = Some (Inr cs) \<and> int (card cs) = cc_BootVcpus (ch_Cpus c)
    \<and> map fst (cc_Affinity (ch_Cpus c)) = map int [0..<card cs]
    \<and> distinct (concat (map snd (cc_Affinity (ch_Cpus c)))) \<and> set (concat (map snd (cc_Affinity (ch_Cpus c)))) = cs"
  using assms(1)
proof (rule buildChVMConfig_Ok)
  fix pins
  assume pins: "pinCPUs k (i_cpu (s_Instance (vm_spec v))) s = (Ok pins, s)"
    and cpus: "ch_Cpus c = (ch_Cpus (base_config (hArm64 k) (s_Instance (vm_spec v))))\<lparr>cc_Affinity := pins\<rparr>"
  let ?cpu = "i_cpu (s_Instance (vm_spec v))"
  from pins assms(2) obtain cs where cs: "Get (hUnified k) (\<lambda>p. hReadFile k p (world s)) = Some (Inr cs)"
    and len: "int (length (ToSlice cs)) = uint (Sockets ?cpu * CoresPerSocket ?cpu)"
    and p: "pins = map (\<lambda>i. (int i, [ToSlice cs ! i])) [0..<nat (uint (Sockets ?cpu * CoresPerSocket ?cpu))]"
    by (auto simp: pinCPUs_def Let_def bind_def kread_def ret_def throw_def panic_def split: option.splits sum.splits if_splits)
  have fin: "finite cs" using Get_finite [OF cs] .
  have card: "length (ToSlice cs) = card cs" "set (ToSlice cs) = cs" "distinct (ToSlice cs)" using fin by (simp_all add: ToSlice_def)
  have "concat (map snd pins) = map ((!) (ToSlice cs)) [0..<length (ToSlice cs)]"
    unfolding p len [symmetric] by (simp add: comp_def concat_map_singleton)
  then have "concat (map snd pins) = ToSlice cs" by (simp add: map_nth)
  moreover have "map fst pins = map int [0..<card cs]" unfolding p len [symmetric] card(1) by (simp add: comp_def)
  ultimately show ?thesis using cs len card cpus by (simp add: base_config_def Let_def)
qed

lemma topology_product:
  fixes a b :: "32 word"
  assumes "2 * unat a * unat b < 2 ^ 32"
  shows "uint (a * 2) * uint b = uint (a * b * 2)" and "uint (a * b * 2) = 2 * uint (a * b)" and "uint (a * b) = uint a * uint b"
proof -
  have lt: "unat a * unat b < 2 ^ 32" using assms by simp
  then have ab: "unat (a * b) = unat a * unat b" by (simp add: unat_word_ariths)
  have ab2: "unat (a * b * 2) = 2 * (unat a * unat b)" using assms ab by (simp add: unat_word_ariths mult.commute)
  have "b = 0 \<or> 2 * unat a < 2 ^ 32"
  proof (cases "unat b = 0")
    case False
    then have "2 * unat a * 1 \<le> 2 * unat a * unat b" by (intro mult_le_mono2) simp
    from le_less_trans [OF this assms] show ?thesis by simp
  qed (simp add: unat_eq_zero)
  then have "unat (a * 2) * unat b = 2 * unat a * unat b" by (auto simp: unat_word_ariths mult.commute)
  then have "int (unat (a * 2) * unat b) = int (unat (a * b * 2))" using ab2 by (simp only: mult.assoc)
  then show "uint (a * 2) * uint b = uint (a * b * 2)" unfolding of_nat_mult uint_nat .
  have "int (unat (a * b * 2)) = 2 * int (unat (a * b))" using ab ab2 by (simp only: of_nat_mult of_nat_numeral)
  then show "uint (a * b * 2) = 2 * uint (a * b)" unfolding uint_nat .
  show "uint (a * b) = uint a * uint b" unfolding uint_nat ab by (rule of_nat_mult)
qed

text \<open>C18: while twice the number of CPUs fits in 32 bits, the topology the prerunner writes has exactly the maximal
  number of CPUs, twice the number that boots, which is the spec's; and the memory and the CPUs of a VM that boots
  from the configuration are what the daemon wants, so it needs no resize.\<close>

theorem prerunner_topology:
  assumes "buildChVMConfig k x v s = (Ok c, s')"
    and "2 * unat (Sockets (i_cpu (s_Instance (vm_spec v)))) * unat (CoresPerSocket (i_cpu (s_Instance (vm_spec v)))) < 2 ^ 32"
    and "0 \<le> mem_Size (i_memory (s_Instance (vm_spec v)))"
  shows "(let cp = ch_Cpus c; tp = cc_Topology cp in
    Packages tp * DiesPerPackage tp * CoresPerDie tp * ThreadsPerCore tp = cc_MaxVcpus cp \<and> cc_MaxVcpus cp = 2 * cc_BootVcpus cp
    \<and> cc_BootVcpus cp = uint (Sockets (i_cpu (s_Instance (vm_spec v)))) * uint (CoresPerSocket (i_cpu (s_Instance (vm_spec v))))
    \<and> \<not> needsResize (cc_BootVcpus cp) (desired_vcpus v) (cm_Size (ch_Memory c)) (desired_ram v))"
  using assms(1)
proof (rule buildChVMConfig_Ok)
  fix pins
  assume cpus: "ch_Cpus c = (ch_Cpus (base_config (hArm64 k) (s_Instance (vm_spec v))))\<lparr>cc_Affinity := pins\<rparr>"
    and size: "cm_Size (ch_Memory c) = q_Value (mem_Size (i_memory (s_Instance (vm_spec v))))"
  note prod = topology_product [OF assms(2)]
  have "0 \<le> memoryTolerance (desired_ram v)"
    using assms(3) by (simp add: memoryTolerance_def desired_ram_def q_Value_def sgn_if)
  then have "\<not> needsResize (desired_vcpus v) (desired_vcpus v) (desired_ram v) (desired_ram v)"
    by (simp add: needsResize_def Let_def wrap64_id in_int64_def)
  then show ?thesis
    using prod cpus size by (simp add: Let_def base_config_def desired_vcpus_def desired_ram_def)
qed


section \<open>Concrete runs\<close>

text \<open>A VM with one disk on a claim and two dedicated CPUs, in a pod whose CPU set is 4 and 5.\<close>

definition pinned_vm :: vm where
  "pinned_vm = (let v = plain_vm ''web'' VirtualMachineScheduling; sp = vm_spec v; i = s_Instance sp in
     v\<lparr>vm_spec := sp\<lparr>s_Volumes := [example_volume],
       s_Instance := i\<lparr>i_cpu := \<lparr>Sockets = 1, CoresPerSocket = 2, DedicatedCPUPlacement = True\<rparr>,
         i_disks := [\<lparr>dk_name = ''data'', dk_readOnly = True\<rparr>]\<rparr>\<rparr>\<rparr>)"

definition quiet_pod :: "string \<Rightarrow> unit pod_env" where
  "quiet_pod blocks = \<lparr>eGetenv = (\<lambda>n. if n = ''BLOCK_VOLUMES'' then blocks else []), eLinkByName = (\<lambda>_ _. Inl (ErrNew ''no link'')), eAddrList = (\<lambda>_ _. Inr []),
     eRouteList = (\<lambda>_ _. Inr []), eRun = (\<lambda>_ w. (None, w)), eStat = (\<lambda>_ _. Missing), eResolvConf = (\<lambda>_. Inr ([], [])),
     eUserspaceData = (\<lambda>_. Inr [])\<rparr>"

definition two_cpus :: "string \<Rightarrow> unit host_env" where
  "two_cpus blocks = \<lparr>hNet = quiet_pod blocks, hCloud = calm_cloud, hArchive = calm_archive, hArm64 = False, hUnified = True,
     hReadFile = (\<lambda>_ _. Some ''4,5''), hNetworkStatus = (\<lambda>_. Inr []), hVM = (\<lambda>_. Inr pinned_vm), hEncode = (\<lambda>_. [])\<rparr>"

definition prerun_start :: "(unit, unit, prerun_call) rst" where
  "prerun_start = \<lparr>world = (), obj = (), trace = []\<rparr>"

lemma pinned_cpus: "pinCPUs (two_cpus b) (i_cpu (s_Instance (vm_spec pinned_vm))) s = (Ok [(0, [4]), (1, [5])], s)"
proof -
  have "Get True (\<lambda>_. Some ''4,5'') = Some (Inr {4, 5})" by code_simp
  moreover have "ToSlice {4, 5} = [4, 5]" by code_simp
  ultimately show ?thesis
    by (simp add: pinCPUs_def pinned_vm_def two_cpus_def bind_def kread_def ret_def upt_rec Let_def)
qed

lemma pinned_runs:
  "\<exists>c. buildChVMConfig (two_cpus b) library pinned_vm prerun_start = (Ok c, prerun_start) \<and> map dc_Id (ch_Disks c) = [''data'']"
proof -
  have "\<exists>path. volume_path library B example_volume = Inr path" for B
    by (simp add: volume_path_def example_volume_def)
  then obtain path where "volume_path library (block_volumes (eGetenv (quiet_pod b))) example_volume = Inr path" by blast
  moreover have "named_volume ''data'' [example_volume] = Some example_volume" by (simp add: named_volume_def example_volume_def)
  ultimately show ?thesis
    unfolding buildChVMConfig_def Let_def bind_def [of "pinCPUs _ _"] pinned_cpus
    by (simp add: pinned_vm_def plain_vm_def two_cpus_def lift_sum_def bind_def ret_def add_interfaces_def)
qed


lemma buildChVMConfig_cong: "devices_of v = devices_of v' \<Longrightarrow> buildChVMConfig k x v = buildChVMConfig k x v'"
  unfolding buildChVMConfig_def devices_of_def Let_def by simp

lemma pinned_after: "buildVMPod one_claim library ''img'' (run_on pinned_vm) = (Ok p, s') \<Longrightarrow> devices_of (obj s') = devices_of pinned_vm"
  using keepsD [OF keeps_vols_build, of one_claim library "''img''" "run_on pinned_vm"] by (simp add: run_on_def)

theorem prerunner_files_witness:
  "\<exists>p s' c. buildVMPod one_claim library ''img'' (run_on pinned_vm) = (Ok p, s')
     \<and> buildChVMConfig (two_cpus (env_value p ''BLOCK_VOLUMES'')) library (obj s') prerun_start = (Ok c, prerun_start)
     \<and> map dc_Id (ch_Disks c) = [''data''] \<and> list_all (\<lambda>d. provided p (dc_Path d)) (ch_Disks c)"
proof -
  obtain p s' where b: "buildVMPod one_claim library ''img'' (run_on pinned_vm) = (Ok p, s')"
    using one_volume_builds [of pinned_vm] by (auto simp: pinned_vm_def plain_vm_def Let_def)
  obtain c where c: "buildChVMConfig (two_cpus (env_value p ''BLOCK_VOLUMES'')) library (obj s') prerun_start = (Ok c, prerun_start)"
    and ids: "map dc_Id (ch_Disks c) = [''data'']"
    using pinned_runs buildChVMConfig_cong [OF pinned_after [OF b]] by metis
  have "list_all (\<lambda>d. provided p (dc_Path d)) (ch_Disks c)"
    by (rule conjunct1 [OF prerunner_files [OF b c]])
      (simp_all add: run_on_def pinned_vm_def plain_vm_def example_volume_def two_cpus_def quiet_pod_def plain_name_def)
  then show ?thesis using b c ids by (intro exI [of _ p] exI [of _ s'] exI [of _ c]) simp
qed

theorem dedicated_cpus_witness:
  "\<exists>c cs. buildChVMConfig (two_cpus []) library pinned_vm prerun_start = (Ok c, prerun_start) \<and> int (card cs) = cc_BootVcpus (ch_Cpus c)
    \<and> map fst (cc_Affinity (ch_Cpus c)) = map int [0..<card cs] \<and> set (concat (map snd (cc_Affinity (ch_Cpus c)))) = cs"
proof -
  obtain c where c: "buildChVMConfig (two_cpus []) library pinned_vm prerun_start = (Ok c, prerun_start)" using pinned_runs by blast
  have "DedicatedCPUPlacement (i_cpu (s_Instance (vm_spec pinned_vm)))" by (simp add: pinned_vm_def Let_def)
  from dedicated_cpus [OF c this] show ?thesis using c by (elim exE conjE, intro exI [of _ c] exI conjI)
qed

theorem prerunner_topology_witness:
  "\<exists>c. buildChVMConfig (two_cpus []) library pinned_vm prerun_start = (Ok c, prerun_start) \<and> cc_BootVcpus (ch_Cpus c) = 2 \<and> cc_MaxVcpus (ch_Cpus c) = 4
    \<and> \<not> needsResize (cc_BootVcpus (ch_Cpus c)) (desired_vcpus pinned_vm) (cm_Size (ch_Memory c)) (desired_ram pinned_vm)"
proof -
  obtain c where c: "buildChVMConfig (two_cpus []) library pinned_vm prerun_start = (Ok c, prerun_start)" using pinned_runs by blast
  have v: "Sockets (i_cpu (s_Instance (vm_spec pinned_vm))) = 1" "CoresPerSocket (i_cpu (s_Instance (vm_spec pinned_vm))) = 2"
    "0 \<le> mem_Size (i_memory (s_Instance (vm_spec pinned_vm)))"
    by (simp_all add: pinned_vm_def plain_vm_def Let_def q_1Gi_def NewQuantity_def)
  show ?thesis using prerunner_topology [OF c] c v by (auto simp: Let_def)
qed

text \<open>A VM that is restored from a memory snapshot.\<close>

definition restored_sample :: vm where
  "restored_sample = (let v = plain_vm ''web'' VirtualMachineScheduled in
     v\<lparr>vm_spec := (vm_spec v)\<lparr>s_Volumes := [example_volume\<lparr>v_MemorySnapshot := Some (''s3://b'', ''snap.zstd.tar'')\<rparr>]\<rparr>\<rparr>)"

theorem prerunner_config_last_witness:
  "\<exists>cs ds. trace (snd (prerunner_main ((two_cpus [])\<lparr>hVM := \<lambda>_. Inr restored_sample\<rparr>) library ''e30='' False prerun_start)) = trace prerun_start @ cs @ ds
     \<and> list_all (spares config_path) cs"
proof -
  let ?k = "(two_cpus [])\<lparr>hVM := \<lambda>_. Inr restored_sample\<rparr>"
  have "download_file (snd snap) \<noteq> config_path"
    if "hVM ?k json = Inr v" "memory_volume v = Some vol" "v_MemorySnapshot vol = Some snap" for json v vol snap
  proof -
    have "snap = (''s3://b'', ''snap.zstd.tar'')"
      using that by (auto simp: memory_volume_def restored_sample_def plain_vm_def Let_def)
    moreover have "download_file ''snap.zstd.tar'' = ''/mnt/memory/snap.zstd.tar''" by code_simp
    ultimately show ?thesis by simp
  qed
  then show ?thesis
    using prerunner_config_last [where vmData = "''e30=''" and k = ?k and x = library and m = False and s = prerun_start] by blast
qed

end
