(* ===== verification/Vm_Webhook.thy ===== *)
theory Vm_Webhook
  imports Kube_Types Go_Net
begin

text \<open>
  \<open>src/pkg/webhooks/virtualmachine_webhook.go\<close>: the defaulting webhook \<open>MutateVM\<close> and the validating
  webhook, function by function. Field paths are strings; an error of \<open>field.ErrorList\<close> is its kind,
  path and detail. The random bytes of \<open>generateMAC\<close> are an argument, indexed by the number of calls
  so far, which the functions thread. When the defaulter puts the same map into requests and limits
  it writes the same entries to both, so the sharing is not visible and the maps are values here.
  \<open>reflect.DeepEqual\<close> is equality of the modelled values.
\<close>

section \<open>Defaulting\<close>

definition memoryOverhead :: quantity where "memoryOverhead = q_256Mi"

definition cpu_total :: "cpu \<Rightarrow> 32 word" where
  "cpu_total c = Sockets c * CoresPerSocket c"

type_synonym rng = "nat \<Rightarrow> err + 8 word \<times> 8 word \<times> 8 word"

definition generateMAC :: "rng \<Rightarrow> nat \<Rightarrow> (err, nat list \<times> nat) outcome" where
  "generateMAC rng n = (case rng n of Inl e \<Rightarrow> Err (ErrS ''rand'' e)
     | Inr (a, b, c) \<Rightarrow> Ok ([0x52, 0x54, 0x00, unat a, unat b, unat c], Suc n))"

definition default_cpu :: "cpu \<Rightarrow> cpu" where
  "default_cpu c = c\<lparr>Sockets := (if Sockets c = 0 then 1 else Sockets c),
     CoresPerSocket := (if CoresPerSocket c = 0 then 1 else CoresPerSocket c)\<rparr>"

definition default_memory :: "requirements \<Rightarrow> memory \<Rightarrow> memory" where
  "default_memory r m =
    (if IsZero (mem_Size m) then
       m\<lparr>mem_Size := (if \<not> IsZero (rl_get (Requests r) ResourceMemory) then rl_get (Requests r) ResourceMemory else q_1Gi)\<rparr>
     else m)"

text \<open>\<open>if list.Cpu().IsZero() { list[cpu] = q }\<close>, for a list that is not nil.\<close>

definition set_if_zero :: "string \<Rightarrow> quantity \<Rightarrow> (string \<rightharpoonup> quantity) \<Rightarrow> (string \<rightharpoonup> quantity)" where
  "set_if_zero r q m = (if IsZero (rl_get (Some m) r) then m(r \<mapsto> q) else m)"

definition fill :: "quantity \<Rightarrow> quantity \<Rightarrow> resource_list \<Rightarrow> resource_list" where
  "fill c mem l = (case l of None \<Rightarrow> Some [ResourceCPU \<mapsto> c, ResourceMemory \<mapsto> mem]
     | Some m \<Rightarrow> Some (set_if_zero ResourceMemory mem (set_if_zero ResourceCPU c m)))"

definition dedicated_resources :: "vm_instance \<Rightarrow> requirements \<Rightarrow> requirements" where
  "dedicated_resources i r =
    (if DedicatedCPUPlacement (i_cpu i) then
       (let memSize = (if \<not> IsZero (mem_Size (i_memory i)) \<and> mem_Hugepages (i_memory i) = None
              then memoryOverhead + mem_Size (i_memory i) else memoryOverhead);
            cpus = NewQuantity (uint (cpu_total (i_cpu i)))
        in \<lparr>Requests = fill cpus memSize (Requests r), Limits = fill cpus memSize (Limits r)\<rparr>)
     else r)"

definition hugepage_resources :: "vm_instance \<Rightarrow> requirements \<Rightarrow> requirements" where
  "hugepage_resources i r =
    (case mem_Hugepages (i_memory i) of None \<Rightarrow> r
     | Some pageSize \<Rightarrow>
       (let key = ''hugepages-'' @ pageSize;
            lim = the (gm_make (Limits r));
            limit = (case lim key of None \<Rightarrow> mem_Size (i_memory i) | Some q \<Rightarrow> q);
            lim' = (case lim key of None \<Rightarrow> lim(key \<mapsto> limit) | Some _ \<Rightarrow> lim);
            req = the (gm_make (Requests r));
            req' = (case req key of None \<Rightarrow> req(key \<mapsto> limit) | Some _ \<Rightarrow> req);
            zero = (\<lambda>l n. IsZero (rl_get (Some l) n));
            req'' = (if zero lim' ResourceCPU \<and> zero lim' ResourceMemory \<and> zero req' ResourceCPU \<and> zero req' ResourceMemory
                     then req'(ResourceMemory \<mapsto> memoryOverhead) else req')
        in \<lparr>Requests = Some req'', Limits = Some lim'\<rparr>))"

definition general_resources :: "vm_instance \<Rightarrow> requirements \<Rightarrow> requirements" where
  "general_resources i r =
    (if DedicatedCPUPlacement (i_cpu i) then r
     else (let cpus = NewQuantity (uint (cpu_total (i_cpu i))); mem = mem_Size (i_memory i) + memoryOverhead
           in \<lparr>Requests = Some (set_if_zero ResourceMemory mem (set_if_zero ResourceCPU cpus (the (gm_make (Requests r))))),
               Limits = Some (set_if_zero ResourceMemory mem (set_if_zero ResourceCPU cpus (the (gm_make (Limits r)))))\<rparr>))"

definition default_gpu :: "gpu \<Rightarrow> gpu" where
  "default_gpu g =
    (if gpu_resourceEnvName g = [] \<and> Contains (gpu_resourceName g) ''nvidia.com/''
     then g\<lparr>gpu_resourceEnvName := ''PCI_RESOURCE_NVIDIA_COM_'' @ TrimPrefix (gpu_resourceName g) ''nvidia.com/''\<rparr> else g)"

definition old_mac :: "vm option \<Rightarrow> string \<Rightarrow> string" where
  "old_mac oldVM name = (case oldVM of None \<Rightarrow> []
     | Some ov \<Rightarrow> (case List.find (\<lambda>ifc. if_name ifc = name) (i_interfaces (s_Instance (vm_spec ov))) of
         None \<Rightarrow> [] | Some ifc \<Rightarrow> if_MAC ifc))"

definition default_binding :: "iface \<Rightarrow> iface" where
  "default_binding ifc =
    (let ifc = (if \<not> if_Bridge ifc \<and> if_Masquerade ifc = None \<and> \<not> if_SRIOV ifc \<and> \<not> if_VDPA ifc \<and> \<not> if_VhostUser ifc
                then ifc\<lparr>if_Bridge := True\<rparr> else ifc) in
     if if_Masquerade ifc = Some [] then ifc\<lparr>if_Masquerade := Some ''10.0.2.0/30''\<rparr> else ifc)"

definition default_iface :: "rng \<Rightarrow> vm option \<Rightarrow> iface \<Rightarrow> nat \<Rightarrow> (err, iface \<times> nat) outcome" where
  "default_iface rng oldVM ifc n =
    (if if_MAC ifc \<noteq> [] then Ok (default_binding ifc, n)
     else if old_mac oldVM (if_name ifc) \<noteq> []
     then Ok (default_binding (ifc\<lparr>if_MAC := old_mac oldVM (if_name ifc)\<rparr>), n)
     else (case generateMAC rng n of Ok (bs, n') \<Rightarrow> Ok (default_binding (ifc\<lparr>if_MAC := mac_String bs\<rparr>), n')
           | Err e \<Rightarrow> Err (ErrS ''generate MAC'' e) | Panic p \<Rightarrow> Panic p))"

fun default_ifaces :: "rng \<Rightarrow> vm option \<Rightarrow> iface list \<Rightarrow> nat \<Rightarrow> (err, iface list \<times> nat) outcome" where
  "default_ifaces rng oldVM [] n = Ok ([], n)"
| "default_ifaces rng oldVM (ifc # ifcs) n =
    obind (default_iface rng oldVM ifc n) (\<lambda>(ifc', n').
    obind (default_ifaces rng oldVM ifcs n') (\<lambda>(ifcs', n'').
    Ok (ifc' # ifcs', n'')))"

definition default_instance :: "vm_spec \<Rightarrow> vm_instance" where
  "default_instance s = (let i = s_Instance s in
     i\<lparr>i_cpu := default_cpu (i_cpu i), i_memory := default_memory (s_Resources s) (i_memory i),
       i_gpus := map default_gpu (i_gpus i)\<rparr>)"

definition MutateVM :: "rng \<Rightarrow> nat \<Rightarrow> vm option \<Rightarrow> vm \<Rightarrow> (err, vm \<times> nat) outcome" where
  "MutateVM rng n oldVM v =
    (let s = vm_spec v; i = default_instance s;
         r = general_resources i (hugepage_resources i (dedicated_resources i (s_Resources s))) in
     obind (default_ifaces rng oldVM (i_interfaces i) n) (\<lambda>(ifcs, n').
     Ok (v\<lparr>vm_spec := s\<lparr>s_RunPolicy := (if s_RunPolicy s = RunPolicyEmpty then RunPolicyOnce else s_RunPolicy s),
             s_Instance := i\<lparr>i_interfaces := ifcs\<rparr>, s_Resources := r\<rparr>\<rparr>, n')))"

definition Default :: "rng \<Rightarrow> nat \<Rightarrow> vm \<Rightarrow> (err, vm \<times> nat) outcome" where
  "Default rng n v = MutateVM rng n None
     (if vm_Namespace v = [] then v\<lparr>vm_meta := (vm_meta v)\<lparr>m_namespace := ''default''\<rparr>\<rparr> else v)"

section \<open>Validation\<close>

datatype error_type = ErrorRequired | ErrorInvalid | ErrorForbidden | ErrorNotFound | ErrorInternal

record field_error =
  fe_type :: error_type
  fe_path :: string
  fe_detail :: string

definition Required :: "string \<Rightarrow> string \<Rightarrow> field_error" where
  "Required p d = \<lparr>fe_type = ErrorRequired, fe_path = p, fe_detail = d\<rparr>"
definition Invalid :: "string \<Rightarrow> string \<Rightarrow> field_error" where
  "Invalid p d = \<lparr>fe_type = ErrorInvalid, fe_path = p, fe_detail = d\<rparr>"
definition Forbidden :: "string \<Rightarrow> string \<Rightarrow> field_error" where
  "Forbidden p d = \<lparr>fe_type = ErrorForbidden, fe_path = p, fe_detail = d\<rparr>"

definition Child :: "string \<Rightarrow> string \<Rightarrow> string" where
  "Child p n = p @ ''.'' @ n"
definition Index :: "string \<Rightarrow> nat \<Rightarrow> string" where
  "Index p i = p @ ''['' @ Itoa (int i) @ '']''"

definition check :: "bool \<Rightarrow> field_error \<Rightarrow> field_error list" where
  "check bad e = (if bad then [e] else [])"

definition each :: "('a \<Rightarrow> string \<Rightarrow> field_error list) \<Rightarrow> string \<Rightarrow> 'a list \<Rightarrow> field_error list" where
  "each f p xs = concat (map (\<lambda>(i, a). f a (Index p i)) (enumerate 0 xs))"

definition count_set :: "bool list \<Rightarrow> nat" where
  "count_set bs = length (filter (\<lambda>b. b) bs)"

definition ValidateCPU :: "cpu \<Rightarrow> string \<Rightarrow> field_error list" where
  "ValidateCPU c p = check (Sockets c = 0) (Required (Child p ''sockets'') ''sockets must be greater than 0'')
     @ check (CoresPerSocket c = 0) (Required (Child p ''coresPerSocket'') ''coresPerSocket must be greater than 0'')"

definition ValidateMemory :: "memory \<Rightarrow> string \<Rightarrow> field_error list" where
  "ValidateMemory m p = check (IsZero (mem_Size m)) (Required (Child p ''size'') ''memory size must be greater than 0'')
     @ (case mem_Hugepages m of None \<Rightarrow> []
        | Some ps \<Rightarrow> if ps = [] then [Required (Child (Child p ''hugepages'') ''pageSize'') ''hugepages pageSize must be set'']
            else check (ps \<noteq> ''2Mi'' \<and> ps \<noteq> ''1Gi'') (Invalid (Child (Child p ''hugepages'') ''pageSize'') ''hugepages pageSize must be 2Mi or 1Gi''))"

definition ValidateKernel :: "kernel \<Rightarrow> string \<Rightarrow> field_error list" where
  "ValidateKernel kn p = check (kn_image kn = []) (Required (Child p ''image'') ''kernel image must be set'')"

definition ValidateDisk :: "disk \<Rightarrow> string \<Rightarrow> field_error list" where
  "ValidateDisk d p = check (dk_name d = []) (Required (Child p ''name'') ''disk name must be set'')"

definition ValidateGPU :: "gpu \<Rightarrow> string \<Rightarrow> field_error list" where
  "ValidateGPU g p = check (gpu_resourceEnvName g = []) (Required (Child p ''resourceEnvName'') [])"

definition ValidateFileSystem :: "string \<Rightarrow> string \<Rightarrow> field_error list" where
  "ValidateFileSystem fs p = check (fs = []) (Required (Child p ''name'') ''filesystem name must be set'')"

definition ValidateMAC :: "string \<Rightarrow> string \<Rightarrow> field_error list" where
  "ValidateMAC mac p = check (ParseMAC mac = None) (Invalid p ''invalid MAC address'')"

definition ValidateCIDR :: "string \<Rightarrow> int \<Rightarrow> string \<Rightarrow> field_error list" where
  "ValidateCIDR cidr capacity p =
    (case ParseCIDR cidr of None \<Rightarrow> [Invalid p ''invalid CIDR'']
     | Some (ones, bits) \<Rightarrow> check (int bits - int ones < capacity)
         (Invalid p (''CIDR must have at least '' @ Itoa capacity @ '' IP addresses'')))"

definition ValidateInterfaceBindingMethod :: "iface \<Rightarrow> string \<Rightarrow> field_error list" where
  "ValidateInterfaceBindingMethod ifc p =
    (let count = count_set [if_Bridge ifc, if_Masquerade ifc \<noteq> None, if_SRIOV ifc, if_VDPA ifc, if_VhostUser ifc] in
     (case if_Masquerade ifc of None \<Rightarrow> []
      | Some cidr \<Rightarrow> if cidr = [] then [Required (Child (Child p ''masquerade'') ''cidr'') ''masquerade CIDR must be set'']
          else ValidateCIDR cidr 4 (Child (Child p ''masquerade'') ''cidr''))
     @ check (count = 0) (Required p ''at least one interface binding method must be set'')
     @ check (count > 1) (Invalid p ''only one interface binding method can be set''))"

definition ValidateInterface :: "iface \<Rightarrow> string \<Rightarrow> field_error list" where
  "ValidateInterface ifc p = check (if_name ifc = []) (Required (Child p ''name'') ''interface name must be set'')
     @ (if if_MAC ifc \<noteq> [] then ValidateMAC (if_MAC ifc) (Child p ''mac'') else [])
     @ ValidateInterfaceBindingMethod ifc (Child p ''interfaceBindingMethod'')"

definition ValidateInstance :: "vm_instance \<Rightarrow> string \<Rightarrow> field_error list" where
  "ValidateInstance i p = ValidateCPU (i_cpu i) (Child p ''cpu'') @ ValidateMemory (i_memory i) (Child p ''memory'')
     @ (case i_kernel i of None \<Rightarrow> [] | Some kn \<Rightarrow> ValidateKernel kn (Child p ''kernel''))
     @ each ValidateDisk (Child p ''disks'') (i_disks i) @ each ValidateFileSystem (Child p ''filesystems'') (i_fileSystems i)
     @ each ValidateInterface (Child p ''interfaces'') (i_interfaces i) @ each ValidateGPU (Child p ''gpus'') (i_gpus i)"

definition ValidateContainerDiskVolumeSource :: "container_disk \<Rightarrow> string \<Rightarrow> field_error list" where
  "ValidateContainerDiskVolumeSource s p = check (cdk_image s = []) (Required (Child p ''image'') ''container disk image must be set'')"

definition ValidateCloudInitVolumeSource :: "cloud_init \<Rightarrow> string \<Rightarrow> field_error list" where
  "ValidateCloudInitVolumeSource s p =
     check (count_set [UserData s \<noteq> [], UserDataBase64 s \<noteq> [], UserDataSecretName s \<noteq> [], NetworkData s \<noteq> [],
       NetworkDataBase64 s \<noteq> [], NetworkDataSecretName s \<noteq> []] = 0)
       (Required p ''at least one cloud-init data source must be set'')"

definition ValidateContainerRootfsVolumeSource :: "container_rootfs \<Rightarrow> string \<Rightarrow> field_error list" where
  "ValidateContainerRootfsVolumeSource s p = check (cr_image s = []) (Required (Child p ''image'') ''container rootfs image must be set'')"

definition ValidatePersistentVolumeClaimSource :: "pvc_source \<Rightarrow> string \<Rightarrow> field_error list" where
  "ValidatePersistentVolumeClaimSource s p = check (pvc_claim s = []) (Required (Child p ''claimName'') ''persistent volume claim name must be set'')"

definition ValidateDataVolumeSource :: "pvc_source \<Rightarrow> string \<Rightarrow> field_error list" where
  "ValidateDataVolumeSource s p = check (pvc_claim s = []) (Required (Child p ''volumeName'') ''data volume name must be set'')"

definition ValidateVirtualDiskSource :: "pvc_source \<Rightarrow> string \<Rightarrow> field_error list" where
  "ValidateVirtualDiskSource s p = check (pvc_claim s = []) (Required (Child p ''virtualDiskName'') ''virtual disk name must be set'')"

definition on_set :: "'a option \<Rightarrow> ('a \<Rightarrow> field_error list) \<Rightarrow> field_error list" where
  "on_set s f = (case s of None \<Rightarrow> [] | Some a \<Rightarrow> f a)"

definition ValidateVolumeSource :: "volume \<Rightarrow> string \<Rightarrow> field_error list" where
  "ValidateVolumeSource s p =
    (let count = count_set [v_ContainerDisk s \<noteq> None, v_CloudInit s \<noteq> None, v_ContainerRootfs s \<noteq> None,
           v_PersistentVolumeClaim s \<noteq> None, v_DataVolume s \<noteq> None, v_VirtualDisk s \<noteq> None] in
     on_set (v_ContainerDisk s) (\<lambda>a. ValidateContainerDiskVolumeSource a (Child p ''containerDisk''))
     @ on_set (v_CloudInit s) (\<lambda>a. ValidateCloudInitVolumeSource a (Child p ''cloudInit''))
     @ on_set (v_ContainerRootfs s) (\<lambda>a. ValidateContainerRootfsVolumeSource a (Child p ''containerRootfs''))
     @ on_set (v_PersistentVolumeClaim s) (\<lambda>a. ValidatePersistentVolumeClaimSource a (Child p ''persistentVolumeClaim''))
     @ on_set (v_DataVolume s) (\<lambda>a. ValidateDataVolumeSource a (Child p ''dataVolume''))
     @ on_set (v_VirtualDisk s) (\<lambda>a. ValidateVirtualDiskSource a (Child p ''virtualDisk''))
     @ check (count = 0) (Required p ''at least one volume source must be set'')
     @ check (count > 1) (Invalid p ''only one volume source can be set''))"

definition ValidateVolume :: "volume \<Rightarrow> string \<Rightarrow> field_error list" where
  "ValidateVolume v p = check (v_name v = []) (Required (Child p ''name'') ''volume name must be set'')
     @ ValidateVolumeSource v (Child p ''volumeSource'')"

definition ValidatePodNetworkSource :: "string \<Rightarrow> field_error list" where
  "ValidatePodNetworkSource p = []"

definition ValidateMultusNetworkSource :: "string \<Rightarrow> string \<Rightarrow> field_error list" where
  "ValidateMultusNetworkSource s p = check (s = []) (Required (Child p ''networkName'') ''multus network name must be set'')"

definition ValidateNetworkSource :: "network \<Rightarrow> string \<Rightarrow> field_error list" where
  "ValidateNetworkSource s p =
    (let count = count_set [n_Pod s, n_Multus s \<noteq> None] in
     (if n_Pod s then ValidatePodNetworkSource (Child p ''pod'') else [])
     @ on_set (n_Multus s) (\<lambda>a. ValidateMultusNetworkSource a (Child p ''multus''))
     @ check (count = 0) (Required p ''at least one network source must be set'')
     @ check (count > 1) (Invalid p ''only one network source can be set''))"

definition ValidateNetwork :: "network \<Rightarrow> string \<Rightarrow> field_error list" where
  "ValidateNetwork n p = check (n_name n = []) (Required (Child p ''name'') ''network name must be set'')
     @ ValidateNetworkSource n (Child p ''networkSource'')"

definition ValidateVMSpec :: "vm_spec \<Rightarrow> string \<Rightarrow> field_error list" where
  "ValidateVMSpec s p =
    (let i = s_Instance s; c = i_cpu i; ip = Child p ''instance'' in
     check (Sockets c = 0) (Required (Child (Child ip ''cpu'') ''sockets'') ''sockets must be greater than 0'')
     @ check (CoresPerSocket c = 0) (Required (Child (Child ip ''cpu'') ''coresPerSocket'') ''coresPerSocket must be greater than 0'')
     @ check (IsZero (mem_Size (i_memory i))) (Required (Child (Child ip ''memory'') ''size'') ''memory size must be greater than 0'')
     @ check (s_RunPolicy s = RunPolicyEmpty) (Required (Child p ''runPolicy'') ''runPolicy must be set'')
     @ check (DedicatedCPUPlacement c \<and> mem_Hugepages (i_memory i) = None)
         (Required (Child (Child ip ''memory'') ''hugepages'') ''hugepages must be set when dedicatedCPUPlacement is true'')
     @ (if DedicatedCPUPlacement c \<and> cpu_total c > 1 then
          (if Requests (s_Resources s) = None \<or> IsZero (rl_get (Requests (s_Resources s)) ResourceCPU)
           then [Required (Child (Child (Child p ''resources'') ''requests'') ''cpu'') ''cpu requests must be set when dedicatedCPUPlacement is true'']
           else check (q_MilliValue (rl_get (Requests (s_Resources s)) ResourceCPU) \<noteq> uint (cpu_total c * 1000))
             (Invalid (Child (Child (Child p ''resources'') ''requests'') ''cpu'') ''cpu requests must match the total CPU count''))
        else [])
     @ ValidateInstance i ip
     @ each ValidateVolume (Child p ''volumes'') (s_Volumes s)
     @ each ValidateNetwork (Child p ''networks'') (s_Networks s))"

definition ValidateVMUpdate :: "vm \<Rightarrow> vm \<Rightarrow> field_error list" where
  "ValidateVMUpdate v old =
    (let i = s_Instance (vm_spec v); oi = s_Instance (vm_spec old); ip = Child ''spec'' ''instance'' in
     check (Sockets (i_cpu i) \<noteq> Sockets (i_cpu oi)) (Forbidden (Child (Child ip ''cpu'') ''sockets'') ''CPU sockets cannot be changed'')
     @ check (CoresPerSocket (i_cpu i) \<noteq> CoresPerSocket (i_cpu oi)) (Forbidden (Child (Child ip ''cpu'') ''coresPerSocket'') ''CPU cores per socket cannot be changed'')
     @ check (mem_Size (i_memory i) \<noteq> mem_Size (i_memory oi)) (Forbidden (Child (Child ip ''memory'') ''size'') ''memory size cannot be changed'')
     @ check (mem_Hugepages (i_memory i) \<noteq> mem_Hugepages (i_memory oi)) (Forbidden (Child (Child ip ''memory'') ''hugepages'') ''hugepages configuration cannot be changed'')
     @ check (i_disks i \<noteq> i_disks oi) (Forbidden (Child ip ''disks'') ''disks cannot be changed'')
     @ check (s_Volumes (vm_spec v) \<noteq> s_Volumes (vm_spec old)) (Forbidden (Child ''spec'' ''volumes'') ''volumes cannot be changed''))"

definition ValidateVM :: "vm \<Rightarrow> vm option \<Rightarrow> field_error list" where
  "ValidateVM v oldVM = ValidateVMSpec (vm_spec v) ''spec''
     @ (case oldVM of None \<Rightarrow> [] | Some old \<Rightarrow> ValidateVMUpdate v old)"

text \<open>The validator's answer: warnings (\<open>None\<close> for nil) and no error.\<close>

definition ValidateCreate :: "vm \<Rightarrow> (err, string list option) outcome" where
  "ValidateCreate v = (let es = ValidateVM v None in
     if es \<noteq> [] then Ok (Some (map fe_detail es)) else Ok None)"

definition ValidateUpdate :: "vm \<Rightarrow> vm \<Rightarrow> (err, string list option) outcome" where
  "ValidateUpdate old v = (let es = ValidateVM v (Some old) in
     if es \<noteq> [] then Ok (Some (map fe_detail es)) else Ok None)"

definition ValidateDelete :: "vm \<Rightarrow> (err, string list option) outcome" where
  "ValidateDelete v = Ok None"

section \<open>Settled defaults\<close>

text \<open>An entry that \<open>set_if_zero\<close> leaves alone.\<close>

definition entry_ok :: "string \<Rightarrow> quantity \<Rightarrow> (string \<rightharpoonup> quantity) \<Rightarrow> bool" where
  "entry_ok r q m \<longleftrightarrow> \<not> IsZero (rl_get (Some m) r) \<or> m r = Some q"

lemma rl_get_upd [simp]: "rl_get (Some (m(a \<mapsto> q))) b = (if b = a then q else rl_get (Some m) b)"
  by (simp add: rl_get_def gm_get_def)

lemma set_if_zero_id: "entry_ok r q m \<Longrightarrow> set_if_zero r q m = m"
  by (auto simp: entry_ok_def set_if_zero_def fun_upd_idem)

lemma entry_ok_set [simp]: "entry_ok r q (set_if_zero r q m)"
  by (simp add: entry_ok_def set_if_zero_def)

lemma entry_ok_set_other [simp]: "r \<noteq> r' \<Longrightarrow> entry_ok r q (set_if_zero r' q' m) = entry_ok r q m"
  by (simp add: entry_ok_def set_if_zero_def)

lemma entry_ok_upd_other [simp]: "r \<noteq> r' \<Longrightarrow> entry_ok r q (m(r' \<mapsto> q')) = entry_ok r q m"
  by (simp add: entry_ok_def)

lemma set_if_zero_keeps: "\<not> IsZero (rl_get (Some m) a) \<Longrightarrow> \<not> IsZero (rl_get (Some (set_if_zero r q m)) a)"
  by (auto simp: set_if_zero_def)

lemma set_if_zero_dom: "m k \<noteq> None \<Longrightarrow> set_if_zero r q m k \<noteq> None"
  by (simp add: set_if_zero_def)

lemma overhead_nonzero [simp]: "\<not> IsZero memoryOverhead"
  by (simp add: IsZero_def memoryOverhead_def q_256Mi_def NewQuantity_def)

definition filled :: "quantity \<Rightarrow> quantity \<Rightarrow> (string \<rightharpoonup> quantity) \<Rightarrow> bool" where
  "filled c mem m \<longleftrightarrow> entry_ok ResourceCPU c m \<and> entry_ok ResourceMemory mem m"

definition huge_ok :: "vm_instance \<Rightarrow> (string \<rightharpoonup> quantity) \<Rightarrow> (string \<rightharpoonup> quantity) \<Rightarrow> bool" where
  "huge_ok i req lim \<longleftrightarrow> (case mem_Hugepages (i_memory i) of None \<Rightarrow> True
     | Some ps \<Rightarrow> req (''hugepages-'' @ ps) \<noteq> None \<and> lim (''hugepages-'' @ ps) \<noteq> None
         \<and> \<not> (IsZero (rl_get (Some lim) ResourceCPU) \<and> IsZero (rl_get (Some lim) ResourceMemory)
              \<and> IsZero (rl_get (Some req) ResourceCPU) \<and> IsZero (rl_get (Some req) ResourceMemory)))"

definition default_mem :: "vm_instance \<Rightarrow> quantity" where
  "default_mem i = (if DedicatedCPUPlacement (i_cpu i) then
       (if \<not> IsZero (mem_Size (i_memory i)) \<and> mem_Hugepages (i_memory i) = None
        then memoryOverhead + mem_Size (i_memory i) else memoryOverhead)
     else mem_Size (i_memory i) + memoryOverhead)"

definition settled :: "vm_instance \<Rightarrow> requirements \<Rightarrow> bool" where
  "settled i r \<longleftrightarrow> (\<exists>req lim. r = \<lparr>Requests = Some req, Limits = Some lim\<rparr> \<and> huge_ok i req lim
     \<and> filled (NewQuantity (uint (cpu_total (i_cpu i)))) (default_mem i) req
     \<and> filled (NewQuantity (uint (cpu_total (i_cpu i)))) (default_mem i) lim)"

abbreviation all_resources :: "vm_instance \<Rightarrow> requirements \<Rightarrow> requirements" where
  "all_resources i r \<equiv> general_resources i (hugepage_resources i (dedicated_resources i r))"

lemma settled_fixed:
  assumes "settled i r"
  shows "all_resources i r = r"
proof -
  obtain req lim where r: "r = \<lparr>Requests = Some req, Limits = Some lim\<rparr>" and h: "huge_ok i req lim"
    and fr: "filled (NewQuantity (uint (cpu_total (i_cpu i)))) (default_mem i) req"
    and fl: "filled (NewQuantity (uint (cpu_total (i_cpu i)))) (default_mem i) lim"
    using assms unfolding settled_def by blast
  have "dedicated_resources i r = r"
    using fr fl by (auto simp: dedicated_resources_def r fill_def filled_def default_mem_def set_if_zero_id Let_def)
  moreover have "hugepage_resources i r = r"
    using h by (auto simp: hugepage_resources_def r huge_ok_def gm_make_def Let_def split: option.splits)
  moreover have "general_resources i r = r"
    using fr fl by (auto simp: general_resources_def r gm_make_def filled_def default_mem_def set_if_zero_id Let_def)
  ultimately show ?thesis by simp
qed

lemma filled_set: "filled c mem (set_if_zero ResourceMemory mem (set_if_zero ResourceCPU c m))"
  by (simp add: filled_def)

lemma filled_fill: "\<exists>m. fill c mem l = Some m \<and> filled c mem m"
  by (cases l) (simp_all add: fill_def filled_def entry_ok_def set_if_zero_def)

lemma huge_key [simp]: "''hugepages-'' @ ps \<noteq> ResourceCPU" "''hugepages-'' @ ps \<noteq> ResourceMemory"
  by simp_all

lemma hugepage_resources_ok:
  "mem_Hugepages (i_memory i) \<noteq> None \<Longrightarrow> \<exists>req lim. hugepage_resources i r = \<lparr>Requests = Some req, Limits = Some lim\<rparr> \<and> huge_ok i req lim"
  by (auto simp: hugepage_resources_def huge_ok_def Let_def split: option.split)

lemma hugepage_resources_filled:
  assumes "r = \<lparr>Requests = Some req, Limits = Some lim\<rparr>" "filled c memoryOverhead req" "filled c memoryOverhead lim"
    and "hugepage_resources i r = \<lparr>Requests = Some req', Limits = Some lim'\<rparr>"
  shows "filled c memoryOverhead req' \<and> filled c memoryOverhead lim'"
proof -
  have upd: "filled c memoryOverhead (m(''hugepages-'' @ ps \<mapsto> q))" if "filled c memoryOverhead m" for m ps q
    using that by (simp add: filled_def)
  have mem: "filled c memoryOverhead (m(ResourceMemory \<mapsto> memoryOverhead))" if "filled c memoryOverhead m" for m
    using that by (simp add: filled_def) (simp add: entry_ok_def)
  show ?thesis using assms upd mem
    by (auto simp: hugepage_resources_def gm_make_def Let_def split: option.splits if_splits)
qed

lemma huge_ok_set:
  assumes "huge_ok i req lim"
  shows "huge_ok i (set_if_zero a q (set_if_zero b q' req)) (set_if_zero a q (set_if_zero b q' lim))"
proof (cases "mem_Hugepages (i_memory i)")
  case (Some ps)
  let ?g = "\<lambda>m. set_if_zero a q (set_if_zero b q' m)"
  let ?k = "''hugepages-'' @ ps"
  define z where "z = (\<lambda>m n. IsZero (rl_get (Some m) n))"
  have nz: "\<not> z m n \<Longrightarrow> \<not> z (?g m) n" for m n
    unfolding z_def by (intro set_if_zero_keeps)
  have dm: "m n \<noteq> None \<Longrightarrow> ?g m n \<noteq> None" for m :: "string \<rightharpoonup> quantity" and n
    by (intro set_if_zero_dom)
  have h: "huge_ok i r l \<longleftrightarrow> r ?k \<noteq> None \<and> l ?k \<noteq> None
      \<and> \<not> (z l ResourceCPU \<and> z l ResourceMemory \<and> z r ResourceCPU \<and> z r ResourceMemory)" for r l
    by (simp only: huge_ok_def Some option.case z_def)
  show ?thesis using assms dm [of req ?k] dm [of lim ?k] nz [of lim ResourceCPU] nz [of lim ResourceMemory]
      nz [of req ResourceCPU] nz [of req ResourceMemory] unfolding h by blast
qed (simp add: huge_ok_def)

lemma settled_all_resources: "settled i (all_resources i r)"
proof (cases "DedicatedCPUPlacement (i_cpu i)")
  case True
  let ?c = "NewQuantity (uint (cpu_total (i_cpu i)))"
  obtain req lim where d: "dedicated_resources i r = \<lparr>Requests = Some req, Limits = Some lim\<rparr>"
    and f: "filled ?c (default_mem i) req" "filled ?c (default_mem i) lim"
    using filled_fill [of ?c "default_mem i" "Requests r"] filled_fill [of ?c "default_mem i" "Limits r"] True
    by (auto simp: dedicated_resources_def default_mem_def Let_def)
  show ?thesis
  proof (cases "mem_Hugepages (i_memory i)")
    case None
    then have "all_resources i r = \<lparr>Requests = Some req, Limits = Some lim\<rparr>"
      using True d by (simp add: general_resources_def hugepage_resources_def)
    then show ?thesis using f None by (auto simp: settled_def huge_ok_def)
  next
    case (Some ps)
    obtain req' lim' where h: "hugepage_resources i (dedicated_resources i r) = \<lparr>Requests = Some req', Limits = Some lim'\<rparr>"
      and ok: "huge_ok i req' lim'" using hugepage_resources_ok Some by blast
    have "default_mem i = memoryOverhead" using True Some by (simp add: default_mem_def)
    then have "filled ?c (default_mem i) req' \<and> filled ?c (default_mem i) lim'"
      using hugepage_resources_filled [OF d _ _ h] f by simp
    then show ?thesis using h ok True by (auto simp: settled_def general_resources_def)
  qed
next
  case False
  then have mem: "default_mem i = mem_Size (i_memory i) + memoryOverhead" by (simp add: default_mem_def)
  let ?c = "NewQuantity (uint (cpu_total (i_cpu i)))"
  let ?g = "\<lambda>m. set_if_zero ResourceMemory (default_mem i) (set_if_zero ResourceCPU ?c m)"
  define h where "h = hugepage_resources i (dedicated_resources i r)"
  have g: "all_resources i r = \<lparr>Requests = Some (?g (the (gm_make (Requests h)))), Limits = Some (?g (the (gm_make (Limits h))))\<rparr>"
    using False mem by (simp add: general_resources_def h_def Let_def)
  have "huge_ok i (?g (the (gm_make (Requests h)))) (?g (the (gm_make (Limits h))))"
  proof (cases "mem_Hugepages (i_memory i)")
    case (Some ps)
    obtain req lim where "h = \<lparr>Requests = Some req, Limits = Some lim\<rparr>" and "huge_ok i req lim"
      using hugepage_resources_ok [of i "dedicated_resources i r"] Some unfolding h_def by blast
    then show ?thesis using huge_ok_set by (simp add: gm_make_def)
  qed (simp add: huge_ok_def)
  then show ?thesis using g by (auto simp: settled_def filled_set)
qed

section \<open>Settled instances\<close>

lemma default_cpu_idem [simp]: "default_cpu (default_cpu c) = default_cpu c"
  by (simp add: default_cpu_def)

lemma q_1Gi_nonzero [simp]: "\<not> IsZero q_1Gi"
  by (simp add: IsZero_def q_1Gi_def NewQuantity_def)

lemma default_memory_nonzero [simp]: "\<not> IsZero (mem_Size (default_memory r m))"
  by (simp add: default_memory_def)

lemma default_memory_idem: "\<not> IsZero (mem_Size m) \<Longrightarrow> default_memory r m = m"
  by (simp add: default_memory_def)

lemma default_gpu_idem [simp]: "default_gpu (default_gpu g) = default_gpu g"
  by (simp add: default_gpu_def)

lemma default_binding_idem [simp]: "default_binding (default_binding ifc) = default_binding ifc"
  by (cases "if_Masquerade ifc") (auto simp: default_binding_def Let_def)

lemma default_binding_fields [simp]: "if_MAC (default_binding ifc) = if_MAC ifc" "if_name (default_binding ifc) = if_name ifc"
  by (simp_all add: default_binding_def Let_def)

lemma default_binding_bound:
  "if_Bridge (default_binding ifc) \<or> if_Masquerade (default_binding ifc) \<noteq> None \<or> if_SRIOV (default_binding ifc)
    \<or> if_VDPA (default_binding ifc) \<or> if_VhostUser (default_binding ifc)"
  by (auto simp: default_binding_def Let_def)

lemma default_iface_Ok:
  assumes "default_iface rng old ifc n = Ok (ifc', n')"
  shows "if_MAC ifc' \<noteq> []" "default_binding ifc' = ifc'" "if_name ifc' = if_name ifc"
    and "if_MAC ifc = [] \<Longrightarrow> old_mac old (if_name ifc) = [] \<Longrightarrow>
      \<exists>a b c. ParseMAC (if_MAC ifc') = Some [0x52, 0x54, 0, unat (a :: 8 word), unat (b :: 8 word), unat (c :: 8 word)]"
proof -
  have byte: "unat (b :: 8 word) < 256" for b using unsigned_less [of b] by simp
  have mac: "ParseMAC (mac_String [0x52, 0x54, 0, unat (a :: 8 word), unat (b :: 8 word), unat (c :: 8 word)])
      = Some [0x52, 0x54, 0, unat a, unat b, unat c]" for a b c
    by (rule ParseMAC_String) (simp_all add: byte)
  have parts: "if_MAC ifc' \<noteq> [] \<and> default_binding ifc' = ifc' \<and> if_name ifc' = if_name ifc
     \<and> (if_MAC ifc = [] \<longrightarrow> old_mac old (if_name ifc) = [] \<longrightarrow>
      (\<exists>a b c. ParseMAC (if_MAC ifc') = Some [0x52, 0x54, 0, unat (a :: 8 word), unat (b :: 8 word), unat (c :: 8 word)]))"
  proof (cases "rng n")
    case (Inl e)
    then show ?thesis using assms by (auto simp: default_iface_def generateMAC_def split: if_splits)
  next
    case (Inr t)
    obtain a b c where t: "t = (a, b, c)" by (cases t)
    have "mac_String [0x52, 0x54, 0, unat a, unat b, unat c] \<noteq> []" by (rule mac_String_neq_Nil) simp
    then show ?thesis using assms Inr t mac [of a b c]
      by (auto simp: default_iface_def generateMAC_def simp del: mac_String.simps split: if_splits)
  qed
  then show "if_MAC ifc' \<noteq> []" "default_binding ifc' = ifc'" "if_name ifc' = if_name ifc"
    "if_MAC ifc = [] \<Longrightarrow> old_mac old (if_name ifc) = [] \<Longrightarrow>
      \<exists>a b c. ParseMAC (if_MAC ifc') = Some [0x52, 0x54, 0, unat (a :: 8 word), unat (b :: 8 word), unat (c :: 8 word)]"
    by blast+
qed

definition iface_settled :: "iface \<Rightarrow> bool" where
  "iface_settled ifc \<longleftrightarrow> if_MAC ifc \<noteq> [] \<and> default_binding ifc = ifc"

lemma default_ifaces_Ok:
  "default_ifaces rng old ifcs n = Ok (ifcs', n') \<Longrightarrow> list_all iface_settled ifcs'
    \<and> list_all2 (\<lambda>ifc ifc'. if_MAC ifc = [] \<and> old_mac old (if_name ifc) = [] \<longrightarrow>
      (\<exists>a b c. ParseMAC (if_MAC ifc') = Some [0x52, 0x54, 0, unat (a :: 8 word), unat (b :: 8 word), unat (c :: 8 word)])) ifcs ifcs'"
proof (induction ifcs arbitrary: n ifcs' n')
  case (Cons ifc ifcs)
  then obtain ifc1 n1 ifcs1 where one: "default_iface rng old ifc n = Ok (ifc1, n1)"
    and rest: "default_ifaces rng old ifcs n1 = Ok (ifcs1, n')" and "ifcs' = ifc1 # ifcs1"
    by auto
  then show ?case using Cons.IH [OF rest] default_iface_Ok [OF one] by (simp add: iface_settled_def)
qed simp

lemma default_ifaces_settled: "list_all iface_settled ifcs \<Longrightarrow> default_ifaces rng old ifcs n = Ok (ifcs, n)"
  by (induction ifcs) (simp_all add: iface_settled_def default_iface_def)

lemma resources_of_instance:
  assumes "i_cpu i = i_cpu j" "i_memory i = i_memory j"
  shows "all_resources i r = all_resources j r" "settled i r = settled j r"
  unfolding general_resources_def hugepage_resources_def dedicated_resources_def settled_def huge_ok_def default_mem_def assms
  by (rule refl)+

lemma MutateVM_Ok:
  assumes "MutateVM rng n old v = Ok (v', n')"
  obtains ifcs where "default_ifaces rng old (i_interfaces (s_Instance (vm_spec v))) n = Ok (ifcs, n')"
    and "v' = v\<lparr>vm_spec := (vm_spec v)\<lparr>s_RunPolicy := (if s_RunPolicy (vm_spec v) = RunPolicyEmpty then RunPolicyOnce else s_RunPolicy (vm_spec v)),
       s_Instance := (default_instance (vm_spec v))\<lparr>i_interfaces := ifcs\<rparr>,
       s_Resources := all_resources (default_instance (vm_spec v)) (s_Resources (vm_spec v))\<rparr>\<rparr>"
  using assms by (auto simp: MutateVM_def Let_def default_instance_def)

section \<open>When validation is silent\<close>

lemma check_Nil [simp]: "check b e = [] \<longleftrightarrow> \<not> b"
  by (simp add: check_def)

lemma on_set_Nil [simp]: "on_set s f = [] \<longleftrightarrow> (\<forall>a. s = Some a \<longrightarrow> f a = [])"
  by (cases s) (simp_all add: on_set_def)

lemma each_Nil: "each f p xs = [] \<longleftrightarrow> (\<forall>i < length xs. f (xs ! i) (Index p i) = [])"
  by (simp add: each_def all_set_conv_all_nth nth_enumerate_eq)

text \<open>When the outcome of \<open>f\<close> does not depend on the path.\<close>

lemma each_Nil_path:
  assumes "\<And>a q. f a q = [] \<longleftrightarrow> P a"
  shows "each f p xs = [] \<longleftrightarrow> list_all P xs"
  by (simp add: each_Nil assms list_all_length)

lemma count_set_Nil [simp]: "count_set [] = 0"
  by (simp add: count_set_def)

lemma count_set_Cons [simp]: "count_set (b # bs) = (if b then Suc (count_set bs) else count_set bs)"
  by (simp add: count_set_def)

text \<open>A source of \<open>v1beta1.VolumeSource\<close> with its required field.\<close>

definition sources :: "volume \<Rightarrow> bool list" where
  "sources s = [v_ContainerDisk s \<noteq> None, v_CloudInit s \<noteq> None, v_ContainerRootfs s \<noteq> None,
     v_PersistentVolumeClaim s \<noteq> None, v_DataVolume s \<noteq> None, v_VirtualDisk s \<noteq> None]"

definition cloud_init_ok :: "cloud_init \<Rightarrow> bool" where
  "cloud_init_ok c \<longleftrightarrow> UserData c \<noteq> [] \<or> UserDataBase64 c \<noteq> [] \<or> UserDataSecretName c \<noteq> [] \<or> NetworkData c \<noteq> []
     \<or> NetworkDataBase64 c \<noteq> [] \<or> NetworkDataSecretName c \<noteq> []"

definition volume_source_ok :: "volume \<Rightarrow> bool" where
  "volume_source_ok s \<longleftrightarrow> count_set (sources s) = 1
     \<and> pred_option (\<lambda>d. cdk_image d \<noteq> []) (v_ContainerDisk s) \<and> pred_option cloud_init_ok (v_CloudInit s)
     \<and> pred_option (\<lambda>d. cr_image d \<noteq> []) (v_ContainerRootfs s)
     \<and> list_all (pred_option (\<lambda>c. pvc_claim c \<noteq> [])) [v_PersistentVolumeClaim s, v_DataVolume s, v_VirtualDisk s]"

lemma ValidateCloudInit_Nil: "ValidateCloudInitVolumeSource c p = [] \<longleftrightarrow> cloud_init_ok c"
  by (auto simp: ValidateCloudInitVolumeSource_def cloud_init_ok_def)

lemma pred_option_iff: "pred_option P s \<longleftrightarrow> (\<forall>a. s = Some a \<longrightarrow> P a)"
  by (cases s) simp_all

lemma ValidateVolumeSource_Nil: "ValidateVolumeSource s p = [] \<longleftrightarrow> volume_source_ok s"
  unfolding ValidateVolumeSource_def volume_source_ok_def sources_def [symmetric] Let_def append_is_Nil_conv on_set_Nil check_Nil
  by (auto simp: ValidateCloudInit_Nil pred_option_iff ValidateContainerDiskVolumeSource_def
      ValidateContainerRootfsVolumeSource_def ValidatePersistentVolumeClaimSource_def ValidateDataVolumeSource_def ValidateVirtualDiskSource_def)

definition network_ok :: "network \<Rightarrow> bool" where
  "network_ok n \<longleftrightarrow> n_name n \<noteq> [] \<and> (n_Pod n \<longleftrightarrow> n_Multus n = None) \<and> n_Multus n \<noteq> Some []"

lemma ValidateNetwork_Nil: "ValidateNetwork n p = [] \<longleftrightarrow> network_ok n"
  by (cases "n_Multus n") (auto simp: ValidateNetwork_def ValidateNetworkSource_def network_ok_def
      ValidateMultusNetworkSource_def ValidatePodNetworkSource_def Let_def on_set_def)

text \<open>A masquerade network that is accepted.\<close>

definition big_enough :: "string \<Rightarrow> bool" where
  "big_enough cidr \<longleftrightarrow> (case ParseCIDR cidr of None \<Rightarrow> False | Some (ones, bits) \<Rightarrow> 16 \<le> (2 :: nat) ^ (bits - ones))"

lemma sixteen_le: "16 \<le> (2 :: nat) ^ k \<longleftrightarrow> 4 \<le> k"
  using power_increasing_iff [of "2 :: nat" 4 k] by simp

lemma ValidateCIDR_Nil: "ValidateCIDR cidr 4 p = [] \<longleftrightarrow> big_enough cidr"
proof (cases "ParseCIDR cidr")
  case (Some ob)
  obtain ones bits where ob: "ob = (ones, bits)" by (cases ob)
  have "\<not> int bits - int ones < 4 \<longleftrightarrow> 4 \<le> bits - ones" by linarith
  then show ?thesis using Some ob by (simp only: ValidateCIDR_def big_enough_def option.case prod.case check_Nil sixteen_le)
qed (simp add: ValidateCIDR_def big_enough_def)

definition iface_ok :: "iface \<Rightarrow> bool" where
  "iface_ok ifc \<longleftrightarrow> if_name ifc \<noteq> [] \<and> (if_MAC ifc \<noteq> [] \<longrightarrow> ParseMAC (if_MAC ifc) \<noteq> None)
     \<and> pred_option big_enough (if_Masquerade ifc)
     \<and> count_set [if_Bridge ifc, if_Masquerade ifc \<noteq> None, if_SRIOV ifc, if_VDPA ifc, if_VhostUser ifc] = 1"

lemma ValidateInterface_Nil: "ValidateInterface ifc p = [] \<longleftrightarrow> iface_ok ifc"
proof -
  have "count_set [if_Bridge ifc, if_Masquerade ifc \<noteq> None, if_SRIOV ifc, if_VDPA ifc, if_VhostUser ifc] = 1 \<longleftrightarrow>
     count_set [if_Bridge ifc, if_Masquerade ifc \<noteq> None, if_SRIOV ifc, if_VDPA ifc, if_VhostUser ifc] \<noteq> 0 \<and>
     \<not> 1 < count_set [if_Bridge ifc, if_Masquerade ifc \<noteq> None, if_SRIOV ifc, if_VDPA ifc, if_VhostUser ifc]"
    by linarith
  moreover have "\<not> big_enough []" by (simp add: big_enough_def ParseCIDR_def ParseCIDR_addr_def)
  ultimately show ?thesis
    by (cases "if_Masquerade ifc")
      (auto simp: ValidateInterface_def ValidateInterfaceBindingMethod_def iface_ok_def ValidateMAC_def
        ValidateCIDR_Nil Let_def simp del: count_set_Cons)
qed

definition devices_ok :: "vm_instance \<Rightarrow> bool" where
  "devices_ok i \<longleftrightarrow> pred_option (\<lambda>kn. kn_image kn \<noteq> []) (i_kernel i) \<and> list_all (\<lambda>d. dk_name d \<noteq> []) (i_disks i)
     \<and> list_all (\<lambda>f. f \<noteq> []) (i_fileSystems i) \<and> list_all iface_ok (i_interfaces i) \<and> list_all (\<lambda>g. gpu_resourceEnvName g \<noteq> []) (i_gpus i)"

definition memory_ok :: "memory \<Rightarrow> bool" where
  "memory_ok m \<longleftrightarrow> \<not> IsZero (mem_Size m) \<and> pred_option (\<lambda>ps. ps = ''2Mi'' \<or> ps = ''1Gi'') (mem_Hugepages m)"

lemma ValidateMemory_Nil: "ValidateMemory m p = [] \<longleftrightarrow> memory_ok m"
  by (cases "mem_Hugepages m") (auto simp: ValidateMemory_def memory_ok_def)

lemma ValidateInstance_Nil:
  "ValidateInstance i p = [] \<longleftrightarrow> Sockets (i_cpu i) \<noteq> 0 \<and> CoresPerSocket (i_cpu i) \<noteq> 0 \<and> memory_ok (i_memory i) \<and> devices_ok i"
proof -
  have "each ValidateDisk q (i_disks i) = [] \<longleftrightarrow> list_all (\<lambda>d. dk_name d \<noteq> []) (i_disks i)"
    "each ValidateFileSystem q (i_fileSystems i) = [] \<longleftrightarrow> list_all (\<lambda>f. f \<noteq> []) (i_fileSystems i)"
    "each ValidateInterface q (i_interfaces i) = [] \<longleftrightarrow> list_all iface_ok (i_interfaces i)"
    "each ValidateGPU q (i_gpus i) = [] \<longleftrightarrow> list_all (\<lambda>g. gpu_resourceEnvName g \<noteq> []) (i_gpus i)" for q
    by (rule each_Nil_path, simp add: ValidateDisk_def ValidateFileSystem_def ValidateInterface_Nil ValidateGPU_def)+
  then show ?thesis
    by (cases "i_kernel i") (auto simp: ValidateInstance_def ValidateCPU_def ValidateMemory_Nil devices_ok_def ValidateKernel_def)
qed

text \<open>Dedicated CPUs ask for huge pages and, with more than one CPU, for a request of exactly that many.\<close>

definition dedicated_ok :: "vm_spec \<Rightarrow> bool" where
  "dedicated_ok s \<longleftrightarrow> (let c = i_cpu (s_Instance s) in DedicatedCPUPlacement c \<longrightarrow>
     mem_Hugepages (i_memory (s_Instance s)) \<noteq> None
     \<and> (cpu_total c > 1 \<longrightarrow> Requests (s_Resources s) \<noteq> None \<and> \<not> IsZero (rl_get (Requests (s_Resources s)) ResourceCPU)
         \<and> q_MilliValue (rl_get (Requests (s_Resources s)) ResourceCPU) = uint (cpu_total c * 1000)))"

definition user_parts_ok :: "vm_spec \<Rightarrow> bool" where
  "user_parts_ok s \<longleftrightarrow> dedicated_ok s \<and> devices_ok (s_Instance s)
     \<and> list_all (\<lambda>v. v_name v \<noteq> [] \<and> volume_source_ok v) (s_Volumes s) \<and> list_all network_ok (s_Networks s)"

lemma ValidateVMSpec_Nil:
  "ValidateVMSpec s p = [] \<longleftrightarrow> Sockets (i_cpu (s_Instance s)) \<noteq> 0 \<and> CoresPerSocket (i_cpu (s_Instance s)) \<noteq> 0
     \<and> memory_ok (i_memory (s_Instance s)) \<and> s_RunPolicy s \<noteq> RunPolicyEmpty \<and> user_parts_ok s"
proof -
  have vols: "each ValidateVolume q (s_Volumes s) = [] \<longleftrightarrow> list_all (\<lambda>v. v_name v \<noteq> [] \<and> volume_source_ok v) (s_Volumes s)" for q
    by (rule each_Nil_path) (simp add: ValidateVolume_def ValidateVolumeSource_Nil)
  have nets: "each ValidateNetwork q (s_Networks s) = [] \<longleftrightarrow> list_all network_ok (s_Networks s)" for q
    by (rule each_Nil_path) (rule ValidateNetwork_Nil)
  show ?thesis
    by (simp only: ValidateVMSpec_def Let_def append_is_Nil_conv check_Nil ValidateInstance_Nil vols nets user_parts_ok_def
        dedicated_ok_def split: if_split) (auto simp: memory_ok_def)
qed

lemma default_masquerade_small: "\<not> big_enough ''10.0.2.0/30''"
proof -
  have "ParseCIDR ''10.0.2.0/30'' = Some (30, 32)"
    by (simp add: ParseCIDR_def ParseCIDR_addr_def ParseAddr_def parseIPv4_def octet_ok_def is_digit_def digit_val_def)
  then show ?thesis by (simp add: big_enough_def)
qed

section \<open>Properties\<close>

text \<open>C24: Defaulting is idempotent: a VM that went through \<open>MutateVM\<close> is left exactly as it is by a
  second pass, which draws no random bytes, whatever the previous version of the VM is.\<close>

theorem MutateVM_idempotent:
  assumes "MutateVM rng n old v = Ok (v', n')"
  shows "MutateVM rng' m old' v' = Ok (v', m)"
proof -
  let ?s = "vm_spec v"
  let ?i = "default_instance ?s"
  obtain ifcs where ifcs: "default_ifaces rng old (i_interfaces (s_Instance ?s)) n = Ok (ifcs, n')"
    and v': "v' = v\<lparr>vm_spec := ?s\<lparr>s_RunPolicy := (if s_RunPolicy ?s = RunPolicyEmpty then RunPolicyOnce else s_RunPolicy ?s),
       s_Instance := ?i\<lparr>i_interfaces := ifcs\<rparr>, s_Resources := all_resources ?i (s_Resources ?s)\<rparr>\<rparr>"
    using assms by (rule MutateVM_Ok)
  define j where "j = ?i\<lparr>i_interfaces := ifcs\<rparr>"
  have inst: "default_instance (vm_spec v') = j"
    using default_memory_nonzero [of "s_Resources ?s" "i_memory (s_Instance ?s)"]
    by (simp add: v' j_def default_instance_def Let_def default_memory_idem)
  have "settled j (all_resources ?i (s_Resources ?s))"
    using settled_all_resources [of ?i "s_Resources ?s"] resources_of_instance(2) [of j ?i] by (simp add: j_def)
  then have res: "all_resources j (all_resources ?i (s_Resources ?s)) = all_resources ?i (s_Resources ?s)"
    by (rule settled_fixed)
  have "default_ifaces rng' old' ifcs m = Ok (ifcs, m)"
    using default_ifaces_Ok [OF ifcs] by (simp add: default_ifaces_settled)
  then show ?thesis using inst res by (simp add: MutateVM_def Let_def) (simp add: v' j_def)
qed

text \<open>An amount that was given is kept.\<close>

definition kept_amounts :: "resource_list \<Rightarrow> resource_list \<Rightarrow> bool" where
  "kept_amounts l l' \<longleftrightarrow> (\<forall>r. \<not> IsZero (rl_get l r) \<longrightarrow> rl_get l' r = rl_get l r)"

lemma kept_refl [simp]: "kept_amounts l l"
  by (simp add: kept_amounts_def)

lemma kept_trans: "kept_amounts l l' \<Longrightarrow> kept_amounts l' l'' \<Longrightarrow> kept_amounts l l''"
  by (simp add: kept_amounts_def)

lemma kept_upd: "IsZero (rl_get (Some m) r) \<Longrightarrow> kept_amounts (Some m) (Some (m(r \<mapsto> q)))"
  by (auto simp: kept_amounts_def)

lemma kept_set [simp]: "kept_amounts (Some m) (Some (set_if_zero r q m))"
  by (simp add: set_if_zero_def kept_upd)

lemma kept_make [simp]: "kept_amounts l (Some (the (gm_make l)))"
  by (cases l) (simp_all add: kept_amounts_def gm_make_def rl_get_def gm_get_def)

lemma kept_set2: "kept_amounts l (Some (set_if_zero r q (set_if_zero r' q' (the (gm_make l)))))"
  by (rule kept_trans [OF kept_make kept_trans [OF kept_set kept_set]])

lemma kept_fill: "kept_amounts l (fill c mem l)"
proof (cases l)
  case (Some m)
  then show ?thesis by (simp add: fill_def kept_trans [OF kept_set kept_set])
qed (simp add: kept_amounts_def rl_get_def gm_get_def IsZero_def)

lemma kept_missing: "m r = None \<Longrightarrow> kept_amounts (Some m) (Some (m(r \<mapsto> q)))"
  by (rule kept_upd) (simp add: rl_get_def gm_get_def IsZero_def)

lemma kept_hugepage:
  "kept_amounts (Requests r) (Requests (hugepage_resources i r)) \<and> kept_amounts (Limits r) (Limits (hugepage_resources i r))"
proof (cases "mem_Hugepages (i_memory i)")
  case (Some ps)
  let ?key = "''hugepages-'' @ ps"
  define lim limit lim' req req' where "lim = the (gm_make (Limits r))" and "limit = (case lim ?key of None \<Rightarrow> mem_Size (i_memory i) | Some q \<Rightarrow> q)"
    and "lim' = (case lim ?key of None \<Rightarrow> lim(?key \<mapsto> limit) | Some _ \<Rightarrow> lim)" and "req = the (gm_make (Requests r))"
    and "req' = (case req ?key of None \<Rightarrow> req(?key \<mapsto> limit) | Some _ \<Rightarrow> req)"
  note defs = this
  have l: "kept_amounts (Limits r) (Some lim')" "kept_amounts (Requests r) (Some req')"
    using kept_missing [of lim ?key limit] kept_missing [of req ?key limit] kept_trans [OF kept_make [of "Limits r"]] kept_trans [OF kept_make [of "Requests r"]]
    by (auto simp: lim'_def req'_def lim_def req_def split: option.split)
  have "hugepage_resources i r = \<lparr>Requests = Some (if IsZero (rl_get (Some lim') ResourceCPU) \<and> IsZero (rl_get (Some lim') ResourceMemory)
       \<and> IsZero (rl_get (Some req') ResourceCPU) \<and> IsZero (rl_get (Some req') ResourceMemory) then req'(ResourceMemory \<mapsto> memoryOverhead) else req'), Limits = Some lim'\<rparr>"
    unfolding hugepage_resources_def Some option.case Let_def defs by (rule refl)
  then show ?thesis using l kept_trans [OF l(2) kept_upd] by simp
qed (simp add: hugepage_resources_def)

lemma kept_all_resources:
  "kept_amounts (Requests r) (Requests (all_resources i r)) \<and> kept_amounts (Limits r) (Limits (all_resources i r))"
proof -
  define d h where "d = dedicated_resources i r" and "h = hugepage_resources i d"
  have "kept_amounts (Requests r) (Requests d) \<and> kept_amounts (Limits r) (Limits d)"
    by (simp add: d_def dedicated_resources_def Let_def kept_fill)
  moreover have "kept_amounts (Requests h) (Requests (general_resources i h)) \<and> kept_amounts (Limits h) (Limits (general_resources i h))"
    by (simp add: general_resources_def Let_def kept_set2)
  ultimately show ?thesis using kept_hugepage [of d i] kept_trans unfolding d_def h_def by blast
qed

text \<open>What defaulting makes of one interface: a MAC address that was given stays, otherwise it is the one of the interface of the same name in the
  previous version, otherwise generated; the binding methods stay, and only an interface with none gets a bridge.\<close>

definition iface_defaulted :: "vm option \<Rightarrow> iface \<Rightarrow> iface \<Rightarrow> bool" where
  "iface_defaulted old ifc ifc' \<longleftrightarrow> if_name ifc' = if_name ifc
     \<and> (if if_MAC ifc \<noteq> [] then if_MAC ifc' = if_MAC ifc
        else if old_mac old (if_name ifc) \<noteq> [] then if_MAC ifc' = old_mac old (if_name ifc)
        else (\<exists>a b c. ParseMAC (if_MAC ifc') = Some [0x52, 0x54, 0, unat (a :: 8 word), unat (b :: 8 word), unat (c :: 8 word)]))
     \<and> (if_Bridge ifc' \<longleftrightarrow> if_Bridge ifc \<or> if_Masquerade ifc = None \<and> \<not> if_SRIOV ifc \<and> \<not> if_VDPA ifc \<and> \<not> if_VhostUser ifc)
     \<and> if_Masquerade ifc' = (if if_Masquerade ifc = Some [] then Some ''10.0.2.0/30'' else if_Masquerade ifc)
     \<and> if_SRIOV ifc' = if_SRIOV ifc \<and> if_VDPA ifc' = if_VDPA ifc \<and> if_VhostUser ifc' = if_VhostUser ifc"

lemma default_binding_kept:
  "if_Bridge (default_binding ifc) \<longleftrightarrow> if_Bridge ifc \<or> if_Masquerade ifc = None \<and> \<not> if_SRIOV ifc \<and> \<not> if_VDPA ifc \<and> \<not> if_VhostUser ifc"
  "if_Masquerade (default_binding ifc) = (if if_Masquerade ifc = Some [] then Some ''10.0.2.0/30'' else if_Masquerade ifc)"
  "if_SRIOV (default_binding ifc) = if_SRIOV ifc" "if_VDPA (default_binding ifc) = if_VDPA ifc" "if_VhostUser (default_binding ifc) = if_VhostUser ifc"
  by (auto simp: default_binding_def Let_def)

lemma default_iface_defaulted:
  assumes "default_iface rng old ifc n = Ok (ifc', n')"
  shows "iface_defaulted old ifc ifc'"
proof -
  obtain mac where "ifc' = default_binding (ifc\<lparr>if_MAC := mac\<rparr>)" "if_MAC ifc \<noteq> [] \<longrightarrow> mac = if_MAC ifc"
    "if_MAC ifc = [] \<longrightarrow> old_mac old (if_name ifc) \<noteq> [] \<longrightarrow> mac = old_mac old (if_name ifc)"
    using assms by (auto simp: default_iface_def split: if_splits outcome.splits prod.splits)
  then show ?thesis using default_iface_Ok(4) [OF assms] by (simp add: iface_defaulted_def default_binding_kept)
qed

lemma default_ifaces_defaulted:
  "default_ifaces rng old ifcs n = Ok (ifcs', n') \<Longrightarrow> list_all2 (iface_defaulted old) ifcs ifcs'"
proof (induction ifcs arbitrary: n ifcs' n')
  case (Cons ifc ifcs)
  then obtain ifc1 n1 ifcs1 where "default_iface rng old ifc n = Ok (ifc1, n1)" "default_ifaces rng old ifcs n1 = Ok (ifcs1, n')" "ifcs' = ifc1 # ifcs1"
    by auto
  then show ?case using Cons.IH default_iface_defaulted by auto
qed simp

text \<open>C23: Defaulting fills what is empty and keeps what the user gave: socket and core counts of 0 become 1; a memory size of 0 becomes the memory
  request, or 1 GiB without one; an empty run policy becomes \<open>Once\<close>; every non-zero amount in requests and limits stays; an interface keeps its MAC
  address and its binding methods, takes over the MAC address of the interface of the same name in the previous version when it has none, and
  otherwise gets one that parses and starts with \<open>52:54:00\<close>; and metadata, status, volumes, networks and disks are untouched. Afterwards both
  resource lists exist and every interface has a MAC address and a binding method.\<close>

theorem MutateVM_defaults:
  assumes "MutateVM rng n old v = Ok (v', n')"
  shows "let s = vm_spec v; s' = vm_spec v'; i = s_Instance s; i' = s_Instance s' in
     Sockets (i_cpu i') = max 1 (Sockets (i_cpu i)) \<and> CoresPerSocket (i_cpu i') = max 1 (CoresPerSocket (i_cpu i))
     \<and> mem_Size (i_memory i') = (if \<not> IsZero (mem_Size (i_memory i)) then mem_Size (i_memory i)
          else if \<not> IsZero (rl_get (Requests (s_Resources s)) ResourceMemory) then rl_get (Requests (s_Resources s)) ResourceMemory else q_1Gi)
     \<and> s_RunPolicy s' = (if s_RunPolicy s = RunPolicyEmpty then RunPolicyOnce else s_RunPolicy s)
     \<and> Requests (s_Resources s') \<noteq> None \<and> Limits (s_Resources s') \<noteq> None
     \<and> kept_amounts (Requests (s_Resources s)) (Requests (s_Resources s')) \<and> kept_amounts (Limits (s_Resources s)) (Limits (s_Resources s'))
     \<and> list_all2 (iface_defaulted old) (i_interfaces i) (i_interfaces i')
     \<and> list_all (\<lambda>ifc. if_MAC ifc \<noteq> []
         \<and> (if_Bridge ifc \<or> if_Masquerade ifc \<noteq> None \<or> if_SRIOV ifc \<or> if_VDPA ifc \<or> if_VhostUser ifc)) (i_interfaces i')
     \<and> vm_meta v' = vm_meta v \<and> vm_status v' = vm_status v \<and> s_Volumes s' = s_Volumes s \<and> s_Networks s' = s_Networks s \<and> i_disks i' = i_disks i"
proof -
  let ?s = "vm_spec v"
  let ?i = "default_instance ?s"
  obtain ifcs where ifcs: "default_ifaces rng old (i_interfaces (s_Instance ?s)) n = Ok (ifcs, n')"
    and v': "v' = v\<lparr>vm_spec := ?s\<lparr>s_RunPolicy := (if s_RunPolicy ?s = RunPolicyEmpty then RunPolicyOnce else s_RunPolicy ?s),
       s_Instance := ?i\<lparr>i_interfaces := ifcs\<rparr>, s_Resources := all_resources ?i (s_Resources ?s)\<rparr>\<rparr>"
    using assms by (rule MutateVM_Ok)
  have one: "(if x = 0 then 1 else x) = max 1 x" for x :: "32 word" by (cases "x = 0") (simp_all add: max_def word_le_def word_neq_0_conv word_less_def)
  have "Requests (all_resources ?i (s_Resources ?s)) \<noteq> None" "Limits (all_resources ?i (s_Resources ?s)) \<noteq> None"
    using settled_all_resources [of ?i "s_Resources ?s"] by (auto simp: settled_def)
  moreover have bound: "if_Bridge ifc \<or> if_Masquerade ifc \<noteq> None \<or> if_SRIOV ifc \<or> if_VDPA ifc \<or> if_VhostUser ifc"
    if "default_binding ifc = ifc" for ifc
    using that default_binding_bound [of ifc] by simp
  moreover have "list_all (\<lambda>ifc. if_MAC ifc \<noteq> []
         \<and> (if_Bridge ifc \<or> if_Masquerade ifc \<noteq> None \<or> if_SRIOV ifc \<or> if_VDPA ifc \<or> if_VhostUser ifc)) ifcs"
    using default_ifaces_Ok [OF ifcs] bound unfolding iface_settled_def list_all_iff by blast
  ultimately show ?thesis using default_ifaces_defaulted [OF ifcs] kept_all_resources [of "s_Resources ?s" ?i] one
    by (simp add: v' Let_def default_instance_def default_cpu_def default_memory_def)
qed

definition fixed_rng :: rng where
  "fixed_rng = (\<lambda>_. Inr (1, 2, 3))"

definition masquerade_vm :: vm where
  "masquerade_vm = (let v = plain_vm ''vm'' VirtualMachinePending; s = vm_spec v in
     v\<lparr>vm_spec := s\<lparr>s_RunPolicy := RunPolicyEmpty, s_Instance := (s_Instance s)\<lparr>
       i_cpu := \<lparr>Sockets = 0, CoresPerSocket = 0, DedicatedCPUPlacement = False\<rparr>,
       i_memory := \<lparr>mem_Size = NewQuantity 0, mem_Hugepages = None\<rparr>,
       i_interfaces := [\<lparr>if_name = ''eth0'', if_MAC = [], if_Bridge = False, if_Masquerade = Some [], if_SRIOV = False,
         if_VDPA = False, if_VhostUser = False, if_VDPA_NumQueues = 0, if_VDPA_IOMMU = False\<rparr>]\<rparr>\<rparr>\<rparr>)"

lemma masquerade_vm_Ok: "\<exists>v n. MutateVM fixed_rng 0 None masquerade_vm = Ok (v, n)"
  by (simp add: MutateVM_def Let_def default_instance_def masquerade_vm_def instance_defs default_iface_def old_mac_def
      generateMAC_def fixed_rng_def)

theorem MutateVM_idempotent_witness:
  "\<exists>v n. MutateVM fixed_rng 0 None masquerade_vm = Ok (v, n) \<and> MutateVM (\<lambda>_. Inl (ErrNew [])) 5 None v = Ok (v, 5)"
  using masquerade_vm_Ok MutateVM_idempotent by metis

theorem MutateVM_defaults_witness:
  "\<exists>v n. MutateVM fixed_rng 0 None masquerade_vm = Ok (v, n) \<and> Requests (s_Resources (vm_spec v)) \<noteq> None"
  using masquerade_vm_Ok MutateVM_defaults unfolding Let_def by metis

text \<open>After defaulting, validation finds nothing to report exactly when the parts the user has to
  supply are right: huge pages of a supported size (required with dedicated CPUs, whose CPU request has
  to match), named devices, interfaces with one binding, volumes with exactly one source and its
  required field, and networks with exactly one source. CPU counts, memory size and run policy never
  cause a report.\<close>

theorem validation_after_defaulting:
  assumes "MutateVM rng n old v = Ok (v', n')"
  shows "ValidateVM v' None = [] \<longleftrightarrow> user_parts_ok (vm_spec v')
     \<and> pred_option (\<lambda>ps. ps = ''2Mi'' \<or> ps = ''1Gi'') (mem_Hugepages (i_memory (s_Instance (vm_spec v))))"
proof -
  obtain ifcs where v': "v' = v\<lparr>vm_spec := (vm_spec v)\<lparr>s_RunPolicy := (if s_RunPolicy (vm_spec v) = RunPolicyEmpty then RunPolicyOnce else s_RunPolicy (vm_spec v)),
       s_Instance := (default_instance (vm_spec v))\<lparr>i_interfaces := ifcs\<rparr>,
       s_Resources := all_resources (default_instance (vm_spec v)) (s_Resources (vm_spec v))\<rparr>\<rparr>"
    using assms by (rule MutateVM_Ok)
  define s where "s = vm_spec v'"
  have "Sockets (i_cpu (s_Instance s)) \<noteq> 0" "CoresPerSocket (i_cpu (s_Instance s)) \<noteq> 0" "s_RunPolicy s \<noteq> RunPolicyEmpty"
    "\<not> IsZero (mem_Size (i_memory (s_Instance s)))"
    "mem_Hugepages (i_memory (s_Instance s)) = mem_Hugepages (i_memory (s_Instance (vm_spec v)))"
    by (simp_all add: s_def v' default_instance_def Let_def default_cpu_def) (simp add: default_memory_def)
  then show ?thesis by (auto simp: ValidateVM_def ValidateVMSpec_Nil memory_ok_def s_def [symmetric])
qed

theorem validation_after_defaulting_witness:
  "\<exists>v n. MutateVM fixed_rng 0 None masquerade_vm = Ok (v, n) \<and> (ValidateVM v None = [] \<longleftrightarrow> user_parts_ok (vm_spec v)
     \<and> pred_option (\<lambda>ps. ps = ''2Mi'' \<or> ps = ''1Gi'') (mem_Hugepages (i_memory (s_Instance (vm_spec masquerade_vm)))))"
proof -
  obtain v n where v: "MutateVM fixed_rng 0 None masquerade_vm = Ok (v, n)" using masquerade_vm_Ok by blast
  show ?thesis using validation_after_defaulting [OF v] v by (intro exI conjI)
qed

text \<open>The masquerade network that defaulting chooses, \<open>10.0.2.0/30\<close>, has the four addresses the
  validator's message asks for but fails its check, which wants four host bits: every interface with
  masquerading and no network of its own is reported after defaulting.\<close>

theorem default_masquerade_reported:
  assumes "if_Masquerade ifc = Some []"
  shows "if_Masquerade (default_binding ifc) = Some ''10.0.2.0/30'' \<and> ValidateInterface (default_binding ifc) p \<noteq> []"
proof -
  have m: "if_Masquerade (default_binding ifc) = Some ''10.0.2.0/30''"
    using assms by (simp add: default_binding_def Let_def)
  then have "\<not> iface_ok (default_binding ifc)" using default_masquerade_small by (simp add: iface_ok_def)
  then show ?thesis using m by (simp add: ValidateInterface_Nil)
qed

definition masquerade_iface :: iface where
  "masquerade_iface = hd (i_interfaces (s_Instance (vm_spec masquerade_vm)))"

theorem default_masquerade_reported_witness:
  "if_Masquerade masquerade_iface = Some [] \<and> ValidateInterface (default_binding masquerade_iface) ''p'' \<noteq> []"
proof -
  have "if_Masquerade masquerade_iface = Some []" by (simp add: masquerade_iface_def masquerade_vm_def instance_defs Let_def)
  then show ?thesis using default_masquerade_reported [of masquerade_iface "''p''"] by simp
qed

text \<open>An update is reported exactly when it changes CPU counts, memory, disks or volumes, so every
  vertical scaling is; but nothing a VM contains makes the validator refuse a request: each answer is
  success, with a warning per problem found.\<close>

theorem updates_reported_never_refused:
  "(ValidateVMUpdate v old = [] \<longleftrightarrow>
     Sockets (i_cpu (s_Instance (vm_spec v))) = Sockets (i_cpu (s_Instance (vm_spec old)))
     \<and> CoresPerSocket (i_cpu (s_Instance (vm_spec v))) = CoresPerSocket (i_cpu (s_Instance (vm_spec old)))
     \<and> i_memory (s_Instance (vm_spec v)) = i_memory (s_Instance (vm_spec old))
     \<and> i_disks (s_Instance (vm_spec v)) = i_disks (s_Instance (vm_spec old)) \<and> s_Volumes (vm_spec v) = s_Volumes (vm_spec old))
   \<and> (\<exists>ws. ValidateUpdate old v = Ok ws \<and> (ws = None \<longleftrightarrow> ValidateVMSpec (vm_spec v) ''spec'' = [] \<and> ValidateVMUpdate v old = []))
   \<and> (\<exists>ws. ValidateCreate v = Ok ws \<and> (ws = None \<longleftrightarrow> ValidateVMSpec (vm_spec v) ''spec'' = []))"
  by (auto simp: ValidateVMUpdate_def ValidateUpdate_def ValidateCreate_def ValidateVM_def Let_def memory.equality)

text \<open>A volume passes validation exactly when one of the six sources is set and carries its required
  field; a memory snapshot is not one of them, so the volume a rollback adds to a VM is reported.\<close>

theorem volume_validation:
  "(ValidateVolume v p = [] \<longleftrightarrow> v_name v \<noteq> [] \<and> volume_source_ok v)
   \<and> ValidateVolume \<lparr>v_name = x, v_ContainerDisk = None, v_CloudInit = None, v_ContainerRootfs = None,
       v_PersistentVolumeClaim = None, v_DataVolume = None, v_VirtualDisk = None, v_MemorySnapshot = Some m\<rparr> p \<noteq> []"
  by (simp add: ValidateVolume_def ValidateVolumeSource_Nil volume_source_ok_def sources_def)

end
