(* ===== verification/Vm_Set.thy ===== *)
theory Vm_Set
  imports Replica_Control Go_Sort
begin

text \<open>
  \<open>src/internal/controller/vmset_controller.go\<close>: a VMSet keeps a number of VMs \<open><set>-0\<close>, \<open><set>-1\<close>, ...
  with disks of their own, like a StatefulSet. One definition per function; the VMSet is the object in
  the state. The template's volumes are reached through pointers and renamed in place, which no later
  read of the same round can see, so the renamed VM is built as a value.
\<close>

definition VMSetProtectionFinalizer :: string where
  "VMSetProtectionFinalizer = ''cloudhypervisor.quill.today/vmset-protection''"

definition VMSET_LABEL :: string where
  "VMSET_LABEL = ''microbox-api/vmset-id''"

record vmset =
  vst_meta :: meta
  vst_Replicas :: "32 word option"
  vst_Selector :: label_selector
  vst_TemplateLabels :: "(string, string) gomap"
  vst_TemplateSpec :: vm_spec
  vst_DiskTemplates :: "disk_template list"
  vst_Retention :: "(string \<times> string) option"
  vst_Status :: replica_status

text \<open>\<open>strings.Split\<close> never returns an empty slice.\<close>

definition getOrdinal :: "string \<Rightarrow> 32 word" where
  "getOrdinal vmName = (case Atoi (last (Split CHR ''-'' vmName)) of Inl _ \<Rightarrow> 0 | Inr i \<Rightarrow> word_of_int i)"

definition isVMReady :: "vm \<Rightarrow> bool" where
  "isVMReady v \<longleftrightarrow> st_Phase (vm_status v) = VirtualMachineRunning"

definition isVMAvailable :: "vm \<Rightarrow> bool" where
  "isVMAvailable v \<longleftrightarrow> st_Phase (vm_status v) = VirtualMachineRunning"

definition shouldDeleteVirtualDisksOnScale :: "vmset \<Rightarrow> bool" where
  "shouldDeleteVirtualDisksOnScale v = (case vst_Retention v of None \<Rightarrow> False | Some (whenScaled, whenDeleted) \<Rightarrow> whenScaled = ''Delete'')"

definition shouldDeleteVirtualDisksOnDelete :: "vmset \<Rightarrow> bool" where
  "shouldDeleteVirtualDisksOnDelete v = (case vst_Retention v of None \<Rightarrow> False | Some (whenScaled, whenDeleted) \<Rightarrow> whenDeleted = ''Delete'')"

definition vmset_vm_name :: "vmset \<Rightarrow> 32 word \<Rightarrow> string" where
  "vmset_vm_name v ordinal = m_name (vst_meta v) @ ''-'' @ Itoa (sint ordinal)"

definition vmset_disk_name :: "vmset \<Rightarrow> 32 word \<Rightarrow> disk_template \<Rightarrow> string" where
  "vmset_disk_name v ordinal t = m_name (vst_meta v) @ ''-'' @ dt_name t @ ''-'' @ Itoa (sint ordinal)"

definition getLabelsForOrdinal :: "vmset \<Rightarrow> 32 word \<Rightarrow> (string, string) gomap" where
  "getLabelsForOrdinal v ordinal = Some ((the (gm_make (vst_TemplateLabels v)))
     (''cloudhypervisor.quill.today/vmset-name'' \<mapsto> m_name (vst_meta v),
      ''cloudhypervisor.quill.today/vmset-ordinal'' \<mapsto> Itoa (sint ordinal),
      VMSET_LABEL \<mapsto> (case gm_get (m_labels (vst_meta v)) VMSET_LABEL of None \<Rightarrow> [] | Some l \<Rightarrow> l)))"

definition VMSet_injectVirtualDiskReferences :: "vm \<Rightarrow> vmset \<Rightarrow> 32 word \<Rightarrow> vm" where
  "VMSet_injectVirtualDiskReferences m v ordinal = m\<lparr>vm_spec := (vm_spec m)\<lparr>s_Volumes :=
     inject_references (vmset_disk_name v ordinal) (vst_DiskTemplates v) (s_Volumes (vm_spec m))\<rparr>\<rparr>"

definition VMSet_constructVM :: "vmset \<Rightarrow> 32 word \<Rightarrow> vm" where
  "VMSet_constructVM v ordinal = VMSet_injectVirtualDiskReferences
     \<lparr>vm_meta = empty_meta\<lparr>m_name := vmset_vm_name v ordinal, m_namespace := m_namespace (vst_meta v),
        m_labels := getLabelsForOrdinal v ordinal\<rparr>,
      vm_spec = vst_TemplateSpec v, vm_status = empty_vm_status\<rparr> v ordinal"

definition VMSet_getCurrentVMs :: "('w, vmset) client \<Rightarrow> ('w, vmset, vm list) oact" where
  "VMSet_getCurrentVMs c = bind getObj (\<lambda>v.
     case LabelSelectorAsSelector c (Some (vst_Selector v)) of
       Inl e \<Rightarrow> throw (ErrW ''invalid label selector'' e)
     | Inr sel \<Rightarrow> bind (kread (cListVMs c (m_namespace (vst_meta v)) sel)) (\<lambda>r.
         case r of Inl e \<Rightarrow> throw (ApiErr e) | Inr vms \<Rightarrow> ret vms))"

definition VMSet_createVirtualDisk :: "('w, vmset) client \<Rightarrow> ext \<Rightarrow> vmset \<Rightarrow> 32 word \<Rightarrow> disk_template \<Rightarrow> ('w, vmset, unit) oact" where
  "VMSet_createVirtualDisk c x v ordinal t =
    (let diskName = vmset_disk_name v ordinal t; disk = disk_of (vst_meta v) diskName (getLabelsForOrdinal v ordinal) t in
     bind (kread (cGetDisk c (key_in (m_namespace (vst_meta v)) diskName))) (\<lambda>r. case r of
       Inr _ \<Rightarrow> ret ()
     | Inl e \<Rightarrow> if e \<noteq> NotFound then throw (ErrW ''failed to check VirtualDisk existence'' (ApiErr e))
         else (case SetControllerReference x (vst_meta v) (vdk_meta disk) of
             Inl e \<Rightarrow> throw (ErrW ''failed to set VMSet as controller of VirtualDisk'' e)
           | Inr m \<Rightarrow> create_missing c (ErrW ''failed to create VirtualDisk'') (ChildDisk (disk\<lparr>vdk_meta := m\<rparr>)))))"

definition createVirtualDisks :: "('w, vmset) client \<Rightarrow> ext \<Rightarrow> vmset \<Rightarrow> 32 word \<Rightarrow> ('w, vmset, unit) oact" where
  "createVirtualDisks c x v ordinal = for_each (vst_DiskTemplates v) (VMSet_createVirtualDisk c x v ordinal)"

definition deleteVirtualDisks :: "('w, vmset) client \<Rightarrow> vmset \<Rightarrow> 32 word \<Rightarrow> ('w, vmset, unit) oact" where
  "deleteVirtualDisks c v ordinal = for_each (vst_DiskTemplates v) (\<lambda>t.
     delete_existing c (ErrW ''failed to delete VirtualDisk'') KindVirtualDisk
       (key_in (m_namespace (vst_meta v)) (vmset_disk_name v ordinal t)))"

definition VMSet_scaleUp :: "('w, vmset) client \<Rightarrow> ext \<Rightarrow> vm list \<Rightarrow> 32 word \<Rightarrow> ('w, vmset, Result) oact" where
  "VMSet_scaleUp c x currentVMs desiredReplicas = bind getObj (\<lambda>v.
    let nextOrdinal = len32 currentVMs in
    bind (kread (cGetVM c (key_in (m_namespace (vst_meta v)) (vmset_vm_name v nextOrdinal)))) (\<lambda>r. case r of
      Inr _ \<Rightarrow> ret (requeue_after 5)
    | Inl e \<Rightarrow> if e \<noteq> NotFound then throw (ApiErr e)
        else bind (createVirtualDisks c x v nextOrdinal) (\<lambda>_.
          let m = VMSet_constructVM v nextOrdinal in
          case SetControllerReference x (vst_meta v) (vm_meta m) of
            Inl e \<Rightarrow> throw e
          | Inr mt \<Rightarrow> bind (create_missing c (\<lambda>e. e) (ChildVM (m\<lparr>vm_meta := mt\<rparr>))) (\<lambda>_. ret (requeue_after 5)))))"

text \<open>\<open>currentVMs[len(currentVMs)-1-int(i)]\<close> panics when \<open>i\<close> reaches the length.\<close>

definition VMSet_deleteAt :: "('w, vmset) client \<Rightarrow> vmset \<Rightarrow> vm list \<Rightarrow> nat \<Rightarrow> ('w, vmset, unit) oact" where
  "VMSet_deleteAt c v currentVMs i =
    (if length currentVMs \<le> i then panic ''index out of range''
     else (let m = currentVMs ! (length currentVMs - 1 - i) in
       bind (delete_existing c (\<lambda>e. e) KindVM (vm_key m)) (\<lambda>_.
       if shouldDeleteVirtualDisksOnScale v then deleteVirtualDisks c v (getOrdinal (vm_Name m)) else ret ())))"

definition VMSet_scaleDown :: "('w, vmset) client \<Rightarrow> ext \<Rightarrow> vm list \<Rightarrow> 32 word \<Rightarrow> ('w, vmset, Result) oact" where
  "VMSet_scaleDown c x currentVMs desiredReplicas = bind getObj (\<lambda>v.
    let toDelete = len32 currentVMs - desiredReplicas in
    bind (for_each [0..<nat (sint toDelete)] (VMSet_deleteAt c v currentVMs)) (\<lambda>_. ret (requeue_after 5)))"

definition VMSet_updateStatus :: "('w, vmset) client \<Rightarrow> vm list \<Rightarrow> ('w, vmset, Result) oact" where
  "VMSet_updateStatus c currentVMs =
    (let status = \<lparr>rs_Replicas = len32 currentVMs, rs_ReadyReplicas = len32 (filter isVMReady currentVMs),
       rs_AvailableReplicas = len32 (filter isVMAvailable currentVMs)\<rparr> in
     bind (modObj (\<lambda>v. v\<lparr>vst_Status := status\<rparr>)) (\<lambda>_. bind (updateSelfStatus c) done_or_error))"

definition by_ordinal :: "vm list \<Rightarrow> vm list" where
  "by_ordinal = sort_Slice (\<lambda>a b. getOrdinal (vm_Name a) <s getOrdinal (vm_Name b))"

definition VMSet_desired :: "vmset \<Rightarrow> 32 word" where
  "VMSet_desired v = (case vst_Replicas v of None \<Rightarrow> 0 | Some n \<Rightarrow> n)"

definition reconcileVMSet :: "('w, vmset) client \<Rightarrow> ext \<Rightarrow> ('w, vmset, Result) oact" where
  "reconcileVMSet c x = bind (VMSet_getCurrentVMs c) (\<lambda>vms. bind getObj (\<lambda>v.
    let currentVMs = by_ordinal vms; desiredReplicas = VMSet_desired v; currentReplicas = len32 currentVMs in
    if currentReplicas <s desiredReplicas then VMSet_scaleUp c x currentVMs desiredReplicas
    else if desiredReplicas <s currentReplicas then VMSet_scaleDown c x currentVMs desiredReplicas
    else VMSet_updateStatus c currentVMs))"

definition VMSet_handleDeletion :: "('w, vmset) client \<Rightarrow> ext \<Rightarrow> ('w, vmset, Result) oact" where
  "VMSet_handleDeletion c x = bind (VMSet_getCurrentVMs c) (\<lambda>vms. bind getObj (\<lambda>v.
    bind (for_each vms (\<lambda>m.
      bind (delete_existing c (\<lambda>e. e) KindVM (vm_key m)) (\<lambda>_.
      if shouldDeleteVirtualDisksOnDelete v then deleteVirtualDisks c v (getOrdinal (vm_Name m)) else ret ()))) (\<lambda>_.
    bind (modObj (\<lambda>v. v\<lparr>vst_meta := RemoveFinalizer x (vst_meta v) VMSetProtectionFinalizer\<rparr>)) (\<lambda>_.
    bind (updateSelf c) done_or_error))))"

definition VMSet_Reconcile :: "('w, vmset) client \<Rightarrow> ext \<Rightarrow> key \<Rightarrow> ('w, vmset, Result) oact" where
  "VMSet_Reconcile c x req =
    bind (kread (cGet c req)) (\<lambda>r. case r of
      Inl e \<Rightarrow> if e = NotFound then ret no_requeue else throw (ApiErr e)
    | Inr v \<Rightarrow> bind (modObj (\<lambda>_. v)) (\<lambda>_.
        if m_deletionTimestamp (vst_meta v) \<noteq> None then VMSet_handleDeletion c x
        else if \<not> ContainsFinalizer x (vst_meta v) VMSetProtectionFinalizer then
          bind (modObj (\<lambda>v. v\<lparr>vst_meta := AddFinalizer x (vst_meta v) VMSetProtectionFinalizer\<rparr>)) (\<lambda>_.
          bind (updateSelf c) done_or_error)
        else reconcileVMSet c x))"

section \<open>The shared contracts\<close>

lemma keeps_getCurrentVMs [keeps]: "keeps f (VMSet_getCurrentVMs c)"
  unfolding VMSet_getCurrentVMs_def by (intro keeps)

lemma traces_getCurrentVMs [traces]: "traces P (VMSet_getCurrentVMs c)"
  by (rule traces_none) (rule keeps)

lemma cleans_getCurrentVMs [cleans]: "cleans (VMSet_getCurrentVMs c)"
  unfolding VMSet_getCurrentVMs_def by (intro cleans)

lemma cleans_deleteVirtualDisks [cleans]: "cleans (deleteVirtualDisks c v ord)"
  unfolding deleteVirtualDisks_def by (intro cleans)

lemma handleDeletion_releases: "releases (VMSet_handleDeletion c x)"
  unfolding VMSet_handleDeletion_def
  by (intro releases_bind releases_update cleans) (simp_all add: done_or_error_def keeps)


lemma traces_createVirtualDisks: "traces disk_creation (createVirtualDisks c x v ord)"
  unfolding createVirtualDisks_def VMSet_createVirtualDisk_def Let_def by (intro traces) simp

lemma scaleUp_grows: "emits grows (VMSet_scaleUp c x vms d)"
proof -
  have sub: "emits grows (bind (createVirtualDisks c x v n) (\<lambda>_.
          let m = VMSet_constructVM v n in
          case SetControllerReference x (vst_meta v) (vm_meta m) of
            Inl e \<Rightarrow> throw e
          | Inr mt \<Rightarrow> bind (create_missing c (\<lambda>e. e) (ChildVM (m\<lparr>vm_meta := mt\<rparr>))) (\<lambda>_. ret (requeue_after 5))))" for v n
  proof (rule grows_bind [OF traces_createVirtualDisks])
    show "emits grows (let m = VMSet_constructVM v n in
          case SetControllerReference x (vst_meta v) (vm_meta m) of
            Inl e \<Rightarrow> throw e
          | Inr mt \<Rightarrow> bind (create_missing c (\<lambda>e. e) (ChildVM (m\<lparr>vm_meta := mt\<rparr>))) (\<lambda>_. ret (requeue_after 5)))"
      by (cases "SetControllerReference x (vst_meta v) (vm_meta (VMSet_constructVM v n))")
        (simp_all add: Let_def grows_create_missing grows_disks traces)
  qed
  show ?thesis
    unfolding VMSet_scaleUp_def Let_def
    apply (rule grows_bind)
     apply (rule traces)
    apply (rule grows_bind)
     apply (rule traces)
    subgoal for v r using sub by (cases r) (simp_all add: Let_def grows_disks traces)
    done
qed

lemma scaleDown_cleans: "traces cleanup_call (VMSet_scaleDown c x vms d)"
  unfolding VMSet_scaleDown_def VMSet_deleteAt_def Let_def
  by (rule cleans_traces) (intro cleans)

lemma deleteVirtualDisks_silent: "walks vm_deleted [] (deleteVirtualDisks c v ord)"
  unfolding deleteVirtualDisks_def by (intro walks walks_other traces) simp

lemma deleteAt_walks:
  assumes "i < length vms"
  shows "walks vm_deleted [vm_key (vms ! (length vms - 1 - i))] (VMSet_deleteAt c v vms i)"
proof -
  have "walks vm_deleted [] (if shouldDeleteVirtualDisksOnScale v then deleteVirtualDisks c v ord else ret ())" for ord
    by (intro walks deleteVirtualDisks_silent)
  then show ?thesis unfolding VMSet_deleteAt_def Let_def using assms
    by (simp add: walks_then_silent walks_delete_existing)
qed

lemma scaleDown_walks:
  assumes "0 \<le> sint d" "sint d < int (length vms)" "length vms < 2 ^ 31"
  shows "walks vm_deleted (map vm_key (surplus (length vms - nat (sint d)) vms)) (VMSet_scaleDown c x vms d)"
  unfolding VMSet_scaleDown_def Let_def
  by (rule walks_bind_silent walks_then_silent walks_silent walks_countdown [OF assms] deleteAt_walks | assumption)+


lemma updateStatus_counts:
  "\<exists>v b. trace (snd (VMSet_updateStatus c vms s)) = trace s @ [StatusUpdated v b] \<and> rs_Replicas (vst_Status v) = len32 vms"
proof -
  obtain v where v: "v = (obj s)\<lparr>vst_Status := \<lparr>rs_Replicas = len32 vms, rs_ReadyReplicas = len32 (filter isVMReady vms),
       rs_AvailableReplicas = len32 (filter isVMAvailable vms)\<rparr>\<rparr>" by simp
  obtain r w where "cUpdateStatus c v (world s) = (r, w)" by fastforce
  then show ?thesis
    by (intro exI [of _ v] exI [of _ "is_Inr r"], cases r)
      (simp_all add: VMSet_updateStatus_def Let_def bind_def modObj_def updateSelfStatus_def updateObj_def done_or_error_def
        ret_def throw_def v)
qed

lemma reconcileVMSet_live: "traces not_updated (reconcileVMSet c x)"
proof -
  have "traces not_updated (VMSet_scaleUp c x vms d)" for vms d
    unfolding VMSet_scaleUp_def createVirtualDisks_def VMSet_createVirtualDisk_def Let_def by (intro traces) simp_all
  moreover have "traces not_updated (VMSet_scaleDown c x vms d)" for vms d
    using scaleDown_cleans [of c x vms d] unfolding traces_emits
    by (rule emits_mono) (simp add: list_all_iff cleanup_not_updated)
  moreover have "traces not_updated (VMSet_updateStatus c vms)" for vms
    unfolding VMSet_updateStatus_def Let_def by (intro traces) simp
  ultimately show ?thesis unfolding reconcileVMSet_def Let_def by (intro traces)
qed

interpretation vms: replica_controller
  where Reconcile = VMSet_Reconcile and handleDeletion = VMSet_handleDeletion and reconcileObj = reconcileVMSet
    and meta_of = vst_meta and map_meta = "\<lambda>f v. v\<lparr>vst_meta := f (vst_meta v)\<rparr>" and finalizer = VMSetProtectionFinalizer
    and getCurrentVMs = VMSet_getCurrentVMs and arrange = by_ordinal and desired = VMSet_desired
    and scaleUp = VMSet_scaleUp and scaleDown = VMSet_scaleDown and updateStatus = VMSet_updateStatus
    and replicas = "\<lambda>v. rs_Replicas (vst_Status v)"
proof (unfold_locales, goal_cases)
  case 1 show ?case by (simp add: VMSet_Reconcile_def protected_round_def)
next
  case 2 show ?case by (rule handleDeletion_releases)
next
  case 3 show ?case by (rule reconcileVMSet_live)
next
  case 4 show ?case by simp
next
  case 5 show ?case by (simp add: reconcileVMSet_def Let_def)
next
  case 6 show ?case by (rule keeps)
next
  case 7 show ?case by (rule scaleUp_grows)
next
  case 8 then show ?case by (rule scaleDown_walks)
next
  case 9 show ?case by (rule scaleDown_cleans)
next
  case 10 show ?case by (rule updateStatus_counts)
next
  case 11 show ?case by (simp add: by_ordinal_def)
qed

lemma Reconcile_live:
  assumes "cGet c req (world s) = Inr v" "m_deletionTimestamp (vst_meta v) = None"
    and "ContainsFinalizer x (vst_meta v) VMSetProtectionFinalizer"
  shows "VMSet_Reconcile c x req s = reconcileVMSet c x (s\<lparr>obj := v\<rparr>)"
  using assms by (simp add: VMSet_Reconcile_def bind_def kread_def modObj_def)

lemma by_ordinal_sorted: "sorted_wrt (\<lambda>a b. getOrdinal (vm_Name a) \<le>s getOrdinal (vm_Name b)) (by_ordinal vms)"
  unfolding by_ordinal_def
  by (rule sort_Slice_sorted) (auto simp: transp_def word_sless_alt word_sle_eq)

section \<open>Properties\<close>

lemma disks_no_vm: "walks vm_created [] (createVirtualDisks c x v n)"
proof (rule walks_other)
  have "disk_creation cl \<Longrightarrow> vm_created cl = None" for cl :: "vmset ocall"
    by (auto simp: disk_creation_def split: ocall.splits child.splits)
  then show "traces (\<lambda>cl. vm_created cl = None) (createVirtualDisks c x v n)"
    using traces_createVirtualDisks [of c x v n] unfolding traces_emits by (elim emits_mono) (auto simp: list_all_iff)
qed

lemma walks_create_missing: "walks vm_created [m] (create_missing c wr (ChildVM m))"
proof -
  have "\<exists>cs. trace (snd (create_missing c wr (ChildVM m) s)) = trace s @ cs \<and> List.map_filter vm_created cs = [m]" for s
    using emitsD [OF emits_create_missing, of c wr "ChildVM m" s] by (auto simp: List.map_filter_def)
  then show ?thesis unfolding walks_def by fastforce
qed

text \<open>The VM that scaling up creates, with the VMSet as its controller; none when it cannot be made the controller.\<close>

definition controlled :: "ext \<Rightarrow> vmset \<Rightarrow> vm \<Rightarrow> vm list" where
  "controlled x v m = (case SetControllerReference x (vst_meta v) (vm_meta m) of Inl _ \<Rightarrow> [] | Inr mt \<Rightarrow> [m\<lparr>vm_meta := mt\<rparr>])"

lemma scaleUp_creates:
  "\<exists>cs. trace (snd (VMSet_scaleUp c x vms d s)) = trace s @ cs
    \<and> (if cGetVM c (key_in (m_namespace (vst_meta (obj s))) (vmset_vm_name (obj s) (len32 vms))) (world s) = Inl NotFound
       then prefix (List.map_filter vm_created cs) (controlled x (obj s) (VMSet_constructVM (obj s) (len32 vms)))
         \<and> (is_ok (fst (VMSet_scaleUp c x vms d s)) \<longrightarrow>
              List.map_filter vm_created cs = controlled x (obj s) (VMSet_constructVM (obj s) (len32 vms))
              \<and> controlled x (obj s) (VMSet_constructVM (obj s) (len32 vms)) \<noteq> [])
       else cs = [])"
proof -
  let ?v = "obj s" and ?n = "len32 vms"
  let ?rest = "bind (createVirtualDisks c x ?v ?n) (\<lambda>_.
          let m = VMSet_constructVM ?v ?n in
          case SetControllerReference x (vst_meta ?v) (vm_meta m) of
            Inl e \<Rightarrow> throw e
          | Inr mt \<Rightarrow> bind (create_missing c (\<lambda>e. e) (ChildVM (m\<lparr>vm_meta := mt\<rparr>))) (\<lambda>_. ret (requeue_after 5)))"
  have w: "walks vm_created (controlled x ?v (VMSet_constructVM ?v ?n)) ?rest"
    unfolding controlled_def Let_def
    by (cases "SetControllerReference x (vst_meta ?v) (vm_meta (VMSet_constructVM ?v ?n))")
      (auto intro!: walks_bind_silent [OF disks_no_vm] walks_then_silent [OF walks_create_missing] walks_silent)
  have ok: "is_ok (fst (?rest s)) \<Longrightarrow> controlled x ?v (VMSet_constructVM ?v ?n) \<noteq> []"
    by (auto simp: controlled_def Let_def bind_def throw_def split: sum.splits prod.splits outcome.splits)
  let ?r = "cGetVM c (key_in (m_namespace (vst_meta ?v)) (vmset_vm_name ?v ?n)) (world s)"
  have go: "VMSet_scaleUp c x vms d s = (case ?r of Inr _ \<Rightarrow> ret (requeue_after 5)
      | Inl e \<Rightarrow> if e \<noteq> NotFound then throw (ApiErr e) else ?rest) s"
    by (simp add: VMSet_scaleUp_def Let_def bind_def getObj_def kread_def split: sum.splits)
  show ?thesis
  proof (cases "?r = Inl NotFound")
    case True
    then have "VMSet_scaleUp c x vms d s = ?rest s" by (simp add: go)
    then show ?thesis using True walksD [OF w, of s] ok by auto
  next
    case False
    then show ?thesis by (auto simp: go ret_def throw_def split: sum.splits)
  qed
qed

lemma next_vm_meta:
  assumes "n < 2 ^ 31"
  shows "vm_Name (VMSet_constructVM v (word_of_nat n)) = m_name (vst_meta v) @ ''-'' @ Itoa (int n)"
    and "m_namespace (vm_meta (VMSet_constructVM v (word_of_nat n))) = m_namespace (vst_meta v)"
    and "gm_get (m_labels (vm_meta (VMSet_constructVM v (word_of_nat n)))) ''cloudhypervisor.quill.today/vmset-ordinal'' = Some (Itoa (int n))"
  using sint_len32 [of "replicate n ()"] assms
  by (simp_all add: len32_def VMSet_constructVM_def VMSet_injectVirtualDiskReferences_def vmset_vm_name_def getLabelsForOrdinal_def gm_get_def VMSET_LABEL_def)

text \<open>C5: One round over a live VMSet with \<open>n\<close> VMs and a wanted number that is not negative. With too few VMs it creates disks and at most
  one VM: the VM named after the ordinal \<open>n\<close>, with that ordinal as its label and the VMSet as controller. It does create it when the name is free
  and the round ends without error, and does nothing at all when the name is taken. With too many it deletes
  exactly the surplus VMs with the highest ordinals, highest first, stopping at the first error; with
  the right number it only writes the status, which states that number.\<close>

theorem vmset_scaling_round:
  assumes "cGet c req (world s) = Inr v" "m_deletionTimestamp (vst_meta v) = None"
    and "ContainsFinalizer x (vst_meta v) VMSetProtectionFinalizer"
    and "VMSet_getCurrentVMs c (s\<lparr>obj := v\<rparr>) = (Ok vms, s')" and "length vms < 2 ^ 31" and "0 \<le> sint (VMSet_desired v)"
  shows "\<exists>cs sorted. trace (snd (VMSet_Reconcile c x req s)) = trace s @ cs \<and> mset sorted = mset vms
    \<and> sorted_wrt (\<lambda>a b. getOrdinal (vm_Name a) \<le>s getOrdinal (vm_Name b)) sorted
    \<and> (if int (length vms) < sint (VMSet_desired v) then grows cs
         \<and> (let name = m_name (vst_meta v) @ ''-'' @ Itoa (int (length vms)); m = VMSet_constructVM v (word_of_nat (length vms)) in
              vm_Name m = name \<and> m_namespace (vm_meta m) = m_namespace (vst_meta v)
              \<and> gm_get (m_labels (vm_meta m)) ''cloudhypervisor.quill.today/vmset-ordinal'' = Some (Itoa (int (length vms)))
              \<and> (if cGetVM c (key_in (m_namespace (vst_meta v)) name) (world s) = Inl NotFound
                 then prefix (List.map_filter vm_created cs) (controlled x v m)
                   \<and> (is_ok (fst (VMSet_Reconcile c x req s)) \<longrightarrow> List.map_filter vm_created cs = controlled x v m \<and> controlled x v m \<noteq> [])
                 else cs = []))
       else if sint (VMSet_desired v) < int (length vms) then list_all cleanup_call cs
         \<and> prefix (List.map_filter vm_deleted cs) (map vm_key (surplus (length vms - nat (sint (VMSet_desired v))) sorted))
         \<and> (is_ok (fst (VMSet_Reconcile c x req s)) \<longrightarrow>
              List.map_filter vm_deleted cs = map vm_key (surplus (length vms - nat (sint (VMSet_desired v))) sorted))
       else \<exists>w b. cs = [StatusUpdated w b] \<and> rs_Replicas (vst_Status w) = word_of_nat (length vms))"
proof -
  let ?s = "s\<lparr>obj := v\<rparr>"
  have perm: "mset (by_ordinal vms) = mset vms" by (simp add: by_ordinal_def)
  have o: "obj ?s = v" "trace ?s = trace s" by simp_all
  then have d: "0 \<le> sint (VMSet_desired (obj ?s))" using assms(6) by simp
  show ?thesis
    unfolding Reconcile_live [OF assms(1-3)]
  proof (rule exE [OF vms.scaling_step [OF assms(4) d assms(5), of x, unfolded o]], goal_cases)
    case (1 cs)
    show ?case
    proof (cases "int (length vms) < sint (VMSet_desired v)")
      case True
      let ?name = "m_name (vst_meta v) @ ''-'' @ Itoa (int (length vms))" and ?m = "VMSet_constructVM v (word_of_nat (length vms))"
      have len: "len32 (by_ordinal vms) = word_of_nat (length vms)" by (simp add: len32_def by_ordinal_def)
      have nm: "vmset_vm_name v (word_of_nat (length vms)) = ?name"
        using assms(5) sint_len32 [of vms] by (simp add: vmset_vm_name_def len32_def)
      have "reconcileVMSet c x ?s = VMSet_scaleUp c x (by_ordinal vms) (VMSet_desired v) ?s"
        using assms(4,5) True keepsD [OF vms.reads, of c ?s]
        by (simp add: reconcileVMSet_def Let_def bind_def getObj_def word_sless_alt sint_len32 by_ordinal_def)
      then have "if cGetVM c (key_in (m_namespace (vst_meta v)) ?name) (world s) = Inl NotFound
          then prefix (List.map_filter vm_created cs) (controlled x v ?m)
            \<and> (is_ok (fst (reconcileVMSet c x ?s)) \<longrightarrow> List.map_filter vm_created cs = controlled x v ?m \<and> controlled x v ?m \<noteq> [])
          else cs = []"
        using 1 scaleUp_creates [of c x "by_ordinal vms" "VMSet_desired v" ?s] by (auto simp: len nm)
      then show ?thesis
        using True 1 next_vm_meta [OF assms(5), of v] perm by_ordinal_sorted [of vms]
        by (intro exI [of _ cs] exI [of _ "by_ordinal vms"] conjI) (simp_all add: Let_def)
    next
      case False
      then show ?thesis using 1 perm by_ordinal_sorted [of vms]
        by (intro exI [of _ cs] exI [of _ "by_ordinal vms"] conjI) (simp only: if_False, blast?)+
    qed
  qed
qed


text \<open>The objects that go with a VMSet, in the order in which they are deleted: each VM, and after it the disks made for its ordinal when the
  set says so.\<close>

fun deletion :: "'o ocall \<Rightarrow> (kind \<times> key) option" where
  "deletion (Deleted kd key r) = Some (kd, key)"
| "deletion _ = None"

definition doomed :: "vmset \<Rightarrow> vm list \<Rightarrow> (kind \<times> key) list" where
  "doomed v vms = concat (map (\<lambda>m. (KindVM, vm_key m) #
     (if \<exists>whenScaled. vst_Retention v = Some (whenScaled, ''Delete'')
      then map (\<lambda>t. (KindVirtualDisk, key_in (m_namespace (vst_meta v)) (vmset_disk_name v (getOrdinal (vm_Name m)) t))) (vst_DiskTemplates v)
      else [])) vms)"

abbreviation delete_children :: "('w, vmset) client \<Rightarrow> vmset \<Rightarrow> vm list \<Rightarrow> ('w, vmset, unit) oact" where
  "delete_children c v vms \<equiv> for_each vms (\<lambda>m.
      bind (delete_existing c (\<lambda>e. e) KindVM (vm_key m)) (\<lambda>_.
      if shouldDeleteVirtualDisksOnDelete v then deleteVirtualDisks c v (getOrdinal (vm_Name m)) else ret ()))"

lemma walks_delete_children: "walks deletion (doomed v vms) (delete_children c v vms)"
proof -
  have on: "shouldDeleteVirtualDisksOnDelete v \<longleftrightarrow> (\<exists>whenScaled. vst_Retention v = Some (whenScaled, ''Delete''))"
    by (auto simp: shouldDeleteVirtualDisksOnDelete_def split: option.splits)
  have disks: "walks deletion (map (\<lambda>t. (KindVirtualDisk, key_in (m_namespace (vst_meta v)) (vmset_disk_name v ord t))) (vst_DiskTemplates v))
      (deleteVirtualDisks c v ord)" for ord
  proof -
    have "walks deletion (concat (map (\<lambda>t. [(KindVirtualDisk, key_in (m_namespace (vst_meta v)) (vmset_disk_name v ord t))]) (vst_DiskTemplates v)))
        (deleteVirtualDisks c v ord)"
      unfolding deleteVirtualDisks_def by (intro walks_for_each walks_delete_existing) simp
    then show ?thesis by simp
  qed
  have "walks deletion ([(KindVM, vm_key m)] @ (if shouldDeleteVirtualDisksOnDelete v
        then map (\<lambda>t. (KindVirtualDisk, key_in (m_namespace (vst_meta v)) (vmset_disk_name v (getOrdinal (vm_Name m)) t))) (vst_DiskTemplates v)
        else []))
      (bind (delete_existing c (\<lambda>e. e) KindVM (vm_key m)) (\<lambda>_.
        if shouldDeleteVirtualDisksOnDelete v then deleteVirtualDisks c v (getOrdinal (vm_Name m)) else ret ()))" for m
    by (intro walks_bind walks_delete_existing) (simp_all add: disks walks)
  then show ?thesis unfolding doomed_def on [symmetric] by (intro walks_for_each) simp
qed

lemma keeps_delete_children: "keeps obj (delete_children c v vms)"
  unfolding deleteVirtualDisks_def by (intro keeps)

lemma delete_children_calls:
  "\<exists>ds. trace (snd (delete_children c v vms s)) = trace s @ ds \<and> list_all cleanup_call ds \<and> prefix (List.map_filter deletion ds) (doomed v vms)
    \<and> (is_ok (fst (delete_children c v vms s)) \<longrightarrow> List.map_filter deletion ds = doomed v vms \<and> list_all gone ds)"
proof -
  have "cleans (delete_children c v vms)" by (intro cleans)
  then obtain ds where "trace (snd (delete_children c v vms s)) = trace s @ ds" "list_all cleanup_call ds"
    "is_ok (fst (delete_children c v vms s)) \<longrightarrow> list_all gone ds" unfolding cleans_def by blast
  then show ?thesis using walksD [OF walks_delete_children [of v vms c], of s] by auto
qed

lemma handleDeletion_outcome:
  assumes "VMSet_getCurrentVMs c s = (Ok vms, s')" and v: "obj s = v"
  shows "\<exists>ds us. trace (snd (VMSet_handleDeletion c x s)) = trace s @ ds @ us
    \<and> list_all cleanup_call ds \<and> prefix (List.map_filter deletion ds) (doomed v vms)
    \<and> (if us = [] then \<not> is_ok (fst (VMSet_handleDeletion c x s))
       else List.map_filter deletion ds = doomed v vms \<and> list_all gone ds
         \<and> (\<exists>b. us = [Updated (v\<lparr>vst_meta := RemoveFinalizer x (vst_meta v) VMSetProtectionFinalizer\<rparr>) b]))"
proof -
  have s': "s' = s" using assms keepsD [OF keeps_getCurrentVMs, of "\<lambda>s. s" c s] by simp
  obtain r t where m: "delete_children c v vms s = (r, t)" by fastforce
  have t: "obj t = v" using keepsD [OF keeps_delete_children [of vms c v], of s] m v by simp
  obtain ds where ds: "trace t = trace s @ ds" "list_all cleanup_call ds" "prefix (List.map_filter deletion ds) (doomed v vms)"
    "is_ok r \<longrightarrow> List.map_filter deletion ds = doomed v vms \<and> list_all gone ds"
    using delete_children_calls [of vms c v s] m by auto
  show ?thesis
  proof (cases r)
    case (Ok u)
    let ?w = "v\<lparr>vst_meta := RemoveFinalizer x (vst_meta v) VMSetProtectionFinalizer\<rparr>"
    obtain q w where "cUpdate c ?w (world t) = (q, w)" by fastforce
    then have "trace (snd (VMSet_handleDeletion c x s)) = trace s @ ds @ [Updated ?w (is_Inr q)]"
      using Ok m assms s' t ds(1)
      by (cases q) (simp_all add: VMSet_handleDeletion_def bind_def getObj_def modObj_def updateSelf_def updateObj_def done_or_error_def ret_def throw_def cong: if_cong)
    then show ?thesis using Ok ds by (intro exI [of _ ds] exI [of _ "[Updated ?w (is_Inr q)]"]) simp
  qed (use m assms s' ds in \<open>simp_all add: VMSet_handleDeletion_def bind_def getObj_def exI [of _ ds] exI [of _ "[]"] v cong: if_cong\<close>)
qed

text \<open>C12: The object itself is updated in two rounds only. A new VMSet gets the protection finalizer, and
  the round does nothing else. A VMSet under deletion deletes every VM its selector finds, in order, each followed by the disks made for its
  ordinal when the retention policy of the set says \<open>Delete\<close> (and by none otherwise); the update that takes the finalizer off is the last call, is made only after all of these
  deletions were accepted or found nothing, and is left out only in a round that fails. No other round touches the object.\<close>

theorem vmset_finalizer_protocol:
  assumes "cGet c req (world s) = Inr v"
  shows "\<exists>cs. trace (snd (VMSet_Reconcile c x req s)) = trace s @ cs \<and>
     (if m_deletionTimestamp (vst_meta v) \<noteq> None then
        (case fst (VMSet_getCurrentVMs c (s\<lparr>obj := v\<rparr>)) of
           Ok vms \<Rightarrow> \<exists>ds us. cs = ds @ us \<and> list_all cleanup_call ds \<and> prefix (List.map_filter deletion ds) (doomed v vms)
             \<and> (if us = [] then \<not> is_ok (fst (VMSet_Reconcile c x req s))
                else List.map_filter deletion ds = doomed v vms \<and> list_all gone ds
                  \<and> (\<exists>b. us = [Updated (v\<lparr>vst_meta := RemoveFinalizer x (vst_meta v) VMSetProtectionFinalizer\<rparr>) b]))
         | _ \<Rightarrow> cs = [] \<and> \<not> is_ok (fst (VMSet_Reconcile c x req s)))
      else if ContainsFinalizer x (vst_meta v) VMSetProtectionFinalizer then list_all not_updated cs
      else \<exists>b. cs = [Updated (v\<lparr>vst_meta := AddFinalizer x (vst_meta v) VMSetProtectionFinalizer\<rparr>) b])"
proof (cases "m_deletionTimestamp (vst_meta v) \<noteq> None")
  case True
  let ?s = "s\<lparr>obj := v\<rparr>"
  have go: "VMSet_Reconcile c x req s = VMSet_handleDeletion c x ?s"
    using assms True by (simp add: VMSet_Reconcile_def bind_def kread_def modObj_def)
  obtain r s' where g: "VMSet_getCurrentVMs c ?s = (r, s')" by fastforce
  have s': "s' = ?s" using g keepsD [OF keeps_getCurrentVMs, of "\<lambda>s. s" c ?s] by simp
  show ?thesis
  proof (cases r)
    case (Ok vms)
    have o: "obj ?s = v" "trace ?s = trace s" by simp_all
    have c: "fst (VMSet_getCurrentVMs c ?s) = Ok vms" using g Ok by simp
    show ?thesis unfolding go c outcome.case if_P [OF True]
      by (rule exE [OF handleDeletion_outcome [OF g [unfolded Ok] o(1), of x, unfolded o(2)]], elim exE conjE)
        (intro exI conjI; (assumption | rule refl))
  qed (use True g s' in \<open>auto simp: go VMSet_handleDeletion_def bind_def\<close>)
qed (use vms.round_cases [OF assms, of x] in auto)

text \<open>A VMSet that has lost a VM other than the one with the highest ordinal stays short of it: the
  next VM is named after the number of VMs, that name is taken, and every round ends without a call.\<close>

theorem vmset_gap_stalls:
  assumes "cGet c req (world s) = Inr v" "m_deletionTimestamp (vst_meta v) = None"
    and "ContainsFinalizer x (vst_meta v) VMSetProtectionFinalizer"
    and "VMSet_getCurrentVMs c (s\<lparr>obj := v\<rparr>) = (Ok vms, s')" and "length vms < 2 ^ 31"
    and "int (length vms) < sint (VMSet_desired v)"
    and "cGetVM c (key_in (m_namespace (vst_meta v)) (vmset_vm_name v (word_of_nat (length vms)))) (world s) = Inr m"
  shows "VMSet_Reconcile c x req s = (Ok (requeue_after 5), s\<lparr>obj := v\<rparr>)"
proof -
  have s': "s' = s\<lparr>obj := v\<rparr>" using assms(4) keepsD [OF vms.reads, of c "s\<lparr>obj := v\<rparr>"] by simp
  have n: "len32 (by_ordinal vms) = word_of_nat (length vms)" by (simp add: len32_def by_ordinal_def)
  have "sint (len32 (by_ordinal vms)) = int (length vms)" using assms(5) by (simp add: sint_len32 by_ordinal_def)
  then have "len32 (by_ordinal vms) <s VMSet_desired v" using assms(6) by (simp add: word_sless_alt)
  then have "reconcileVMSet c x (s\<lparr>obj := v\<rparr>) = VMSet_scaleUp c x (by_ordinal vms) (VMSet_desired v) (s\<lparr>obj := v\<rparr>)"
    using assms(4) s' by (simp add: reconcileVMSet_def Let_def bind_def getObj_def)
  also have "\<dots> = (Ok (requeue_after 5), s\<lparr>obj := v\<rparr>)"
    using assms(7) by (simp add: VMSet_scaleUp_def Let_def bind_def getObj_def kread_def ret_def n)
  finally show ?thesis by (simp add: Reconcile_live [OF assms(1-3)])
qed

lemma ordinal_digits:
  assumes "0 \<le> sint (n :: 32 word)"
  shows "CHR ''-'' \<notin> set (Itoa (sint n))" "in_int64 (sint n)"
  using assms sint_greater_eq [of n] sint_less [of n] Itoa_nonneg_no_sep [of "sint n" "CHR ''-''"]
  by (simp_all add: in_int64_def is_digit_def)

lemma last_dash: "CHR ''-'' \<notin> set a \<Longrightarrow> CHR ''-'' \<notin> set b \<Longrightarrow> p @ ''-'' @ a = q @ ''-'' @ b \<Longrightarrow> a = b \<and> p = q"
  using last_Split_append [of "CHR ''-''" a p] last_Split_append [of "CHR ''-''" b q] by auto

text \<open>The ordinal read back from the name of a VM is the one it was made for, whatever dashes the
  name of the set has; and two disks of a set have the same name only if they are for the same ordinal
  and the same template.\<close>

theorem vmset_ordinal_roundtrip:
  assumes "0 \<le> sint n"
  shows "getOrdinal (vmset_vm_name v n) = n
    \<and> (0 \<le> sint m \<longrightarrow> vmset_disk_name v n t = vmset_disk_name v m u \<longrightarrow> n = m \<and> dt_name t = dt_name u)"
proof (intro conjI impI)
  have "last (Split CHR ''-'' (vmset_vm_name v n)) = Itoa (sint n)"
    using last_Split_append [OF ordinal_digits(1) [OF assms]] by (simp add: vmset_vm_name_def)
  then show "getOrdinal (vmset_vm_name v n) = n"
    using Atoi_Itoa [OF ordinal_digits(2) [OF assms]] by (simp add: getOrdinal_def)
next
  assume m: "0 \<le> sint m" and eq: "vmset_disk_name v n t = vmset_disk_name v m u"
  have "Itoa (sint n) = Itoa (sint m) \<and> m_name (vst_meta v) @ ''-'' @ dt_name t = m_name (vst_meta v) @ ''-'' @ dt_name u"
    using eq ordinal_digits(1) [OF assms] ordinal_digits(1) [OF m] unfolding vmset_disk_name_def by (intro last_dash) simp_all
  then show "n = m" "dt_name t = dt_name u"
    using Itoa_inject [OF ordinal_digits(2) [OF assms] ordinal_digits(2) [OF m]] by (simp_all add: signed_word_eqI)
qed

text \<open>In the VM that \<open>constructVM\<close> makes, a volume that refers to a disk template refers to the disk
  that \<open>createVirtualDisks\<close> makes from that template for the same ordinal; other volumes are as in
  the template.\<close>

theorem vmset_disk_references:
  assumes "distinct (map dt_name (vst_DiskTemplates v))"
    and "vol \<in> set (s_Volumes (vst_TemplateSpec v))" "v_VirtualDisk vol = Some d"
    and "t \<in> set (vst_DiskTemplates v)" "pvc_claim d = dt_name t"
    and "vmset_disk_name v n t \<notin> dt_name ` set (vst_DiskTemplates v)"
  shows "vol\<lparr>v_VirtualDisk := Some (d\<lparr>pvc_claim := vmset_disk_name v n t\<rparr>)\<rparr> \<in> set (s_Volumes (vm_spec (VMSet_constructVM v n)))
    \<and> length (s_Volumes (vm_spec (VMSet_constructVM v n))) = length (s_Volumes (vst_TemplateSpec v))"
proof -
  have "s_Volumes (vm_spec (VMSet_constructVM v n)) = map (\<lambda>vol. fold (\<lambda>t. point_at (dt_name t) (vmset_disk_name v n t)) (vst_DiskTemplates v) vol)
      (s_Volumes (vst_TemplateSpec v))"
    by (simp add: VMSet_constructVM_def VMSet_injectVirtualDiskReferences_def inject_references_nth)
  then show ?thesis
    using reference_to_template [OF assms(3,4,5,1), of "vmset_disk_name v n"] assms(2,6)
    by (auto simp: rev_image_eqI)
qed


subsection \<open>Negative replica counts\<close>

lemma succeeds_deleteAt:
  assumes "\<And>kd key w. \<not> hard_error (fst (cDelete c kd key w))" "i < length vms"
  shows "succeeds (VMSet_deleteAt c v vms i)"
proof -
  have "succeeds (deleteVirtualDisks c v ord)" for ord
    unfolding deleteVirtualDisks_def by (intro succeeds_for_each succeeds_delete_existing assms(1))
  then have "succeeds (if b then deleteVirtualDisks c v ord else ret ())" for b ord
    by (simp add: succeeds_ret)
  then show ?thesis
    unfolding VMSet_deleteAt_def Let_def using assms(2) by (simp add: succeeds_bind succeeds_delete_existing [OF assms(1)])
qed

text \<open>A negative number of replicas, which neither the schema nor the webhook refuses, makes the
  controller delete every VM of the set and then panic: the loop runs one index past the list.\<close>

theorem vmset_negative_replicas_panic:
  assumes "cGet c req (world s) = Inr v" "m_deletionTimestamp (vst_meta v) = None"
    and "ContainsFinalizer x (vst_meta v) VMSetProtectionFinalizer"
    and "VMSet_getCurrentVMs c (s\<lparr>obj := v\<rparr>) = (Ok vms, s')" and "sint (VMSet_desired v) < 0"
    and "int (length vms) - sint (VMSet_desired v) < 2 ^ 31"
    and "\<And>kd key w. \<not> hard_error (fst (cDelete c kd key w))"
  shows "fst (VMSet_Reconcile c x req s) = Panic ''index out of range''
    \<and> (\<exists>cs. trace (snd (VMSet_Reconcile c x req s)) = trace s @ cs \<and> List.map_filter vm_deleted cs = map vm_key (rev (by_ordinal vms)))"
proof -
  let ?d = "VMSet_desired v" and ?s = "s\<lparr>obj := v\<rparr>" and ?vms = "by_ordinal vms"
  let ?n = "length ?vms" and ?k = "nat (sint (len32 ?vms - ?d))"
  have s': "s' = ?s" using assms(4) keepsD [OF vms.reads, of c ?s] by simp
  have len: "?n = length vms" by (simp add: by_ordinal_def)
  have small: "?n < 2 ^ 31" using assms(5,6) unfolding len by simp
  have "sint (len32 ?vms - ?d) = int ?n - sint ?d"
    using assms(5,6) small len by (simp add: sint_word_ariths sint_len32 signed_take_bit_int_eq_self)
  then have k: "[0..<?k] = [0..<?n] @ ?n # [Suc ?n..<?k]"
    using assms(5) upt_add_eq_append [of 0 ?n "?k - ?n"] upt_conv_Cons [of ?n ?k] by simp
  have walk: "walks vm_deleted (map vm_key (rev ?vms)) (for_each [0..<?n] (VMSet_deleteAt c v ?vms))"
    by (rule walks_countdown_all) (rule deleteAt_walks)
  have "succeeds (for_each [0..<?n] (VMSet_deleteAt c v ?vms))"
    by (intro succeeds_for_each succeeds_deleteAt assms(7)) simp
  then obtain t where first: "for_each [0..<?n] (VMSet_deleteAt c v ?vms) ?s = (Ok (), t)"
    by (rule succeedsE) simp
  have "reconcileVMSet c x ?s = VMSet_scaleDown c x ?vms ?d ?s"
    using assms(4,5) s' small len by (simp add: reconcileVMSet_def Let_def bind_def getObj_def word_sless_alt sint_len32)
  also have "\<dots> = (Panic ''index out of range'', t)"
    using first by (simp add: VMSet_scaleDown_def k for_each_append bind_def getObj_def VMSet_deleteAt_def panic_def)
  finally show ?thesis
    using walksD [OF walk, of ?s] first by (simp add: Reconcile_live [OF assms(1-3)]) blast
qed


section \<open>Concrete rounds\<close>

definition data_template :: disk_template where
  "data_template = \<lparr>dt_name = ''data'', dt_annotations = None, dt_spec = \<lparr>dsp_Storage = None, dsp_Source = None\<rparr>\<rparr>"

definition data_volume_of_template :: volume where
  "data_volume_of_template = \<lparr>v_name = ''d'', v_ContainerDisk = None, v_CloudInit = None, v_ContainerRootfs = None,
     v_PersistentVolumeClaim = None, v_DataVolume = None,
     v_VirtualDisk = Some \<lparr>pvc_claim = ''data'', pvc_hotpluggable = False\<rparr>, v_MemorySnapshot = None\<rparr>"

definition web_set :: "32 word \<Rightarrow> vmset" where
  "web_set n = \<lparr>vst_meta = empty_meta\<lparr>m_name := ''web'', m_finalizers := [VMSetProtectionFinalizer]\<rparr>,
     vst_Replicas = Some n, vst_Selector = \<lparr>ls_matchLabels = None, ls_matchExpressions = []\<rparr>, vst_TemplateLabels = None,
     vst_TemplateSpec = (vm_spec (plain_vm [] PhaseEmpty))\<lparr>s_Volumes := [data_volume_of_template]\<rparr>,
     vst_DiskTemplates = [data_template], vst_Retention = None, vst_Status = no_status\<rparr>"

abbreviation web_vm :: "string \<Rightarrow> vm" where "web_vm i \<equiv> plain_vm (''web-'' @ i) VirtualMachineRunning"

abbreviation any_key :: key where "any_key \<equiv> key_in [] ''web''"

lemma web_set_facts [simp]:
  "m_deletionTimestamp (vst_meta (web_set n)) = None" "ContainsFinalizer library (vst_meta (web_set n)) VMSetProtectionFinalizer"
  "VMSet_desired (web_set n) = n" "cGet (stub_client v vms) key w = Inr v"
  by (simp_all add: web_set_def empty_meta_def library_def VMSet_desired_def stub_client_def)

lemma stub_getCurrentVMs [simp]: "VMSet_getCurrentVMs (stub_client w vms) s = (Ok vms, s)"
  by (simp add: VMSet_getCurrentVMs_def stub_client_def bind_def getObj_def kread_def ret_def)

theorem vmset_scaling_round_witness:
  "\<exists>cs. trace (snd (VMSet_Reconcile (stub_client (web_set 1) [web_vm ''0'', web_vm ''1'']) library any_key (start (web_set 1)))) = cs
    \<and> list_all cleanup_call cs"
  using vmset_scaling_round [of "stub_client (web_set 1) [web_vm ''0'', web_vm ''1'']" any_key "start (web_set 1)" "web_set 1" library
      "[web_vm ''0'', web_vm ''1'']" "(start (web_set 1))\<lparr>obj := web_set 1\<rparr>"]
  by (auto simp: start_def)

theorem vmset_finalizer_protocol_witness:
  "\<exists>cs. trace (snd (VMSet_Reconcile (stub_client (web_set 1) []) library any_key (start (web_set 1)))) = trace (start (web_set 1)) @ cs
    \<and> list_all not_updated cs"
  using vmset_finalizer_protocol [of "stub_client (web_set 1) []" any_key "start (web_set 1)" "web_set 1" library] by simp

theorem vmset_gap_stalls_witness:
  "VMSet_Reconcile (stub_client (web_set 3) [web_vm ''0'', web_vm ''2'']) library any_key (start (web_set 3))
    = (Ok (requeue_after 5), start (web_set 3))"
proof -
  let ?vms = "[web_vm ''0'', web_vm ''2'']"
  have "cGetVM (stub_client (web_set 3) ?vms) (key_in [] ''web-2'') () = Inr (web_vm ''2'')"
    by (simp add: stub_client_def plain_vm_def)
  moreover have "vmset_vm_name (web_set 3) (word_of_nat (length ?vms)) = ''web-2''"
    by (simp add: vmset_vm_name_def web_set_def empty_meta_def Itoa_def dec_digits.simps [of 2] digit_char_def char_of_eq_iff)
  moreover have "m_namespace (vst_meta (web_set 3)) = []" by (simp add: web_set_def empty_meta_def)
  ultimately show ?thesis
    using vmset_gap_stalls [of "stub_client (web_set 3) ?vms" any_key "start (web_set 3)" "web_set 3" library ?vms
      "(start (web_set 3))\<lparr>obj := web_set 3\<rparr>" "web_vm ''2''"] by (simp add: start_def)
qed

theorem vmset_ordinal_roundtrip_witness: "getOrdinal (vmset_vm_name (web_set 3) 2) = 2"
  using vmset_ordinal_roundtrip [of 2 "web_set 3" 2 data_template data_template] by simp

theorem vmset_disk_references_witness:
  "data_volume_of_template\<lparr>v_VirtualDisk := Some \<lparr>pvc_claim = vmset_disk_name (web_set 3) 2 data_template, pvc_hotpluggable = False\<rparr>\<rparr>
     \<in> set (s_Volumes (vm_spec (VMSet_constructVM (web_set 3) 2)))"
  using vmset_disk_references [of "web_set 3" data_volume_of_template "\<lparr>pvc_claim = ''data'', pvc_hotpluggable = False\<rparr>" data_template 2]
  by (simp add: web_set_def data_volume_of_template_def data_template_def vmset_disk_name_def empty_meta_def)

theorem vmset_negative_replicas_panic_witness:
  "fst (VMSet_Reconcile (stub_client (web_set (- 1)) [web_vm ''0'']) library any_key (start (web_set (- 1)))) = Panic ''index out of range''"
proof -
  have "\<not> hard_error (fst (cDelete (stub_client (web_set (- 1)) [web_vm ''0'']) kd key w))" for kd key w
    by (simp add: stub_client_def hard_error_def)
  then show ?thesis
    using vmset_negative_replicas_panic [of "stub_client (web_set (- 1)) [web_vm ''0'']" any_key "start (web_set (- 1))" "web_set (- 1)"
      library "[web_vm ''0'']" "(start (web_set (- 1)))\<lparr>obj := web_set (- 1)\<rparr>"] by simp
qed

end
