(* ===== verification/Vm_Pool.thy ===== *)
theory Vm_Pool
  imports Replica_Control
begin

text \<open>
  \<open>src/internal/controller/vmpool_controller.go\<close>: a VMPool keeps a number of interchangeable VMs with
  random names, like a Deployment, each with its own disks. One definition per function; the random
  bytes of a name are an argument of the operations that draw one, and the pool is the object in the
  state. The controller fulfils the same two contracts as the VMSet controller.
\<close>

definition VMPoolProtectionFinalizer :: string where
  "VMPoolProtectionFinalizer = ''cloudhypervisor.quill.today/vmpool-protection''"

definition VMPOOL_LABEL :: string where
  "VMPOOL_LABEL = ''microbox-api/vmpool-id''"

record vmpool =
  vpl_meta :: meta
  vpl_Replicas :: "32 word option"
  vpl_Selector :: "label_selector option"
  vpl_TemplateLabels :: "(string, string) gomap"
  vpl_TemplateSpec :: vm_spec
  vpl_DiskTemplates :: "disk_template list"
  vpl_Status :: replica_status

definition isVMPoolVMReady :: "vm \<Rightarrow> bool" where
  "isVMPoolVMReady v \<longleftrightarrow> st_Phase (vm_status v) = VirtualMachineRunning"

definition isVMPoolVMAvailable :: "vm \<Rightarrow> bool" where
  "isVMPoolVMAvailable v \<longleftrightarrow> st_Phase (vm_status v) = VirtualMachineRunning"

text \<open>\<open>fmt.Sprintf("%x", randomBytes)[:8]\<close> of six bytes.\<close>

definition hex_digit :: "nat \<Rightarrow> char" where
  "hex_digit d = (if d < 10 then char_of (d + 48) else char_of (d + 87))"

definition hex_bytes :: "8 word list \<Rightarrow> string" where
  "hex_bytes bs = concat (map (\<lambda>b. [hex_digit (unat b div 16), hex_digit (unat b mod 16)]) bs)"

definition generateRandomVMName :: "8 word list \<Rightarrow> vmpool \<Rightarrow> string" where
  "generateRandomVMName randomBytes v = m_name (vpl_meta v) @ ''-'' @ take 8 (hex_bytes randomBytes)"

definition pool_disk_name :: "string \<Rightarrow> disk_template \<Rightarrow> string" where
  "pool_disk_name vmName t = vmName @ ''-'' @ dt_name t @ ''-disk''"

definition getLabelsForVM :: "vmpool \<Rightarrow> string \<Rightarrow> (string, string) gomap" where
  "getLabelsForVM v vmName = Some ((the (gm_make (vpl_TemplateLabels v)))
     (''vmpool.chvmm.io/name'' \<mapsto> m_name (vpl_meta v), ''vmpool.chvmm.io/vm-name'' \<mapsto> vmName,
      VMPOOL_LABEL \<mapsto> (case gm_get (m_labels (vpl_meta v)) VMPOOL_LABEL of None \<Rightarrow> [] | Some l \<Rightarrow> l)))"

definition VMPool_getCurrentVMs :: "('w, vmpool) client \<Rightarrow> ('w, vmpool, vm list) oact" where
  "VMPool_getCurrentVMs c = bind getObj (\<lambda>v.
     case LabelSelectorAsSelector c (vpl_Selector v) of
       Inl e \<Rightarrow> throw (ErrW ''invalid label selector'' e)
     | Inr sel \<Rightarrow> bind (kread (cListVMs c (m_namespace (vpl_meta v)) sel)) (\<lambda>r.
         case r of Inl e \<Rightarrow> throw (ApiErr e) | Inr vms \<Rightarrow> ret vms))"

definition VMPool_createVirtualDisk :: "('w, vmpool) client \<Rightarrow> ext \<Rightarrow> vmpool \<Rightarrow> string \<Rightarrow> disk_template \<Rightarrow> string list \<Rightarrow> ('w, vmpool, string list) oact" where
  "VMPool_createVirtualDisk c x v vmName t diskNames =
    (let diskName = pool_disk_name vmName t; disk = disk_of (vpl_meta v) diskName (getLabelsForVM v vmName) t in
     bind (kread (cGetDisk c (key_in (m_namespace (vpl_meta v)) diskName))) (\<lambda>r. case r of
       Inr _ \<Rightarrow> ret (diskNames @ [diskName])
     | Inl e \<Rightarrow> if e \<noteq> NotFound then throw (ErrW ''failed to check VirtualDisk existence'' (ApiErr e))
         else (case SetControllerReference x (vpl_meta v) (vdk_meta disk) of
             Inl e \<Rightarrow> throw (ErrW ''failed to set VMPool as controller of VirtualDisk'' e)
           | Inr m \<Rightarrow> bind (create_missing c (ErrW ''failed to create VirtualDisk'') (ChildDisk (disk\<lparr>vdk_meta := m\<rparr>))) (\<lambda>_.
               ret (diskNames @ [diskName])))))"

definition createVirtualDisksForVM :: "('w, vmpool) client \<Rightarrow> ext \<Rightarrow> vmpool \<Rightarrow> string \<Rightarrow> ('w, vmpool, string list) oact" where
  "createVirtualDisksForVM c x v vmName = fold_act (VMPool_createVirtualDisk c x v vmName) (vpl_DiskTemplates v) []"

definition VMPool_injectVirtualDiskReferences :: "vm \<Rightarrow> vmpool \<Rightarrow> vm" where
  "VMPool_injectVirtualDiskReferences m v = m\<lparr>vm_spec := (vm_spec m)\<lparr>s_Volumes :=
     inject_references (pool_disk_name (vm_Name m)) (vpl_DiskTemplates v) (s_Volumes (vm_spec m))\<rparr>\<rparr>"

text \<open>\<open>virtualDiskNames\<close> is nil exactly when it is empty.\<close>

definition VMPool_constructVM :: "vmpool \<Rightarrow> string \<Rightarrow> string list \<Rightarrow> vm" where
  "VMPool_constructVM v vmName virtualDiskNames =
    (let m = \<lparr>vm_meta = empty_meta\<lparr>m_name := vmName, m_namespace := m_namespace (vpl_meta v), m_labels := getLabelsForVM v vmName\<rparr>,
        vm_spec = vpl_TemplateSpec v, vm_status = empty_vm_status\<rparr> in
     if virtualDiskNames \<noteq> [] then VMPool_injectVirtualDiskReferences m v else m)"

definition VMPool_scaleUp :: "8 word list \<Rightarrow> ('w, vmpool) client \<Rightarrow> ext \<Rightarrow> vm list \<Rightarrow> 32 word \<Rightarrow> ('w, vmpool, Result) oact" where
  "VMPool_scaleUp randomBytes c x currentVMs desiredReplicas = bind getObj (\<lambda>v.
    if 0 <s desiredReplicas - len32 currentVMs then
      let vmName = generateRandomVMName randomBytes v in
      bind (kread (cGetVM c (key_in (m_namespace (vpl_meta v)) vmName))) (\<lambda>r. case r of
        Inr _ \<Rightarrow> ret (requeue_after 5)
      | Inl e \<Rightarrow> if e \<noteq> NotFound then throw (ApiErr e)
          else bind (createVirtualDisksForVM c x v vmName) (\<lambda>virtualDiskNames.
            let m = VMPool_constructVM v vmName virtualDiskNames in
            case SetControllerReference x (vpl_meta v) (vm_meta m) of
              Inl e \<Rightarrow> throw e
            | Inr mt \<Rightarrow> bind (create_missing c (\<lambda>e. e) (ChildVM (m\<lparr>vm_meta := mt\<rparr>))) (\<lambda>_. ret (requeue_after 5))))
    else ret no_requeue)"

definition deleteVirtualDisksForVM :: "('w, vmpool) client \<Rightarrow> vmpool \<Rightarrow> string \<Rightarrow> ('w, vmpool, unit) oact" where
  "deleteVirtualDisksForVM c v vmName = for_each (vpl_DiskTemplates v) (\<lambda>t.
     delete_existing c (ErrW ''failed to delete VirtualDisk'') KindVirtualDisk
       (key_in (m_namespace (vpl_meta v)) (pool_disk_name vmName t)))"

definition VMPool_deleteAt :: "('w, vmpool) client \<Rightarrow> vmpool \<Rightarrow> vm list \<Rightarrow> nat \<Rightarrow> ('w, vmpool, unit) oact" where
  "VMPool_deleteAt c v currentVMs i =
    (if length currentVMs \<le> i then panic ''index out of range''
     else (let m = currentVMs ! (length currentVMs - 1 - i) in
       bind (deleteVirtualDisksForVM c v (vm_Name m)) (\<lambda>_. delete_existing c (\<lambda>e. e) KindVM (vm_key m))))"

definition VMPool_scaleDown :: "('w, vmpool) client \<Rightarrow> ext \<Rightarrow> vm list \<Rightarrow> 32 word \<Rightarrow> ('w, vmpool, Result) oact" where
  "VMPool_scaleDown c x currentVMs desiredReplicas = bind getObj (\<lambda>v.
    let toDelete = len32 currentVMs - desiredReplicas in
    bind (for_each [0..<nat (sint toDelete)] (VMPool_deleteAt c v currentVMs)) (\<lambda>_. ret (requeue_after 5)))"

definition VMPool_updateStatus :: "('w, vmpool) client \<Rightarrow> vm list \<Rightarrow> ('w, vmpool, Result) oact" where
  "VMPool_updateStatus c currentVMs =
    (let status = \<lparr>rs_Replicas = len32 currentVMs, rs_ReadyReplicas = len32 (filter isVMPoolVMReady currentVMs),
       rs_AvailableReplicas = len32 (filter isVMPoolVMAvailable currentVMs)\<rparr> in
     bind (modObj (\<lambda>v. v\<lparr>vpl_Status := status\<rparr>)) (\<lambda>_. bind (updateSelfStatus c) done_or_error))"

definition VMPool_desired :: "vmpool \<Rightarrow> 32 word" where
  "VMPool_desired v = (case vpl_Replicas v of None \<Rightarrow> 0 | Some n \<Rightarrow> n)"

definition reconcileVMPool :: "8 word list \<Rightarrow> ('w, vmpool) client \<Rightarrow> ext \<Rightarrow> ('w, vmpool, Result) oact" where
  "reconcileVMPool randomBytes c x = bind (VMPool_getCurrentVMs c) (\<lambda>currentVMs. bind getObj (\<lambda>v.
    let desiredReplicas = VMPool_desired v; currentReplicas = len32 currentVMs in
    if currentReplicas <s desiredReplicas then VMPool_scaleUp randomBytes c x currentVMs desiredReplicas
    else if desiredReplicas <s currentReplicas then VMPool_scaleDown c x currentVMs desiredReplicas
    else VMPool_updateStatus c currentVMs))"

definition owned_by_pool :: "ext \<Rightarrow> vmpool \<Rightarrow> virtual_disk \<Rightarrow> bool" where
  "owned_by_pool x v disk = (case GetControllerOf x (vdk_meta disk) of None \<Rightarrow> False
     | Some r \<Rightarrow> or_apiVersion r = ''cloudhypervisor.quill.today/v1beta1'' \<and> or_kind r = ''VMPool'' \<and> or_name r = m_name (vpl_meta v))"

definition deleteAllVirtualDisks :: "('w, vmpool) client \<Rightarrow> ext \<Rightarrow> vmpool \<Rightarrow> ('w, vmpool, unit) oact" where
  "deleteAllVirtualDisks c x v =
    bind (kread (cListDisks c (m_namespace (vpl_meta v)))) (\<lambda>r. case r of
      Inl e \<Rightarrow> throw (ErrW ''failed to list VirtualDisks'' (ApiErr e))
    | Inr disks \<Rightarrow> for_each disks (\<lambda>disk. if owned_by_pool x v disk
        then delete_existing c (ErrW ''failed to delete VirtualDisk'') KindVirtualDisk (meta_key (vdk_meta disk))
        else ret ()))"

definition VMPool_handleDeletion :: "('w, vmpool) client \<Rightarrow> ext \<Rightarrow> ('w, vmpool, Result) oact" where
  "VMPool_handleDeletion c x = bind (VMPool_getCurrentVMs c) (\<lambda>vms. bind getObj (\<lambda>v.
    bind (for_each vms (\<lambda>m. delete_existing c (\<lambda>e. e) KindVM (vm_key m))) (\<lambda>_.
    bind (deleteAllVirtualDisks c x v) (\<lambda>_.
    bind (modObj (\<lambda>v. v\<lparr>vpl_meta := RemoveFinalizer x (vpl_meta v) VMPoolProtectionFinalizer\<rparr>)) (\<lambda>_.
    bind (updateSelf c) done_or_error)))))"

definition VMPool_Reconcile :: "8 word list \<Rightarrow> ('w, vmpool) client \<Rightarrow> ext \<Rightarrow> key \<Rightarrow> ('w, vmpool, Result) oact" where
  "VMPool_Reconcile randomBytes c x req =
    bind (kread (cGet c req)) (\<lambda>r. case r of
      Inl e \<Rightarrow> if e = NotFound then ret no_requeue else throw (ApiErr e)
    | Inr v \<Rightarrow> bind (modObj (\<lambda>_. v)) (\<lambda>_.
        if m_deletionTimestamp (vpl_meta v) \<noteq> None then VMPool_handleDeletion c x
        else if \<not> ContainsFinalizer x (vpl_meta v) VMPoolProtectionFinalizer then
          bind (modObj (\<lambda>v. v\<lparr>vpl_meta := AddFinalizer x (vpl_meta v) VMPoolProtectionFinalizer\<rparr>)) (\<lambda>_.
          bind (updateSelf c) done_or_error)
        else reconcileVMPool randomBytes c x))"

section \<open>The shared contracts\<close>

lemma pool_keeps_getCurrentVMs [keeps]: "keeps f (VMPool_getCurrentVMs c)"
  unfolding VMPool_getCurrentVMs_def by (intro keeps)

lemma pool_traces_getCurrentVMs [traces]: "traces P (VMPool_getCurrentVMs c)"
  by (rule traces_none) (rule keeps)

lemma pool_cleans_getCurrentVMs [cleans]: "cleans (VMPool_getCurrentVMs c)"
  unfolding VMPool_getCurrentVMs_def by (intro cleans)

lemma cleans_deletions [cleans]: "cleans (deleteVirtualDisksForVM c v n)" "cleans (deleteAllVirtualDisks c x v)"
  unfolding deleteVirtualDisksForVM_def deleteAllVirtualDisks_def by (intro cleans)+

lemma pool_handleDeletion_releases: "releases (VMPool_handleDeletion c x)"
  unfolding VMPool_handleDeletion_def
  by (intro releases_bind releases_update cleans) (simp_all add: done_or_error_def keeps)

lemma traces_createVirtualDisksForVM: "traces disk_creation (createVirtualDisksForVM c x v n)"
  unfolding createVirtualDisksForVM_def VMPool_createVirtualDisk_def Let_def by (intro traces) simp

lemma pool_scaleUp_grows: "emits grows (VMPool_scaleUp bs c x vms d)"
proof -
  have last: "emits grows (let m = VMPool_constructVM v n ns in
            case SetControllerReference x (vpl_meta v) (vm_meta m) of
              Inl e \<Rightarrow> throw e
            | Inr mt \<Rightarrow> bind (create_missing c (\<lambda>e. e) (ChildVM (m\<lparr>vm_meta := mt\<rparr>))) (\<lambda>_. ret (requeue_after 5)))" for v n ns
    by (cases "SetControllerReference x (vpl_meta v) (vm_meta (VMPool_constructVM v n ns))")
      (simp_all add: Let_def grows_create_missing grows_disks traces)
  note sub = grows_bind [OF traces_createVirtualDisksForVM last]
  show ?thesis
    unfolding VMPool_scaleUp_def
    apply (rule grows_bind)
     apply (rule traces)
    subgoal for v
      apply (cases "0 <s d - len32 vms")
       apply (simp only: if_True Let_def)
       apply (rule grows_bind)
        apply (rule traces)
      subgoal for r using sub by (cases r) (simp_all add: Let_def grows_disks traces)
      by (simp add: grows_disks traces)
    done
qed

lemma pool_scaleDown_cleans: "traces cleanup_call (VMPool_scaleDown c x vms d)"
  unfolding VMPool_scaleDown_def VMPool_deleteAt_def Let_def
  by (rule cleans_traces) (intro cleans)

lemma deleteVirtualDisksForVM_silent: "walks vm_deleted [] (deleteVirtualDisksForVM c v n)"
  unfolding deleteVirtualDisksForVM_def by (intro walks walks_other traces) simp

lemma pool_deleteAt_walks:
  "i < length vms \<Longrightarrow> walks vm_deleted [vm_key (vms ! (length vms - 1 - i))] (VMPool_deleteAt c v vms i)"
  unfolding VMPool_deleteAt_def Let_def
  by (simp add: walks_bind_silent walks_delete_existing deleteVirtualDisksForVM_silent)

lemma pool_scaleDown_walks:
  assumes "0 \<le> sint d" "sint d < int (length vms)" "length vms < 2 ^ 31"
  shows "walks vm_deleted (map vm_key (surplus (length vms - nat (sint d)) vms)) (VMPool_scaleDown c x vms d)"
  unfolding VMPool_scaleDown_def Let_def
  by (rule walks_bind_silent walks_then_silent walks_silent walks_countdown [OF assms] pool_deleteAt_walks | assumption)+

lemma pool_updateStatus_counts:
  "\<exists>v b. trace (snd (VMPool_updateStatus c vms s)) = trace s @ [StatusUpdated v b] \<and> rs_Replicas (vpl_Status v) = len32 vms"
proof -
  obtain v where v: "v = (obj s)\<lparr>vpl_Status := \<lparr>rs_Replicas = len32 vms, rs_ReadyReplicas = len32 (filter isVMPoolVMReady vms),
       rs_AvailableReplicas = len32 (filter isVMPoolVMAvailable vms)\<rparr>\<rparr>" by simp
  obtain r w where "cUpdateStatus c v (world s) = (r, w)" by fastforce
  then show ?thesis
    by (intro exI [of _ v] exI [of _ "is_Inr r"], cases r)
      (simp_all add: VMPool_updateStatus_def Let_def bind_def modObj_def updateSelfStatus_def updateObj_def done_or_error_def
        ret_def throw_def v)
qed

lemma reconcileVMPool_live: "traces not_updated (reconcileVMPool bs c x)"
proof -
  have "traces not_updated (VMPool_scaleUp bs c x vms d)" for vms d
    unfolding VMPool_scaleUp_def createVirtualDisksForVM_def VMPool_createVirtualDisk_def Let_def by (intro traces) simp_all
  moreover have "traces not_updated (VMPool_scaleDown c x vms d)" for vms d
    using pool_scaleDown_cleans [of c x vms d] unfolding traces_emits
    by (rule emits_mono) (simp add: list_all_iff cleanup_not_updated)
  moreover have "traces not_updated (VMPool_updateStatus c vms)" for vms
    unfolding VMPool_updateStatus_def Let_def by (intro traces) simp
  ultimately show ?thesis unfolding reconcileVMPool_def Let_def by (intro traces)
qed

interpretation pool: replica_controller
  where Reconcile = "VMPool_Reconcile bs" and handleDeletion = VMPool_handleDeletion and reconcileObj = "reconcileVMPool bs"
    and meta_of = vpl_meta and map_meta = "\<lambda>f v. v\<lparr>vpl_meta := f (vpl_meta v)\<rparr>" and finalizer = VMPoolProtectionFinalizer
    and getCurrentVMs = VMPool_getCurrentVMs and arrange = "\<lambda>vms. vms" and desired = VMPool_desired
    and scaleUp = "VMPool_scaleUp bs" and scaleDown = VMPool_scaleDown and updateStatus = VMPool_updateStatus
    and replicas = "\<lambda>v. rs_Replicas (vpl_Status v)"
  for bs
proof (unfold_locales, goal_cases)
  case 1 show ?case by (simp add: VMPool_Reconcile_def protected_round_def)
next
  case 2 show ?case by (rule pool_handleDeletion_releases)
next
  case 3 show ?case by (rule reconcileVMPool_live)
next
  case 4 show ?case by simp
next
  case 5 show ?case by (simp add: reconcileVMPool_def Let_def)
next
  case 6 show ?case by (rule keeps)
next
  case 7 show ?case by (rule pool_scaleUp_grows)
next
  case 8 then show ?case by (rule pool_scaleDown_walks)
next
  case 9 show ?case by (rule pool_scaleDown_cleans)
next
  case 10 show ?case by (rule pool_updateStatus_counts)
next
  case 11 show ?case by simp
qed


lemma pool_Reconcile_live:
  assumes "cGet c req (world s) = Inr v" "m_deletionTimestamp (vpl_meta v) = None"
    and "ContainsFinalizer x (vpl_meta v) VMPoolProtectionFinalizer"
  shows "VMPool_Reconcile bs c x req s = reconcileVMPool bs c x (s\<lparr>obj := v\<rparr>)"
  using assms by (simp add: VMPool_Reconcile_def bind_def kread_def modObj_def)

section \<open>Properties\<close>

text \<open>One round over a live VMPool creates children only, at most one of them a VM, when VMs are
  missing; deletes exactly the surplus VMs, from the end of the list, when there are too many; and
  otherwise only writes the status, which states the number of VMs.\<close>

theorem pool_scaling_round:
  assumes "cGet c req (world s) = Inr v" "m_deletionTimestamp (vpl_meta v) = None"
    and "ContainsFinalizer x (vpl_meta v) VMPoolProtectionFinalizer"
    and "VMPool_getCurrentVMs c (s\<lparr>obj := v\<rparr>) = (Ok vms, s')" and "length vms < 2 ^ 31" and "0 \<le> sint (VMPool_desired v)"
  shows "\<exists>cs. trace (snd (VMPool_Reconcile bs c x req s)) = trace s @ cs
    \<and> (if int (length vms) < sint (VMPool_desired v) then grows cs
       else if sint (VMPool_desired v) < int (length vms) then list_all cleanup_call cs
         \<and> prefix (List.map_filter vm_deleted cs) (map vm_key (surplus (length vms - nat (sint (VMPool_desired v))) vms))
         \<and> (is_ok (fst (VMPool_Reconcile bs c x req s)) \<longrightarrow>
              List.map_filter vm_deleted cs = map vm_key (surplus (length vms - nat (sint (VMPool_desired v))) vms))
       else \<exists>w b. cs = [StatusUpdated w b] \<and> rs_Replicas (vpl_Status w) = word_of_nat (length vms))"
proof -
  let ?s = "s\<lparr>obj := v\<rparr>"
  have o: "obj ?s = v" "trace ?s = trace s" by simp_all
  then have d: "0 \<le> sint (VMPool_desired (obj ?s))" using assms(6) by simp
  show ?thesis
    unfolding pool_Reconcile_live [OF assms(1-3)]
    by (rule pool.scaling_step [OF assms(4) d assms(5), unfolded o])
qed

text \<open>A VMPool is updated in two rounds only: a new one gets the protection finalizer and nothing else
  happens, and one under deletion is updated last, after its VMs and disks are gone.\<close>

theorem pool_finalizer_protocol:
  assumes "cGet c req (world s) = Inr v"
  shows "\<exists>cs. trace (snd (VMPool_Reconcile bs c x req s)) = trace s @ cs \<and>
     (if m_deletionTimestamp (vpl_meta v) \<noteq> None then orderly cs
      else if ContainsFinalizer x (vpl_meta v) VMPoolProtectionFinalizer then list_all not_updated cs
      else \<exists>b. cs = [Updated (v\<lparr>vpl_meta := AddFinalizer x (vpl_meta v) VMPoolProtectionFinalizer\<rparr>) b])"
  using assms by (rule pool.round_cases)

text \<open>Deleting a VMPool asks for the deletion of exactly the disks of its namespace that it controls,
  in the order listed, and stops at the first that cannot be deleted.\<close>

theorem pool_deletes_owned_disks:
  assumes "cListDisks c (m_namespace (vpl_meta v)) (world s) = Inr disks"
  shows "\<exists>cs. trace (snd (deleteAllVirtualDisks c x v s)) = trace s @ cs
    \<and> prefix (List.map_filter disk_deleted cs) (map (\<lambda>d. meta_key (vdk_meta d)) (filter (owned_by_pool x v) disks))
    \<and> (is_ok (fst (deleteAllVirtualDisks c x v s)) \<longrightarrow>
         List.map_filter disk_deleted cs = map (\<lambda>d. meta_key (vdk_meta d)) (filter (owned_by_pool x v) disks))"
proof -
  let ?del = "\<lambda>disk. if owned_by_pool x v disk
        then delete_existing c (ErrW ''failed to delete VirtualDisk'') KindVirtualDisk (meta_key (vdk_meta disk)) else ret ()"
  let ?key = "\<lambda>d. if owned_by_pool x v d then [meta_key (vdk_meta d)] else []"
  have "walks disk_deleted (concat (map ?key disks)) (for_each disks ?del)"
    by (rule walks_for_each) (simp add: walks_delete_existing walks_silent)
  moreover have "concat (map ?key disks) = map (\<lambda>d. meta_key (vdk_meta d)) (filter (owned_by_pool x v) disks)"
    by (induction disks) simp_all
  moreover have "deleteAllVirtualDisks c x v s = for_each disks ?del s"
    using assms by (simp add: deleteAllVirtualDisks_def bind_def kread_def)
  ultimately show ?thesis using walksD by simp
qed

section \<open>Concrete rounds\<close>

definition web_pool :: "32 word \<Rightarrow> vmpool" where
  "web_pool n = \<lparr>vpl_meta = empty_meta\<lparr>m_name := ''web'', m_finalizers := [VMPoolProtectionFinalizer]\<rparr>,
     vpl_Replicas = Some n, vpl_Selector = None, vpl_TemplateLabels = None, vpl_TemplateSpec = vm_spec (plain_vm [] PhaseEmpty),
     vpl_DiskTemplates = [], vpl_Status = no_status\<rparr>"

lemma web_pool_facts [simp]:
  "m_deletionTimestamp (vpl_meta (web_pool n)) = None" "ContainsFinalizer library (vpl_meta (web_pool n)) VMPoolProtectionFinalizer"
  "VMPool_desired (web_pool n) = n" "cGet (stub_client v vms) key w = Inr v"
  by (simp_all add: web_pool_def empty_meta_def library_def VMPool_desired_def stub_client_def)

lemma pool_stub_getCurrentVMs [simp]: "VMPool_getCurrentVMs (stub_client w vms) s = (Ok vms, s)"
  by (simp add: VMPool_getCurrentVMs_def stub_client_def bind_def getObj_def kread_def ret_def)

theorem pool_scaling_round_witness:
  "\<exists>cs. trace (snd (VMPool_Reconcile [] (stub_client (web_pool 2) []) library (key_in [] ''web'') (start (web_pool 2))))
    = trace (start (web_pool 2)) @ cs \<and> grows cs"
  using pool_scaling_round [of "stub_client (web_pool 2) []" "key_in [] ''web''" "start (web_pool 2)" "web_pool 2" library
      "[]" "(start (web_pool 2))\<lparr>obj := web_pool 2\<rparr>" "[]"]
  by simp

theorem pool_finalizer_protocol_witness:
  "\<exists>cs. trace (snd (VMPool_Reconcile [] (stub_client (web_pool 1) []) library (key_in [] ''web'') (start (web_pool 1))))
    = trace (start (web_pool 1)) @ cs \<and> list_all not_updated cs"
  using pool_finalizer_protocol [of "stub_client (web_pool 1) []" "key_in [] ''web''" "start (web_pool 1)" "web_pool 1" "[]" library]
  by simp

theorem pool_deletes_owned_disks_witness:
  "\<exists>cs. trace (snd (deleteAllVirtualDisks (stub_client (web_pool 1) []) library (web_pool 1) (start (web_pool 1)))) = trace (start (web_pool 1)) @ cs
    \<and> List.map_filter disk_deleted cs = []"
proof -
  have none: "cListDisks (stub_client (web_pool 1) []) (m_namespace (vpl_meta (web_pool 1))) (world (start (web_pool 1))) = Inr []"
    by (simp add: stub_client_def)
  show ?thesis using pool_deletes_owned_disks [OF none, of library] by (simp only: filter.simps list.map prefix_Nil) blast
qed

end
