(* ===== verification/Vm_Migration.thy ===== *)
theory Vm_Migration
  imports Kube_Monad
begin

text \<open>
  \<open>src/internal/controller/migration_controller.go\<close>: the controller of VirtualMachineMigration objects. The object is
  in the state; the client is \<open>vmm_api\<close>. The comparison of the status with a pointer to its copy never finds
  them equal, so a round without an error always writes the status.
\<close>

record vmm =
  mm_meta :: meta
  mm_VMName :: string
  mm_SourceNodeName :: string
  mm_Phase :: migration_phase

record 'w vmm_api =
  mGet :: "key \<Rightarrow> 'w \<Rightarrow> api_error + vmm"
  mGetVM :: "key \<Rightarrow> 'w \<Rightarrow> api_error + vm"
  mUpdateStatus :: "vmm \<Rightarrow> 'w \<Rightarrow> (api_error + vmm) \<times> 'w"

datatype vmm_call = VMMStatus vmm bool | VMMEvent string

type_synonym ('w, 'a) vmmact = "('w, vmm, vmm_call, 'a) action"

definition vmm_event :: "string \<Rightarrow> ('w, unit) vmmact" where
  "vmm_event e s = (Ok (), s\<lparr>trace := trace s @ [VMMEvent e]\<rparr>)"

definition VMM_reconcileMigration :: "('w, unit) vmmact" where
  "VMM_reconcileMigration = modObj (\<lambda>m. m\<lparr>mm_Phase := (case mm_Phase m of MigrationEmpty \<Rightarrow> MigrationPending
     | MigrationPending \<Rightarrow> MigrationRunning | ph \<Rightarrow> ph)\<rparr>)"

definition VMM_reconcile :: "'w vmm_api \<Rightarrow> ('w, unit) vmmact" where
  "VMM_reconcile k = bind getObj (\<lambda>m.
    bind (kread (mGetVM k \<lparr>k_ns = m_namespace (mm_meta m), k_name = mm_VMName m\<rparr>)) (\<lambda>r. case r of
      Inl e \<Rightarrow> throw (ErrS ''get source VM'' (ApiErr e))
    | Inr sourceVM \<Rightarrow>
      bind (if mm_SourceNodeName m = [] \<and> st_NodeName (vm_status sourceVM) \<noteq> []
        then modObj (\<lambda>m. m\<lparr>mm_SourceNodeName := st_NodeName (vm_status sourceVM)\<rparr>) else ret ()) (\<lambda>_.
      VMM_reconcileMigration)))"

text \<open>A round; \<open>None\<close> when the object is gone.\<close>

definition VMM_round :: "'w vmm_api \<Rightarrow> ('w, Result) vmmact" where
  "VMM_round k = bind (attempt (VMM_reconcile k)) (\<lambda>r. case r of
      Inl e \<Rightarrow> bind (vmm_event ''FailedReconcile'') (\<lambda>_. throw e)
    | Inr _ \<Rightarrow> bind (updateObj (mUpdateStatus k) VMMStatus) (\<lambda>u. case u of
        None \<Rightarrow> ret no_requeue
      | Some e \<Rightarrow> if e = Conflict then ret \<lparr>Requeue = True, RequeueAfter = 0\<rparr> else throw (ErrS ''update VMM status'' (ApiErr e))))"

definition VMM_Reconcile :: "'w vmm_api \<Rightarrow> key \<Rightarrow> 'w \<Rightarrow> (err, Result) outcome \<times> ('w \<times> vmm_call list)" where
  "VMM_Reconcile k nn w = (case mGet k nn w of
     Inl e \<Rightarrow> (if e = NotFound then Ok no_requeue else Err (ApiErr e), (w, []))
   | Inr m \<Rightarrow> (case VMM_round k \<lparr>world = w, obj = m, trace = []\<rparr> of (r, s) \<Rightarrow> (r, (world s, trace s))))"

text \<open>The watch on VMs maps every VM to no request.\<close>

definition vmm_requests :: "vm \<Rightarrow> key list" where
  "vmm_requests v = []"

section \<open>Properties\<close>

definition next_phase :: "migration_phase \<Rightarrow> migration_phase" where
  "next_phase ph = (case ph of MigrationEmpty \<Rightarrow> MigrationPending | MigrationPending \<Rightarrow> MigrationRunning | _ \<Rightarrow> ph)"

definition migrated :: "vm \<Rightarrow> vmm \<Rightarrow> vmm" where
  "migrated v m = m\<lparr>mm_SourceNodeName := if mm_SourceNodeName m = [] then st_NodeName (vm_status v) else mm_SourceNodeName m,
     mm_Phase := next_phase (mm_Phase m)\<rparr>"

lemma VMM_reconcileMigration_next: "VMM_reconcileMigration = modObj (\<lambda>m. m\<lparr>mm_Phase := next_phase (mm_Phase m)\<rparr>)"
  unfolding VMM_reconcileMigration_def next_phase_def by (rule arg_cong [where f = modObj]) (auto split: migration_phase.split)

lemma VMM_reconcile_cases:
  "VMM_reconcile k s = (case mGetVM k \<lparr>k_ns = m_namespace (mm_meta (obj s)), k_name = mm_VMName (obj s)\<rparr> (world s) of
      Inl e \<Rightarrow> (Err (ErrS ''get source VM'' (ApiErr e)), s) | Inr v \<Rightarrow> (Ok (), s\<lparr>obj := migrated v (obj s)\<rparr>))"
  by (cases "mGetVM k \<lparr>k_ns = m_namespace (mm_meta (obj s)), k_name = mm_VMName (obj s)\<rparr> (world s)")
    (auto simp: VMM_reconcile_def VMM_reconcileMigration_next bind_def getObj_def kread_def throw_def ret_def modObj_def migrated_def)

lemma VMM_round_eq:
  "VMM_round k s = (case mGetVM k \<lparr>k_ns = m_namespace (mm_meta (obj s)), k_name = mm_VMName (obj s)\<rparr> (world s) of
      Inl e \<Rightarrow> (Err (ErrS ''get source VM'' (ApiErr e)), s\<lparr>trace := trace s @ [VMMEvent ''FailedReconcile'']\<rparr>)
    | Inr v \<Rightarrow> (case mUpdateStatus k (migrated v (obj s)) (world s) of
        (Inr m', w) \<Rightarrow> (Ok no_requeue, s\<lparr>world := w, trace := trace s @ [VMMStatus (migrated v (obj s)) True], obj := m'\<rparr>)
      | (Inl e, w) \<Rightarrow> (if e = Conflict then Ok \<lparr>Requeue = True, RequeueAfter = 0\<rparr> else Err (ErrS ''update VMM status'' (ApiErr e)),
          s\<lparr>world := w, trace := trace s @ [VMMStatus (migrated v (obj s)) False], obj := migrated v (obj s)\<rparr>)))"
proof (cases "mGetVM k \<lparr>k_ns = m_namespace (mm_meta (obj s)), k_name = mm_VMName (obj s)\<rparr> (world s)")
  case (Inr v)
  then show ?thesis
    by (auto simp: VMM_round_def VMM_reconcile_cases attempt_def bind_def updateObj_def is_Inr_def ret_def throw_def split: sum.split prod.split)
qed (simp add: VMM_round_def VMM_reconcile_cases attempt_def bind_def vmm_event_def throw_def)

text \<open>a round of the migration controller reads the VM the migration names. Without it the round fails, after an event, and
  writes nothing; otherwise it writes the status exactly once, with the source node filled in and the phase moved from none to
  Pending, from Pending to Running, and otherwise left alone: a conflict asks for another round, any other error is returned.\<close>

theorem migration_round:
  "VMM_round k s = (case mGetVM k \<lparr>k_ns = m_namespace (mm_meta (obj s)), k_name = mm_VMName (obj s)\<rparr> (world s) of
      Inl e \<Rightarrow> (Err (ErrS ''get source VM'' (ApiErr e)), s\<lparr>trace := trace s @ [VMMEvent ''FailedReconcile'']\<rparr>)
    | Inr v \<Rightarrow> (case mUpdateStatus k (migrated v (obj s)) (world s) of
        (Inr m', w) \<Rightarrow> (Ok no_requeue, s\<lparr>world := w, trace := trace s @ [VMMStatus (migrated v (obj s)) True], obj := m'\<rparr>)
      | (Inl e, w) \<Rightarrow> (if e = Conflict then Ok \<lparr>Requeue = True, RequeueAfter = 0\<rparr> else Err (ErrS ''update VMM status'' (ApiErr e)),
          s\<lparr>world := w, trace := trace s @ [VMMStatus (migrated v (obj s)) False], obj := migrated v (obj s)\<rparr>)))"
  by (rule VMM_round_eq)

fun vmm_run :: "'w vmm_api \<Rightarrow> nat \<Rightarrow> ('w, vmm, vmm_call) rst \<Rightarrow> ('w, vmm, vmm_call) rst" where
  "vmm_run k 0 s = s"
| "vmm_run k (Suc n) s = snd (VMM_round k (vmm_run k n s))"

text \<open>a migration never ends: while its VM exists and the server stores what it is given, a new migration is Pending after one
  round and Running after every later one, however many there are, and every round writes the status again.\<close>

theorem migration_never_ends:
  assumes "\<And>nn w. \<exists>v. mGetVM k nn w = Inr v" and "\<And>m w. fst (mUpdateStatus k m w) = Inr m" and "mm_Phase (obj s) = MigrationEmpty"
  shows "mm_Phase (obj (vmm_run k n s)) = (if n = 0 then MigrationEmpty else if n = 1 then MigrationPending else MigrationRunning)
    \<and> length (trace (vmm_run k n s)) = length (trace s) + n"
proof (induction n)
  case (Suc n)
  obtain v where v: "mGetVM k \<lparr>k_ns = m_namespace (mm_meta (obj (vmm_run k n s))), k_name = mm_VMName (obj (vmm_run k n s))\<rparr> (world (vmm_run k n s)) = Inr v"
    using assms(1) by blast
  have "fst (mUpdateStatus k (migrated v (obj (vmm_run k n s))) (world (vmm_run k n s))) = Inr (migrated v (obj (vmm_run k n s)))"
    by (rule assms(2))
  then obtain w where "mUpdateStatus k (migrated v (obj (vmm_run k n s))) (world (vmm_run k n s)) = (Inr (migrated v (obj (vmm_run k n s))), w)"
    by (metis prod.collapse)
  then show ?case using Suc v by (auto simp: VMM_round_eq migrated_def next_phase_def)
qed (simp add: assms(3))

definition storing_api :: "unit vmm_api" where
  "storing_api = \<lparr>mGet = (\<lambda>_ _. Inl NotFound), mGetVM = (\<lambda>_ _. Inr (plain_vm ''web'' VirtualMachineRunning)), mUpdateStatus = (\<lambda>m w. (Inr m, w))\<rparr>"

definition new_migration :: "(unit, vmm, vmm_call) rst" where
  "new_migration = \<lparr>world = (), obj = \<lparr>mm_meta = empty_meta, mm_VMName = ''web'', mm_SourceNodeName = [], mm_Phase = MigrationEmpty\<rparr>, trace = []\<rparr>"

theorem migration_never_ends_witness:
  "mm_Phase (obj (vmm_run storing_api 100 new_migration)) = MigrationRunning \<and> length (trace (vmm_run storing_api 100 new_migration)) = 100"
  using migration_never_ends [of storing_api new_migration 100] by (simp add: storing_api_def new_migration_def)

end
