(* ===== verification/Webhooks.thy ===== *)
theory Webhooks
  imports Vm_Webhook Vm_Set Vm_Pool Vm_Migration Virtual_Disk
begin

text \<open>
  The admission webhooks of the other resources, \<open>src/pkg/webhooks\<close>: VMSets, VMPools, migrations, disks and disk
  snapshots. A webhook is called with an object of any kind and asserts its own; \<open>kobject\<close> is that object. An
  answer has warnings and an error, as for VMs.
\<close>

datatype kobject = ObjSet vmset | ObjPool vmpool | ObjMigration vmm | ObjDisk virtual_disk | ObjDiskSnapshot disk_snapshot | ObjOther string

type_synonym admission = "(err, string list option) outcome"

definition wrong_kind :: "string \<Rightarrow> (err, 'a) outcome" where
  "wrong_kind kind = Err (ErrNew (''expected a '' @ kind @ '' object''))"

definition NewInvalid :: "string \<Rightarrow> string \<Rightarrow> field_error \<Rightarrow> err" where
  "NewInvalid kind name e = ErrS (kind @ '' '' @ name @ '' is invalid'') (ErrNew (fe_path e @ '': '' @ fe_detail e))"

text \<open>\<open>len(m) == 0\<close>\<close>

definition gm_empty :: "('k, 'v) gomap \<Rightarrow> bool" where
  "gm_empty m \<longleftrightarrow> m = None \<or> m = Some Map.empty"

definition empty_selector :: "string \<Rightarrow> string \<Rightarrow> err" where
  "empty_selector kind name = NewInvalid kind name (Required (Child (Child ''spec'' ''selector'') ''matchLabels'') ''selector cannot be empty'')"

definition changed_selector :: "string \<Rightarrow> string \<Rightarrow> err" where
  "changed_selector kind name = NewInvalid kind name (Forbidden (Child ''spec'' ''selector'') ''selector is immutable'')"

section \<open>VMSets and VMPools\<close>

definition VMSet_Default :: "kobject \<Rightarrow> (err, kobject) outcome" where
  "VMSet_Default ob = (case ob of ObjSet v \<Rightarrow> Ok ob | _ \<Rightarrow> wrong_kind ''VMSet'')"

definition VMSet_ValidateCreate :: "kobject \<Rightarrow> admission" where
  "VMSet_ValidateCreate ob = (case ob of ObjSet v \<Rightarrow>
       if gm_empty (ls_matchLabels (vst_Selector v)) then Err (empty_selector ''VMSet'' (m_name (vst_meta v))) else Ok None
     | _ \<Rightarrow> wrong_kind ''VMSet'')"

definition VMSet_ValidateUpdate :: "kobject \<Rightarrow> kobject \<Rightarrow> admission" where
  "VMSet_ValidateUpdate old new = (case new of ObjSet v \<Rightarrow> (case old of ObjSet w \<Rightarrow>
       if vst_Selector v \<noteq> vst_Selector w then Err (changed_selector ''VMSet'' (m_name (vst_meta v))) else Ok None
     | _ \<Rightarrow> wrong_kind ''VMSet'') | _ \<Rightarrow> wrong_kind ''VMSet'')"

definition VMSet_ValidateDelete :: "kobject \<Rightarrow> admission" where
  "VMSet_ValidateDelete ob = (case ob of ObjSet v \<Rightarrow> Ok None | _ \<Rightarrow> wrong_kind ''VMSet'')"

text \<open>The defaulter of VMPools writes the namespace before it looks whether the assertion held: with an object of
  another kind the pool is nil. The selector of a pool is a pointer, which creation dereferences.\<close>

definition VMPool_Default :: "kobject \<Rightarrow> (err, kobject) outcome" where
  "VMPool_Default ob = (case ob of ObjPool v \<Rightarrow>
       Ok (ObjPool (if m_namespace (vpl_meta v) = [] then v\<lparr>vpl_meta := (vpl_meta v)\<lparr>m_namespace := ''default''\<rparr>\<rparr> else v))
     | _ \<Rightarrow> Panic ''nil pointer dereference'')"

definition VMPool_ValidateCreate :: "kobject \<Rightarrow> admission" where
  "VMPool_ValidateCreate ob = (case ob of ObjPool v \<Rightarrow> (case vpl_Selector v of None \<Rightarrow> Panic ''nil pointer dereference''
     | Some sel \<Rightarrow> if gm_empty (ls_matchLabels sel) then Err (empty_selector ''VMPool'' (m_name (vpl_meta v))) else Ok None)
     | _ \<Rightarrow> wrong_kind ''VMPool'')"

definition VMPool_ValidateUpdate :: "kobject \<Rightarrow> kobject \<Rightarrow> admission" where
  "VMPool_ValidateUpdate old new = (case new of ObjPool v \<Rightarrow> (case old of ObjPool w \<Rightarrow>
       if vpl_Selector v \<noteq> vpl_Selector w then Err (changed_selector ''VMPool'' (m_name (vpl_meta v))) else Ok None
     | _ \<Rightarrow> wrong_kind ''VMPool'') | _ \<Rightarrow> wrong_kind ''VMPool'')"

definition VMPool_ValidateDelete :: "kobject \<Rightarrow> admission" where
  "VMPool_ValidateDelete ob = (case ob of ObjPool v \<Rightarrow> Ok None | _ \<Rightarrow> wrong_kind ''VMPool'')"

section \<open>Migrations\<close>

definition VMM_Default :: "kobject \<Rightarrow> (err, kobject) outcome" where
  "VMM_Default ob = (case ob of ObjMigration m \<Rightarrow> Ok ob | _ \<Rightarrow> wrong_kind ''VirtualMachineMigration'')"

definition VMM_ValidateCreate :: "kobject \<Rightarrow> admission" where
  "VMM_ValidateCreate ob = (case ob of ObjMigration m \<Rightarrow> Ok None | _ \<Rightarrow> wrong_kind ''VirtualMachineMigration'')"

definition VMM_ValidateUpdate :: "kobject \<Rightarrow> kobject \<Rightarrow> admission" where
  "VMM_ValidateUpdate old new = (case new of ObjMigration m \<Rightarrow> (case old of ObjMigration m' \<Rightarrow> Ok None
     | _ \<Rightarrow> wrong_kind ''VirtualMachineMigration'') | _ \<Rightarrow> wrong_kind ''VirtualMachineMigration'')"

definition VMM_ValidateDelete :: "kobject \<Rightarrow> admission" where
  "VMM_ValidateDelete ob = (case ob of ObjMigration m \<Rightarrow> Ok None | _ \<Rightarrow> wrong_kind ''VirtualMachineMigration'')"

text \<open>The checks on the VM of a migration, which no webhook calls. \<open>FindStatusCondition\<close> gives the first condition of
  a type.\<close>

definition FindStatusCondition :: "condition list \<Rightarrow> string \<Rightarrow> condition option" where
  "FindStatusCondition cs t = List.find (\<lambda>c. cd_type c = t) cs"

definition ValidateVMName :: "(key \<Rightarrow> api_error + vm) \<Rightarrow> (api_error \<Rightarrow> string) \<Rightarrow> string \<Rightarrow> string \<Rightarrow> string \<Rightarrow> field_error list" where
  "ValidateVMName get errString namespace vmName p =
    (if vmName = [] then [Required p []]
     else (case get \<lparr>k_ns = namespace, k_name = vmName\<rparr> of
       Inl e \<Rightarrow> if e = NotFound then [\<lparr>fe_type = ErrorNotFound, fe_path = p, fe_detail = vmName\<rparr>]
           else [\<lparr>fe_type = ErrorInternal, fe_path = p, fe_detail = errString e\<rparr>]
     | Inr v \<Rightarrow> (case FindStatusCondition (st_Conditions (vm_status v)) ''Migratable'' of
         None \<Rightarrow> [Forbidden p ''VM migratable condition status is unknown'']
       | Some c \<Rightarrow> check (cd_status c \<noteq> ''True'') (Forbidden p (cd_message c)))))"

definition ValidateVMMSpec :: "(key \<Rightarrow> api_error + vm) \<Rightarrow> (api_error \<Rightarrow> string) \<Rightarrow> string \<Rightarrow> string option \<Rightarrow> string \<Rightarrow> field_error list" where
  "ValidateVMMSpec get errString namespace spec p = (case spec of None \<Rightarrow> [Required p []]
     | Some vmName \<Rightarrow> ValidateVMName get errString namespace vmName (Child p ''vmName''))"

definition ValidateVMM :: "(key \<Rightarrow> api_error + vm) \<Rightarrow> (api_error \<Rightarrow> string) \<Rightarrow> vmm \<Rightarrow> field_error list" where
  "ValidateVMM get errString m = ValidateVMMSpec get errString (m_namespace (mm_meta m)) (Some (mm_VMName m)) ''spec''"

section \<open>Disks and disk snapshots\<close>

definition Disk_Default :: "kobject \<Rightarrow> (err, kobject) outcome" where
  "Disk_Default ob = (case ob of ObjDisk d \<Rightarrow> Ok ob | _ \<Rightarrow> wrong_kind ''VirtualDisk'')"

definition Disk_ValidateCreate :: "kobject \<Rightarrow> admission" where
  "Disk_ValidateCreate ob = (case ob of ObjDisk d \<Rightarrow> Ok None | _ \<Rightarrow> wrong_kind ''VirtualDisk'')"

definition Disk_ValidateUpdate :: "kobject \<Rightarrow> kobject \<Rightarrow> admission" where
  "Disk_ValidateUpdate old new = (case new of ObjDisk d \<Rightarrow> Ok None | _ \<Rightarrow> wrong_kind ''VirtualDisk'')"

definition Disk_ValidateDelete :: "kobject \<Rightarrow> admission" where
  "Disk_ValidateDelete ob = (case ob of ObjDisk d \<Rightarrow> Ok None | _ \<Rightarrow> wrong_kind ''VirtualDisk'')"

definition DiskSnapshot_Default :: "kobject \<Rightarrow> (err, kobject) outcome" where
  "DiskSnapshot_Default ob = (case ob of ObjDiskSnapshot d \<Rightarrow> Ok ob | _ \<Rightarrow> wrong_kind ''VirtualDiskSnapshot'')"

definition DiskSnapshot_ValidateCreate :: "kobject \<Rightarrow> admission" where
  "DiskSnapshot_ValidateCreate ob = (case ob of ObjDiskSnapshot d \<Rightarrow> Ok None | _ \<Rightarrow> wrong_kind ''VirtualDiskSnapshot'')"

definition DiskSnapshot_ValidateUpdate :: "kobject \<Rightarrow> kobject \<Rightarrow> admission" where
  "DiskSnapshot_ValidateUpdate old new = (case new of ObjDiskSnapshot d \<Rightarrow> Ok None | _ \<Rightarrow> wrong_kind ''VirtualDiskSnapshot'')"

definition DiskSnapshot_ValidateDelete :: "kobject \<Rightarrow> admission" where
  "DiskSnapshot_ValidateDelete ob = (case ob of ObjDiskSnapshot d \<Rightarrow> Ok None | _ \<Rightarrow> wrong_kind ''VirtualDiskSnapshot'')"

section \<open>Histories of admitted objects\<close>

text \<open>Versions of an object, each admitted as an update of the one before.\<close>

fun updates :: "('a \<Rightarrow> 'a \<Rightarrow> admission) \<Rightarrow> 'a \<Rightarrow> 'a list \<Rightarrow> bool" where
  "updates u a [] = True"
| "updates u a (b # bs) = (is_ok (u a b) \<and> updates u b bs)"

text \<open>What the controllers rely on: creation admits only objects with a good value, and no update changes it.\<close>

locale validator =
  fixes create :: "'a \<Rightarrow> admission" and update :: "'a \<Rightarrow> 'a \<Rightarrow> admission" and kept :: "'a \<Rightarrow> 'b option" and good :: "'b \<Rightarrow> bool"
  assumes create_ok: "is_ok (create a) \<Longrightarrow> pred_option good (kept a) \<and> kept a \<noteq> None"
    and update_ok: "is_ok (update a c) \<Longrightarrow> kept c = kept a"
begin

lemma updates_kept: "updates update a bs \<Longrightarrow> b \<in> set (a # bs) \<Longrightarrow> kept b = kept a"
proof (induction bs arbitrary: a)
  case (Cons c cs)
  then have "kept c = kept a" by (simp add: update_ok)
  then show ?case using Cons by (cases "b = a") auto
qed simp

lemma history_good:
  assumes "is_ok (create a)" and "updates update a bs" and "b \<in> set (a # bs)"
  shows "\<exists>x. kept b = Some x \<and> kept a = Some x \<and> good x"
proof -
  from create_ok [OF assms(1)] obtain x where "kept a = Some x" "good x" by (cases "kept a") auto
  then show ?thesis using updates_kept [OF assms(2,3)] by simp
qed

end

definition set_selector :: "kobject \<Rightarrow> label_selector option" where
  "set_selector ob = (case ob of ObjSet v \<Rightarrow> Some (vst_Selector v) | _ \<Rightarrow> None)"

definition pool_selector :: "kobject \<Rightarrow> label_selector option" where
  "pool_selector ob = (case ob of ObjPool v \<Rightarrow> vpl_Selector v | _ \<Rightarrow> None)"

definition selects_some :: "label_selector \<Rightarrow> bool" where
  "selects_some sel \<longleftrightarrow> \<not> gm_empty (ls_matchLabels sel)"

interpretation sets: validator VMSet_ValidateCreate VMSet_ValidateUpdate set_selector selects_some
  by unfold_locales (auto simp: VMSet_ValidateCreate_def VMSet_ValidateUpdate_def set_selector_def selects_some_def wrong_kind_def
      split: kobject.splits if_splits)

interpretation pools: validator VMPool_ValidateCreate VMPool_ValidateUpdate pool_selector selects_some
  by unfold_locales (auto simp: VMPool_ValidateCreate_def VMPool_ValidateUpdate_def pool_selector_def selects_some_def wrong_kind_def
      split: kobject.splits if_splits option.splits)

text \<open>C25: the selector of a VMSet never becomes empty and never changes: in every history of versions that the webhook admitted,
  each version has the selector of the first, and it has labels to match, so the set never selects every VM.\<close>

theorem vmset_selector_fixed:
  assumes "is_ok (VMSet_ValidateCreate a)" and "updates VMSet_ValidateUpdate a bs" and "b \<in> set (a # bs)"
  shows "\<exists>sel. set_selector b = Some sel \<and> set_selector a = Some sel \<and> \<not> gm_empty (ls_matchLabels sel)"
  using sets.history_good [OF assms] by (simp add: selects_some_def)

text \<open>The same holds of the pointer to the selector of a VMPool.\<close>

theorem vmpool_selector_fixed:
  assumes "is_ok (VMPool_ValidateCreate a)" and "updates VMPool_ValidateUpdate a bs" and "b \<in> set (a # bs)"
  shows "\<exists>sel. pool_selector b = Some sel \<and> pool_selector a = Some sel \<and> \<not> gm_empty (ls_matchLabels sel)"
  using pools.history_good [OF assms] by (simp add: selects_some_def)

definition labelled_set :: "32 word \<Rightarrow> kobject" where
  "labelled_set n = ObjSet ((web_set n)\<lparr>vst_Selector := \<lparr>ls_matchLabels = Some [''app'' \<mapsto> ''web''], ls_matchExpressions = []\<rparr>\<rparr>)"

theorem vmset_selector_fixed_witness:
  "\<exists>sel. set_selector (labelled_set 3) = Some sel \<and> set_selector (labelled_set 1) = Some sel \<and> \<not> gm_empty (ls_matchLabels sel)"
  by (rule vmset_selector_fixed [of _ "[labelled_set 2, labelled_set 3]"])
    (simp_all add: labelled_set_def VMSet_ValidateCreate_def VMSet_ValidateUpdate_def gm_empty_def)

end
