(* ===== verification/Daemon_Server.thy ===== *)
theory Daemon_Server
  imports Vm_Daemon Zstd_Archive
begin

text \<open>
  \<open>src/pkg/daemon/server.go\<close>: the gRPC service of the node daemon. Pausing, resuming and rebooting only mark the
  VM's status, which the daemon's reconciler acts on; a snapshot is taken here, packed and uploaded. The client, the
  hypervisor, the object store and the file system are the fields of \<open>server_env\<close>. A status of gRPC is an error
  \<open>ErrS\<close> with the name of its code; \<open>log.Fatalf\<close> is a panic \<open>exit\<close>, which runs no deferred call.
\<close>

section \<open>Requests\<close>

record 'w server_env =
  svGetVM :: "key \<Rightarrow> 'w \<Rightarrow> api_error + vm"
  svUpdateStatus :: "vm \<Rightarrow> 'w \<Rightarrow> (api_error + vm) \<times> 'w"
  svStat :: "string \<Rightarrow> 'w \<Rightarrow> stat_result"
  svMkdirAll :: "string \<Rightarrow> 'w \<Rightarrow> 'w"
  svRemoveAll :: "string \<Rightarrow> 'w \<Rightarrow> 'w"
  svReadDir :: "string \<Rightarrow> 'w \<Rightarrow> err + string list"
  svInfo :: "string \<Rightarrow> 'w \<Rightarrow> err + string"
  svSnapshot :: "string \<Rightarrow> string \<Rightarrow> 'w \<Rightarrow> err option \<times> 'w"
  svCloud :: "'w cloud_sdk"
  svArchive :: "'w archive_env"

datatype server_call =
    Marked vm bool
  | MadeDir string
  | RemovedAll string
  | SnapshotTaken string string bool
  | Archived string "string list" bool
  | Uploaded string string string bool

type_synonym ('w, 'a) svact = "('w, unit, server_call, 'a) action"

definition rpc_status :: "string \<Rightarrow> string \<Rightarrow> err" where
  "rpc_status code msg = ErrS code (ErrNew msg)"

definition getVM :: "'w server_env \<Rightarrow> string \<Rightarrow> string \<Rightarrow> ('w, vm) svact" where
  "getVM k name namespace = bind (kread (svGetVM k \<lparr>k_ns = namespace, k_name = name\<rparr>)) (\<lambda>r. case r of
     Inr v \<Rightarrow> ret v
   | Inl e \<Rightarrow> if e = NotFound then throw (rpc_status ''NotFound'' (''vm not found '' @ name @ '' in namespace '' @ namespace)) else throw (ApiErr e))"

definition GetVMStatus :: "'w server_env \<Rightarrow> string \<Rightarrow> string \<Rightarrow> ('w, vm_phase) svact" where
  "GetVMStatus k name namespace = bind (kread (svGetVM k \<lparr>k_ns = namespace, k_name = name\<rparr>)) (\<lambda>r. case r of
     Inr v \<Rightarrow> ret (phase v)
   | Inl e \<Rightarrow> if e = NotFound then throw (rpc_status ''NotFound'' []) else throw (ApiErr e))"

text \<open>The status is updated and an error only logged.\<close>

definition mark :: "'w server_env \<Rightarrow> vm \<Rightarrow> ('w, unit) svact" where
  "mark k v = bind (kwrite (svUpdateStatus k v) (\<lambda>r. Marked v (is_Inr r))) (\<lambda>_. ret ())"

definition PauseVM :: "'w server_env \<Rightarrow> string \<Rightarrow> string \<Rightarrow> ('w, unit) svact" where
  "PauseVM k name namespace = bind (getVM k name namespace) (\<lambda>v.
    if phase v \<noteq> VirtualMachineRunning then throw (rpc_status ''FailedPrecondition'' ''vm is not in running state'')
    else mark k (v\<lparr>vm_status := (vm_status v)\<lparr>st_Phase := VirtualMachinePaused\<rparr>\<rparr>))"

definition ResumeVM :: "'w server_env \<Rightarrow> string \<Rightarrow> string \<Rightarrow> ('w, unit) svact" where
  "ResumeVM k name namespace = bind (getVM k name namespace) (\<lambda>v.
    if phase v \<noteq> VirtualMachinePaused then throw (rpc_status ''FailedPrecondition'' ''vm is not in pasued state'')
    else mark k (v\<lparr>vm_status := (vm_status v)\<lparr>st_Phase := VirtualMachineResumed\<rparr>\<rparr>))"

definition RebootVM :: "'w server_env \<Rightarrow> string \<Rightarrow> string \<Rightarrow> ('w, unit) svact" where
  "RebootVM k name namespace = bind (getVM k name namespace) (\<lambda>v.
    if phase v \<noteq> VirtualMachineRunning then throw (rpc_status ''FailedPrecondition'' ''VM is not in running state'')
    else mark k (v\<lparr>vm_status := (vm_status v)\<lparr>st_PowerAction := VirtualMachineReboot\<rparr>\<rparr>))"

section \<open>Snapshots\<close>

text \<open>\<open>defer os.RemoveAll(path)\<close>: when the function returns or panics, but not when the process exits.\<close>

definition removing :: "'w server_env \<Rightarrow> string \<Rightarrow> ('w, 'a) svact \<Rightarrow> ('w, 'a) svact" where
  "removing k path m s = (case m s of (r, t) \<Rightarrow>
     (case r of Panic p \<Rightarrow> if HasPrefix p ''exit'' then (r, t) else (r, t\<lparr>world := svRemoveAll k path (world t), trace := trace t @ [RemovedAll path]\<rparr>)
      | _ \<Rightarrow> (r, t\<lparr>world := svRemoveAll k path (world t), trace := trace t @ [RemovedAll path]\<rparr>)))"

definition makeDir :: "'w server_env \<Rightarrow> string \<Rightarrow> ('w, unit) svact" where
  "makeDir k path s = (Ok (), s\<lparr>world := svMkdirAll k path (world s), trace := trace s @ [MadeDir path]\<rparr>)"

definition pack :: "'w server_env \<Rightarrow> string \<Rightarrow> string list \<Rightarrow> ('w, unit) svact" where
  "pack k archd files s = (case CreateArchive (svArchive k) archd files (world s) of (r, w) \<Rightarrow>
     (case r of Err e \<Rightarrow> Err (rpc_status ''Internal'' ''failed to create archive out of snapshot'') | _ \<Rightarrow> r,
      s\<lparr>world := w, trace := trace s @ [Archived archd files (r = Ok ())]\<rparr>))"

definition snapshotDestination :: "string \<Rightarrow> string \<Rightarrow> string" where
  "snapshotDestination dest snapId = (if dest \<noteq> [] then path_join [dest, dest, snapId] else path_join [''/var/run/ch-vmm/'', dest, snapId])"

definition localDirectory :: "vm \<Rightarrow> string \<Rightarrow> string" where
  "localDirectory v snapId = path_join [getVMDataDirPath v, snapId]"

definition uploadArchive :: "'w server_env \<Rightarrow> string \<Rightarrow> string list \<Rightarrow> string \<Rightarrow> ('w, unit) svact" where
  "uploadArchive k archd files snapId = removing k archd (
     bind (pack k archd files) (\<lambda>_.
     bind (kwrite (UploadObjectToGCS (svCloud k) ''fc-snapshots'' archd (snapId @ ''.zstd.tar''))
       (\<lambda>r. Uploaded ''fc-snapshots'' archd (snapId @ ''.zstd.tar'') (r = None))) (\<lambda>r. case r of None \<Rightarrow> ret ()
       | Some e \<Rightarrow> throw (rpc_status ''Internal'' (''failed to upload snapshot '' @ snapId)))))"

definition takeSnapshot :: "'w server_env \<Rightarrow> vm \<Rightarrow> string \<Rightarrow> string \<Rightarrow> ('w, unit) svact" where
  "takeSnapshot k v snapId dest = (let sock = getVMDataDirPath v @ ''/vm.sock''; url = ''file://'' @ snapshotDestination dest snapId in
     bind (kread (svInfo k sock)) (\<lambda>r. case r of Inl e \<Rightarrow> throw (rpc_status ''Internal'' ''failed to get vm info with error in snapshot'')
     | Inr state \<Rightarrow> if state \<noteq> ''Paused'' then throw (rpc_status ''FailedPrecondition'' (''vm is not in paused state, current state is   '' @ state))
       else bind (kwrite (svSnapshot k sock url) (\<lambda>r. SnapshotTaken sock url (r = None))) (\<lambda>r. case r of
           Some e \<Rightarrow> throw (rpc_status ''Internal'' (''failed to create snapshot '' @ snapId))
         | None \<Rightarrow> bind (kread (svReadDir k (localDirectory v snapId))) (\<lambda>r. case r of Inl e \<Rightarrow> panic ''exit: Failed to read directory''
           | Inr entries \<Rightarrow> uploadArchive k (path_join [getVMDataDirPath v, snapId @ ''.zstd.tar''])
               (map (\<lambda>f. path_join [localDirectory v snapId, f]) entries) snapId))))"

definition CreateSnapshot :: "'w server_env \<Rightarrow> string \<Rightarrow> string \<Rightarrow> string \<Rightarrow> string \<Rightarrow> ('w, unit) svact" where
  "CreateSnapshot k name namespace snapId dest = bind (getVM k name namespace) (\<lambda>v.
    bind (kread (svStat k (localDirectory v snapId))) (\<lambda>st.
    if st \<noteq> Missing then throw (rpc_status ''AlreadyExists'' (''snapshot '' @ snapId @ '' already exists''))
    else bind (makeDir k (localDirectory v snapId)) (\<lambda>_. removing k (localDirectory v snapId) (takeSnapshot k v snapId dest))))"

definition RestoreSnapshot :: "('w, unit) svact" where
  "RestoreSnapshot = throw (rpc_status ''Unimplemented'' ''method RestoreSnapshot not implemented'')"


section \<open>Properties\<close>

fun exited :: "(err, 'a) outcome \<Rightarrow> bool" where
  "exited (Panic p) = HasPrefix p ''exit''"
| "exited _ = False"

text \<open>\<open>adds Q m\<close>: the calls that \<open>m\<close> adds satisfy \<open>Q\<close> together with its outcome.\<close>

definition adds :: "((err, 'a) outcome \<Rightarrow> 'c list \<Rightarrow> bool) \<Rightarrow> ('w, 'o, 'c, 'a) action \<Rightarrow> bool" where
  "adds Q m \<longleftrightarrow> (\<forall>s. \<exists>cs. trace (snd (m s)) = trace s @ cs \<and> Q (fst (m s)) cs)"

lemma adds_removing:
  assumes "adds Q m" and "\<And>r cs. Q r cs \<Longrightarrow> exited r \<Longrightarrow> R r cs" and "\<And>r cs. Q r cs \<Longrightarrow> \<not> exited r \<Longrightarrow> R r (cs @ [RemovedAll path])"
  shows "adds R (removing k path m)"
  unfolding adds_def
proof
  fix s
  obtain r t where m: "m s = (r, t)" by (cases "m s")
  obtain cs where cs: "trace t = trace s @ cs" "Q r cs" using assms(1) m unfolding adds_def by (metis fst_conv snd_conv)
  show "\<exists>cs. trace (snd (removing k path m s)) = trace s @ cs \<and> R (fst (removing k path m s)) cs"
  proof (cases "exited r")
    case True
    then show ?thesis using m cs assms(2) by (cases r) (auto simp: removing_def)
  next
    case False
    then have "removing k path m s = (r, t\<lparr>world := svRemoveAll k path (world t), trace := trace t @ [RemovedAll path]\<rparr>)"
      using m by (cases r) (auto simp: removing_def)
    then show ?thesis using cs assms(3) [OF cs(2) False] by auto
  qed
qed

lemma adds_write:
  fixes g :: "'r \<Rightarrow> ('w, 'o, 'c, 'a) action"
  assumes "\<And>r. adds (\<lambda>q cs. Q q (c r # cs)) (g r)"
  shows "adds Q (bind (kwrite f c) g)"
  unfolding adds_def
proof
  fix s :: "('w, 'o, 'c) rst"
  obtain r w where f: "f (world s) = (r, w)" by (cases "f (world s)")
  let ?t = "s\<lparr>world := w, trace := trace s @ [c r]\<rparr>"
  have eq: "bind (kwrite f c) g s = g r ?t" using f by (simp add: bind_def kwrite_def)
  obtain cs where "trace (snd (g r ?t)) = trace ?t @ cs" "Q (fst (g r ?t)) (c r # cs)" using assms [of r] unfolding adds_def by blast
  then show "\<exists>cs. trace (snd (bind (kwrite f c) g s)) = trace s @ cs \<and> Q (fst (bind (kwrite f c) g s)) cs" unfolding eq by auto
qed

lemma adds_read: "(\<And>w. adds Q (g (f w))) \<Longrightarrow> adds Q (bind (kread f) g)"
  by (simp add: adds_def bind_def kread_def)

lemma adds_basic: "Q (Ok x) [] \<Longrightarrow> adds Q (ret x)" "Q (Err e) [] \<Longrightarrow> adds Q (throw e)" "Q (Panic p) [] \<Longrightarrow> adds Q (panic p)"
  by (simp_all add: adds_def ret_def throw_def panic_def)

lemma adds_case_sum: "(\<And>e. y = Inl e \<Longrightarrow> adds Q (m e)) \<Longrightarrow> (\<And>x. y = Inr x \<Longrightarrow> adds Q (n x)) \<Longrightarrow> adds Q (case y of Inl e \<Rightarrow> m e | Inr x \<Rightarrow> n x)"
  by (cases y) simp_all

lemma adds_pack:
  fixes m :: "('w, 'a) svact"
  assumes "\<And>e. Q (Err e) [Archived archd files False]" "\<And>p. Q (Panic p) [Archived archd files False]"
    and "adds (\<lambda>q cs. Q q (Archived archd files True # cs)) m"
  shows "adds Q (bind (pack k archd files) (\<lambda>_. m))"
  unfolding adds_def
proof
  fix s :: "('w, unit, server_call) rst"
  obtain r w where a: "CreateArchive (svArchive k) archd files (world s) = (r, w)" by (cases "CreateArchive (svArchive k) archd files (world s)")
  show "\<exists>cs. trace (snd (bind (pack k archd files) (\<lambda>_. m) s)) = trace s @ cs \<and> Q (fst (bind (pack k archd files) (\<lambda>_. m) s)) cs"
  proof (cases r)
    case (Ok u)
    let ?t = "s\<lparr>world := w, trace := trace s @ [Archived archd files True]\<rparr>"
    have eq: "bind (pack k archd files) (\<lambda>_. m) s = m ?t" using a Ok by (simp add: bind_def pack_def)
    obtain cs where "trace (snd (m ?t)) = trace ?t @ cs" "Q (fst (m ?t)) (Archived archd files True # cs)" using assms(3) unfolding adds_def by blast
    then show ?thesis unfolding eq by auto
  qed (use a assms(1,2) in \<open>auto simp: bind_def pack_def\<close>)
qed

text \<open>The calls of a snapshot request with outcome \<open>r\<close> that were made after the directory \<open>d\<close>. When the process exits, nothing is
  removed; in every other case what was made is removed again, the archive before the directory.\<close>

definition upload_calls :: "string \<Rightarrow> string list \<Rightarrow> string \<Rightarrow> (err, unit) outcome \<Rightarrow> server_call list \<Rightarrow> bool" where
  "upload_calls a files snapId r cs \<longleftrightarrow>
    (if r = Ok () then cs = [Archived a files True, Uploaded ''fc-snapshots'' a (snapId @ ''.zstd.tar'') True, RemovedAll a]
     else if exited r then cs = [Archived a files False]
     else cs = [Archived a files False, RemovedAll a]
       \<or> cs = [Archived a files True, Uploaded ''fc-snapshots'' a (snapId @ ''.zstd.tar'') False, RemovedAll a])"

definition taking_calls :: "'w server_env \<Rightarrow> vm \<Rightarrow> string \<Rightarrow> string \<Rightarrow> (err, unit) outcome \<Rightarrow> server_call list \<Rightarrow> bool" where
  "taking_calls k v snapId dest r cs \<longleftrightarrow>
    (let sock = getVMDataDirPath v @ ''/vm.sock''; url = ''file://'' @ snapshotDestination dest snapId; d = localDirectory v snapId;
         a = path_join [getVMDataDirPath v, snapId @ ''.zstd.tar''] in
     cs = [] \<and> r \<noteq> Ok () \<and> \<not> exited r
     \<or> cs = [SnapshotTaken sock url False] \<and> r \<noteq> Ok () \<and> \<not> exited r
     \<or> cs = [SnapshotTaken sock url True] \<and> exited r
     \<or> (\<exists>w entries ds. svReadDir k d w = Inr entries \<and> cs = SnapshotTaken sock url True # ds
          \<and> upload_calls a (map (\<lambda>f. path_join [d, f]) entries) snapId r ds))"

lemma adds_upload: "adds (upload_calls a files snapId) (uploadArchive k a files snapId)"
  unfolding uploadArchive_def
  by (rule adds_removing [where Q = "\<lambda>r cs. if r = Ok () then cs = [Archived a files True, Uploaded ''fc-snapshots'' a (snapId @ ''.zstd.tar'') True]
      else cs = [Archived a files False] \<or> \<not> exited r \<and> cs = [Archived a files True, Uploaded ''fc-snapshots'' a (snapId @ ''.zstd.tar'') False]"])
    (auto intro!: adds_pack adds_write adds_basic simp: upload_calls_def split: option.split if_splits)

lemma adds_mono: "adds Q m \<Longrightarrow> (\<And>r cs. Q r cs \<Longrightarrow> R r cs) \<Longrightarrow> adds R m"
  unfolding adds_def by blast

lemma adds_takeSnapshot: "adds (taking_calls k v snapId dest) (takeSnapshot k v snapId dest)"
  unfolding takeSnapshot_def Let_def
  by (auto intro!: adds_read adds_write adds_basic adds_case_sum adds_mono [OF adds_upload] simp: taking_calls_def Let_def split: option.split)

text \<open>C21: A snapshot request for an existing VM leaves nothing of its own behind unless the process exits. When the directory of the snapshot is there already, nothing
  is done. Otherwise the directory is made first; when the request succeeds, the hypervisor has written the snapshot, the entries of the
  directory were packed and the archive uploaded, each once and in this order; and whether it succeeds, fails or panics, the archive is removed if packing was begun, and the directory last of all. Only
  when the process exits, because the directory cannot be read or the archive not be created, both stay.\<close>

theorem snapshot_cleans_up:
  assumes "svGetVM k \<lparr>k_ns = namespace, k_name = name\<rparr> (world s) = Inr v"
  shows "\<exists>cs. trace (snd (CreateSnapshot k name namespace snapId dest s)) = trace s @ cs
    \<and> (let r = fst (CreateSnapshot k name namespace snapId dest s); d = localDirectory v snapId in
       if svStat k d (world s) \<noteq> Missing then cs = [] \<and> r \<noteq> Ok () \<and> \<not> exited r
       else \<exists>ds. taking_calls k v snapId dest r ds \<and> cs = MadeDir d # ds @ (if exited r then [] else [RemovedAll d]))"
proof -
  let ?d = "localDirectory v snapId"
  let ?body = "removing k ?d (takeSnapshot k v snapId dest)"
  have body: "adds (\<lambda>r cs. \<exists>ds. taking_calls k v snapId dest r ds \<and> cs = ds @ (if exited r then [] else [RemovedAll ?d])) ?body"
    by (rule adds_removing [OF adds_takeSnapshot]) auto
  have eq: "CreateSnapshot k name namespace snapId dest s = (if svStat k ?d (world s) \<noteq> Missing
      then throw (rpc_status ''AlreadyExists'' (''snapshot '' @ snapId @ '' already exists'')) s else bind (makeDir k ?d) (\<lambda>_. ?body) s)"
    using assms by (simp add: CreateSnapshot_def getVM_def bind_def kread_def ret_def)
  show ?thesis
  proof (cases "svStat k ?d (world s) = Missing")
    case True
    let ?t = "s\<lparr>world := svMkdirAll k ?d (world s), trace := trace s @ [MadeDir ?d]\<rparr>"
    have run: "CreateSnapshot k name namespace snapId dest s = ?body ?t" using eq True by (simp add: bind_def makeDir_def)
    obtain cs ds where "trace (snd (?body ?t)) = trace ?t @ cs" "taking_calls k v snapId dest (fst (?body ?t)) ds"
      "cs = ds @ (if exited (fst (?body ?t)) then [] else [RemovedAll ?d])"
      using body unfolding adds_def by blast
    then show ?thesis unfolding run using True by (intro exI [of _ "MadeDir ?d # cs"]) (auto simp: Let_def)
  qed (use eq in \<open>auto simp: throw_def rpc_status_def\<close>)
qed

text \<open>a pause request reaches the hypervisor: for a Running VM the request answers without an error and stores the phase Paused, whatever
  the daemon does meanwhile; and the round of the VM's own node that sees the stored VM outside a migration, with the hypervisor still
  Running, asks the hypervisor to pause exactly once, and leaves the VM's phase as it is.\<close>

theorem pause_request:
  assumes "svGetVM k \<lparr>k_ns = namespace, k_name = name\<rparr> (world s) = Inr v" and "phase v = VirtualMachineRunning"
    and "v' = v\<lparr>vm_status := (vm_status v)\<lparr>st_Phase := VirtualMachinePaused\<rparr>\<rparr>" and "svUpdateStatus k v' (world s) = (Inr v', w)"
    and "st_Migration (vm_status v) = None" and "st_NodeName (vm_status v) = NodeName n"
    and "chInfo n (vm_sock v) w' = Inr i" and "vi_State i = ''Running''"
  shows "PauseVM k name namespace s = (Ok (), s\<lparr>world := w, trace := trace s @ [Marked v' True]\<rparr>)
    \<and> (\<exists>ok ev. trace (snd (pauseVM n \<lparr>world = w', obj = v', trace = []\<rparr>)) = [ChCall (vm_sock v) VmPause ok, DEvent ev])
    \<and> phase (obj (snd (pauseVM n \<lparr>world = w', obj = v', trace = []\<rparr>))) = VirtualMachinePaused"
proof -
  have sock: "vm_sock v' = vm_sock v" by (simp add: assms(3) vm_sock_def getVMDataDirPath_def)
  have "PauseVM k name namespace s = (Ok (), s\<lparr>world := w, trace := trace s @ [Marked v' True]\<rparr>)"
    using assms(1,2,4) unfolding assms(3) by (simp add: PauseVM_def getVM_def mark_def bind_def kread_def kwrite_def ret_def is_Inr_def)
  moreover have "\<exists>ok ev w''. pauseVM n \<lparr>world = w', obj = v', trace = []\<rparr> = (Ok (), \<lparr>world = w'', obj = v', trace = [ChCall (vm_sock v) VmPause ok, DEvent ev]\<rparr>)"
    using assms(5-8) sock by (simp add: pauseVM_def on_own_node_def bind_def getObj_def kread_def assms(3) ch_def kwrite_def devent_def split: prod.split)
  ultimately show ?thesis by (auto simp: assms(3))
qed

section \<open>Concrete runs\<close>

definition served_vm :: vm where
  "served_vm = (let v = plain_vm ''web'' VirtualMachineRunning in v\<lparr>vm_status := (vm_status v)\<lparr>st_NodeName := ''a''\<rparr>\<rparr>)"

definition server_start :: "(unit, unit, server_call) rst" where
  "server_start = \<lparr>world = (), obj = (), trace = []\<rparr>"

definition calm_server :: "unit server_env" where
  "calm_server = \<lparr>svGetVM = (\<lambda>_ _. Inr served_vm), svUpdateStatus = (\<lambda>v w. (Inr v, w)), svStat = (\<lambda>_ _. Missing), svMkdirAll = (\<lambda>_ w. w),
     svRemoveAll = (\<lambda>_ w. w), svReadDir = (\<lambda>_ _. Inr []), svInfo = (\<lambda>_ _. Inr ''Paused''), svSnapshot = (\<lambda>_ _ w. (None, w)),
     svCloud = calm_cloud, svArchive = calm_archive\<rparr>"

theorem snapshot_cleans_up_witness:
  "\<exists>cs ds. trace (snd (CreateSnapshot calm_server ''web'' [] ''s1'' [] server_start)) = cs
    \<and> taking_calls calm_server served_vm ''s1'' [] (Ok ()) ds
    \<and> cs = MadeDir (localDirectory served_vm ''s1'') # ds @ [RemovedAll (localDirectory served_vm ''s1'')]"
proof -
  have get: "svGetVM calm_server \<lparr>k_ns = [], k_name = ''web''\<rparr> (world server_start) = Inr served_vm" by (simp add: calm_server_def)
  have ok: "fst (CreateSnapshot calm_server ''web'' [] ''s1'' [] server_start) = Ok ()" by code_simp
  have "svStat calm_server (localDirectory served_vm ''s1'') (world server_start) = Missing" by (simp add: calm_server_def)
  then show ?thesis using snapshot_cleans_up [OF get, of "''s1''" "[]"] ok by (auto simp: server_start_def Let_def)
qed

theorem pause_request_witness:
  "\<exists>v'. fst (PauseVM calm_server ''web'' [] server_start) = Ok () \<and> trace (snd (PauseVM calm_server ''web'' [] server_start)) = [Marked v' True]
    \<and> (\<exists>ok ev. trace (snd (pauseVM (host ''a'' PodRunning ''Running'') \<lparr>world = (), obj = v', trace = []\<rparr>)) = [ChCall (vm_sock served_vm) VmPause ok, DEvent ev])"
proof -
  define v' where "v' = served_vm\<lparr>vm_status := (vm_status served_vm)\<lparr>st_Phase := VirtualMachinePaused\<rparr>\<rparr>"
  have p: "phase served_vm = VirtualMachineRunning" "st_Migration (vm_status served_vm) = None" "st_NodeName (vm_status served_vm) = ''a''"
    by (simp_all add: served_vm_def plain_vm_def Let_def)
  obtain i where i: "chInfo (host ''a'' PodRunning ''Running'') (vm_sock served_vm) () = Inr i" "vi_State i = ''Running''"
    by (simp add: host_def)
  have "PauseVM calm_server ''web'' [] server_start = (Ok (), server_start\<lparr>world := (), trace := trace server_start @ [Marked v' True]\<rparr>)
    \<and> (\<exists>ok ev. trace (snd (pauseVM (host ''a'' PodRunning ''Running'') \<lparr>world = (), obj = v', trace = []\<rparr>)) = [ChCall (vm_sock served_vm) VmPause ok, DEvent ev])
    \<and> phase (obj (snd (pauseVM (host ''a'' PodRunning ''Running'') \<lparr>world = (), obj = v', trace = []\<rparr>))) = VirtualMachinePaused"
    by (rule pause_request [OF _ _ v'_def _ _ _ i]) (use p in \<open>simp_all add: calm_server_def server_start_def host_def\<close>)
  then show ?thesis by (intro exI [of _ v']) (simp add: server_start_def)
qed

text \<open>With a destination in the request the hypervisor writes to another place than the directory that is packed, which
  the pod sees as \<open>/var/run/ch-vmm/s1\<close>.\<close>

theorem snapshot_destination_twice: "snapshotDestination ''/backup'' ''s1'' = ''/backup/backup/s1''"
  by code_simp

end
