(* ===== verification/Device_Plugin.thy ===== *)
theory Device_Plugin
  imports Pod_Builder Daemon_Base
begin

text \<open>
  \<open>src/pkg/daemon/deviceplugin/deviceplugin.go\<close>: the kubelet device plugins that give VM pods \<open>/dev/kvm\<close> and
  \<open>/dev/net/tun\<close>. The gRPC server, the kubelet and the file watcher are given by their answers and events. A channel
  that was never made is \<open>None\<close>: a send to it blocks for ever and a receive from it is never ready.
\<close>

section \<open>Plugins\<close>

record device =
  dev_ID :: string
  dev_Healthy :: bool

record devicePlugin =
  deviceName :: string
  devicePath :: string
  devices :: "device list"
  socketPath :: string
  health :: "bool list option"

definition newDevicePlugin :: "string \<Rightarrow> string \<Rightarrow> nat \<Rightarrow> devicePlugin" where
  "newDevicePlugin name path count = \<lparr>deviceName = name, devicePath = path,
     devices = map (\<lambda>i. \<lparr>dev_ID = name @ Itoa (int i), dev_Healthy = True\<rparr>) [1..<Suc count], socketPath = [], health = None\<rparr>"

definition NewDevicePluginManager :: "devicePlugin list" where
  "NewDevicePluginManager = [newDevicePlugin ''kvm'' ''/dev/kvm'' 1000, newDevicePlugin ''tun'' ''/dev/net/tun'' 1000]"

section \<open>Registration and health\<close>

record register_request =
  rq_Version :: string
  rq_Endpoint :: string
  rq_ResourceName :: string

definition registerRequest :: "devicePlugin \<Rightarrow> register_request" where
  "registerRequest dp = \<lparr>rq_Version = ''v1beta1'', rq_Endpoint = Base (socketPath dp), rq_ResourceName = ''devices.quill.today/'' @ deviceName dp\<rparr>"

text \<open>Operations of file events are bits, compared for equality.\<close>

datatype plugin_event = FileEvent string "32 word" | WatchClosed | WatchError err | Served "err option"

definition op_Create :: "32 word" where "op_Create = 1"
definition op_Remove :: "32 word" where "op_Remove = 4"
definition op_Rename :: "32 word" where "op_Rename = 8"

datatype check_state = Watching | Blocked | Returned

text \<open>A send on the health channel: the state of the sender and the channel after it.\<close>

definition send_health :: "bool \<Rightarrow> devicePlugin \<Rightarrow> check_state \<times> devicePlugin" where
  "send_health h dp = (case health dp of None \<Rightarrow> (Blocked, dp) | Some q \<Rightarrow> (Watching, dp\<lparr>health := Some (q @ [h])\<rparr>))"

definition healthCheck :: "plugin_event \<Rightarrow> check_state \<times> devicePlugin \<Rightarrow> check_state \<times> devicePlugin" where
  "healthCheck ev st = (let (s, dp) = st in if s \<noteq> Watching then st
     else (case ev of FileEvent name op \<Rightarrow>
         if name = devicePath dp then (if op = op_Remove \<or> op = op_Rename then send_health False dp else if op = op_Create then send_health True dp else st)
         else if name = socketPath dp \<and> op = op_Remove then (Returned, dp) else st
       | _ \<Rightarrow> st))"

record plugin_env =
  peListen :: "err option"
  peDial :: "err option"
  peRegisterDial :: "err option"
  peRegister :: "err option"
  peWatcher :: "err option"
  peWatchDevice :: "err option"
  peWatchSocket :: "err option"

text \<open>The end of the server or of the health check, whichever comes first, is the end of \<open>run\<close>; \<open>None\<close> while it waits.\<close>

fun waitPlugin :: "check_state \<times> devicePlugin \<Rightarrow> plugin_event list \<Rightarrow> err option option \<times> devicePlugin" where
  "waitPlugin st [] = (None, snd st)"
| "waitPlugin st (Served r # evs) = (Some r, snd st)"
| "waitPlugin st (ev # evs) = (let st' = healthCheck ev st in if fst st' = Returned then (Some None, snd st') else waitPlugin st' evs)"

definition run_plugin :: "plugin_env \<Rightarrow> devicePlugin \<Rightarrow> plugin_event list \<Rightarrow> err option option \<times> devicePlugin" where
  "run_plugin k dp0 evs = (let dp = dp0\<lparr>socketPath := path_join [''/var/lib/kubelet/device-plugins'', ''ch-vmm-'' @ deviceName dp0 @ ''.sock'']\<rparr> in
     case peListen k of Some e \<Rightarrow> (Some (Some (ErrS ''failed to listen'' e)), dp)
   | None \<Rightarrow> (case peDial k of Some e \<Rightarrow> (Some (Some e), dp)
     | None \<Rightarrow> (case peRegisterDial k of Some e \<Rightarrow> (Some (Some (ErrS ''dial'' e)), dp)
       | None \<Rightarrow> (case peRegister k of Some e \<Rightarrow> (Some (Some (ErrS ''register to kubelet'' e)), dp)
         | None \<Rightarrow> (case peWatcher k of Some e \<Rightarrow> (Some (Some (ErrS ''create watcher'' e)), dp)
           | None \<Rightarrow> (case peWatchDevice k of Some e \<Rightarrow> (Some (Some (ErrS ''start watching'' e)), dp)
             | None \<Rightarrow> (case peWatchSocket k of Some e \<Rightarrow> (Some (Some (ErrS ''start watching'' e)), dp)
               | None \<Rightarrow> waitPlugin (Watching, dp) evs)))))))"

section \<open>The service\<close>

text \<open>\<open>ListAndWatch\<close>: the first response is sent and its error ignored; then one for every tick, and for every health
  report if the channel can deliver one. An input is the result of the send that follows it.\<close>

datatype watch_input = Tick "err option" | HealthReport bool "err option"

fun listLoop :: "devicePlugin \<Rightarrow> watch_input list \<Rightarrow> device list list \<times> err option" where
  "listLoop dp [] = ([], None)"
| "listLoop dp (Tick r # ins) = (case r of Some e \<Rightarrow> ([devices dp], Some (ErrS ''send response'' e))
     | None \<Rightarrow> map_prod ((#) (devices dp)) id (listLoop dp ins))"
| "listLoop dp (HealthReport h r # ins) = (if health dp = None then listLoop dp ins
     else (let dp' = dp\<lparr>devices := map (\<lambda>d. d\<lparr>dev_Healthy := h\<rparr>) (devices dp)\<rparr> in
       case r of Some e \<Rightarrow> ([devices dp'], Some (ErrS ''send response'' e)) | None \<Rightarrow> map_prod ((#) (devices dp')) id (listLoop dp' ins)))"

definition ListAndWatch :: "devicePlugin \<Rightarrow> watch_input list \<Rightarrow> device list list \<times> err option" where
  "ListAndWatch dp ins = map_prod ((#) (devices dp)) id (listLoop dp ins)"

record device_spec =
  ds_HostPath :: string
  ds_ContainerPath :: string
  ds_Permissions :: string

definition Allocate :: "devicePlugin \<Rightarrow> string list list \<Rightarrow> device_spec list list" where
  "Allocate dp reqs = map (\<lambda>ids. map (\<lambda>_. \<lparr>ds_HostPath = devicePath dp, ds_ContainerPath = devicePath dp, ds_Permissions = ''rwm''\<rparr>) ids) reqs"

section \<open>Properties\<close>

text \<open>the identifiers of a plugin's devices are distinct, as many as asked for and all healthy, for every count a 64-bit integer
  holds; a request of the kubelet gets one answer for each container, with the plugin's device once for each identifier.\<close>

theorem plugin_devices:
  assumes "int count < 2 ^ 63"
  shows "distinct (map dev_ID (devices (newDevicePlugin name path count))) \<and> length (devices (newDevicePlugin name path count)) = count
    \<and> list_all dev_Healthy (devices (newDevicePlugin name path count))
    \<and> map length (Allocate (newDevicePlugin name path count) reqs) = map length reqs
    \<and> list_all (list_all (\<lambda>d. ds_HostPath d = path \<and> ds_ContainerPath d = path)) (Allocate (newDevicePlugin name path count) reqs)"
proof -
  have "inj_on (\<lambda>i. name @ Itoa (int i)) (set [1..<Suc count])"
    using assms by (intro inj_onI) (auto dest!: Itoa_inject [rotated 2] simp: in_int64_def)
  then have "distinct (map dev_ID (devices (newDevicePlugin name path count)))"
    by (simp add: newDevicePlugin_def comp_def distinct_map del: upt_Suc)
  then show ?thesis by (simp add: newDevicePlugin_def Allocate_def list_all_iff)
qed

theorem plugin_devices_witness:
  "distinct (map dev_ID (devices (newDevicePlugin ''kvm'' ''/dev/kvm'' 1000))) \<and> length (devices (newDevicePlugin ''kvm'' ''/dev/kvm'' 1000)) = 1000"
  using plugin_devices [of 1000 "''kvm''" "''/dev/kvm''" "[]"] by simp

fun is_served :: "plugin_event \<Rightarrow> bool" where
  "is_served (Served _) = True"
| "is_served _ = False"

lemma waitPlugin_blocked: "list_all (\<lambda>ev. \<not> is_served ev) evs \<Longrightarrow> waitPlugin (Blocked, dp) evs = (None, dp)"
proof (induction evs)
  case (Cons ev evs)
  then show ?case by (cases ev) (simp_all add: healthCheck_def)
qed simp

lemma listLoop_no_health: "health dp = None \<Longrightarrow> set (fst (listLoop dp ins)) \<subseteq> {devices dp}"
  by (induction dp ins rule: listLoop.induct) (auto split: option.split)

text \<open>the first change of the device file silences a plugin. Its health channel was never made, so from the first removal, renaming or
  creation of the device file on, the health check is stuck: whatever file events follow, also the removal of the plugin's own socket, \<open>run\<close>
  does not return while the server serves; and every list of devices the kubelet is sent is the initial one, all healthy.\<close>

theorem plugin_silenced:
  assumes "k = \<lparr>peListen = None, peDial = None, peRegisterDial = None, peRegister = None, peWatcher = None, peWatchDevice = None, peWatchSocket = None\<rparr>"
    and "op \<in> {op_Create, op_Remove, op_Rename}" and "list_all (\<lambda>ev. \<not> is_served ev) evs"
  shows "fst (run_plugin k (newDevicePlugin name path count) (FileEvent path op # evs)) = None
    \<and> set (fst (ListAndWatch (newDevicePlugin name path count) ins)) = {devices (newDevicePlugin name path count)}"
proof -
  let ?dp = "(newDevicePlugin name path count)\<lparr>socketPath := path_join [''/var/lib/kubelet/device-plugins'', ''ch-vmm-'' @ name @ ''.sock'']\<rparr>"
  have name: "deviceName (newDevicePlugin name path count) = name" by (simp add: newDevicePlugin_def)
  have "healthCheck (FileEvent path op) (Watching, ?dp) = (Blocked, ?dp)"
    using assms(2) by (auto simp: healthCheck_def send_health_def newDevicePlugin_def)
  then have "fst (run_plugin k (newDevicePlugin name path count) (FileEvent path op # evs)) = None"
    using waitPlugin_blocked [OF assms(3)] by (simp add: run_plugin_def assms(1) name Let_def)
  moreover have "health (newDevicePlugin name path count) = None" by (simp add: newDevicePlugin_def)
  ultimately show ?thesis using listLoop_no_health [of "newDevicePlugin name path count" ins] by (auto simp: ListAndWatch_def)
qed

theorem plugin_silenced_witness:
  "fst (run_plugin \<lparr>peListen = None, peDial = None, peRegisterDial = None, peRegister = None, peWatcher = None, peWatchDevice = None, peWatchSocket = None\<rparr>
     (newDevicePlugin ''kvm'' ''/dev/kvm'' 1000)
     [FileEvent ''/dev/kvm'' 4, FileEvent ''/var/lib/kubelet/device-plugins/ch-vmm-kvm.sock'' 4]) = None"
  using plugin_silenced [OF refl, of 4 "[FileEvent ''/var/lib/kubelet/device-plugins/ch-vmm-kvm.sock'' 4]" "''kvm''" "''/dev/kvm''" 1000]
  by (simp add: op_Remove_def)

end
