(* ===== verification/Logging.thy ===== *)
theory Logging
  imports Daemon_Base "HOL-Library.AList" "HOL-Library.Multiset"
begin

text \<open>
  \<open>src/pkg/util/log\<close>: levels and fields of a logger (\<open>log.go\<close>), the format of a line (\<open>k8s.go\<close>), and the hook that writes lines
  to files and starts a new file when one is full (\<open>file.go\<close>, \<open>file_hook.go\<close>). The file system and the clock are the fields of
  \<open>log_fs\<close>; logrus and the JSON encoder are parameters. A buffered writer is its sticky error: its buffer is empty after every
  line, because each write is followed by a flush.
\<close>

section \<open>Levels\<close>

text \<open>\<open>strings.ToLower\<close> on UTF-8: besides the ASCII letters only U+0130 and U+212A become ASCII; other runes keep their place,
  which is enough to compare with ASCII text.\<close>

fun ToLower :: "string \<Rightarrow> string" where
  "ToLower [] = []"
| "ToLower (c # cs) = (let n = of_char c :: nat in
     if 65 \<le> n \<and> n \<le> 90 then char_of (n + 32) # ToLower cs
     else (case cs of d # ds \<Rightarrow> if n = 0xC4 \<and> of_char d = (0xB0 :: nat) then CHR ''i'' # ToLower ds
             else (case ds of e # es \<Rightarrow> if n = 0xE2 \<and> of_char d = (0x84 :: nat) \<and> of_char e = (0xAA :: nat) then CHR ''k'' # ToLower es
                     else c # ToLower cs
                   | [] \<Rightarrow> c # ToLower cs)
           | [] \<Rightarrow> c # ToLower cs))"

type_synonym level = "32 word"

definition level_String :: "level \<Rightarrow> string" where
  "level_String l = (if l = 5 then ''debug'' else if l = 4 then ''info'' else if l = 3 then ''warning'' else if l = 2 then ''error''
     else if l = 1 then ''fatal'' else if l = 0 then ''panic'' else ''unknown'')"

definition ParseLevel :: "string \<Rightarrow> err + level" where
  "ParseLevel lvl = (let l = ToLower lvl in
     if l = ''panic'' then Inr 0 else if l = ''fatal'' then Inr 1 else if l = ''error'' then Inr 2
     else if l = ''warn'' \<or> l = ''warning'' then Inr 3 else if l = ''info'' then Inr 4 else if l = ''debug'' then Inr 5
     else Inl (ErrNew (''not a valid Level: '' @ lvl)))"

text \<open>The level stays as it is when the text is not one.\<close>

definition UnmarshalText :: "string \<Rightarrow> level \<Rightarrow> err option \<times> level" where
  "UnmarshalText s l = (case ParseLevel s of Inl e \<Rightarrow> (Some e, l) | Inr lvl \<Rightarrow> (None, lvl))"

definition AllLevels :: "level list" where
  "AllLevels = [0, 1, 2, 3, 4, 5]"

section \<open>Loggers\<close>

type_synonym fields = "string \<rightharpoonup> string"

record logger =
  lg_Data :: fields

text \<open>\<open>addFields\<close> is logrus's \<open>Entry.WithFields\<close>. The fields of the caller are returned too, since \<open>type\<close> is deleted from the
  caller's own map, and whether the error was logged.\<close>

definition WithField :: "(fields \<Rightarrow> fields \<Rightarrow> fields) \<Rightarrow> string \<Rightarrow> string \<Rightarrow> logger \<Rightarrow> logger" where
  "WithField addFields f v l = l\<lparr>lg_Data := addFields (lg_Data l) [f \<mapsto> v]\<rparr>"

definition WithFields :: "(fields \<Rightarrow> fields \<Rightarrow> fields) \<Rightarrow> fields \<Rightarrow> logger \<Rightarrow> logger \<times> fields \<times> bool" where
  "WithFields addFields fs l = (let clash = fs ''type'' \<noteq> None; fs' = (if clash then fs(''type'' := None) else fs) in
     (l\<lparr>lg_Data := addFields (lg_Data l) fs'\<rparr>, fs', clash))"

record file_config =
  FileDirPath :: string
  FileName_cfg :: string
  FileMaxSize_cfg :: "64 word"

definition defaultCfg :: "string \<Rightarrow> file_config" where
  "defaultCfg tempDir = \<lparr>FileDirPath = tempDir, FileName_cfg = ''test'', FileMaxSize_cfg = 1064 * 1064\<rparr>"

definition WithFileDirPath :: "string \<Rightarrow> file_config \<Rightarrow> file_config" where
  "WithFileDirPath d c = c\<lparr>FileDirPath := d\<rparr>"

definition WithFileName :: "string \<Rightarrow> file_config \<Rightarrow> file_config" where
  "WithFileName n c = c\<lparr>FileName_cfg := n\<rparr>"

definition WithFileMaxSize :: "64 word \<Rightarrow> file_config \<Rightarrow> file_config" where
  "WithFileMaxSize n c = c\<lparr>FileMaxSize_cfg := n\<rparr>"

section \<open>Files\<close>

record log_time =
  t_Year :: int
  t_Month :: int
  t_Day :: int
  t_Hour :: int
  t_Minute :: int
  t_Second :: int
  t_Nanosecond :: int

text \<open>The verb \<open>%0wd\<close>: zeros between the sign and the digits.\<close>

definition pad :: "nat \<Rightarrow> int \<Rightarrow> string" where
  "pad w i = (if i < 0 then CHR ''-'' # replicate (w - 1 - length (Itoa (- i))) (CHR ''0'') @ Itoa (- i)
     else replicate (w - length (Itoa i)) (CHR ''0'') @ Itoa i)"

definition logName :: "string \<Rightarrow> log_time \<Rightarrow> string \<times> string" where
  "logName tag t = (tag @ ''.log.'' @ pad 4 (t_Year t) @ pad 2 (t_Month t) @ pad 2 (t_Day t) @ ''-'' @ pad 2 (t_Hour t)
     @ pad 2 (t_Minute t) @ pad 2 (t_Second t) @ pad 10 (t_Nanosecond t), tag @ ''.log'')"

record 'w log_fs =
  lfNow :: "'w \<Rightarrow> log_time"
  lfStat :: "string \<Rightarrow> 'w \<Rightarrow> err option"
  lfCreate :: "string \<Rightarrow> 'w \<Rightarrow> err option \<times> 'w"
  lfSymlink :: "string \<Rightarrow> string \<Rightarrow> 'w \<Rightarrow> 'w"
  lfWrite :: "string \<Rightarrow> string \<Rightarrow> 'w \<Rightarrow> err option \<times> 'w"
  lfClose :: "string \<Rightarrow> 'w \<Rightarrow> 'w"

datatype log_call = FileCreated string bool | Linked string string | LineWritten string string bool | FileClosed string

record sync_buffer =
  sb_file :: "string option"
  sb_logDir :: string
  sb_fileName :: string
  sb_fileSize :: "64 word"
  sb_nbytes :: "64 word"
  sb_err :: "err option"

record file_hook =
  FilePath :: string
  FileName :: string
  FileMaxSize :: "64 word"
  fh_w :: "sync_buffer option"

type_synonym ('w, 'a) logact = "('w, file_hook, log_call, 'a) action"

definition NewHook :: "string \<Rightarrow> string \<Rightarrow> 64 word \<Rightarrow> file_hook" where
  "NewHook path name maxSize = \<lparr>FilePath = path, FileName = name, FileMaxSize = maxSize, fh_w = None\<rparr>"

definition fileOpts :: "string \<Rightarrow> (file_config \<Rightarrow> file_config) list \<Rightarrow> file_hook option" where
  "fileOpts tempDir opts = (if opts = [] then None
     else (let cfg = fold (\<lambda>opt cfg. opt cfg) opts (defaultCfg tempDir) in
       Some (NewHook (FileDirPath cfg) (FileName_cfg cfg) (FileMaxSize_cfg cfg))))"

definition Validate :: "'w log_fs \<Rightarrow> string \<Rightarrow> ('w, unit) logact" where
  "Validate k logDir = bind (kread (lfStat k logDir)) (\<lambda>r. case r of None \<Rightarrow> ret () | Some e \<Rightarrow> throw e)"

text \<open>The errors of removing the old link and of making the new one are ignored.\<close>

definition relink :: "'w log_fs \<Rightarrow> string \<Rightarrow> string \<Rightarrow> ('w, unit) logact" where
  "relink k name symlink s = (Ok (), s\<lparr>world := lfSymlink k name symlink (world s), trace := trace s @ [Linked name symlink]\<rparr>)"

definition create :: "'w log_fs \<Rightarrow> string \<Rightarrow> string \<Rightarrow> log_time \<Rightarrow> ('w, string) logact" where
  "create k logDir fileName t = bind (Validate k logDir) (\<lambda>_.
    let (name, link) = logName fileName t; fname = path_join [logDir, name] in
    bind (kwrite (lfCreate k fname) (\<lambda>r. FileCreated fname (r = None))) (\<lambda>r. case r of
      Some e \<Rightarrow> throw (ErrS ''failed to create file'' e)
    | None \<Rightarrow> bind (relink k name (path_join [logDir, link])) (\<lambda>_. ret fname)))"

definition closeFile :: "'w log_fs \<Rightarrow> string \<Rightarrow> ('w, unit) logact" where
  "closeFile k f s = (Ok (), s\<lparr>world := lfClose k f (world s), trace := trace s @ [FileClosed f]\<rparr>)"

definition rotateFile :: "'w log_fs \<Rightarrow> log_time \<Rightarrow> sync_buffer \<Rightarrow> ('w, sync_buffer) logact" where
  "rotateFile k now sb = bind (case sb_file sb of None \<Rightarrow> ret () | Some f \<Rightarrow> closeFile k f) (\<lambda>_.
    bind (create k (sb_logDir sb) (sb_fileName sb) now) (\<lambda>f.
    ret (sb\<lparr>sb_file := Some f, sb_nbytes := 0, sb_err := None\<rparr>)))"

text \<open>\<open>bufio.Writer\<close> with its 256 KiB: a line that fits is buffered and written by the flush, whose error the code ignores but the
  writer keeps; a longer one is written at once.\<close>

definition bufio_Write :: "'w log_fs \<Rightarrow> string \<Rightarrow> sync_buffer \<Rightarrow> ('w, sync_buffer) logact" where
  "bufio_Write k p sb = (case sb_err sb of Some e \<Rightarrow> throw e
    | None \<Rightarrow> (case sb_file sb of None \<Rightarrow> panic ''nil pointer dereference''
      | Some f \<Rightarrow> if p = [] then ret sb
        else bind (kwrite (lfWrite k f p) (\<lambda>r. LineWritten f p (r = None))) (\<lambda>r. case r of
            None \<Rightarrow> ret (sb\<lparr>sb_nbytes := sb_nbytes sb + of_nat (length p)\<rparr>)
          | Some e \<Rightarrow> if int (length p) > 1024 * 256 then throw e
              else ret (sb\<lparr>sb_nbytes := sb_nbytes sb + of_nat (length p), sb_err := Some e\<rparr>))))"

definition sb_Write :: "'w log_fs \<Rightarrow> string \<Rightarrow> sync_buffer \<Rightarrow> ('w, sync_buffer) logact" where
  "sb_Write k p sb = bind (if sb_nbytes sb + of_nat (length p) \<ge> sb_fileSize sb
      then bind (kread (lfNow k)) (\<lambda>now. rotateFile k now sb) else ret sb) (bufio_Write k p)"

definition createSyncBuffer :: "'w log_fs \<Rightarrow> file_hook \<Rightarrow> ('w, sync_buffer) logact" where
  "createSyncBuffer k h = bind (kread (lfNow k)) (\<lambda>now. rotateFile k now
     \<lparr>sb_file = None, sb_logDir = FilePath h, sb_fileName = FileName h, sb_fileSize = FileMaxSize h, sb_nbytes = 0, sb_err = None\<rparr>)"

definition setBuffer :: "sync_buffer \<Rightarrow> file_hook \<Rightarrow> file_hook" where
  "setBuffer sb h = h\<lparr>fh_w := Some sb\<rparr>"

definition hook_write :: "'w log_fs \<Rightarrow> err + string \<Rightarrow> ('w, unit) logact" where
  "hook_write k formatted = (case formatted of Inl e \<Rightarrow> throw e
    | Inr msg \<Rightarrow> bind getObj (\<lambda>h.
      bind (case fh_w h of Some sb \<Rightarrow> ret sb | None \<Rightarrow> bind (createSyncBuffer k h) (\<lambda>sb. bind (modObj (setBuffer sb)) (\<lambda>_. ret sb))) (\<lambda>sb.
      bind (sb_Write k msg sb) (\<lambda>sb'. modObj (setBuffer sb')))))"

text \<open>A line that cannot be written ends the process.\<close>

definition Fire :: "'w log_fs \<Rightarrow> err + string \<Rightarrow> ('w, unit) logact" where
  "Fire k formatted s = (case hook_write k formatted s of (Err e, t) \<Rightarrow> (Panic ''exit: failed to write log to file'', t) | r \<Rightarrow> r)"

section \<open>The format of a line\<close>

record json_formatter =
  DisableTimestamp :: bool
  TimestampFormat :: string
  FieldMap :: "(string \<times> string) list"

definition resolve :: "(string \<times> string) list \<Rightarrow> string \<Rightarrow> string" where
  "resolve m f = (case map_of m f of Some v \<Rightarrow> v | None \<Rightarrow> f)"

definition prefixField :: "string \<Rightarrow> (string \<times> string) list \<Rightarrow> (string \<times> string) list" where
  "prefixField f data = (case map_of data f of None \<Rightarrow> data
     | Some v \<Rightarrow> AList.delete f (AList.update (''fields.'' @ f) v data))"

definition prefixFieldClashes :: "(string \<times> string) list \<Rightarrow> (string \<times> string) list \<Rightarrow> (string \<times> string) list" where
  "prefixFieldClashes m data = prefixField (resolve m ''level'') (prefixField (resolve m ''msg'') (prefixField (resolve m ''time'') data))"

definition plain_char :: "char \<Rightarrow> bool" where
  "plain_char c \<longleftrightarrow> (let n = of_char c :: nat in 97 \<le> n \<and> n \<le> 122 \<or> 65 \<le> n \<and> n \<le> 90 \<or> 48 \<le> n \<and> n \<le> 57)
     \<or> c \<in> {CHR ''-'', CHR ''.'', CHR ''_'', CHR ''/'', CHR ''@'', CHR ''^'', CHR ''+''}"

definition needsQuoting :: "string \<Rightarrow> bool" where
  "needsQuoting s \<longleftrightarrow> s = [] \<or> list_ex (\<lambda>c. \<not> plain_char c) s"

text \<open>\<open>quote\<close> is the verb \<open>%q\<close>; a value is the text that \<open>fmt.Sprint\<close> makes of it.\<close>

definition appendValue :: "(string \<Rightarrow> string) \<Rightarrow> string \<Rightarrow> string \<Rightarrow> string" where
  "appendValue quote v b = b @ (if needsQuoting v then quote v else v)"

definition appendKeyValue :: "(string \<Rightarrow> string) \<Rightarrow> string \<Rightarrow> string \<Rightarrow> string \<Rightarrow> string" where
  "appendKeyValue quote f v b = appendValue quote v ((if b \<noteq> [] then b @ '' '' else b) @ f @ ''='')"

record log_entry =
  le_Data :: "(string \<times> string) list"
  le_Time :: "string \<Rightarrow> string"
  le_Level :: string
  le_Message :: string

definition timestampFormat :: "json_formatter \<Rightarrow> string" where
  "timestampFormat f = (if TimestampFormat f = [] then ''2006-01-02T15:04:05Z07:00'' else TimestampFormat f)"

definition format_keys :: "json_formatter \<Rightarrow> (string list \<Rightarrow> string list) \<Rightarrow> log_entry \<Rightarrow> string list" where
  "format_keys f order entry = order (map fst (prefixFieldClashes (FieldMap f) (le_Data entry)))
     @ (if DisableTimestamp f then [] else [resolve (FieldMap f) ''time'']) @ [resolve (FieldMap f) ''level'']
     @ (if le_Message entry \<noteq> [] then [resolve (FieldMap f) ''msg''] else [])"

definition value_of :: "json_formatter \<Rightarrow> log_entry \<Rightarrow> string \<Rightarrow> string" where
  "value_of f entry key =
    (if key = resolve (FieldMap f) ''time'' then le_Time entry (timestampFormat f)
     else if key = resolve (FieldMap f) ''level'' then le_Level entry
     else if key = resolve (FieldMap f) ''msg'' then le_Message entry
     else (case map_of (prefixFieldClashes (FieldMap f) (le_Data entry)) key of Some v \<Rightarrow> v | None \<Rightarrow> ''<nil>''))"

text \<open>\<open>order\<close> is the order in which the map is ranged over, \<open>encode\<close> the JSON encoder on the log text and the time.\<close>

definition log_text :: "json_formatter \<Rightarrow> (string \<Rightarrow> string) \<Rightarrow> (string list \<Rightarrow> string list) \<Rightarrow> log_entry \<Rightarrow> string" where
  "log_text f quote order entry = fold (\<lambda>key. appendKeyValue quote key (value_of f entry key)) (format_keys f order entry) []"

definition Format :: "json_formatter \<Rightarrow> (string \<Rightarrow> string) \<Rightarrow> (string list \<Rightarrow> string list) \<Rightarrow> (string \<Rightarrow> string \<Rightarrow> string option) \<Rightarrow> log_entry \<Rightarrow> err + string" where
  "Format f quote order encode entry = (case encode (log_text f quote order entry) (le_Time entry (timestampFormat f)) of
     None \<Rightarrow> Inl (ErrNew ''failed to marshal fields to JSON'') | Some b \<Rightarrow> Inr b)"

section \<open>Rotation of files\<close>








definition file_bytes :: "string list \<Rightarrow> nat" where
  "file_bytes ls = sum_list (map length ls)"



lemma file_bytes_simps [simp]: "file_bytes [] = 0" "file_bytes (f @ [p]) = file_bytes f + length p"
  by (simp_all add: file_bytes_def)














lemma traces_log [traces]: "traces (\<lambda>_. True) (rotateFile k now sb)" "traces (\<lambda>_. True) (bufio_Write k p sb)"
proof -
  have cl: "traces (\<lambda>_. True) (closeFile k f)" "traces (\<lambda>_. True) (relink k a b)" for f a b by (simp_all add: traces_def closeFile_def relink_def)
  have "traces (\<lambda>_. True) (create k d n t)" for d n t
    unfolding create_def Validate_def by (cases "logName n t") (simp add: Let_def, intro traces cl TrueI)
  then show "traces (\<lambda>_. True) (rotateFile k now sb)" unfolding rotateFile_def by (intro traces cl)
  show "traces (\<lambda>_. True) (bufio_Write k p sb)" unfolding bufio_Write_def by (intro traces TrueI)
qed





















text \<open>A line that cannot be written is noticed with the next one, unless that starts a new file.\<close>

lemma failed_line_noticed:
  assumes "fh_w (obj s) = Some sb" and "sb_err sb = Some e" and "sb_nbytes sb + of_nat (length p) < sb_fileSize sb"
  shows "Fire k (Inr p) s = (Panic ''exit: failed to write log to file'', s)"
  using assms linorder_not_le [THEN iffD2, OF assms(3)]
  by (simp add: Fire_def hook_write_def bind_def getObj_def ret_def sb_Write_def bufio_Write_def throw_def)

section \<open>Names of files\<close>

definition sane_time :: "log_time \<Rightarrow> bool" where
  "sane_time t \<longleftrightarrow> 0 \<le> t_Year t \<and> t_Year t < 10000 \<and> 0 \<le> t_Month t \<and> t_Month t < 100 \<and> 0 \<le> t_Day t \<and> t_Day t < 100
     \<and> 0 \<le> t_Hour t \<and> t_Hour t < 100 \<and> 0 \<le> t_Minute t \<and> t_Minute t < 100 \<and> 0 \<le> t_Second t \<and> t_Second t < 100
     \<and> 0 \<le> t_Nanosecond t \<and> t_Nanosecond t < 10000000000"

lemma length_dec_digits: "0 < w \<Longrightarrow> n < 10 ^ w \<Longrightarrow> length (dec_digits n) \<le> w"
proof (induction w arbitrary: n)
  case (Suc w)
  show ?case
  proof (cases "n < 10")
    case False
    then have "0 < w" using Suc.prems by (cases w) auto
    moreover have "n div 10 < 10 ^ w" using Suc.prems by (simp add: less_mult_imp_div_less mult.commute)
    ultimately have "length (dec_digits (n div 10)) \<le> w" by (rule Suc.IH)
    then show ?thesis using False by (subst dec_digits.simps) simp
  qed (subst dec_digits.simps, simp)
qed simp

lemma length_pad: "0 < w \<Longrightarrow> 0 \<le> i \<Longrightarrow> i < 10 ^ w \<Longrightarrow> length (pad w i) = w"
  using length_dec_digits [of w "nat i"] by (simp add: pad_def Itoa_def nat_less_iff)

lemma dec_val_zeros: "dec_val 0 (replicate n (CHR ''0'') @ s) = dec_val 0 s"
  by (induction n) (simp_all add: digit_val_def)

lemma pad_inject: "0 \<le> i \<Longrightarrow> 0 \<le> j \<Longrightarrow> pad w i = pad w j \<Longrightarrow> i = j"
  by (metis dec_val_zeros dec_val_digits Itoa_def pad_def linorder_not_less eq_nat_nat_iff)

text \<open>Files made at different times have different names, so a rotation never truncates an earlier file.\<close>

lemma logName_inject:
  assumes "sane_time t" and "sane_time u" and "fst (logName tag t) = fst (logName tag u)"
  shows "t = (u :: log_time)"
proof -
  have len: "length (pad 4 (t_Year v)) = 4" "length (pad 2 (t_Month v)) = 2" "length (pad 2 (t_Day v)) = 2" "length (pad 2 (t_Hour v)) = 2"
      "length (pad 2 (t_Minute v)) = 2" "length (pad 2 (t_Second v)) = 2" if "sane_time v" for v :: log_time
    using that by (simp_all add: sane_time_def length_pad)
  have eq: "pad 4 (t_Year t) = pad 4 (t_Year u) \<and> pad 2 (t_Month t) = pad 2 (t_Month u) \<and> pad 2 (t_Day t) = pad 2 (t_Day u)
      \<and> pad 2 (t_Hour t) = pad 2 (t_Hour u) \<and> pad 2 (t_Minute t) = pad 2 (t_Minute u) \<and> pad 2 (t_Second t) = pad 2 (t_Second u)
      \<and> pad 10 (t_Nanosecond t) = pad 10 (t_Nanosecond u)"
    using assms(3) len [OF assms(1)] len [OF assms(2)] by (simp add: logName_def)
  show ?thesis using eq assms(1,2) by (intro log_time.equality) (auto simp: sane_time_def dest: pad_inject)
qed

section \<open>Levels, fields and lines\<close>

lemma ParseLevel_String:
  "ParseLevel (level_String l) = (if l \<in> set AllLevels then Inr l else Inl (ErrNew ''not a valid Level: unknown''))"
proof (cases "l \<in> set AllLevels")
  case True
  then consider "l = 0" | "l = 1" | "l = 2" | "l = 3" | "l = 4" | "l = 5" by (auto simp: AllLevels_def)
  then show ?thesis
  proof cases
    case 1 show ?thesis unfolding 1 by code_simp
  next
    case 2 show ?thesis unfolding 2 by code_simp
  next
    case 3 show ?thesis unfolding 3 by code_simp
  next
    case 4 show ?thesis unfolding 4 by code_simp
  next
    case 5 show ?thesis unfolding 5 by code_simp
  next
    case 6 show ?thesis unfolding 6 by code_simp
  qed
next
  case False
  then have "level_String l = ''unknown''" by (simp add: level_String_def AllLevels_def)
  moreover have "ParseLevel ''unknown'' = Inl (ErrNew ''not a valid Level: unknown'')" by code_simp
  ultimately show ?thesis using False by simp
qed

text \<open>The type of a logger survives \<open>WithFields\<close>, but not \<open>WithField\<close>.\<close>

lemma type_kept:
  assumes "\<And>d f k. addFields d f k = (case f k of None \<Rightarrow> d k | v \<Rightarrow> v)"
  shows "lg_Data (fst (WithFields addFields fs l)) ''type'' = lg_Data l ''type''"
    and "lg_Data (WithField addFields ''type'' v l) ''type'' = Some v"
  by (simp_all add: WithFields_def WithField_def Let_def assms)

lemma prefixField_keys: "map fst (prefixField f data) = (if f \<in> fst ` set data then
    removeAll f (if ''fields.'' @ f \<in> fst ` set data then map fst data else map fst data @ [''fields.'' @ f]) else map fst data)"
  by (auto simp: prefixField_def AList.delete_keys AList.update_keys map_of_eq_None_iff split: option.split)
    (metis domI dom_map_of_conv_image_fst)+

lemma prefixField_distinct: "distinct (map fst data) \<Longrightarrow> distinct (map fst (prefixField f data))"
  by (auto simp: prefixField_keys distinct_removeAll)

lemma prefixField_set:
  "fst ` set (prefixField f data) = (if f \<in> fst ` set data then insert (''fields.'' @ f) (fst ` set data) - {f} else fst ` set data)"
  using arg_cong [OF prefixField_keys [of f data], of set] by (auto split: if_splits)

lemma fold_appendKeyValue:
  "b \<noteq> [] \<Longrightarrow> fold (\<lambda>key. appendKeyValue quote key (v key)) ks b
     = b @ concat (map (\<lambda>key. '' '' @ key @ ''='' @ (if needsQuoting (v key) then quote (v key) else v key)) ks)"
  by (induction ks arbitrary: b) (auto simp: appendKeyValue_def appendValue_def)

lemma Join_Cons: "Join sep (p # ps) = p @ concat (map (\<lambda>q. sep @ q) ps)"
  by (induction ps arbitrary: p) auto

text \<open>With the names the code uses, a line has each key once: the fields of the entry, those that clash with the line's own renamed,
  then time, level and message; they are separated by single blanks.\<close>

lemma log_text_keys:
  assumes "distinct (map fst (le_Data entry))" and "FieldMap f = []" and "\<And>ks. mset (order ks) = mset ks"
  shows "distinct (format_keys f order entry)
    \<and> log_text f quote order entry = Join '' '' (map (\<lambda>key. key @ ''='' @
        (if needsQuoting (value_of f entry key) then quote (value_of f entry key) else value_of f entry key)) (format_keys f order entry))"
proof
  let ?ks = "map fst (prefixFieldClashes [] (le_Data entry))"
  have "distinct ?ks" using assms(1) by (simp add: prefixFieldClashes_def prefixField_distinct)
  moreover have "''time'' \<notin> set ?ks" "''level'' \<notin> set ?ks" "''msg'' \<notin> set ?ks"
    by (auto simp: prefixFieldClashes_def resolve_def prefixField_set split: if_splits)
  moreover have "set (order ?ks) = set ?ks" "distinct (order ?ks) = distinct ?ks"
    using assms(3) mset_eq_setD mset_eq_imp_distinct_iff by blast+
  ultimately show "distinct (format_keys f order entry)" by (auto simp: format_keys_def assms(2) resolve_def)
  obtain k ks where ks: "format_keys f order entry = k # ks" by (cases "format_keys f order entry") (auto simp: format_keys_def)
  show "log_text f quote order entry = Join '' '' (map (\<lambda>key. key @ ''='' @
        (if needsQuoting (value_of f entry key) then quote (value_of f entry key) else value_of f entry key)) (format_keys f order entry))"
    unfolding log_text_def ks
    by (simp add: Join_Cons appendKeyValue_def [of quote k] appendValue_def [of quote "value_of f entry k"] fold_appendKeyValue comp_def)
qed

end
