(* ===== verification/Float64.thy ===== *)
theory Float64
  imports Complex_Main Prelude
begin

text \<open>
  Go's \<open>float64\<close>, as far as the program computes with it: numbers that are not negative and finite, as rationals. \<open>round64\<close> rounds
  to 53 significant bits, or to a multiple of the smallest subnormal float below the normal range, ties to even; the product of two floats is the rounded product. \<open>is_float\<close> are the
  normal floats, from \<open>2 powi (- 1022)\<close> on. Exponents are not bounded above: where Go's product overflows to infinity, \<open>round64\<close> gives a number beyond every finite float, and comparing it with a
  finite float has the same outcome. The lemma \<open>round64_grows\<close> says that multiplying a normal float with a factor above one always moves on to a
  later float, which is what loops over floats rely on; below the normal range it fails.
\<close>

lemma bit_length_bounds: "0 < n \<Longrightarrow> 2 ^ (bit_length n - 1) \<le> n \<and> n < 2 ^ bit_length n \<and> 0 < bit_length n"
proof (induction n rule: bit_length.induct)
  case (1 n)
  show ?case
  proof (cases "n = 1")
    case True
    then show ?thesis by (simp add: bit_length.simps)
  next
    case False
    with 1 have IH: "2 ^ (bit_length (n div 2) - 1) \<le> n div 2" "n div 2 < 2 ^ bit_length (n div 2)" "0 < bit_length (n div 2)" by auto
    have "bit_length n = Suc (bit_length (n div 2))" using 1 by (subst bit_length.simps) simp
    moreover have "2 * P \<le> n \<and> n < 4 * P" if "P \<le> n div 2" "n div 2 < 2 * P" for P :: nat using that by arith
    moreover have "(2 :: nat) ^ bit_length (n div 2) = 2 * 2 ^ (bit_length (n div 2) - 1)" using IH(3) by (cases "bit_length (n div 2)") auto
    ultimately show ?thesis using IH(1,2) by simp
  qed
qed

section \<open>Rounding\<close>

text \<open>The exponent of the leading bit.\<close>

definition flog2 :: "rat \<Rightarrow> int" where
  "flog2 x = (let (p, q) = quotient_of x; k = int (bit_length (nat p)) - int (bit_length (nat q)) in
     if x < 2 powi k then k - 1 else k)"

definition round_even :: "rat \<Rightarrow> int" where
  "round_even y = (let f = \<lfloor>y\<rfloor>; d = y - of_int f in
     if d < 1 / 2 then f else if d > 1 / 2 then f + 1 else if even f then f else f + 1)"

definition round64 :: "rat \<Rightarrow> rat" where
  "round64 x = (let e = max (flog2 x - 52) (- 1074) in of_int (round_even (x / 2 powi e)) * 2 powi e)"

definition is_float :: "rat \<Rightarrow> bool" where
  "is_float x \<longleftrightarrow> (\<exists>m e. x = of_int m * 2 powi e \<and> 2 ^ 52 \<le> m \<and> m < 2 ^ 53 \<and> - 1074 \<le> e)"

lemma powi_split: "2 powi (a + b) = (2 powi a * 2 powi b :: rat)"
  by (simp add: power_int_add)

lemma powi_Suc: "2 powi (a + 1) = 2 * (2 powi a :: rat)"
  by (simp add: power_int_add)

lemma powi_carry: "of_int (2 ^ 53) * 2 powi a = (of_int (2 ^ 52) * 2 powi (a + 1) :: rat)"
  by (simp add: powi_Suc)

lemma powi_mono: "a \<le> b \<Longrightarrow> 2 powi a \<le> (2 powi b :: rat)"
  by (rule power_int_increasing) simp_all

lemma powi_pos [simp]: "0 < (2 powi a :: rat)"
  by simp

lemma powi_less_iff: "2 powi a < (2 powi b :: rat) \<longleftrightarrow> a < b"
  by (metis linorder_not_less order_less_le power_int_strict_increasing powi_mono one_less_numeral_iff semiring_norm(76))

lemma flog2_bounds:
  assumes "0 < x"
  shows "2 powi flog2 x \<le> x" and "x < 2 powi (flog2 x + 1)"
proof -
  obtain p q where pq: "quotient_of x = (p, q)" by (cases "quotient_of x")
  then have x: "x = of_int p / of_int q" and q: "0 < q" by (simp_all add: quotient_of_div quotient_of_denom_pos)
  then have p: "0 < p" using assms by (simp add: zero_less_divide_iff)
  define a b where "a = int (bit_length (nat p))" and "b = int (bit_length (nat q))"
  have bounds: "2 powi (int (bit_length (nat r)) - 1) \<le> (of_int r :: rat) \<and> of_int r < (2 powi int (bit_length (nat r)) :: rat)" if "0 < r" for r
  proof -
    have n: "2 ^ (bit_length (nat r) - 1) \<le> nat r" "nat r < 2 ^ bit_length (nat r)" "0 < bit_length (nat r)"
      using bit_length_bounds [of "nat r"] that by auto
    have e: "int (bit_length (nat r)) - 1 = int (bit_length (nat r) - 1)" using n(3) by simp
    have "2 ^ (bit_length (nat r) - 1) \<le> r" "r < 2 ^ bit_length (nat r)"
      using n(1,2) that by (simp_all add: le_nat_iff nat_less_iff)
    then have "(of_int (2 ^ (bit_length (nat r) - 1)) :: rat) \<le> of_int r" "of_int r < (of_int (2 ^ bit_length (nat r)) :: rat)"
      by (simp_all only: of_int_le_iff of_int_less_iff)
    then show ?thesis unfolding e power_int_of_nat by (simp only: of_int_power of_int_numeral)
  qed
  have hi: "x < 2 powi (a - b + 1)"
  proof -
    have "of_int p < (2 powi a :: rat)" "2 powi (b - 1) \<le> (of_int q :: rat)" using bounds [OF p] bounds [OF q] by (auto simp: a_def b_def)
    then have "x < 2 powi a / 2 powi (b - 1)" unfolding x using q p by (intro frac_less) auto
    also have "\<dots> = 2 powi (a - b + 1)" by (simp add: power_int_diff power_int_add)
    finally show ?thesis .
  qed
  have lo: "2 powi (a - b - 1) \<le> x"
  proof -
    have "2 powi (a - 1) \<le> (of_int p :: rat)" "of_int q \<le> (2 powi b :: rat)" using bounds [OF p] bounds [OF q] by (auto simp: a_def b_def)
    then have "2 powi (a - 1) / 2 powi b \<le> x" unfolding x using q p by (intro frac_le) auto
    moreover have "(2 powi (a - b - 1) :: rat) = 2 powi (a - 1) / 2 powi b" by (simp add: power_int_diff)
    ultimately show ?thesis by simp
  qed
  have f: "flog2 x = (if x < 2 powi (a - b) then a - b - 1 else a - b)" by (simp add: flog2_def pq a_def b_def Let_def)
  show "2 powi flog2 x \<le> x" and "x < 2 powi (flog2 x + 1)" using f lo hi by auto
qed

lemma flog2_ge: "2 powi k \<le> x \<Longrightarrow> k \<le> flog2 x"
  using flog2_bounds(2) [of x] powi_less_iff [of k "flog2 x + 1"] order_less_le_trans [OF powi_pos [of k]] by fastforce

lemma round_even_ge: "of_int n \<le> y \<Longrightarrow> n \<le> round_even y"
proof -
  assume "of_int n \<le> y"
  then have "n \<le> \<lfloor>y\<rfloor>" by (simp add: le_floor_iff)
  then show ?thesis by (simp add: round_even_def Let_def)
qed

lemma round_even_le: "y \<le> of_int n \<Longrightarrow> round_even y \<le> n"
proof -
  assume y: "y \<le> of_int n"
  show ?thesis
  proof (cases "\<lfloor>y\<rfloor> = n")
    case True
    then have "y = of_int n" using y by (metis eq_iff of_int_floor_le)
    then show ?thesis by (simp add: round_even_def)
  next
    case False
    then have "\<lfloor>y\<rfloor> < n" using y by (metis floor_mono floor_of_int order_le_imp_less_or_eq)
    then show ?thesis by (simp add: round_even_def Let_def)
  qed
qed

lemma scaled_bounds:
  assumes "0 < x"
  shows "2 ^ 52 \<le> x / 2 powi (flog2 x - 52)" and "x / 2 powi (flog2 x - 52) < 2 ^ 53"
proof -
  have "2 powi flog2 x = 2 ^ 52 * (2 powi (flog2 x - 52) :: rat)" "2 powi (flog2 x + 1) = 2 ^ 53 * (2 powi (flog2 x - 52) :: rat)"
    using powi_split [of 52 "flog2 x - 52"] powi_split [of 53 "flog2 x - 52"] by (simp_all add: add.commute)
  then show "2 ^ 52 \<le> x / 2 powi (flog2 x - 52)" "x / 2 powi (flog2 x - 52) < 2 ^ 53"
    using flog2_bounds [OF assms] by (simp_all add: pos_le_divide_eq pos_divide_less_eq)
qed

lemma normal_exponent: "2 powi (- 1022) \<le> x \<Longrightarrow> max (flog2 x - 52) (- 1074) = flog2 x - 52"
  using flog2_ge [of "- 1022" x] by simp

lemma round64_float: "2 powi (- 1022) \<le> x \<Longrightarrow> is_float (round64 x)"
proof -
  assume n: "2 powi (- 1022) \<le> x"
  then have x: "0 < x" using powi_pos [of "- 1022"] by linarith
  let ?e = "flog2 x - 52" and ?R = "round_even (x / 2 powi (flog2 x - 52))"
  have R: "2 ^ 52 \<le> ?R" "?R \<le> 2 ^ 53"
    using scaled_bounds [OF x] by (auto intro!: round_even_ge round_even_le)
  have r: "round64 x = of_int ?R * 2 powi ?e" unfolding round64_def normal_exponent [OF n] Let_def ..
  have e: "- 1074 \<le> ?e" using flog2_ge [OF n] by simp
  show ?thesis
  proof (cases "?R = 2 ^ 53")
    case True
    have "round64 x = of_int (2 ^ 52) * 2 powi (?e + 1)" using r unfolding True powi_carry .
    moreover have "(2 :: int) ^ 52 \<le> 2 ^ 52" "(2 :: int) ^ 52 < 2 ^ 53" by simp_all
    ultimately show ?thesis using e unfolding is_float_def by (metis add_increasing2 zero_le_one)
  next
    case False
    then have "?R < 2 ^ 53" using R(2) by simp
    then show ?thesis unfolding is_float_def using r R(1) e by blast
  qed
qed

lemma float_above_one: "is_float f \<Longrightarrow> 1 < f \<Longrightarrow> 1 + 2 powi (-52) \<le> f"
proof -
  assume "is_float f" and f1: "1 < f"
  then obtain m e where f: "f = of_int m * 2 powi e" and m: "2 ^ 52 \<le> m" "m < 2 ^ 53" by (auto simp: is_float_def)
  consider "e < -52" | "e = -52" | "-52 < e" by linarith
  then show ?thesis
  proof cases
    case 1
    then have "2 powi e \<le> (2 powi (-53) :: rat)" by (intro powi_mono) simp
    then have "f \<le> 2 ^ 53 * 2 powi (-53)" unfolding f using m by (intro mult_mono) auto
    then show ?thesis using f1 by (simp add: power_int_minus)
  next
    case 2
    then have "(2 :: rat) ^ 52 < of_int m" using f f1 by (simp add: power_int_minus field_simps)
    then have "(of_int (2 ^ 52) :: rat) < of_int m" by simp
    then have "2 ^ 52 + 1 \<le> m" by (simp only: of_int_less_iff)
    then have "(2 ^ 52 + 1 :: rat) \<le> of_int m" using of_int_le_iff [of "2 ^ 52 + 1" m, where 'a = rat] by simp
    then have "(2 ^ 52 + 1) * 2 powi (-52) \<le> f" unfolding f 2 by (intro mult_right_mono) auto
    then show ?thesis by (simp add: power_int_minus field_simps)
  next
    case 3
    then have "2 powi (-51) \<le> (2 powi e :: rat)" by (intro powi_mono) simp
    moreover have "(2 ^ 52 :: rat) \<le> of_int m" using m(1) of_int_le_iff [of "2 ^ 52" m, where 'a = rat] by simp
    ultimately have "2 ^ 52 * 2 powi (-51) \<le> f" unfolding f by (intro mult_mono) auto
    then show ?thesis by (simp add: power_int_minus)
  qed
qed

lemma float_flog2:
  assumes "2 ^ 52 \<le> m" and "m < 2 ^ 53"
  shows "flog2 (of_int m * 2 powi e) = e + 52"
proof -
  let ?x = "of_int m * 2 powi e :: rat"
  have m: "(2 ^ 52 :: rat) \<le> of_int m" "of_int m < (2 ^ 53 :: rat)"
    using assms of_int_le_iff [of "2 ^ 52" m, where 'a = rat] of_int_less_iff [of m "2 ^ 53", where 'a = rat] by simp_all
  have pos: "0 < ?x" using m by (simp add: zero_less_mult_iff)
  have "2 powi (52 + e) \<le> ?x" "?x < 2 powi (53 + e)" unfolding powi_split using m by (auto intro!: mult_right_mono)
  then have "52 + e \<le> flog2 ?x" "flog2 ?x < 53 + e"
    using flog2_ge flog2_bounds(1) [OF pos] powi_less_iff [of "flog2 ?x" "53 + e"] by (auto intro: order_le_less_trans)
  then show ?thesis by simp
qed

lemma float_normal: "is_float x \<Longrightarrow> 2 powi (- 1022) \<le> x"
proof -
  assume "is_float x"
  then obtain m e where x: "x = of_int m * 2 powi e" and m: "2 ^ 52 \<le> m" "- 1074 \<le> e" by (auto simp: is_float_def)
  have "(2 ^ 52 :: rat) \<le> of_int m" using m(1) of_int_le_iff [of "2 ^ 52" m, where 'a = rat] by simp
  moreover have "2 powi (- 1074) \<le> (2 powi e :: rat)" using m(2) by (rule powi_mono)
  ultimately have "2 ^ 52 * 2 powi (- 1074) \<le> x" unfolding x by (intro mult_mono) auto
  then show ?thesis using powi_split [of 52 "- 1074"] by simp
qed

text \<open>A float times a factor above one is at least the next float.\<close>

lemma round64_grows:
  assumes "is_float x" and "is_float f" and "1 < f"
  shows "x + 2 powi (flog2 x - 52) \<le> round64 (x * f)"
proof -
  obtain m e where x: "x = of_int m * 2 powi e" and m: "2 ^ 52 \<le> m" "m < 2 ^ 53" using assms(1) by (auto simp: is_float_def)
  have m': "(2 ^ 52 :: rat) \<le> of_int m" "of_int m + 1 \<le> (2 ^ 53 :: rat)"
    using m of_int_le_iff [of "2 ^ 52" m, where 'a = rat] of_int_le_iff [of "m + 1" "2 ^ 53", where 'a = rat] by simp_all
  have pos: "0 < x" using x m' by (simp add: zero_less_mult_iff)
  have e: "flog2 x - 52 = e" using float_flog2 [OF m] x by simp
  let ?y = "x * f"
  have "x * (1 + 2 powi (-52)) \<le> ?y" using float_above_one [OF assms(2,3)] pos by (intro mult_left_mono) auto
  moreover have "1 \<le> (of_int m :: rat) * 2 powi (-52)" using m'(1) by (simp add: power_int_minus field_simps)
  then have "1 * 2 powi e \<le> (of_int m * 2 powi (-52)) * (2 powi e :: rat)" by (intro mult_right_mono) auto
  moreover have "x * (1 + 2 powi (-52)) = of_int m * 2 powi e + (of_int m * 2 powi (-52)) * 2 powi e"
    unfolding x by (simp only: distrib_left mult_1_right ac_simps)
  ultimately have y: "(of_int m + 1) * 2 powi e \<le> ?y" unfolding distrib_right by linarith
  have y0: "0 < ?y" using pos assms(3) by simp
  have "x * 1 \<le> ?y" using pos assms(3) by (intro mult_left_mono) auto
  then have "2 powi (- 1022) \<le> ?y" using float_normal [OF assms(1)] unfolding mult_1_right by (rule order_trans [rotated])
  then have nrm: "max (flog2 ?y - 52) (- 1074) = flog2 ?y - 52" by (rule normal_exponent)
  have "2 powi (52 + e) \<le> ?y" proof -
    have "2 ^ 52 * 2 powi e \<le> (of_int m + 1) * (2 powi e :: rat)" using m'(1) by (intro mult_right_mono) auto
    then show ?thesis using order_trans [OF _ y] powi_split [of 52 e] by simp
  qed
  then have e': "e \<le> flog2 ?y - 52" using flog2_ge [of "52 + e" ?y] by simp
  show ?thesis
  proof (cases "flog2 ?y - 52 = e")
    case True
    have "of_int (m + 1) \<le> ?y / 2 powi e" using y by (simp add: pos_le_divide_eq)
    then have "(of_int (m + 1) :: rat) \<le> of_int (round_even (?y / 2 powi e))" using round_even_ge of_int_le_iff by blast
    then have "of_int (m + 1) * 2 powi e \<le> round64 ?y" unfolding round64_def nrm [unfolded True] True Let_def by (intro mult_right_mono) auto
    then show ?thesis unfolding e by (simp add: x algebra_simps)
  next
    case False
    then have "2 powi (e + 1) \<le> (2 powi (flog2 ?y - 52) :: rat)" using e' by (intro powi_mono) simp
    moreover have "(2 ^ 52 :: rat) \<le> of_int (round_even (?y / 2 powi (flog2 ?y - 52)))"
      using scaled_bounds(1) [OF y0] round_even_ge [of "2 ^ 52" "?y / 2 powi (flog2 ?y - 52)"]
        of_int_le_iff [of "2 ^ 52" "round_even (?y / 2 powi (flog2 ?y - 52))", where 'a = rat] by simp
    ultimately have "2 ^ 52 * 2 powi (e + 1) \<le> round64 ?y" unfolding round64_def nrm Let_def by (intro mult_mono) auto
    moreover have "(of_int m + 1) * 2 powi e \<le> 2 ^ 53 * (2 powi e :: rat)" using m'(2) by (intro mult_right_mono) auto
    moreover have "2 ^ 52 * 2 powi (e + 1) = 2 ^ 53 * (2 powi e :: rat)" by (simp add: powi_Suc)
    ultimately have "(of_int m + 1) * 2 powi e \<le> round64 ?y" by linarith
    moreover have "(of_int m + 1) * 2 powi e = x + 2 powi e" unfolding x by (simp only: distrib_right mult_1)
    ultimately show ?thesis unfolding e by simp
  qed
qed

end
