(* ===== verification/Metric_Buckets.thy ===== *)
theory Metric_Buckets
  imports Float64
begin

text \<open>
  The bounds of histogram buckets in \<open>src/pkg/util/metrics/metrics.go\<close>. \<open>exponentialBucketRange\<close> multiplies until a
  maximum is reached; the loop is a \<open>partial_function\<close>, so a call that does not return is \<open>None\<close>. Durations are
  integers of nanoseconds, numbers are the floats of \<open>Float64\<close>.
\<close>

partial_function (option) bucket_loop :: "rat \<Rightarrow> rat \<Rightarrow> rat \<Rightarrow> rat list option" where
  "bucket_loop hi factor current = (if current < hi
     then Option.bind (bucket_loop hi factor (round64 (current * factor))) (\<lambda>buckets. Some (current # buckets)) else Some [])"

declare bucket_loop.simps [code]

definition exponentialBucketRange :: "rat \<Rightarrow> rat \<Rightarrow> rat \<Rightarrow> (string, rat list) outcome option" where
  "exponentialBucketRange lo hi factor =
    (if lo < 0 \<or> lo \<ge> hi then Some (Panic ''exponentialBucketRange: expected 0 < min < max'')
     else if factor \<le> 1 then Some (Panic ''exponentialBucketRange: expected factor > 1'')
     else map_option Ok (bucket_loop hi factor lo))"

definition float64_of_int :: "int \<Rightarrow> rat" where
  "float64_of_int n = (if n = 0 then 0 else of_int (sgn n) * round64 (of_int \<bar>n\<bar>))"

definition Microseconds :: "int \<Rightarrow> int" where
  "Microseconds d = sgn d * (\<bar>d\<bar> div 1000)"

definition Milliseconds :: "int \<Rightarrow> int" where
  "Milliseconds d = sgn d * (\<bar>d\<bar> div 1000000)"

definition durationUsecBuckets :: "int \<Rightarrow> int \<Rightarrow> rat \<Rightarrow> (string, rat list) outcome option" where
  "durationUsecBuckets lo hi factor = exponentialBucketRange (float64_of_int (Microseconds lo)) (float64_of_int (Microseconds hi)) factor"

definition durationMsecBuckets :: "int \<Rightarrow> int \<Rightarrow> rat \<Rightarrow> (string, rat list) outcome option" where
  "durationMsecBuckets lo hi factor = exponentialBucketRange (float64_of_int (Milliseconds lo)) (float64_of_int (Milliseconds hi)) factor"

definition customDurationMsecBuckets :: "int list \<Rightarrow> rat list" where
  "customDurationMsecBuckets durations = map (\<lambda>d. float64_of_int (Milliseconds d)) durations"

section \<open>The loop returns\<close>

lemma float_pos: "is_float x \<Longrightarrow> 0 < x"
  by (auto simp: is_float_def zero_less_mult_iff)

lemma bucket_loop_returns:
  assumes "is_float f" and "1 < f" and "0 < d" and "is_float c" and "d \<le> 2 powi (flog2 c - 52)" and "hi - c < of_nat n * d"
  shows "\<exists>bs. bucket_loop hi f c = Some bs \<and> sorted_wrt (<) bs \<and> (\<forall>b\<in>set bs. c \<le> b \<and> b < hi \<and> is_float b)
    \<and> (c < hi \<longrightarrow> bs \<noteq> [] \<and> hd bs = c \<and> hi \<le> round64 (last bs * f))"
  using assms(4-)
proof (induction n arbitrary: c)
  case 0
  then have "\<not> c < hi" by simp
  then show ?case by (subst bucket_loop.simps) simp
next
  case (Suc n)
  show ?case
  proof (cases "c < hi")
    case True
    define c' where "c' = round64 (c * f)"
    have grow: "c + 2 powi (flog2 c - 52) \<le> c'" unfolding c'_def by (rule round64_grows [OF Suc.prems(1) assms(1,2)])
    then have less: "c < c'" using powi_pos [of "flog2 c - 52"] by linarith
    have float: "is_float c'" unfolding c'_def by (rule round64_float) (use float_normal [OF Suc.prems(1)] mult_left_mono [of 1 f c] float_pos [OF Suc.prems(1)] assms(2) in linarith)
    have "2 powi flog2 c \<le> c'" using flog2_bounds(1) [OF float_pos [OF Suc.prems(1)]] less by linarith
    then have "2 powi (flog2 c - 52) \<le> (2 powi (flog2 c' - 52) :: rat)" using flog2_ge by (intro powi_mono) fastforce
    moreover have "hi - c' < of_nat n * d" using grow Suc.prems(2,3) by (simp add: algebra_simps)
    ultimately obtain bs where bs: "bucket_loop hi f c' = Some bs" "sorted_wrt (<) bs" "\<forall>b\<in>set bs. c' \<le> b \<and> b < hi \<and> is_float b"
        "c' < hi \<longrightarrow> bs \<noteq> [] \<and> hd bs = c' \<and> hi \<le> round64 (last bs * f)"
      using Suc.IH [OF float] Suc.prems(2) by (meson order_trans)
    have "bucket_loop hi f c = Some (c # bs)" using True bs(1) by (subst bucket_loop.simps) (simp add: c'_def)
    moreover have "\<not> c' < hi \<longrightarrow> bs = []" using bs(3) by (cases bs) auto
    ultimately show ?thesis using bs(2-) less True Suc.prems(1) by (auto simp: c'_def)
  next
    case False
    then show ?thesis by (subst bucket_loop.simps) simp
  qed
qed

text \<open>A range from zero passes the guard, and the loop stays at zero.\<close>

lemma round64_0 [simp]: "round64 0 = 0"
  by (simp add: round64_def round_even_def Let_def)

lemma bucket_loop_zero: "0 < hi \<Longrightarrow> bucket_loop hi f 0 = None"
proof -
  have "c = 0 \<longrightarrow> 0 < h \<longrightarrow> False" if "bucket_loop h g c = Some bs" for h g c bs
    by (rule bucket_loop.raw_induct [where P = "\<lambda>h g c r. c = 0 \<longrightarrow> 0 < h \<longrightarrow> False", OF _ that])
      (auto split: if_splits simp: Option.bind_eq_Some_conv)
  then show "0 < hi \<Longrightarrow> bucket_loop hi f 0 = None" by (cases "bucket_loop hi f 0") auto
qed

lemma bucket_range_increasing:
  assumes "is_float lo" and "is_float factor" and "lo < hi" and "1 < factor"
  shows "\<exists>bs. exponentialBucketRange lo hi factor = Some (Ok bs) \<and> bs \<noteq> [] \<and> hd bs = lo \<and> sorted_wrt (<) bs
      \<and> (\<forall>b\<in>set bs. b < hi \<and> is_float b) \<and> hi \<le> round64 (last bs * factor)"
proof -
  have pos: "0 < lo" by (rule float_pos [OF assms(1)])
  obtain n where "(hi - lo) / 2 powi (flog2 lo - 52) < of_nat n" using reals_Archimedean2 by blast
  then have "hi - lo < of_nat n * 2 powi (flog2 lo - 52)" by (simp add: pos_divide_less_eq)
  then obtain bs where "bucket_loop hi factor lo = Some bs" "sorted_wrt (<) bs" "\<forall>b\<in>set bs. lo \<le> b \<and> b < hi \<and> is_float b"
      "bs \<noteq> [] \<and> hd bs = lo \<and> hi \<le> round64 (last bs * factor)"
    using bucket_loop_returns [OF assms(2,4) powi_pos assms(1) order_refl] assms(3) by blast
  then show ?thesis using assms pos by (auto simp: exponentialBucketRange_def)
qed

text \<open>At the smallest positive float the product with a factor below one and a half is rounded back, and the loop stays there too.\<close>

lemma flog2_powi: "flog2 (2 powi k) = k"
proof -
  have "(2 :: rat) powi k = of_int (2 ^ 52) * 2 powi (k - 52)" using powi_split [of 52 "k - 52"] by simp
  then show ?thesis using float_flog2 [of "2 ^ 52" "k - 52"] by simp
qed

lemma round64_smallest:
  assumes "1 < f" and "f < 3 / 2"
  shows "round64 (2 powi (- 1074) * f) = 2 powi (- 1074)"
proof -
  let ?x = "2 powi (- 1074) * f"
  have "2 powi (- 1074) * f < 2 powi (- 1074) * 2" using assms(2) powi_pos [of "- 1074"] by (intro mult_strict_left_mono) simp_all
  also have "\<dots> = 2 powi (- 1073)" using powi_split [of "- 1074" 1] by simp
  finally have hi: "?x < 2 powi (- 1073)" .
  have pos: "0 < ?x" using assms(1) powi_pos [of "- 1074"] by simp
  have "2 powi flog2 ?x < (2 powi (- 1073) :: rat)" using flog2_bounds(1) [OF pos] hi by (rule order_le_less_trans)
  then have "flog2 ?x < - 1073" by (simp only: powi_less_iff)
  then have e: "max (flog2 ?x - 52) (- 1074) = - 1074" by simp
  have "\<lfloor>f\<rfloor> = 1" using assms by (simp add: floor_eq_iff)
  then have "round_even f = 1" using assms(2) by (simp add: round_even_def Let_def)
  moreover have "?x / 2 powi (- 1074) = f" using powi_pos [of "- 1074"] by simp
  ultimately show ?thesis unfolding round64_def e Let_def by (simp only: of_int_1 mult_1)
qed

lemma bucket_loop_stuck:
  assumes "round64 (c * f) = c" and "c < hi"
  shows "bucket_loop hi f c = None"
proof -
  have "b = c \<longrightarrow> g = f \<longrightarrow> h = hi \<longrightarrow> False" if "bucket_loop h g b = Some bs" for h g b bs
    by (rule bucket_loop.raw_induct [where P = "\<lambda>h g b r. b = c \<longrightarrow> g = f \<longrightarrow> h = hi \<longrightarrow> False", OF _ that])
      (use assms in \<open>auto split: if_splits simp: Option.bind_eq_Some_conv\<close>)
  then show ?thesis by (cases "bucket_loop hi f c") auto
qed

text \<open>C30: The range of buckets, in float arithmetic with its rounding. With a factor above one, a maximum below \<open>2 ^ 1024\<close> and a minimum below it that is a \<^emph>\<open>normal\<close> float
  (at least \<open>2 powi (- 1022)\<close>), the loop ends, and gives strictly increasing floats that begin with the minimum and stay below the maximum, which the next
  one would reach. The guard also lets pass zero, with which the call never returns, and subnormal floats: from the smallest one it never returns when the factor is below one and a half.\<close>

theorem bucket_ranges:
  assumes "is_float lo" and "is_float factor" and "lo < hi" and "1 < factor"
    and "1 / 2 ^ 1022 \<le> lo" and "hi < 2 ^ 1024" and "factor < 2 ^ 1024"
  shows "(\<exists>bs. exponentialBucketRange lo hi factor = Some (Ok bs) \<and> bs \<noteq> [] \<and> hd bs = lo \<and> sorted_wrt (<) bs
      \<and> (\<forall>b\<in>set bs. b < hi \<and> is_float b) \<and> hi \<le> round64 (last bs * factor))
    \<and> exponentialBucketRange 0 hi factor = None
    \<and> (factor < 3 / 2 \<longrightarrow> exponentialBucketRange (2 powi (- 1074)) hi factor = None)"
proof -
  have "2 powi (- 1074) \<le> (2 powi (- 1022) :: rat)" by (rule powi_mono) simp
  then have s: "2 powi (- 1074) < hi" using float_normal [OF assms(1)] assms(3) by linarith
  then have "factor < 3 / 2 \<longrightarrow> exponentialBucketRange (2 powi (- 1074)) hi factor = None"
    using bucket_loop_stuck [OF round64_smallest [OF assms(4)] s] powi_pos [of "- 1074"] assms(4) by (auto simp: exponentialBucketRange_def)
  moreover have "exponentialBucketRange 0 hi factor = None"
    using assms(3,4) float_pos [OF assms(1)] bucket_loop_zero [of hi factor] by (simp add: exponentialBucketRange_def)
  ultimately show ?thesis using bucket_range_increasing [OF assms(1-4)] by blast
qed

lemma normal_large: "1 / 1000 \<le> x \<Longrightarrow> 2 powi (- 1022) \<le> (x :: rat)"
proof -
  assume x: "1 / 1000 \<le> x"
  have "2 powi (- 1022) \<le> (2 powi (- 10) :: rat)" by (rule powi_mono) simp
  also have "\<dots> = 1 / 1024" by (simp add: power_int_minus)
  finally show ?thesis using x by linarith
qed

lemma float_of_int: "0 < n \<Longrightarrow> is_float (float64_of_int n)"
  using round64_float [of "of_int n"] normal_large [of "of_int n"] by (simp add: float64_of_int_def)

lemma float_exact: "is_float x \<Longrightarrow> round64 x = x"
proof -
  assume "is_float x"
  then obtain m e where x: "x = of_int m * 2 powi e" and m: "2 ^ 52 \<le> m" "m < 2 ^ 53" by (auto simp: is_float_def)
  have "max (flog2 x - 52) (- 1074) = e" using float_flog2 [OF m] x normal_exponent [OF float_normal [OF \<open>is_float x\<close>]] by simp
  then show ?thesis by (simp add: round64_def x round_even_def Let_def)
qed

text \<open>Integers of up to 53 bits are floats.\<close>

lemma int_is_float:
  assumes "0 < n" and "n < 2 ^ 53"
  shows "is_float (of_int n)"
proof -
  define b where "b = bit_length (nat n)"
  have b: "2 ^ (b - 1) \<le> nat n" "nat n < 2 ^ b" "0 < b" using bit_length_bounds [of "nat n"] assms(1) by (auto simp: b_def)
  have "b \<le> 53" using assms by (auto simp: b_def nat_less_iff intro!: bit_length_le)
  have n: "2 ^ (b - 1) \<le> n" "n < 2 ^ b" using b(1,2) assms(1) by (simp_all add: le_nat_iff nat_less_iff)
  have "(2 :: int) ^ (b - 1) * 2 ^ (53 - b) = 2 ^ 52" "(2 :: int) ^ b * 2 ^ (53 - b) = 2 ^ 53"
    using b(3) \<open>b \<le> 53\<close> by (simp_all flip: power_add)
  moreover have "2 ^ (b - 1) * 2 ^ (53 - b) \<le> n * 2 ^ (53 - b)" "n * 2 ^ (53 - b) < 2 ^ b * 2 ^ (53 - b)" using n by simp_all
  ultimately have "2 ^ 52 \<le> n * 2 ^ (53 - b)" "n * 2 ^ (53 - b) < 2 ^ 53" by simp_all
  moreover have "(of_int n :: rat) = of_int (n * 2 ^ (53 - b)) * 2 powi (- int (53 - b))"
    by (simp add: power_int_minus power_int_of_nat)
  moreover have "- 1074 \<le> - int (53 - b)" by simp
  ultimately show ?thesis unfolding is_float_def by blast
qed

lemma float64_of_int_exact: "0 < n \<Longrightarrow> n < 2 ^ 53 \<Longrightarrow> float64_of_int n = of_int n"
  using float_exact [OF int_is_float] by (simp add: float64_of_int_def)

lemma literal_floats: "is_float 1" "is_float (round64 (6 / 5))" "1 < round64 (6 / 5)" "is_float (round64 (5 / 4))" "1 < round64 (5 / 4)"
    "is_float (round64 (3 / 2))" "1 < round64 (3 / 2)"
proof -
  show "is_float 1" using int_is_float [of 1] by simp
  show "is_float (round64 (6 / 5))" "is_float (round64 (5 / 4))" "is_float (round64 (3 / 2))" by (rule round64_float; rule normal_large; simp)+
  show "1 < round64 (6 / 5)" by code_simp
  show "1 < round64 (5 / 4)" by code_simp
  show "1 < round64 (3 / 2)" by code_simp
qed

theorem bucket_ranges_witness:
  "(\<exists>bs. exponentialBucketRange 1 128000 (round64 (6 / 5)) = Some (Ok bs) \<and> hd bs = 1 \<and> sorted_wrt (<) bs)
    \<and> exponentialBucketRange 0 128000 (round64 (6 / 5)) = None"
proof -
  have "round64 (6 / 5) < 2" by code_simp
  then show ?thesis using bucket_ranges [of 1 "round64 (6 / 5)" 128000] literal_floats by auto
qed

end
