(* ===== verification/Metrics.thy ===== *)
theory Metrics
  imports Metric_Buckets Go_Strings
begin

text \<open>
  The collectors of \<open>src/pkg/util/metrics/metrics.go\<close>. Each is made and registered while the package is initialised, before \<open>main\<close>, and
  Prometheus panics on an invalid or repeated one, so a mistake here ends every program that links the package. A collector is a
  \<open>metric\<close>; its help text is left out. \<open>Computed\<close> are buckets that the package's own functions compute; \<open>ExponentialBuckets\<close>
  and \<open>LinearBuckets\<close> are calls of Prometheus with their arguments. What Prometheus accepts is a parameter.
\<close>

named_theorems metric_data \<open>declarations of labels and collectors\<close>

datatype buckets =
    Computed "(string, rat list) outcome option"
  | Explicit "rat list"
  | ExponentialBuckets rat rat int
  | LinearBuckets rat rat int

datatype metric_kind = Counter | Gauge | Histogram buckets

record metric =
  mt_kind :: metric_kind
  mt_subsystem :: string
  mt_name :: string
  mt_labels :: "string list"

definition newCounter :: "string \<Rightarrow> string \<Rightarrow> string list \<Rightarrow> metric" where
  "newCounter sub name labels = \<lparr>mt_kind = Counter, mt_subsystem = sub, mt_name = name, mt_labels = labels\<rparr>"

definition newGauge :: "string \<Rightarrow> string \<Rightarrow> string list \<Rightarrow> metric" where
  "newGauge sub name labels = \<lparr>mt_kind = Gauge, mt_subsystem = sub, mt_name = name, mt_labels = labels\<rparr>"

definition newHistogram :: "string \<Rightarrow> string \<Rightarrow> string list \<Rightarrow> buckets \<Rightarrow> metric" where
  "newHistogram sub name labels b = \<lparr>mt_kind = Histogram b, mt_subsystem = sub, mt_name = name, mt_labels = labels\<rparr>"

section \<open>Units of time\<close>

definition microsecond :: int where "microsecond = 1000"
definition millisecond :: int where "millisecond = 1000 * microsecond"
definition second :: int where "second = 1000 * millisecond"
definition minute :: int where "minute = 60 * second"
definition hour :: int where "hour = 60 * minute"
definition day :: int where "day = 24 * hour"

lemmas time_units = microsecond_def millisecond_def second_def minute_def hour_def day_def

definition coarseMicrosecondToHour :: "(string, rat list) outcome option" where
  "coarseMicrosecondToHour = durationUsecBuckets (1 * microsecond) (1 * hour) 10"

section \<open>Labels and collectors\<close>

definition StatusLabel :: string where [metric_data]: "StatusLabel = ''status''"

definition StatusHumanReadableLabel :: string where [metric_data]: "StatusHumanReadableLabel = ''status''"

definition InvocationStatusLabel :: string where [metric_data]: "InvocationStatusLabel = ''invocation_status''"

definition CacheTypeLabel :: string where [metric_data]: "CacheTypeLabel = ''cache_type''"

definition CacheEventTypeLabel :: string where [metric_data]: "CacheEventTypeLabel = ''cache_event_type''"

definition CacheNameLabel :: string where [metric_data]: "CacheNameLabel = ''cache_name''"

definition ExitCodeLabel :: string where [metric_data]: "ExitCodeLabel = ''exit_code''"

definition Stage :: string where [metric_data]: "Stage = ''stage''"

definition SQLQueryTemplateLabel :: string where [metric_data]: "SQLQueryTemplateLabel = ''sql_query_template''"

definition BlobstoreTypeLabel :: string where [metric_data]: "BlobstoreTypeLabel = ''blobstore_type''"

definition SQLConnectionStatusLabel :: string where [metric_data]: "SQLConnectionStatusLabel = ''connection_status''"

definition SQLDBRoleLabel :: string where [metric_data]: "SQLDBRoleLabel = ''sql_db_role''"

definition HTTPRouteLabel :: string where [metric_data]: "HTTPRouteLabel = ''route''"

definition HTTPMethodLabel :: string where [metric_data]: "HTTPMethodLabel = ''method''"

definition HTTPResponseCodeLabel :: string where [metric_data]: "HTTPResponseCodeLabel = ''code''"

definition CacheBackendLabel :: string where [metric_data]: "CacheBackendLabel = ''backend''"

definition CacheTierLabel :: string where [metric_data]: "CacheTierLabel = ''tier''"

definition BazelCommand :: string where [metric_data]: "BazelCommand = ''bazel_command''"

definition BazelExitCode :: string where [metric_data]: "BazelExitCode = ''bazel_exit_code''"

definition BazelVersion :: string where [metric_data]: "BazelVersion = ''bazel_version''"

definition ExecutedActionStageLabel :: string where [metric_data]: "ExecutedActionStageLabel = ''stage''"

definition PSIResourceLabel :: string where [metric_data]: "PSIResourceLabel = ''resource''"

definition PSIStallTypeLabel :: string where [metric_data]: "PSIStallTypeLabel = ''stall_type''"

definition WebhookEventName :: string where [metric_data]: "WebhookEventName = ''event''"

definition RecycleRunnerRequestStatusLabel :: string where [metric_data]: "RecycleRunnerRequestStatusLabel = ''status''"

definition RunnerPoolFailedRecycleReason :: string where [metric_data]: "RunnerPoolFailedRecycleReason = ''reason''"

definition IsolationTypeLabel :: string where [metric_data]: "IsolationTypeLabel = ''isolation''"

definition GroupID :: string where [metric_data]: "GroupID = ''group_id''"

definition OS :: string where [metric_data]: "OS = ''os''"

definition Arch :: string where [metric_data]: "Arch = ''arch''"

definition EventName :: string where [metric_data]: "EventName = ''name''"

definition PartitionID :: string where [metric_data]: "PartitionID = ''partition_id''"

definition FileCacheRequestStatusLabel :: string where [metric_data]: "FileCacheRequestStatusLabel = ''status''"

definition TaskSizeReadStatusLabel :: string where [metric_data]: "TaskSizeReadStatusLabel = ''status''"

definition TaskSizeWriteStatusLabel :: string where [metric_data]: "TaskSizeWriteStatusLabel = ''status''"

definition GRPCFullMethodLabel :: string where [metric_data]: "GRPCFullMethodLabel = ''grpc_full_method''"

definition QuotaKey :: string where [metric_data]: "QuotaKey = ''quota_key''"

definition QuotaAllowed :: string where [metric_data]: "QuotaAllowed = ''quota_allowed''"

definition CacheRequestType :: string where [metric_data]: "CacheRequestType = ''type''"

definition ServerName :: string where [metric_data]: "ServerName = ''server_name''"

definition CompressionType :: string where [metric_data]: "CompressionType = ''compression''"

definition ClickhouseTableName :: string where [metric_data]: "ClickhouseTableName = ''clickhouse_table_name''"

definition ClickhouseStatusLabel :: string where [metric_data]: "ClickhouseStatusLabel = ''status''"

definition RaftNodeHostIDLabel :: string where [metric_data]: "RaftNodeHostIDLabel = ''node_host_id''"

definition RaftRangeIDLabel :: string where [metric_data]: "RaftRangeIDLabel = ''range_id''"

definition RaftMoveLabel :: string where [metric_data]: "RaftMoveLabel = ''move_type''"

definition RaftLeaseActionLabel :: string where [metric_data]: "RaftLeaseActionLabel = ''lease_action''"

definition RaftRangeCacheEventTypeLabel :: string where [metric_data]: "RaftRangeCacheEventTypeLabel = ''rangecache_event_type''"

definition RaftListenerEventType :: string where [metric_data]: "RaftListenerEventType = ''listener_event''"

definition RaftListenerID :: string where [metric_data]: "RaftListenerID = ''listener_id''"

definition VersionLabel :: string where [metric_data]: "VersionLabel = ''version''"

definition CommitLabel :: string where [metric_data]: "CommitLabel = ''commit''"

definition APIKeyLookupStatus :: string where [metric_data]: "APIKeyLookupStatus = ''status''"

definition CompactionType :: string where [metric_data]: "CompactionType = ''compaction_type''"

definition PebbleLevel :: string where [metric_data]: "PebbleLevel = ''level''"

definition PebbleOperation :: string where [metric_data]: "PebbleOperation = ''pebble_op''"

definition PebbleID :: string where [metric_data]: "PebbleID = ''pebble_id''"

definition HealthCheckName :: string where [metric_data]: "HealthCheckName = ''health_check_name''"

definition ContainerImageTag :: string where [metric_data]: "ContainerImageTag = ''container_image_tag''"

definition GetSociArtifactsOutcomeTag :: string where [metric_data]: "GetSociArtifactsOutcomeTag = ''get_soci_artifacts_outcome_tag''"

definition TreeCacheLookupStatus :: string where [metric_data]: "TreeCacheLookupStatus = ''status''"

definition TreeCacheSetStatus :: string where [metric_data]: "TreeCacheSetStatus = ''status''"

definition TreeCacheSplitLookupStatus :: string where [metric_data]: "TreeCacheSplitLookupStatus = ''status''"

definition LookasideCacheLookupStatus :: string where [metric_data]: "LookasideCacheLookupStatus = ''status''"

definition LookasideCacheEvictionReason :: string where [metric_data]: "LookasideCacheEvictionReason = ''eviction_reason''"

definition DistributedCacheOperation :: string where [metric_data]: "DistributedCacheOperation = ''op''"

definition CASOperation :: string where [metric_data]: "CASOperation = ''op''"

definition CacheHitMissStatus :: string where [metric_data]: "CacheHitMissStatus = ''status''"

definition TreeCacheLookupLevel :: string where [metric_data]: "TreeCacheLookupLevel = ''level''"

definition TreeCacheOperation :: string where [metric_data]: "TreeCacheOperation = ''op''"

definition SnapshotSharingStatus :: string where [metric_data]: "SnapshotSharingStatus = ''snapshot_sharing_status''"

definition ChunkSource :: string where [metric_data]: "ChunkSource = ''chunk_source''"

definition RecycledRunnerStatus :: string where [metric_data]: "RecycledRunnerStatus = ''recycled_runner_status''"

definition FileName_label :: string where [metric_data]: "FileName_label = ''file_name''"

definition AtimeUpdateOutcome :: string where [metric_data]: "AtimeUpdateOutcome = ''status''"

definition InvocationCount :: metric where [metric_data]:
  "InvocationCount = newCounter ''invocation'' ''count'' [InvocationStatusLabel, BazelExitCode, BazelCommand]"

definition InvocationsByBazelVersionCount :: metric where [metric_data]:
  "InvocationsByBazelVersionCount = newCounter ''invocation'' ''bazel_version'' [BazelVersion]"

definition InvocationDurationUs :: metric where [metric_data]:
  "InvocationDurationUs = newHistogram ''invocation'' ''duration_usec'' [InvocationStatusLabel, BazelCommand] (Computed (durationUsecBuckets (1 * millisecond) (1 * day) 10))"

definition InvocationDurationUsExported :: metric where [metric_data]:
  "InvocationDurationUsExported = newHistogram ''invocation'' ''duration_usec_exported'' [InvocationStatusLabel, GroupID] (Computed (durationUsecBuckets (1 * millisecond) (1 * day) 10))"

definition BuildEventCount :: metric where [metric_data]:
  "BuildEventCount = newCounter ''invocation'' ''build_event_count'' [StatusLabel]"

definition StatsRecorderWorkers :: metric where [metric_data]:
  "StatsRecorderWorkers = newGauge ''invocation'' ''stats_recorder_workers'' []"

definition StatsRecorderDuration :: metric where [metric_data]:
  "StatsRecorderDuration = newHistogram ''invocation'' ''stats_recorder_duration_usec'' [] (Computed coarseMicrosecondToHour)"

definition WebhookInvocationLookupWorkers :: metric where [metric_data]:
  "WebhookInvocationLookupWorkers = newGauge ''invocation'' ''webhook_invocation_lookup_workers'' []"

definition WebhookInvocationLookupDuration :: metric where [metric_data]:
  "WebhookInvocationLookupDuration = newHistogram ''invocation'' ''webhook_invocation_lookup_duration_usec'' [] (Computed coarseMicrosecondToHour)"

definition WebhookNotifyWorkers :: metric where [metric_data]:
  "WebhookNotifyWorkers = newGauge ''invocation'' ''webhook_notify_workers'' []"

definition WebhookNotifyDuration :: metric where [metric_data]:
  "WebhookNotifyDuration = newHistogram ''invocation'' ''webhook_notify_duration_usec'' [] (Computed coarseMicrosecondToHour)"

definition CacheEvents :: metric where [metric_data]:
  "CacheEvents = newCounter ''remote_cache'' ''events'' [CacheTypeLabel, CacheEventTypeLabel]"

definition CacheNumHitsExported :: metric where [metric_data]:
  "CacheNumHitsExported = newCounter ''remote_cache'' ''num_hits_exported'' [CacheTypeLabel, GroupID]"

definition CacheDownloadSizeBytes :: metric where [metric_data]:
  "CacheDownloadSizeBytes = newHistogram ''remote_cache'' ''download_size_bytes'' [CacheTypeLabel, ServerName] (ExponentialBuckets 1 10 9)"

definition CacheDownloadSizeBytesExported :: metric where [metric_data]:
  "CacheDownloadSizeBytesExported = newCounter ''remote_cache'' ''download_size_bytes_exported'' [GroupID]"

definition CacheDownloadDurationUsec :: metric where [metric_data]:
  "CacheDownloadDurationUsec = newHistogram ''remote_cache'' ''download_duration_usec'' [CacheTypeLabel] (Computed (durationUsecBuckets (1 * microsecond) (1 * hour) 5))"

definition CacheRequestedInlineSizeBytes :: metric where [metric_data]:
  "CacheRequestedInlineSizeBytes = newHistogram ''remote_cache'' ''requested_inline_size_bytes'' [] (Computed (exponentialBucketRange 1 (64 * 1024 * 1024) 8))"

definition CacheUploadSizeBytes :: metric where [metric_data]:
  "CacheUploadSizeBytes = newHistogram ''remote_cache'' ''upload_size_bytes'' [CacheTypeLabel, ServerName] (ExponentialBuckets 1 10 9)"

definition CacheUploadSizeBytesExported :: metric where [metric_data]:
  "CacheUploadSizeBytesExported = newCounter ''remote_cache'' ''upload_size_bytes_exported'' [GroupID]"

definition CacheUploadDurationUsec :: metric where [metric_data]:
  "CacheUploadDurationUsec = newHistogram ''remote_cache'' ''upload_duration_usec'' [CacheTypeLabel] (Computed (durationUsecBuckets (1 * microsecond) (1 * hour) 5))"

definition DiskCacheLastEvictionAgeUsec :: metric where [metric_data]:
  "DiskCacheLastEvictionAgeUsec = newGauge ''remote_cache'' ''disk_cache_last_eviction_age_usec'' [PartitionID, CacheNameLabel]"

definition DiskCacheEvictionAgeMsec :: metric where [metric_data]:
  "DiskCacheEvictionAgeMsec = newHistogram ''remote_cache'' ''disk_cache_eviction_age_msec'' [PartitionID, CacheNameLabel] (Explicit (customDurationMsecBuckets [(6 * hour), (12 * hour), (1 * day), (2 * day), (3 * day), (4 * day), (5 * day), (6 * day), (7 * day), (14 * day), (21 * day)]))"

definition DiskCacheNumEvictions :: metric where [metric_data]:
  "DiskCacheNumEvictions = newCounter ''remote_cache'' ''disk_cache_num_evictions'' [PartitionID, CacheNameLabel]"

definition DiskCacheBytesEvicted :: metric where [metric_data]:
  "DiskCacheBytesEvicted = newCounter ''remote_cache'' ''disk_cache_partition_size_bytes_evicted'' [PartitionID, CacheNameLabel]"

definition DiskCachePartitionSizeBytes :: metric where [metric_data]:
  "DiskCachePartitionSizeBytes = newGauge ''remote_cache'' ''disk_cache_partition_size_bytes'' [PartitionID, CacheNameLabel]"

definition DiskCachePartitionCapacityBytes :: metric where [metric_data]:
  "DiskCachePartitionCapacityBytes = newGauge ''remote_cache'' ''disk_cache_partition_capacity_bytes'' [PartitionID, CacheNameLabel]"

definition DiskCachePartitionNumItems :: metric where [metric_data]:
  "DiskCachePartitionNumItems = newGauge ''remote_cache'' ''disk_cache_partition_num_items'' [PartitionID, CacheNameLabel, CacheTypeLabel]"

definition DiskCacheDuplicateWrites :: metric where [metric_data]:
  "DiskCacheDuplicateWrites = newCounter ''remote_cache'' ''disk_cache_duplicate_writes'' [CacheNameLabel]"

definition DiskCacheAddedFileSizeBytes :: metric where [metric_data]:
  "DiskCacheAddedFileSizeBytes = newHistogram ''remote_cache'' ''disk_cache_added_file_size_bytes'' [CacheNameLabel] (ExponentialBuckets 1 2 40)"

definition DiskCacheFilesystemTotalBytes :: metric where [metric_data]:
  "DiskCacheFilesystemTotalBytes = newGauge ''remote_cache'' ''disk_cache_filesystem_total_bytes'' [CacheNameLabel]"

definition DiskCacheFilesystemAvailBytes :: metric where [metric_data]:
  "DiskCacheFilesystemAvailBytes = newGauge ''remote_cache'' ''disk_cache_filesystem_avail_bytes'' [CacheNameLabel]"

definition DiskCacheDuplicateWritesBytes :: metric where [metric_data]:
  "DiskCacheDuplicateWritesBytes = newCounter ''remote_cache'' ''disk_cache_duplicate_writes_bytes'' [CacheNameLabel]"

definition DistributedCachePeerLookups :: metric where [metric_data]:
  "DistributedCachePeerLookups = newHistogram ''remote_cache'' ''distributed_cache_peer_lookups'' [DistributedCacheOperation, CacheHitMissStatus] (LinearBuckets 0 1 10)"

definition MigrationNotFoundErrorCount :: metric where [metric_data]:
  "MigrationNotFoundErrorCount = newCounter ''remote_cache'' ''migration_not_found_error_count'' [CacheRequestType]"

definition MigrationDoubleReadHitCount :: metric where [metric_data]:
  "MigrationDoubleReadHitCount = newCounter ''remote_cache'' ''migration_double_read_hit_count'' [CacheRequestType]"

definition MigrationCopyChanSize :: metric where [metric_data]:
  "MigrationCopyChanSize = newGauge ''remote_cache'' ''migration_copy_chan_size'' []"

definition MigrationBytesCopied :: metric where [metric_data]:
  "MigrationBytesCopied = newCounter ''remote_cache'' ''migration_bytes_copied'' [CacheTypeLabel]"

definition MigrationBlobsCopied :: metric where [metric_data]:
  "MigrationBlobsCopied = newCounter ''remote_cache'' ''migration_blobs_copied'' [CacheTypeLabel]"

definition TreeCacheLookupCount :: metric where [metric_data]:
  "TreeCacheLookupCount = newCounter ''remote_cache'' ''tree_cache_lookup_count'' [TreeCacheLookupStatus, TreeCacheLookupLevel]"

definition TreeCacheSplitLookupCount :: metric where [metric_data]:
  "TreeCacheSplitLookupCount = newCounter ''remote_cache'' ''tree_cache_split_lookup_count'' [TreeCacheSplitLookupStatus]"

definition TreeCacheSplitWriteCount :: metric where [metric_data]:
  "TreeCacheSplitWriteCount = newCounter ''remote_cache'' ''tree_cache_split_write_count'' []"

definition TreeCacheSetCount :: metric where [metric_data]:
  "TreeCacheSetCount = newCounter ''remote_cache'' ''tree_cache_set_count'' [TreeCacheSetStatus]"

definition TreeCacheBytesTransferred :: metric where [metric_data]:
  "TreeCacheBytesTransferred = newCounter ''remote_cache'' ''tree_cache_bytes_transferred'' [TreeCacheOperation]"

definition LookasideCacheLookupCount :: metric where [metric_data]:
  "LookasideCacheLookupCount = newCounter ''remote_cache'' ''lookaside_cache_lookup_count'' [LookasideCacheLookupStatus]"

definition LookasideCacheEvictionAgeMsec :: metric where [metric_data]:
  "LookasideCacheEvictionAgeMsec = newHistogram ''remote_cache'' ''lookaside_cache_eviction_age_msec'' [LookasideCacheEvictionReason] (Computed (durationMsecBuckets millisecond (15 * minute) 10))"

definition RemoteExecutionCount :: metric where [metric_data]:
  "RemoteExecutionCount = newCounter ''remote_execution'' ''count'' [ExitCodeLabel, StatusHumanReadableLabel, IsolationTypeLabel]"

definition RemoteExecutionTasksStartedCount :: metric where [metric_data]:
  "RemoteExecutionTasksStartedCount = newCounter ''remote_execution'' ''tasks_started_count'' []"

definition RemoteExecutionExecutedActionMetadataDurationsUsec :: metric where [metric_data]:
  "RemoteExecutionExecutedActionMetadataDurationsUsec = newHistogram ''remote_execution'' ''executed_action_metadata_durations_usec'' [ExecutedActionStageLabel, GroupID] (Computed (durationUsecBuckets (1 * microsecond) (1 * day) 2))"

definition RemoteExecutionDurationUsecExported :: metric where [metric_data]:
  "RemoteExecutionDurationUsecExported = newHistogram ''remote_execution'' ''duration_usec_exported'' [OS, GroupID] (Computed (durationUsecBuckets (1 * microsecond) (1 * day) 2))"

definition RemoteExecutionTaskPressureStallDurationFraction :: metric where [metric_data]:
  "RemoteExecutionTaskPressureStallDurationFraction = newHistogram ''remote_execution'' ''task_pressure_stall_duration_fraction'' [PSIResourceLabel, PSIStallTypeLabel] (Explicit [0, (round64 (1 / 100)), (round64 (1 / 50)), (round64 (3 / 100)), (round64 (1 / 25)), (round64 (1 / 20)), (round64 (3 / 50)), (round64 (7 / 100)), (round64 (2 / 25)), (round64 (9 / 100)), (round64 (1 / 10)), (round64 (1 / 5)), (round64 (3 / 10)), (round64 (2 / 5)), (round64 (1 / 2)), (round64 (3 / 4)), 1])"

definition RemoteExecutionTaskSizeReadRequests :: metric where [metric_data]:
  "RemoteExecutionTaskSizeReadRequests = newCounter ''remote_execution'' ''task_size_read_requests'' [TaskSizeReadStatusLabel, IsolationTypeLabel, OS, Arch, GroupID]"

definition RemoteExecutionTaskSizeWriteRequests :: metric where [metric_data]:
  "RemoteExecutionTaskSizeWriteRequests = newCounter ''remote_execution'' ''task_size_write_requests'' [TaskSizeWriteStatusLabel, IsolationTypeLabel, OS, Arch, GroupID]"

definition RemoteExecutionTaskSizePredictionDurationUsec :: metric where [metric_data]:
  "RemoteExecutionTaskSizePredictionDurationUsec = newHistogram ''remote_execution'' ''task_size_prediction_duration_usec'' [StatusHumanReadableLabel] (Computed (durationUsecBuckets (1 * microsecond) (1 * second) 2))"

definition RemoteExecutionEnqueuedTaskMilliCPU :: metric where [metric_data]:
  "RemoteExecutionEnqueuedTaskMilliCPU = newHistogram ''remote_execution'' ''enqueued_task_milli_cpu'' [] (Computed (exponentialBucketRange 1 128000 (round64 (6 / 5))))"

definition RemoteExecutionEnqueuedTaskMemoryBytes :: metric where [metric_data]:
  "RemoteExecutionEnqueuedTaskMemoryBytes = newHistogram ''remote_execution'' ''enqueued_task_memory_bytes'' [] (Computed (exponentialBucketRange 1 (1024 * 1024 * 1024 * 1024) (round64 (3 / 2))))"

definition RemoteExecutionWaitingExecutionResult :: metric where [metric_data]:
  "RemoteExecutionWaitingExecutionResult = newGauge ''remote_execution'' ''waiting_execution_result'' [GroupID]"

definition RemoteExecutionRequests :: metric where [metric_data]:
  "RemoteExecutionRequests = newCounter ''remote_execution'' ''requests'' [GroupID, OS, Arch]"

definition RemoteExecutionExecutorRegistrationCount :: metric where [metric_data]:
  "RemoteExecutionExecutorRegistrationCount = newCounter ''remote_execution'' ''executor_registration_count'' [VersionLabel]"

definition RemoteExecutionMergedActions :: metric where [metric_data]:
  "RemoteExecutionMergedActions = newCounter ''remote_execution'' ''merged_actions'' [GroupID]"

definition RemoteExecutionHedgedActions :: metric where [metric_data]:
  "RemoteExecutionHedgedActions = newCounter ''remote_execution'' ''hedged_actions'' [GroupID]"

definition RemoteExecutionMergedActionsPerExecution :: metric where [metric_data]:
  "RemoteExecutionMergedActionsPerExecution = newHistogram ''remote_execution'' ''merged_actions_per_execution'' [GroupID] (Explicit [1, 2, 3, 4, 5, 6, 7, 8, 9, 10, 15, 20, 25, 30, 35, 40, 45, 50, 60, 70, 80, 90, 100])"

definition RemoteExecutionMergedActionSubmitTimeOffsetUsec :: metric where [metric_data]:
  "RemoteExecutionMergedActionSubmitTimeOffsetUsec = newHistogram ''remote_execution'' ''merged_action_submit_time_offset_usec'' [GroupID] (Computed (durationUsecBuckets (1 * millisecond) (1 * day) 10))"

definition RemoteExecutionQueueLength :: metric where [metric_data]:
  "RemoteExecutionQueueLength = newGauge ''remote_execution'' ''queue_length'' [GroupID]"

definition RemoteExecutionTasksExecuting :: metric where [metric_data]:
  "RemoteExecutionTasksExecuting = newGauge ''remote_execution'' ''tasks_executing'' [ExecutedActionStageLabel]"

definition RemoteExecutionAssignedRAMBytes :: metric where [metric_data]:
  "RemoteExecutionAssignedRAMBytes = newGauge ''remote_execution'' ''assigned_ram_bytes'' []"

definition RemoteExecutionAssignedOrQueuedEstimatedRAMBytes :: metric where [metric_data]:
  "RemoteExecutionAssignedOrQueuedEstimatedRAMBytes = newGauge ''remote_execution'' ''assigned_and_queued_estimated_ram_bytes'' []"

definition RemoteExecutionAssignableRAMBytes :: metric where [metric_data]:
  "RemoteExecutionAssignableRAMBytes = newGauge ''remote_execution'' ''assignable_ram_bytes'' []"

definition RemoteExecutionAssignedMilliCPU :: metric where [metric_data]:
  "RemoteExecutionAssignedMilliCPU = newGauge ''remote_execution'' ''assigned_milli_cpu'' []"

definition RemoteExecutionAssignedOrQueuedEstimatedMilliCPU :: metric where [metric_data]:
  "RemoteExecutionAssignedOrQueuedEstimatedMilliCPU = newGauge ''remote_execution'' ''assigned_and_queued_estimated_milli_cpu'' []"

definition RemoteExecutionAssignableMilliCPU :: metric where [metric_data]:
  "RemoteExecutionAssignableMilliCPU = newGauge ''remote_execution'' ''assignable_milli_cpu'' []"

definition RemoteExecutionCPUUtilization :: metric where [metric_data]:
  "RemoteExecutionCPUUtilization = newGauge ''remote_execution'' ''cpu_utilization_milli_cpu'' []"

definition FileDownloadCount :: metric where [metric_data]:
  "FileDownloadCount = newHistogram ''remote_execution'' ''file_download_count'' [] (ExponentialBuckets 1 10 9)"

definition FileDownloadSizeBytes :: metric where [metric_data]:
  "FileDownloadSizeBytes = newHistogram ''remote_execution'' ''file_download_size_bytes'' [] (ExponentialBuckets 1 10 9)"

definition FileDownloadDurationUsec :: metric where [metric_data]:
  "FileDownloadDurationUsec = newHistogram ''remote_execution'' ''file_download_duration_usec'' [] (ExponentialBuckets 1 10 9)"

definition FileUploadCount :: metric where [metric_data]:
  "FileUploadCount = newHistogram ''remote_execution'' ''file_upload_count'' [] (ExponentialBuckets 1 10 9)"

definition FileUploadSizeBytes :: metric where [metric_data]:
  "FileUploadSizeBytes = newHistogram ''remote_execution'' ''file_upload_size_bytes'' [] (ExponentialBuckets 1 10 9)"

definition SkippedOutputBytes :: metric where [metric_data]:
  "SkippedOutputBytes = newCounter ''remote_execution'' ''skipped_output_bytes'' []"

definition FileUploadDurationUsec :: metric where [metric_data]:
  "FileUploadDurationUsec = newHistogram ''remote_execution'' ''file_upload_duration_usec'' [] (Computed coarseMicrosecondToHour)"

definition FirecrackerStageDurationUsec :: metric where [metric_data]:
  "FirecrackerStageDurationUsec = newHistogram ''firecracker'' ''stage_duration_usec'' [Stage] (Explicit (customDurationMsecBuckets [(25 * millisecond), (50 * millisecond), (100 * millisecond), (500 * millisecond), (750 * millisecond), (1 * second), (3 * second), (5 * second), (10 * second), (15 * second), (20 * second), (30 * second), (45 * second), (1 * minute), (90 * second), (2 * minute), (3 * minute), (5 * minute), (8 * minute), (15 * minute), (30 * minute), (45 * minute), (1 * hour), (3 * hour), (5 * hour), (8 * hour), (15 * hour), (24 * hour)]))"

definition FirecrackerExecDialDurationUsec :: metric where [metric_data]:
  "FirecrackerExecDialDurationUsec = newHistogram ''firecracker'' ''exec_dial_duration_usec'' [] (Computed (durationUsecBuckets (1 * millisecond) (5 * minute) (round64 (5 / 4))))"

definition SnapshotRemoteCacheUploadSizeBytes :: metric where [metric_data]:
  "SnapshotRemoteCacheUploadSizeBytes = newCounter ''firecracker'' ''snapshot_remote_cache_upload_size_bytes'' []"

definition COWSnapshotDirtyChunkRatio :: metric where [metric_data]:
  "COWSnapshotDirtyChunkRatio = newHistogram ''firecracker'' ''cow_snapshot_dirty_chunk_ratio'' [FileName_label] (LinearBuckets 0 (round64 (1 / 20)) 20)"

definition COWSnapshotDirtyBytes :: metric where [metric_data]:
  "COWSnapshotDirtyBytes = newCounter ''firecracker'' ''cow_snapshot_dirty_bytes'' [FileName_label]"

definition COWSnapshotChunkSourceRatio :: metric where [metric_data]:
  "COWSnapshotChunkSourceRatio = newHistogram ''firecracker'' ''cow_snapshot_chunk_source_ratio'' [FileName_label, ChunkSource] (LinearBuckets 0 (round64 (1 / 10)) 10)"

definition COWSnapshotMemoryMappedBytes :: metric where [metric_data]:
  "COWSnapshotMemoryMappedBytes = newGauge ''firecracker'' ''cow_snapshot_memory_mapped_bytes'' [FileName_label]"

definition COWSnapshotPageFaultTotalDurationUsec :: metric where [metric_data]:
  "COWSnapshotPageFaultTotalDurationUsec = newHistogram ''firecracker'' ''cow_snapshot_page_fault_total_duration_usec'' [Stage] (Computed (durationUsecBuckets (1 * microsecond) (10 * minute) 10))"

definition COWSnapshotChunkOperationTotalDurationUsec :: metric where [metric_data]:
  "COWSnapshotChunkOperationTotalDurationUsec = newHistogram ''firecracker'' ''cow_snapshot_chunk_operation_duration_usec'' [FileName_label, EventName, Stage] (Computed (durationUsecBuckets (1 * microsecond) (10 * minute) 10))"

definition MaxRecyclableResourceUsageEvent :: metric where [metric_data]:
  "MaxRecyclableResourceUsageEvent = newCounter ''remote_execution'' ''max_recyclable_resource_usage_event'' [GroupID, EventName, RecycledRunnerStatus]"

definition RecycleRunnerRequests :: metric where [metric_data]:
  "RecycleRunnerRequests = newCounter ''remote_execution'' ''recycle_runner_requests'' [RecycleRunnerRequestStatusLabel]"

definition RunnerPoolCount :: metric where [metric_data]:
  "RunnerPoolCount = newGauge ''remote_execution'' ''runner_pool_count'' []"

definition RunnerPoolEvictions :: metric where [metric_data]:
  "RunnerPoolEvictions = newCounter ''remote_execution'' ''runner_pool_evictions'' []"

definition RunnerPoolFailedRecycleAttempts :: metric where [metric_data]:
  "RunnerPoolFailedRecycleAttempts = newCounter ''remote_execution'' ''runner_pool_failed_recycle_attempts'' [RunnerPoolFailedRecycleReason]"

definition RunnerPoolMemoryUsageBytes :: metric where [metric_data]:
  "RunnerPoolMemoryUsageBytes = newGauge ''remote_execution'' ''runner_pool_memory_usage_bytes'' []"

definition RunnerPoolDiskUsageBytes :: metric where [metric_data]:
  "RunnerPoolDiskUsageBytes = newGauge ''remote_execution'' ''runner_pool_disk_usage_bytes'' []"

definition FileCacheRequests :: metric where [metric_data]:
  "FileCacheRequests = newCounter ''remote_execution'' ''file_cache_requests'' [FileCacheRequestStatusLabel]"

definition FileCacheLinkLatencyUsec :: metric where [metric_data]:
  "FileCacheLinkLatencyUsec = newHistogram ''remote_execution'' ''file_cache_link_latency_usec'' [] (Computed (durationUsecBuckets (1 * microsecond) (1 * second) 10))"

definition FileCacheLastEvictionAgeUsec :: metric where [metric_data]:
  "FileCacheLastEvictionAgeUsec = newGauge ''remote_execution'' ''file_cache_last_eviction_age_usec'' []"

definition FileCacheAddedFileSizeBytes :: metric where [metric_data]:
  "FileCacheAddedFileSizeBytes = newHistogram ''remote_execution'' ''file_cache_added_file_size_bytes'' [] (ExponentialBuckets 1 2 40)"

definition BlobstoreReadCount :: metric where [metric_data]:
  "BlobstoreReadCount = newCounter ''blobstore'' ''read_count'' [StatusLabel, BlobstoreTypeLabel]"

definition BlobstoreReadSizeBytes :: metric where [metric_data]:
  "BlobstoreReadSizeBytes = newHistogram ''blobstore'' ''read_size_bytes'' [BlobstoreTypeLabel] (ExponentialBuckets 1 10 9)"

definition BlobstoreReadDurationUsec :: metric where [metric_data]:
  "BlobstoreReadDurationUsec = newHistogram ''blobstore'' ''read_duration_usec'' [BlobstoreTypeLabel] (Computed coarseMicrosecondToHour)"

definition BlobstoreWriteCount :: metric where [metric_data]:
  "BlobstoreWriteCount = newCounter ''blobstore'' ''write_count'' [StatusLabel, BlobstoreTypeLabel]"

definition BlobstoreWriteSizeBytes :: metric where [metric_data]:
  "BlobstoreWriteSizeBytes = newHistogram ''blobstore'' ''write_size_bytes'' [BlobstoreTypeLabel] (ExponentialBuckets 1 10 9)"

definition BlobstoreWriteDurationUsec :: metric where [metric_data]:
  "BlobstoreWriteDurationUsec = newHistogram ''blobstore'' ''write_duration_usec'' [BlobstoreTypeLabel] (Computed coarseMicrosecondToHour)"

definition BlobstoreDeleteCount :: metric where [metric_data]:
  "BlobstoreDeleteCount = newCounter ''blobstore'' ''delete_count'' [StatusLabel, BlobstoreTypeLabel]"

definition BlobstoreDeleteDurationUsec :: metric where [metric_data]:
  "BlobstoreDeleteDurationUsec = newHistogram ''blobstore'' ''delete_duration_usec'' [BlobstoreTypeLabel] (Computed coarseMicrosecondToHour)"

definition SQLQueryCount :: metric where [metric_data]:
  "SQLQueryCount = newCounter ''sql'' ''query_count'' [SQLQueryTemplateLabel]"

definition SQLQueryDurationUsec :: metric where [metric_data]:
  "SQLQueryDurationUsec = newHistogram ''sql'' ''query_duration_usec'' [SQLQueryTemplateLabel] (Computed (durationUsecBuckets (1 * millisecond) (1 * hour) (round64 (6 / 5))))"

definition SQLErrorCount :: metric where [metric_data]:
  "SQLErrorCount = newCounter ''sql'' ''error_count'' [SQLQueryTemplateLabel]"

definition SQLMaxOpenConnections :: metric where [metric_data]:
  "SQLMaxOpenConnections = newGauge ''sql'' ''max_open_connections'' [SQLDBRoleLabel]"

definition SQLOpenConnections :: metric where [metric_data]:
  "SQLOpenConnections = newGauge ''sql'' ''open_connections'' [SQLConnectionStatusLabel, SQLDBRoleLabel]"

definition SQLWaitCount :: metric where [metric_data]:
  "SQLWaitCount = newCounter ''sql'' ''wait_count'' [SQLDBRoleLabel]"

definition SQLWaitDuration :: metric where [metric_data]:
  "SQLWaitDuration = newCounter ''sql'' ''wait_duration_usec'' [SQLDBRoleLabel]"

definition SQLMaxIdleClosed :: metric where [metric_data]:
  "SQLMaxIdleClosed = newCounter ''sql'' ''max_idle_closed'' [SQLDBRoleLabel]"

definition SQLMaxIdleTimeClosed :: metric where [metric_data]:
  "SQLMaxIdleTimeClosed = newCounter ''sql'' ''max_idle_time_closed'' [SQLDBRoleLabel]"

definition SQLMaxLifetimeClosed :: metric where [metric_data]:
  "SQLMaxLifetimeClosed = newCounter ''sql'' ''max_lifetime_closed'' [SQLDBRoleLabel]"

definition HTTPRequestCount :: metric where [metric_data]:
  "HTTPRequestCount = newCounter ''http'' ''request_count'' [HTTPRouteLabel, HTTPMethodLabel]"

definition HTTPRequestHandlerDurationUsec :: metric where [metric_data]:
  "HTTPRequestHandlerDurationUsec = newHistogram ''http'' ''request_handler_duration_usec'' [HTTPRouteLabel, HTTPMethodLabel, HTTPResponseCodeLabel] (Computed coarseMicrosecondToHour)"

definition HTTPResponseSizeBytes :: metric where [metric_data]:
  "HTTPResponseSizeBytes = newHistogram ''http'' ''response_size_bytes'' [HTTPRouteLabel, HTTPMethodLabel, HTTPResponseCodeLabel] (ExponentialBuckets 1 10 9)"

definition BuildEventHandlerDurationUs :: metric where [metric_data]:
  "BuildEventHandlerDurationUs = newHistogram ''build_event_handler'' ''duration_usec'' [StatusLabel] (Computed coarseMicrosecondToHour)"

definition WebhookHandlerWorkflowsStarted :: metric where [metric_data]:
  "WebhookHandlerWorkflowsStarted = newCounter ''webhook_handler'' ''workflows_started'' [WebhookEventName]"

definition CacheGetCount :: metric where [metric_data]:
  "CacheGetCount = newCounter ''cache'' ''get_count'' [StatusLabel, CacheTierLabel, CacheBackendLabel]"

definition CacheGetDurationUsec :: metric where [metric_data]:
  "CacheGetDurationUsec = newHistogram ''cache'' ''get_duration_usec'' [CacheTierLabel, CacheBackendLabel] (Computed coarseMicrosecondToHour)"

definition CacheGetSizeBytes :: metric where [metric_data]:
  "CacheGetSizeBytes = newHistogram ''cache'' ''get_size_bytes'' [CacheTierLabel, CacheBackendLabel] (ExponentialBuckets 1 10 9)"

definition CacheReadCount :: metric where [metric_data]:
  "CacheReadCount = newCounter ''cache'' ''read_count'' [StatusLabel, CacheTierLabel, CacheBackendLabel]"

definition CacheReadDurationUsec :: metric where [metric_data]:
  "CacheReadDurationUsec = newHistogram ''cache'' ''read_duration_usec'' [CacheTierLabel, CacheBackendLabel] (Computed coarseMicrosecondToHour)"

definition CacheReadSizeBytes :: metric where [metric_data]:
  "CacheReadSizeBytes = newHistogram ''cache'' ''read_size_bytes'' [CacheTierLabel, CacheBackendLabel] (ExponentialBuckets 1 10 9)"

definition CacheSetCount :: metric where [metric_data]:
  "CacheSetCount = newCounter ''cache'' ''set_count'' [StatusLabel, CacheTierLabel, CacheBackendLabel]"

definition CacheSetDurationUsec :: metric where [metric_data]:
  "CacheSetDurationUsec = newHistogram ''cache'' ''set_duration_usec'' [CacheTierLabel, CacheBackendLabel] (Computed coarseMicrosecondToHour)"

definition CacheSetSizeBytes :: metric where [metric_data]:
  "CacheSetSizeBytes = newHistogram ''cache'' ''set_size_bytes'' [CacheTierLabel, CacheBackendLabel] (ExponentialBuckets 1 10 9)"

definition CacheSetRetryCount :: metric where [metric_data]:
  "CacheSetRetryCount = newHistogram ''cache'' ''set_retries'' [CacheTierLabel, CacheBackendLabel] (LinearBuckets 0 1 10)"

definition CacheWriteCount :: metric where [metric_data]:
  "CacheWriteCount = newCounter ''cache'' ''write_count'' [StatusLabel, CacheTierLabel, CacheBackendLabel]"

definition CacheWriteDurationUsec :: metric where [metric_data]:
  "CacheWriteDurationUsec = newHistogram ''cache'' ''write_duration_usec'' [CacheTierLabel, CacheBackendLabel] (Computed coarseMicrosecondToHour)"

definition CacheWriteSizeBytes :: metric where [metric_data]:
  "CacheWriteSizeBytes = newHistogram ''cache'' ''write_size_bytes'' [CacheTierLabel, CacheBackendLabel] (ExponentialBuckets 1 10 9)"

definition CacheWriteRetryCount :: metric where [metric_data]:
  "CacheWriteRetryCount = newHistogram ''cache'' ''write_retries'' [CacheTierLabel, CacheBackendLabel] (LinearBuckets 0 1 10)"

definition CacheDeleteCount :: metric where [metric_data]:
  "CacheDeleteCount = newCounter ''cache'' ''delete_count'' [StatusLabel, CacheTierLabel, CacheBackendLabel]"

definition CacheDeleteDurationUsec :: metric where [metric_data]:
  "CacheDeleteDurationUsec = newHistogram ''cache'' ''delete_duration_usec'' [CacheTierLabel, CacheBackendLabel] (Computed coarseMicrosecondToHour)"

definition CacheContainsCount :: metric where [metric_data]:
  "CacheContainsCount = newCounter ''cache'' ''contains_count'' [StatusLabel, CacheTierLabel, CacheBackendLabel]"

definition CacheContainsDurationUsec :: metric where [metric_data]:
  "CacheContainsDurationUsec = newHistogram ''cache'' ''contains_duration_usec'' [CacheTierLabel, CacheBackendLabel] (Computed coarseMicrosecondToHour)"

definition CacheContainsRetryCount :: metric where [metric_data]:
  "CacheContainsRetryCount = newHistogram ''cache'' ''contains_retry_count'' [CacheTierLabel, CacheBackendLabel] (LinearBuckets 0 1 10)"

definition Version :: metric where [metric_data]:
  "Version = newGauge '''' ''version'' [VersionLabel, CommitLabel]"

definition UnexpectedEvent :: metric where [metric_data]:
  "UnexpectedEvent = newCounter '''' ''unexpected_event'' [EventName]"

definition HealthCheck :: metric where [metric_data]:
  "HealthCheck = newGauge ''health_check'' ''status'' [HealthCheckName]"

definition RPCsHandledTotalByQuotaKey :: metric where [metric_data]:
  "RPCsHandledTotalByQuotaKey = newCounter ''quota'' ''rpcs_handled_total_by_quota_key'' [GRPCFullMethodLabel, QuotaKey, QuotaAllowed]"

definition RegistryBlobRangeLatencyUsec :: metric where [metric_data]:
  "RegistryBlobRangeLatencyUsec = newHistogram ''registry'' ''blob_range_latency_usec'' [] (Computed coarseMicrosecondToHour)"

definition ClickhouseInsertedCount :: metric where [metric_data]:
  "ClickhouseInsertedCount = newCounter ''clickhouse'' ''insert_count'' [ClickhouseTableName, ClickhouseStatusLabel]"

definition ClickhouseQueryDurationUsec :: metric where [metric_data]:
  "ClickhouseQueryDurationUsec = newHistogram ''clickhouse'' ''query_duration_usec'' [SQLQueryTemplateLabel] (Computed coarseMicrosecondToHour)"

definition ClickhouseQueryErrorCount :: metric where [metric_data]:
  "ClickhouseQueryErrorCount = newCounter ''clickhouse'' ''error_count'' [SQLQueryTemplateLabel]"

definition ClickhouseQueryCount :: metric where [metric_data]:
  "ClickhouseQueryCount = newCounter ''clickhouse'' ''query_count'' [SQLQueryTemplateLabel]"

definition BytesCompressed :: metric where [metric_data]:
  "BytesCompressed = newCounter ''compressor'' ''bytes_compressed'' [CompressionType]"

definition BytesDecompressed :: metric where [metric_data]:
  "BytesDecompressed = newCounter ''compressor'' ''bytes_decompressed'' [CompressionType]"

definition CompressionRatio :: metric where [metric_data]:
  "CompressionRatio = newHistogram ''pebble'' ''compression_ratio'' [CacheNameLabel, CompressionType] (LinearBuckets 0 (round64 (1 / 20)) 40)"

definition CompressedBlobSizeWrite :: metric where [metric_data]:
  "CompressedBlobSizeWrite = newCounter ''compressor'' ''compressed_blob_size_write'' [CacheNameLabel, CompressionType]"

definition DecompressedBlobSizeWrite :: metric where [metric_data]:
  "DecompressedBlobSizeWrite = newCounter ''compressor'' ''decompressed_blob_size_write'' [CacheNameLabel, CompressionType]"

definition ServerUploadSizeBytes :: metric where [metric_data]:
  "ServerUploadSizeBytes = newHistogram ''server'' ''upload_size_bytes'' [CacheTypeLabel, ServerName] (ExponentialBuckets 1 10 9)"

definition ServerUncompressedUploadBytesCount :: metric where [metric_data]:
  "ServerUncompressedUploadBytesCount = newCounter ''server'' ''uncompressed_upload_bytes_count'' [CacheTypeLabel, ServerName, GroupID]"

definition ServerDownloadSizeBytes :: metric where [metric_data]:
  "ServerDownloadSizeBytes = newHistogram ''server'' ''download_size_bytes'' [CacheTypeLabel, ServerName] (ExponentialBuckets 1 10 9)"

definition ServerUncompressedDownloadBytesCount :: metric where [metric_data]:
  "ServerUncompressedDownloadBytesCount = newCounter ''server'' ''uncompressed_download_bytes_count'' [CacheTypeLabel, ServerName, GroupID]"

definition DigestUploadSizeBytes :: metric where [metric_data]:
  "DigestUploadSizeBytes = newHistogram ''server'' ''digest_upload_size_bytes'' [CacheTypeLabel, ServerName] (ExponentialBuckets 1 10 9)"

definition DigestDownloadSizeBytes :: metric where [metric_data]:
  "DigestDownloadSizeBytes = newHistogram ''server'' ''digest_download_size_bytes'' [CacheTypeLabel, ServerName] (ExponentialBuckets 1 10 9)"

definition Logs :: metric where [metric_data]:
  "Logs = newCounter ''logger'' ''log_count'' [StatusHumanReadableLabel]"

definition RaftRanges :: metric where [metric_data]:
  "RaftRanges = newGauge ''raft'' ''ranges'' [RaftNodeHostIDLabel]"

definition RaftLeases :: metric where [metric_data]:
  "RaftLeases = newGauge ''raft'' ''leases'' [RaftRangeIDLabel]"

definition RaftLeaders :: metric where [metric_data]:
  "RaftLeaders = newGauge ''raft'' ''leaders'' [RaftRangeIDLabel]"

definition RaftRecords :: metric where [metric_data]:
  "RaftRecords = newGauge ''raft'' ''records'' [RaftRangeIDLabel]"

definition RaftBytes :: metric where [metric_data]:
  "RaftBytes = newGauge ''raft'' ''bytes'' [RaftRangeIDLabel]"

definition RaftProposals :: metric where [metric_data]:
  "RaftProposals = newCounter ''raft'' ''proposals'' [RaftRangeIDLabel]"

definition RaftSplits :: metric where [metric_data]:
  "RaftSplits = newCounter ''raft'' ''splits'' [RaftNodeHostIDLabel, StatusHumanReadableLabel]"

definition RaftMoves :: metric where [metric_data]:
  "RaftMoves = newCounter ''raft'' ''moves'' [RaftNodeHostIDLabel, RaftMoveLabel, StatusHumanReadableLabel]"

definition RaftRangeCacheLookups :: metric where [metric_data]:
  "RaftRangeCacheLookups = newCounter ''raft'' ''rangecache_lookups'' [RaftRangeCacheEventTypeLabel]"

definition RaftSplitDurationUs :: metric where [metric_data]:
  "RaftSplitDurationUs = newHistogram ''raft'' ''split_duration_usec'' [RaftRangeIDLabel] (Computed coarseMicrosecondToHour)"

definition RaftReplicaUpdateDurationUs :: metric where [metric_data]:
  "RaftReplicaUpdateDurationUs = newHistogram ''raft'' ''replica_update_duration_usec'' [RaftRangeIDLabel] (Computed coarseMicrosecondToHour)"

definition RaftEvictionErrorCount :: metric where [metric_data]:
  "RaftEvictionErrorCount = newCounter ''raft'' ''eviction_errors'' []"

definition RaftListenerEventsDropped :: metric where [metric_data]:
  "RaftListenerEventsDropped = newCounter ''raft'' ''listener_events_dropped'' [RaftListenerID, RaftListenerEventType]"

definition RaftLeaseActionCount :: metric where [metric_data]:
  "RaftLeaseActionCount = newCounter ''raft'' ''lease_action_count'' [RaftRangeIDLabel, RaftLeaseActionLabel, StatusHumanReadableLabel]"

definition APIKeyLookupCount :: metric where [metric_data]:
  "APIKeyLookupCount = newCounter ''auth'' ''api_key_lookup_count'' [APIKeyLookupStatus]"

definition IPRulesCheckLatencyUsec :: metric where [metric_data]:
  "IPRulesCheckLatencyUsec = newHistogram ''auth'' ''ip_rules_check_latency_usec'' [StatusHumanReadableLabel] (Computed (durationUsecBuckets (1 * microsecond) (5 * second) 2))"

definition EncryptionKeyRefreshCount :: metric where [metric_data]:
  "EncryptionKeyRefreshCount = newCounter ''encryption'' ''key_refresh_count'' []"

definition EncryptionKeyRefreshFailureCount :: metric where [metric_data]:
  "EncryptionKeyRefreshFailureCount = newCounter ''encryption'' ''key_refresh_failure_count'' []"

definition EncryptionEncryptedBlockCount :: metric where [metric_data]:
  "EncryptionEncryptedBlockCount = newCounter ''encryption'' ''encrypted_block_count'' []"

definition EncryptionEncryptedBlobCount :: metric where [metric_data]:
  "EncryptionEncryptedBlobCount = newCounter ''encryption'' ''encrypted_blob_count'' []"

definition EncryptionDecryptedBlockCount :: metric where [metric_data]:
  "EncryptionDecryptedBlockCount = newCounter ''encryption'' ''decrypted_block_count'' []"

definition EncryptionDecryptedBlobCount :: metric where [metric_data]:
  "EncryptionDecryptedBlobCount = newCounter ''encryption'' ''decrypted_blob_count'' []"

definition EncryptionDecryptionErrorCount :: metric where [metric_data]:
  "EncryptionDecryptionErrorCount = newCounter ''encryption'' ''decryption_error_count'' []"

definition EncryptionKeyLastEncryptedAgeMsec :: metric where [metric_data]:
  "EncryptionKeyLastEncryptedAgeMsec = newHistogram ''encryption'' ''key_last_encryption_age_msec'' [] (Computed (exponentialBucketRange (float64_of_int (1 * Milliseconds hour)) (float64_of_int (7 * 24 * Milliseconds hour)) 4))"

definition PebbleCacheAtimeUpdateCount :: metric where [metric_data]:
  "PebbleCacheAtimeUpdateCount = newCounter ''remote_cache'' ''pebble_cache_atime_update_count'' [PartitionID, CacheNameLabel]"

definition PebbleCacheAtimeDeltaWhenRead :: metric where [metric_data]:
  "PebbleCacheAtimeDeltaWhenRead = newHistogram ''remote_cache'' ''pebble_cache_atime_delta_when_read'' [CacheNameLabel] (Explicit (customDurationMsecBuckets [(1 * minute), (5 * minute), (10 * minute), (30 * minute), (1 * hour), (3 * hour), (6 * hour), (12 * hour), (1 * day), (2 * day), (3 * day), (4 * day), (5 * day), (6 * day), (7 * day), (14 * day), (21 * day)]))"

definition PebbleCacheEvictionSamplesChanSize :: metric where [metric_data]:
  "PebbleCacheEvictionSamplesChanSize = newGauge ''remote_cache'' ''pebble_cache_eviction_samples_chan_size'' [PartitionID, CacheNameLabel]"

definition PebbleCacheEvictionResampleLatencyUsec :: metric where [metric_data]:
  "PebbleCacheEvictionResampleLatencyUsec = newHistogram ''remote_cache'' ''pebble_cache_eviction_resample_latency_usec'' [PartitionID, CacheNameLabel] (Computed (durationUsecBuckets (1 * microsecond) (5 * second) 2))"

definition PebbleCacheEvictionEvictLatencyUsec :: metric where [metric_data]:
  "PebbleCacheEvictionEvictLatencyUsec = newHistogram ''remote_cache'' ''pebble_cache_eviction_evict_latency_usec'' [PartitionID, CacheNameLabel] (Computed (durationUsecBuckets (1 * microsecond) (5 * second) 2))"

definition PebbleCachePebbleCompactCount :: metric where [metric_data]:
  "PebbleCachePebbleCompactCount = newCounter ''remote_cache'' ''pebble_cache_pebble_compact_count'' [CompactionType, CacheNameLabel]"

definition PebbleCachePebbleCompactEstimatedDebtBytes :: metric where [metric_data]:
  "PebbleCachePebbleCompactEstimatedDebtBytes = newGauge ''remote_cache'' ''pebble_cache_pebble_compact_estimated_debt_bytes'' [CacheNameLabel]"

definition PebbleCachePebbleCompactInProgressBytes :: metric where [metric_data]:
  "PebbleCachePebbleCompactInProgressBytes = newGauge ''remote_cache'' ''pebble_cache_pebble_compact_in_progress_bytes'' [CacheNameLabel]"

definition PebbleCachePebbleCompactInProgress :: metric where [metric_data]:
  "PebbleCachePebbleCompactInProgress = newGauge ''remote_cache'' ''pebble_cache_pebble_compact_in_progress'' [CacheNameLabel]"

definition PebbleCachePebbleCompactMarkedFiles :: metric where [metric_data]:
  "PebbleCachePebbleCompactMarkedFiles = newGauge ''remote_cache'' ''pebble_cache_pebble_compact_marked_files'' [CacheNameLabel]"

definition PebbleCachePebbleLevelSublevels :: metric where [metric_data]:
  "PebbleCachePebbleLevelSublevels = newGauge ''remote_cache'' ''pebble_cache_pebble_level_sublevels'' [PebbleLevel, CacheNameLabel]"

definition PebbleCachePebbleLevelNumFiles :: metric where [metric_data]:
  "PebbleCachePebbleLevelNumFiles = newGauge ''remote_cache'' ''pebble_cache_pebble_level_num_files'' [PebbleLevel, CacheNameLabel]"

definition PebbleCachePebbleLevelSizeBytes :: metric where [metric_data]:
  "PebbleCachePebbleLevelSizeBytes = newGauge ''remote_cache'' ''pebble_cache_pebble_level_size_bytes'' [PebbleLevel, CacheNameLabel]"

definition PebbleCachePebbleLevelScore :: metric where [metric_data]:
  "PebbleCachePebbleLevelScore = newGauge ''remote_cache'' ''pebble_cache_pebble_level_score'' [PebbleLevel, CacheNameLabel]"

definition PebbleCachePebbleLevelBytesInCount :: metric where [metric_data]:
  "PebbleCachePebbleLevelBytesInCount = newCounter ''remote_cache'' ''pebble_cache_pebble_level_bytes_in_count'' [PebbleLevel, CacheNameLabel]"

definition PebbleCachePebbleLevelBytesIngestedCount :: metric where [metric_data]:
  "PebbleCachePebbleLevelBytesIngestedCount = newCounter ''remote_cache'' ''pebble_cache_pebble_level_bytes_ingested_count'' [PebbleLevel, CacheNameLabel]"

definition PebbleCachePebbleLevelBytesMovedCount :: metric where [metric_data]:
  "PebbleCachePebbleLevelBytesMovedCount = newCounter ''remote_cache'' ''pebble_cache_pebble_level_bytes_moved_count'' [PebbleLevel, CacheNameLabel]"

definition PebbleCachePebbleLevelBytesReadCount :: metric where [metric_data]:
  "PebbleCachePebbleLevelBytesReadCount = newCounter ''remote_cache'' ''pebble_cache_pebble_level_bytes_read_count'' [PebbleLevel, CacheNameLabel]"

definition PebbleCachePebbleLevelBytesCompactedCount :: metric where [metric_data]:
  "PebbleCachePebbleLevelBytesCompactedCount = newCounter ''remote_cache'' ''pebble_cache_pebble_level_bytes_compacted_count'' [PebbleLevel, CacheNameLabel]"

definition PebbleCachePebbleLevelBytesFlushedCount :: metric where [metric_data]:
  "PebbleCachePebbleLevelBytesFlushedCount = newCounter ''remote_cache'' ''pebble_cache_pebble_level_bytes_flushed_count'' [PebbleLevel, CacheNameLabel]"

definition PebbleCachePebbleLevelTablesCompactedCount :: metric where [metric_data]:
  "PebbleCachePebbleLevelTablesCompactedCount = newCounter ''remote_cache'' ''pebble_cache_pebble_level_tables_compacted_count'' [PebbleLevel, CacheNameLabel]"

definition PebbleCachePebbleLevelTablesFlushedCount :: metric where [metric_data]:
  "PebbleCachePebbleLevelTablesFlushedCount = newCounter ''remote_cache'' ''pebble_cache_pebble_level_tables_flushed_count'' [PebbleLevel, CacheNameLabel]"

definition PebbleCachePebbleLevelTablesIngestedCount :: metric where [metric_data]:
  "PebbleCachePebbleLevelTablesIngestedCount = newCounter ''remote_cache'' ''pebble_cache_pebble_level_tables_ingested_count'' [PebbleLevel, CacheNameLabel]"

definition PebbleCachePebbleLevelTablesMovedCount :: metric where [metric_data]:
  "PebbleCachePebbleLevelTablesMovedCount = newCounter ''remote_cache'' ''pebble_cache_pebble_level_tables_moved_count'' [PebbleLevel, CacheNameLabel]"

definition PebbleCachePebbleOpCount :: metric where [metric_data]:
  "PebbleCachePebbleOpCount = newCounter ''remote_cache'' ''pebble_cache_pebble_op_count'' [PebbleID, PebbleOperation]"

definition PebbleCachePebbleOpLatencyUsec :: metric where [metric_data]:
  "PebbleCachePebbleOpLatencyUsec = newHistogram ''remote_cache'' ''pebble_cache_pebble_op_latency_usec'' [PebbleID, PebbleOperation] (Computed (durationUsecBuckets (1 * microsecond) (30 * second) 10))"

definition PebbleCachePebbleBlockCacheSizeBytes :: metric where [metric_data]:
  "PebbleCachePebbleBlockCacheSizeBytes = newGauge ''remote_cache'' ''pebble_cache_pebble_block_cache_size_bytes'' [CacheNameLabel]"

definition PebbleCacheWriteStallCount :: metric where [metric_data]:
  "PebbleCacheWriteStallCount = newGauge ''remote_cache'' ''pebble_cache_pebble_write_stall_count'' [CacheNameLabel]"

definition PebbleCacheWriteStallDurationUsec :: metric where [metric_data]:
  "PebbleCacheWriteStallDurationUsec = newHistogram ''remote_cache'' ''pebble_cache_pebble_write_stall_duration_usec'' [CacheNameLabel] (Computed coarseMicrosecondToHour)"

definition PebbleCacheZombieTableCount :: metric where [metric_data]:
  "PebbleCacheZombieTableCount = newGauge ''remote_cache'' ''pebble_cache_zombie_table_count'' [CacheNameLabel]"

definition PebbleCacheZombieTableSizeBytes :: metric where [metric_data]:
  "PebbleCacheZombieTableSizeBytes = newGauge ''remote_cache'' ''pebble_cache_zombie_table_size_bytes'' [CacheNameLabel]"

definition PebbleCacheGroupIDSampleCount :: metric where [metric_data]:
  "PebbleCacheGroupIDSampleCount = newCounter ''remote_cache'' ''pebble_cache_groupid_sample_count'' [GroupID, CacheNameLabel]"

definition PebbleCacheNumChunksPerFile :: metric where [metric_data]:
  "PebbleCacheNumChunksPerFile = newHistogram ''remote_cache'' ''pebble_cache_num_chunks_per_file'' [CacheNameLabel] (Explicit [1, 10, 50, 100, 500, 1000, 1500, 2000, 2500])"

definition PodmanSociStoreCrashes :: metric where [metric_data]:
  "PodmanSociStoreCrashes = newCounter ''podman'' ''soci_store_crash_count'' []"

definition PodmanGetSociArtifactsLatencyUsec :: metric where [metric_data]:
  "PodmanGetSociArtifactsLatencyUsec = newHistogram ''podman'' ''get_soci_artifacts_latency_usec'' [ContainerImageTag] (Computed (durationUsecBuckets (1 * microsecond) (100 * minute) 10))"

definition PodmanGetSociArtifactsOutcomes :: metric where [metric_data]:
  "PodmanGetSociArtifactsOutcomes = newCounter ''podman'' ''get_soci_artifacts_outcome'' [GetSociArtifactsOutcomeTag]"

definition PodmanColdImagePullLatencyMsec :: metric where [metric_data]:
  "PodmanColdImagePullLatencyMsec = newHistogram ''podman'' ''image_pull_latency_msec'' [ContainerImageTag] (Computed (durationMsecBuckets (1 * millisecond) (100 * minute) 10))"

definition ByteStreamProxyReads :: metric where [metric_data]:
  "ByteStreamProxyReads = newCounter ''proxy'' ''byte_stream_reads'' [CacheHitMissStatus]"

definition ContentAddressableStorageProxyReads :: metric where [metric_data]:
  "ContentAddressableStorageProxyReads = newCounter ''proxy'' ''content_addressable_storage_reads'' [CASOperation, CacheHitMissStatus]"

definition ContentAddressableStorageProxyDigestReads :: metric where [metric_data]:
  "ContentAddressableStorageProxyDigestReads = newCounter ''proxy'' ''content_addressable_storage_digest_reads'' [CASOperation, CacheHitMissStatus]"

definition RemoteAtimeUpdates :: metric where [metric_data]:
  "RemoteAtimeUpdates = newCounter ''proxy'' ''remote_atime_updates'' [GroupID, AtimeUpdateOutcome]"

definition RemoteAtimeUpdatesSent :: metric where [metric_data]:
  "RemoteAtimeUpdatesSent = newCounter ''proxy'' ''remote_atime_update_requests'' [GroupID, StatusLabel]"

definition all_metrics :: "metric list" where
  "all_metrics = [InvocationCount, InvocationsByBazelVersionCount, InvocationDurationUs, InvocationDurationUsExported, BuildEventCount,
     StatsRecorderWorkers, StatsRecorderDuration, WebhookInvocationLookupWorkers, WebhookInvocationLookupDuration,
     WebhookNotifyWorkers, WebhookNotifyDuration, CacheEvents, CacheNumHitsExported, CacheDownloadSizeBytes,
     CacheDownloadSizeBytesExported, CacheDownloadDurationUsec, CacheRequestedInlineSizeBytes, CacheUploadSizeBytes,
     CacheUploadSizeBytesExported, CacheUploadDurationUsec, DiskCacheLastEvictionAgeUsec, DiskCacheEvictionAgeMsec,
     DiskCacheNumEvictions, DiskCacheBytesEvicted, DiskCachePartitionSizeBytes, DiskCachePartitionCapacityBytes,
     DiskCachePartitionNumItems, DiskCacheDuplicateWrites, DiskCacheAddedFileSizeBytes, DiskCacheFilesystemTotalBytes,
     DiskCacheFilesystemAvailBytes, DiskCacheDuplicateWritesBytes, DistributedCachePeerLookups, MigrationNotFoundErrorCount,
     MigrationDoubleReadHitCount, MigrationCopyChanSize, MigrationBytesCopied, MigrationBlobsCopied, TreeCacheLookupCount,
     TreeCacheSplitLookupCount, TreeCacheSplitWriteCount, TreeCacheSetCount, TreeCacheBytesTransferred, LookasideCacheLookupCount,
     LookasideCacheEvictionAgeMsec, RemoteExecutionCount, RemoteExecutionTasksStartedCount,
     RemoteExecutionExecutedActionMetadataDurationsUsec, RemoteExecutionDurationUsecExported,
     RemoteExecutionTaskPressureStallDurationFraction, RemoteExecutionTaskSizeReadRequests, RemoteExecutionTaskSizeWriteRequests,
     RemoteExecutionTaskSizePredictionDurationUsec, RemoteExecutionEnqueuedTaskMilliCPU, RemoteExecutionEnqueuedTaskMemoryBytes,
     RemoteExecutionWaitingExecutionResult, RemoteExecutionRequests, RemoteExecutionExecutorRegistrationCount,
     RemoteExecutionMergedActions, RemoteExecutionHedgedActions, RemoteExecutionMergedActionsPerExecution,
     RemoteExecutionMergedActionSubmitTimeOffsetUsec, RemoteExecutionQueueLength, RemoteExecutionTasksExecuting,
     RemoteExecutionAssignedRAMBytes, RemoteExecutionAssignedOrQueuedEstimatedRAMBytes, RemoteExecutionAssignableRAMBytes,
     RemoteExecutionAssignedMilliCPU, RemoteExecutionAssignedOrQueuedEstimatedMilliCPU, RemoteExecutionAssignableMilliCPU,
     RemoteExecutionCPUUtilization, FileDownloadCount, FileDownloadSizeBytes, FileDownloadDurationUsec, FileUploadCount,
     FileUploadSizeBytes, SkippedOutputBytes, FileUploadDurationUsec, FirecrackerStageDurationUsec, FirecrackerExecDialDurationUsec,
     SnapshotRemoteCacheUploadSizeBytes, COWSnapshotDirtyChunkRatio, COWSnapshotDirtyBytes, COWSnapshotChunkSourceRatio,
     COWSnapshotMemoryMappedBytes, COWSnapshotPageFaultTotalDurationUsec, COWSnapshotChunkOperationTotalDurationUsec,
     MaxRecyclableResourceUsageEvent, RecycleRunnerRequests, RunnerPoolCount, RunnerPoolEvictions, RunnerPoolFailedRecycleAttempts,
     RunnerPoolMemoryUsageBytes, RunnerPoolDiskUsageBytes, FileCacheRequests, FileCacheLinkLatencyUsec, FileCacheLastEvictionAgeUsec,
     FileCacheAddedFileSizeBytes, BlobstoreReadCount, BlobstoreReadSizeBytes, BlobstoreReadDurationUsec, BlobstoreWriteCount,
     BlobstoreWriteSizeBytes, BlobstoreWriteDurationUsec, BlobstoreDeleteCount, BlobstoreDeleteDurationUsec, SQLQueryCount,
     SQLQueryDurationUsec, SQLErrorCount, SQLMaxOpenConnections, SQLOpenConnections, SQLWaitCount, SQLWaitDuration, SQLMaxIdleClosed,
     SQLMaxIdleTimeClosed, SQLMaxLifetimeClosed, HTTPRequestCount, HTTPRequestHandlerDurationUsec, HTTPResponseSizeBytes,
     BuildEventHandlerDurationUs, WebhookHandlerWorkflowsStarted, CacheGetCount, CacheGetDurationUsec, CacheGetSizeBytes,
     CacheReadCount, CacheReadDurationUsec, CacheReadSizeBytes, CacheSetCount, CacheSetDurationUsec, CacheSetSizeBytes,
     CacheSetRetryCount, CacheWriteCount, CacheWriteDurationUsec, CacheWriteSizeBytes, CacheWriteRetryCount, CacheDeleteCount,
     CacheDeleteDurationUsec, CacheContainsCount, CacheContainsDurationUsec, CacheContainsRetryCount, Version, UnexpectedEvent,
     HealthCheck, RPCsHandledTotalByQuotaKey, RegistryBlobRangeLatencyUsec, ClickhouseInsertedCount, ClickhouseQueryDurationUsec,
     ClickhouseQueryErrorCount, ClickhouseQueryCount, BytesCompressed, BytesDecompressed, CompressionRatio, CompressedBlobSizeWrite,
     DecompressedBlobSizeWrite, ServerUploadSizeBytes, ServerUncompressedUploadBytesCount, ServerDownloadSizeBytes,
     ServerUncompressedDownloadBytesCount, DigestUploadSizeBytes, DigestDownloadSizeBytes, Logs, RaftRanges, RaftLeases, RaftLeaders,
     RaftRecords, RaftBytes, RaftProposals, RaftSplits, RaftMoves, RaftRangeCacheLookups, RaftSplitDurationUs,
     RaftReplicaUpdateDurationUs, RaftEvictionErrorCount, RaftListenerEventsDropped, RaftLeaseActionCount, APIKeyLookupCount,
     IPRulesCheckLatencyUsec, EncryptionKeyRefreshCount, EncryptionKeyRefreshFailureCount, EncryptionEncryptedBlockCount,
     EncryptionEncryptedBlobCount, EncryptionDecryptedBlockCount, EncryptionDecryptedBlobCount, EncryptionDecryptionErrorCount,
     EncryptionKeyLastEncryptedAgeMsec, PebbleCacheAtimeUpdateCount, PebbleCacheAtimeDeltaWhenRead,
     PebbleCacheEvictionSamplesChanSize, PebbleCacheEvictionResampleLatencyUsec, PebbleCacheEvictionEvictLatencyUsec,
     PebbleCachePebbleCompactCount, PebbleCachePebbleCompactEstimatedDebtBytes, PebbleCachePebbleCompactInProgressBytes,
     PebbleCachePebbleCompactInProgress, PebbleCachePebbleCompactMarkedFiles, PebbleCachePebbleLevelSublevels,
     PebbleCachePebbleLevelNumFiles, PebbleCachePebbleLevelSizeBytes, PebbleCachePebbleLevelScore, PebbleCachePebbleLevelBytesInCount,
     PebbleCachePebbleLevelBytesIngestedCount, PebbleCachePebbleLevelBytesMovedCount, PebbleCachePebbleLevelBytesReadCount,
     PebbleCachePebbleLevelBytesCompactedCount, PebbleCachePebbleLevelBytesFlushedCount, PebbleCachePebbleLevelTablesCompactedCount,
     PebbleCachePebbleLevelTablesFlushedCount, PebbleCachePebbleLevelTablesIngestedCount, PebbleCachePebbleLevelTablesMovedCount,
     PebbleCachePebbleOpCount, PebbleCachePebbleOpLatencyUsec, PebbleCachePebbleBlockCacheSizeBytes, PebbleCacheWriteStallCount,
     PebbleCacheWriteStallDurationUsec, PebbleCacheZombieTableCount, PebbleCacheZombieTableSizeBytes, PebbleCacheGroupIDSampleCount,
     PebbleCacheNumChunksPerFile, PodmanSociStoreCrashes, PodmanGetSociArtifactsLatencyUsec, PodmanGetSociArtifactsOutcomes,
     PodmanColdImagePullLatencyMsec, ByteStreamProxyReads, ContentAddressableStorageProxyReads,
     ContentAddressableStorageProxyDigestReads, RemoteAtimeUpdates, RemoteAtimeUpdatesSent]"

section \<open>What Prometheus asks for\<close>

definition name_char :: "char \<Rightarrow> bool" where
  "name_char c \<longleftrightarrow> (let n = of_char c :: int in 97 \<le> n \<and> n \<le> 122 \<or> 65 \<le> n \<and> n \<le> 90 \<or> 48 \<le> n \<and> n \<le> 57 \<or> n = 95)"

definition valid_label :: "string \<Rightarrow> bool" where
  "valid_label l \<longleftrightarrow> l \<noteq> [] \<and> list_all name_char l \<and> \<not> is_digit (hd l) \<and> \<not> HasPrefix l ''__''"

definition local_name :: "metric \<Rightarrow> string" where
  "local_name m = (if mt_subsystem m = [] then mt_name m else mt_subsystem m @ ''_'' @ mt_name m)"

text \<open>\<open>BuildFQName\<close> with the package's namespace.\<close>

definition fqName :: "metric \<Rightarrow> string" where
  "fqName m = ''buildbuddy_'' @ local_name m"

fun buckets_ok :: "buckets \<Rightarrow> bool" where
  "buckets_ok (Computed r) = (case r of Some (Ok bs) \<Rightarrow> bs \<noteq> [] \<and> sorted_wrt (<) bs | _ \<Rightarrow> False)"
| "buckets_ok (Explicit bs) = (bs \<noteq> [] \<and> sorted_wrt (<) bs)"
| "buckets_ok (ExponentialBuckets start factor count) = (1 \<le> count \<and> 0 < start \<and> 1 < factor)"
| "buckets_ok (LinearBuckets start width count) = (1 \<le> count \<and> 0 < width)"

fun kind_ok :: "metric_kind \<Rightarrow> string list \<Rightarrow> bool" where
  "kind_ok (Histogram b) labels = (buckets_ok b \<and> ''le'' \<notin> set labels)"
| "kind_ok k labels = True"

definition names_ok :: "metric \<Rightarrow> bool" where
  "names_ok m \<longleftrightarrow> mt_name m \<noteq> [] \<and> list_all name_char (local_name m) \<and> list_all valid_label (mt_labels m) \<and> distinct (mt_labels m)"

definition well_formed :: "metric \<Rightarrow> bool" where
  "well_formed m \<longleftrightarrow> names_ok m \<and> kind_ok (mt_kind m) (mt_labels m)"

text \<open>The initialisation of the package: the registry accepts one collector after the other, or panics, which is \<open>None\<close>.\<close>

fun init_metrics :: "(string list \<Rightarrow> metric \<Rightarrow> bool) \<Rightarrow> string list \<Rightarrow> metric list \<Rightarrow> string list option" where
  "init_metrics accepts names [] = Some names"
| "init_metrics accepts names (m # ms) = (if accepts names m then init_metrics accepts (fqName m # names) ms else None)"

section \<open>The declarations are right\<close>

definition names_1 :: "string list" where
  "names_1 = [''invocation_count'', ''invocation_bazel_version'', ''invocation_duration_usec'', ''invocation_duration_usec_exported'',
     ''invocation_build_event_count'', ''invocation_stats_recorder_workers'', ''invocation_stats_recorder_duration_usec'',
     ''invocation_webhook_invocation_lookup_workers'', ''invocation_webhook_invocation_lookup_duration_usec'',
     ''invocation_webhook_notify_workers'', ''invocation_webhook_notify_duration_usec'', ''remote_cache_events'',
     ''remote_cache_num_hits_exported'', ''remote_cache_download_size_bytes'', ''remote_cache_download_size_bytes_exported'',
     ''remote_cache_download_duration_usec'', ''remote_cache_requested_inline_size_bytes'', ''remote_cache_upload_size_bytes'',
     ''remote_cache_upload_size_bytes_exported'', ''remote_cache_upload_duration_usec'', ''remote_cache_disk_cache_last_eviction_age_usec'',
     ''remote_cache_disk_cache_eviction_age_msec'', ''remote_cache_disk_cache_num_evictions'',
     ''remote_cache_disk_cache_partition_size_bytes_evicted'', ''remote_cache_disk_cache_partition_size_bytes'',
     ''remote_cache_disk_cache_partition_capacity_bytes'', ''remote_cache_disk_cache_partition_num_items'',
     ''remote_cache_disk_cache_duplicate_writes'', ''remote_cache_disk_cache_added_file_size_bytes'',
     ''remote_cache_disk_cache_filesystem_total_bytes'', ''remote_cache_disk_cache_filesystem_avail_bytes'',
     ''remote_cache_disk_cache_duplicate_writes_bytes'', ''remote_cache_distributed_cache_peer_lookups'',
     ''remote_cache_migration_not_found_error_count'', ''remote_cache_migration_double_read_hit_count'',
     ''remote_cache_migration_copy_chan_size'', ''remote_cache_migration_bytes_copied'', ''remote_cache_migration_blobs_copied'',
     ''remote_cache_tree_cache_lookup_count'', ''remote_cache_tree_cache_split_lookup_count'',
     ''remote_cache_tree_cache_split_write_count'', ''remote_cache_tree_cache_set_count'', ''remote_cache_tree_cache_bytes_transferred'',
     ''remote_cache_lookaside_cache_lookup_count'', ''remote_cache_lookaside_cache_eviction_age_msec'']"

definition names_2 :: "string list" where
  "names_2 = [''remote_execution_count'', ''remote_execution_tasks_started_count'', ''remote_execution_executed_action_metadata_durations_usec'',
     ''remote_execution_duration_usec_exported'', ''remote_execution_task_pressure_stall_duration_fraction'',
     ''remote_execution_task_size_read_requests'', ''remote_execution_task_size_write_requests'',
     ''remote_execution_task_size_prediction_duration_usec'', ''remote_execution_enqueued_task_milli_cpu'',
     ''remote_execution_enqueued_task_memory_bytes'', ''remote_execution_waiting_execution_result'', ''remote_execution_requests'',
     ''remote_execution_executor_registration_count'', ''remote_execution_merged_actions'', ''remote_execution_hedged_actions'',
     ''remote_execution_merged_actions_per_execution'', ''remote_execution_merged_action_submit_time_offset_usec'',
     ''remote_execution_queue_length'', ''remote_execution_tasks_executing'', ''remote_execution_assigned_ram_bytes'',
     ''remote_execution_assigned_and_queued_estimated_ram_bytes'', ''remote_execution_assignable_ram_bytes'',
     ''remote_execution_assigned_milli_cpu'', ''remote_execution_assigned_and_queued_estimated_milli_cpu'',
     ''remote_execution_assignable_milli_cpu'', ''remote_execution_cpu_utilization_milli_cpu'', ''remote_execution_file_download_count'',
     ''remote_execution_file_download_size_bytes'', ''remote_execution_file_download_duration_usec'',
     ''remote_execution_file_upload_count'', ''remote_execution_file_upload_size_bytes'', ''remote_execution_skipped_output_bytes'',
     ''remote_execution_file_upload_duration_usec'', ''firecracker_stage_duration_usec'', ''firecracker_exec_dial_duration_usec'',
     ''firecracker_snapshot_remote_cache_upload_size_bytes'', ''firecracker_cow_snapshot_dirty_chunk_ratio'',
     ''firecracker_cow_snapshot_dirty_bytes'', ''firecracker_cow_snapshot_chunk_source_ratio'',
     ''firecracker_cow_snapshot_memory_mapped_bytes'', ''firecracker_cow_snapshot_page_fault_total_duration_usec'',
     ''firecracker_cow_snapshot_chunk_operation_duration_usec'', ''remote_execution_max_recyclable_resource_usage_event'',
     ''remote_execution_recycle_runner_requests'', ''remote_execution_runner_pool_count'']"

definition names_3 :: "string list" where
  "names_3 = [''remote_execution_runner_pool_evictions'', ''remote_execution_runner_pool_failed_recycle_attempts'',
     ''remote_execution_runner_pool_memory_usage_bytes'', ''remote_execution_runner_pool_disk_usage_bytes'',
     ''remote_execution_file_cache_requests'', ''remote_execution_file_cache_link_latency_usec'',
     ''remote_execution_file_cache_last_eviction_age_usec'', ''remote_execution_file_cache_added_file_size_bytes'',
     ''blobstore_read_count'', ''blobstore_read_size_bytes'', ''blobstore_read_duration_usec'', ''blobstore_write_count'',
     ''blobstore_write_size_bytes'', ''blobstore_write_duration_usec'', ''blobstore_delete_count'', ''blobstore_delete_duration_usec'',
     ''sql_query_count'', ''sql_query_duration_usec'', ''sql_error_count'', ''sql_max_open_connections'', ''sql_open_connections'',
     ''sql_wait_count'', ''sql_wait_duration_usec'', ''sql_max_idle_closed'', ''sql_max_idle_time_closed'', ''sql_max_lifetime_closed'',
     ''http_request_count'', ''http_request_handler_duration_usec'', ''http_response_size_bytes'', ''build_event_handler_duration_usec'',
     ''webhook_handler_workflows_started'', ''cache_get_count'', ''cache_get_duration_usec'', ''cache_get_size_bytes'',
     ''cache_read_count'', ''cache_read_duration_usec'', ''cache_read_size_bytes'', ''cache_set_count'', ''cache_set_duration_usec'',
     ''cache_set_size_bytes'', ''cache_set_retries'', ''cache_write_count'', ''cache_write_duration_usec'', ''cache_write_size_bytes'',
     ''cache_write_retries'']"

definition names_4 :: "string list" where
  "names_4 = [''cache_delete_count'', ''cache_delete_duration_usec'', ''cache_contains_count'', ''cache_contains_duration_usec'',
     ''cache_contains_retry_count'', ''version'', ''unexpected_event'', ''health_check_status'', ''quota_rpcs_handled_total_by_quota_key'',
     ''registry_blob_range_latency_usec'', ''clickhouse_insert_count'', ''clickhouse_query_duration_usec'', ''clickhouse_error_count'',
     ''clickhouse_query_count'', ''compressor_bytes_compressed'', ''compressor_bytes_decompressed'', ''pebble_compression_ratio'',
     ''compressor_compressed_blob_size_write'', ''compressor_decompressed_blob_size_write'', ''server_upload_size_bytes'',
     ''server_uncompressed_upload_bytes_count'', ''server_download_size_bytes'', ''server_uncompressed_download_bytes_count'',
     ''server_digest_upload_size_bytes'', ''server_digest_download_size_bytes'', ''logger_log_count'', ''raft_ranges'', ''raft_leases'',
     ''raft_leaders'', ''raft_records'', ''raft_bytes'', ''raft_proposals'', ''raft_splits'', ''raft_moves'', ''raft_rangecache_lookups'',
     ''raft_split_duration_usec'', ''raft_replica_update_duration_usec'', ''raft_eviction_errors'', ''raft_listener_events_dropped'',
     ''raft_lease_action_count'', ''auth_api_key_lookup_count'', ''auth_ip_rules_check_latency_usec'', ''encryption_key_refresh_count'',
     ''encryption_key_refresh_failure_count'', ''encryption_encrypted_block_count'', ''encryption_encrypted_blob_count'']"

definition names_5 :: "string list" where
  "names_5 = [''encryption_decrypted_block_count'', ''encryption_decrypted_blob_count'', ''encryption_decryption_error_count'',
     ''encryption_key_last_encryption_age_msec'', ''remote_cache_pebble_cache_atime_update_count'',
     ''remote_cache_pebble_cache_atime_delta_when_read'', ''remote_cache_pebble_cache_eviction_samples_chan_size'',
     ''remote_cache_pebble_cache_eviction_resample_latency_usec'', ''remote_cache_pebble_cache_eviction_evict_latency_usec'',
     ''remote_cache_pebble_cache_pebble_compact_count'', ''remote_cache_pebble_cache_pebble_compact_estimated_debt_bytes'',
     ''remote_cache_pebble_cache_pebble_compact_in_progress_bytes'', ''remote_cache_pebble_cache_pebble_compact_in_progress'',
     ''remote_cache_pebble_cache_pebble_compact_marked_files'', ''remote_cache_pebble_cache_pebble_level_sublevels'',
     ''remote_cache_pebble_cache_pebble_level_num_files'', ''remote_cache_pebble_cache_pebble_level_size_bytes'',
     ''remote_cache_pebble_cache_pebble_level_score'', ''remote_cache_pebble_cache_pebble_level_bytes_in_count'',
     ''remote_cache_pebble_cache_pebble_level_bytes_ingested_count'', ''remote_cache_pebble_cache_pebble_level_bytes_moved_count'',
     ''remote_cache_pebble_cache_pebble_level_bytes_read_count'', ''remote_cache_pebble_cache_pebble_level_bytes_compacted_count'',
     ''remote_cache_pebble_cache_pebble_level_bytes_flushed_count'', ''remote_cache_pebble_cache_pebble_level_tables_compacted_count'',
     ''remote_cache_pebble_cache_pebble_level_tables_flushed_count'', ''remote_cache_pebble_cache_pebble_level_tables_ingested_count'',
     ''remote_cache_pebble_cache_pebble_level_tables_moved_count'', ''remote_cache_pebble_cache_pebble_op_count'',
     ''remote_cache_pebble_cache_pebble_op_latency_usec'', ''remote_cache_pebble_cache_pebble_block_cache_size_bytes'',
     ''remote_cache_pebble_cache_pebble_write_stall_count'', ''remote_cache_pebble_cache_pebble_write_stall_duration_usec'',
     ''remote_cache_pebble_cache_zombie_table_count'', ''remote_cache_pebble_cache_zombie_table_size_bytes'',
     ''remote_cache_pebble_cache_groupid_sample_count'', ''remote_cache_pebble_cache_num_chunks_per_file'',
     ''podman_soci_store_crash_count'', ''podman_get_soci_artifacts_latency_usec'', ''podman_get_soci_artifacts_outcome'',
     ''podman_image_pull_latency_msec'', ''proxy_byte_stream_reads'', ''proxy_content_addressable_storage_reads'',
     ''proxy_content_addressable_storage_digest_reads'', ''proxy_remote_atime_updates'', ''proxy_remote_atime_update_requests'']"

definition metric_names :: "string list" where
  "metric_names = names_1 @ names_2 @ names_3 @ names_4 @ names_5"

lemmas metric_names_defs = metric_names_def names_1_def names_2_def names_3_def names_4_def names_5_def

lemmas metric_makers = newCounter_def newGauge_def newHistogram_def

lemma local_names: "map local_name all_metrics = metric_names"
  by (simp add: all_metrics_def metric_data metric_makers local_name_def metric_names_defs)

text \<open>The codes of the characters that names are made of.\<close>

lemma name_codes:
  shows "of_char CHR ''_'' = (95::int)" "of_char CHR ''a'' = (97::int)" "of_char CHR ''b'' = (98::int)" "of_char CHR ''c'' = (99::int)"
    "of_char CHR ''d'' = (100::int)" "of_char CHR ''e'' = (101::int)" "of_char CHR ''f'' = (102::int)" "of_char CHR ''g'' = (103::int)"
    "of_char CHR ''h'' = (104::int)" "of_char CHR ''i'' = (105::int)" "of_char CHR ''j'' = (106::int)" "of_char CHR ''k'' = (107::int)"
    "of_char CHR ''l'' = (108::int)" "of_char CHR ''m'' = (109::int)" "of_char CHR ''n'' = (110::int)" "of_char CHR ''o'' = (111::int)"
    "of_char CHR ''p'' = (112::int)" "of_char CHR ''q'' = (113::int)" "of_char CHR ''r'' = (114::int)" "of_char CHR ''s'' = (115::int)"
    "of_char CHR ''t'' = (116::int)" "of_char CHR ''u'' = (117::int)" "of_char CHR ''v'' = (118::int)" "of_char CHR ''w'' = (119::int)"
    "of_char CHR ''x'' = (120::int)" "of_char CHR ''y'' = (121::int)" "of_char CHR ''z'' = (122::int)"
  by code_simp+

lemma name_chars:
  shows "name_char CHR ''_''" "name_char CHR ''a''" "name_char CHR ''b''" "name_char CHR ''c''" "name_char CHR ''d''" "name_char CHR ''e''"
    "name_char CHR ''f''" "name_char CHR ''g''" "name_char CHR ''h''" "name_char CHR ''i''" "name_char CHR ''j''" "name_char CHR ''k''"
    "name_char CHR ''l''" "name_char CHR ''m''" "name_char CHR ''n''" "name_char CHR ''o''" "name_char CHR ''p''" "name_char CHR ''q''"
    "name_char CHR ''r''" "name_char CHR ''s''" "name_char CHR ''t''" "name_char CHR ''u''" "name_char CHR ''v''" "name_char CHR ''w''"
    "name_char CHR ''x''" "name_char CHR ''y''" "name_char CHR ''z''"
  by (simp_all add: name_char_def name_codes)

text \<open>A hash that tells the names apart.\<close>

definition name_hash :: "string \<Rightarrow> int" where
  "name_hash s = foldl (\<lambda>a c. (a * 150 + of_char c) mod 4093) 0 s"

lemma hashes_1: "map name_hash names_1 = [1432, 120, 4047, 3801, 3412, 2999, 1228, 3575, 1106, 1687, 3325, 1605, 3697, 3334, 3500, 1663, 1484, 1793, 1001, 3531, 1653, 2611,
     3133, 1349, 292, 1562, 38, 1856, 961, 2362, 131, 1467, 3457, 1323, 266, 1731, 3504, 389, 938, 1834, 1267, 3454, 1440, 3157, 2108]"
  by code_simp

lemma hashes_2: "map name_hash names_2 = [2193, 791, 896, 3042, 1955, 2806, 45, 2328, 595, 2022, 1469, 1173, 660, 1790, 2338, 1900, 2261, 705, 2555, 739, 1149, 2794, 1517, 1927,
     3572, 1084, 3837, 1666, 1584, 3396, 2116, 1766, 3004, 2917, 3471, 463, 1389, 802, 2572, 2278, 2944, 3132, 2494, 1270, 1078]"
  by code_simp

lemma hashes_3: "map name_hash names_3 = [4031, 3072, 2194, 3178, 2930, 3614, 3061, 2171, 378, 852, 1835, 3555, 2622, 1963, 1359, 3521, 2708, 3261, 3519, 3259, 2796, 1122, 748,
     1975, 3039, 353, 1458, 1794, 2064, 1626, 815, 1677, 1439, 2283, 3548, 3090, 875, 3838, 1423, 3085, 2428, 174, 1935, 1979, 3634]"
  by code_simp

lemma hashes_4: "map name_hash names_4 = [1741, 3414, 422, 2937, 2762, 1783, 2827, 777, 3538, 717, 3828, 3505, 238, 3520, 3530, 3729, 603, 1046, 1156, 671, 1189, 3958, 317, 909,
     1221, 2128, 222, 2245, 2406, 1995, 1180, 1633, 2139, 420, 4033, 1672, 3470, 2907, 2847, 940, 772, 1853, 2588, 1617, 2461, 846]"
  by code_simp

lemma hashes_5: "map name_hash names_5 = [1038, 2501, 863, 1350, 3851, 1284, 1499, 2398, 2432, 3038, 1148, 464, 1492, 1160, 2943, 3812, 3904, 3339, 1683, 370, 3258, 2287, 3563,
     3374, 2658, 2207, 1319, 1224, 2964, 1919, 2578, 3356, 1258, 1226, 822, 3514, 3417, 374, 712, 1839, 1651, 3613, 1376, 1115, 2435, 1786]"
  by code_simp

lemma names_distinct: "distinct metric_names"
proof -
  have "distinct (map name_hash metric_names)" by (simp add: metric_names_def hashes_1 hashes_2 hashes_3 hashes_4 hashes_5)
  then show ?thesis by (simp add: distinct_map)
qed

lemma names_valid: "list_all (\<lambda>n. list_all name_char n) metric_names"
  by (simp add: metric_names_defs name_chars)

definition metric_labels :: "string list list" where
  "metric_labels = [[InvocationStatusLabel, BazelExitCode, BazelCommand], [BazelVersion], [InvocationStatusLabel, BazelCommand],
     [InvocationStatusLabel, GroupID], [StatusLabel], [], [], [], [], [], [], [CacheTypeLabel, CacheEventTypeLabel],
     [CacheTypeLabel, GroupID], [CacheTypeLabel, ServerName], [GroupID], [CacheTypeLabel], [], [CacheTypeLabel, ServerName], [GroupID],
     [CacheTypeLabel], [PartitionID, CacheNameLabel], [PartitionID, CacheNameLabel], [PartitionID, CacheNameLabel],
     [PartitionID, CacheNameLabel], [PartitionID, CacheNameLabel], [PartitionID, CacheNameLabel],
     [PartitionID, CacheNameLabel, CacheTypeLabel], [CacheNameLabel], [CacheNameLabel], [CacheNameLabel], [CacheNameLabel],
     [CacheNameLabel], [DistributedCacheOperation, CacheHitMissStatus], [CacheRequestType], [CacheRequestType], [], [CacheTypeLabel],
     [CacheTypeLabel], [TreeCacheLookupStatus, TreeCacheLookupLevel], [TreeCacheSplitLookupStatus], [], [TreeCacheSetStatus],
     [TreeCacheOperation], [LookasideCacheLookupStatus], [LookasideCacheEvictionReason],
     [ExitCodeLabel, StatusHumanReadableLabel, IsolationTypeLabel], [], [ExecutedActionStageLabel, GroupID], [OS, GroupID],
     [PSIResourceLabel, PSIStallTypeLabel], [TaskSizeReadStatusLabel, IsolationTypeLabel, OS, Arch, GroupID],
     [TaskSizeWriteStatusLabel, IsolationTypeLabel, OS, Arch, GroupID], [StatusHumanReadableLabel], [], [], [GroupID], [GroupID, OS, Arch],
     [VersionLabel], [GroupID], [GroupID], [GroupID], [GroupID], [GroupID], [ExecutedActionStageLabel], [], [], [], [], [], [], [], [], [],
     [], [], [], [], [], [Stage], [], [], [FileName_label], [FileName_label], [FileName_label, ChunkSource], [FileName_label], [Stage],
     [FileName_label, EventName, Stage], [GroupID, EventName, RecycledRunnerStatus], [RecycleRunnerRequestStatusLabel], [], [],
     [RunnerPoolFailedRecycleReason], [], [], [FileCacheRequestStatusLabel], [], [], [], [StatusLabel, BlobstoreTypeLabel],
     [BlobstoreTypeLabel], [BlobstoreTypeLabel], [StatusLabel, BlobstoreTypeLabel], [BlobstoreTypeLabel], [BlobstoreTypeLabel],
     [StatusLabel, BlobstoreTypeLabel], [BlobstoreTypeLabel], [SQLQueryTemplateLabel], [SQLQueryTemplateLabel], [SQLQueryTemplateLabel],
     [SQLDBRoleLabel], [SQLConnectionStatusLabel, SQLDBRoleLabel], [SQLDBRoleLabel], [SQLDBRoleLabel], [SQLDBRoleLabel], [SQLDBRoleLabel],
     [SQLDBRoleLabel], [HTTPRouteLabel, HTTPMethodLabel], [HTTPRouteLabel, HTTPMethodLabel, HTTPResponseCodeLabel],
     [HTTPRouteLabel, HTTPMethodLabel, HTTPResponseCodeLabel], [StatusLabel], [WebhookEventName],
     [StatusLabel, CacheTierLabel, CacheBackendLabel], [CacheTierLabel, CacheBackendLabel], [CacheTierLabel, CacheBackendLabel],
     [StatusLabel, CacheTierLabel, CacheBackendLabel], [CacheTierLabel, CacheBackendLabel], [CacheTierLabel, CacheBackendLabel],
     [StatusLabel, CacheTierLabel, CacheBackendLabel], [CacheTierLabel, CacheBackendLabel], [CacheTierLabel, CacheBackendLabel],
     [CacheTierLabel, CacheBackendLabel], [StatusLabel, CacheTierLabel, CacheBackendLabel], [CacheTierLabel, CacheBackendLabel],
     [CacheTierLabel, CacheBackendLabel], [CacheTierLabel, CacheBackendLabel], [StatusLabel, CacheTierLabel, CacheBackendLabel],
     [CacheTierLabel, CacheBackendLabel], [StatusLabel, CacheTierLabel, CacheBackendLabel], [CacheTierLabel, CacheBackendLabel],
     [CacheTierLabel, CacheBackendLabel], [VersionLabel, CommitLabel], [EventName], [HealthCheckName],
     [GRPCFullMethodLabel, QuotaKey, QuotaAllowed], [], [ClickhouseTableName, ClickhouseStatusLabel], [SQLQueryTemplateLabel],
     [SQLQueryTemplateLabel], [SQLQueryTemplateLabel], [CompressionType], [CompressionType], [CacheNameLabel, CompressionType],
     [CacheNameLabel, CompressionType], [CacheNameLabel, CompressionType], [CacheTypeLabel, ServerName],
     [CacheTypeLabel, ServerName, GroupID], [CacheTypeLabel, ServerName], [CacheTypeLabel, ServerName, GroupID],
     [CacheTypeLabel, ServerName], [CacheTypeLabel, ServerName], [StatusHumanReadableLabel], [RaftNodeHostIDLabel], [RaftRangeIDLabel],
     [RaftRangeIDLabel], [RaftRangeIDLabel], [RaftRangeIDLabel], [RaftRangeIDLabel], [RaftNodeHostIDLabel, StatusHumanReadableLabel],
     [RaftNodeHostIDLabel, RaftMoveLabel, StatusHumanReadableLabel], [RaftRangeCacheEventTypeLabel], [RaftRangeIDLabel],
     [RaftRangeIDLabel], [], [RaftListenerID, RaftListenerEventType], [RaftRangeIDLabel, RaftLeaseActionLabel, StatusHumanReadableLabel],
     [APIKeyLookupStatus], [StatusHumanReadableLabel], [], [], [], [], [], [], [], [], [PartitionID, CacheNameLabel], [CacheNameLabel],
     [PartitionID, CacheNameLabel], [PartitionID, CacheNameLabel], [PartitionID, CacheNameLabel], [CompactionType, CacheNameLabel],
     [CacheNameLabel], [CacheNameLabel], [CacheNameLabel], [CacheNameLabel], [PebbleLevel, CacheNameLabel], [PebbleLevel, CacheNameLabel],
     [PebbleLevel, CacheNameLabel], [PebbleLevel, CacheNameLabel], [PebbleLevel, CacheNameLabel], [PebbleLevel, CacheNameLabel],
     [PebbleLevel, CacheNameLabel], [PebbleLevel, CacheNameLabel], [PebbleLevel, CacheNameLabel], [PebbleLevel, CacheNameLabel],
     [PebbleLevel, CacheNameLabel], [PebbleLevel, CacheNameLabel], [PebbleLevel, CacheNameLabel], [PebbleLevel, CacheNameLabel],
     [PebbleID, PebbleOperation], [PebbleID, PebbleOperation], [CacheNameLabel], [CacheNameLabel], [CacheNameLabel], [CacheNameLabel],
     [CacheNameLabel], [GroupID, CacheNameLabel], [CacheNameLabel], [], [ContainerImageTag], [GetSociArtifactsOutcomeTag],
     [ContainerImageTag], [CacheHitMissStatus], [CASOperation, CacheHitMissStatus], [CASOperation, CacheHitMissStatus],
     [GroupID, AtimeUpdateOutcome], [GroupID, StatusLabel]]"

lemma labels_of: "map mt_labels all_metrics = metric_labels"
  by (simp add: all_metrics_def metric_data metric_makers metric_labels_def)

lemma labels_valid: "list_all (\<lambda>ls. list_all valid_label ls \<and> distinct ls \<and> ''le'' \<notin> set ls) metric_labels"
  by code_simp

lemma names_given: "list_all (\<lambda>m. mt_name m \<noteq> []) all_metrics"
  by (simp add: all_metrics_def metric_data metric_makers)

section \<open>The buckets are right\<close>

lemma is_float_numeral: "(numeral w :: int) < 2 ^ 53 \<Longrightarrow> is_float (numeral w)"
  using int_is_float [of "numeral w"] by simp

lemma range_ok:
  assumes "is_float lo" and "lo < hi" and "is_float f" and "1 < f"
  shows "buckets_ok (Computed (exponentialBucketRange lo hi f))"
  using bucket_range_increasing [OF assms(1,3,2,4)] by auto

lemma duration_range_ok:
  assumes "0 < a" and "a < b" and "b < 2 ^ 53" and "is_float f" and "1 < f"
  shows "buckets_ok (Computed (exponentialBucketRange (float64_of_int a) (float64_of_int b) f))"
  using assms by (intro range_ok) (simp_all add: float64_of_int_exact int_is_float)

lemma explicit_0: "buckets_ok (Explicit (customDurationMsecBuckets [(6 * hour), (12 * hour), (1 * day), (2 * day), (3 * day), (4 * day), (5 * day), (6 * day), (7 * day), (14 * day), (21 * day)]))"
  by (simp add: customDurationMsecBuckets_def Milliseconds_def time_units float64_of_int_exact)

text \<open>The decimal literals of the ratios, rounded.\<close>

lemma literal_1:
  shows "round64 (1 / 100) = 5764607523034235 / 576460752303423488"
    "round64 (1 / 50) = 5764607523034235 / 288230376151711744"
    "round64 (3 / 100) = 1080863910568919 / 36028797018963968"
  by code_simp+

lemma literal_2:
  shows "round64 (1 / 25) = 5764607523034235 / 144115188075855872"
    "round64 (1 / 20) = 3602879701896397 / 72057594037927936"
    "round64 (3 / 50) = 1080863910568919 / 18014398509481984"
  by code_simp+

lemma literal_3:
  shows "round64 (7 / 100) = 1261007895663739 / 18014398509481984"
    "round64 (2 / 25) = 5764607523034235 / 72057594037927936"
    "round64 (9 / 100) = 3242591731706757 / 36028797018963968"
  by code_simp+

lemma literal_4:
  shows "round64 (1 / 10) = 3602879701896397 / 36028797018963968"
    "round64 (1 / 5) = 3602879701896397 / 18014398509481984"
    "round64 (3 / 10) = 5404319552844595 / 18014398509481984"
  by code_simp+

lemma literal_5:
  shows "round64 (2 / 5) = 3602879701896397 / 9007199254740992"
    "round64 (1 / 2) = 1 / 2"
    "round64 (3 / 4) = 3 / 4"
  by code_simp+

lemma explicit_1: "buckets_ok (Explicit [0, (round64 (1 / 100)), (round64 (1 / 50)), (round64 (3 / 100)), (round64 (1 / 25)), (round64 (1 / 20)), (round64 (3 / 50)), (round64 (7 / 100)), (round64 (2 / 25)), (round64 (9 / 100)), (round64 (1 / 10)), (round64 (1 / 5)), (round64 (3 / 10)), (round64 (2 / 5)), (round64 (1 / 2)), (round64 (3 / 4)), 1])"
  by (simp add: literal_1 literal_2 literal_3 literal_4 literal_5)

lemma explicit_2: "buckets_ok (Explicit [1, 2, 3, 4, 5, 6, 7, 8, 9, 10, 15, 20, 25, 30, 35, 40, 45, 50, 60, 70, 80, 90, 100])"
  by code_simp

lemma explicit_3: "buckets_ok (Explicit (customDurationMsecBuckets [(25 * millisecond), (50 * millisecond), (100 * millisecond), (500 * millisecond), (750 * millisecond), (1 * second), (3 * second), (5 * second), (10 * second), (15 * second), (20 * second), (30 * second), (45 * second), (1 * minute), (90 * second), (2 * minute), (3 * minute), (5 * minute), (8 * minute), (15 * minute), (30 * minute), (45 * minute), (1 * hour), (3 * hour), (5 * hour), (8 * hour), (15 * hour), (24 * hour)]))"
  by (simp add: customDurationMsecBuckets_def Milliseconds_def time_units float64_of_int_exact)

lemma explicit_4: "buckets_ok (Explicit (customDurationMsecBuckets [(1 * minute), (5 * minute), (10 * minute), (30 * minute), (1 * hour), (3 * hour), (6 * hour), (12 * hour), (1 * day), (2 * day), (3 * day), (4 * day), (5 * day), (6 * day), (7 * day), (14 * day), (21 * day)]))"
  by (simp add: customDurationMsecBuckets_def Milliseconds_def time_units float64_of_int_exact)

lemma explicit_5: "buckets_ok (Explicit [1, 10, 50, 100, 500, 1000, 1500, 2000, 2500])"
  by code_simp

lemmas explicit_ok = explicit_0 explicit_1 explicit_2 explicit_3 explicit_4 explicit_5

lemma kinds_ok: "list_all (\<lambda>m. case mt_kind m of Histogram b \<Rightarrow> buckets_ok b | _ \<Rightarrow> True) all_metrics"
proof -
  have usec: "0 < Microseconds a \<Longrightarrow> Microseconds a < Microseconds b \<Longrightarrow> Microseconds b < 2 ^ 53 \<Longrightarrow> is_float f \<Longrightarrow> 1 < f
      \<Longrightarrow> buckets_ok (Computed (durationUsecBuckets a b f))" for a b f
    unfolding durationUsecBuckets_def by (rule duration_range_ok)
  have msec: "0 < Milliseconds a \<Longrightarrow> Milliseconds a < Milliseconds b \<Longrightarrow> Milliseconds b < 2 ^ 53 \<Longrightarrow> is_float f \<Longrightarrow> 1 < f
      \<Longrightarrow> buckets_ok (Computed (durationMsecBuckets a b f))" for a b f
    unfolding durationMsecBuckets_def by (rule duration_range_ok)
  have coarse: "buckets_ok (Computed coarseMicrosecondToHour)"
    unfolding coarseMicrosecondToHour_def by (rule usec) (simp_all add: Microseconds_def time_units is_float_numeral)
  have pos: "1 / 1000 \<le> x \<Longrightarrow> 0 < round64 x" for x by (rule float_pos [OF round64_float [OF normal_large]])
  note units = Microseconds_def Milliseconds_def time_units
  show ?thesis
    unfolding all_metrics_def list.pred_inject
    by (intro conjI TrueI; simp add: metric_data metric_makers explicit_ok coarse pos del: buckets_ok.simps(1,2) mult_1 mult_1_left One_nat_def;
        (rule usec msec range_ok; simp add: units is_float_numeral int_is_float literal_floats float64_of_int_exact)?)
qed

lemma metrics_well_formed: "list_all well_formed all_metrics"
proof (unfold list_all_iff, rule ballI)
  fix m assume m: "m \<in> set all_metrics"
  have "local_name m \<in> set metric_names" "mt_labels m \<in> set metric_labels"
    using m by (auto simp flip: local_names labels_of)
  then show "well_formed m"
    using names_valid labels_valid names_given kinds_ok m
    by (cases "mt_kind m") (fastforce simp: well_formed_def names_ok_def list_all_iff)+
qed

lemma init_metrics_fresh:
  assumes "\<And>names m. well_formed m \<Longrightarrow> fqName m \<notin> set names \<Longrightarrow> accepts names m"
    and "list_all well_formed ms" and "distinct (map fqName ms)" and "set (map fqName ms) \<inter> set names = {}"
  shows "init_metrics accepts names ms = Some (rev (map fqName ms) @ names)"
  using assms(2-) by (induction ms arbitrary: names) (auto simp: assms(1))

text \<open>C29: initialising the package never panics: every registry that accepts collectors with valid names and labels, buckets that increase and a new
  name, and that holds no name of this namespace before, accepts all of them. In particular no two have the same name, no collector has a label
  twice, although several constants are the same label, and all computed ranges of buckets end.\<close>

theorem metrics_registered:
  assumes "\<And>names m. well_formed m \<Longrightarrow> fqName m \<notin> set names \<Longrightarrow> accepts names m"
    and "\<And>n. n \<in> set names \<Longrightarrow> \<not> HasPrefix n ''buildbuddy_''"
  shows "init_metrics accepts names all_metrics = Some (rev (map fqName all_metrics) @ names)"
proof (rule init_metrics_fresh [OF assms(1) metrics_well_formed])
  have "map fqName all_metrics = map (\<lambda>n. ''buildbuddy_'' @ n) metric_names" by (simp add: fqName_def flip: local_names)
  then show "distinct (map fqName all_metrics)" using names_distinct by (simp add: distinct_map inj_on_def)
  show "set (map fqName all_metrics) \<inter> set names = {}" using assms(2) by (fastforce simp: fqName_def HasPrefix_iff)
qed

theorem metrics_registered_witness:
  "init_metrics (\<lambda>names m. well_formed m \<and> fqName m \<notin> set names) [''go_goroutines'', ''process_cpu_seconds_total''] all_metrics
    = Some (rev (map fqName all_metrics) @ [''go_goroutines'', ''process_cpu_seconds_total''])"
  by (rule metrics_registered) (auto simp: HasPrefix_iff)

end
