(* ===== verification/Ch_Json.thy ===== *)
theory Ch_Json
  imports Metric_Buckets Go_Strings
begin

text \<open>
  Go's \<open>encoding/json\<close> over the types of the hypervisor's client. Encoding and decoding go by
  reflection over the declared types, so these are data here: \<open>go_type\<close> a type, \<open>struct_field\<close> a field of a struct with its tag, and a
  table from the names of structs to their fields. \<open>marshal\<close> leaves out empty fields marked \<open>omitempty\<close>;
  \<open>unmarshal\<close> decodes into a value that is there already, as \<open>Decode\<close> does. JSON texts are the values they denote; strings are ASCII, which
  the encoder writes and reads back unchanged; elements of a slice are decoded from zero.
\<close>

datatype json = JNull | JBool bool | JInt int | JReal string | JStr string | JArr "json list" | JObj "(string \<times> json) list"

datatype go_type = GBool | GInt | GInt16 | GInt64 | GString | GPtr string | GSlice go_type | GMap go_type | GAny

record struct_field =
  fd_Name :: string
  fd_Type :: go_type
  fd_Key :: string
  fd_Required :: bool

type_synonym types = "string \<Rightarrow> struct_field list option"

text \<open>\<open>VNil\<close> is the nil pointer, slice, map or interface value.\<close>

datatype go_val = VBool bool | VInt int | VString string | VNil | VPtr go_val | VStruct "go_val list" | VSlice "go_val list"
  | VMap "(string \<times> go_val) list" | VAny json

fun zero_of :: "go_type \<Rightarrow> go_val" where
  "zero_of GBool = VBool False"
| "zero_of GInt = VInt 0"
| "zero_of GInt16 = VInt 0"
| "zero_of GInt64 = VInt 0"
| "zero_of GString = VString []"
| "zero_of _ = VNil"

definition zero_struct :: "struct_field list \<Rightarrow> go_val list" where
  "zero_struct fs = map (\<lambda>f. zero_of (fd_Type f)) fs"

section \<open>Encoding\<close>

fun isEmptyValue :: "go_val \<Rightarrow> bool" where
  "isEmptyValue (VBool b) = (\<not> b)"
| "isEmptyValue (VInt i) = (i = 0)"
| "isEmptyValue (VString s) = (s = [])"
| "isEmptyValue VNil = True"
| "isEmptyValue (VSlice vs) = (vs = [])"
| "isEmptyValue (VMap m) = (m = [])"
| "isEmptyValue _ = False"

fun elem :: "go_type \<Rightarrow> go_type" where
  "elem (GSlice t) = t"
| "elem (GMap t) = t"
| "elem t = t"

text \<open>Reflection looks at the value; only a struct and the elements of slices and maps need the declared type.\<close>

fun marshal :: "types \<Rightarrow> go_type \<Rightarrow> go_val \<Rightarrow> json"
and marshal_list :: "types \<Rightarrow> go_type \<Rightarrow> go_val list \<Rightarrow> json list"
and marshal_fields :: "types \<Rightarrow> struct_field list \<Rightarrow> go_val list \<Rightarrow> (string \<times> json) list"
and marshal_map :: "types \<Rightarrow> go_type \<Rightarrow> (string \<times> go_val) list \<Rightarrow> (string \<times> json) list" where
  "marshal T t (VBool b) = JBool b"
| "marshal T t (VInt i) = JInt i"
| "marshal T t (VString s) = JStr s"
| "marshal T t VNil = JNull"
| "marshal T t (VPtr v) = marshal T t v"
| "marshal T t (VStruct vs) = (case t of GPtr n \<Rightarrow> (case T n of Some fs \<Rightarrow> JObj (marshal_fields T fs vs) | None \<Rightarrow> JNull) | _ \<Rightarrow> JNull)"
| "marshal T t (VSlice vs) = JArr (marshal_list T (elem t) vs)"
| "marshal T t (VMap m) = JObj (marshal_map T (elem t) m)"
| "marshal T t (VAny j) = j"
| "marshal_list T t [] = []"
| "marshal_list T t (v # vs) = marshal T t v # marshal_list T t vs"
| "marshal_fields T fs [] = []"
| "marshal_fields T fs (v # vs) = (case fs of [] \<Rightarrow> []
     | f # fs' \<Rightarrow> (if \<not> fd_Required f \<and> isEmptyValue v then marshal_fields T fs' vs
         else (fd_Key f, marshal T (fd_Type f) v) # marshal_fields T fs' vs))"
| "marshal_map T t [] = []"
| "marshal_map T t ((k, v) # m) = (k, marshal T t v) # marshal_map T t m"

section \<open>Decoding\<close>

definition in_int16 :: "int \<Rightarrow> bool" where
  "in_int16 i \<longleftrightarrow> - 32768 \<le> i \<and> i \<le> 32767"

text \<open>A number decoded into an interface value becomes a float.\<close>

definition float_int :: "int \<Rightarrow> int" where
  "float_int i = (if i = 0 then 0 else if 0 < i then \<lfloor>float64_of_int i\<rfloor> else - \<lfloor>float64_of_int (- i)\<rfloor>)"

fun dynamic :: "json \<Rightarrow> json"
and dynamic_list :: "json list \<Rightarrow> json list"
and dynamic_obj :: "(string \<times> json) list \<Rightarrow> (string \<times> json) list" where
  "dynamic (JInt i) = JInt (float_int i)"
| "dynamic (JArr js) = JArr (dynamic_list js)"
| "dynamic (JObj m) = JObj (dynamic_obj m)"
| "dynamic j = j"
| "dynamic_list [] = []"
| "dynamic_list (j # js) = dynamic j # dynamic_list js"
| "dynamic_obj [] = []"
| "dynamic_obj ((k, j) # m) = (k, dynamic j) # dynamic_obj m"

definition lower :: "char \<Rightarrow> char" where
  "lower c = (let n = of_char c :: nat in if 65 \<le> n \<and> n \<le> 90 then char_of (n + 32) else c)"

text \<open>The field a member of an object belongs to: the one with its key, or else one whose key differs in case only.\<close>

fun position :: "('a \<Rightarrow> bool) \<Rightarrow> 'a list \<Rightarrow> nat option" where
  "position P [] = None"
| "position P (x # xs) = (if P x then Some 0 else map_option Suc (position P xs))"

definition find_field :: "struct_field list \<Rightarrow> string \<Rightarrow> nat option" where
  "find_field fs k = (case position (\<lambda>f. fd_Key f = k) fs of
     Some i \<Rightarrow> Some i | None \<Rightarrow> position (\<lambda>f. map lower (fd_Key f) = map lower k) fs)"

fun put_key :: "string \<Rightarrow> 'a \<Rightarrow> (string \<times> 'a) list \<Rightarrow> (string \<times> 'a) list" where
  "put_key k v [] = [(k, v)]"
| "put_key k v ((k', v') # m) = (if k = k' then (k, v) # m else (k', v') # put_key k v m)"

fun as_struct :: "struct_field list \<Rightarrow> go_val \<Rightarrow> go_val list" where
  "as_struct fs (VPtr (VStruct vs)) = vs"
| "as_struct fs _ = zero_struct fs"

fun as_map :: "go_val \<Rightarrow> (string \<times> go_val) list" where
  "as_map (VMap m) = m"
| "as_map _ = []"

text \<open>\<open>None\<close> is an error: a value of the wrong kind, or a number out of range.\<close>

fun unmarshal :: "types \<Rightarrow> go_type \<Rightarrow> json \<Rightarrow> go_val \<Rightarrow> go_val option"
and unmarshal_list :: "types \<Rightarrow> go_type \<Rightarrow> json list \<Rightarrow> go_val list option"
and unmarshal_fields :: "types \<Rightarrow> struct_field list \<Rightarrow> (string \<times> json) list \<Rightarrow> go_val list \<Rightarrow> go_val list option"
and unmarshal_map :: "types \<Rightarrow> go_type \<Rightarrow> (string \<times> json) list \<Rightarrow> (string \<times> go_val) list \<Rightarrow> (string \<times> go_val) list option" where
  "unmarshal T t JNull v = Some (case t of GPtr _ \<Rightarrow> VNil | GSlice _ \<Rightarrow> VNil | GMap _ \<Rightarrow> VNil | GAny \<Rightarrow> VNil | _ \<Rightarrow> v)"
| "unmarshal T t (JBool b) v = (case t of GBool \<Rightarrow> Some (VBool b) | GAny \<Rightarrow> Some (VAny (JBool b)) | _ \<Rightarrow> None)"
| "unmarshal T t (JInt i) v = (case t of
     GInt \<Rightarrow> (if in_int64 i then Some (VInt i) else None)
   | GInt16 \<Rightarrow> (if in_int16 i then Some (VInt i) else None)
   | GInt64 \<Rightarrow> (if in_int64 i then Some (VInt i) else None)
   | GAny \<Rightarrow> Some (VAny (dynamic (JInt i)))
   | _ \<Rightarrow> None)"
| "unmarshal T t (JReal r) v = (case t of GAny \<Rightarrow> Some (VAny (JReal r)) | _ \<Rightarrow> None)"
| "unmarshal T t (JStr s) v = (case t of GString \<Rightarrow> Some (VString s) | GAny \<Rightarrow> Some (VAny (JStr s)) | _ \<Rightarrow> None)"
| "unmarshal T t (JArr js) v = (case t of
     GSlice t' \<Rightarrow> map_option VSlice (unmarshal_list T t' js)
   | GAny \<Rightarrow> Some (VAny (dynamic (JArr js)))
   | _ \<Rightarrow> None)"
| "unmarshal T t (JObj m) v = (case t of
     GPtr n \<Rightarrow> (case T n of None \<Rightarrow> None
       | Some fs \<Rightarrow> map_option (\<lambda>vs. VPtr (VStruct vs)) (unmarshal_fields T fs m (as_struct fs v)))
   | GMap t' \<Rightarrow> map_option VMap (unmarshal_map T t' m (as_map v))
   | GAny \<Rightarrow> Some (VAny (dynamic (JObj m)))
   | _ \<Rightarrow> None)"
| "unmarshal_list T t [] = Some []"
| "unmarshal_list T t (j # js) = (case unmarshal T t j (zero_of t) of None \<Rightarrow> None
     | Some v \<Rightarrow> map_option ((#) v) (unmarshal_list T t js))"
| "unmarshal_fields T fs [] vs = Some vs"
| "unmarshal_fields T fs ((k, j) # m) vs = (case find_field fs k of
     None \<Rightarrow> unmarshal_fields T fs m vs
   | Some i \<Rightarrow> (case unmarshal T (fd_Type (fs ! i)) j (vs ! i) of None \<Rightarrow> None
       | Some v \<Rightarrow> unmarshal_fields T fs m (vs[i := v])))"
| "unmarshal_map T t [] kvs = Some kvs"
| "unmarshal_map T t ((k, j) # m) kvs = (case unmarshal T t j (zero_of t) of None \<Rightarrow> None
     | Some v \<Rightarrow> unmarshal_map T t m (put_key k v kvs))"

section \<open>Values that come back unchanged\<close>

fun nilable :: "go_type \<Rightarrow> bool" where
  "nilable (GPtr _) = True"
| "nilable (GSlice _) = True"
| "nilable (GMap _) = True"
| "nilable GAny = True"
| "nilable _ = False"

definition ascii :: "string \<Rightarrow> bool" where
  "ascii s \<longleftrightarrow> list_all (\<lambda>c. of_char c < (128 :: nat)) s"

text \<open>Values of a type, without dynamic parts. An empty slice or map in a field marked \<open>omitempty\<close> is excluded: it comes back as nil.\<close>

fun plain :: "types \<Rightarrow> go_type \<Rightarrow> go_val \<Rightarrow> bool"
and plain_list :: "types \<Rightarrow> go_type \<Rightarrow> go_val list \<Rightarrow> bool"
and plain_fields :: "types \<Rightarrow> struct_field list \<Rightarrow> go_val list \<Rightarrow> bool"
and plain_map :: "types \<Rightarrow> go_type \<Rightarrow> (string \<times> go_val) list \<Rightarrow> bool" where
  "plain T t (VBool b) = (t = GBool)"
| "plain T t (VInt i) = ((t = GInt \<or> t = GInt64) \<and> in_int64 i \<or> t = GInt16 \<and> in_int16 i)"
| "plain T t (VString s) = (t = GString \<and> ascii s)"
| "plain T t VNil = nilable t"
| "plain T t (VPtr v) = (case (t, v) of (GPtr n, VStruct vs) \<Rightarrow> (case T n of None \<Rightarrow> False | Some fs \<Rightarrow> plain_fields T fs vs) | _ \<Rightarrow> False)"
| "plain T t (VStruct vs) = False"
| "plain T t (VSlice vs) = (case t of GSlice t' \<Rightarrow> plain_list T t' vs | _ \<Rightarrow> False)"
| "plain T t (VMap m) = (case t of GMap t' \<Rightarrow> distinct (map fst m) \<and> plain_map T t' m | _ \<Rightarrow> False)"
| "plain T t (VAny j) = False"
| "plain_list T t [] = True"
| "plain_list T t (v # vs) = (plain T t v \<and> plain_list T t vs)"
| "plain_fields T fs [] = (fs = [])"
| "plain_fields T fs (v # vs) = (case fs of [] \<Rightarrow> False
     | f # fs' \<Rightarrow> plain T (fd_Type f) v \<and> (fd_Required f \<or> v \<noteq> VSlice [] \<and> v \<noteq> VMap []) \<and> plain_fields T fs' vs)"
| "plain_map T t [] = True"
| "plain_map T t ((k, v) # m) = (plain T t v \<and> plain_map T t m)"

definition keys_distinct :: "types \<Rightarrow> bool" where
  "keys_distinct T \<longleftrightarrow> (\<forall>n fs. T n = Some fs \<longrightarrow> distinct (map fd_Key fs))"

lemma position_append: "\<forall>x\<in>set xs. \<not> P x \<Longrightarrow> P y \<Longrightarrow> position P (xs @ y # ys) = Some (length xs)"
  by (induction xs) auto

lemma find_field_at: "distinct (map fd_Key (xs @ f # ys)) \<Longrightarrow> find_field (xs @ f # ys) (fd_Key f) = Some (length xs)"
proof -
  assume "distinct (map fd_Key (xs @ f # ys))"
  then have "fd_Key f \<notin> fd_Key ` set xs" by simp
  then have "\<forall>g\<in>set xs. fd_Key g \<noteq> fd_Key f" by (metis imageI)
  then show ?thesis using position_append [of xs "\<lambda>g. fd_Key g = fd_Key f" f ys] by (simp add: find_field_def)
qed

lemma put_key_new: "k \<notin> set (map fst m) \<Longrightarrow> put_key k v m = m @ [(k, v)]"
  by (induction m) auto

text \<open>An empty value of a plain field is its zero.\<close>

lemma plain_empty:
  assumes "plain T t v" and "isEmptyValue v" and "v \<noteq> VSlice []" and "v \<noteq> VMap []"
  shows "v = zero_of t"
  using assms by (cases v; cases t) (auto split: option.splits)

lemma zero_of_nilable: "nilable t \<Longrightarrow> zero_of t = VNil"
  by (cases t) auto

lemma unmarshal_field:
  assumes "distinct (map fd_Key (xs @ f # fs))" and "length us = length xs" and "unmarshal T (fd_Type f) j (zero_of (fd_Type f)) = Some v"
  shows "unmarshal_fields T (xs @ f # fs) ((fd_Key f, j) # m) (us @ zero_struct (f # fs))
    = unmarshal_fields T (xs @ f # fs) m ((us @ [v]) @ zero_struct fs)"
  using find_field_at [OF assms(1)] assms(2,3) by (simp add: zero_struct_def nth_append list_update_append)

lemma unmarshal_marshal:
  assumes "keys_distinct T"
  shows "plain T t v \<Longrightarrow> unmarshal T t (marshal T t v) (zero_of t) = Some v"
    and "plain_list T t vs \<Longrightarrow> unmarshal_list T t (marshal_list T t vs) = Some vs"
    and "plain_fields T fs ws \<Longrightarrow> distinct (map fd_Key (xs @ fs)) \<Longrightarrow> length us = length xs
      \<Longrightarrow> unmarshal_fields T (xs @ fs) (marshal_fields T fs ws) (us @ zero_struct fs) = Some (us @ ws)"
    and "plain_map T t m \<Longrightarrow> distinct (map fst (acc @ m)) \<Longrightarrow> unmarshal_map T t (marshal_map T t m) acc = Some (acc @ m)"
  using assms
proof (induction T t v and T t vs and T fs ws and T t m arbitrary: and and xs us and acc rule: plain_plain_list_plain_fields_plain_map.induct)
  case (2 T t i)
  then show ?case by (cases t) auto
next
  case (4 T t)
  then show ?case by (cases t) auto
next
  case (5 T t v)
  then obtain n vs fs where [simp]: "t = GPtr n" "v = VStruct vs" and T: "T n = Some fs" and p: "plain_fields T fs vs"
    by (auto split: go_type.splits go_val.splits option.splits)
  have "distinct (map fd_Key fs)" using 5(3) T by (auto simp: keys_distinct_def)
  then show ?case using 5(1) [of "GPtr n" v n vs fs "[]" "[]"] p T 5(3) by simp
next
  case (12 T fs)
  then show ?case by (simp add: zero_struct_def)
next
  case (13 T fs v vs)
  then obtain f fs' where fs: "fs = f # fs'" and v: "plain T (fd_Type f) v" "fd_Required f \<or> v \<noteq> VSlice [] \<and> v \<noteq> VMap []"
    and vs: "plain_fields T fs' vs" by (auto split: list.splits)
  have d: "distinct (map fd_Key ((xs @ [f]) @ fs'))" using 13(4) by (simp add: fs)
  have rest: "unmarshal_fields T (xs @ f # fs') (marshal_fields T fs' vs) ((us @ [v]) @ zero_struct fs') = Some (us @ v # vs)"
    using 13(2) [OF fs vs d _ 13(6), of "us @ [v]"] 13(5) by simp
  show ?case
  proof (cases "\<not> fd_Required f \<and> isEmptyValue v")
    case True
    then have "v = zero_of (fd_Type f)" using plain_empty v by blast
    then show ?thesis using rest True by (simp add: fs zero_struct_def)
  next
    case False
    have "unmarshal T (fd_Type f) (marshal T (fd_Type f) v) (zero_of (fd_Type f)) = Some v" by (rule 13(1) [OF fs v(1) 13(6)])
    from unmarshal_field [OF 13(4) [unfolded fs] 13(5) this] rest False show ?thesis by (auto simp: fs)
  qed
next
  case (15 T t k v m)
  then show ?case by (simp add: put_key_new)
qed (auto split: go_type.splits)

end
