(* ===== verification/Ch_Client.thy ===== *)
theory Ch_Client
  imports Ch_Json Kube_Monad
begin

text \<open>
  \<open>src/pkg/cloudhypervisor/client.go\<close>: the client of the hypervisor's HTTP API. Every method has the
  same body, as the template it is generated from: encode the argument, build the request, send it to the
  socket of the VM, fail on a status from 400 on, decode the answer. \<open>Client_call\<close> is that body; method, path and the types of argument and
  result are its arguments. A method that returns only an error returns \<open>VNil\<close>. The declared structs are lists of fields with
  their JSON tags. Building and sending a request are parameters. The body of an answer is the JSON value it starts with, or \<open>None\<close>.
\<close>

named_theorems client_data \<open>methods and types of the client\<close>

section \<open>Types\<close>

definition opt :: "string \<Rightarrow> go_type \<Rightarrow> string \<Rightarrow> struct_field" where
  "opt n t k = \<lparr>fd_Name = n, fd_Type = t, fd_Key = k, fd_Required = False\<rparr>"

definition req :: "string \<Rightarrow> go_type \<Rightarrow> string \<Rightarrow> struct_field" where
  "req n t k = \<lparr>fd_Name = n, fd_Type = t, fd_Key = k, fd_Required = True\<rparr>"

definition BalloonConfig_fields :: "struct_field list" where [client_data]:
  "BalloonConfig_fields = [opt ''DeflateOnOom'' GBool ''deflate_on_oom'',
     opt ''FreePageReporting'' GBool ''free_page_reporting'',
     req ''Size'' GInt64 ''size'']"

definition ConsoleConfig_fields :: "struct_field list" where [client_data]:
  "ConsoleConfig_fields = [opt ''File'' GString ''file'',
     opt ''Iommu'' GBool ''iommu'',
     req ''Mode'' GString ''mode'',
     opt ''Socket'' GString ''socket'']"

definition CpuAffinity_fields :: "struct_field list" where [client_data]:
  "CpuAffinity_fields = [req ''HostCpus'' (GSlice GInt) ''host_cpus'',
     req ''Vcpu'' GInt ''vcpu'']"

definition CpuFeatures_fields :: "struct_field list" where [client_data]:
  "CpuFeatures_fields = [opt ''Amx'' GBool ''amx'']"

definition CpuTopology_fields :: "struct_field list" where [client_data]:
  "CpuTopology_fields = [opt ''CoresPerDie'' GInt ''cores_per_die'',
     opt ''DiesPerPackage'' GInt ''dies_per_package'',
     opt ''Packages'' GInt ''packages'',
     opt ''ThreadsPerCore'' GInt ''threads_per_core'']"

definition CpusConfig_fields :: "struct_field list" where [client_data]:
  "CpusConfig_fields = [opt ''Affinity'' (GSlice (GPtr ''CpuAffinity'')) ''affinity'',
     req ''BootVcpus'' GInt ''boot_vcpus'',
     opt ''Features'' (GPtr ''CpuFeatures'') ''features'',
     opt ''KvmHyperv'' GBool ''kvm_hyperv'',
     opt ''MaxPhysBits'' GInt ''max_phys_bits'',
     req ''MaxVcpus'' GInt ''max_vcpus'',
     opt ''Topology'' (GPtr ''CpuTopology'') ''topology'']"

definition DebugConsoleConfig_fields :: "struct_field list" where [client_data]:
  "DebugConsoleConfig_fields = [opt ''File'' GString ''file'',
     opt ''Iobase'' GInt ''iobase'',
     req ''Mode'' GString ''mode'']"

definition DeviceConfig_fields :: "struct_field list" where [client_data]:
  "DeviceConfig_fields = [opt ''Id'' GString ''id'',
     opt ''Iommu'' GBool ''iommu'',
     req ''Path'' GString ''path'',
     opt ''PciSegment'' GInt16 ''pci_segment'',
     opt ''XNvGpudirectClique'' GInt ''x_nv_gpudirect_clique'']"

definition DeviceNode_fields :: "struct_field list" where [client_data]:
  "DeviceNode_fields = [opt ''Children'' (GSlice GString) ''children'',
     opt ''Id'' GString ''id'',
     opt ''PciBdf'' GString ''pci_bdf'',
     opt ''Resources'' (GSlice (GMap GAny)) ''resources'']"

definition DiskConfig_fields :: "struct_field list" where [client_data]:
  "DiskConfig_fields = [opt ''Direct'' GBool ''direct'',
     opt ''Id'' GString ''id'',
     opt ''Iommu'' GBool ''iommu'',
     opt ''NumQueues'' GInt ''num_queues'',
     opt ''Path'' GString ''path'',
     opt ''PciSegment'' GInt16 ''pci_segment'',
     opt ''QueueAffinity'' (GSlice (GPtr ''VirtQueueAffinity'')) ''queue_affinity'',
     opt ''QueueSize'' GInt ''queue_size'',
     opt ''RateLimitGroup'' GString ''rate_limit_group'',
     opt ''RateLimiterConfig'' (GPtr ''RateLimiterConfig'') ''rate_limiter_config'',
     opt ''Readonly'' GBool ''readonly'',
     opt ''Serial'' GString ''serial'',
     opt ''VhostSocket'' GString ''vhost_socket'',
     opt ''VhostUser'' GBool ''vhost_user'']"

definition FsConfig_fields :: "struct_field list" where [client_data]:
  "FsConfig_fields = [opt ''Id'' GString ''id'',
     req ''NumQueues'' GInt ''num_queues'',
     opt ''PciSegment'' GInt16 ''pci_segment'',
     req ''QueueSize'' GInt ''queue_size'',
     req ''Socket'' GString ''socket'',
     req ''Tag'' GString ''tag'']"

definition LandlockConfig_fields :: "struct_field list" where [client_data]:
  "LandlockConfig_fields = [req ''Access'' GString ''access'',
     req ''Path'' GString ''path'']"

definition MemoryConfig_fields :: "struct_field list" where [client_data]:
  "MemoryConfig_fields = [opt ''HotplugMethod'' GString ''hotplug_method'',
     opt ''HotplugSize'' GInt64 ''hotplug_size'',
     opt ''HotpluggedSize'' GInt64 ''hotplugged_size'',
     opt ''HugepageSize'' GInt64 ''hugepage_size'',
     opt ''Hugepages'' GBool ''hugepages'',
     opt ''Mergeable'' GBool ''mergeable'',
     opt ''Prefault'' GBool ''prefault'',
     opt ''Shared'' GBool ''shared'',
     req ''Size'' GInt64 ''size'',
     opt ''Thp'' GBool ''thp'',
     opt ''Zones'' (GSlice (GPtr ''MemoryZoneConfig'')) ''zones'']"

definition MemoryZoneConfig_fields :: "struct_field list" where [client_data]:
  "MemoryZoneConfig_fields = [opt ''File'' GString ''file'',
     opt ''HostNumaNode'' GInt ''host_numa_node'',
     opt ''HotplugSize'' GInt64 ''hotplug_size'',
     opt ''HotpluggedSize'' GInt64 ''hotplugged_size'',
     opt ''HugepageSize'' GInt64 ''hugepage_size'',
     opt ''Hugepages'' GBool ''hugepages'',
     req ''Id'' GString ''id'',
     opt ''Mergeable'' GBool ''mergeable'',
     opt ''Prefault'' GBool ''prefault'',
     opt ''Shared'' GBool ''shared'',
     req ''Size'' GInt64 ''size'']"

definition NetConfig_fields :: "struct_field list" where [client_data]:
  "NetConfig_fields = [opt ''HostMac'' GString ''host_mac'',
     opt ''Id'' GString ''id'',
     opt ''Iommu'' GBool ''iommu'',
     opt ''Ip'' GString ''ip'',
     opt ''Mac'' GString ''mac'',
     opt ''Mask'' GString ''mask'',
     opt ''Mtu'' GInt ''mtu'',
     opt ''NumQueues'' GInt ''num_queues'',
     opt ''OffloadCsum'' GBool ''offload_csum'',
     opt ''OffloadTso'' GBool ''offload_tso'',
     opt ''OffloadUfo'' GBool ''offload_ufo'',
     opt ''PciSegment'' GInt16 ''pci_segment'',
     opt ''QueueSize'' GInt ''queue_size'',
     opt ''RateLimiterConfig'' (GPtr ''RateLimiterConfig'') ''rate_limiter_config'',
     opt ''Tap'' GString ''tap'',
     opt ''VhostMode'' GString ''vhost_mode'',
     opt ''VhostSocket'' GString ''vhost_socket'',
     opt ''VhostUser'' GBool ''vhost_user'']"

definition NumaConfig_fields :: "struct_field list" where [client_data]:
  "NumaConfig_fields = [opt ''Cpus'' (GSlice GInt) ''cpus'',
     opt ''Distances'' (GSlice (GPtr ''NumaDistance'')) ''distances'',
     req ''GuestNumaId'' GInt ''guest_numa_id'',
     opt ''MemoryZones'' (GSlice GString) ''memory_zones'',
     opt ''PciSegments'' (GSlice GInt) ''pci_segments'']"

definition NumaDistance_fields :: "struct_field list" where [client_data]:
  "NumaDistance_fields = [req ''Destination'' GInt ''destination'',
     req ''Distance'' GInt ''distance'']"

definition PayloadConfig_fields :: "struct_field list" where [client_data]:
  "PayloadConfig_fields = [opt ''Cmdline'' GString ''cmdline'',
     opt ''Firmware'' GString ''firmware'',
     opt ''HostData'' GString ''host_data'',
     opt ''Igvm'' GString ''igvm'',
     opt ''Initramfs'' GString ''initramfs'',
     opt ''Kernel'' GString ''kernel'']"

definition PciDeviceInfo_fields :: "struct_field list" where [client_data]:
  "PciDeviceInfo_fields = [req ''Bdf'' GString ''bdf'',
     req ''Id'' GString ''id'']"

definition PciSegmentConfig_fields :: "struct_field list" where [client_data]:
  "PciSegmentConfig_fields = [opt ''Mmio32ApertureWeight'' GInt ''mmio32_aperture_weight'',
     opt ''Mmio64ApertureWeight'' GInt ''mmio64_aperture_weight'',
     req ''PciSegment'' GInt16 ''pci_segment'']"

definition PlatformConfig_fields :: "struct_field list" where [client_data]:
  "PlatformConfig_fields = [opt ''IommuAddressWidth'' GInt ''iommu_address_width'',
     opt ''IommuSegments'' (GSlice GInt16) ''iommu_segments'',
     opt ''NumPciSegments'' GInt16 ''num_pci_segments'',
     opt ''OemStrings'' (GSlice GString) ''oem_strings'',
     opt ''SerialNumber'' GString ''serial_number'',
     opt ''SevSnp'' GBool ''sev_snp'',
     opt ''Tdx'' GBool ''tdx'',
     opt ''Uuid'' GString ''uuid'']"

definition PmemConfig_fields :: "struct_field list" where [client_data]:
  "PmemConfig_fields = [opt ''DiscardWrites'' GBool ''discard_writes'',
     req ''File'' GString ''file'',
     opt ''Id'' GString ''id'',
     opt ''Iommu'' GBool ''iommu'',
     opt ''PciSegment'' GInt16 ''pci_segment'',
     opt ''Size'' GInt64 ''size'']"

definition RateLimitGroupConfig_fields :: "struct_field list" where [client_data]:
  "RateLimitGroupConfig_fields = [req ''Id'' GString ''id'',
     req ''RateLimiterConfig'' (GPtr ''RateLimiterConfig'') ''rate_limiter_config'']"

definition RateLimiterConfig_fields :: "struct_field list" where [client_data]:
  "RateLimiterConfig_fields = [opt ''Bandwidth'' (GPtr ''TokenBucket'') ''bandwidth'',
     opt ''Ops'' (GPtr ''TokenBucket'') ''ops'']"

definition ReceiveMigrationData_fields :: "struct_field list" where [client_data]:
  "ReceiveMigrationData_fields = [req ''ReceiverUrl'' GString ''receiver_url'']"

definition RestoreConfig_fields :: "struct_field list" where [client_data]:
  "RestoreConfig_fields = [opt ''Prefault'' GBool ''prefault'',
     req ''SourceUrl'' GString ''source_url'']"

definition RngConfig_fields :: "struct_field list" where [client_data]:
  "RngConfig_fields = [opt ''Iommu'' GBool ''iommu'',
     req ''Src'' GString ''src'']"

definition SendMigrationData_fields :: "struct_field list" where [client_data]:
  "SendMigrationData_fields = [req ''DestinationUrl'' GString ''destination_url'',
     opt ''Local'' GBool ''local'']"

definition TokenBucket_fields :: "struct_field list" where [client_data]:
  "TokenBucket_fields = [opt ''OneTimeBurst'' GInt64 ''one_time_burst'',
     req ''RefillTime'' GInt64 ''refill_time'',
     req ''Size'' GInt64 ''size'']"

definition TpmConfig_fields :: "struct_field list" where [client_data]:
  "TpmConfig_fields = [req ''Socket'' GString ''socket'']"

definition VdpaConfig_fields :: "struct_field list" where [client_data]:
  "VdpaConfig_fields = [opt ''Id'' GString ''id'',
     opt ''Iommu'' GBool ''iommu'',
     req ''NumQueues'' GInt ''num_queues'',
     req ''Path'' GString ''path'',
     opt ''PciSegment'' GInt16 ''pci_segment'']"

definition VirtQueueAffinity_fields :: "struct_field list" where [client_data]:
  "VirtQueueAffinity_fields = [req ''HostCpus'' (GSlice GInt) ''host_cpus'',
     req ''QueueIndex'' GInt ''queue_index'']"

definition VmAddUserDevice_fields :: "struct_field list" where [client_data]:
  "VmAddUserDevice_fields = [req ''Socket'' GString ''socket'']"

definition VmConfig_fields :: "struct_field list" where [client_data]:
  "VmConfig_fields = [opt ''Balloon'' (GPtr ''BalloonConfig'') ''balloon'',
     opt ''Console'' (GPtr ''ConsoleConfig'') ''console'',
     opt ''Cpus'' (GPtr ''CpusConfig'') ''cpus'',
     opt ''DebugConsole'' (GPtr ''DebugConsoleConfig'') ''debug_console'',
     opt ''Devices'' (GSlice (GPtr ''DeviceConfig'')) ''devices'',
     opt ''Disks'' (GSlice (GPtr ''DiskConfig'')) ''disks'',
     opt ''Fs'' (GSlice (GPtr ''FsConfig'')) ''fs'',
     opt ''Iommu'' GBool ''iommu'',
     opt ''LandlockEnable'' GBool ''landlock_enable'',
     opt ''LandlockRules'' (GSlice (GPtr ''LandlockConfig'')) ''landlock_rules'',
     opt ''Memory'' (GPtr ''MemoryConfig'') ''memory'',
     opt ''Net'' (GSlice (GPtr ''NetConfig'')) ''net'',
     opt ''Numa'' (GSlice (GPtr ''NumaConfig'')) ''numa'',
     req ''Payload'' (GPtr ''PayloadConfig'') ''payload'',
     opt ''PciSegments'' (GSlice (GPtr ''PciSegmentConfig'')) ''pci_segments'',
     opt ''Platform'' (GPtr ''PlatformConfig'') ''platform'',
     opt ''Pmem'' (GSlice (GPtr ''PmemConfig'')) ''pmem'',
     opt ''Pvpanic'' GBool ''pvpanic'',
     opt ''RateLimitGroups'' (GSlice (GPtr ''RateLimitGroupConfig'')) ''rate_limit_groups'',
     opt ''Rng'' (GPtr ''RngConfig'') ''rng'',
     opt ''Serial'' (GPtr ''ConsoleConfig'') ''serial'',
     opt ''Tpm'' (GPtr ''TpmConfig'') ''tpm'',
     opt ''Vdpa'' (GSlice (GPtr ''VdpaConfig'')) ''vdpa'',
     opt ''Vsock'' (GPtr ''VsockConfig'') ''vsock'',
     opt ''Watchdog'' GBool ''watchdog'']"

definition VmCoredumpData_fields :: "struct_field list" where [client_data]:
  "VmCoredumpData_fields = [opt ''DestinationUrl'' GString ''destination_url'']"

definition VmCounters_fields :: "struct_field list" where [client_data]:
  "VmCounters_fields = []"

definition VmInfo_fields :: "struct_field list" where [client_data]:
  "VmInfo_fields = [req ''Config'' (GPtr ''VmConfig'') ''config'',
     opt ''DeviceTree'' (GMap (GPtr ''DeviceNode'')) ''device_tree'',
     opt ''MemoryActualSize'' GInt64 ''memory_actual_size'',
     req ''State'' GString ''state'']"

definition VmRemoveDevice_fields :: "struct_field list" where [client_data]:
  "VmRemoveDevice_fields = [opt ''Id'' GString ''id'']"

definition VmResize_fields :: "struct_field list" where [client_data]:
  "VmResize_fields = [opt ''DesiredBalloon'' GInt64 ''desired_balloon'',
     opt ''DesiredRam'' GInt64 ''desired_ram'',
     opt ''DesiredVcpus'' GInt ''desired_vcpus'']"

definition VmResizeDisk_fields :: "struct_field list" where [client_data]:
  "VmResizeDisk_fields = [opt ''DesiredSize'' GInt64 ''desired_size'',
     opt ''Id'' GString ''id'']"

definition VmResizeZone_fields :: "struct_field list" where [client_data]:
  "VmResizeZone_fields = [opt ''DesiredRam'' GInt64 ''desired_ram'',
     opt ''Id'' GString ''id'']"

definition VmSnapshotConfig_fields :: "struct_field list" where [client_data]:
  "VmSnapshotConfig_fields = [opt ''DestinationUrl'' GString ''destination_url'']"

definition VmmPingResponse_fields :: "struct_field list" where [client_data]:
  "VmmPingResponse_fields = [opt ''BuildVersion'' GString ''build_version'',
     opt ''Features'' (GSlice GString) ''features'',
     opt ''Pid'' GInt64 ''pid'',
     req ''Version'' GString ''version'']"

definition VsockConfig_fields :: "struct_field list" where [client_data]:
  "VsockConfig_fields = [req ''Cid'' GInt64 ''cid'',
     opt ''Id'' GString ''id'',
     opt ''Iommu'' GBool ''iommu'',
     opt ''PciSegment'' GInt16 ''pci_segment'',
     req ''Socket'' GString ''socket'']"

definition client_structs :: "(string \<times> struct_field list) list" where
  "client_structs = [(''BalloonConfig'', BalloonConfig_fields),
     (''ConsoleConfig'', ConsoleConfig_fields),
     (''CpuAffinity'', CpuAffinity_fields),
     (''CpuFeatures'', CpuFeatures_fields),
     (''CpuTopology'', CpuTopology_fields),
     (''CpusConfig'', CpusConfig_fields),
     (''DebugConsoleConfig'', DebugConsoleConfig_fields),
     (''DeviceConfig'', DeviceConfig_fields),
     (''DeviceNode'', DeviceNode_fields),
     (''DiskConfig'', DiskConfig_fields),
     (''FsConfig'', FsConfig_fields),
     (''LandlockConfig'', LandlockConfig_fields),
     (''MemoryConfig'', MemoryConfig_fields),
     (''MemoryZoneConfig'', MemoryZoneConfig_fields),
     (''NetConfig'', NetConfig_fields),
     (''NumaConfig'', NumaConfig_fields),
     (''NumaDistance'', NumaDistance_fields),
     (''PayloadConfig'', PayloadConfig_fields),
     (''PciDeviceInfo'', PciDeviceInfo_fields),
     (''PciSegmentConfig'', PciSegmentConfig_fields),
     (''PlatformConfig'', PlatformConfig_fields),
     (''PmemConfig'', PmemConfig_fields),
     (''RateLimitGroupConfig'', RateLimitGroupConfig_fields),
     (''RateLimiterConfig'', RateLimiterConfig_fields),
     (''ReceiveMigrationData'', ReceiveMigrationData_fields),
     (''RestoreConfig'', RestoreConfig_fields),
     (''RngConfig'', RngConfig_fields),
     (''SendMigrationData'', SendMigrationData_fields),
     (''TokenBucket'', TokenBucket_fields),
     (''TpmConfig'', TpmConfig_fields),
     (''VdpaConfig'', VdpaConfig_fields),
     (''VirtQueueAffinity'', VirtQueueAffinity_fields),
     (''VmAddUserDevice'', VmAddUserDevice_fields),
     (''VmConfig'', VmConfig_fields),
     (''VmCoredumpData'', VmCoredumpData_fields),
     (''VmCounters'', VmCounters_fields),
     (''VmInfo'', VmInfo_fields),
     (''VmRemoveDevice'', VmRemoveDevice_fields),
     (''VmResize'', VmResize_fields),
     (''VmResizeDisk'', VmResizeDisk_fields),
     (''VmResizeZone'', VmResizeZone_fields),
     (''VmSnapshotConfig'', VmSnapshotConfig_fields),
     (''VmmPingResponse'', VmmPingResponse_fields),
     (''VsockConfig'', VsockConfig_fields)]"

definition client_types :: types where
  "client_types = map_of client_structs"

section \<open>Requests\<close>

record response =
  rs_StatusCode :: int
  rs_Body :: "json option"

record 'w http =
  hNewRequest :: "string \<Rightarrow> string \<Rightarrow> err option"
  hDo :: "string \<Rightarrow> string \<Rightarrow> string \<Rightarrow> json option \<Rightarrow> 'w \<Rightarrow> (err + response) \<times> 'w"

text \<open>A client is the socket that its transport dials.\<close>

record Client =
  cl_socketPath :: string

definition NewClient :: "string \<Rightarrow> Client" where
  "NewClient socketPath = \<lparr>cl_socketPath = socketPath\<rparr>"

datatype http_event = Sent string string string "json option" | Closed

type_synonym 'w request = "('w, unit, http_event, go_val) action"

text \<open>\<open>json.Marshal\<close> of the package's own types gives no error.\<close>

definition Marshal :: "go_type \<Rightarrow> go_val \<Rightarrow> err + json" where
  "Marshal t v = Inr (marshal client_types t v)"

definition Decode :: "go_type \<Rightarrow> json option \<Rightarrow> go_val option" where
  "Decode t body = (case body of None \<Rightarrow> None | Some j \<Rightarrow> unmarshal client_types t j (zero_of t))"

definition closing :: "'w request \<Rightarrow> 'w request" where
  "closing m s = (case m s of (r, s') \<Rightarrow> (r, s'\<lparr>trace := trace s' @ [Closed]\<rparr>))"

definition encodeArg :: "(go_type \<times> go_val) option \<Rightarrow> ('w, unit, http_event, json option) action" where
  "encodeArg arg = (case arg of None \<Rightarrow> ret None
     | Some (t, v) \<Rightarrow> (case Marshal t v of Inl e \<Rightarrow> throw (ErrS ''encode request'' e) | Inr j \<Rightarrow> ret (Some j)))"

definition handleResponse :: "go_type option \<Rightarrow> response \<Rightarrow> 'w request" where
  "handleResponse result resp =
    (if rs_StatusCode resp \<ge> 400 then throw (ErrNew ''request failed'')
     else (case result of None \<Rightarrow> ret VNil
       | Some t \<Rightarrow> (case Decode t (rs_Body resp) of None \<Rightarrow> throw (ErrNew ''decode response'') | Some v \<Rightarrow> ret v)))"

definition Client_call :: "'w http \<Rightarrow> Client \<Rightarrow> string \<Rightarrow> string \<Rightarrow> (go_type \<times> go_val) option \<Rightarrow> go_type option \<Rightarrow> 'w request" where
  "Client_call k c method path arg result =
    bind (encodeArg arg) (\<lambda>reqBody.
    let url = ''http://localhost/api/v1'' @ path in
    (case hNewRequest k method url of Some e \<Rightarrow> throw (ErrS ''build request'' e)
     | None \<Rightarrow>
       bind (kwrite (hDo k (cl_socketPath c) method url reqBody) (\<lambda>_. Sent (cl_socketPath c) method url reqBody)) (\<lambda>r.
       case r of Inl e \<Rightarrow> throw (ErrS ''do request'' e)
       | Inr resp \<Rightarrow> closing (handleResponse result resp))))"

section \<open>Methods\<close>

definition Client_VmAddDevice :: "'w http \<Rightarrow> Client \<Rightarrow> go_val \<Rightarrow> 'w request" where [client_data]:
  "Client_VmAddDevice k c arg = Client_call k c ''PUT'' ''/vm.add-device'' (Some (GPtr ''DeviceConfig'', arg)) (Some (GPtr ''PciDeviceInfo''))"

definition Client_VmAddDisk :: "'w http \<Rightarrow> Client \<Rightarrow> go_val \<Rightarrow> 'w request" where [client_data]:
  "Client_VmAddDisk k c arg = Client_call k c ''PUT'' ''/vm.add-disk'' (Some (GPtr ''DiskConfig'', arg)) (Some (GPtr ''PciDeviceInfo''))"

definition Client_VmAddFs :: "'w http \<Rightarrow> Client \<Rightarrow> go_val \<Rightarrow> 'w request" where [client_data]:
  "Client_VmAddFs k c arg = Client_call k c ''PUT'' ''/vm.add-fs'' (Some (GPtr ''FsConfig'', arg)) (Some (GPtr ''PciDeviceInfo''))"

definition Client_VmAddNet :: "'w http \<Rightarrow> Client \<Rightarrow> go_val \<Rightarrow> 'w request" where [client_data]:
  "Client_VmAddNet k c arg = Client_call k c ''PUT'' ''/vm.add-net'' (Some (GPtr ''NetConfig'', arg)) (Some (GPtr ''PciDeviceInfo''))"

definition Client_VmAddPmem :: "'w http \<Rightarrow> Client \<Rightarrow> go_val \<Rightarrow> 'w request" where [client_data]:
  "Client_VmAddPmem k c arg = Client_call k c ''PUT'' ''/vm.add-pmem'' (Some (GPtr ''PmemConfig'', arg)) (Some (GPtr ''PciDeviceInfo''))"

definition Client_VmAddUserDevice :: "'w http \<Rightarrow> Client \<Rightarrow> go_val \<Rightarrow> 'w request" where [client_data]:
  "Client_VmAddUserDevice k c arg = Client_call k c ''PUT'' ''/vm.add-user-device'' (Some (GPtr ''VmAddUserDevice'', arg)) (Some (GPtr ''PciDeviceInfo''))"

definition Client_VmAddVdpa :: "'w http \<Rightarrow> Client \<Rightarrow> go_val \<Rightarrow> 'w request" where [client_data]:
  "Client_VmAddVdpa k c arg = Client_call k c ''PUT'' ''/vm.add-vdpa'' (Some (GPtr ''VdpaConfig'', arg)) (Some (GPtr ''PciDeviceInfo''))"

definition Client_VmAddVsock :: "'w http \<Rightarrow> Client \<Rightarrow> go_val \<Rightarrow> 'w request" where [client_data]:
  "Client_VmAddVsock k c arg = Client_call k c ''PUT'' ''/vm.add-vsock'' (Some (GPtr ''VsockConfig'', arg)) (Some (GPtr ''PciDeviceInfo''))"

definition Client_VmBoot :: "'w http \<Rightarrow> Client \<Rightarrow> 'w request" where [client_data]:
  "Client_VmBoot k c = Client_call k c ''PUT'' ''/vm.boot'' None None"

definition Client_VmCoredump :: "'w http \<Rightarrow> Client \<Rightarrow> go_val \<Rightarrow> 'w request" where [client_data]:
  "Client_VmCoredump k c arg = Client_call k c ''PUT'' ''/vm.coredump'' (Some (GPtr ''VmCoredumpData'', arg)) None"

definition Client_VmCounters :: "'w http \<Rightarrow> Client \<Rightarrow> 'w request" where [client_data]:
  "Client_VmCounters k c = Client_call k c ''GET'' ''/vm.counters'' None (Some (GPtr ''VmCounters''))"

definition Client_VmCreate :: "'w http \<Rightarrow> Client \<Rightarrow> go_val \<Rightarrow> 'w request" where [client_data]:
  "Client_VmCreate k c arg = Client_call k c ''PUT'' ''/vm.create'' (Some (GPtr ''VmConfig'', arg)) None"

definition Client_VmDelete :: "'w http \<Rightarrow> Client \<Rightarrow> 'w request" where [client_data]:
  "Client_VmDelete k c = Client_call k c ''PUT'' ''/vm.delete'' None None"

definition Client_VmInfo :: "'w http \<Rightarrow> Client \<Rightarrow> 'w request" where [client_data]:
  "Client_VmInfo k c = Client_call k c ''GET'' ''/vm.info'' None (Some (GPtr ''VmInfo''))"

definition Client_VmPause :: "'w http \<Rightarrow> Client \<Rightarrow> 'w request" where [client_data]:
  "Client_VmPause k c = Client_call k c ''PUT'' ''/vm.pause'' None None"

definition Client_VmPowerButton :: "'w http \<Rightarrow> Client \<Rightarrow> 'w request" where [client_data]:
  "Client_VmPowerButton k c = Client_call k c ''PUT'' ''/vm.power-button'' None None"

definition Client_VmReboot :: "'w http \<Rightarrow> Client \<Rightarrow> 'w request" where [client_data]:
  "Client_VmReboot k c = Client_call k c ''PUT'' ''/vm.reboot'' None None"

definition Client_VmReceiveMigration :: "'w http \<Rightarrow> Client \<Rightarrow> go_val \<Rightarrow> 'w request" where [client_data]:
  "Client_VmReceiveMigration k c arg = Client_call k c ''PUT'' ''/vm.receive-migration'' (Some (GPtr ''ReceiveMigrationData'', arg)) None"

definition Client_VmRemoveDevice :: "'w http \<Rightarrow> Client \<Rightarrow> go_val \<Rightarrow> 'w request" where [client_data]:
  "Client_VmRemoveDevice k c arg = Client_call k c ''PUT'' ''/vm.remove-device'' (Some (GPtr ''VmRemoveDevice'', arg)) None"

definition Client_VmResize :: "'w http \<Rightarrow> Client \<Rightarrow> go_val \<Rightarrow> 'w request" where [client_data]:
  "Client_VmResize k c arg = Client_call k c ''PUT'' ''/vm.resize'' (Some (GPtr ''VmResize'', arg)) None"

definition Client_VmResizeDisk :: "'w http \<Rightarrow> Client \<Rightarrow> go_val \<Rightarrow> 'w request" where [client_data]:
  "Client_VmResizeDisk k c arg = Client_call k c ''PUT'' ''/vm.resize-disk'' (Some (GPtr ''VmResizeDisk'', arg)) None"

definition Client_VmResizeZone :: "'w http \<Rightarrow> Client \<Rightarrow> go_val \<Rightarrow> 'w request" where [client_data]:
  "Client_VmResizeZone k c arg = Client_call k c ''PUT'' ''/vm.resize-zone'' (Some (GPtr ''VmResizeZone'', arg)) None"

definition Client_VmRestore :: "'w http \<Rightarrow> Client \<Rightarrow> go_val \<Rightarrow> 'w request" where [client_data]:
  "Client_VmRestore k c arg = Client_call k c ''PUT'' ''/vm.restore'' (Some (GPtr ''RestoreConfig'', arg)) None"

definition Client_VmResume :: "'w http \<Rightarrow> Client \<Rightarrow> 'w request" where [client_data]:
  "Client_VmResume k c = Client_call k c ''PUT'' ''/vm.resume'' None None"

definition Client_VmSendMigration :: "'w http \<Rightarrow> Client \<Rightarrow> go_val \<Rightarrow> 'w request" where [client_data]:
  "Client_VmSendMigration k c arg = Client_call k c ''PUT'' ''/vm.send-migration'' (Some (GPtr ''SendMigrationData'', arg)) None"

definition Client_VmShutdown :: "'w http \<Rightarrow> Client \<Rightarrow> 'w request" where [client_data]:
  "Client_VmShutdown k c = Client_call k c ''PUT'' ''/vm.shutdown'' None None"

definition Client_VmSnapshot :: "'w http \<Rightarrow> Client \<Rightarrow> go_val \<Rightarrow> 'w request" where [client_data]:
  "Client_VmSnapshot k c arg = Client_call k c ''PUT'' ''/vm.snapshot'' (Some (GPtr ''VmSnapshotConfig'', arg)) None"

definition Client_VmmNmi :: "'w http \<Rightarrow> Client \<Rightarrow> 'w request" where [client_data]:
  "Client_VmmNmi k c = Client_call k c ''PUT'' ''/vmm.nmi'' None None"

definition Client_VmmPing :: "'w http \<Rightarrow> Client \<Rightarrow> 'w request" where [client_data]:
  "Client_VmmPing k c = Client_call k c ''GET'' ''/vmm.ping'' None (Some (GPtr ''VmmPingResponse''))"

definition Client_VmmShutdown :: "'w http \<Rightarrow> Client \<Rightarrow> 'w request" where [client_data]:
  "Client_VmmShutdown k c = Client_call k c ''PUT'' ''/vmm.shutdown'' None None"

definition client_methods :: "'w http \<Rightarrow> Client \<Rightarrow> (string \<times> (go_val \<Rightarrow> 'w request)) list" where
  "client_methods k c = [(''VmAddDevice'', Client_VmAddDevice k c),
     (''VmAddDisk'', Client_VmAddDisk k c),
     (''VmAddFs'', Client_VmAddFs k c),
     (''VmAddNet'', Client_VmAddNet k c),
     (''VmAddPmem'', Client_VmAddPmem k c),
     (''VmAddUserDevice'', Client_VmAddUserDevice k c),
     (''VmAddVdpa'', Client_VmAddVdpa k c),
     (''VmAddVsock'', Client_VmAddVsock k c),
     (''VmBoot'', \<lambda>_. Client_VmBoot k c),
     (''VmCoredump'', Client_VmCoredump k c),
     (''VmCounters'', \<lambda>_. Client_VmCounters k c),
     (''VmCreate'', Client_VmCreate k c),
     (''VmDelete'', \<lambda>_. Client_VmDelete k c),
     (''VmInfo'', \<lambda>_. Client_VmInfo k c),
     (''VmPause'', \<lambda>_. Client_VmPause k c),
     (''VmPowerButton'', \<lambda>_. Client_VmPowerButton k c),
     (''VmReboot'', \<lambda>_. Client_VmReboot k c),
     (''VmReceiveMigration'', Client_VmReceiveMigration k c),
     (''VmRemoveDevice'', Client_VmRemoveDevice k c),
     (''VmResize'', Client_VmResize k c),
     (''VmResizeDisk'', Client_VmResizeDisk k c),
     (''VmResizeZone'', Client_VmResizeZone k c),
     (''VmRestore'', Client_VmRestore k c),
     (''VmResume'', \<lambda>_. Client_VmResume k c),
     (''VmSendMigration'', Client_VmSendMigration k c),
     (''VmShutdown'', \<lambda>_. Client_VmShutdown k c),
     (''VmSnapshot'', Client_VmSnapshot k c),
     (''VmmNmi'', \<lambda>_. Client_VmmNmi k c),
     (''VmmPing'', \<lambda>_. Client_VmmPing k c),
     (''VmmShutdown'', \<lambda>_. Client_VmmShutdown k c)]"

section \<open>What a call does\<close>

definition answer :: "go_type option \<Rightarrow> response \<Rightarrow> (err, go_val) outcome" where
  "answer result resp =
    (if rs_StatusCode resp \<ge> 400 then Err (ErrNew ''request failed'')
     else (case result of None \<Rightarrow> Ok VNil
       | Some t \<Rightarrow> (case Decode t (rs_Body resp) of None \<Rightarrow> Err (ErrNew ''decode response'') | Some v \<Rightarrow> Ok v)))"

lemma handleResponse_answer: "handleResponse result resp s = (answer result resp, s)"
  by (simp add: handleResponse_def answer_def throw_def ret_def split: option.split)

lemma Client_call_steps:
  "Client_call k c m p (map_option (\<lambda>t. (t, arg)) a) result s =
    (let sock = cl_socketPath c; url = ''http://localhost/api/v1'' @ p; body = map_option (\<lambda>t. marshal client_types t arg) a in
     case hNewRequest k m url of Some e \<Rightarrow> (Err (ErrS ''build request'' e), s)
     | None \<Rightarrow> (case hDo k sock m url body (world s) of
         (Inl e, w) \<Rightarrow> (Err (ErrS ''do request'' e), s\<lparr>world := w, trace := trace s @ [Sent sock m url body]\<rparr>)
       | (Inr resp, w) \<Rightarrow> (answer result resp, s\<lparr>world := w, trace := trace s @ [Sent sock m url body, Closed]\<rparr>)))"
  by (cases a) (auto simp: Client_call_def encodeArg_def Marshal_def bind_def ret_def throw_def kwrite_def closing_def
      handleResponse_answer Let_def split: option.split sum.split prod.split)

lemma answer_Ok:
  "answer result resp = Ok v \<longleftrightarrow> rs_StatusCode resp < 400 \<and> (case result of None \<Rightarrow> v = VNil | Some t \<Rightarrow> Decode t (rs_Body resp) = Some v)"
  by (auto simp: answer_def split: option.splits)

lemma answer_no_panic: "answer result resp \<noteq> Panic e"
  by (auto simp: answer_def split: option.splits)

text \<open>The methods as a table: name, HTTP method, path, types of the argument and of the result.\<close>

definition client_endpoints :: "(string \<times> string \<times> string \<times> go_type option \<times> go_type option) list" where
  "client_endpoints = [(''VmAddDevice'', ''PUT'', ''/vm.add-device'', Some (GPtr ''DeviceConfig''), Some (GPtr ''PciDeviceInfo'')),
     (''VmAddDisk'', ''PUT'', ''/vm.add-disk'', Some (GPtr ''DiskConfig''), Some (GPtr ''PciDeviceInfo'')),
     (''VmAddFs'', ''PUT'', ''/vm.add-fs'', Some (GPtr ''FsConfig''), Some (GPtr ''PciDeviceInfo'')),
     (''VmAddNet'', ''PUT'', ''/vm.add-net'', Some (GPtr ''NetConfig''), Some (GPtr ''PciDeviceInfo'')),
     (''VmAddPmem'', ''PUT'', ''/vm.add-pmem'', Some (GPtr ''PmemConfig''), Some (GPtr ''PciDeviceInfo'')),
     (''VmAddUserDevice'', ''PUT'', ''/vm.add-user-device'', Some (GPtr ''VmAddUserDevice''), Some (GPtr ''PciDeviceInfo'')),
     (''VmAddVdpa'', ''PUT'', ''/vm.add-vdpa'', Some (GPtr ''VdpaConfig''), Some (GPtr ''PciDeviceInfo'')),
     (''VmAddVsock'', ''PUT'', ''/vm.add-vsock'', Some (GPtr ''VsockConfig''), Some (GPtr ''PciDeviceInfo'')),
     (''VmBoot'', ''PUT'', ''/vm.boot'', None, None),
     (''VmCoredump'', ''PUT'', ''/vm.coredump'', Some (GPtr ''VmCoredumpData''), None),
     (''VmCounters'', ''GET'', ''/vm.counters'', None, Some (GPtr ''VmCounters'')),
     (''VmCreate'', ''PUT'', ''/vm.create'', Some (GPtr ''VmConfig''), None),
     (''VmDelete'', ''PUT'', ''/vm.delete'', None, None),
     (''VmInfo'', ''GET'', ''/vm.info'', None, Some (GPtr ''VmInfo'')),
     (''VmPause'', ''PUT'', ''/vm.pause'', None, None),
     (''VmPowerButton'', ''PUT'', ''/vm.power-button'', None, None),
     (''VmReboot'', ''PUT'', ''/vm.reboot'', None, None),
     (''VmReceiveMigration'', ''PUT'', ''/vm.receive-migration'', Some (GPtr ''ReceiveMigrationData''), None),
     (''VmRemoveDevice'', ''PUT'', ''/vm.remove-device'', Some (GPtr ''VmRemoveDevice''), None),
     (''VmResize'', ''PUT'', ''/vm.resize'', Some (GPtr ''VmResize''), None),
     (''VmResizeDisk'', ''PUT'', ''/vm.resize-disk'', Some (GPtr ''VmResizeDisk''), None),
     (''VmResizeZone'', ''PUT'', ''/vm.resize-zone'', Some (GPtr ''VmResizeZone''), None),
     (''VmRestore'', ''PUT'', ''/vm.restore'', Some (GPtr ''RestoreConfig''), None),
     (''VmResume'', ''PUT'', ''/vm.resume'', None, None),
     (''VmSendMigration'', ''PUT'', ''/vm.send-migration'', Some (GPtr ''SendMigrationData''), None),
     (''VmShutdown'', ''PUT'', ''/vm.shutdown'', None, None),
     (''VmSnapshot'', ''PUT'', ''/vm.snapshot'', Some (GPtr ''VmSnapshotConfig''), None),
     (''VmmNmi'', ''PUT'', ''/vmm.nmi'', None, None),
     (''VmmPing'', ''GET'', ''/vmm.ping'', None, Some (GPtr ''VmmPingResponse'')),
     (''VmmShutdown'', ''PUT'', ''/vmm.shutdown'', None, None)]"

lemma client_methods_table:
  "client_methods k c = map (\<lambda>(n, m, p, a, r). (n, \<lambda>arg. Client_call k c m p (map_option (\<lambda>t. (t, arg)) a) r)) client_endpoints"
  by (simp add: client_methods_def client_endpoints_def client_data fun_eq_iff)

text \<open>The API of the hypervisor as the client should use it, by the name of a method. The path is the name with its words in small letters, the
  first followed by a dot and the others joined by hyphens.\<close>

definition uncamel :: "string \<Rightarrow> string" where
  "uncamel n = concat (map (\<lambda>c. let i = of_char c :: nat in if 65 \<le> i \<and> i \<le> 90 then [CHR ''-'', char_of (i + 32)] else [c]) n)"

definition api_path :: "string \<Rightarrow> string" where
  "api_path n = (let u = tl (uncamel n) in takeWhile (\<lambda>c. c \<noteq> CHR ''-'') u @ ''.'' @ tl (dropWhile (\<lambda>c. c \<noteq> CHR ''-'') u))"

definition api_verb :: "string \<Rightarrow> string" where
  "api_verb n = (if n \<in> {''VmCounters'', ''VmInfo'', ''VmmPing''} then ''GET'' else ''PUT'')"

text \<open>What a method takes: to add a device its configuration; otherwise a struct of the method's own name, or the one listed here.\<close>

definition arg_type :: "string \<Rightarrow> go_type option" where
  "arg_type n = map_option GPtr (
    if n \<in> {''VmAddUserDevice'', ''VmRemoveDevice'', ''VmResize'', ''VmResizeDisk'', ''VmResizeZone''} then Some n
    else if HasPrefix n ''VmAdd'' then Some (TrimPrefix n ''VmAdd'' @ ''Config'')
    else if n \<in> {''VmReceiveMigration'', ''VmSendMigration''} then Some (TrimPrefix n ''Vm'' @ ''Data'')
    else if n = ''VmCreate'' then Some ''VmConfig''
    else if n = ''VmRestore'' then Some ''RestoreConfig''
    else if n = ''VmSnapshot'' then Some ''VmSnapshotConfig''
    else if n = ''VmCoredump'' then Some ''VmCoredumpData''
    else None)"

definition result_type :: "string \<Rightarrow> go_type option" where
  "result_type n = map_option GPtr (
    if HasPrefix n ''VmAdd'' then Some ''PciDeviceInfo''
    else if n \<in> {''VmCounters'', ''VmInfo''} then Some n
    else if n = ''VmmPing'' then Some ''VmmPingResponse''
    else None)"

lemma endpoints_ok: "list_all (\<lambda>(n, m, p, a, r). m = api_verb n \<and> p = ''/'' @ api_path n \<and> a = arg_type n \<and> r = result_type n) client_endpoints"
  by code_simp

lemma endpoints_distinct: "distinct (map fst client_endpoints)"
  by code_simp

lemma client_keys_distinct: "keys_distinct client_types"
proof -
  have "list_all (\<lambda>(n, fs). distinct (map fd_Key fs)) client_structs" by code_simp
  then show ?thesis by (auto simp: keys_distinct_def client_types_def list_all_iff dest!: map_of_SomeD)
qed

text \<open>Every struct that a type or a method refers to is declared.\<close>

fun refers :: "go_type \<Rightarrow> string list" where
  "refers (GPtr n) = [n]"
| "refers (GSlice t) = refers t"
| "refers (GMap t) = refers t"
| "refers _ = []"

lemma types_declared:
  "list_all (\<lambda>(_, fs). list_all (\<lambda>f. list_all (\<lambda>n. n \<in> set (map fst client_structs)) (refers (fd_Type f))) fs) client_structs
    \<and> list_all (\<lambda>(_, _, _, a, r). list_all (\<lambda>n. n \<in> set (map fst client_structs))
        (concat (map (case_option [] refers) [a, r]))) client_endpoints"
  by code_simp

text \<open>C31: A call of any of the client's methods. The request goes to the socket of the client, with the path and verb that the API gives the method, and with the JSON of the
  argument as body exactly for the methods that take one, from which the other side reads the argument back (dynamic values, and empty slices and maps in \<open>omitempty\<close> fields, apart).
  Nothing is sent when the request cannot be built; otherwise one request, and the body of its answer is closed. The call
  returns a value exactly when an answer came with a status below 400 and, for the methods with a result, a body that decodes at the type of the
  result, to that value; every other call returns an error.\<close>

theorem client_requests:
  assumes "(n, f) \<in> set (client_methods k c)"
  shows "let sock = cl_socketPath c; m = api_verb n; url = ''http://localhost/api/v1/'' @ api_path n;
      body = map_option (\<lambda>t. marshal client_types t arg) (arg_type n); r = fst (f arg s); s' = snd (f arg s) in
    (case hNewRequest k m url of Some e \<Rightarrow> s' = s \<and> (\<exists>e. r = Err e)
     | None \<Rightarrow> (case hDo k sock m url body (world s) of
         (Inl e, w) \<Rightarrow> s' = s\<lparr>world := w, trace := trace s @ [Sent sock m url body]\<rparr> \<and> (\<exists>e. r = Err e)
       | (Inr resp, w) \<Rightarrow> s' = s\<lparr>world := w, trace := trace s @ [Sent sock m url body, Closed]\<rparr> \<and> (\<forall>e. r \<noteq> Panic e)
           \<and> (\<forall>v. r = Ok v \<longleftrightarrow> rs_StatusCode resp < 400
                \<and> (case result_type n of None \<Rightarrow> v = VNil
                   | Some t \<Rightarrow> \<exists>j. rs_Body resp = Some j \<and> unmarshal client_types t j (zero_of t) = Some v))))
    \<and> (\<forall>t. arg_type n = Some t \<and> plain client_types t arg \<longrightarrow> Decode t body = Some arg)"
proof -
  obtain m p a r where e: "(n, m, p, a, r) \<in> set client_endpoints" and f: "f = (\<lambda>arg. Client_call k c m p (map_option (\<lambda>t. (t, arg)) a) r)"
    using assms by (auto simp: client_methods_table)
  have ok: "m = api_verb n" "p = ''/'' @ api_path n" "a = arg_type n" "r = result_type n" using endpoints_ok e by (auto simp: list_all_iff)
  have dec: "Decode t body = Some v \<longleftrightarrow> (\<exists>j. body = Some j \<and> unmarshal client_types t j (zero_of t) = Some v)" for t body v
    by (simp add: Decode_def split: option.split)
  show ?thesis
    using unmarshal_marshal(1) [OF client_keys_distinct, of _ arg]
    by (simp add: f Client_call_steps ok answer_Ok answer_no_panic dec Let_def split: option.split sum.split prod.split)
qed

text \<open>A hypervisor that answers every request with no content.\<close>

definition quiet :: "nat http" where
  "quiet = \<lparr>hNewRequest = (\<lambda>_ _. None), hDo = (\<lambda>_ _ _ _ w. (Inr \<lparr>rs_StatusCode = 204, rs_Body = None\<rparr>, Suc w))\<rparr>"

theorem client_requests_witness:
  "fst (Client_VmResume quiet (NewClient ''/var/run/vm.sock'') \<lparr>world = 0, obj = (), trace = []\<rparr>) = Ok VNil
    \<and> trace (snd (Client_VmResume quiet (NewClient ''/var/run/vm.sock'') \<lparr>world = 0, obj = (), trace = []\<rparr>))
      = [Sent ''/var/run/vm.sock'' ''PUT'' ''http://localhost/api/v1/vm.resume'' None, Closed]"
proof -
  have api: "api_verb ''VmResume'' = ''PUT''" "api_path ''VmResume'' = ''vm.resume''" "arg_type ''VmResume'' = None" "result_type ''VmResume'' = None"
    by code_simp+
  have "(''VmResume'', \<lambda>_. Client_VmResume quiet (NewClient ''/var/run/vm.sock'')) \<in> set (client_methods quiet (NewClient ''/var/run/vm.sock''))"
    by (simp add: client_methods_def)
  from client_requests [OF this, of VNil "\<lparr>world = 0, obj = (), trace = []\<rparr>"] show ?thesis
    by (simp add: api Let_def quiet_def NewClient_def)
qed

text \<open>An answer without a body makes every method with a result fail, although the request was carried out.\<close>

lemma no_content_is_an_error:
  "Client_call quiet c m p arg (Some t) \<lparr>world = w, obj = (), trace = []\<rparr>
    = (Err (ErrNew ''decode response''), \<lparr>world = Suc w, obj = (),
        trace = [Sent (cl_socketPath c) m (''http://localhost/api/v1'' @ p) (map_option (\<lambda>(t, v). marshal client_types t v) arg), Closed]\<rparr>)"
  by (cases arg) (auto simp: quiet_def Client_call_def encodeArg_def Marshal_def bind_def ret_def throw_def kwrite_def closing_def
      handleResponse_answer answer_def Decode_def)

section \<open>What the other side reads\<close>

text \<open>Arguments and results survive the wire: decoding the JSON of a value of any of the package's types gives the value back, although
  fields marked \<open>omitempty\<close> are not sent when they are empty. Excluded are dynamic values, and empty slices and maps in such a field.\<close>

theorem client_roundtrip:
  assumes "plain client_types t v"
  shows "Marshal t v = Inr j \<Longrightarrow> Decode t (Some j) = Some v"
  using unmarshal_marshal(1) [OF client_keys_distinct assms] by (simp add: Marshal_def Decode_def)

definition sample_resize :: go_val where
  "sample_resize = VPtr (VStruct [VInt 0, VInt 4294967296, VInt 4])"

theorem client_roundtrip_witness:
  "Marshal (GPtr ''VmResize'') sample_resize = Inr (JObj [(''desired_ram'', JInt 4294967296), (''desired_vcpus'', JInt 4)])
    \<and> Decode (GPtr ''VmResize'') (Some (JObj [(''desired_ram'', JInt 4294967296), (''desired_vcpus'', JInt 4)])) = Some sample_resize"
proof
  show m: "Marshal (GPtr ''VmResize'') sample_resize = Inr (JObj [(''desired_ram'', JInt 4294967296), (''desired_vcpus'', JInt 4)])"
    by code_simp
  have "plain client_types (GPtr ''VmResize'') sample_resize" by code_simp
  from client_roundtrip [OF this m]
  show "Decode (GPtr ''VmResize'') (Some (JObj [(''desired_ram'', JInt 4294967296), (''desired_vcpus'', JInt 4)])) = Some sample_resize" .
qed

end
