(* ===== verification/Client_Gen.thy ===== *)
theory Client_Gen
  imports Ch_Client Go_Sort "HOL-Library.List_Lexorder" "HOL-Library.Char_ord"
begin

text \<open>
  \<open>src/cmd/cloud-hypervisor-client-gen/main.go\<close>: the program that generates the client from the hypervisor's OpenAPI document. Maps of the
  document are lists in the order in which a run happens to iterate over them. \<open>generate\<close> is what is handed to the template. Fetching and
  loading the document, rendering the template and \<open>strings.Title(strcase.ToCamel(...))\<close>, the parameter \<open>camel\<close>, are other packages'.
\<close>

datatype schema = Schema (sc_Ref: string) (sc_Type: string) (sc_Format: string) (sc_Description: string) (sc_Required: "string list")
  (sc_Properties: "(string \<times> schema) list") (sc_Items: "schema option") (sc_AdditionalProperties: "schema option")

text \<open>The content of a body: from media types to a schema, if the media type gives one.\<close>

type_synonym media = "string \<Rightarrow> schema option option"

record operation =
  op_Summary :: string
  op_RequestBody :: "media option"
  op_Responses :: "(string \<times> media) list"

record path_item =
  pi_Description :: string
  pi_Get :: "operation option"
  pi_Put :: "operation option"
  pi_Post :: "operation option"
  pi_Delete :: "operation option"
  pi_Patch :: "operation option"

record document =
  doc_Paths :: "(string \<times> path_item) list"
  doc_Schemas :: "(string \<times> schema) list"

record endpoint =
  ep_Name :: string
  ep_Desc :: string
  ep_Method :: string
  ep_Path :: string
  ep_Arg :: string
  ep_Ret :: string

record gen_field =
  gf_Name :: string
  gf_Desc :: string
  gf_Type :: string
  gf_Key :: string
  gf_Required :: bool

record gen_type =
  gt_Name :: string
  gt_Desc :: string
  gt_Fields :: "gen_field list"

type_synonym 'a gen = "(err, 'a) outcome"

section \<open>Operations\<close>

fun schemaToTypeName :: "schema \<Rightarrow> string gen" where
  "schemaToTypeName (Schema ref ty fmt desc rq props items addl) =
    (if ref \<noteq> [] then Ok (''*'' @ last (Split CHR ''/'' ref))
     else if ty = ''boolean'' then Ok ''bool''
     else if ty = ''integer'' then Ok (if fmt = ''int16'' then ''int16'' else if fmt = ''int64'' then ''int64'' else ''int'')
     else if ty = ''string'' then Ok ''string''
     else if ty = ''array'' then (case items of None \<Rightarrow> Panic ''nil pointer''
       | Some s \<Rightarrow> obind (schemaToTypeName s) (\<lambda>n. Ok (''[]'' @ n)))
     else if ty = ''object'' then (case addl of None \<Rightarrow> Ok ''map[string]interface{}''
       | Some s \<Rightarrow> obind (schemaToTypeName s) (\<lambda>n. Ok (''map[string]'' @ n)))
     else Panic ''nil'')"

definition mediaTypeName :: "schema option \<Rightarrow> string gen" where
  "mediaTypeName m = (case m of None \<Rightarrow> Panic ''nil pointer'' | Some s \<Rightarrow> schemaToTypeName s)"

definition setRet :: "string \<times> media \<Rightarrow> endpoint \<Rightarrow> endpoint gen" where
  "setRet r ep = (if HasPrefix (fst r) ''2''
     then (case snd r ''application/json'' of None \<Rightarrow> Ok ep | Some m \<Rightarrow> obind (mediaTypeName m) (\<lambda>n. Ok (ep\<lparr>ep_Ret := n\<rparr>)))
     else Ok ep)"

definition pathOperation :: "path_item \<Rightarrow> (string \<times> operation) gen" where
  "pathOperation i =
    (case pi_Get i of Some op \<Rightarrow> Ok (''GET'', op) | None \<Rightarrow>
    (case pi_Put i of Some op \<Rightarrow> Ok (''PUT'', op) | None \<Rightarrow>
    (case pi_Post i of Some op \<Rightarrow> Ok (''POST'', op) | None \<Rightarrow>
    (case pi_Delete i of Some op \<Rightarrow> Ok (''DELETE'', op) | None \<Rightarrow>
    (case pi_Patch i of Some op \<Rightarrow> Ok (''PATCH'', op) | None \<Rightarrow> Panic ''nil'')))))"

definition setArg :: "operation \<Rightarrow> endpoint \<Rightarrow> endpoint gen" where
  "setArg op ep = (case op_RequestBody op of None \<Rightarrow> Ok ep
     | Some body \<Rightarrow> (case body ''application/json'' of None \<Rightarrow> Ok ep | Some m \<Rightarrow> obind (mediaTypeName m) (\<lambda>n. Ok (ep\<lparr>ep_Arg := n\<rparr>))))"

definition newEndpoint :: "(string \<Rightarrow> string) \<Rightarrow> string \<Rightarrow> path_item \<Rightarrow> endpoint gen" where
  "newEndpoint camel path i =
    obind (pathOperation i) (\<lambda>(method, op).
    obind (setArg op \<lparr>ep_Name = camel path, ep_Desc = (if pi_Description i = [] then op_Summary op else pi_Description i),
        ep_Method = method, ep_Path = path, ep_Arg = [], ep_Ret = []\<rparr>)
    (ofold setRet (op_Responses op)))"

definition newField :: "(string \<Rightarrow> string) \<Rightarrow> string \<Rightarrow> schema \<Rightarrow> bool \<Rightarrow> gen_field gen" where
  "newField camel key s required = obind (schemaToTypeName s) (\<lambda>n.
     Ok \<lparr>gf_Name = camel key, gf_Desc = sc_Description s, gf_Type = n, gf_Key = key, gf_Required = required\<rparr>)"

text \<open>A loop that appends to a slice, with a call that may panic for every element.\<close>

fun omap :: "('a \<Rightarrow> 'b gen) \<Rightarrow> 'a list \<Rightarrow> 'b list gen" where
  "omap f [] = Ok []"
| "omap f (x # xs) = obind (f x) (\<lambda>y. obind (omap f xs) (\<lambda>ys. Ok (y # ys)))"

definition newType :: "(string \<Rightarrow> string) \<Rightarrow> string \<Rightarrow> schema \<Rightarrow> gen_type gen" where
  "newType camel name s =
    obind (omap (\<lambda>(k, f). newField camel k f (k \<in> set (sc_Required s))) (sc_Properties s)) (\<lambda>fs.
    Ok \<lparr>gt_Name = name, gt_Desc = sc_Description s, gt_Fields = sort_Slice (\<lambda>a b. gf_Name a < gf_Name b) fs\<rparr>)"

definition generate :: "(string \<Rightarrow> string) \<Rightarrow> document \<Rightarrow> (endpoint list \<times> gen_type list) gen" where
  "generate camel d =
    obind (omap (\<lambda>(p, i). newEndpoint camel p i) (doc_Paths d)) (\<lambda>eps.
    obind (omap (\<lambda>(n, s). newType camel n s) (doc_Schemas d)) (\<lambda>tps.
    Ok (sort_Slice (\<lambda>a b. ep_Name a < ep_Name b) eps, sort_Slice (\<lambda>a b. gt_Name a < gt_Name b) tps)))"

section \<open>The order of iteration does not matter\<close>

lemma omap_Ok: "omap f xs = Ok ys \<longleftrightarrow> list_all2 (\<lambda>x y. f x = Ok y) xs ys"
  by (induction xs arbitrary: ys) (auto simp: list_all2_Cons1)

lemma omap_map_of: "omap f xs = Ok ys \<Longrightarrow> ys = map (\<lambda>x. case f x of Ok y \<Rightarrow> y) xs \<and> (\<forall>x\<in>set xs. is_ok (f x))"
  by (induction xs arbitrary: ys) auto

lemma omap_all_ok: "\<forall>x\<in>set xs. is_ok (f x) \<Longrightarrow> omap f xs = Ok (map (\<lambda>x. case f x of Ok y \<Rightarrow> y) xs)"
  by (induction xs) (auto elim!: is_ok.elims)

lemma omap_perm:
  assumes "omap f xs = Ok ys" and "mset xs = mset xs'"
  shows "\<exists>ys'. omap f xs' = Ok ys' \<and> mset ys' = mset ys"
  using omap_map_of [OF assms(1)] omap_all_ok [of xs' f] assms(2) by (metis mset_map set_mset_mset)

lemma sorted_names:
  fixes f :: "'a \<Rightarrow> string"
  shows "sorted (map f (sort_Slice (\<lambda>a b. f a < f b) xs))"
  using sort_Slice_sorted [of "\<lambda>a b. f a \<le> f b" "\<lambda>a b. f a < f b" xs] by (auto simp: transp_def sorted_wrt_map)

lemma sort_perm:
  fixes f :: "'a \<Rightarrow> string"
  assumes "mset xs = mset ys" and "distinct (map f xs)"
  shows "sort_Slice (\<lambda>a b. f a < f b) xs = sort_Slice (\<lambda>a b. f a < f b) ys"
proof -
  let ?s = "sort_Slice (\<lambda>a b. f a < f b)"
  have d: "distinct (map f (?s zs))" if "mset zs = mset xs" for zs
    using assms(2) that by (metis mset_map mset_sort_Slice mset_eq_imp_distinct_iff)
  have "inj_on f (set (?s xs) \<union> set (?s ys))"
    using assms(2) mset_eq_setD [OF assms(1)] by (simp add: distinct_map)
  then show ?thesis
    using d [of xs] d [of ys] mset_eq_setD [OF assms(1)] assms(1)
    by (intro map_sorted_distinct_set_unique [of f]) (simp_all add: sorted_names)
qed

lemma omap_related:
  assumes "omap f xs = Ok ys" and "list_all2 R xs xs'" and "\<And>x x' y. x \<in> set xs \<Longrightarrow> R x x' \<Longrightarrow> f x = Ok y \<Longrightarrow> f x' = Ok y"
  shows "omap f xs' = Ok ys"
  using assms(2,1,3)
proof (induction arbitrary: ys rule: list_all2_induct)
  case (Cons x xs x' xs')
  from Cons.prems(1) obtain z zs where z: "f x = Ok z" and zs: "omap f xs = Ok zs" and ys: "ys = z # zs" by auto
  have "f x' = Ok z" by (rule Cons.prems(2) [OF _ Cons.hyps(1) z]) simp
  moreover have "omap f xs' = Ok zs" by (rule Cons.IH [OF zs]) (auto intro: Cons.prems(2))
  ultimately show ?case by (simp add: ys)
qed simp

text \<open>The same schema, operation, path or document, read in another order.\<close>

definition reordered :: "schema \<Rightarrow> schema \<Rightarrow> bool" where
  "reordered s s' \<longleftrightarrow> mset (sc_Properties s') = mset (sc_Properties s)
     \<and> s' = Schema (sc_Ref s) (sc_Type s) (sc_Format s) (sc_Description s) (sc_Required s) (sc_Properties s') (sc_Items s) (sc_AdditionalProperties s)"

definition same_operation :: "operation \<Rightarrow> operation \<Rightarrow> bool" where
  "same_operation a b \<longleftrightarrow> op_Summary b = op_Summary a \<and> op_RequestBody b = op_RequestBody a
     \<and> mset (op_Responses b) = mset (op_Responses a)"

definition same_item :: "path_item \<Rightarrow> path_item \<Rightarrow> bool" where
  "same_item i j \<longleftrightarrow> pi_Description i = pi_Description j \<and> rel_option same_operation (pi_Get i) (pi_Get j)
     \<and> rel_option same_operation (pi_Put i) (pi_Put j) \<and> rel_option same_operation (pi_Post i) (pi_Post j)
     \<and> rel_option same_operation (pi_Delete i) (pi_Delete j) \<and> rel_option same_operation (pi_Patch i) (pi_Patch j)"

definition same_map :: "('a \<Rightarrow> 'a \<Rightarrow> bool) \<Rightarrow> (string \<times> 'a) list \<Rightarrow> (string \<times> 'a) list \<Rightarrow> bool" where
  "same_map R xs ys \<longleftrightarrow> (\<exists>zs. mset zs = mset xs \<and> list_all2 (rel_prod (=) R) zs ys)"

definition same_document :: "document \<Rightarrow> document \<Rightarrow> bool" where
  "same_document d d' \<longleftrightarrow> same_map same_item (doc_Paths d) (doc_Paths d') \<and> same_map reordered (doc_Schemas d) (doc_Schemas d')"

text \<open>At most one successful answer has a JSON body.\<close>

definition json_answer :: "string \<times> media \<Rightarrow> bool" where
  "json_answer r \<longleftrightarrow> HasPrefix (fst r) ''2'' \<and> snd r ''application/json'' \<noteq> None"

definition one_answer :: "operation \<Rightarrow> bool" where
  "one_answer op \<longleftrightarrow> length (filter json_answer (op_Responses op)) \<le> 1"

definition answers_ok :: "path_item \<Rightarrow> bool" where
  "answers_ok i \<longleftrightarrow> (\<forall>m op. pathOperation i = Ok (m, op) \<longrightarrow> one_answer op)"

lemma setRet_skip: "\<not> json_answer r \<Longrightarrow> setRet r ep = Ok ep"
  by (auto simp: json_answer_def setRet_def)

lemma ofold_setRet_filter: "ofold setRet rs ep = ofold setRet (filter json_answer rs) ep"
proof (induction rs arbitrary: ep)
  case (Cons r rs)
  then show ?case by (cases "setRet r ep") (auto simp: setRet_skip)
qed simp

lemma short_perm: "mset ys = mset xs \<Longrightarrow> length xs \<le> 1 \<Longrightarrow> ys = xs"
  by (cases xs) auto

lemma setRet_perm:
  assumes "mset rs' = mset rs" and "length (filter json_answer rs) \<le> 1"
  shows "ofold setRet rs' ep = ofold setRet rs ep"
proof -
  have "filter json_answer rs' = filter json_answer rs"
    by (rule short_perm [OF _ assms(2)]) (simp add: mset_filter assms(1))
  then show ?thesis by (metis ofold_setRet_filter)
qed

lemma pathOperation_same:
  assumes "pathOperation i = Ok (m, op)" and "same_item i j"
  shows "\<exists>op'. pathOperation j = Ok (m, op') \<and> same_operation op op'"
  using assms by (auto simp: pathOperation_def same_item_def rel_option_iff split: option.splits)

lemma newEndpoint_same:
  assumes "newEndpoint camel p i = Ok e" and "same_item i j" and "answers_ok i"
  shows "newEndpoint camel p j = Ok e"
proof -
  obtain m op where op: "pathOperation i = Ok (m, op)" using assms(1) by (auto simp: newEndpoint_def)
  from pathOperation_same [OF op assms(2)] obtain op' where op': "pathOperation j = Ok (m, op')" "same_operation op op'" by blast
  have one: "length (filter json_answer (op_Responses op)) \<le> 1" using assms(3) op by (simp add: answers_ok_def one_answer_def)
  have "mset (op_Responses op') = mset (op_Responses op)" using op'(2) by (simp add: same_operation_def)
  from setRet_perm [OF this one] have "ofold setRet (op_Responses op') = ofold setRet (op_Responses op)" by (rule ext)
  moreover have "op_Summary op' = op_Summary op" "setArg op' = setArg op"
    using op'(2) by (simp_all add: same_operation_def setArg_def [abs_def])
  moreover have "pi_Description j = pi_Description i" using assms(2) by (simp add: same_item_def)
  ultimately have "newEndpoint camel p j = newEndpoint camel p i" by (simp add: newEndpoint_def op op'(1))
  then show ?thesis using assms(1) by simp
qed

lemma newField_names:
  assumes "omap (\<lambda>(k, f). newField camel k f (P k)) ps = Ok fs"
  shows "map gf_Name fs = map (camel \<circ> fst) ps"
  using assms by (induction ps arbitrary: fs) (auto simp: newField_def)

lemma newType_reordered:
  assumes "newType camel n s = Ok t" and "reordered s s'" and "distinct (map (camel \<circ> fst) (sc_Properties s))"
  shows "newType camel n s' = Ok t"
proof -
  have eq: "sc_Required s' = sc_Required s" "sc_Description s' = sc_Description s" and m: "mset (sc_Properties s) = mset (sc_Properties s')"
    using assms(2) by (metis reordered_def schema.sel)+
  let ?f = "\<lambda>(k, f). newField camel k f (k \<in> set (sc_Required s))"
  obtain fs where fs: "omap ?f (sc_Properties s) = Ok fs" and t: "t = \<lparr>gt_Name = n, gt_Desc = sc_Description s,
      gt_Fields = sort_Slice (\<lambda>a b. gf_Name a < gf_Name b) fs\<rparr>" using assms(1) by (auto simp: newType_def)
  obtain fs' where fs': "omap ?f (sc_Properties s') = Ok fs'" "mset fs' = mset fs" using omap_perm [OF fs m] by blast
  have "distinct (map gf_Name fs)" using newField_names [OF fs] assms(3) by simp
  then show ?thesis using sort_perm [of fs fs' gf_Name] fs' by (simp add: newType_def eq t)
qed

lemma setRet_name: "setRet r ep = Ok e \<Longrightarrow> ep_Name e = ep_Name ep"
  by (auto simp: setRet_def split: if_splits option.splits)

lemma setRets_name: "ofold setRet rs ep = Ok e \<Longrightarrow> ep_Name e = ep_Name ep"
  by (induction rs arbitrary: ep) (auto dest!: setRet_name)

lemma setArg_name: "setArg op ep = Ok e \<Longrightarrow> ep_Name e = ep_Name ep"
  by (auto simp: setArg_def split: option.splits)

lemma endpoint_name: "newEndpoint camel p i = Ok e \<Longrightarrow> ep_Name e = camel p"
  by (auto simp: newEndpoint_def dest!: setRets_name setArg_name)

lemma type_name: "newType camel n s = Ok t \<Longrightarrow> gt_Name t = n"
  by (auto simp: newType_def)

lemma omap_names:
  assumes "omap f xs = Ok ys" and "\<And>x y. f x = Ok y \<Longrightarrow> g y = h x"
  shows "map g ys = map h xs"
  using assms(1) by (induction xs arbitrary: ys) (auto simp: assms(2))

text \<open>One map of the document, turned into a sorted list.\<close>

lemma omap_sorted_same:
  fixes name :: "'b \<Rightarrow> string"
  assumes "omap f xs = Ok ys" and "same_map R xs xs'" and "distinct (map name ys)"
    and "\<And>k x x' y. (k, x) \<in> set xs \<Longrightarrow> R x x' \<Longrightarrow> f (k, x) = Ok y \<Longrightarrow> f (k, x') = Ok y"
  shows "\<exists>ys'. omap f xs' = Ok ys' \<and> sort_Slice (\<lambda>a b. name a < name b) ys' = sort_Slice (\<lambda>a b. name a < name b) ys"
proof -
  obtain zs where zs: "mset zs = mset xs" "list_all2 (rel_prod (=) R) zs xs'" using assms(2) by (auto simp: same_map_def)
  obtain ys' where ys': "omap f zs = Ok ys'" "mset ys' = mset ys" using omap_perm [OF assms(1)] zs(1) by metis
  have "omap f xs' = Ok ys'"
  proof (rule omap_related [OF ys'(1) zs(2)])
    fix x x' y assume "x \<in> set zs" "rel_prod (=) R x x'" "f x = Ok y"
    moreover from this obtain k a b where "x = (k, a)" "x' = (k, b)" "R a b" by (auto elim: rel_prod.cases)
    ultimately show "f x' = Ok y" using assms(4) mset_eq_setD [OF zs(1)] by simp
  qed
  moreover have "sort_Slice (\<lambda>a b. name a < name b) ys = sort_Slice (\<lambda>a b. name a < name b) ys'"
    using sort_perm [of ys ys' name] ys'(2) assms(3) by simp
  ultimately show ?thesis by auto
qed

text \<open>C32: When a generation succeeds, the client does not depend on the order in which a run iterates over the maps of the document: a document that is the same up to
  these orders gives the same endpoints and types in the same order, if names of methods, of types and of the fields of a type are
  different and no operation has two successful answers with a JSON body, of which the generator takes the last it meets.\<close>

theorem generate_deterministic:
  assumes "generate camel d = Ok out" and "same_document d d'"
    and "distinct (map (camel \<circ> fst) (doc_Paths d))" and "distinct (map fst (doc_Schemas d))"
    and "\<forall>(n, s)\<in>set (doc_Schemas d). distinct (map (camel \<circ> fst) (sc_Properties s))"
    and "\<forall>(p, i)\<in>set (doc_Paths d). answers_ok i"
  shows "generate camel d' = Ok out"
proof -
  obtain eps tps where e: "omap (\<lambda>(p, i). newEndpoint camel p i) (doc_Paths d) = Ok eps"
    and t: "omap (\<lambda>(n, s). newType camel n s) (doc_Schemas d) = Ok tps"
    and out: "out = (sort_Slice (\<lambda>a b. ep_Name a < ep_Name b) eps, sort_Slice (\<lambda>a b. gt_Name a < gt_Name b) tps)"
    using assms(1) by (auto simp: generate_def)
  have "map ep_Name eps = map (camel \<circ> fst) (doc_Paths d)" by (rule omap_names [OF e]) (auto dest: endpoint_name)
  then have de: "distinct (map ep_Name eps)" using assms(3) by simp
  have "map gt_Name tps = map fst (doc_Schemas d)" by (rule omap_names [OF t]) (auto dest: type_name)
  then have dt: "distinct (map gt_Name tps)" using assms(4) by simp
  have "newEndpoint camel p j = Ok y" if "(p, i) \<in> set (doc_Paths d)" "same_item i j" "newEndpoint camel p i = Ok y" for p i j y
    using newEndpoint_same [OF that(3,2)] assms(6) that(1) by auto
  then obtain eps' where eps': "omap (\<lambda>(p, i). newEndpoint camel p i) (doc_Paths d') = Ok eps'"
    "sort_Slice (\<lambda>a b. ep_Name a < ep_Name b) eps' = sort_Slice (\<lambda>a b. ep_Name a < ep_Name b) eps"
    using omap_sorted_same [OF e _ de, of same_item "doc_Paths d'"] assms(2) unfolding same_document_def split_conv by blast
  have "newType camel n s' = Ok y" if "(n, s) \<in> set (doc_Schemas d)" "reordered s s'" "newType camel n s = Ok y" for n s s' y
    using newType_reordered [OF that(3,2)] assms(5) that(1) by auto
  then obtain tps' where tps': "omap (\<lambda>(n, s). newType camel n s) (doc_Schemas d') = Ok tps'"
    "sort_Slice (\<lambda>a b. gt_Name a < gt_Name b) tps' = sort_Slice (\<lambda>a b. gt_Name a < gt_Name b) tps"
    using omap_sorted_same [OF t _ dt, of reordered "doc_Schemas d'"] assms(2) unfolding same_document_def split_conv by blast
  show ?thesis by (simp add: generate_def eps' tps' out)
qed

text \<open>A document with one path and one type; names are the words of a path or key, capitalised.\<close>

definition capital :: "string \<Rightarrow> string" where
  "capital w = (case w of [] \<Rightarrow> [] | c # cs \<Rightarrow> char_of (of_char c - 32 :: nat) # cs)"

definition method_name :: "string \<Rightarrow> string" where
  "method_name p = concat (map capital (concat (map (Split CHR ''-'') (Split CHR ''.'' p))))"

definition sample_scalar :: "string \<Rightarrow> schema" where
  "sample_scalar ty = Schema [] ty [] [] [] [] None None"

definition sample_schema :: "(string \<times> schema) list \<Rightarrow> schema" where
  "sample_schema ps = Schema [] ''object'' [] [] [''path''] ps None None"

definition sample_document :: "(string \<times> schema) list \<Rightarrow> document" where
  "sample_document ps = \<lparr>doc_Paths = [(''vm.boot'', \<lparr>pi_Description = [], pi_Get = None, pi_Put = Some \<lparr>op_Summary = ''Boot'', op_RequestBody = None,
      op_Responses = [(''204'', \<lambda>_. None)]\<rparr>, pi_Post = None, pi_Delete = None, pi_Patch = None\<rparr>)],
    doc_Schemas = [(''DiskConfig'', sample_schema ps)]\<rparr>"

abbreviation sample_fields :: "(string \<times> schema) list" where
  "sample_fields \<equiv> [(''readonly'', sample_scalar ''boolean''), (''path'', sample_scalar ''string'')]"

definition sample_output :: "endpoint list \<times> gen_type list" where
  "sample_output = ([\<lparr>ep_Name = ''VmBoot'', ep_Desc = ''Boot'', ep_Method = ''PUT'', ep_Path = ''vm.boot'', ep_Arg = [], ep_Ret = []\<rparr>],
    [\<lparr>gt_Name = ''DiskConfig'', gt_Desc = [], gt_Fields = [
        \<lparr>gf_Name = ''Path'', gf_Desc = [], gf_Type = ''string'', gf_Key = ''path'', gf_Required = True\<rparr>,
        \<lparr>gf_Name = ''Readonly'', gf_Desc = [], gf_Type = ''bool'', gf_Key = ''readonly'', gf_Required = False\<rparr>]\<rparr>])"

theorem generate_deterministic_witness:
  "generate method_name (sample_document sample_fields) = Ok sample_output
    \<and> generate method_name (sample_document (rev sample_fields)) = Ok sample_output"
proof
  show g: "generate method_name (sample_document sample_fields) = Ok sample_output" by code_simp
  have r: "reordered (sample_schema sample_fields) (sample_schema (rev sample_fields))" by (simp add: reordered_def sample_schema_def)
  have i: "same_item i i" for i
    by (simp add: same_item_def option.rel_refl same_operation_def)
  show "generate method_name (sample_document (rev sample_fields)) = Ok sample_output"
  proof (rule generate_deterministic [OF g])
    show "same_document (sample_document sample_fields) (sample_document (rev sample_fields))"
      using r i by (simp add: same_document_def same_map_def sample_document_def)
    show "distinct (map (method_name \<circ> fst) (doc_Paths (sample_document sample_fields)))" by code_simp
    show "distinct (map fst (doc_Schemas (sample_document sample_fields)))" by code_simp
    show "\<forall>(n, s)\<in>set (doc_Schemas (sample_document sample_fields)). distinct (map (method_name \<circ> fst) (sc_Properties s))" by code_simp
    show "\<forall>(p, i)\<in>set (doc_Paths (sample_document sample_fields)). answers_ok i"
      by (simp add: sample_document_def answers_ok_def pathOperation_def one_answer_def json_answer_def)
  qed
qed

text \<open>The client under \<open>src/pkg\<close> has the generator's order.\<close>

lemma client_in_order:
  "sorted_wrt (<) (map fst client_endpoints) \<and> sorted_wrt (<) (map fst client_structs)
    \<and> list_all (\<lambda>(n, fs). sorted_wrt (<) (map fd_Name fs)) client_structs"
  by code_simp

end
