(* ===== verification/Grpc_Util.thy ===== *)
theory Grpc_Util
  imports Cpu_Set Daemon_Base
begin

text \<open>
  \<open>src/pkg/grpcutil\<close>, \<open>src/pkg/tlsutil\<close> and \<open>src/pkg/cli\<close>: the gRPC server of the daemon with its options, connections to it, the
  certificates of both, and the commands of the command line tool. Reading keys and files, listening, dialling, the gRPC library
  and the remote calls are parameters; certificates and pools are of any type. A server option changes the server or fails;
  a configuration that may be nil is an option, and reading a field of nil panics.
\<close>

record TLSConfig =
  tls_ServerName :: string
  tls_KeyFile :: string
  tls_CertFile :: string
  tls_CAFile :: string

record ('c, 'p) SSLCertificate =
  ssl_Certificate :: 'c
  ssl_Pool :: 'p

text \<open>The files: a key pair, the bytes of a file, and the pool made of PEM bytes with whether any certificate was in it.\<close>

record ('c, 'p) cert_files =
  cfKeyPair :: "string \<Rightarrow> string \<Rightarrow> err + 'c"
  cfRead :: "string \<Rightarrow> err + string"
  cfPool :: "string \<Rightarrow> bool \<times> 'p"

definition LoadCertificate :: "('c, 'p) cert_files \<Rightarrow> TLSConfig \<Rightarrow> err + ('c, 'p) SSLCertificate" where
  "LoadCertificate k con =
    (let key = TrimSpace (tls_KeyFile con); ca = TrimSpace (tls_CAFile con); cert = TrimSpace (tls_CertFile con) in
     if tls_ServerName con = [] then Inl (ErrNew ''ServerName is empty in TLSConfig'')
     else (case cfKeyPair k cert key of Inl e \<Rightarrow> Inl e
       | Inr sslcert \<Rightarrow> (case cfRead k ca of Inl e \<Rightarrow> Inl (ErrS ''failed to read ca certificate'' e)
         | Inr caBytes \<Rightarrow> (case cfPool k caBytes of (ok, pool) \<Rightarrow>
             if \<not> ok then Inl (ErrNew ''bad ca certificate'')
             else Inr \<lparr>ssl_Certificate = sslcert, ssl_Pool = pool\<rparr>))))"

text \<open>The certificates of a live migration.\<close>

definition LoadCert :: "('c, 'p) cert_files \<Rightarrow> string \<Rightarrow> err + 'c" where
  "LoadCert k certDirPath = cfKeyPair k (path_join [certDirPath, ''tls.crt'']) (path_join [certDirPath, ''tls.key''])"

definition LoadCACert :: "('c, 'p) cert_files \<Rightarrow> string \<Rightarrow> err + 'p" where
  "LoadCACert k certDirPath = (case cfRead k (path_join [certDirPath, ''ca.crt'']) of
     Inl e \<Rightarrow> Inl (ErrS ''read CA cert file'' e) | Inr caCertData \<Rightarrow> Inr (snd (cfPool k caCertData)))"

section \<open>Server\<close>

text \<open>Options of the gRPC library: credentials that ask for no client certificate, handlers by their names, and the default interceptors.\<close>

datatype ('c, 'p) grpc_option =
    Creds 'c 'p string
  | StreamInterceptor "string list"
  | UnaryInterceptor "string list"
  | StatsHandler string
  | DefaultUnary
  | DefaultStream

record ('c, 'p) Server =
  gs_GrpcPort :: int
  gs_Options :: "('c, 'p) grpc_option list"
  gs_Listener :: "int option"
  gs_Context :: string

type_synonym ('c, 'p) ServerOption = "('c, 'p) Server \<Rightarrow> err + ('c, 'p) Server"

definition add_option :: "('c, 'p) grpc_option \<Rightarrow> ('c, 'p) Server \<Rightarrow> ('c, 'p) Server" where
  "add_option x s = s\<lparr>gs_Options := gs_Options s @ [x]\<rparr>"

definition WithGrpcPort :: "int \<Rightarrow> ('c, 'p) ServerOption" where
  "WithGrpcPort port s = (if port > 65555 \<or> port \<le> 0 then Inl (ErrNew ''invalid port for the gprc port'') else Inr (s\<lparr>gs_GrpcPort := port\<rparr>))"

definition WithTLSConfig :: "('c, 'p) cert_files \<Rightarrow> TLSConfig \<Rightarrow> ('c, 'p) ServerOption" where
  "WithTLSConfig k config s = (case LoadCertificate k config of Inl e \<Rightarrow> Inl e
     | Inr sslcert \<Rightarrow> Inr (add_option (Creds (ssl_Certificate sslcert) (ssl_Pool sslcert) (tls_ServerName config)) s))"

definition WithContext :: "string \<Rightarrow> ('c, 'p) ServerOption" where
  "WithContext c s = Inr (s\<lparr>gs_Context := c\<rparr>)"

definition WithStreamInterceptor :: "string list \<Rightarrow> ('c, 'p) ServerOption" where
  "WithStreamInterceptor interceptors s = Inr (if interceptors \<noteq> [] then add_option (StreamInterceptor interceptors) s else s)"

definition WithUnaryInterceptor :: "string list \<Rightarrow> ('c, 'p) ServerOption" where
  "WithUnaryInterceptor interceptors s = Inr (if interceptors \<noteq> [] then add_option (UnaryInterceptor interceptors) s else s)"

definition WithStatsHandler :: "string option \<Rightarrow> ('c, 'p) ServerOption" where
  "WithStatsHandler handler s = Inr (case handler of Some h \<Rightarrow> add_option (StatsHandler h) s | None \<Rightarrow> s)"

fun apply_options :: "('c, 'p) ServerOption list \<Rightarrow> ('c, 'p) ServerOption" where
  "apply_options [] s = Inr s"
| "apply_options (op # ops) s = (case op s of Inl e \<Rightarrow> Inl e | Inr s' \<Rightarrow> apply_options ops s')"

definition new_server :: "('c, 'p) Server" where
  "new_server = \<lparr>gs_GrpcPort = 0, gs_Options = [], gs_Listener = None, gs_Context = ''Background''\<rparr>"

text \<open>\<open>listen\<close> opens a TCP port and gives the one it got.\<close>

definition grpc_NewServer :: "(int \<Rightarrow> err + int) \<Rightarrow> ('c, 'p) ServerOption list \<Rightarrow> err + ('c, 'p) Server" where
  "grpc_NewServer listen options = (case apply_options options new_server of Inl e \<Rightarrow> Inl e
     | Inr server \<Rightarrow> (case listen (gs_GrpcPort server) of Inl e \<Rightarrow> Inl (ErrS ''failed to get grpc port'' e)
       | Inr port \<Rightarrow> Inr (server\<lparr>gs_GrpcPort := port, gs_Options := gs_Options server @ [DefaultUnary, DefaultStream], gs_Listener := Some port\<rparr>)))"

definition NewVsockServer :: "(int \<Rightarrow> err + int) \<Rightarrow> ('c, 'p) ServerOption list \<Rightarrow> err + ('c, 'p) Server" where
  "NewVsockServer listen options = (case apply_options options new_server of Inl e \<Rightarrow> Inl e
     | Inr server \<Rightarrow> (case listen 12345 of Inl e \<Rightarrow> Inl (ErrS ''failed to get grpc port'' e)
       | Inr port \<Rightarrow> Inr (server\<lparr>gs_GrpcPort := 12345, gs_Options := gs_Options server @ [DefaultUnary, DefaultStream], gs_Listener := Some port\<rparr>)))"

section \<open>Connections\<close>

text \<open>What is dialled: the address, the Unix socket if it is one, and the credentials: none, or a pool and the name that the server must have.\<close>

record 'p conn =
  cn_addr :: string
  cn_socket :: "string option"
  cn_tls :: "('p \<times> string) option"

definition tlsDial :: "string \<Rightarrow> ('c, 'p) SSLCertificate \<Rightarrow> 'p \<times> string" where
  "tlsDial servername ssl = (ssl_Pool ssl, hd (Split CHR '':'' servername))"

definition dial :: "('p conn \<Rightarrow> err option) \<Rightarrow> 'p conn \<Rightarrow> err + 'p conn" where
  "dial newClient c = (case newClient c of Some e \<Rightarrow> Inl e | None \<Rightarrow> Inr c)"

definition Conn :: "('c, 'p) cert_files \<Rightarrow> ('p conn \<Rightarrow> err option) \<Rightarrow> string \<Rightarrow> TLSConfig option \<Rightarrow> err + 'p conn" where
  "Conn k newClient url tls = (case tls of
     None \<Rightarrow> dial newClient \<lparr>cn_addr = url, cn_socket = None, cn_tls = None\<rparr>
   | Some t \<Rightarrow> (case LoadCertificate k t of Inl e \<Rightarrow> Inl e
       | Inr sslCerts \<Rightarrow> dial newClient \<lparr>cn_addr = url, cn_socket = None, cn_tls = Some (tlsDial url sslCerts)\<rparr>))"

definition UnixConn :: "('c, 'p) cert_files \<Rightarrow> ('p conn \<Rightarrow> err option) \<Rightarrow> string \<Rightarrow> string \<Rightarrow> TLSConfig option \<Rightarrow> err + 'p conn" where
  "UnixConn k newClient socket addr tls = (case tls of
     None \<Rightarrow> dial newClient \<lparr>cn_addr = addr, cn_socket = Some socket, cn_tls = None\<rparr>
   | Some t \<Rightarrow> (case LoadCertificate k t of Inl e \<Rightarrow> Inl e
       | Inr sslCerts \<Rightarrow> dial newClient \<lparr>cn_addr = addr, cn_socket = Some socket, cn_tls = Some (ssl_Pool sslCerts, addr)\<rparr>))"

section \<open>Commands\<close>

record CRunopts =
  ro_VMname :: string
  ro_VMNamespace :: string
  ro_SnapShotId :: string
  ro_SnapShotDestination :: string

datatype vm_request =
    PauseVMRequest string string
  | ResumeVMRequest string string
  | RebootVMRequest string string
  | CreateVMSnapshot string string string string
  | RestoreVMSnapshot string string string string

text \<open>\<open>call\<close> is the remote call over a connection; the trace holds the requests that were sent.\<close>

record ('c, 'p, 'w) cli_env =
  ceFiles :: "('c, 'p) cert_files"
  ceNewClient :: "'p conn \<Rightarrow> err option"
  ceCall :: "'p conn \<Rightarrow> vm_request \<Rightarrow> 'w \<Rightarrow> err option \<times> 'w"

type_synonym ('w, 'p) command = "('w, unit, 'p conn \<times> vm_request, unit) action"

definition run_command :: "('c, 'p, 'w) cli_env \<Rightarrow> TLSConfig option \<Rightarrow> vm_request \<Rightarrow> ('w, 'p) command" where
  "run_command k tls req = (case tls of None \<Rightarrow> panic ''nil pointer''
     | Some t \<Rightarrow> (case Conn (ceFiles k) (ceNewClient k) (tls_ServerName t) (Some t) of Inl e \<Rightarrow> throw e
       | Inr con \<Rightarrow> bind (kwrite (ceCall k con req) (\<lambda>_. (con, req))) (\<lambda>r. case r of Some e \<Rightarrow> throw e | None \<Rightarrow> ret ())))"

definition PauseVmCommand :: "('c, 'p, 'w) cli_env \<Rightarrow> TLSConfig option \<Rightarrow> CRunopts \<Rightarrow> ('w, 'p) command" where
  "PauseVmCommand k tls opts = run_command k tls (PauseVMRequest (ro_VMname opts) (ro_VMNamespace opts))"

definition ResumeVmCommand :: "('c, 'p, 'w) cli_env \<Rightarrow> TLSConfig option \<Rightarrow> CRunopts \<Rightarrow> ('w, 'p) command" where
  "ResumeVmCommand k tls opts = run_command k tls (ResumeVMRequest (ro_VMname opts) (ro_VMNamespace opts))"

definition RebootVmCommand :: "('c, 'p, 'w) cli_env \<Rightarrow> TLSConfig option \<Rightarrow> CRunopts \<Rightarrow> ('w, 'p) command" where
  "RebootVmCommand k tls opts = run_command k tls (RebootVMRequest (ro_VMname opts) (ro_VMNamespace opts))"

definition SnapshotVmCommand :: "('c, 'p, 'w) cli_env \<Rightarrow> TLSConfig option \<Rightarrow> CRunopts \<Rightarrow> ('w, 'p) command" where
  "SnapshotVmCommand k tls opts = run_command k tls (CreateVMSnapshot (ro_VMname opts) (ro_VMNamespace opts) (ro_SnapShotId opts) (ro_SnapShotDestination opts))"

definition RestoreSnapshotVmCommand :: "('c, 'p, 'w) cli_env \<Rightarrow> TLSConfig option \<Rightarrow> CRunopts \<Rightarrow> ('w, 'p) command" where
  "RestoreSnapshotVmCommand k tls opts = run_command k tls (RestoreVMSnapshot (ro_VMname opts) (ro_VMNamespace opts) (ro_SnapShotId opts) (ro_SnapShotDestination opts))"

section \<open>Secure by configuration\<close>

text \<open>Every option of the package only adds to the options of the library.\<close>

definition appends :: "('c, 'p) ServerOption \<Rightarrow> bool" where
  "appends op \<longleftrightarrow> (\<forall>s s'. op s = Inr s' \<longrightarrow> set (gs_Options s) \<subseteq> set (gs_Options s'))"

lemma options_append:
  "appends (WithGrpcPort p)" "appends (WithTLSConfig k c)" "appends (WithContext x)"
  "appends (WithStreamInterceptor ss)" "appends (WithUnaryInterceptor us)" "appends (WithStatsHandler h)"
  by (auto simp: appends_def WithGrpcPort_def WithTLSConfig_def WithContext_def WithStreamInterceptor_def WithUnaryInterceptor_def
      WithStatsHandler_def add_option_def split: if_splits sum.splits option.splits)

lemma apply_options_append:
  assumes "list_all appends ops" and "apply_options ops s = Inr s'"
  shows "set (gs_Options s) \<subseteq> set (gs_Options s')"
  using assms
proof (induction ops arbitrary: s)
  case (Cons op ops)
  then obtain t where t: "op s = Inr t" "apply_options ops t = Inr s'" by (auto split: sum.splits)
  have "set (gs_Options s) \<subseteq> set (gs_Options t)" using Cons.prems(1) t(1) by (simp add: appends_def)
  then show ?case using Cons.IH [OF _ t(2)] Cons.prems(1) by auto
qed simp

lemma apply_options_tls:
  assumes "list_all appends ops" and "apply_options ops s = Inr s'" and "WithTLSConfig k c \<in> set ops"
  shows "\<exists>ssl. LoadCertificate k c = Inr ssl \<and> Creds (ssl_Certificate ssl) (ssl_Pool ssl) (tls_ServerName c) \<in> set (gs_Options s')"
  using assms
proof (induction ops arbitrary: s)
  case (Cons op ops)
  then obtain t where t: "op s = Inr t" "apply_options ops t = Inr s'" by (auto split: sum.splits)
  show ?case
  proof (cases "op = WithTLSConfig k c")
    case True
    then obtain ssl where l: "LoadCertificate k c = Inr ssl" and c: "Creds (ssl_Certificate ssl) (ssl_Pool ssl) (tls_ServerName c) \<in> set (gs_Options t)"
      using t(1) by (auto simp: WithTLSConfig_def add_option_def split: sum.splits)
    show ?thesis using l c apply_options_append [OF _ t(2)] Cons.prems(1) by auto
  next
    case False
    then show ?thesis using Cons.IH [OF _ t(2)] Cons.prems by auto
  qed
qed simp

text \<open>A server that was asked for TLS has it, or was not made; and it always has the interceptors that turn a panic of a request into an error.\<close>

theorem server_has_tls:
  assumes "grpc_NewServer listen ops = Inr s" and "list_all appends ops" and "WithTLSConfig k c \<in> set ops"
  shows "(\<exists>ssl. LoadCertificate k c = Inr ssl \<and> Creds (ssl_Certificate ssl) (ssl_Pool ssl) (tls_ServerName c) \<in> set (gs_Options s))
    \<and> {DefaultUnary, DefaultStream} \<subseteq> set (gs_Options s) \<and> gs_Listener s = Some (gs_GrpcPort s)"
proof -
  from assms(1) obtain t port where t: "apply_options ops new_server = Inr t" and s: "s = t\<lparr>gs_GrpcPort := port,
      gs_Options := gs_Options t @ [DefaultUnary, DefaultStream], gs_Listener := Some port\<rparr>"
    by (auto simp: grpc_NewServer_def split: sum.splits)
  then show ?thesis using apply_options_tls [OF assms(2) t assms(3)] by auto
qed

text \<open>The port option accepts numbers that are no ports.\<close>

lemma port_too_large: "WithGrpcPort 65555 s = Inr (s\<lparr>gs_GrpcPort := 65555\<rparr>)"
  by (simp add: WithGrpcPort_def)

text \<open>A command sends at most one request, and only over a connection that checks the server against the configured certificates and
  the host of the configured name; without a TLS configuration it panics.\<close>

theorem command_over_tls:
  assumes "run_command k tls req s = (r, s')"
  shows "(trace s' = trace s \<and> world s' = world s \<and> r \<noteq> Ok ())
    \<or> (\<exists>t ssl con. tls = Some t \<and> LoadCertificate (ceFiles k) t = Inr ssl \<and> trace s' = trace s @ [(con, req)]
        \<and> cn_addr con = tls_ServerName t \<and> cn_tls con = Some (ssl_Pool ssl, hd (Split CHR '':'' (tls_ServerName t)))
        \<and> (r = Ok () \<longleftrightarrow> fst (ceCall k con req (world s)) = None))"
  using assms by (auto simp: run_command_def Conn_def dial_def tlsDial_def panic_def throw_def ret_def bind_def kwrite_def
      split: option.splits sum.splits prod.splits)

lemma command_without_tls: "run_command k None req s = (Panic ''nil pointer'', s)"
  by (simp add: run_command_def panic_def)

end
