(* ===== verification/Spec2Isabelle.thy ===== *)
theory Spec2Isabelle
  imports Bounded_Stack Lru_Cache Lock_Map Vm_Rollback Vm_Lifecycle Prerun_Pod Webhooks Daemon_Server Device_Plugin Logging Metrics Client_Gen Grpc_Util
begin

text \<open>
  \<^bold>\<open>ch-vmm: VMs on Kubernetes with Cloud Hypervisor\<close>

  The program is an operator. A controller process (\<open>src/internal/controller\<close>) watches custom resources
  and turns them into pods, claims and other resources; admission webhooks (\<open>src/pkg/webhooks\<close>)
  default and check them; a daemon on every node (\<open>src/pkg/daemon\<close>) drives the hypervisors there;
  a prerunner (\<open>src/cmd/ch-vmm-prerunner\<close>) in the pod of a VM sets up its networks and writes the hypervisor's configuration;
  libraries (\<open>src/pkg/volumeutil\<close>, \<open>cloudutils\<close>, \<open>cpuset\<close>, \<open>util\<close>) serve them. Controllers and daemon meet only
  in the API server: each round reads an object, acts on what it says and writes it back, and
  both write to the same statuses. Controller and prerunner meet in the pod: its volumes, its environment and the VM it carries.

  \<^bold>\<open>How the code is modelled\<close>

  \<^item> A round is an action over a state of three parts: the world (everything outside the process), the object under
    reconciliation, and the trace of the calls made so far (\<open>Kube_Monad\<close>). An action returns a value, an
    error or a panic together with the state, so what was done before a failure stays visible. The
    API server, the hypervisor, the file system and the SDKs are records of functions over the world that the
    operations take as arguments: every theorem holds for all their answers, conflicts and failures
    included, unless a hypothesis says otherwise.
  \<^item> Structs are records, enumerations and tagged unions datatypes, \<open>int32\<close> counters \<open>32 word\<close>,
    \<open>int\<close> an integer with \<open>wrap64\<close>; a Go map that may be nil is an option of a map whose nil
    value panics on writing (\<open>Prelude\<close>). Quantities are rationals scaled to an integer as the API library keeps them.
  \<^item> Loops over slices are recursion over lists. \<open>LRU.Add\<close>'s eviction loop and the range loop of \<open>Parse\<close> may
    run for ever in principle and are \<open>partial_function (option)\<close>: that they return is proved, or, for a
    range that ends at the largest integer, that they do not. The copy loop of the GCS
    upload terminates by the length of the file. The loop that multiplies
    buckets in floating point is one more \<open>partial_function\<close>, since it ends for a normal float as minimum, and not for zero or the smallest subnormal one. The loop of Go's \<open>net.ParseIP\<close> for IPv6 runs with fuel for the
    eight groups an address can have. \<open>sort.Slice\<close> is insertion sort, which is what the library runs on slices of
    at most twelve elements; the theorems use only that the result is a sorted permutation.
  \<^item> Concurrency is a step relation whose steps are the atomic actions of the code (\<open>Lock_Map\<close>,
    \<open>Bounded_Stack\<close>); the goroutines of the rollback run one after the other in
    any order, and those after the first failure may find the context of the group cancelled.

  \<^bold>\<open>Theories\<close>

  \<^item> \<open>Prelude\<close>, \<open>Go_Strings\<close>, \<open>Go_Sort\<close>, \<open>Go_Base64\<close>, \<open>Go_Net\<close>: integers, outcomes, nil maps and
    the parts of Go's library that the code uses, with their laws; \<open>filepath.Join\<close> cleans its result as the library does, so double dots count.
  \<^item> \<open>Kube_Types\<close>, \<open>Kube_Monad\<close>: the objects, the API server and the action combinators. \<open>keeps\<close>, \<open>traces\<close> and \<open>returns\<close>
    are the frame and result rules that carry most component proofs, \<open>maintains\<close> the rule for invariants of the object.
  \<^item> \<open>Volume_Util\<close>, \<open>Zstd_Archive\<close>, \<open>Cloud_Utils\<close>: \<open>src/pkg/volumeutil\<close> and \<open>src/pkg/cloudutils\<close>. Unpacking an archive stays inside
    its directory, for names with double dots because a directory cannot be created as a file; what an upload stores.
  \<^item> \<open>Pod_Builder\<close>, \<open>Vm_Hotplug\<close>, \<open>Vm_Reconciler\<close>: \<open>src/internal/controller/virtualmachine_controller.go\<close>: the pod of a VM, the
    helper pods of its hot-plugged volumes, and the state machine of the VM. The pod is well formed, mounts exactly the claims
    of the spec and carries the VM; every round moves the VM along \<open>vm_transition\<close>; a VM is only released after
    the deletion of all its pods was accepted.
  \<^item> \<open>Vm_Webhook\<close>: \<open>src/pkg/webhooks/virtualmachine_webhook.go\<close>: defaulting is idempotent, fills only
    what is empty and keeps what the user gave; validation after defaulting is equivalent to a list of conditions on the VM.
  \<^item> \<open>Owned_Objects\<close>: the client of the smaller controllers, and the locale \<open>finalizer_controller\<close>: what the
    finalizer protocol promises, proved once and interpreted for VMSets, VMPools, disks and disk snapshots.
  \<^item> \<open>Replica_Control\<close>, \<open>Vm_Set\<close>, \<open>Vm_Pool\<close>: \<open>vmset_controller.go\<close> and \<open>vmpool_controller.go\<close>, both instances of
    the locale \<open>replica_controller\<close>: one round creates one VM, deletes the surplus, or reports.
  \<^item> \<open>Virtual_Disk\<close>: \<open>virtualdisk_controller.go\<close> and \<open>virtualdisksnapshot_controller.go\<close>.
  \<^item> \<open>Vm_Snapshot\<close>: \<open>vmsnapshot_controller.go\<close> and \<open>src/pkg/daemon/snapshot_controller.go\<close>, the two programs that move
    one VMSnapShot along its life cycle; a paused VM is asked to resume in every case; the locale \<open>call_language\<close> carries conditions on what a round emits.
  \<^item> \<open>Vm_Rollback\<close>: \<open>vmrollback_controller.go\<close>.
  \<^item> \<open>Daemon_Base\<close>, \<open>Vm_Daemon\<close>: \<open>src/pkg/daemon/vm_controller.go\<close>: the node's side of a VM. Every round moves the VM
    along \<open>daemon_transition\<close> and a migration along \<open>handover\<close>, so that a migrating VM has one owner in every
    interleaving of the daemons of all nodes; the resize request is sent exactly when it is needed, with the
    floating-point tolerance computed bit by bit; the mount record keeps what is in use.
  \<^item> \<open>Vm_Lifecycle\<close>: rounds of the controller and of the daemons in any order on one VM.
  \<^item> \<open>Cgroup\<close>: \<open>src/pkg/daemon/cgroup\<close>: which devices a VM may use. The list of rules keeps what every VM needs and
    does not allow again what is denied; how device numbers are read in the two bases the code uses.
  \<^item> \<open>Daemon_Server\<close>, \<open>Device_Plugin\<close>: \<open>server.go\<close> and \<open>deviceplugin.go\<close> of \<open>src/pkg/daemon\<close>: the gRPC service, whose snapshots
    clean up after themselves unless the process exits, and whose pause requests reach the hypervisor through the daemon, and the kubelet's device
    plugins, with the channel that is never made.
  \<^item> \<open>Prerun_Net\<close>, \<open>Prerunner\<close>: \<open>src/cmd/ch-vmm-prerunner/main.go\<close>: networks, and the configuration of the hypervisor. The addresses
    of bridge and VM lie in the network's range; the configuration is written last, and by nothing else unless the key of a memory
    snapshot leads to it.
  \<^item> \<open>Prerun_Pod\<close>: the controller and the prerunner together: the files of the configuration are files of the pod that
    the controller built, CPUs are pinned to the pod's, and a VM that boots from the configuration needs no resize.
  \<^item> \<open>Vm_Migration\<close>: \<open>migration_controller.go\<close>, whose migrations never end.
  \<^item> \<open>Webhooks\<close>: the webhooks of the other resources; the locale \<open>validator\<close> says what histories of admitted updates keep.
  \<^item> \<open>Cpu_Set\<close>, \<open>Bounded_Stack\<close>, \<open>Lru_Cache\<close>, \<open>Lock_Map\<close>: the data structures under \<open>src/pkg/cpuset\<close> and
    \<open>src/pkg/util\<close>, with refinements of abstract specifications (a bounded list; a recency list, for caches that were never purged) and the exclusion that
    the per-key locks give.
  \<^item> \<open>Logging\<close>: \<open>src/pkg/util/log\<close>: levels, the JSON line of an entry and the hook that writes to rotated files. The files
    hold, in order, the lines whose write succeeded, each whole in one file; while the file system works no line is lost.
  \<^item> \<open>Float64\<close>, \<open>Metric_Buckets\<close>, \<open>Metrics\<close>: \<open>src/pkg/util/metrics/metrics.go\<close>: rounding to double precision, subnormal floats included, the ranges of
    buckets that the package computes with it, and all labels and collectors. The loop over floats ends; no declaration
    makes the registry panic when the program starts.
  \<^item> \<open>Ch_Json\<close>, \<open>Ch_Client\<close>, \<open>Client_Gen\<close>: \<open>src/pkg/cloudhypervisor/client.go\<close> and \<open>src/cmd/cloud-hypervisor-client-gen/main.go\<close>: JSON by
    reflection over the declared types, the methods of the hypervisor's client and the program that generates them. A method sends
    one request, with the verb, path, argument and result type of the API, plain values survive their encoding, and generation does not depend on the
    order of maps when names are different.
  \<^item> \<open>Grpc_Util\<close>: \<open>src/pkg/grpcutil\<close>, \<open>src/pkg/tlsutil\<close> and \<open>src/pkg/cli\<close>: a server that was asked for TLS has it, and
    the commands talk to the daemon over TLS only.

  \<^bold>\<open>Not modelled\<close>

  The entry points, the interceptors and the start of servers, the reading of the configuration, and the generated code of the protocol buffers have no logic of their own. Of logging, the functions that only hand a message to the logging library are left out; of the metrics
  the help texts, and the package \<open>alert\<close>, which increments one of them. Error messages keep their
  constant part only. Time is left out but for requeue delays. The hypervisor's asynchronous calls of a
  migration are started in one round and polled in later ones; how long they take is the answer of the
  channel. The TCP relays of a migration and the lookup of the process behind a socket are calls into the kernel. The JSON
  of VMs, configurations and network statuses is a parameter: its encoding is the standard library's, over types of packages
  outside the repository. Of the device plugin the loop that starts it again and the stop of its server are left out.
\<close>

end
